(* ===== verification/Prelude.thy ===== *)
theory Prelude
  imports Main "HOL-Library.Multiset" "HOL-Library.Char_ord"
begin

text \<open>
  Shared vocabulary of the development: the JavaScript operators and string functions the
  dashboard (\<^verbatim>\<open>web/script.js\<close>) uses, the decimal printing that both JavaScript
  template literals and C's \<^verbatim>\<open>snprintf("%d")\<close> perform, errors as values, and generic
  lemmas about lists and digits that several components use.
\<close>

named_theorems js_simps \<open>evaluation rules of the modelled JavaScript operators\<close>
named_theorems dec_simps \<open>facts about decimal texts\<close>

section \<open>Errors and JavaScript values\<close>

text \<open>The exceptions the dashboard's code can raise.\<close>

datatype js_error = TypeError | SyntaxError | RangeError | NetworkError

text \<open>A property read that may yield \<^verbatim>\<open>undefined\<close>; every number of this program is an integer.\<close>

type_synonym js_int = "int option"

text \<open>\<open>v || d\<close> on a number or \<open>undefined\<close>.\<close>

definition js_or :: "js_int \<Rightarrow> int \<Rightarrow> int" where
  "js_or v d = (case v of None \<Rightarrow> d | Some n \<Rightarrow> if n = 0 then d else n)"

text \<open>\<open>v !== undefined ? v : d\<close>.\<close>

definition js_default :: "js_int \<Rightarrow> int \<Rightarrow> int" where
  "js_default v d = (case v of None \<Rightarrow> d | Some n \<Rightarrow> n)"

text \<open>Truthiness of a number or \<open>undefined\<close>.\<close>

definition truthy :: "js_int \<Rightarrow> bool" where
  "truthy v = (case v of None \<Rightarrow> False | Some n \<Rightarrow> n \<noteq> 0)"

lemma js_or_simps [js_simps, simp]:
  "js_or None d = d" "js_or (Some 0) d = d" "n \<noteq> 0 \<Longrightarrow> js_or (Some n) d = n"
  by (simp_all add: js_or_def)

lemma js_default_simps [js_simps, simp]:
  "js_default None d = d" "js_default (Some n) d = n"
  by (simp_all add: js_default_def)

lemma truthy_simps [js_simps, simp]:
  "truthy None \<longleftrightarrow> False" "truthy (Some n) \<longleftrightarrow> n \<noteq> 0"
  by (simp_all add: truthy_def)

text \<open>With default 0 the two ways of defaulting agree, and truthiness is being non-zero.\<close>

lemma js_or_zero_default: "js_or v 0 = js_default v 0"
  by (cases v) (auto simp: js_or_def)

lemma truthy_iff_js_or: "truthy v \<longleftrightarrow> js_or v 0 \<noteq> 0"
  by (cases v) (auto simp: js_or_def)

text \<open>\<open>xs[i]\<close> on an array: \<open>undefined\<close> out of range.\<close>

definition js_index :: "'a list \<Rightarrow> int \<Rightarrow> 'a option" where
  "js_index xs i = (if 0 \<le> i \<and> i < int (length xs) then Some (xs ! nat i) else None)"

lemma js_index_Some [js_simps]:
  "0 \<le> i \<Longrightarrow> i < int (length xs) \<Longrightarrow> js_index xs i = Some (xs ! nat i)"
  by (simp add: js_index_def)

lemma js_index_None_iff [js_simps]: "js_index xs i = None \<longleftrightarrow> i < 0 \<or> int (length xs) \<le> i"
  by (auto simp: js_index_def)

text \<open>\<open>xs.slice(a, b)\<close>; a negative bound counts from the end.\<close>

definition slice_bound :: "int \<Rightarrow> int \<Rightarrow> nat" where
  "slice_bound n i = nat (if i < 0 then max (n + i) 0 else min i n)"

definition js_slice :: "int \<Rightarrow> int \<Rightarrow> 'a list \<Rightarrow> 'a list" where
  "js_slice a b xs =
     (let s = slice_bound (int (length xs)) a; e = slice_bound (int (length xs)) b
      in take (e - s) (drop s xs))"

lemma js_slice_page:
  assumes "0 \<le> a" "0 \<le> k"
  shows "js_slice a (a + k) xs = take (nat k) (drop (nat a) xs)"
proof -
  define n where "n = int (length xs)"
  consider "n \<le> a" | "a < n" "a + k \<le> n" | "a < n" "n < a + k" by linarith
  then show ?thesis
  proof cases
    case 1
    then have "length xs \<le> nat a" by (simp add: n_def)
    then show ?thesis using 1 assms by (simp add: js_slice_def slice_bound_def n_def)
  next
    case 2
    then show ?thesis using assms by (simp add: js_slice_def slice_bound_def n_def nat_add_distrib)
  next
    case 3
    then have "length xs - nat a \<le> nat k" by (simp add: n_def)
    with 3 assms show ?thesis by (simp add: js_slice_def slice_bound_def n_def)
  qed
qed

text \<open>\<open>Math.ceil(a / b)\<close> for a positive \<open>b\<close>.\<close>

definition ceil_div :: "int \<Rightarrow> int \<Rightarrow> int" where
  "ceil_div a b = - ((- a) div b)"

lemma ceil_div_bounds:
  assumes "0 < b"
  shows "a \<le> b * ceil_div a b" "b * (ceil_div a b - 1) < a"
proof -
  define q r where "q = (- a) div b" and "r = (- a) mod b"
  have "- a = b * q + r" "0 \<le> r" "r < b" using assms by (simp_all add: q_def r_def)
  then show "a \<le> b * ceil_div a b" "b * (ceil_div a b - 1) < a"
    by (simp_all add: ceil_div_def algebra_simps flip: q_def)
qed

lemma ceil_div_0 [simp]: "ceil_div 0 b = 0"
  by (simp add: ceil_div_def)

lemma ceil_div_pos:
  assumes "0 < b" "0 < a" shows "1 \<le> ceil_div a b"
proof (rule ccontr)
  assume "\<not> 1 \<le> ceil_div a b"
  then have "b * ceil_div a b \<le> 0" using assms(1) by (simp add: mult_le_0_iff)
  with ceil_div_bounds(1) [OF assms(1), of a] assms(2) show False by linarith
qed

lemma ceil_div_eq_0_iff: "0 < b \<Longrightarrow> 0 \<le> a \<Longrightarrow> ceil_div a b = 0 \<longleftrightarrow> a = 0"
  using ceil_div_pos [of b a] by (auto simp: order_le_less)

section \<open>Strings\<close>

text \<open>
  A text of the page is a list of 8-bit characters, the code points 0 to 255; on these \<open>toLowerCase\<close> is that of
  the language: it changes A to Z and the capitals from 192 to 222, but not the multiplication sign 215.
\<close>

definition lower_char :: "char \<Rightarrow> char" where
  "lower_char c =
     (let n = (of_char c :: nat) in if (65 \<le> n \<and> n \<le> 90) \<or> (192 \<le> n \<and> n \<le> 222 \<and> n \<noteq> 215) then char_of (n + 32) else c)"

definition toLowerCase :: "string \<Rightarrow> string" where
  "toLowerCase s = map lower_char s"

fun starts_with :: "string \<Rightarrow> string \<Rightarrow> bool" where
  "starts_with s [] = True"
| "starts_with [] (_ # _) = False"
| "starts_with (x # xs) (y # ys) = (x = y \<and> starts_with xs ys)"

fun js_includes :: "string \<Rightarrow> string \<Rightarrow> bool" where
  "js_includes [] t = starts_with [] t"
| "js_includes (x # xs) t = (starts_with (x # xs) t \<or> js_includes xs t)"

fun join :: "string \<Rightarrow> string list \<Rightarrow> string" where
  "join sep [] = []"
| "join sep [x] = x"
| "join sep (x # y # zs) = x @ sep @ join sep (y # zs)"

definition padStart :: "nat \<Rightarrow> char \<Rightarrow> string \<Rightarrow> string" where
  "padStart n c s = replicate (n - length s) c @ s"

lemma starts_with_iff: "starts_with s t \<longleftrightarrow> (\<exists>r. s = t @ r)"
  by (induction s t rule: starts_with.induct) auto

lemma js_includes_iff: "js_includes s t \<longleftrightarrow> (\<exists>p r. s = p @ t @ r)"
proof (induction s)
  case Nil
  then show ?case by (simp add: starts_with_iff)
next
  case (Cons x xs)
  show ?case
    by (auto simp: Cons starts_with_iff Cons_eq_append_conv)
qed

lemma js_includes_Nil [simp]: "js_includes s []"
  by (cases s) simp_all

lemma join_Cons: "xs \<noteq> [] \<Longrightarrow> join sep (x # xs) = x @ sep @ join sep xs"
  by (cases xs) auto

lemma length_padStart: "n \<le> length (padStart n c s)"
  by (simp add: padStart_def)

section \<open>Decimal texts\<close>

definition digit_char :: "nat \<Rightarrow> char" where
  "digit_char d = char_of (48 + d)"

definition is_digit :: "char \<Rightarrow> bool" where
  "is_digit c \<longleftrightarrow> 48 \<le> (of_char c :: nat) \<and> (of_char c :: nat) \<le> 57"

definition digit_val :: "char \<Rightarrow> nat" where
  "digit_val c = of_char c - 48"

fun nat_dec :: "nat \<Rightarrow> string" where
  "nat_dec n = (if n < 10 then [digit_char n] else nat_dec (n div 10) @ [digit_char (n mod 10)])"

declare nat_dec.simps [simp del]

text \<open>\<open>${n}\<close> in a template literal, \<open>%d\<close> and \<open>%lld\<close> in C.\<close>

definition int_dec :: "int \<Rightarrow> string" where
  "int_dec i = (if i < 0 then CHR ''-'' # nat_dec (nat (- i)) else nat_dec (nat i))"

definition dec_val :: "string \<Rightarrow> nat" where
  "dec_val s = foldl (\<lambda>a c. 10 * a + digit_val c) 0 s"

lemma of_char_digit [dec_simps]: "d < 10 \<Longrightarrow> (of_char (digit_char d) :: nat) = 48 + d"
  by (simp add: digit_char_def)

lemma is_digit_digit [dec_simps]: "d < 10 \<Longrightarrow> is_digit (digit_char d)"
  by (simp add: is_digit_def of_char_digit)

lemma digit_val_digit [dec_simps]: "d < 10 \<Longrightarrow> digit_val (digit_char d) = d"
  by (simp add: digit_val_def of_char_digit)

lemma nat_dec_digits [dec_simps]: "list_all is_digit (nat_dec n)"
proof (induction n rule: nat_dec.induct)
  case (1 n)
  then show ?case by (subst nat_dec.simps) (auto simp: is_digit_digit)
qed

lemma nat_dec_nonempty [dec_simps, simp]: "nat_dec n \<noteq> []"
  by (subst nat_dec.simps) simp

lemma int_dec_nonempty [dec_simps, simp]: "int_dec i \<noteq> []"
  by (simp add: int_dec_def)

lemma dec_val_nat_dec [dec_simps]: "dec_val (nat_dec n) = n"
proof (induction n rule: nat_dec.induct)
  case (1 n)
  show ?case
  proof (cases "n < 10")
    case True
    then show ?thesis by (subst nat_dec.simps) (simp add: dec_val_def digit_val_digit)
  next
    case False
    with 1 have "dec_val (nat_dec (n div 10)) = n div 10" by simp
    with False show ?thesis by (subst nat_dec.simps) (simp add: dec_val_def digit_val_digit)
  qed
qed

lemma length_nat_dec_le: "n < 10 ^ k \<Longrightarrow> 0 < k \<Longrightarrow> length (nat_dec n) \<le> k"
proof (induction n arbitrary: k rule: nat_dec.induct)
  case (1 n)
  show ?case
  proof (cases "n < 10")
    case True
    with 1 show ?thesis by (subst nat_dec.simps) simp
  next
    case False
    with 1(2,3) obtain j where j: "k = Suc j" "0 < j"
      by (cases k) (auto, metis gr0I less_Suc0 nat_neq_iff power_0 One_nat_def mult.right_neutral)
    from 1(2) j have "n div 10 < 10 ^ j" by (simp add: less_mult_imp_div_less mult.commute)
    with 1(1) False j have "length (nat_dec (n div 10)) \<le> j" by simp
    with False j show ?thesis by (subst nat_dec.simps) simp
  qed
qed

lemma length_nat_dec_ge: "10 ^ k \<le> n \<Longrightarrow> k < length (nat_dec n)"
proof (induction n arbitrary: k rule: nat_dec.induct)
  case (1 n)
  show ?case
  proof (cases k)
    case 0
    then show ?thesis by simp
  next
    case (Suc j)
    with 1(2) have ge: "10 * 10 ^ j \<le> n" by simp
    then have "10 ^ j \<le> n div 10" by (simp add: less_eq_div_iff_mult_less_eq mult.commute)
    moreover from ge have "\<not> n < 10"
      by (metis dual_order.strict_trans1 le_numeral_extra(4) linorder_not_le mult.right_neutral
          mult_le_mono2 one_le_numeral one_le_power)
    ultimately have "j < length (nat_dec (n div 10))" using 1(1) by simp
    with \<open>\<not> n < 10\<close> Suc show ?thesis by (subst nat_dec.simps) simp
  qed
qed

lemma int_dec_inject [simp]: "int_dec i = int_dec j \<longleftrightarrow> i = j"
proof
  assume eq: "int_dec i = int_dec j"
  have minus: "nat_dec n \<noteq> CHR ''-'' # s" for n s
    using nat_dec_digits [of n] by (auto simp: is_digit_def)
  from eq have "(i < 0) = (j < 0)"
    using minus by (auto simp: int_dec_def split: if_splits) metis+
  with eq have "nat_dec (nat \<bar>i\<bar>) = nat_dec (nat \<bar>j\<bar>)"
    by (auto simp: int_dec_def split: if_splits)
  then have "nat \<bar>i\<bar> = nat \<bar>j\<bar>" by (metis dec_val_nat_dec)
  with \<open>(i < 0) = (j < 0)\<close> show "i = j" by auto
qed simp

text \<open>
  \<open>parseInt(s)\<close> in base 10: blanks, a sign, then the longest run of digits; \<open>NaN\<close> (\<open>None\<close>) when
  there is no digit. (The \<open>0x\<close> prefix is left out: no caller passes one.)
\<close>

fun skip_ws :: "string \<Rightarrow> string" where
  "skip_ws [] = []"
| "skip_ws (c # cs) =
     (if c = CHR '' '' \<or> c = CHR 0x09 \<or> c = CHR 0x0A \<or> c = CHR 0x0D then skip_ws cs else c # cs)"

definition digit_run :: "string \<Rightarrow> nat option" where
  "digit_run s = (case takeWhile is_digit s of [] \<Rightarrow> None | ds \<Rightarrow> Some (dec_val ds))"

text \<open>The white space \<^verbatim>\<open>parseInt\<close> and \<^verbatim>\<open>strtol\<close> skip, which has two more characters than JSON's.\<close>

fun skip_space :: "string \<Rightarrow> string" where
  "skip_space [] = []"
| "skip_space (c # cs) =
     (if c = CHR '' '' \<or> c = CHR 0x09 \<or> c = CHR 0x0A \<or> c = CHR 0x0B \<or> c = CHR 0x0C \<or> c = CHR 0x0D
      then skip_space cs else c # cs)"

definition parse_int :: "string \<Rightarrow> int option" where
  "parse_int s =
     (case skip_space s of
        [] \<Rightarrow> None
      | c # cs \<Rightarrow>
          if c = CHR ''-'' then map_option (\<lambda>n. - int n) (digit_run cs)
          else if c = CHR ''+'' then map_option int (digit_run cs)
          else map_option int (digit_run (c # cs)))"

lemma digit_run_nat_dec: "digit_run (nat_dec n) = Some n"
proof -
  have "takeWhile is_digit (nat_dec n) = nat_dec n"
    using nat_dec_digits [of n] by (auto simp: list_all_iff)
  then show ?thesis
    by (simp only: digit_run_def) (metis dec_val_nat_dec list.exhaust list.simps(5) nat_dec_nonempty)
qed

lemma not_digit_underscore: "\<not> is_digit CHR ''_''"
  by (simp add: is_digit_def)

lemma is_digit_not_ws:
  "is_digit c \<Longrightarrow> c \<noteq> CHR '' '' \<and> c \<noteq> CHR 0x09 \<and> c \<noteq> CHR 0x0A \<and> c \<noteq> CHR 0x0B \<and> c \<noteq> CHR 0x0C \<and> c \<noteq> CHR 0x0D \<and> c \<noteq> CHR ''-'' \<and> c \<noteq> CHR ''+''"
  by (auto simp: is_digit_def)

lemma parse_int_int_dec [simp]: "parse_int (int_dec i) = Some i"
proof (cases "i < 0")
  case True
  then show ?thesis by (simp add: parse_int_def int_dec_def digit_run_nat_dec)
next
  case False
  obtain c cs where c: "nat_dec (nat i) = c # cs" by (meson nat_dec_nonempty neq_Nil_conv)
  with nat_dec_digits [of "nat i"] have "is_digit c" by simp
  with False c digit_run_nat_dec [of "nat i"] show ?thesis
    by (auto simp: parse_int_def int_dec_def dest: is_digit_not_ws)
qed

section \<open>Lists\<close>

text \<open>\<open>xs.filter(p)\<close> with a callback that may throw; the first exception ends the call.\<close>

fun js_filter :: "('a \<Rightarrow> 'e + bool) \<Rightarrow> 'a list \<Rightarrow> 'e + 'a list" where
  "js_filter p [] = Inr []"
| "js_filter p (x # xs) =
     (case p x of Inl e \<Rightarrow> Inl e
      | Inr b \<Rightarrow> (case js_filter p xs of Inl e \<Rightarrow> Inl e | Inr ys \<Rightarrow> Inr (if b then x # ys else ys)))"

lemma js_filter_pure: "(\<And>x. x \<in> set xs \<Longrightarrow> p x = Inr (q x)) \<Longrightarrow> js_filter p xs = Inr (filter q xs)"
  by (induction xs) simp_all

lemma js_filter_Inr:
  "js_filter p xs = Inr ys \<Longrightarrow> ys = filter (\<lambda>x. p x = Inr True) xs \<and> (\<forall>x \<in> set xs. \<exists>b. p x = Inr b)"
  by (induction xs arbitrary: ys) (auto split: sum.splits if_splits)

lemma js_filter_Inl: "js_filter p xs = Inl e \<Longrightarrow> \<exists>x \<in> set xs. p x = Inl e"
  by (induction xs) (auto split: sum.splits)

lemma mset_filter_eq_imp_set: "mset ys = mset (filter P xs) \<Longrightarrow> set ys = {x \<in> set xs. P x}"
  by (metis set_filter set_mset_mset)

lemma sorted_wrt_map_rel: "sorted_wrt R (map f xs) = sorted_wrt (\<lambda>a b. R (f a) (f b)) xs"
  by (simp add: sorted_wrt_map)

lemma take_drop_concat:
  "length xs \<le> n * k \<Longrightarrow> concat (map (\<lambda>i. take k (drop (i * k) xs)) [0..<n]) = xs"
proof (induction n arbitrary: xs)
  case 0
  then show ?case by simp
next
  case (Suc n)
  have "[0..<Suc n] = 0 # map Suc [0..<n]"
    using map_Suc_upt upt_conv_Cons by simp
  moreover have "concat (map (\<lambda>i. take k (drop (i * k) (drop k xs))) [0..<n]) = drop k xs"
    using Suc.IH [of "drop k xs"] Suc.prems by (simp del: drop_drop)
  ultimately show ?case by (simp add: o_def add.commute)
qed

end
