(* ===== verification/CTypes.thy ===== *)
theory CTypes
  imports Prelude "HOL-Library.Word"
begin

text \<open>
  The C types and library functions the server uses: \<^verbatim>\<open>int\<close> (32 bits) and \<^verbatim>\<open>time_t\<close>/\<^verbatim>\<open>long long\<close>
  (64 bits), both two's complement and printed in decimal; \<^verbatim>\<open>atoi\<close> and \<^verbatim>\<open>atoll\<close>; fixed character
  arrays with \<^verbatim>\<open>strncpy\<close>; and the truncation of \<^verbatim>\<open>snprintf\<close>.
\<close>

type_synonym c_int = "32 word"
type_synonym c_long = "64 word"

definition c_dec :: "'a::len word \<Rightarrow> string" where
  "c_dec w = int_dec (sint w)"

lemma c_int_range: "- 2147483648 \<le> sint (w :: c_int)" "sint (w :: c_int) \<le> 2147483647"
  using sint_ge [of w] sint_lt [of w] by simp_all

lemma c_long_range: "- 9223372036854775808 \<le> sint (w :: c_long)" "sint (w :: c_long) \<le> 9223372036854775807"
  using sint_ge [of w] sint_lt [of w] by simp_all

lemma sint_of_int_32 [simp]:
  "- 2147483648 \<le> n \<Longrightarrow> n \<le> 2147483647 \<Longrightarrow> sint (word_of_int n :: c_int) = n"
  by (simp add: sint_sbintrunc' signed_take_bit_int_eq_self)

lemma sint_of_int_64 [simp]:
  "- 9223372036854775808 \<le> n \<Longrightarrow> n \<le> 9223372036854775807 \<Longrightarrow> sint (word_of_int n :: c_long) = n"
  by (simp add: sint_sbintrunc' signed_take_bit_int_eq_self)

lemma int_dec_length: "\<bar>i\<bar> < 10 ^ k \<Longrightarrow> 0 < k \<Longrightarrow> length (int_dec i) \<le> Suc k"
proof -
  assume "\<bar>i\<bar> < 10 ^ k" "0 < k"
  then have "nat \<bar>i\<bar> < 10 ^ k" by (simp add: nat_less_iff)
  then show ?thesis
    using length_nat_dec_le [of "nat \<bar>i\<bar>" k] \<open>0 < k\<close> by (auto simp: int_dec_def)
qed

lemma c_dec_length_32: "length (c_dec (w :: c_int)) \<le> 11"
  using int_dec_length [of "sint w" 10] c_int_range [of w] by (simp add: c_dec_def abs_less_iff)

lemma c_dec_length_64: "length (c_dec (w :: c_long)) \<le> 20"
  using int_dec_length [of "sint w" 19] c_long_range [of w] by (simp add: c_dec_def abs_less_iff)

text \<open>\<^verbatim>\<open>atoi\<close> and \<^verbatim>\<open>atoll\<close>: \<^verbatim>\<open>strtol\<close>'s clamped 64-bit value, cut to 32 bits for \<^verbatim>\<open>int\<close>; 0 without digits.\<close>

definition clamp64 :: "int \<Rightarrow> int" where
  "clamp64 n = max (- 9223372036854775808) (min 9223372036854775807 n)"

definition c_atoll :: "string \<Rightarrow> c_long" where
  "c_atoll s = (case parse_int s of None \<Rightarrow> 0 | Some n \<Rightarrow> word_of_int (clamp64 n))"

definition c_atoi :: "string \<Rightarrow> c_int" where
  "c_atoi s = (case parse_int s of None \<Rightarrow> 0 | Some n \<Rightarrow> word_of_int (clamp64 n))"

text \<open>The text of a character array: up to its first NUL.\<close>

definition nul :: char where "nul = CHR 0x00"

definition c_string :: "string \<Rightarrow> string" where
  "c_string buf = takeWhile (\<lambda>c. c \<noteq> nul) buf"

text \<open>\<^verbatim>\<open>strncpy(buf, s, n)\<close>: \<open>n\<close> bytes are written, padded with NUL; the rest of the array stays.\<close>

definition strncpy :: "string \<Rightarrow> string \<Rightarrow> nat \<Rightarrow> string" where
  "strncpy buf s n = take n (s @ replicate n nul) @ drop n buf"

text \<open>\<^verbatim>\<open>snprintf(buf, size, ...)\<close>: the text that ends up in the buffer.\<close>

definition snprintf_text :: "nat \<Rightarrow> string \<Rightarrow> string" where
  "snprintf_text n s = take (n - 1) s"

lemma snprintf_fits: "length s < n \<Longrightarrow> snprintf_text n s = s"
  by (simp add: snprintf_text_def)

lemma c_string_no_nul: "nul \<notin> set (c_string buf)"
  by (auto simp: c_string_def dest: set_takeWhileD)

lemma c_string_id: "nul \<notin> set s \<Longrightarrow> c_string s = s"
  by (auto simp: c_string_def)

lemma c_string_le: "length (c_string buf) \<le> length buf"
  by (simp add: c_string_def length_takeWhile_le)

lemma strncpy_length: "n \<le> length buf \<Longrightarrow> length (strncpy buf s n) = length buf"
  by (simp add: strncpy_def)

lemma strncpy_last:
  "length buf = Suc n \<Longrightarrow> last buf = nul \<Longrightarrow> last (strncpy buf s n) = nul"
  by (cases buf rule: rev_cases) (auto simp: strncpy_def)

lemma strncpy_c_string:
  assumes "length buf = Suc n" "last buf = nul" "nul \<notin> set s"
  shows "c_string (strncpy buf s n) = take n s"
proof -
  obtain xs where "buf = xs @ [nul]" using assms(1,2) by (cases buf rule: rev_cases) auto
  then have buf: "drop n buf = [nul]" using assms(1) by simp
  have pre: "takeWhile (\<lambda>c. c \<noteq> nul) (take n s) = take n s"
    using assms(3) by (auto dest: in_set_takeD)
  have pad: "takeWhile (\<lambda>c. c \<noteq> nul) (replicate k nul @ [nul]) = []" for k by (cases k) auto
  have "strncpy buf s n = take n s @ (replicate (n - length s) nul @ [nul])"
    by (simp add: strncpy_def buf)
  moreover have "\<forall>c \<in> set (take n s). c \<noteq> nul" using assms(3) by (auto dest: in_set_takeD)
  ultimately show ?thesis using pad by (simp add: c_string_def takeWhile_append2)
qed

end
