(* ===== verification/Json.thy ===== *)
theory Json
  imports Prelude
begin

text \<open>
  JSON texts: what the server's \<^verbatim>\<open>snprintf\<close> formats write and what \<^verbatim>\<open>JSON.parse\<close> (behind
  \<^verbatim>\<open>res.json()\<close>) reads. The server writes strings as they are, without escapes, so a text is
  sure to be read back only when its strings are plain. The reader knows integers only; a fraction
  or an exponent, and a \<open>\u\<close> escape, end in \<open>None\<close> like a syntax error (the server writes none).
\<close>

datatype json =
    JNull
  | JBool bool
  | JNum int
  | JStr string
  | JArr "json list"
  | JObj "(string \<times> json) list"

section \<open>Writing\<close>

definition quoted :: "string \<Rightarrow> string" where
  "quoted s = CHR 0x22 # s @ [CHR 0x22]"

fun json_text :: "json \<Rightarrow> string" and json_elems :: "json list \<Rightarrow> string"
  and json_members :: "(string \<times> json) list \<Rightarrow> string" where
  "json_text JNull = ''null''"
| "json_text (JBool b) = (if b then ''true'' else ''false'')"
| "json_text (JNum n) = int_dec n"
| "json_text (JStr s) = quoted s"
| "json_text (JArr xs) = ''['' @ json_elems xs @ '']''"
| "json_text (JObj kvs) = ''{'' @ json_members kvs @ ''}''"
| "json_elems [] = []"
| "json_elems (x # xs) = (if xs = [] then json_text x else json_text x @ '','' @ json_elems xs)"
| "json_members [] = []"
| "json_members ((k, v) # kvs) =
     (if kvs = [] then quoted k @ '':'' @ json_text v
      else quoted k @ '':'' @ json_text v @ '','' @ json_members kvs)"

section \<open>Reading\<close>

definition unescape :: "char \<Rightarrow> char option" where
  "unescape e =
     (if e = CHR 0x22 \<or> e = CHR 0x5C \<or> e = CHR ''/'' then Some e
      else if e = CHR ''b'' then Some (CHR 0x08) else if e = CHR ''f'' then Some (CHR 0x0C)
      else if e = CHR ''n'' then Some (CHR 0x0A) else if e = CHR ''r'' then Some (CHR 0x0D)
      else if e = CHR ''t'' then Some (CHR 0x09) else None)"

fun parse_string :: "string \<Rightarrow> (string \<times> string) option" where
  "parse_string [] = None"
| "parse_string (c # cs) =
     (if c = CHR 0x22 then Some ([], cs)
      else if c = CHR 0x5C then
        (if cs = [] then None
         else case unescape (hd cs) of None \<Rightarrow> None
              | Some e \<Rightarrow> map_option (\<lambda>(t, r). (e # t, r)) (parse_string (tl cs)))
      else if (of_char c :: nat) < 32 then None
      else map_option (\<lambda>(t, r). (c # t, r)) (parse_string cs))"

definition parse_number :: "string \<Rightarrow> (json \<times> string) option" where
  "parse_number s =
     (let neg = (s \<noteq> [] \<and> hd s = CHR ''-''); t = (if neg then tl s else s);
          ds = takeWhile is_digit t; r = dropWhile is_digit t
      in if ds = [] \<or> (hd ds = CHR ''0'' \<and> length ds > 1)
            \<or> (r \<noteq> [] \<and> (hd r = CHR ''.'' \<or> hd r = CHR ''e'' \<or> hd r = CHR ''E''))
         then None
         else Some (JNum (if neg then - int (dec_val ds) else int (dec_val ds)), r))"

fun parse_value :: "nat \<Rightarrow> string \<Rightarrow> (json \<times> string) option"
  and parse_elems :: "nat \<Rightarrow> string \<Rightarrow> (json list \<times> string) option"
  and parse_members :: "nat \<Rightarrow> string \<Rightarrow> ((string \<times> json) list \<times> string) option" where
  "parse_value 0 s = None"
| "parse_value (Suc n) s =
     (case skip_ws s of [] \<Rightarrow> None
      | c # cs \<Rightarrow>
         if c = CHR ''{'' then
           (if skip_ws cs \<noteq> [] \<and> hd (skip_ws cs) = CHR ''}'' then Some (JObj [], tl (skip_ws cs))
            else map_option (\<lambda>(m, r). (JObj m, r)) (parse_members n cs))
         else if c = CHR ''['' then
           (if skip_ws cs \<noteq> [] \<and> hd (skip_ws cs) = CHR '']'' then Some (JArr [], tl (skip_ws cs))
            else map_option (\<lambda>(xs, r). (JArr xs, r)) (parse_elems n cs))
         else if c = CHR 0x22 then map_option (\<lambda>(t, r). (JStr t, r)) (parse_string cs)
         else if c = CHR ''-'' \<or> is_digit c then parse_number (c # cs)
         else if starts_with (c # cs) ''null'' then Some (JNull, drop 4 (c # cs))
         else if starts_with (c # cs) ''true'' then Some (JBool True, drop 4 (c # cs))
         else if starts_with (c # cs) ''false'' then Some (JBool False, drop 5 (c # cs))
         else None)"
| "parse_elems 0 s = None"
| "parse_elems (Suc n) s =
     (case parse_value n s of None \<Rightarrow> None
      | Some (x, r) \<Rightarrow>
         (case skip_ws r of [] \<Rightarrow> None
          | c # cs \<Rightarrow>
             if c = CHR '']'' then Some ([x], cs)
             else if c = CHR '','' then map_option (\<lambda>(xs, r'). (x # xs, r')) (parse_elems n cs)
             else None))"
| "parse_members 0 s = None"
| "parse_members (Suc n) s =
     (case skip_ws s of [] \<Rightarrow> None
      | q # ks \<Rightarrow>
         if q \<noteq> CHR 0x22 then None
         else (case parse_string ks of None \<Rightarrow> None
          | Some (k, r) \<Rightarrow>
             (case skip_ws r of [] \<Rightarrow> None
              | d # vs \<Rightarrow>
                 if d \<noteq> CHR '':'' then None
                 else (case parse_value n vs of None \<Rightarrow> None
                  | Some (v, r2) \<Rightarrow>
                     (case skip_ws r2 of [] \<Rightarrow> None
                      | c # cs \<Rightarrow>
                         if c = CHR ''}'' then Some ([(k, v)], cs)
                         else if c = CHR '','' then map_option (\<lambda>(m, r'). ((k, v) # m, r')) (parse_members n cs)
                         else None)))))"

text \<open>A value costs at least one character, so the length of the text is fuel enough.\<close>

definition json_parse :: "string \<Rightarrow> json option" where
  "json_parse s =
     (case parse_value (Suc (length s)) s of None \<Rightarrow> None
      | Some (j, r) \<Rightarrow> if skip_ws r = [] then Some j else None)"

section \<open>Properties of a value\<close>

text \<open>Of a repeated name the last member counts.\<close>

definition json_field :: "string \<Rightarrow> json \<Rightarrow> json option" where
  "json_field k j = (case j of JObj kvs \<Rightarrow> map_of (rev kvs) k | _ \<Rightarrow> None)"

definition int_field :: "string \<Rightarrow> json \<Rightarrow> js_int" where
  "int_field k j = (case json_field k j of Some (JNum n) \<Rightarrow> Some n | _ \<Rightarrow> None)"

definition string_field :: "string \<Rightarrow> json \<Rightarrow> string option" where
  "string_field k j = (case json_field k j of Some (JStr s) \<Rightarrow> Some s | _ \<Rightarrow> None)"

section \<open>Reading back what was written\<close>

definition plain :: "string \<Rightarrow> bool" where
  "plain s \<longleftrightarrow> list_all (\<lambda>c. c \<noteq> CHR 0x22 \<and> c \<noteq> CHR 0x5C \<and> 32 \<le> (of_char c :: nat)) s"

fun plain_json :: "json \<Rightarrow> bool" and plain_elems :: "json list \<Rightarrow> bool"
  and plain_members :: "(string \<times> json) list \<Rightarrow> bool" where
  "plain_json (JStr s) = plain s"
| "plain_json (JArr xs) = plain_elems xs"
| "plain_json (JObj kvs) = plain_members kvs"
| "plain_json _ = True"
| "plain_elems [] = True"
| "plain_elems (x # xs) = (plain_json x \<and> plain_elems xs)"
| "plain_members [] = True"
| "plain_members ((k, v) # kvs) = (plain k \<and> plain_json v \<and> plain_members kvs)"

text \<open>What may follow a value: not a character that would continue a number.\<close>

definition value_end :: "string \<Rightarrow> bool" where
  "value_end r \<longleftrightarrow>
     r = [] \<or> \<not> is_digit (hd r) \<and> hd r \<noteq> CHR ''.'' \<and> hd r \<noteq> CHR ''e'' \<and> hd r \<noteq> CHR ''E''"

lemma value_end_punct [simp]:
  "value_end []" "value_end (CHR '','' # r)" "value_end (CHR '']'' # r)" "value_end (CHR ''}'' # r)"
  by (simp_all add: value_end_def is_digit_def)

lemma parse_string_plain: "plain s \<Longrightarrow> parse_string (s @ CHR 0x22 # r) = Some (s, r)"
  by (induction s) (auto simp: plain_def)

lemma parse_string_quoted: "plain s \<Longrightarrow> parse_string (tl (quoted s) @ r) = Some (s, r)"
  by (simp add: quoted_def parse_string_plain)

lemma nat_dec_hd: "n \<noteq> 0 \<Longrightarrow> hd (nat_dec n) \<noteq> CHR ''0''"
proof (induction n rule: nat_dec.induct)
  case (1 n)
  have z: "d < 10 \<Longrightarrow> digit_char d = CHR ''0'' \<Longrightarrow> d = 0" for d
    using of_char_digit [of d] by simp
  show ?case
  proof (cases "n < 10")
    case True
    with 1(2) z show ?thesis by (subst nat_dec.simps) auto
  next
    case False
    with 1 show ?thesis by (subst nat_dec.simps) (simp add: div_eq_0_iff)
  qed
qed

lemma nat_dec_run:
  assumes "value_end r"
  shows "takeWhile is_digit (nat_dec n @ r) = nat_dec n" "dropWhile is_digit (nat_dec n @ r) = r"
proof -
  have d: "\<And>x. x \<in> set (nat_dec n) \<Longrightarrow> is_digit x" using nat_dec_digits [of n] by (auto simp: list_all_iff)
  have "takeWhile is_digit r = []" "dropWhile is_digit r = r"
    using assms by (cases r; simp add: value_end_def)+
  then show "takeWhile is_digit (nat_dec n @ r) = nat_dec n" "dropWhile is_digit (nat_dec n @ r) = r"
    using d by (simp_all add: takeWhile_append2 dropWhile_append2)
qed

lemma nat_dec_no_leading_zero: "hd (nat_dec n) = CHR ''0'' \<Longrightarrow> length (nat_dec n) = 1"
  using nat_dec_hd [of n] by (cases "n = 0") (simp_all add: nat_dec.simps)

lemma parse_number_int_dec:
  assumes "value_end r"
  shows "parse_number (int_dec i @ r) = Some (JNum i, r)"
proof -
  obtain c cs where c: "nat_dec (nat i) = c # cs" by (meson nat_dec_nonempty neq_Nil_conv)
  with nat_dec_digits [of "nat i"] have "is_digit c" by simp
  then have "c \<noteq> CHR ''-''" using is_digit_not_ws by blast
  have tail: "\<not> (r \<noteq> [] \<and> (hd r = CHR ''.'' \<or> hd r = CHR ''e'' \<or> hd r = CHR ''E''))"
    using assms by (auto simp: value_end_def)
  have zero: "\<not> (hd (nat_dec n) = CHR ''0'' \<and> length (nat_dec n) > 1)" for n
    using nat_dec_no_leading_zero [of n] by auto
  show ?thesis
  proof (cases "i < 0")
    case True
    then show ?thesis
      using nat_dec_run [OF assms, of "nat (- i)"] zero [of "nat (- i)"] tail
      by (simp add: parse_number_def int_dec_def Let_def dec_val_nat_dec del: dropWhile_eq_Nil_conv)
  next
    case False
    have "hd (nat_dec (nat i) @ r) \<noteq> CHR ''-''" using c \<open>c \<noteq> CHR ''-''\<close> by simp
    with False show ?thesis
      using nat_dec_run [OF assms, of "nat i"] zero [of "nat i"] tail
      by (simp add: parse_number_def int_dec_def Let_def dec_val_nat_dec del: dropWhile_eq_Nil_conv)
  qed
qed

lemma skip_ws_id: "c \<notin> {CHR '' '', CHR 0x09, CHR 0x0A, CHR 0x0D} \<Longrightarrow> skip_ws (c # cs) = c # cs"
  by simp

text \<open>The first character of a written value.\<close>

lemma int_dec_first: "\<exists>c cs. int_dec i = c # cs \<and> (c = CHR ''-'' \<or> is_digit c)"
proof (cases "i < 0")
  case False
  obtain c cs where c: "nat_dec (nat i) = c # cs" by (meson nat_dec_nonempty neq_Nil_conv)
  with nat_dec_digits [of "nat i"] False show ?thesis by (auto simp: int_dec_def)
qed (auto simp: int_dec_def)

definition value_first :: "char \<Rightarrow> bool" where
  "value_first c \<longleftrightarrow> c \<in> {CHR ''{'', CHR ''['', CHR 0x22, CHR ''-'', CHR ''n'', CHR ''t'', CHR ''f''} \<or> is_digit c"

lemma json_text_first: "\<exists>c cs. json_text j = c # cs \<and> value_first c"
proof (cases j)
  case (JNum i)
  with int_dec_first [of i] show ?thesis by (auto simp: value_first_def)
next
  case (JBool b)
  then show ?thesis by (cases b) (auto simp: value_first_def)
qed (auto simp: value_first_def quoted_def)

lemma value_first_not_ws: "value_first c \<Longrightarrow> skip_ws (c # cs) = c # cs"
  by (auto simp: value_first_def dest: is_digit_not_ws)

lemma skip_ws_json_text [simp]: "skip_ws (json_text j @ r) = json_text j @ r"
  using json_text_first [of j] value_first_not_ws by (metis append_Cons)

lemma value_first_close: "value_first c \<Longrightarrow> c \<noteq> CHR '']'' \<and> c \<noteq> CHR ''}''"
  by (auto simp: value_first_def is_digit_def)

lemma json_elems_first: "xs \<noteq> [] \<Longrightarrow> \<exists>c cs. json_elems xs = c # cs \<and> value_first c"
proof (cases xs)
  case (Cons x ys)
  obtain c cs where "json_text x = c # cs" "value_first c" using json_text_first by blast
  with Cons show ?thesis by auto
qed simp

lemma json_members_first: "kvs \<noteq> [] \<Longrightarrow> \<exists>cs. json_members kvs = CHR 0x22 # cs"
  by (cases kvs) (auto simp: quoted_def)

lemma json_text_length: "1 \<le> length (json_text j)"
  using json_text_first [of j] by auto

lemma parse_number_first:
  "int_dec i @ r = c # cs \<Longrightarrow> c \<noteq> CHR ''{'' \<and> c \<noteq> CHR ''['' \<and> c \<noteq> CHR 0x22 \<and> (c = CHR ''-'' \<or> is_digit c)"
  using int_dec_first [of i] by (auto simp: is_digit_def)

lemma parse_back:
  "plain_json j \<Longrightarrow> length (json_text j) \<le> n \<Longrightarrow> value_end r \<Longrightarrow>
     parse_value n (json_text j @ r) = Some (j, r)"
  "plain_elems xs \<Longrightarrow> xs \<noteq> [] \<Longrightarrow> length (json_elems xs) < n \<Longrightarrow>
     parse_elems n (json_elems xs @ CHR '']'' # r) = Some (xs, r)"
  "plain_members kvs \<Longrightarrow> kvs \<noteq> [] \<Longrightarrow> length (json_members kvs) < n \<Longrightarrow>
     parse_members n (json_members kvs @ CHR ''}'' # r) = Some (kvs, r)"
proof (induction j and xs and kvs arbitrary: n r and n r and n r rule: json_text_json_elems_json_members.induct)
  case 1
  then show ?case by (cases n) (auto simp: is_digit_def)
next
  case (2 b)
  then show ?case by (cases n; cases b) (auto simp: is_digit_def)
next
  case (3 i)
  obtain m where n: "n = Suc m" using 3 by (cases n) auto
  obtain c cs where c: "int_dec i @ r = c # cs" using int_dec_first [of i] by auto
  have "skip_ws (c # cs) = c # cs"
    using skip_ws_json_text [of "JNum i" r] c by simp
  then show ?case
    using parse_number_int_dec [OF 3(3), of i] parse_number_first [OF c] by (simp add: n c)
next
  case (4 s)
  then show ?case by (cases n) (auto simp: quoted_def parse_string_plain)
next
  case (5 xs)
  obtain m where n: "n = Suc m" using 5 by (cases n) auto
  show ?case
  proof (cases "xs = []")
    case True
    then show ?thesis by (simp add: n)
  next
    case False
    obtain c cs where c: "json_elems xs = c # cs" "value_first c" using json_elems_first [OF False] by blast
    have "parse_elems m (json_elems xs @ CHR '']'' # r) = Some (xs, r)"
      using 5 False n by simp
    then show ?thesis
      using value_first_not_ws [OF c(2), of "cs @ CHR '']'' # r"] value_first_close [OF c(2)] by (simp add: n c(1))
  qed
next
  case (6 kvs)
  obtain m where n: "n = Suc m" using 6 by (cases n) auto
  show ?case
  proof (cases "kvs = []")
    case True
    then show ?thesis by (simp add: n)
  next
    case False
    obtain cs where c: "json_members kvs = CHR 0x22 # cs" using json_members_first [OF False] by blast
    have "parse_members m (json_members kvs @ CHR ''}'' # r) = Some (kvs, r)"
      using 6 False n by simp
    then show ?thesis by (simp add: n c)
  qed
next
  case 7
  then show ?case by simp
next
  case (8 x xs)
  obtain m where n: "n = Suc m" using 8 by (cases n) auto
  show ?case
  proof (cases "xs = []")
    case True
    then have "parse_value m (json_text x @ CHR '']'' # r) = Some (x, CHR '']'' # r)"
      using 8 n by simp
    with True show ?thesis by (simp add: n)
  next
    case False
    then have "parse_value m (json_text x @ CHR '','' # json_elems xs @ CHR '']'' # r) =
        Some (x, CHR '','' # json_elems xs @ CHR '']'' # r)"
      using 8 n by simp
    moreover have "parse_elems m (json_elems xs @ CHR '']'' # r) = Some (xs, r)"
      using 8 n False by simp
    ultimately show ?thesis using False by (simp add: n)
  qed
next
  case 9
  then show ?case by simp
next
  case (10 k v kvs)
  obtain m where n: "n = Suc m" using 10 by (cases n) auto
  have k: "parse_string (k @ CHR 0x22 # w) = Some (k, w)" for w
    using 10 by (simp add: parse_string_plain)
  show ?case
  proof (cases "kvs = []")
    case True
    then have "parse_value m (json_text v @ CHR ''}'' # r) = Some (v, CHR ''}'' # r)"
      using 10 n by simp
    with True k show ?thesis by (simp add: n quoted_def)
  next
    case False
    then have "parse_value m (json_text v @ CHR '','' # json_members kvs @ CHR ''}'' # r) =
        Some (v, CHR '','' # json_members kvs @ CHR ''}'' # r)"
      using 10 n by simp
    moreover have "parse_members m (json_members kvs @ CHR ''}'' # r) = Some (kvs, r)"
      using 10 n False by simp
    ultimately show ?thesis using False k by (simp add: n quoted_def)
  qed
qed

lemma json_parse_text: "plain_json j \<Longrightarrow> json_parse (json_text j) = Some j"
  using parse_back(1) [of j "Suc (length (json_text j))" "[]"] by (simp add: json_parse_def)

text \<open>A text in which a member's value is followed by a character that does not belong there.\<close>

lemma parse_members_stray:
  assumes "plain_members kvs" "plain k" "plain_json v" "value_end (c # r)" "skip_ws (c # r) = c # r"
    "c \<noteq> CHR '','' \<and> c \<noteq> CHR ''}''"
  shows "length (json_members (kvs @ [(k, v)])) < n \<Longrightarrow> parse_members n (json_members (kvs @ [(k, v)]) @ c # r) = None"
  using assms(1)
proof (induction kvs arbitrary: n)
  case Nil
  then obtain m where n: "n = Suc m" by (cases n) auto
  have "parse_string (k @ CHR 0x22 # w) = Some (k, w)" for w
    using assms(2) by (simp add: parse_string_plain)
  moreover have "parse_value m (json_text v @ c # r) = Some (v, c # r)"
    using Nil n assms(3,4) by (intro parse_back(1)) simp_all
  ultimately show ?case using assms(5,6) by (simp add: n quoted_def)
next
  case (Cons kv kvs)
  obtain k1 v1 where kv: "kv = (k1, v1)" by fastforce
  obtain m where n: "n = Suc m" using Cons.prems by (cases n) auto
  have "parse_string (k1 @ CHR 0x22 # w) = Some (k1, w)" for w
    using Cons.prems(2) by (simp add: kv parse_string_plain)
  moreover have "parse_value m (json_text v1 @ CHR '','' # w) = Some (v1, CHR '','' # w)" for w
    using Cons.prems by (intro parse_back(1)) (simp_all add: kv n)
  moreover have "parse_members m (json_members (kvs @ [(k, v)]) @ c # r) = None"
    using Cons by (simp add: kv n)
  ultimately show ?case by (simp add: kv n quoted_def)
qed

lemma json_parse_stray:
  assumes "plain_members kvs" "plain k" "plain_json v" "value_end (c # r)" "skip_ws (c # r) = c # r"
    "c \<noteq> CHR '','' \<and> c \<noteq> CHR ''}''"
  shows "json_parse (CHR ''{'' # json_members (kvs @ [(k, v)]) @ c # r) = None"
proof -
  obtain cs where cs: "json_members (kvs @ [(k, v)]) = CHR 0x22 # cs"
    using json_members_first [of "kvs @ [(k, v)]"] by auto
  have "parse_members n (CHR 0x22 # cs @ c # r) = None" if "Suc (length cs) < n" for n
    using parse_members_stray [OF assms, of n] that by (simp add: cs del: parse_members.simps)
  then show ?thesis by (simp add: cs json_parse_def del: parse_members.simps)
qed

section \<open>The interface between writer and reader\<close>

locale json_codec =
  fixes enc :: "'v \<Rightarrow> string" and dec :: "string \<Rightarrow> 'v option" and valid :: "'v \<Rightarrow> bool"
  assumes dec_enc: "valid v \<Longrightarrow> dec (enc v) = Some v"
begin

lemma enc_inject: "valid v \<Longrightarrow> valid w \<Longrightarrow> enc v = enc w \<longleftrightarrow> v = w"
  by (metis option.inject dec_enc)

lemma decoded: "valid v \<Longrightarrow> f v = r \<Longrightarrow> map_option f (dec (enc v)) = Some r"
  by (simp add: dec_enc)

end

interpretation http_json: json_codec json_text json_parse plain_json
  by standard (rule json_parse_text)

end
