(* ===== verification/PumpDb.thy ===== *)
theory PumpDb
  imports CTypes Json
begin

text \<open>
  \<^verbatim>\<open>src/db.c\<close>: the four tables, the insert functions, the history query and the loop that writes its
  rows into a fixed buffer, and the clean-up. SQLite is the parameter \<open>sq\<close>: whether the n-th
  statement succeeds, and the order it gives the rows of \<open>ORDER BY timestamp DESC\<close>. A table is the
  list of its rows in the order of their ids.
\<close>

section \<open>Tables\<close>

record snapshot =
  sn_p1_cmd :: c_int
  sn_p1_st :: c_int
  sn_p2_cmd :: c_int
  sn_p2_st :: c_int
  sn_busy :: c_int
  sn_alarm :: c_int
  sn_time :: c_long

record command_row =
  cr_pump :: c_int
  cr_command :: c_int
  cr_time :: c_long
  cr_source :: string

record feedback_row =
  fr_pump :: c_int
  fr_status :: c_int
  fr_time :: c_long

record gateway_row =
  gr_online :: c_int
  gr_device :: string
  gr_firmware :: string
  gr_time :: c_long

record database =
  db_open :: bool
  db_stmts :: nat
  pump_commands :: "command_row list"
  pump_feedback :: "feedback_row list"
  pump_snapshots :: "snapshot list"
  gateway_history :: "gateway_row list"

record sqlite =
  sq_ok :: "nat \<Rightarrow> bool"
  sq_stops :: "nat \<Rightarrow> nat option"
  sq_desc :: "snapshot list \<Rightarrow> snapshot list"

text \<open>What SQLite documents of the order: all rows, by descending timestamp; ties in any order.\<close>

definition orders_desc :: "sqlite \<Rightarrow> bool" where
  "orders_desc sq \<longleftrightarrow>
     (\<forall>rows. mset (sq_desc sq rows) = mset rows \<and>
       sorted_wrt (\<lambda>a b. sint (sn_time b) \<le> sint (sn_time a)) (sq_desc sq rows))"

text \<open>An instance: every statement succeeds, ties stay in the order of insertion.\<close>

definition sqlite_model :: sqlite where
  "sqlite_model = \<lparr>sq_ok = (\<lambda>_. True), sq_stops = (\<lambda>_. None), sq_desc = sort_key (\<lambda>r. - sint (sn_time r))\<rparr>"

lemma sqlite_model_orders: "orders_desc sqlite_model"
proof -
  have "sorted_wrt (\<lambda>a b. sint (sn_time b) \<le> sint (sn_time a)) (sort_key (\<lambda>r. - sint (sn_time r)) rows)"
    for rows :: "snapshot list"
    using sorted_sort_key [of "\<lambda>r. - sint (sn_time r)" rows] by (simp add: sorted_map)
  then show ?thesis by (simp add: orders_desc_def sqlite_model_def)
qed

section \<open>Opening and inserting\<close>

text \<open>The handle is set even when the schema cannot be created.\<close>

definition db_init :: "bool \<Rightarrow> bool \<Rightarrow> database \<Rightarrow> database \<times> c_int" where
  "db_init open_ok exec_ok d =
     (if \<not> open_ok then (d, - 1)
      else if \<not> exec_ok then (d\<lparr>db_open := True\<rparr>, - 1) else (d\<lparr>db_open := True\<rparr>, 0))"

text \<open>A new file, opened.\<close>

definition fresh_database :: database where
  "fresh_database = fst (db_init True True
     \<lparr>db_open = False, db_stmts = 0, pump_commands = [], pump_feedback = [], pump_snapshots = [], gateway_history = []\<rparr>)"

text \<open>One statement: on success the rows change and 0 is returned, otherwise -1.\<close>

definition run_stmt :: "sqlite \<Rightarrow> (database \<Rightarrow> database) \<Rightarrow> database \<Rightarrow> database \<times> c_int" where
  "run_stmt sq f d =
     (if \<not> db_open d then (d, - 1)
      else let d1 = d\<lparr>db_stmts := Suc (db_stmts d)\<rparr> in
        if sq_ok sq (db_stmts d) then (f d1, 0) else (d1, - 1))"

definition db_insert_command :: "sqlite \<Rightarrow> c_int \<Rightarrow> c_int \<Rightarrow> c_long \<Rightarrow> string \<Rightarrow> database \<Rightarrow> database \<times> c_int" where
  "db_insert_command sq pump_id cmd t src =
     run_stmt sq (\<lambda>d. d\<lparr>pump_commands := pump_commands d @
       [\<lparr>cr_pump = pump_id, cr_command = cmd, cr_time = t, cr_source = src\<rparr>]\<rparr>)"

definition db_insert_feedback :: "sqlite \<Rightarrow> c_int \<Rightarrow> c_int \<Rightarrow> c_long \<Rightarrow> database \<Rightarrow> database \<times> c_int" where
  "db_insert_feedback sq pump_id status t =
     run_stmt sq (\<lambda>d. d\<lparr>pump_feedback := pump_feedback d @
       [\<lparr>fr_pump = pump_id, fr_status = status, fr_time = t\<rparr>]\<rparr>)"

definition db_insert_snapshot :: "sqlite \<Rightarrow> snapshot \<Rightarrow> database \<Rightarrow> database \<times> c_int" where
  "db_insert_snapshot sq row = run_stmt sq (\<lambda>d. d\<lparr>pump_snapshots := pump_snapshots d @ [row]\<rparr>)"

definition db_insert_gateway_status ::
  "sqlite \<Rightarrow> c_int \<Rightarrow> string option \<Rightarrow> string option \<Rightarrow> c_long \<Rightarrow> database \<Rightarrow> database \<times> c_int" where
  "db_insert_gateway_status sq online device fw t =
     run_stmt sq (\<lambda>d. d\<lparr>gateway_history := gateway_history d @
       [\<lparr>gr_online = online, gr_device = (case device of None \<Rightarrow> [] | Some s \<Rightarrow> s),
         gr_firmware = (case fw of None \<Rightarrow> [] | Some s \<Rightarrow> s), gr_time = t\<rparr>]\<rparr>)"

text \<open>The product is computed in 32 bits, then widened; \<open>now\<close> is \<^verbatim>\<open>time(NULL)\<close>.\<close>

definition cleanup_cutoff :: "c_int \<Rightarrow> c_long \<Rightarrow> c_long" where
  "cleanup_cutoff days now = now - word_of_int (sint (days * 86400))"

definition db_cleanup_old_records :: "sqlite \<Rightarrow> c_int \<Rightarrow> c_long \<Rightarrow> database \<Rightarrow> database \<times> c_int" where
  "db_cleanup_old_records sq days now =
     run_stmt sq (\<lambda>d. d\<lparr>pump_snapshots :=
       filter (\<lambda>r. \<not> sint (sn_time r) < sint (cleanup_cutoff days now)) (pump_snapshots d)\<rparr>)"

section \<open>The history query\<close>

text \<open>The four statements of \<^verbatim>\<open>db_get_history_filtered\<close>: a bound that is not positive is left out.\<close>

definition where_time :: "c_long \<Rightarrow> c_long \<Rightarrow> snapshot \<Rightarrow> bool" where
  "where_time from to r \<longleftrightarrow>
     (if sint from > 0 \<and> sint to > 0 then sint from \<le> sint (sn_time r) \<and> sint (sn_time r) \<le> sint to
      else if sint from > 0 then sint from \<le> sint (sn_time r)
      else if sint to > 0 then sint (sn_time r) \<le> sint to
      else True)"

text \<open>\<^verbatim>\<open>LIMIT\<close>: a negative value means no limit.\<close>

definition sql_limit :: "c_int \<Rightarrow> 'a list \<Rightarrow> 'a list" where
  "sql_limit n rows = (if sint n < 0 then rows else take (nat (sint n)) rows)"

definition select_history :: "sqlite \<Rightarrow> c_int \<Rightarrow> c_long \<Rightarrow> c_long \<Rightarrow> database \<Rightarrow> snapshot list" where
  "select_history sq limit from to d =
     sql_limit limit (sq_desc sq (filter (where_time from to) (pump_snapshots d)))"

text \<open>The row format of \<^verbatim>\<open>snprintf\<close>.\<close>

definition row_text :: "snapshot \<Rightarrow> string" where
  "row_text r =
     ''{\"pump1\":'' @ c_dec (sn_p1_cmd r) @ '',\"pump1_status\":'' @ c_dec (sn_p1_st r) @
     '',\"pump2\":'' @ c_dec (sn_p2_cmd r) @ '',\"pump2_status\":'' @ c_dec (sn_p2_st r) @
     '',\"busy\":'' @ c_dec (sn_busy r) @ '',\"alarm\":'' @ c_dec (sn_alarm r) @
     '',\"timestamp\":'' @ c_dec (sn_time r) @ ''}''"

text \<open>
  The loop: the text written into the buffer and the number of rows, given the bytes \<open>remaining\<close>
  and the rows \<open>n\<close> so far. \<^verbatim>\<open>snprintf\<close> returns the length it wanted to write.
\<close>

fun fill_rows :: "int \<Rightarrow> nat \<Rightarrow> snapshot list \<Rightarrow> string \<times> nat" where
  "fill_rows remaining n [] = ([], n)"
| "fill_rows remaining n (r # rs) =
     (if remaining > 200 then
        (let piece = (if n > 0 then '','' else []) @ row_text r;
             (rest, m) = fill_rows (remaining - int (length piece)) (Suc n) rs
         in (snprintf_text (nat remaining) piece @ rest, m))
      else ([], n))"

definition history_text :: "nat \<Rightarrow> string \<Rightarrow> string" where
  "history_text n temp = ''{\"count\":'' @ int_dec (int n) @ '',\"data\":['' @ temp @ '']}''"

text \<open>The output text and the result code; \<open>temp\<close> is the size of the loop's buffer.\<close>

definition write_history :: "int \<Rightarrow> nat \<Rightarrow> snapshot list \<Rightarrow> string \<times> c_int" where
  "write_history temp max_size rows =
     (let (txt, n) = fill_rows temp 0 rows in (snprintf_text max_size (history_text n txt), 0))"

text \<open>The rows \<open>sqlite3_step\<close> hands out: all of them, or those before a step that fails, which ends the loop.\<close>

definition stepped_rows :: "sqlite \<Rightarrow> database \<Rightarrow> snapshot list \<Rightarrow> snapshot list" where
  "stepped_rows sq d rows = (case sq_stops sq (db_stmts d) of None \<Rightarrow> rows | Some k \<Rightarrow> take k rows)"

definition db_get_history :: "sqlite \<Rightarrow> nat \<Rightarrow> c_int \<Rightarrow> database \<Rightarrow> string \<times> c_int" where
  "db_get_history sq max_size limit d =
     (if \<not> db_open d then (''{\"error\":\"DB not init\"}'', - 1)
      else if \<not> sq_ok sq (db_stmts d) then (''{\"error\":\"Query failed\"}'', - 1)
      else write_history 102400 max_size (stepped_rows sq d (sql_limit limit (sq_desc sq (pump_snapshots d)))))"

definition db_get_history_filtered :: "sqlite \<Rightarrow> nat \<Rightarrow> c_int \<Rightarrow> c_long \<Rightarrow> c_long \<Rightarrow> database \<Rightarrow> string \<times> c_int" where
  "db_get_history_filtered sq max_size limit from to d =
     (if \<not> db_open d then (''{\"error\":\"DB not init\"}'', - 1)
      else if \<not> sq_ok sq (db_stmts d) then (''{\"error\":\"Prepare failed\"}'', - 1)
      else write_history 409600 max_size (stepped_rows sq d (select_history sq limit from to d)))"

section \<open>The loop neither overflows nor truncates\<close>

definition row_json :: "snapshot \<Rightarrow> json" where
  "row_json r =
     JObj [(''pump1'', JNum (sint (sn_p1_cmd r))), (''pump1_status'', JNum (sint (sn_p1_st r))),
       (''pump2'', JNum (sint (sn_p2_cmd r))), (''pump2_status'', JNum (sint (sn_p2_st r))),
       (''busy'', JNum (sint (sn_busy r))), (''alarm'', JNum (sint (sn_alarm r))),
       (''timestamp'', JNum (sint (sn_time r)))]"

lemma row_text_json: "row_text r = json_text (row_json r)"
  by (simp add: row_text_def row_json_def c_dec_def quoted_def)

lemma row_text_length: "length (row_text r) \<le> 167"
proof -
  have "length (row_text r) = 81 + length (c_dec (sn_p1_cmd r)) + length (c_dec (sn_p1_st r)) +
      length (c_dec (sn_p2_cmd r)) + length (c_dec (sn_p2_st r)) + length (c_dec (sn_busy r)) +
      length (c_dec (sn_alarm r)) + length (c_dec (sn_time r))"
    by (simp add: row_text_def)
  then show ?thesis
    using c_dec_length_32 [of "sn_p1_cmd r"] c_dec_length_32 [of "sn_p1_st r"] c_dec_length_32 [of "sn_p2_cmd r"]
      c_dec_length_32 [of "sn_p2_st r"] c_dec_length_32 [of "sn_busy r"] c_dec_length_32 [of "sn_alarm r"]
      c_dec_length_64 [of "sn_time r"] by linarith
qed

text \<open>The number of rows that go into the buffer, and what is then in it.\<close>

fun rows_fit :: "int \<Rightarrow> nat \<Rightarrow> snapshot list \<Rightarrow> nat" where
  "rows_fit remaining n [] = 0"
| "rows_fit remaining n (r # rs) =
     (if remaining > 200
      then Suc (rows_fit (remaining - int (length ((if n > 0 then '','' else []) @ row_text r))) (Suc n) rs)
      else 0)"

fun comma_rows :: "nat \<Rightarrow> snapshot list \<Rightarrow> string" where
  "comma_rows n [] = []"
| "comma_rows n (r # rs) = ((if n > 0 then '','' else []) @ row_text r) @ comma_rows (Suc n) rs"

lemma piece_length: "length ((if n > 0 then '','' else []) @ row_text r) \<le> 168"
  using row_text_length [of r] by simp

lemma fill_rows_eq:
  "fill_rows remaining n rows = (comma_rows n (take (rows_fit remaining n rows) rows), n + rows_fit remaining n rows)"
proof (induction remaining n rows rule: fill_rows.induct)
  case (2 remaining n r rs)
  let ?piece = "(if n > 0 then '','' else []) @ row_text r"
  show ?case
  proof (cases "remaining > 200")
    case True
    have "length ?piece < nat remaining" using piece_length [of n r] True by linarith
    with 2 [OF True refl] True show ?thesis
      by (simp add: snprintf_fits Let_def split: prod.split del: append_Cons append_Nil)
  qed simp
qed simp

lemma rows_fit_le: "rows_fit remaining n rows \<le> length rows"
  by (induction remaining n rows rule: rows_fit.induct) simp_all

text \<open>Every row fits while 168 bytes a row leave more than 200.\<close>

lemma rows_fit_all:
  "168 * (int (length rows) - 1) + 200 < remaining \<Longrightarrow> rows_fit remaining n rows = length rows"
proof (induction remaining n rows rule: rows_fit.induct)
  case (2 remaining n r rs)
  from 2(2) have rem: "remaining > 200" by simp
  have "168 * (int (length rs) - 1) + 200 < remaining - int (length ((if n > 0 then '','' else []) @ row_text r))"
    using 2(2) piece_length [of n r] by simp
  with 2(1) [OF rem] rem show ?case by simp
qed simp

lemma rows_fit_min:
  assumes "168 * (int k - 1) + 200 < remaining" "k \<le> length rows"
  shows "k \<le> rows_fit remaining n rows"
  using assms
proof (induction remaining n rows arbitrary: k rule: rows_fit.induct)
  case (2 remaining n r rs)
  show ?case
  proof (cases k)
    case (Suc j)
    from 2(2) Suc have rem: "remaining > 200" by simp
    have "168 * (int j - 1) + 200 < remaining - int (length ((if n > 0 then '','' else []) @ row_text r))"
      using 2(2) Suc piece_length [of n r] by simp
    with 2(1) [OF rem, of j] 2(3) rem Suc show ?thesis by simp
  qed simp
qed simp

text \<open>A timestamp of at least ten digits makes a row at least 97 characters long.\<close>

lemma int_dec_length_ge: "10 ^ k \<le> i \<Longrightarrow> k < length (int_dec i)"
  using length_nat_dec_ge [of k "nat i"]
  by (auto simp: int_dec_def nat_le_eq_zle le_nat_iff) (smt (verit) zero_le_power)

lemma row_text_length_ge:
  assumes "1000000000 \<le> sint (sn_time r)"
  shows "97 \<le> length (row_text r)"
proof -
  have one: "1 \<le> length (c_dec w)" for w :: "'b::len word"
    by (simp add: c_dec_def Suc_le_eq)
  have "9 < length (c_dec (sn_time r))"
    unfolding c_dec_def by (rule int_dec_length_ge) (use assms in simp)
  moreover have "length (row_text r) = 81 + length (c_dec (sn_p1_cmd r)) + length (c_dec (sn_p1_st r)) +
      length (c_dec (sn_p2_cmd r)) + length (c_dec (sn_p2_st r)) + length (c_dec (sn_busy r)) +
      length (c_dec (sn_alarm r)) + length (c_dec (sn_time r))"
    by (simp add: row_text_def)
  ultimately show ?thesis
    using one [of "sn_p1_cmd r"] one [of "sn_p1_st r"] one [of "sn_p2_cmd r"] one [of "sn_p2_st r"]
      one [of "sn_busy r"] one [of "sn_alarm r"] by linarith
qed

lemma fit_step:
  fixes R p c :: int
  assumes "x = 0 \<or> 98 * (int x - 1) + 200 < R - p" "c \<le> p" "c \<le> 98" "200 < R"
  shows "98 * (int (Suc x) - 1) + 102 + c < R"
  using assms(1)
proof
  assume "x = 0"
  with assms show ?thesis by simp
next
  assume "98 * (int x - 1) + 200 < R - p"
  with assms(2) show ?thesis by simp
qed

lemma rows_fit_max:
  assumes "\<forall>r \<in> set rows. 1000000000 \<le> sint (sn_time r)" "0 < n"
  shows "rows_fit remaining n rows = 0 \<or> 98 * (int (rows_fit remaining n rows) - 1) + 200 < remaining"
  using assms
proof (induction remaining n rows rule: rows_fit.induct)
  case (2 remaining n r rs)
  show ?case
  proof (cases "remaining > 200")
    case True
    let ?rem = "remaining - int (length ((if n > 0 then '','' else []) @ row_text r))"
    have "98 \<le> length ((if n > 0 then '','' else []) @ row_text r)"
      using row_text_length_ge [of r] 2(2,3) by simp
    then have l: "98 \<le> int (length ((if n > 0 then '','' else []) @ row_text r))" by linarith
    have ih: "rows_fit ?rem (Suc n) rs = 0 \<or> 98 * (int (rows_fit ?rem (Suc n) rs) - 1) + 200 < ?rem"
      using 2(1) [OF True] 2(2) by simp
    have eq: "rows_fit remaining n (r # rs) = Suc (rows_fit ?rem (Suc n) rs)"
      using True by simp
    have "98 * (int (Suc (rows_fit ?rem (Suc n) rs)) - 1) + 102 + 98 < remaining"
      by (rule fit_step [OF ih l]) (use True in simp_all)
    then show ?thesis unfolding eq by linarith
  qed simp
qed simp

lemma rows_fit_max_first:
  assumes "\<forall>r \<in> set rows. 1000000000 \<le> sint (sn_time r)"
  shows "rows_fit remaining 0 rows = 0 \<or> 98 * (int (rows_fit remaining 0 rows) - 1) + 199 < remaining"
proof (cases "rows = [] \<or> \<not> remaining > 200")
  case True
  then show ?thesis by (cases rows) auto
next
  case False
  then obtain r rs where rows: "rows = r # rs" and rem: "remaining > 200" by (cases rows) auto
  let ?rem = "remaining - int (length (row_text r))"
  have l: "97 \<le> int (length (row_text r))" using row_text_length_ge [of r] assms rows by simp
  have ih: "rows_fit ?rem 1 rs = 0 \<or> 98 * (int (rows_fit ?rem 1 rs) - 1) + 200 < ?rem"
    using rows_fit_max [of rs 1] assms rows by simp
  have eq: "rows_fit remaining 0 rows = Suc (rows_fit ?rem 1 rs)"
    using rows rem by simp
  have "98 * (int (Suc (rows_fit ?rem 1 rs)) - 1) + 102 + 97 < remaining"
    by (rule fit_step [OF ih l]) (use rem in simp_all)
  then show ?thesis unfolding eq by linarith
qed

text \<open>The text of the loop is the elements of a JSON array; the whole output is an object.\<close>

lemma comma_rows_Suc: "comma_rows (Suc n) rows = (if rows = [] then [] else '','' @ json_elems (map row_json rows))"
  by (induction rows arbitrary: n) (auto simp: row_text_json)

lemma comma_rows_0: "comma_rows 0 rows = json_elems (map row_json rows)"
  by (cases rows) (auto simp: row_text_json comma_rows_Suc)

definition history_json :: "snapshot list \<Rightarrow> json" where
  "history_json rows = JObj [(''count'', JNum (int (length rows))), (''data'', JArr (map row_json rows))]"

lemma comma_rows_length: "0 \<le> remaining \<Longrightarrow>
    int (length (comma_rows n (take (rows_fit remaining n rows) rows))) \<le> remaining"
proof (induction remaining n rows rule: rows_fit.induct)
  case (2 remaining n r rs)
  show ?case
  proof (cases "remaining > 200")
    case True
    then have "0 \<le> remaining - int (length ((if n > 0 then '','' else []) @ row_text r))"
      using piece_length [of n r] by linarith
    from 2(1) [OF True this] True show ?thesis by simp
  qed (use 2(2) in simp)
qed simp

lemma write_history_json:
  assumes "0 \<le> temp" "temp + 40 < int max_size" "length rows < 10000"
  shows "write_history temp max_size rows = (json_text (history_json (take (rows_fit temp 0 rows) rows)), 0)"
proof -
  let ?m = "rows_fit temp 0 rows"
  let ?txt = "comma_rows 0 (take ?m rows)"
  have len: "length (take ?m rows) = ?m" using rows_fit_le [of temp 0 rows] by simp
  have "int ?m < 10 ^ 4" using rows_fit_le [of temp 0 rows] assms(3) by simp
  then have dec: "length (int_dec (int ?m)) \<le> 5" using int_dec_length [of "int ?m" 4] by simp
  have out: "history_text ?m ?txt = json_text (history_json (take ?m rows))"
    by (simp only: history_text_def comma_rows_0 history_json_def len) (simp add: quoted_def)
  have "length (history_text ?m ?txt) \<le> 25 + length ?txt"
    using dec by (simp add: history_text_def)
  also have "\<dots> < max_size"
    using comma_rows_length [OF assms(1), of 0 rows] assms(2) by linarith
  finally have "snprintf_text max_size (history_text ?m ?txt) = history_text ?m ?txt"
    by (rule snprintf_fits)
  then show ?thesis by (simp add: write_history_def fill_rows_eq out)
qed

lemma plain_row_json [simp]: "plain_json (row_json r)"
  by (simp add: row_json_def plain_def)

lemma plain_rows [simp]: "plain_elems (map row_json rows)"
  by (induction rows) simp_all

lemma plain_history_json [simp]: "plain_json (history_json rows)"
  by (simp add: history_json_def plain_def)

section \<open>What a query returns\<close>

lemma select_history_spec:
  assumes "orders_desc sq" "0 \<le> sint limit"
  shows "length (select_history sq limit from to d) =
      min (nat (sint limit)) (length (filter (where_time from to) (pump_snapshots d)))"
    and "sorted_wrt (\<lambda>a b. sint (sn_time b) \<le> sint (sn_time a)) (select_history sq limit from to d)"
    and "set (select_history sq limit from to d) \<subseteq> {r \<in> set (pump_snapshots d). where_time from to r}"
proof -
  let ?f = "filter (where_time from to) (pump_snapshots d)"
  have m: "mset (sq_desc sq ?f) = mset ?f"
    and s: "sorted_wrt (\<lambda>a b. sint (sn_time b) \<le> sint (sn_time a)) (sq_desc sq ?f)"
    using assms(1) by (simp_all add: orders_desc_def)
  have sel: "select_history sq limit from to d = take (nat (sint limit)) (sq_desc sq ?f)"
    using assms(2) by (simp add: select_history_def sql_limit_def)
  have "length (sq_desc sq ?f) = length ?f" using m by (metis size_mset)
  then show "length (select_history sq limit from to d) = min (nat (sint limit)) (length ?f)"
    by (simp add: sel min.commute)
  show "sorted_wrt (\<lambda>a b. sint (sn_time b) \<le> sint (sn_time a)) (select_history sq limit from to d)"
    using s by (simp add: sel sorted_wrt_take)
  have "set (sq_desc sq ?f) = set ?f" using m by (metis set_mset_mset)
  then show "set (select_history sq limit from to d) \<subseteq> {r \<in> set (pump_snapshots d). where_time from to r}"
    using set_take_subset [of "nat (sint limit)" "sq_desc sq ?f"] by (auto simp: sel)
qed

lemma run_stmt_closed: "\<not> db_open d \<Longrightarrow> run_stmt sq f d = (d, - 1)"
  by (simp add: run_stmt_def)

section \<open>Properties\<close>

text \<open>
  C13. The history loop is safe and exact: with the buffers of the code (409600 bytes for the rows,
  512000 for the answer) and at most 5000 rows, no \<^verbatim>\<open>snprintf\<close> is cut off, and the answer is the
  JSON text of the first rows, as many as the loop wrote, with their count.
\<close>

theorem history_answer_exact:
  assumes "length rows \<le> 5000"
  shows "write_history 409600 512000 rows = (json_text (history_json (take (snd (fill_rows 409600 0 rows)) rows)), 0) \<and>
    length (fst (write_history 409600 512000 rows)) < 512000 \<and>
    json_parse (fst (write_history 409600 512000 rows)) = Some (history_json (take (snd (fill_rows 409600 0 rows)) rows))"
proof -
  let ?m = "rows_fit 409600 0 rows"
  have eq: "write_history 409600 512000 rows = (json_text (history_json (take ?m rows)), 0)"
    by (rule write_history_json) (use assms in simp_all)
  have "length (snprintf_text 512000 t) < 512000" for t by (simp add: snprintf_text_def)
  then have "length (fst (write_history 409600 512000 rows)) < 512000"
    by (simp add: write_history_def split: prod.split)
  then show ?thesis by (simp add: eq fill_rows_eq http_json.dec_enc del: json_text.simps)
qed

definition sample_row :: snapshot where
  "sample_row = \<lparr>sn_p1_cmd = 1, sn_p1_st = 1, sn_p2_cmd = 0, sn_p2_st = 2, sn_busy = 0, sn_alarm = 0,
     sn_time = 1700000000\<rparr>"

theorem history_answer_exact_witness:
  "length (fst (write_history 409600 512000
     (replicate 5000 sample_row))) < 512000"
proof -
  have "length (replicate 5000 sample_row) \<le> 5000" by simp
  from history_answer_exact [OF this] show ?thesis by (elim conjE)
qed

text \<open>
  How many rows the loop can return: with timestamps of at least ten digits at most 4178, so the
  5000 rows the page asks for and the server allows never arrive; and never fewer than the smaller of
  2437 and the rows selected.
\<close>

theorem history_row_bounds:
  assumes "\<forall>r \<in> set rows. 1000000000 \<le> sint (sn_time r)"
  shows "snd (fill_rows 409600 0 rows) \<le> 4178 \<and> min 2437 (length rows) \<le> snd (fill_rows 409600 0 rows)"
proof -
  have "rows_fit 409600 0 rows \<le> 4178"
    using rows_fit_max_first [OF assms, of 409600] by auto
  moreover have "min 2437 (length rows) \<le> rows_fit 409600 0 rows"
    by (rule rows_fit_min) auto
  ultimately show ?thesis by (simp add: fill_rows_eq)
qed

theorem history_row_bounds_witness:
  "snd (fill_rows 409600 0
     (replicate 5000 sample_row)) \<le> 4178"
  using history_row_bounds [of "replicate 5000 sample_row"]
  by (simp add: sample_row_def)

text \<open>
  The history query: the rows within the bounds (a bound that is not positive is ignored),
  newest first, at most the limit; with enough limit exactly those rows, and never an older row in place
  of a newer one.
\<close>

theorem history_query:
  assumes "orders_desc sq" "0 \<le> sint limit"
  shows "let rows = select_history sq limit from to d; stored = filter (where_time from to) (pump_snapshots d) in
    length rows = min (nat (sint limit)) (length stored) \<and> mset rows \<subseteq># mset stored \<and>
    sorted_wrt (\<lambda>a b. sint (sn_time b) \<le> sint (sn_time a)) rows \<and>
    (\<forall>old \<in># mset stored - mset rows. \<forall>r \<in> set rows. sint (sn_time old) \<le> sint (sn_time r))"
proof -
  let ?stored = "filter (where_time from to) (pump_snapshots d)" and ?n = "nat (sint limit)"
  let ?all = "sq_desc sq ?stored"
  have all: "mset ?all = mset ?stored" "sorted_wrt (\<lambda>a b. sint (sn_time b) \<le> sint (sn_time a)) ?all"
    using assms(1) by (simp_all add: orders_desc_def)
  have rows: "select_history sq limit from to d = take ?n ?all"
    using assms(2) by (simp add: select_history_def sql_limit_def)
  have split: "mset ?stored = mset (take ?n ?all) + mset (drop ?n ?all)"
    using all(1) by (metis append_take_drop_id mset_append)
  have "sorted_wrt (\<lambda>a b. sint (sn_time b) \<le> sint (sn_time a)) (take ?n ?all @ drop ?n ?all)" using all(2) by simp
  then have "\<forall>r \<in> set (take ?n ?all). \<forall>old \<in> set (drop ?n ?all). sint (sn_time old) \<le> sint (sn_time r)"
    by (simp add: sorted_wrt_append del: append_take_drop_id)
  moreover have "length ?all = length ?stored" using all(1) by (metis size_mset)
  ultimately show ?thesis
    using all(2) split by (simp add: rows sorted_wrt_take Let_def min.commute)
qed

theorem history_query_witness:
  "mset (select_history sqlite_model 2 0 0 fresh_database) \<subseteq># mset []"
  using history_query [OF sqlite_model_orders, of 2 0 0 fresh_database]
  by (simp add: Let_def fresh_database_def db_init_def where_time_def)

text \<open>
  The clean-up's cutoff is right for at most 24855 days only: the product is computed in 32
  bits, and a longer period does not give the time that many days ago.
\<close>

theorem cleanup_cutoff_exact_iff:
  assumes "0 \<le> sint days"
  shows "cleanup_cutoff days now = now - word_of_int (sint days * 86400) \<longleftrightarrow> sint days \<le> 24855"
proof
  assume "sint days \<le> 24855"
  then have "sint (days * 86400) = sint days * 86400"
    using assms sint_of_int_32 [of "sint days * 86400"] by simp
  then show "cleanup_cutoff days now = now - word_of_int (sint days * 86400)" by (simp add: cleanup_cutoff_def)
next
  assume eq: "cleanup_cutoff days now = now - word_of_int (sint days * 86400)"
  then have "(word_of_int (sint (days * 86400)) :: c_long) = word_of_int (sint days * 86400)"
    by (simp only: cleanup_cutoff_def diff_left_imp_eq)
  moreover have "sint (word_of_int (sint (days * 86400)) :: c_long) = sint (days * 86400)"
    using c_int_range [of "days * 86400"] by (intro sint_of_int_64) linarith+
  moreover have "sint (word_of_int (sint days * 86400) :: c_long) = sint days * 86400"
    using assms c_int_range [of days] by (intro sint_of_int_64) linarith+
  ultimately have "sint (days * 86400) = sint days * 86400" by metis
  then show "sint days \<le> 24855" using c_int_range(2) [of "days * 86400"] by simp
qed

theorem cleanup_cutoff_exact_iff_witness:
  "cleanup_cutoff 24856 0 \<noteq> 0 - word_of_int (sint (24856 :: c_int) * 86400)"
  using cleanup_cutoff_exact_iff [of 24856 0] by simp

end
