(* ===== verification/SharedState.thy ===== *)
theory SharedState
  imports PumpDb
begin

text \<open>
  \<^verbatim>\<open>src/shared.h\<close> and \<^verbatim>\<open>src/shared.c\<close>: the global state of the server and the functions that update
  it. Each update function is modelled by its three parts in the order of the code: the first
  critical section (\<open>_enter\<close>), the database writes made outside the lock, which read the globals as
  they then are (\<open>_record\<close>), and the second critical section, which stores the previous values
  (\<open>_commit\<close>). \<open>now\<close> is \<^verbatim>\<open>time(NULL)\<close>.
\<close>

section \<open>Globals\<close>

record pump_status =
  ps_pump1 :: c_int
  ps_pump2 :: c_int
  ps_status1 :: c_int
  ps_status2 :: c_int
  ps_busy :: c_int
  ps_alarm :: c_int
  ps_time :: c_long

record pump_ring =
  ph_items :: "pump_status list"
  ph_count :: nat
  ph_index :: nat

record gateway =
  gw_online :: c_int
  gw_reported :: c_int
  gw_seen :: c_long
  gw_device :: string
  gw_firmware :: string

record server =
  current_pump_status :: pump_status
  pump_history :: pump_ring
  gateway_hw_status :: gateway
  previous_pump_status :: pump_status
  previous_gateway_status :: gateway
  database :: database

definition zero_status :: pump_status where
  "zero_status = \<lparr>ps_pump1 = 0, ps_pump2 = 0, ps_status1 = 0, ps_status2 = 0, ps_busy = 0, ps_alarm = 0, ps_time = 0\<rparr>"

definition MAX_HISTORY :: nat where "MAX_HISTORY = 100"

definition empty_ring :: pump_ring where
  "empty_ring = \<lparr>ph_items = replicate MAX_HISTORY zero_status, ph_count = 0, ph_index = 0\<rparr>"

definition empty_gateway :: gateway where
  "empty_gateway = \<lparr>gw_online = 0, gw_reported = 0, gw_seen = 0, gw_device = replicate 64 nul,
     gw_firmware = replicate 32 nul\<rparr>"

text \<open>The globals' initial values, over the database as \<^verbatim>\<open>db_init\<close> left it.\<close>

definition initial_server :: "database \<Rightarrow> server" where
  "initial_server d =
     \<lparr>current_pump_status = zero_status, pump_history = empty_ring, gateway_hw_status = empty_gateway,
      previous_pump_status = zero_status, previous_gateway_status = empty_gateway, database = d\<rparr>"

definition snapshot_of :: "pump_status \<Rightarrow> snapshot" where
  "snapshot_of p =
     \<lparr>sn_p1_cmd = ps_pump1 p, sn_p1_st = ps_status1 p, sn_p2_cmd = ps_pump2 p, sn_p2_st = ps_status2 p,
      sn_busy = ps_busy p, sn_alarm = ps_alarm p, sn_time = ps_time p\<rparr>"

section \<open>The ring of recent states\<close>

definition ring_add :: "pump_status \<Rightarrow> pump_ring \<Rightarrow> pump_ring" where
  "ring_add st h =
     \<lparr>ph_items = (ph_items h)[ph_index h := st],
      ph_count = (if ph_count h < MAX_HISTORY then Suc (ph_count h) else ph_count h),
      ph_index = (ph_index h + 1) mod MAX_HISTORY\<rparr>"

definition add_pump_history :: "pump_status \<Rightarrow> server \<Rightarrow> server" where
  "add_pump_history st sv = sv\<lparr>pump_history := ring_add st (pump_history sv)\<rparr>"

section \<open>Commands\<close>

definition set_pump :: "c_int \<Rightarrow> c_int \<Rightarrow> pump_status \<Rightarrow> pump_status" where
  "set_pump pump_id st p =
     (if pump_id = 1 then p\<lparr>ps_pump1 := st\<rparr> else if pump_id = 2 then p\<lparr>ps_pump2 := st\<rparr> else p)"

definition command_enter :: "c_long \<Rightarrow> c_int \<Rightarrow> c_int \<Rightarrow> server \<Rightarrow> server \<times> bool" where
  "command_enter now pump_id st sv =
     (let prev = (if pump_id = 1 then ps_pump1 (previous_pump_status sv) else ps_pump2 (previous_pump_status sv))
      in (sv\<lparr>current_pump_status := (set_pump pump_id st (current_pump_status sv))\<lparr>ps_time := now\<rparr>\<rparr>, prev \<noteq> st))"

definition insert_current_snapshot :: "sqlite \<Rightarrow> server \<Rightarrow> server" where
  "insert_current_snapshot sq sv =
     sv\<lparr>database := fst (db_insert_snapshot sq (snapshot_of (current_pump_status sv)) (database sv))\<rparr>"

definition command_record :: "sqlite \<Rightarrow> c_int \<Rightarrow> c_int \<Rightarrow> server \<Rightarrow> server" where
  "command_record sq pump_id st sv =
     (let sv1 = add_pump_history (current_pump_status sv) sv;
          sv2 = sv1\<lparr>database := fst (db_insert_command sq pump_id st (ps_time (current_pump_status sv1)) ''api''
                  (database sv1))\<rparr>
      in insert_current_snapshot sq sv2)"

definition command_commit :: "c_int \<Rightarrow> c_int \<Rightarrow> server \<Rightarrow> server" where
  "command_commit pump_id st sv =
     sv\<lparr>previous_pump_status := set_pump pump_id st (previous_pump_status sv)\<rparr>"

definition update_pump_status :: "sqlite \<Rightarrow> c_long \<Rightarrow> c_int \<Rightarrow> c_int \<Rightarrow> server \<Rightarrow> server" where
  "update_pump_status sq now pump_id st sv =
     (let (sv1, changed) = command_enter now pump_id st sv
      in if changed then command_commit pump_id st (command_record sq pump_id st sv1) else sv1)"

section \<open>Feedback\<close>

definition valid_status :: "c_int \<Rightarrow> c_int" where
  "valid_status status = (if sint status < 0 \<or> sint status > 3 then 0 else status)"

definition set_status :: "c_int \<Rightarrow> c_int \<Rightarrow> pump_status \<Rightarrow> pump_status" where
  "set_status pump_id st p =
     (if pump_id = 1 then p\<lparr>ps_status1 := st\<rparr> else if pump_id = 2 then p\<lparr>ps_status2 := st\<rparr> else p)"

definition feedback_enter :: "c_long \<Rightarrow> c_int \<Rightarrow> c_int \<Rightarrow> server \<Rightarrow> server \<times> bool" where
  "feedback_enter now pump_id status sv =
     (let prev = (if pump_id = 1 then ps_status1 (previous_pump_status sv) else ps_status2 (previous_pump_status sv))
      in (sv\<lparr>current_pump_status := (set_status pump_id status (current_pump_status sv))\<lparr>ps_time := now\<rparr>\<rparr>,
          prev \<noteq> status))"

definition feedback_record :: "sqlite \<Rightarrow> c_int \<Rightarrow> c_int \<Rightarrow> server \<Rightarrow> server" where
  "feedback_record sq pump_id status sv =
     insert_current_snapshot sq
       (sv\<lparr>database := fst (db_insert_feedback sq pump_id status (ps_time (current_pump_status sv)) (database sv))\<rparr>)"

definition feedback_commit :: "c_int \<Rightarrow> c_int \<Rightarrow> server \<Rightarrow> server" where
  "feedback_commit pump_id status sv =
     sv\<lparr>previous_pump_status := set_status pump_id status (previous_pump_status sv)\<rparr>"

definition update_pump_feedback :: "sqlite \<Rightarrow> c_long \<Rightarrow> c_int \<Rightarrow> c_int \<Rightarrow> server \<Rightarrow> server" where
  "update_pump_feedback sq now pump_id status0 sv =
     (let status = valid_status status0;
          (sv1, changed) = feedback_enter now pump_id status sv
      in if changed then feedback_commit pump_id status (feedback_record sq pump_id status sv1) else sv1)"

section \<open>System status\<close>

definition system_enter :: "c_long \<Rightarrow> c_int \<Rightarrow> c_int \<Rightarrow> server \<Rightarrow> server \<times> bool" where
  "system_enter now b a sv =
     (sv\<lparr>current_pump_status := (current_pump_status sv)\<lparr>ps_busy := b, ps_alarm := a, ps_time := now\<rparr>\<rparr>,
      ps_busy (previous_pump_status sv) \<noteq> b \<or> ps_alarm (previous_pump_status sv) \<noteq> a)"

definition system_commit :: "c_int \<Rightarrow> c_int \<Rightarrow> server \<Rightarrow> server" where
  "system_commit b a sv =
     sv\<lparr>previous_pump_status := (previous_pump_status sv)\<lparr>ps_busy := b, ps_alarm := a\<rparr>\<rparr>"

definition update_system_status :: "sqlite \<Rightarrow> c_long \<Rightarrow> c_int \<Rightarrow> c_int \<Rightarrow> server \<Rightarrow> server" where
  "update_system_status sq now b a sv =
     (let (sv1, changed) = system_enter now b a sv
      in if changed then system_commit b a (insert_current_snapshot sq sv1) else sv1)"

section \<open>Gateway heartbeat\<close>

definition copy_device :: "string option \<Rightarrow> gateway \<Rightarrow> gateway" where
  "copy_device v g = (case v of None \<Rightarrow> g | Some s \<Rightarrow> g\<lparr>gw_device := strncpy (gw_device g) s 63\<rparr>)"

definition copy_firmware :: "string option \<Rightarrow> gateway \<Rightarrow> gateway" where
  "copy_firmware v g = (case v of None \<Rightarrow> g | Some s \<Rightarrow> g\<lparr>gw_firmware := strncpy (gw_firmware g) s 31\<rparr>)"

definition heartbeat_enter :: "c_long \<Rightarrow> string option \<Rightarrow> string option \<Rightarrow> c_int \<Rightarrow> server \<Rightarrow> server \<times> bool" where
  "heartbeat_enter now device fw status sv =
     (let g = gateway_hw_status sv;
          first = (gw_seen g = 0);
          status_changed = (gw_reported g \<noteq> status);
          online_changed = (gw_online g \<noteq> 1);
          firmware_changed = (case fw of None \<Rightarrow> False | Some s \<Rightarrow> c_string (gw_firmware g) \<noteq> s)
      in (sv\<lparr>gateway_hw_status :=
            copy_firmware fw (copy_device device (g\<lparr>gw_online := 1, gw_reported := status, gw_seen := now\<rparr>))\<rparr>,
          first \<or> status_changed \<or> online_changed \<or> firmware_changed))"

definition heartbeat_record :: "sqlite \<Rightarrow> string option \<Rightarrow> string option \<Rightarrow> server \<Rightarrow> server" where
  "heartbeat_record sq device fw sv =
     sv\<lparr>database := fst (db_insert_gateway_status sq 1 device fw (gw_seen (gateway_hw_status sv)) (database sv))\<rparr>"

definition heartbeat_commit :: "string option \<Rightarrow> string option \<Rightarrow> c_int \<Rightarrow> server \<Rightarrow> server" where
  "heartbeat_commit device fw status sv =
     sv\<lparr>previous_gateway_status :=
       copy_firmware fw (copy_device device ((previous_gateway_status sv)\<lparr>gw_online := 1, gw_reported := status\<rparr>))\<rparr>"

definition update_gateway_heartbeat ::
  "sqlite \<Rightarrow> c_long \<Rightarrow> string option \<Rightarrow> string option \<Rightarrow> c_int \<Rightarrow> server \<Rightarrow> server" where
  "update_gateway_heartbeat sq now device fw status sv =
     (let (sv1, changed) = heartbeat_enter now device fw status sv
      in if changed then heartbeat_commit device fw status (heartbeat_record sq device fw sv1) else sv1)"

section \<open>The ring refines a bounded log\<close>

definition last_n :: "nat \<Rightarrow> 'a list \<Rightarrow> 'a list" where
  "last_n n xs = drop (length xs - n) xs"

lemma last_n_short: "length xs \<le> n \<Longrightarrow> last_n n xs = xs"
  by (simp add: last_n_def)

lemma last_n_append: "last_n n (last_n n xs @ ys) = last_n n (xs @ ys)"
  by (cases "length xs \<le> n") (auto simp: last_n_def add.commute)

locale bounded_log =
  fixes add :: "'a \<Rightarrow> 'h \<Rightarrow> 'h" and view :: "'h \<Rightarrow> 'a list" and ok :: "'h \<Rightarrow> bool" and cap :: nat
  assumes view_add: "ok h \<Longrightarrow> view (add x h) = last_n cap (view h @ [x])"
    and ok_add: "ok h \<Longrightarrow> ok (add x h)"
begin

lemma ok_fold: "ok h \<Longrightarrow> ok (fold add xs h)"
  by (induction xs arbitrary: h) (simp_all add: ok_add)

lemma view_fold: "ok h \<Longrightarrow> length (view h) \<le> cap \<Longrightarrow> view (fold add xs h) = last_n cap (view h @ xs)"
proof (induction xs arbitrary: h)
  case Nil
  then show ?case by (simp add: last_n_short)
next
  case (Cons x xs)
  have "length (view (add x h)) \<le> cap" using Cons.prems by (simp add: view_add last_n_def)
  with Cons show ?case by (simp add: ok_add view_add last_n_append)
qed

end

definition ring_ok :: "pump_ring \<Rightarrow> bool" where
  "ring_ok h \<longleftrightarrow>
     length (ph_items h) = MAX_HISTORY \<and> ph_count h \<le> MAX_HISTORY \<and> ph_index h < MAX_HISTORY \<and>
     (ph_count h < MAX_HISTORY \<longrightarrow> ph_index h = ph_count h)"

definition ring_view :: "pump_ring \<Rightarrow> pump_status list" where
  "ring_view h =
     (if ph_count h < MAX_HISTORY then take (ph_count h) (ph_items h)
      else drop (ph_index h) (ph_items h) @ take (ph_index h) (ph_items h))"

lemma ring_ok_add: "ring_ok h \<Longrightarrow> ring_ok (ring_add x h)"
  by (auto simp: ring_ok_def ring_add_def MAX_HISTORY_def)

lemma ring_view_add:
  assumes "ring_ok h"
  shows "ring_view (ring_add x h) = last_n MAX_HISTORY (ring_view h @ [x])"
proof -
  let ?xs = "ph_items h" and ?i = "ph_index h"
  have len: "length ?xs = MAX_HISTORY" and i: "?i < MAX_HISTORY" using assms by (simp_all add: ring_ok_def)
  have cut: "take (Suc ?i) (?xs[?i := x]) = take ?i ?xs @ [x]" "drop (Suc ?i) (?xs[?i := x]) = drop (Suc ?i) ?xs"
    using len i by (simp_all add: take_Suc_conv_app_nth)
  consider "ph_count h < MAX_HISTORY" "Suc ?i < MAX_HISTORY" | "ph_count h < MAX_HISTORY" "Suc ?i = MAX_HISTORY"
    | "ph_count h = MAX_HISTORY" "Suc ?i < MAX_HISTORY" | "ph_count h = MAX_HISTORY" "Suc ?i = MAX_HISTORY"
    using assms i by (fastforce simp: ring_ok_def)
  then show ?thesis
  proof cases
    case 1
    with assms cut len show ?thesis by (auto simp: ring_ok_def ring_view_def ring_add_def last_n_def)
  next
    case 2
    then have "?xs[?i := x] = take ?i ?xs @ [x]" using cut len by simp
    with 2 assms len show ?thesis by (auto simp: ring_ok_def ring_view_def ring_add_def last_n_def)
  next
    case 3
    have "drop ?i ?xs = ?xs ! ?i # drop (Suc ?i) ?xs" using len i by (simp add: Cons_nth_drop_Suc)
    with 3 cut len i show ?thesis by (simp add: ring_view_def ring_add_def last_n_def)
  next
    case 4
    then have "?xs[?i := x] = take ?i ?xs @ [x]" using cut len by simp
    moreover have "drop ?i ?xs = [?xs ! ?i]" using 4 len i by (simp add: Cons_nth_drop_Suc [symmetric])
    ultimately show ?thesis using 4 len by (simp add: ring_view_def ring_add_def last_n_def)
  qed
qed

interpretation ring: bounded_log ring_add ring_view ring_ok MAX_HISTORY
  by standard (rule ring_view_add, assumption, rule ring_ok_add, assumption)

lemma empty_ring_ok: "ring_ok empty_ring" "ring_view empty_ring = []"
  by (simp_all add: ring_ok_def ring_view_def empty_ring_def MAX_HISTORY_def)

section \<open>What an update changes\<close>

text \<open>The values of a state without its time.\<close>

definition status_values :: "pump_status \<Rightarrow> pump_status" where
  "status_values p = p\<lparr>ps_time := 0\<rparr>"

definition snapshot_values :: "snapshot \<Rightarrow> snapshot" where
  "snapshot_values r = r\<lparr>sn_time := 0\<rparr>"

lemma snapshot_values_iff:
  "snapshot_values (snapshot_of a) = snapshot_values (snapshot_of b) \<longleftrightarrow> status_values a = status_values b"
  by (cases a; cases b) (auto simp: snapshot_values_def snapshot_of_def status_values_def)

text \<open>The previous values agree with the current ones: the change detector is exact.\<close>

definition detector_ok :: "server \<Rightarrow> bool" where
  "detector_ok sv \<longleftrightarrow> status_values (previous_pump_status sv) = status_values (current_pump_status sv)"

lemma status_values_eq_iff:
  "status_values a = status_values b \<longleftrightarrow>
     ps_pump1 a = ps_pump1 b \<and> ps_pump2 a = ps_pump2 b \<and> ps_status1 a = ps_status1 b \<and>
     ps_status2 a = ps_status2 b \<and> ps_busy a = ps_busy b \<and> ps_alarm a = ps_alarm b"
  by (cases a; cases b) (auto simp: status_values_def)

lemmas shared_defs = update_pump_status_def update_pump_feedback_def update_system_status_def
  update_gateway_heartbeat_def command_enter_def command_record_def command_commit_def
  feedback_enter_def feedback_record_def feedback_commit_def system_enter_def system_commit_def
  heartbeat_enter_def heartbeat_record_def heartbeat_commit_def insert_current_snapshot_def
  add_pump_history_def Let_def

lemma update_current:
  "current_pump_status (update_pump_status sq now i st sv) =
     (set_pump i st (current_pump_status sv))\<lparr>ps_time := now\<rparr>"
  "current_pump_status (update_pump_feedback sq now i f sv) =
     (set_status i (valid_status f) (current_pump_status sv))\<lparr>ps_time := now\<rparr>"
  "current_pump_status (update_system_status sq now b a sv) =
     (current_pump_status sv)\<lparr>ps_busy := b, ps_alarm := a, ps_time := now\<rparr>"
  "current_pump_status (update_gateway_heartbeat sq now dev fw g sv) = current_pump_status sv"
  by (simp_all add: shared_defs)

lemma update_detector_ok:
  assumes "detector_ok sv"
  shows "detector_ok (update_pump_status sq now i st sv)"
    and "detector_ok (update_pump_feedback sq now i f sv)"
    and "detector_ok (update_system_status sq now b a sv)"
    and "detector_ok (update_gateway_heartbeat sq now dev fw g sv)"
  using assms
  by (auto simp: detector_ok_def status_values_eq_iff shared_defs set_pump_def set_status_def)

lemma initial_detector_ok: "detector_ok (initial_server d)"
  by (simp add: detector_ok_def initial_server_def)

text \<open>With an exact detector a command is recorded exactly when it changes a value.\<close>

definition db_ready :: "sqlite \<Rightarrow> database \<Rightarrow> bool" where
  "db_ready sq d \<longleftrightarrow> db_open d \<and> (\<forall>n. sq_ok sq n \<and> sq_stops sq n = None)"

lemma run_stmt_ready: "db_ready sq d \<Longrightarrow> fst (run_stmt sq f d) = f (d\<lparr>db_stmts := Suc (db_stmts d)\<rparr>)"
  by (simp add: run_stmt_def db_ready_def Let_def)

lemma insert_ready:
  assumes "db_ready sq d"
  shows "pump_snapshots (fst (db_insert_snapshot sq r d)) = pump_snapshots d @ [r]"
    and "pump_snapshots (fst (db_insert_command sq i st t src d)) = pump_snapshots d"
    and "pump_snapshots (fst (db_insert_feedback sq i st t d)) = pump_snapshots d"
    and "pump_snapshots (fst (db_insert_gateway_status sq on dev fw t d)) = pump_snapshots d"
    and "db_ready sq (fst (db_insert_snapshot sq r d))"
    and "db_ready sq (fst (db_insert_command sq i st t src d))"
    and "db_ready sq (fst (db_insert_feedback sq i st t d))"
    and "db_ready sq (fst (db_insert_gateway_status sq on dev fw t d))"
  using assms
  by (simp_all add: db_insert_snapshot_def db_insert_command_def db_insert_feedback_def
      db_insert_gateway_status_def run_stmt_def db_ready_def Let_def)

text \<open>The snapshots an update adds: the new state, when a value is taken to have changed.\<close>

definition snapshot_added :: "server \<Rightarrow> server \<Rightarrow> bool \<Rightarrow> bool" where
  "snapshot_added sv sv' changed \<longleftrightarrow>
     pump_snapshots (database sv') =
       pump_snapshots (database sv) @ (if changed then [snapshot_of (current_pump_status sv')] else [])"

lemma update_snapshots:
  assumes "db_ready sq (database sv)"
  shows "snapshot_added sv (update_pump_status sq now i st sv)
      ((if i = 1 then ps_pump1 (previous_pump_status sv) else ps_pump2 (previous_pump_status sv)) \<noteq> st)"
    and "snapshot_added sv (update_pump_feedback sq now i f sv)
      ((if i = 1 then ps_status1 (previous_pump_status sv) else ps_status2 (previous_pump_status sv)) \<noteq> valid_status f)"
    and "snapshot_added sv (update_system_status sq now b a sv)
      (ps_busy (previous_pump_status sv) \<noteq> b \<or> ps_alarm (previous_pump_status sv) \<noteq> a)"
    and "snapshot_added sv (update_gateway_heartbeat sq now dev fw g sv) False"
  using assms
  by (simp_all add: snapshot_added_def shared_defs insert_ready)

lemma update_ready:
  assumes "db_ready sq (database sv)"
  shows "db_ready sq (database (update_pump_status sq now i st sv))"
    and "db_ready sq (database (update_pump_feedback sq now i f sv))"
    and "db_ready sq (database (update_system_status sq now b a sv))"
    and "db_ready sq (database (update_gateway_heartbeat sq now dev fw g sv))"
  using assms by (simp_all add: shared_defs insert_ready)

lemma changed_iff_values:
  assumes "detector_ok sv" "i = 1 \<or> i = 2"
  shows "(if i = 1 then ps_pump1 (previous_pump_status sv) else ps_pump2 (previous_pump_status sv)) \<noteq> st \<longleftrightarrow>
      status_values (current_pump_status (update_pump_status sq now i st sv)) \<noteq> status_values (current_pump_status sv)"
    and "(if i = 1 then ps_status1 (previous_pump_status sv) else ps_status2 (previous_pump_status sv)) \<noteq> valid_status f \<longleftrightarrow>
      status_values (current_pump_status (update_pump_feedback sq now i f sv)) \<noteq> status_values (current_pump_status sv)"
  using assms
  by (auto simp: detector_ok_def status_values_eq_iff update_current set_pump_def set_status_def)

section \<open>Ranges\<close>

definition status_range :: "c_int \<Rightarrow> bool" where
  "status_range w \<longleftrightarrow> 0 \<le> sint w \<and> sint w \<le> 3"

lemma valid_status_range: "status_range (valid_status w)"
  by (simp add: status_range_def valid_status_def)

definition values_in_range :: "pump_status \<Rightarrow> bool" where
  "values_in_range p \<longleftrightarrow>
     status_range (ps_status1 p) \<and> status_range (ps_status2 p) \<and>
     0 \<le> sint (ps_busy p) \<and> sint (ps_busy p) \<le> 2 \<and> 0 \<le> sint (ps_alarm p) \<and> sint (ps_alarm p) \<le> 1"

lemma update_in_range:
  assumes "values_in_range (current_pump_status sv)"
  shows "values_in_range (current_pump_status (update_pump_status sq now i st sv))"
    and "values_in_range (current_pump_status (update_pump_feedback sq now i f sv))"
    and "0 \<le> sint b \<Longrightarrow> sint b \<le> 2 \<Longrightarrow> 0 \<le> sint a \<Longrightarrow> sint a \<le> 1 \<Longrightarrow>
      values_in_range (current_pump_status (update_system_status sq now b a sv))"
    and "values_in_range (current_pump_status (update_gateway_heartbeat sq now dev fw g sv))"
  using assms valid_status_range [of f]
  by (auto simp: update_current values_in_range_def set_pump_def set_status_def)

section \<open>The gateway's buffers\<close>

definition gateway_ok :: "gateway \<Rightarrow> bool" where
  "gateway_ok g \<longleftrightarrow>
     length (gw_device g) = 64 \<and> last (gw_device g) = nul \<and>
     length (gw_firmware g) = 32 \<and> last (gw_firmware g) = nul"

lemma gateway_ok_copy:
  "gateway_ok g \<Longrightarrow> gateway_ok (copy_device v g)" "gateway_ok g \<Longrightarrow> gateway_ok (copy_firmware v g)"
  by (auto simp: gateway_ok_def copy_device_def copy_firmware_def strncpy_length strncpy_last split: option.split)

lemma empty_gateway_ok: "gateway_ok empty_gateway"
  by (simp add: gateway_ok_def empty_gateway_def)

lemma gateway_ok_update:
  assumes "gateway_ok (gateway_hw_status sv)"
  shows "gateway_ok (gateway_hw_status (update_gateway_heartbeat sq now dev fw g sv))"
proof -
  have "gateway_ok ((gateway_hw_status sv)\<lparr>gw_online := 1, gw_reported := g, gw_seen := now\<rparr>)"
    using assms by (simp add: gateway_ok_def)
  then show ?thesis by (simp add: shared_defs gateway_ok_copy)
qed

lemma update_gateway_unchanged:
  "gateway_hw_status (update_pump_status sq now i st sv) = gateway_hw_status sv"
  "gateway_hw_status (update_pump_feedback sq now i f sv) = gateway_hw_status sv"
  "gateway_hw_status (update_system_status sq now b a sv) = gateway_hw_status sv"
  by (simp_all add: shared_defs)

lemma heartbeat_firmware:
  assumes "gateway_ok (gateway_hw_status sv)" "nul \<notin> set s"
  shows "c_string (gw_firmware (gateway_hw_status (update_gateway_heartbeat sq now dev (Some s) g sv))) = take 31 s"
proof -
  have "gateway_ok (copy_device dev ((gateway_hw_status sv)\<lparr>gw_online := 1, gw_reported := g, gw_seen := now\<rparr>))"
    using assms(1) by (intro gateway_ok_copy) (simp add: gateway_ok_def)
  then show ?thesis
    using strncpy_c_string [OF _ _ assms(2), of _ 31]
    by (simp add: shared_defs copy_firmware_def gateway_ok_def)
qed

section \<open>Properties\<close>

text \<open>
  C34. The ring of recent states is a log of the last 100: after any sequence of
  \<^verbatim>\<open>add_pump_history\<close> calls it holds the last 100 states, in order.
\<close>

theorem ring_keeps_last_100:
  "ring_view (fold ring_add xs empty_ring) = last_n 100 xs \<and> ring_ok (fold ring_add xs empty_ring)"
  using ring.view_fold [OF empty_ring_ok(1), of xs] ring.ok_fold [OF empty_ring_ok(1), of xs]
  by (simp add: empty_ring_ok MAX_HISTORY_def)

lemma insert_gateway_ready:
  "db_ready sq d \<Longrightarrow> gateway_history (fst (db_insert_gateway_status sq on dev fw t d)) = gateway_history d @
     [\<lparr>gr_online = on, gr_device = (case dev of None \<Rightarrow> [] | Some s \<Rightarrow> s),
       gr_firmware = (case fw of None \<Rightarrow> [] | Some s \<Rightarrow> s), gr_time = t\<rparr>]"
  by (simp add: db_insert_gateway_status_def run_stmt_def db_ready_def Let_def)

lemma heartbeat_again:
  assumes "gw_seen (gateway_hw_status sv) \<noteq> 0" "gw_reported (gateway_hw_status sv) = g"
    "gw_online (gateway_hw_status sv) = 1" "db_ready sq (database sv)"
  shows "gateway_history (database (update_gateway_heartbeat sq now dev (Some s) g sv)) =
    gateway_history (database sv) @
      (if c_string (gw_firmware (gateway_hw_status sv)) = s then []
       else [\<lparr>gr_online = 1, gr_device = (case dev of None \<Rightarrow> [] | Some x \<Rightarrow> x), gr_firmware = s, gr_time = now\<rparr>])"
  using assms
  by (auto simp: shared_defs insert_gateway_ready copy_device_def copy_firmware_def split: option.split)

text \<open>
  A repeated heartbeat is recorded again exactly when its firmware text is longer than the 31
  characters the buffer keeps: then the stored text never equals the reported one, and every single
  heartbeat adds a row, although nothing changed.
\<close>

theorem repeated_heartbeat_rows:
  assumes "gateway_ok (gateway_hw_status sv)" "nul \<notin> set s" "db_ready sq (database sv)" "t1 \<noteq> 0"
  shows "let sv1 = update_gateway_heartbeat sq t1 dev (Some s) g sv;
      sv2 = update_gateway_heartbeat sq t2 dev (Some s) g sv1
    in length (gateway_history (database sv2)) = length (gateway_history (database sv1)) + (if length s \<le> 31 then 0 else 1)"
proof -
  let ?sv1 = "update_gateway_heartbeat sq t1 dev (Some s) g sv"
  have fields: "gw_seen (gateway_hw_status ?sv1) = t1" "gw_reported (gateway_hw_status ?sv1) = g"
    "gw_online (gateway_hw_status ?sv1) = 1"
    by (simp_all add: shared_defs copy_device_def copy_firmware_def split: option.split)
  have fw: "c_string (gw_firmware (gateway_hw_status ?sv1)) = take 31 s"
    by (rule heartbeat_firmware [OF assms(1,2)])
  have short: "take 31 s = s \<longleftrightarrow> length s \<le> 31" by simp
  show ?thesis
    unfolding Let_def
    by (subst heartbeat_again [OF _ fields(2,3) update_ready(4) [OF assms(3)]])
      (simp_all only: fields(1) assms(4) fw short not_False_eq_True, simp)
qed

theorem repeated_heartbeat_rows_witness:
  "let sv1 = update_gateway_heartbeat sqlite_model 5 None (Some (replicate 32 CHR ''v'')) 1 (initial_server fresh_database);
      sv2 = update_gateway_heartbeat sqlite_model 9 None (Some (replicate 32 CHR ''v'')) 1 sv1
    in length (gateway_history (database sv2)) = length (gateway_history (database sv1)) + 1"
proof -
  have "gateway_ok (gateway_hw_status (initial_server fresh_database))" "nul \<notin> set (replicate 32 CHR ''v'')"
    by (simp_all add: initial_server_def empty_gateway_ok nul_def)
  moreover have "db_ready sqlite_model (database (initial_server fresh_database))"
    by (simp add: initial_server_def db_ready_def sqlite_model_def fresh_database_def db_init_def)
  ultimately show ?thesis
    using repeated_heartbeat_rows [of "initial_server fresh_database" "replicate 32 CHR ''v''" sqlite_model 5 None 1 9]
    by simp
qed

lemma unknown_pump_step:
  fixes t :: c_long
  assumes "i \<noteq> 1" "i \<noteq> 2" "ps_pump2 (previous_pump_status sv) \<noteq> st" "db_ready sq (database sv)"
  defines "sv' \<equiv> update_pump_status sq t i st sv"
  shows "pump_snapshots (database sv') = pump_snapshots (database sv) @ [snapshot_of ((current_pump_status sv)\<lparr>ps_time := t\<rparr>)]"
    and "current_pump_status sv' = (current_pump_status sv)\<lparr>ps_time := t\<rparr>"
    and "previous_pump_status sv' = previous_pump_status sv" and "db_ready sq (database sv')"
  using assms(1-4) update_snapshots(1) [OF assms(4), of t i st] update_ready(1) [OF assms(4), of t i st]
  by (simp_all add: sv'_def snapshot_added_def update_current set_pump_def)
    (simp add: shared_defs set_pump_def)

text \<open>
  A command for a pump that does not exist is recorded as a change of pump 2: as long as its
  state differs from pump 2's, every repetition adds a snapshot, although no value of the state changes.
\<close>

theorem unknown_pump_fills_history:
  assumes "i \<noteq> 1" "i \<noteq> 2" "ps_pump2 (previous_pump_status sv) \<noteq> st" "db_ready sq (database sv)"
  shows "pump_snapshots (database ((update_pump_status sq t i st ^^ n) sv)) =
      pump_snapshots (database sv) @ replicate n (snapshot_of ((current_pump_status sv)\<lparr>ps_time := t\<rparr>)) \<and>
    status_values (current_pump_status ((update_pump_status sq t i st ^^ n) sv)) = status_values (current_pump_status sv)"
  using assms(3,4)
proof (induction n arbitrary: sv)
  case (Suc n)
  note step = unknown_pump_step [OF assms(1,2) Suc.prems, of t]
  have "pump_snapshots (database ((update_pump_status sq t i st ^^ n) (update_pump_status sq t i st sv))) =
      pump_snapshots (database sv) @ replicate (Suc n) (snapshot_of ((current_pump_status sv)\<lparr>ps_time := t\<rparr>))"
    using Suc.IH [of "update_pump_status sq t i st sv"] Suc.prems step by simp
  moreover have "status_values (current_pump_status ((update_pump_status sq t i st ^^ n) (update_pump_status sq t i st sv))) =
      status_values (current_pump_status sv)"
    using Suc.IH [of "update_pump_status sq t i st sv"] Suc.prems step by (simp add: status_values_def)
  ultimately show ?case by (simp only: funpow_Suc_right comp_def)
qed simp

lemma fresh_previous:
  "ps_pump2 (previous_pump_status (initial_server fresh_database)) = 0"
  "pump_snapshots (database (initial_server fresh_database)) = []"
  by (simp_all add: initial_server_def zero_status_def fresh_database_def db_init_def)

theorem unknown_pump_fills_history_witness:
  "length (pump_snapshots (database ((update_pump_status sqlite_model 7 3 1 ^^ 50) (initial_server fresh_database)))) = 50"
proof -
  have "db_ready sqlite_model (database (initial_server fresh_database))"
    by (simp add: initial_server_def db_ready_def sqlite_model_def fresh_database_def db_init_def)
  then show ?thesis
    using unknown_pump_fills_history [where i = 3 and sv = "initial_server fresh_database" and st = 1 and
        sq = sqlite_model and t = 7 and n = 50]
    by (simp add: fresh_previous)
qed

end
