(* ===== verification/MqttHandler.thy ===== *)
theory MqttHandler
  imports SharedState
begin

text \<open>
  \<^verbatim>\<open>src/mqtt.c\<close>: the subscriber's message callback and the payload the publisher sends. The JSON
  library is the parameter \<open>jc\<close>: \<^verbatim>\<open>json_tokener_parse\<close>, \<^verbatim>\<open>json_object_object_get_ex\<close>,
  \<^verbatim>\<open>json_object_get_int\<close> and \<^verbatim>\<open>json_object_get_string\<close>.
\<close>

record jsonc =
  jc_parse :: "string \<Rightarrow> json option"
  jc_get :: "json \<Rightarrow> string \<Rightarrow> json option"
  jc_int :: "json \<Rightarrow> c_int"
  jc_string :: "json \<Rightarrow> string option"

text \<open>Objects of strings, numbers of 64 bits and literals, without nesting.\<close>

fun flat_value :: "json \<Rightarrow> bool" where
  "flat_value (JStr s) = plain s"
| "flat_value (JNum n) = (- (2 ^ 63) \<le> n \<and> n < 2 ^ 63)"
| "flat_value (JArr _) = False"
| "flat_value (JObj _) = False"
| "flat_value _ = True"

definition flat_members :: "(string \<times> json) list \<Rightarrow> bool" where
  "flat_members kvs \<longleftrightarrow> list_all (\<lambda>(k, v). plain k \<and> flat_value v) kvs"

lemma flat_value_plain: "flat_value v \<Longrightarrow> plain_json v"
  by (cases v) simp_all

lemma flat_members_plain: "flat_members kvs \<Longrightarrow> plain_members kvs"
  by (induction kvs) (auto simp: flat_members_def flat_value_plain)

text \<open>
  What json-c documents, as far as it is used: flat objects parse to what they say, a member is found
  by its name, a number in the range of \<^verbatim>\<open>int\<close> is read as it is, a string is read as it is.
\<close>

locale json_c =
  fixes jc :: jsonc
  assumes parse_flat: "flat_members kvs \<Longrightarrow> jc_parse jc (json_text (JObj kvs)) = Some (JObj kvs)"
    and get_member: "jc_get jc (JObj kvs) k = map_of (rev kvs) k"
    and int_num: "- 2147483648 \<le> n \<Longrightarrow> n \<le> 2147483647 \<Longrightarrow> jc_int jc (JNum n) = word_of_int n"
    and string_str: "nul \<notin> set s \<Longrightarrow> jc_string jc (JStr s) = Some s"
begin

text \<open>A client's reading of one number member of a flat object text.\<close>

lemma read_int_member:
  assumes "flat_members kvs" "map_of (rev kvs) k = Some (JNum n)" "- 2147483648 \<le> n" "n \<le> 2147483647"
  shows "map_option (jc_int jc) (Option.bind (jc_parse jc (json_text (JObj kvs))) (\<lambda>j. jc_get jc j k)) =
    Some (word_of_int n)"
  using assms parse_flat [of kvs] by (simp add: get_member int_num)

end

text \<open>The functions of this development read the same way.\<close>

definition jsonc_model :: jsonc where
  "jsonc_model =
     \<lparr>jc_parse = (\<lambda>s. case json_parse s of Some JNull \<Rightarrow> None | r \<Rightarrow> r), jc_get = (\<lambda>j k. json_field k j),
      jc_int = (\<lambda>j. case j of JNum n \<Rightarrow> word_of_int (max (- 2147483648) (min 2147483647 n))
                       | JBool b \<Rightarrow> (if b then 1 else 0) | _ \<Rightarrow> 0),
      jc_string = (\<lambda>j. case j of JNull \<Rightarrow> None | JStr s \<Rightarrow> Some (c_string s)
                          | _ \<Rightarrow> Some (json_text j))\<rparr>"

interpretation jsonc_model: json_c jsonc_model
  by standard (use json_parse_text [of "JObj _"] in
    \<open>simp_all add: jsonc_model_def json_field_def c_string_id flat_members_plain del: json_text.simps\<close>)

section \<open>The message callback\<close>

text \<open>\<^verbatim>\<open>snprintf(payload, 1024, "%.*s", len, data)\<close>.\<close>

definition payload_text :: "string \<Rightarrow> string" where
  "payload_text data = snprintf_text 1024 (c_string data)"

definition on_heartbeat :: "sqlite \<Rightarrow> jsonc \<Rightarrow> c_long \<Rightarrow> string \<Rightarrow> server \<Rightarrow> server" where
  "on_heartbeat sq jc now payload sv =
     (case jc_parse jc payload of None \<Rightarrow> sv
      | Some j \<Rightarrow>
         (let device = Option.bind (jc_get jc j ''device_id'') (jc_string jc);
              fw = Option.bind (jc_get jc j ''firmware'') (jc_string jc);
              status = (case jc_get jc j ''status'' of None \<Rightarrow> 1 | Some v \<Rightarrow> jc_int jc v)
          in update_gateway_heartbeat sq now device fw status sv))"

definition on_control :: "sqlite \<Rightarrow> jsonc \<Rightarrow> c_long \<Rightarrow> string \<Rightarrow> server \<Rightarrow> server" where
  "on_control sq jc now payload sv =
     (case jc_parse jc payload of None \<Rightarrow> sv
      | Some j \<Rightarrow>
         (case (jc_get jc j ''pump_id'', jc_get jc j ''state'') of
            (Some i, Some st) \<Rightarrow> update_pump_status sq now (jc_int jc i) (jc_int jc st) sv
          | _ \<Rightarrow> sv))"

text \<open>A member that is present and valid; other values are ignored.\<close>

definition checked_int :: "jsonc \<Rightarrow> int \<Rightarrow> json \<Rightarrow> string \<Rightarrow> c_int option" where
  "checked_int jc hi j k =
     (case jc_get jc j k of None \<Rightarrow> None
      | Some v \<Rightarrow> if 0 \<le> sint (jc_int jc v) \<and> sint (jc_int jc v) \<le> hi then Some (jc_int jc v) else None)"

text \<open>The status part, then the busy and alarm part; each reads the clock itself.\<close>

definition feedback_status_part :: "sqlite \<Rightarrow> jsonc \<Rightarrow> c_long \<Rightarrow> json \<Rightarrow> server \<Rightarrow> server" where
  "feedback_status_part sq jc now j sv =
     (case (jc_get jc j ''pump_id'', jc_get jc j ''status'') of
        (Some i, Some st) \<Rightarrow>
          (if 0 \<le> sint (jc_int jc st) \<and> sint (jc_int jc st) \<le> 3
           then update_pump_feedback sq now (jc_int jc i) (jc_int jc st) sv else sv)
      | _ \<Rightarrow> sv)"

definition on_feedback :: "sqlite \<Rightarrow> jsonc \<Rightarrow> c_long \<Rightarrow> c_long \<Rightarrow> string \<Rightarrow> server \<Rightarrow> server" where
  "on_feedback sq jc now now2 payload sv =
     (case jc_parse jc payload of None \<Rightarrow> sv
      | Some j \<Rightarrow>
         (let sv1 = feedback_status_part sq jc now j sv;
              b = checked_int jc 2 j ''busy'';
              a = checked_int jc 1 j ''alarm''
          in if b = None \<and> a = None then sv1
             else update_system_status sq now2
               (case b of None \<Rightarrow> ps_busy (current_pump_status sv1) | Some v \<Rightarrow> v)
               (case a of None \<Rightarrow> ps_alarm (current_pump_status sv1) | Some v \<Rightarrow> v) sv1))"

definition mqtt_message_arrived ::
  "sqlite \<Rightarrow> jsonc \<Rightarrow> c_long \<Rightarrow> c_long \<Rightarrow> string \<Rightarrow> string \<Rightarrow> server \<Rightarrow> server" where
  "mqtt_message_arrived sq jc now now2 topic data sv =
     (let payload = payload_text data in
      if topic = ''gateway/heartbeat'' then on_heartbeat sq jc now payload sv
      else if topic = ''pump/control'' then on_control sq jc now payload sv
      else if topic = ''pump/feedback'' then on_feedback sq jc now now2 payload sv
      else sv)"

text \<open>The subscriber's topics.\<close>

definition subscribed_topics :: "string list" where
  "subscribed_topics = [''gateway/heartbeat'', ''pump/control'', ''pump/feedback'']"

section \<open>The publisher\<close>

definition publish_payload :: "pump_status \<Rightarrow> string" where
  "publish_payload p =
     snprintf_text 256
      (''{\"pump1\":'' @ c_dec (ps_pump1 p) @ '',\"pump1_status\":'' @ c_dec (ps_status1 p) @
       '',\"pump2\":'' @ c_dec (ps_pump2 p) @ '',\"pump2_status\":'' @ c_dec (ps_status2 p) @
       '',\"busy\":'' @ c_dec (ps_busy p) @ '',\"alarm\":'' @ c_dec (ps_alarm p) @
       '',\"timestamp\":'' @ c_dec (ps_time p) @ ''}'')"

section \<open>Facts\<close>

lemma publish_payload_json: "publish_payload p = json_text (row_json (snapshot_of p))"
proof -
  have "publish_payload p = snprintf_text 256 (row_text (snapshot_of p))"
    by (simp add: publish_payload_def row_text_def snapshot_of_def)
  then show ?thesis using row_text_length [of "snapshot_of p"] by (simp add: snprintf_fits row_text_json)
qed

lemma payload_text_short: "length s < 1024 \<Longrightarrow> nul \<notin> set s \<Longrightarrow> payload_text s = s"
proof -
  assume "length s < 1024" "nul \<notin> set s"
  moreover from this have "c_string s = s" by (auto simp: c_string_def)
  ultimately show ?thesis by (simp add: payload_text_def snprintf_fits)
qed

lemma checked_int_range: "checked_int jc hi j k = Some v \<Longrightarrow> 0 \<le> sint v \<and> sint v \<le> hi"
  by (auto simp: checked_int_def split: option.splits if_splits)

text \<open>
  A message is a sequence of updates with checked arguments: what holds initially and is kept by
  every such update is kept by every message.
\<close>

lemma message_preserves:
  assumes P: "P sv"
    and status: "\<And>s t i st. P s \<Longrightarrow> P (update_pump_status sq t i st s)"
    and feedback: "\<And>s t i f. P s \<Longrightarrow> P (update_pump_feedback sq t i f s)"
    and system: "\<And>s t b a. P s \<Longrightarrow>
      (0 \<le> sint b \<and> sint b \<le> 2 \<or> b = ps_busy (current_pump_status s)) \<Longrightarrow>
      (0 \<le> sint a \<and> sint a \<le> 1 \<or> a = ps_alarm (current_pump_status s)) \<Longrightarrow> P (update_system_status sq t b a s)"
    and beat: "\<And>s t d f g. P s \<Longrightarrow> P (update_gateway_heartbeat sq t d f g s)"
  shows "P (mqtt_message_arrived sq jc now now2 topic data sv)"
proof -
  have "P (on_feedback sq jc now now2 p sv)" for p
  proof (cases "jc_parse jc p")
    case (Some j)
    let ?sv1 = "feedback_status_part sq jc now j sv"
    have "P ?sv1" using P feedback by (auto simp: feedback_status_part_def split: option.split)
    then have "P (update_system_status sq now2
        (case checked_int jc 2 j ''busy'' of None \<Rightarrow> ps_busy (current_pump_status ?sv1) | Some v \<Rightarrow> v)
        (case checked_int jc 1 j ''alarm'' of None \<Rightarrow> ps_alarm (current_pump_status ?sv1) | Some v \<Rightarrow> v) ?sv1)"
      by (rule system) (auto split: option.split dest: checked_int_range)
    with Some \<open>P ?sv1\<close> show ?thesis by (simp add: on_feedback_def Let_def)
  qed (simp add: on_feedback_def P)
  moreover have "P (on_control sq jc now p sv)" for p
    using P status by (auto simp: on_control_def split: option.split)
  moreover have "P (on_heartbeat sq jc now p sv)" for p
    using P beat by (auto simp: on_heartbeat_def Let_def split: option.split)
  ultimately show ?thesis using P by (simp add: mqtt_message_arrived_def Let_def)
qed

section \<open>Properties\<close>

text \<open>
  The status a subscriber gets on \<^verbatim>\<open>pump/status\<close> is never cut off by its buffer of 256 bytes: it
  is the JSON text of the current state and reads back as such.
\<close>

theorem published_status_exact:
  "publish_payload p = json_text (row_json (snapshot_of p)) \<and> length (publish_payload p) < 256 \<and>
    json_parse (publish_payload p) = Some (row_json (snapshot_of p))"
  using row_text_length [of "snapshot_of p"]
  by (simp add: publish_payload_json http_json.dec_enc row_text_json del: json_text.simps)

text \<open>The number a message has under a name, when the name is present.\<close>

definition member_number :: "jsonc \<Rightarrow> json \<Rightarrow> string \<Rightarrow> int option" where
  "member_number jc j k = map_option (\<lambda>v. sint (jc_int jc v)) (jc_get jc j k)"

text \<open>The number under a name when it lies between two bounds, another value otherwise.\<close>

definition number_between :: "int \<Rightarrow> int option \<Rightarrow> int \<Rightarrow> int \<Rightarrow> int" where
  "number_between lo n hi other = (case n of Some v \<Rightarrow> if lo \<le> v \<and> v \<le> hi then v else other | None \<Rightarrow> other)"

lemma sint_one_two: "sint (i :: c_int) = 1 \<longleftrightarrow> i = 1" "sint (i :: c_int) = 2 \<longleftrightarrow> i = 2"
proof -
  have "sint (1 :: c_int) = 1" "sint (2 :: c_int) = 2" by simp_all
  then show "sint i = 1 \<longleftrightarrow> i = 1" "sint i = 2 \<longleftrightarrow> i = 2" by (metis signed_word_eqI)+
qed

lemma status_part_current:
  fixes sv :: server
  defines "p \<equiv> current_pump_status sv"
  shows "let p' = current_pump_status (feedback_status_part sq jc now j sv) in
    ps_pump1 p' = ps_pump1 p \<and> ps_pump2 p' = ps_pump2 p \<and> ps_busy p' = ps_busy p \<and> ps_alarm p' = ps_alarm p \<and>
    sint (ps_status1 p') = (if member_number jc j ''pump_id'' = Some 1
       then number_between 0 (member_number jc j ''status'') 3 (sint (ps_status1 p)) else sint (ps_status1 p)) \<and>
    sint (ps_status2 p') = (if member_number jc j ''pump_id'' = Some 2
       then number_between 0 (member_number jc j ''status'') 3 (sint (ps_status2 p)) else sint (ps_status2 p))"
  by (auto simp: feedback_status_part_def p_def update_current set_status_def valid_status_def member_number_def
      number_between_def sint_one_two Let_def split: option.split)

lemma system_part_current:
  "sint (ps_busy (current_pump_status (on_feedback sq jc now now2 payload sv))) =
      number_between 0 (member_number jc j ''busy'') 2 (sint (ps_busy (current_pump_status sv)))" (is ?busy)
  "sint (ps_alarm (current_pump_status (on_feedback sq jc now now2 payload sv))) =
      number_between 0 (member_number jc j ''alarm'') 1 (sint (ps_alarm (current_pump_status sv)))" (is ?alarm)
  if "jc_parse jc payload = Some j"
proof -
  note part = status_part_current [of sq jc now j sv, unfolded Let_def]
  show ?busy ?alarm
    using part that by (auto simp: on_feedback_def checked_int_def update_current member_number_def number_between_def
        Let_def split: option.split)
qed

text \<open>
  C31. What a feedback message on MQTT does to the state, for every JSON text that json-c accepts: the
  hardware state of pump 1 (or 2) becomes the number under \<open>status\<close> exactly when that number is one of
  0 to 3 and the one under \<open>pump_id\<close> is 1 (or 2), and stays otherwise, so also when the status is
  negative or above 3; the busy value becomes the number under \<open>busy\<close> exactly when it is one of 0 to 2, the
  alarm the number under \<open>alarm\<close> exactly when it is 0 or 1, and both stay otherwise; the
  commanded states never change.
\<close>

theorem feedback_message_checked:
  assumes "jc_parse jc payload = Some j"
  shows "let p = current_pump_status sv; p' = current_pump_status (on_feedback sq jc now now2 payload sv);
      number = member_number jc j in
    sint (ps_status1 p') = (if number ''pump_id'' = Some 1 \<and> (\<exists>v \<in> {0, 1, 2, 3}. number ''status'' = Some v)
      then the (number ''status'') else sint (ps_status1 p)) \<and>
    sint (ps_status2 p') = (if number ''pump_id'' = Some 2 \<and> (\<exists>v \<in> {0, 1, 2, 3}. number ''status'' = Some v)
      then the (number ''status'') else sint (ps_status2 p)) \<and>
    sint (ps_busy p') = (if \<exists>v \<in> {0, 1, 2}. number ''busy'' = Some v then the (number ''busy'') else sint (ps_busy p)) \<and>
    sint (ps_alarm p') = (if \<exists>v \<in> {0, 1}. number ''alarm'' = Some v then the (number ''alarm'') else sint (ps_alarm p)) \<and>
    ps_pump1 p' = ps_pump1 p \<and> ps_pump2 p' = ps_pump2 p"
proof -
  let ?p = "current_pump_status sv" and ?p' = "current_pump_status (on_feedback sq jc now now2 payload sv)"
  let ?p1 = "current_pump_status (feedback_status_part sq jc now j sv)"
  have between: "number_between 0 n 3 x = (if \<exists>v \<in> {0, 1, 2, 3}. n = Some v then the n else x)"
    "number_between 0 n 2 x = (if \<exists>v \<in> {0, 1, 2}. n = Some v then the n else x)"
    "number_between 0 n 1 x = (if \<exists>v \<in> {0, 1}. n = Some v then the n else x)" for n x
    by (auto simp: number_between_def split: option.split)
  have same: "ps_pump1 ?p' = ps_pump1 ?p1" "ps_pump2 ?p' = ps_pump2 ?p1" "ps_status1 ?p' = ps_status1 ?p1"
    "ps_status2 ?p' = ps_status2 ?p1"
    using assms by (simp_all add: on_feedback_def update_current Let_def)
  note part = status_part_current [of sq jc now j sv, unfolded Let_def]
  show ?thesis
    using part system_part_current [OF assms, of sq now now2 sv] by (simp add: Let_def same between)
qed

theorem feedback_message_checked_witness:
  "ps_status1 (current_pump_status (on_feedback sqlite_model jsonc_model 1 1
     ''{\"pump_id\":1,\"status\":-1,\"busy\":2,\"alarm\":2}'' (initial_server fresh_database))) = 0 \<and>
   ps_busy (current_pump_status (on_feedback sqlite_model jsonc_model 1 1
     ''{\"pump_id\":1,\"status\":-1,\"busy\":2,\"alarm\":2}'' (initial_server fresh_database))) = 2"
proof -
  let ?t = "''{\"pump_id\":1,\"status\":-1,\"busy\":2,\"alarm\":2}''"
  let ?j = "JObj [(''pump_id'', JNum 1), (''status'', JNum (-1)), (''busy'', JNum 2), (''alarm'', JNum 2)]"
  have parse: "jc_parse jsonc_model ?t = Some ?j" by (simp add: jsonc_model_def, code_simp)
  have "member_number jsonc_model ?j ''status'' = Some (-1)" "member_number jsonc_model ?j ''busy'' = Some 2"
    by (simp_all add: jsonc_model_def json_field_def member_number_def)
  then have "sint (ps_status1 (current_pump_status (on_feedback sqlite_model jsonc_model 1 1 ?t (initial_server fresh_database)))) = 0"
    "sint (ps_busy (current_pump_status (on_feedback sqlite_model jsonc_model 1 1 ?t (initial_server fresh_database)))) = 2"
    using feedback_message_checked [OF parse, of "initial_server fresh_database" sqlite_model 1 1]
    by (simp_all add: Let_def initial_server_def zero_status_def)
  moreover have "sint (0 :: c_int) = 0" "sint (2 :: c_int) = 2" by simp_all
  ultimately show ?thesis by (metis signed_word_eqI)
qed

end
