(* ===== verification/HttpApi.thy ===== *)
theory HttpApi
  imports MqttHandler
begin

text \<open>
  \<^verbatim>\<open>src/http_api.c\<close>: the handlers of the REST endpoints and \<^verbatim>\<open>handle_request\<close>, which collects the body
  of a POST in a buffer of 1024 bytes and routes the request. What libmicrohttpd hands over is an
  argument: the method, the path, the query arguments and the pieces of the body.
\<close>

section \<open>Handlers\<close>

record mqtt_message =
  mm_topic :: string
  mm_payload :: string
  mm_qos :: nat
  mm_retained :: bool

definition control_message :: "string \<Rightarrow> mqtt_message" where
  "control_message payload =
     \<lparr>mm_topic = ''pump/control'', mm_payload = payload, mm_qos = 1, mm_retained = False\<rparr>"

text \<open>\<open>sent\<close> is the result of publishing; \<open>sv\<close> the state after the pause of 100 ms.\<close>

definition handle_pump_control :: "bool \<Rightarrow> server \<Rightarrow> string" where
  "handle_pump_control sent sv =
     (if \<not> sent then ''{\"status\":\"error\"}''
      else snprintf_text 1024
        (''{\"status\":\"sent\",\"current_state\":{\"pump1\":'' @ c_dec (ps_pump1 (current_pump_status sv)) @
         '',\"pump2\":'' @ c_dec (ps_pump2 (current_pump_status sv)) @ ''}}''))"

definition handle_pump_feedback :: "sqlite \<Rightarrow> jsonc \<Rightarrow> c_long \<Rightarrow> string \<Rightarrow> server \<Rightarrow> server \<times> nat" where
  "handle_pump_feedback sq jc now payload sv =
     (case jc_parse jc payload of None \<Rightarrow> (sv, 400)
      | Some j \<Rightarrow>
         (case (jc_get jc j ''pump_id'', jc_get jc j ''status'') of
            (Some i, Some st) \<Rightarrow> (update_pump_feedback sq now (jc_int jc i) (jc_int jc st) sv, 200)
          | _ \<Rightarrow> (sv, 400)))"

definition gateway_is_online :: "c_long \<Rightarrow> gateway \<Rightarrow> bool" where
  "gateway_is_online now g \<longleftrightarrow> sint (now - gw_seen g) < 30 \<and> gw_online g \<noteq> 0"

definition handle_gateway_status :: "c_long \<Rightarrow> server \<Rightarrow> string" where
  "handle_gateway_status now sv =
     (let g = gateway_hw_status sv in
      snprintf_text 1024
        (''{\"status\":'' @ c_dec (gw_reported g) @ '',\"is_online\":'' @
         int_dec (if gateway_is_online now g then 1 else 0) @
         '',\"device_id\":\"'' @ c_string (gw_device g) @ ''\",\"firmware\":\"'' @ c_string (gw_firmware g) @
         ''\",\"last_seen\":'' @ c_dec (gw_seen g) @ ''}''))"

definition handle_pump_status :: "server \<Rightarrow> string" where
  "handle_pump_status sv =
     (let p = current_pump_status sv in
      snprintf_text 1024
       (''{\"pump1\":'' @ c_dec (ps_pump1 p) @ '',\"pump1_status\":'' @ c_dec (ps_status1 p) @
        '',\"pump2\":'' @ c_dec (ps_pump2 p) @ '',\"pump2_status\":'' @ c_dec (ps_status2 p) @
        '',\"busy\":'' @ c_dec (ps_busy p) @ '',\"alarm\":'' @ c_dec (ps_alarm p) @
        '',\"timestamp\":'' @ c_dec (ps_time p) @ ''}''))"

section \<open>Query arguments\<close>

record query_params =
  limit_str :: "string option"
  from_str :: "string option"
  to_str :: "string option"

definition get_query_iterator :: "string \<times> string option \<Rightarrow> query_params \<Rightarrow> query_params" where
  "get_query_iterator kv params =
     (case kv of (key, v) \<Rightarrow>
       if key = ''limit'' then params\<lparr>limit_str := v\<rparr>
       else if key = ''from'' then params\<lparr>from_str := v\<rparr>
       else if key = ''to'' then params\<lparr>to_str := v\<rparr> else params)"

definition collect_params :: "(string \<times> string option) list \<Rightarrow> query_params" where
  "collect_params args = fold get_query_iterator args \<lparr>limit_str = None, from_str = None, to_str = None\<rparr>"

definition query_limit :: "query_params \<Rightarrow> c_int" where
  "query_limit params =
     (let l0 = (case limit_str params of None \<Rightarrow> 1000 | Some s \<Rightarrow> c_atoi s);
          l1 = (if sint l0 > 5000 then 5000 else l0)
      in if sint l1 < 1 then 1000 else l1)"

definition query_time :: "string option \<Rightarrow> c_long" where
  "query_time v = (case v of None \<Rightarrow> 0 | Some s \<Rightarrow> c_atoll s)"

definition handle_pump_history :: "sqlite \<Rightarrow> (string \<times> string option) list \<Rightarrow> server \<Rightarrow> string" where
  "handle_pump_history sq args sv =
     (let params = collect_params args;
          (out, rc) = db_get_history_filtered sq 512000 (query_limit params)
            (query_time (from_str params)) (query_time (to_str params)) (database sv)
      in if rc \<noteq> 0 then ''{\"error\":\"Database failed\"}'' else out)"

section \<open>Requests\<close>

text \<open>
  \<^verbatim>\<open>strncat\<close> of one piece of the body to the buffer of 1024 bytes: \<open>None\<close> when the text and its NUL do
  not fit, that is, when the code writes past the end of the buffer.
\<close>

definition post_chunk :: "string \<Rightarrow> string \<Rightarrow> string option" where
  "post_chunk buf data =
     (let txt = buf @ c_string data in if length txt + 1 \<le> 1024 then Some txt else None)"

fun collect_body :: "string \<Rightarrow> string list \<Rightarrow> string option" where
  "collect_body buf [] = Some buf"
| "collect_body buf (d # ds) =
     (case post_chunk buf d of None \<Rightarrow> None | Some b \<Rightarrow> collect_body b ds)"

datatype outcome =
    Respond nat string
  | Refused
  | BufferOverflow

text \<open>The surroundings of a request: allocation, the broker, and what other threads do meanwhile.\<close>

record surroundings =
  malloc_ok :: bool
  publish_ok :: "mqtt_message \<Rightarrow> bool"
  meanwhile :: "server \<Rightarrow> server"

record request =
  rq_method :: string
  rq_url :: string
  rq_args :: "(string \<times> string option) list"
  rq_chunks :: "string list"

text \<open>The new state, the published messages and the outcome.\<close>

definition handle_post ::
  "sqlite \<Rightarrow> jsonc \<Rightarrow> surroundings \<Rightarrow> c_long \<Rightarrow> request \<Rightarrow> server \<Rightarrow> server \<times> mqtt_message list \<times> outcome" where
  "handle_post sq jc env now rq sv =
     (if \<not> malloc_ok env then (sv, [], Refused)
      else case collect_body [] (rq_chunks rq) of None \<Rightarrow> (sv, [], BufferOverflow)
      | Some body \<Rightarrow>
         (if rq_url rq = ''/api/pump/control'' then
            (let m = control_message body; sent = publish_ok env m;
                 sv1 = (if sent then meanwhile env sv else sv)
             in (sv1, (if sent then [m] else []), Respond 200 (handle_pump_control sent sv1)))
          else if rq_url rq = ''/api/pump/feedback'' then
            (let (sv1, code) = handle_pump_feedback sq jc now body sv
             in (sv1, [], Respond code ''{\"status\":\"ok\"}''))
          else (sv, [], Respond 404 ''{\"error\":\"Not found\"}'')))"

definition handle_get :: "sqlite \<Rightarrow> c_long \<Rightarrow> request \<Rightarrow> server \<Rightarrow> outcome" where
  "handle_get sq now rq sv =
     (if rq_url rq = ''/api/pump/status'' then Respond 200 (handle_pump_status sv)
      else if starts_with (rq_url rq) ''/api/pump/history'' then Respond 200 (handle_pump_history sq (rq_args rq) sv)
      else if rq_url rq = ''/api/gateway/status'' then Respond 200 (handle_gateway_status now sv)
      else Respond 404 ''{\"error\":\"Not found\"}'')"

definition handle_request ::
  "sqlite \<Rightarrow> jsonc \<Rightarrow> surroundings \<Rightarrow> c_long \<Rightarrow> request \<Rightarrow> server \<Rightarrow> server \<times> mqtt_message list \<times> outcome" where
  "handle_request sq jc env now rq sv =
     (if rq_method rq = ''OPTIONS'' then (sv, [], Respond 204 [])
      else if rq_method rq = ''POST'' then handle_post sq jc env now rq sv
      else if rq_method rq = ''GET'' then (sv, [], handle_get sq now rq sv)
      else (sv, [], Respond 405 ''{\"error\":\"Not allowed\"}''))"

section \<open>Facts about the handlers\<close>

lemma handle_pump_status_json: "handle_pump_status sv = json_text (row_json (snapshot_of (current_pump_status sv)))"
proof -
  have "handle_pump_status sv = snprintf_text 1024 (row_text (snapshot_of (current_pump_status sv)))"
    by (simp add: handle_pump_status_def row_text_def snapshot_of_def Let_def)
  then show ?thesis
    using row_text_length [of "snapshot_of (current_pump_status sv)"] by (simp add: snprintf_fits row_text_json)
qed

definition gateway_json :: "c_long \<Rightarrow> gateway \<Rightarrow> json" where
  "gateway_json now g =
     JObj [(''status'', JNum (sint (gw_reported g))),
       (''is_online'', JNum (if gateway_is_online now g then 1 else 0)),
       (''device_id'', JStr (c_string (gw_device g))), (''firmware'', JStr (c_string (gw_firmware g))),
       (''last_seen'', JNum (sint (gw_seen g)))]"

lemma c_string_length_ok:
  "gateway_ok g \<Longrightarrow> length (c_string (gw_device g)) \<le> 64 \<and> length (c_string (gw_firmware g)) \<le> 32"
  using c_string_le [of "gw_device g"] c_string_le [of "gw_firmware g"] by (simp add: gateway_ok_def)

lemma handle_gateway_status_json:
  assumes "gateway_ok (gateway_hw_status sv)"
  shows "handle_gateway_status now sv = json_text (gateway_json now (gateway_hw_status sv))"
proof -
  let ?g = "gateway_hw_status sv"
  have "length (json_text (gateway_json now ?g)) \<le> 200"
    using c_dec_length_32 [of "gw_reported ?g"] c_dec_length_64 [of "gw_seen ?g"] c_string_length_ok [OF assms]
    by (simp add: gateway_json_def quoted_def flip: c_dec_def) (auto simp: int_dec_def nat_dec.simps)
  moreover have "handle_gateway_status now sv = snprintf_text 1024 (json_text (gateway_json now ?g))"
    by (simp add: handle_gateway_status_def gateway_json_def quoted_def Let_def flip: c_dec_def)
  ultimately show ?thesis by (simp add: snprintf_fits)
qed

lemma query_limit_range: "1 \<le> sint (query_limit params) \<and> sint (query_limit params) \<le> 5000"
  by (simp add: query_limit_def Let_def)

definition history_selection :: "sqlite \<Rightarrow> (string \<times> string option) list \<Rightarrow> server \<Rightarrow> snapshot list" where
  "history_selection sq args sv =
     (let params = collect_params args
      in select_history sq (query_limit params) (query_time (from_str params)) (query_time (to_str params))
        (database sv))"

lemma handle_pump_history_json:
  assumes "orders_desc sq" "db_ready sq (database sv)"
  shows "handle_pump_history sq args sv =
    json_text (history_json (take (rows_fit 409600 0 (history_selection sq args sv)) (history_selection sq args sv)))"
proof -
  let ?rows = "history_selection sq args sv" and ?l = "query_limit (collect_params args)"
  have l: "1 \<le> sint ?l" "sint ?l \<le> 5000" using query_limit_range by blast+
  then have "length ?rows \<le> 5000"
    using select_history_spec(1) [OF assms(1), of ?l] by (simp add: history_selection_def Let_def)
  then have "write_history 409600 512000 ?rows = (json_text (history_json (take (rows_fit 409600 0 ?rows) ?rows)), 0)"
    by (intro write_history_json) simp_all
  then show ?thesis
    using assms(2)
    by (simp add: handle_pump_history_def db_get_history_filtered_def stepped_rows_def db_ready_def Let_def history_selection_def)
qed

lemma collect_body_eq:
  "collect_body buf ds =
     (if ds = [] \<or> length buf + length (concat (map c_string ds)) \<le> 1023
      then Some (buf @ concat (map c_string ds)) else None)"
proof (induction ds arbitrary: buf)
  case (Cons d ds)
  then show ?case by (auto simp: post_chunk_def Let_def)
qed simp

section \<open>Properties\<close>

text \<open>
  C32. A POST body is collected exactly when it has at most 1023 characters; from 1024 on the code
  writes past the end of its buffer, whatever the path of the request.
\<close>

theorem post_body_limit:
  assumes "malloc_ok env"
  shows "(snd (snd (handle_post sq jc env now rq sv)) = BufferOverflow \<longleftrightarrow>
      1024 \<le> length (concat (map c_string (rq_chunks rq)))) \<and>
    (length (concat (map c_string (rq_chunks rq))) \<le> 1023 \<longrightarrow>
      collect_body [] (rq_chunks rq) = Some (concat (map c_string (rq_chunks rq))))"
  using assms
  by (auto simp: handle_post_def collect_body_eq Let_def split: prod.split)

theorem post_body_limit_witness:
  "snd (snd (handle_post sqlite_model jsonc_model \<lparr>malloc_ok = True, publish_ok = (\<lambda>_. True), meanwhile = (\<lambda>s. s)\<rparr> 0
     \<lparr>rq_method = ''POST'', rq_url = ''/'', rq_args = [], rq_chunks = replicate 2 (replicate 600 CHR ''x'')\<rparr>
     (initial_server fresh_database))) = BufferOverflow"
proof -
  have "c_string (replicate 600 CHR ''x'') = replicate 600 CHR ''x''"
    by (rule c_string_id) (simp add: nul_def)
  then show ?thesis
    by (subst conjunct1 [OF post_body_limit]) (simp_all add: numeral_2_eq_2)
qed

text \<open>
  What a request can do: only a POST publishes or changes the state; it publishes at most one
  message, its own body on \<^verbatim>\<open>pump/control\<close>, and only at that path; only the feedback path changes
  the state itself, and a path or method the server does not know gets 404 or 405.
\<close>

theorem request_effects:
  assumes "handle_request sq jc env now rq sv = (sv', ms, out)" "meanwhile env = (\<lambda>s. s)"
  shows "(rq_method rq \<noteq> ''POST'' \<longrightarrow> sv' = sv \<and> ms = []) \<and>
    (ms \<noteq> [] \<longrightarrow> rq_url rq = ''/api/pump/control'' \<and>
       ms = [control_message (concat (map c_string (rq_chunks rq)))] \<and> publish_ok env (hd ms)) \<and>
    (sv' \<noteq> sv \<longrightarrow> rq_url rq = ''/api/pump/feedback'') \<and>
    (rq_method rq \<notin> {''OPTIONS'', ''POST'', ''GET''} \<longrightarrow> out = Respond 405 ''{\"error\":\"Not allowed\"}'') \<and>
    (rq_method rq = ''GET'' \<and> \<not> starts_with (rq_url rq) ''/api/pump/history'' \<and>
       rq_url rq \<notin> {''/api/pump/status'', ''/api/gateway/status''} \<longrightarrow> out = Respond 404 ''{\"error\":\"Not found\"}'')"
proof -
  have post: "rq_method rq = ''POST'' \<Longrightarrow> handle_post sq jc env now rq sv = (sv', ms, out)"
    using assms(1) by (simp add: handle_request_def)
  have "ms \<noteq> [] \<Longrightarrow> rq_method rq = ''POST''" "sv' \<noteq> sv \<Longrightarrow> rq_method rq = ''POST''"
    using assms(1) by (auto simp: handle_request_def split: if_splits)
  moreover have "rq_method rq = ''POST'' \<Longrightarrow> ms \<noteq> [] \<Longrightarrow> rq_url rq = ''/api/pump/control'' \<and>
       ms = [control_message (concat (map c_string (rq_chunks rq)))] \<and> publish_ok env (hd ms)"
    using post by (auto simp: handle_post_def collect_body_eq Let_def split: if_splits prod.splits)
  moreover have "rq_method rq = ''POST'' \<Longrightarrow> sv' \<noteq> sv \<Longrightarrow> rq_url rq = ''/api/pump/feedback''"
    using post assms(2) by (auto simp: handle_post_def Let_def split: if_splits option.splits)
  ultimately show ?thesis
    using assms(1) by (auto simp: handle_request_def handle_get_def split: if_splits)
qed

theorem request_effects_witness:
  "fst (handle_request sqlite_model jsonc_model \<lparr>malloc_ok = True, publish_ok = (\<lambda>_. True), meanwhile = (\<lambda>s. s)\<rparr> 0
     \<lparr>rq_method = ''GET'', rq_url = ''/api/pump/control'', rq_args = [], rq_chunks = []\<rparr>
     (initial_server fresh_database)) = initial_server fresh_database"
proof -
  let ?env = "\<lparr>malloc_ok = True, publish_ok = (\<lambda>_. True), meanwhile = (\<lambda>s. s)\<rparr>"
  let ?rq = "\<lparr>rq_method = ''GET'', rq_url = ''/api/pump/control'', rq_args = [], rq_chunks = []\<rparr>"
  obtain sv' ms out where rq: "handle_request sqlite_model jsonc_model ?env 0 ?rq (initial_server fresh_database) = (sv', ms, out)"
    by (metis prod_cases3)
  show ?thesis using request_effects [OF rq] by (simp add: rq)
qed

text \<open>
  The feedback endpoint never sets busy or alarm and never refuses a status: it answers 400
  without a change or 200, an out-of-range status is stored as 0 (Unknown), and the body of the
  response says ok in both cases.
\<close>

theorem feedback_endpoint:
  assumes "malloc_ok env" "collect_body [] (rq_chunks rq) = Some body" "rq_url rq = ''/api/pump/feedback''"
    and "handle_post sq jc env now rq sv = (sv', ms, out)"
  shows "\<exists>code. out = Respond code ''{\"status\":\"ok\"}'' \<and>
    (code = 400 \<and> sv' = sv \<or>
     code = 200 \<and> ps_busy (current_pump_status sv') = ps_busy (current_pump_status sv) \<and>
       ps_alarm (current_pump_status sv') = ps_alarm (current_pump_status sv) \<and>
       (\<exists>i st. jc_parse jc body \<noteq> None \<and>
         current_pump_status sv' = (set_status i (if 0 \<le> sint st \<and> sint st \<le> 3 then st else 0)
           (current_pump_status sv))\<lparr>ps_time := now\<rparr>))"
proof -
  obtain code where out: "out = Respond code ''{\"status\":\"ok\"}''" "handle_pump_feedback sq jc now body sv = (sv', code)"
    using assms by (auto simp: handle_post_def split: prod.splits)
  have keep: "ps_busy (set_status i st p) = ps_busy p" "ps_alarm (set_status i st p) = ps_alarm p" for i st p
    by (simp_all add: set_status_def)
  have valid: "valid_status st = (if 0 \<le> sint st \<and> sint st \<le> 3 then st else 0)" for st
    by (auto simp: valid_status_def)
  from out(2) consider "code = 400" "sv' = sv"
    | i st where "code = 200" "jc_parse jc body \<noteq> None" "sv' = update_pump_feedback sq now i st sv"
    by (auto simp: handle_pump_feedback_def split: option.splits)
  then show ?thesis
  proof cases
    case 2
    then have "current_pump_status sv' = (set_status i (if 0 \<le> sint st \<and> sint st \<le> 3 then st else 0)
        (current_pump_status sv))\<lparr>ps_time := now\<rparr>"
      by (simp only: update_current valid)
    with 2 out(1) keep show ?thesis by auto
  qed (use out(1) in simp)
qed

theorem feedback_endpoint_witness:
  "\<exists>code. snd (snd (handle_post sqlite_model jsonc_model
      \<lparr>malloc_ok = True, publish_ok = (\<lambda>_. True), meanwhile = (\<lambda>s. s)\<rparr> 0
      \<lparr>rq_method = ''POST'', rq_url = ''/api/pump/feedback'', rq_args = [], rq_chunks = []\<rparr>
      (initial_server fresh_database))) = Respond code ''{\"status\":\"ok\"}''"
proof -
  let ?env = "\<lparr>malloc_ok = True, publish_ok = (\<lambda>_. True), meanwhile = (\<lambda>s. s)\<rparr>"
  let ?rq = "\<lparr>rq_method = ''POST'', rq_url = ''/api/pump/feedback'', rq_args = [], rq_chunks = []\<rparr>"
  obtain sv' ms out where post: "handle_post sqlite_model jsonc_model ?env 0 ?rq (initial_server fresh_database) = (sv', ms, out)"
    by (metis prod_cases3)
  show ?thesis using feedback_endpoint [OF _ _ _ post] by (auto simp: post)
qed

end
