(* ===== verification/Server.thy ===== *)
theory Server
  imports HttpApi
begin

text \<open>
  The server as a machine whose events are whole handlers: a message on a subscribed topic, an HTTP
  request, and the delivery of a message the server published itself. \<^verbatim>\<open>src/main.c\<close> starts the threads
  that produce these events; how their steps interleave is the subject of the theory of threads.
\<close>

record system =
  sys_server :: server
  sys_queue :: "mqtt_message list"

datatype server_event =
    Message string string c_long c_long
  | Deliver c_long c_long
  | Http surroundings request c_long

definition deliver :: "sqlite \<Rightarrow> jsonc \<Rightarrow> c_long \<Rightarrow> c_long \<Rightarrow> mqtt_message \<Rightarrow> server \<Rightarrow> server" where
  "deliver sq jc now now2 m sv =
     (if mm_topic m \<in> set subscribed_topics
      then mqtt_message_arrived sq jc now now2 (mm_topic m) (mm_payload m) sv else sv)"

fun serve :: "sqlite \<Rightarrow> jsonc \<Rightarrow> server_event \<Rightarrow> system \<Rightarrow> system" where
  "serve sq jc (Message topic data now now2) s =
     s\<lparr>sys_server := (if topic \<in> set subscribed_topics
       then mqtt_message_arrived sq jc now now2 topic data (sys_server s) else sys_server s)\<rparr>"
| "serve sq jc (Deliver now now2) s =
     (case sys_queue s of [] \<Rightarrow> s
      | m # ms \<Rightarrow> s\<lparr>sys_server := deliver sq jc now now2 m (sys_server s), sys_queue := ms\<rparr>)"
| "serve sq jc (Http env rq now) s =
     (let (sv, ms, out) = handle_request sq jc env now rq (sys_server s)
      in s\<lparr>sys_server := sv, sys_queue := sys_queue s @ ms\<rparr>)"

text \<open>Between a request and its answer no other handler runs.\<close>

fun undisturbed :: "server_event \<Rightarrow> bool" where
  "undisturbed (Http env rq now) = (meanwhile env = (\<lambda>sv. sv))"
| "undisturbed _ = True"

inductive sys_reachable :: "sqlite \<Rightarrow> jsonc \<Rightarrow> database \<Rightarrow> system \<Rightarrow> bool" for sq jc d where
  boot: "sys_reachable sq jc d \<lparr>sys_server = initial_server d, sys_queue = []\<rparr>"
| event: "sys_reachable sq jc d s \<Longrightarrow> undisturbed ev \<Longrightarrow> sys_reachable sq jc d (serve sq jc ev s)"

inductive_cases sys_reachableE: "sys_reachable sq jc d s"

section \<open>One rule for every invariant\<close>

text \<open>A system event is a sequence of updates with checked arguments.\<close>

definition update_closed :: "sqlite \<Rightarrow> (server \<Rightarrow> bool) \<Rightarrow> bool" where
  "update_closed sq P \<longleftrightarrow>
     (\<forall>s t i st. P s \<longrightarrow> P (update_pump_status sq t i st s)) \<and>
     (\<forall>s t i f. P s \<longrightarrow> P (update_pump_feedback sq t i f s)) \<and>
     (\<forall>s t b a. P s \<longrightarrow>
        (0 \<le> sint b \<and> sint b \<le> 2 \<or> b = ps_busy (current_pump_status s)) \<longrightarrow>
        (0 \<le> sint a \<and> sint a \<le> 1 \<or> a = ps_alarm (current_pump_status s)) \<longrightarrow> P (update_system_status sq t b a s)) \<and>
     (\<forall>s t d f g. P s \<longrightarrow> P (update_gateway_heartbeat sq t d f g s))"

lemma update_closed_message: "update_closed sq P \<Longrightarrow> P sv \<Longrightarrow> P (mqtt_message_arrived sq jc now now2 topic data sv)"
  by (rule message_preserves) (auto simp: update_closed_def)

lemma update_closed_request:
  assumes "update_closed sq P" "P sv" "meanwhile env = (\<lambda>sv. sv)"
  shows "P (fst (handle_request sq jc env now rq sv))"
  using assms
  by (auto simp: update_closed_def handle_request_def handle_post_def handle_pump_feedback_def Let_def
      split: option.split)

lemma sys_invariant:
  assumes "sys_reachable sq jc d s" "update_closed sq P" "P (initial_server d)"
  shows "P (sys_server s)"
  using assms(1)
proof (induction rule: sys_reachable.induct)
  case (event s ev)
  show ?case
  proof (cases ev)
    case (Http env rq now)
    with event assms(2) update_closed_request [OF assms(2) event.IH, of env jc now rq] show ?thesis
      by (auto split: prod.split)
  qed (use event.IH update_closed_message [OF assms(2)] in \<open>auto simp: deliver_def split: list.split\<close>)
qed (simp add: assms(3))

section \<open>Invariants of the running server\<close>

lemma closed_detector: "update_closed sq detector_ok"
  by (simp add: update_closed_def update_detector_ok)

lemma closed_range: "update_closed sq (\<lambda>s. values_in_range (current_pump_status s))"
  unfolding update_closed_def
proof (intro conjI allI impI)
  fix s :: server and t b a
  assume "values_in_range (current_pump_status s)"
    "0 \<le> sint b \<and> sint b \<le> 2 \<or> b = ps_busy (current_pump_status s)"
    "0 \<le> sint a \<and> sint a \<le> 1 \<or> a = ps_alarm (current_pump_status s)"
  then show "values_in_range (current_pump_status (update_system_status sq t b a s))"
    by (intro update_in_range(3)) (auto simp: values_in_range_def)
qed (simp_all add: update_in_range)

lemma closed_ring: "update_closed sq (\<lambda>s. ring_ok (pump_history s))"
  by (simp add: update_closed_def shared_defs ring_ok_add)

lemma closed_gateway: "update_closed sq (\<lambda>s. gateway_ok (gateway_hw_status s))"
  by (simp add: update_closed_def gateway_ok_update update_gateway_unchanged)

lemma closed_ready: "update_closed sq (\<lambda>s. db_ready sq (database s))"
  by (simp add: update_closed_def update_ready)

lemma zero_in_range: "values_in_range zero_status"
  by (simp add: values_in_range_def zero_status_def status_range_def)

lemma initial_facts:
  "values_in_range (current_pump_status (initial_server d))" "ring_ok (pump_history (initial_server d))"
  "gateway_ok (gateway_hw_status (initial_server d))" "database (initial_server d) = d"
  by (simp_all add: initial_server_def zero_in_range empty_ring_ok empty_gateway_ok)

section \<open>The snapshot log\<close>

definition snapshot_in_range :: "snapshot \<Rightarrow> bool" where
  "snapshot_in_range r \<longleftrightarrow>
     status_range (sn_p1_st r) \<and> status_range (sn_p2_st r) \<and>
     0 \<le> sint (sn_busy r) \<and> sint (sn_busy r) \<le> 2 \<and> 0 \<le> sint (sn_alarm r) \<and> sint (sn_alarm r) \<le> 1"

lemma snapshot_in_range_of [simp]: "snapshot_in_range (snapshot_of p) \<longleftrightarrow> values_in_range p"
  by (simp add: snapshot_in_range_def snapshot_of_def values_in_range_def)

text \<open>
  The rows since the start, oldest first, end with the values of the current state; with none, the
  state still has its initial values.
\<close>

definition log_current :: "sqlite \<Rightarrow> database \<Rightarrow> server \<Rightarrow> bool" where
  "log_current sq d sv \<longleftrightarrow>
     db_ready sq (database sv) \<and> detector_ok sv \<and>
     take (length (pump_snapshots d)) (pump_snapshots (database sv)) = pump_snapshots d \<and>
     length (pump_snapshots d) \<le> length (pump_snapshots (database sv)) \<and>
     (let new = drop (length (pump_snapshots d)) (pump_snapshots (database sv))
      in snapshot_values (if new = [] then snapshot_of zero_status else last new) =
         snapshot_values (snapshot_of (current_pump_status sv)))"

lemma log_current_added:
  assumes "log_current sq d sv" "snapshot_added sv sv' changed" "db_ready sq (database sv')" "detector_ok sv'"
    "\<not> changed \<Longrightarrow> status_values (current_pump_status sv') = status_values (current_pump_status sv)"
  shows "log_current sq d sv'"
proof (cases changed)
  case True
  with assms(1-4) show ?thesis by (simp add: log_current_def snapshot_added_def)
next
  case False
  with assms(5) have "snapshot_values (snapshot_of (current_pump_status sv')) =
      snapshot_values (snapshot_of (current_pump_status sv))"
    by (simp add: snapshot_values_iff)
  with False assms(1-4) show ?thesis by (simp add: log_current_def snapshot_added_def)
qed

lemma closed_log: "update_closed sq (log_current sq d)"
  unfolding update_closed_def
proof (intro conjI allI impI)
  fix s :: server and t i st f b a dev fw g
  assume log: "log_current sq d s"
  then have ready: "db_ready sq (database s)" and det: "detector_ok s" by (simp_all add: log_current_def)
  note added = update_snapshots [OF ready] and keep = update_ready [OF ready] update_detector_ok [OF det]
  from det have same: "status_values (previous_pump_status s) = status_values (current_pump_status s)"
    by (simp add: detector_ok_def)
  show "log_current sq d (update_pump_status sq t i st s)"
    by (rule log_current_added [OF log added(1) keep(1) keep(5)])
      (use same in \<open>auto simp: status_values_eq_iff update_current set_pump_def\<close>)
  show "log_current sq d (update_pump_feedback sq t i f s)"
    by (rule log_current_added [OF log added(2) keep(2) keep(6)])
      (use same in \<open>auto simp: status_values_eq_iff update_current set_status_def\<close>)
  show "log_current sq d (update_system_status sq t b a s)"
    by (rule log_current_added [OF log added(3) keep(3) keep(7)])
      (use same in \<open>auto simp: status_values_eq_iff update_current\<close>)
  show "log_current sq d (update_gateway_heartbeat sq t dev fw g s)"
    by (rule log_current_added [OF log added(4) keep(4) keep(8)]) (simp add: update_current)
qed

lemma initial_log: "db_ready sq d \<Longrightarrow> log_current sq d (initial_server d)"
  by (simp add: log_current_def initial_server_def detector_ok_def)

text \<open>Every row of the table has its values in range.\<close>

definition log_in_range :: "server \<Rightarrow> bool" where
  "log_in_range sv \<longleftrightarrow>
     values_in_range (current_pump_status sv) \<and> list_all snapshot_in_range (pump_snapshots (database sv))"

lemma insert_rows:
  "pump_snapshots (fst (db_insert_snapshot sq r d)) =
     pump_snapshots d @ (if db_open d \<and> sq_ok sq (db_stmts d) then [r] else [])"
  "pump_snapshots (fst (db_insert_command sq i st t src d)) = pump_snapshots d"
  "pump_snapshots (fst (db_insert_feedback sq i st t d)) = pump_snapshots d"
  "pump_snapshots (fst (db_insert_gateway_status sq on dev fw t d)) = pump_snapshots d"
  by (auto simp: db_insert_snapshot_def db_insert_command_def db_insert_feedback_def
      db_insert_gateway_status_def run_stmt_def Let_def)

lemma update_rows:
  "pump_snapshots (database (update_pump_status sq t i st s)) \<in>
     {pump_snapshots (database s), pump_snapshots (database s) @ [snapshot_of (current_pump_status (update_pump_status sq t i st s))]}"
  "pump_snapshots (database (update_pump_feedback sq t i f s)) \<in>
     {pump_snapshots (database s), pump_snapshots (database s) @ [snapshot_of (current_pump_status (update_pump_feedback sq t i f s))]}"
  "pump_snapshots (database (update_system_status sq t b a s)) \<in>
     {pump_snapshots (database s), pump_snapshots (database s) @ [snapshot_of (current_pump_status (update_system_status sq t b a s))]}"
  "pump_snapshots (database (update_gateway_heartbeat sq t dev fw g s)) = pump_snapshots (database s)"
  by (simp_all add: shared_defs insert_rows)

lemma log_in_range_row:
  assumes "log_in_range s" "values_in_range (current_pump_status s')"
    "pump_snapshots (database s') \<in> {pump_snapshots (database s), pump_snapshots (database s) @ [snapshot_of (current_pump_status s')]}"
  shows "log_in_range s'"
  using assms by (auto simp: log_in_range_def)

lemma closed_log_range: "update_closed sq log_in_range"
  unfolding update_closed_def
proof (intro conjI allI impI)
  fix s :: server and t i st f b a dev fw g
  assume log: "log_in_range s"
  then have r: "values_in_range (current_pump_status s)" by (simp add: log_in_range_def)
  show "log_in_range (update_pump_status sq t i st s)"
    by (rule log_in_range_row [OF log update_in_range(1) [OF r] update_rows(1)])
  show "log_in_range (update_pump_feedback sq t i f s)"
    by (rule log_in_range_row [OF log update_in_range(2) [OF r] update_rows(2)])
  show "log_in_range (update_gateway_heartbeat sq t dev fw g s)"
    using log update_rows(4) by (simp add: log_in_range_def update_current)
  assume "0 \<le> sint b \<and> sint b \<le> 2 \<or> b = ps_busy (current_pump_status s)"
    "0 \<le> sint a \<and> sint a \<le> 1 \<or> a = ps_alarm (current_pump_status s)"
  with r have "values_in_range (current_pump_status (update_system_status sq t b a s))"
    by (intro update_in_range(3)) (auto simp: values_in_range_def)
  then show "log_in_range (update_system_status sq t b a s)"
    by (rule log_in_range_row [OF log _ update_rows(3)])
qed

section \<open>Properties\<close>

text \<open>
  C5. When handlers run one after the other and the database works, the snapshot table is the exact
  record of the state: the rows of earlier runs stay, the newest row since the start has the current
  values (with no row yet, the values are the initial ones), and the change detector agrees with the
  current state.
\<close>

theorem snapshot_log_follows_state:
  assumes "sys_reachable sq jc d s" "db_ready sq d"
  shows "log_current sq d (sys_server s)"
  using sys_invariant [OF assms(1) closed_log initial_log [OF assms(2)]] .

theorem snapshot_log_follows_state_witness:
  "log_current sqlite_model fresh_database (sys_server
     (serve sqlite_model jsonc_model (Message ''pump/control'' ''{\"pump_id\":1,\"state\":1}'' 5 5)
       \<lparr>sys_server = initial_server fresh_database, sys_queue = []\<rparr>))"
proof -
  have "db_ready sqlite_model fresh_database"
    by (simp add: db_ready_def sqlite_model_def fresh_database_def db_init_def)
  moreover have "sys_reachable sqlite_model jsonc_model fresh_database
      (serve sqlite_model jsonc_model (Message ''pump/control'' ''{\"pump_id\":1,\"state\":1}'' 5 5)
       \<lparr>sys_server = initial_server fresh_database, sys_queue = []\<rparr>)"
    by (intro sys_reachable.event sys_reachable.boot) simp
  ultimately show ?thesis by (rule snapshot_log_follows_state [rotated])
qed

end
