(* ===== verification/Threads.thy ===== *)
theory Threads
  imports Server
begin

text \<open>
  The update functions of \<^verbatim>\<open>src/shared.c\<close> as the steps between which other threads run: taking and giving
  up the mutex, what is done while it is held, and the calls on the database, which read the globals
  without it. Two threads update the state, the subscriber's callback thread and the HTTP thread; the
  publisher's thread and the requests for the state only read it. The globals and the mutex are shared.
  The state is passed to \<^verbatim>\<open>add_pump_history\<close> and \<^verbatim>\<open>db_insert_snapshot\<close> without the lock, so its fields
  are read one by one, here in the order of the arguments (C leaves it open), each in a step of its own.
\<close>

datatype purpose = For_ring | For_table

text \<open>
  \<open>Lock\<close> and \<open>Unlock\<close> are the calls on the mutex; the \<open>Enter\<close> steps, \<open>ReadSystem\<close>, the \<open>Commit\<close> steps,
  \<open>PutRing\<close> and \<open>Look\<close> stand between the two, the others outside.
\<close>

datatype instr =
    EnterCommand c_int c_int
  | EnterFeedback c_int c_int
  | ReadSystem "c_int option" "c_int option"
  | EnterSystem c_int c_int
  | EnterHeartbeat "string option" "string option" c_int
  | AddRing
  | InsertCommand c_int c_int
  | InsertFeedback c_int c_int
  | InsertSnapshot
  | InsertGateway "string option" "string option"
  | CommitCommand c_int c_int
  | CommitFeedback c_int c_int
  | CommitSystem c_int c_int
  | CommitHeartbeat "string option" "string option" c_int
  | ReadField nat pump_status purpose
  | Lock
  | Unlock
  | PutRing pump_status
  | Look

text \<open>The field number \<open>k\<close> of the arguments, copied from the current state.\<close>

definition copy_field :: "nat \<Rightarrow> pump_status \<Rightarrow> pump_status \<Rightarrow> pump_status" where
  "copy_field k cur acc =
     (if k = 0 then acc\<lparr>ps_pump1 := ps_pump1 cur\<rparr>
      else if k = 1 then acc\<lparr>ps_status1 := ps_status1 cur\<rparr>
      else if k = 2 then acc\<lparr>ps_pump2 := ps_pump2 cur\<rparr>
      else if k = 3 then acc\<lparr>ps_status2 := ps_status2 cur\<rparr>
      else if k = 4 then acc\<lparr>ps_busy := ps_busy cur\<rparr>
      else if k = 5 then acc\<lparr>ps_alarm := ps_alarm cur\<rparr>
      else acc\<lparr>ps_time := ps_time cur\<rparr>)"

text \<open>The effect of a step on the globals, and the steps it leads to.\<close>

fun exec :: "sqlite \<Rightarrow> c_long \<Rightarrow> instr \<Rightarrow> server \<Rightarrow> server \<times> instr list" where
  "exec sq now (EnterCommand i st) sv =
     (let (sv1, changed) = command_enter now i st sv
      in (sv1, Unlock # (if changed then [AddRing, InsertCommand i st, InsertSnapshot, Lock, CommitCommand i st, Unlock]
           else [])))"
| "exec sq now (EnterFeedback i f0) sv =
     (let f = valid_status f0; (sv1, changed) = feedback_enter now i f sv
      in (sv1, Unlock # (if changed then [InsertFeedback i f, InsertSnapshot, Lock, CommitFeedback i f, Unlock] else [])))"
| "exec sq now (ReadSystem b a) sv =
     (sv, [Unlock, Lock, EnterSystem (case b of None \<Rightarrow> ps_busy (current_pump_status sv) | Some v \<Rightarrow> v)
             (case a of None \<Rightarrow> ps_alarm (current_pump_status sv) | Some v \<Rightarrow> v)])"
| "exec sq now (EnterSystem b a) sv =
     (let (sv1, changed) = system_enter now b a sv
      in (sv1, Unlock # (if changed then [InsertSnapshot, Lock, CommitSystem b a, Unlock] else [])))"
| "exec sq now (EnterHeartbeat d fw g) sv =
     (let (sv1, changed) = heartbeat_enter now d fw g sv
      in (sv1, Unlock # (if changed then [InsertGateway d fw, Lock, CommitHeartbeat d fw g, Unlock] else [])))"
| "exec sq now AddRing sv = (sv, [ReadField 0 zero_status For_ring])"
| "exec sq now (InsertCommand i st) sv =
     (sv\<lparr>database := fst (db_insert_command sq i st (ps_time (current_pump_status sv)) ''api'' (database sv))\<rparr>, [])"
| "exec sq now (InsertFeedback i f) sv =
     (sv\<lparr>database := fst (db_insert_feedback sq i f (ps_time (current_pump_status sv)) (database sv))\<rparr>, [])"
| "exec sq now InsertSnapshot sv = (sv, [ReadField 0 zero_status For_table])"
| "exec sq now (InsertGateway d fw) sv = (heartbeat_record sq d fw sv, [])"
| "exec sq now (CommitCommand i st) sv = (command_commit i st sv, [])"
| "exec sq now (CommitFeedback i f) sv = (feedback_commit i f sv, [])"
| "exec sq now (CommitSystem b a) sv = (system_commit b a sv, [])"
| "exec sq now (CommitHeartbeat d fw g) sv = (heartbeat_commit d fw g sv, [])"
| "exec sq now (ReadField k acc p) sv =
     (if k < 7 then (sv, [ReadField (Suc k) (copy_field k (current_pump_status sv) acc) p])
      else (case p of For_ring \<Rightarrow> (sv, [Lock, PutRing acc, Unlock])
        | For_table \<Rightarrow> (sv\<lparr>database := fst (db_insert_snapshot sq (snapshot_of acc) (database sv))\<rparr>, [])))"
| "exec sq now (PutRing st) sv = (add_pump_history st sv, [])"
| "exec sq now Lock sv = (sv, [])"
| "exec sq now Unlock sv = (sv, [])"
| "exec sq now Look sv = (sv, [])"

section \<open>What the threads run\<close>

definition feedback_message_program :: "jsonc \<Rightarrow> json \<Rightarrow> instr list" where
  "feedback_message_program jc j =
     (case (jc_get jc j ''pump_id'', jc_get jc j ''status'') of
        (Some i, Some st) \<Rightarrow>
          (if 0 \<le> sint (jc_int jc st) \<and> sint (jc_int jc st) \<le> 3 then [Lock, EnterFeedback (jc_int jc i) (jc_int jc st)] else [])
      | _ \<Rightarrow> []) @
     (let b = checked_int jc 2 j ''busy''; a = checked_int jc 1 j ''alarm''
      in if b = None \<and> a = None then [] else [Lock, ReadSystem b a])"

definition control_message_program :: "jsonc \<Rightarrow> json \<Rightarrow> instr list" where
  "control_message_program jc j =
     (case (jc_get jc j ''pump_id'', jc_get jc j ''state'') of
        (Some i, Some st) \<Rightarrow> [Lock, EnterCommand (jc_int jc i) (jc_int jc st)] | _ \<Rightarrow> [])"

definition heartbeat_message_program :: "jsonc \<Rightarrow> json \<Rightarrow> instr list" where
  "heartbeat_message_program jc j =
     [Lock, EnterHeartbeat (Option.bind (jc_get jc j ''device_id'') (jc_string jc))
        (Option.bind (jc_get jc j ''firmware'') (jc_string jc))
        (case jc_get jc j ''status'' of None \<Rightarrow> 1 | Some v \<Rightarrow> jc_int jc v)]"

definition message_program :: "jsonc \<Rightarrow> string \<Rightarrow> string \<Rightarrow> instr list" where
  "message_program jc topic data =
     (case jc_parse jc (payload_text data) of None \<Rightarrow> []
      | Some j \<Rightarrow>
         if topic = ''gateway/heartbeat'' then heartbeat_message_program jc j
         else if topic = ''pump/control'' then control_message_program jc j
         else if topic = ''pump/feedback'' then feedback_message_program jc j
         else [])"

definition http_feedback_program :: "jsonc \<Rightarrow> string \<Rightarrow> instr list" where
  "http_feedback_program jc body =
     (case jc_parse jc body of None \<Rightarrow> []
      | Some j \<Rightarrow>
         (case (jc_get jc j ''pump_id'', jc_get jc j ''status'') of
            (Some i, Some st) \<Rightarrow> [Lock, EnterFeedback (jc_int jc i) (jc_int jc st)] | _ \<Rightarrow> []))"

text \<open>
  The status handlers and the publisher only print the state, and the handler of a command, which
  publishes it, only prints the state after that.
\<close>

definition look_program :: "instr list" where
  "look_program = [Lock, Look, Unlock]"

section \<open>Alone, a thread computes its handler\<close>

inductive complete :: "sqlite \<Rightarrow> server \<Rightarrow> instr list \<Rightarrow> server \<Rightarrow> bool" for sq where
  finished: "complete sq sv [] sv"
| step: "exec sq now ins sv = (sv1, nxt) \<Longrightarrow> complete sq sv1 (nxt @ rest) sv' \<Longrightarrow> complete sq sv (ins # rest) sv'"

inductive_simps complete_Nil [simp]: "complete sq sv [] sv'"
inductive_simps complete_Cons: "complete sq sv (ins # rest) sv'"

lemma complete_Cons_iff:
  "complete sq sv (ins # rest) sv' \<longleftrightarrow>
     (\<exists>now. complete sq (fst (exec sq now ins sv)) (snd (exec sq now ins sv) @ rest) sv')"
  by (subst complete_Cons) (metis prod.collapse fst_conv snd_conv)

lemma complete_lock [simp]:
  "complete sq sv (Lock # rest) sv' \<longleftrightarrow> complete sq sv rest sv'"
  "complete sq sv (Unlock # rest) sv' \<longleftrightarrow> complete sq sv rest sv'"
  "complete sq sv (Look # rest) sv' \<longleftrightarrow> complete sq sv rest sv'"
  by (subst complete_Cons_iff, simp)+

lemma all_fields:
  "copy_field (Suc (Suc (Suc (Suc (Suc (Suc 0)))))) p (copy_field (Suc (Suc (Suc (Suc (Suc 0))))) p
     (copy_field (Suc (Suc (Suc (Suc 0)))) p (copy_field (Suc (Suc (Suc 0))) p (copy_field (Suc (Suc 0)) p
       (copy_field (Suc 0) p (copy_field 0 p acc)))))) = p"
  by (simp add: copy_field_def)

text \<open>Undisturbed, the fields read make up the current state.\<close>

lemma complete_fields:
  "complete sq sv (ReadField 0 acc p # rest) sv' \<longleftrightarrow>
     complete sq sv (ReadField 7 (current_pump_status sv) p # rest) sv'"
proof -
  have one: "complete sq sv (ReadField k acc p # rest) sv' \<longleftrightarrow>
      complete sq sv (ReadField (Suc k) (copy_field k (current_pump_status sv) acc) p # rest) sv'" if "k < 7" for k acc
    using that by (subst complete_Cons_iff) simp
  have "complete sq sv (ReadField 0 acc p # rest) sv' \<longleftrightarrow>
      complete sq sv (ReadField (Suc (Suc (Suc (Suc (Suc (Suc (Suc 0))))))) (current_pump_status sv) p # rest) sv'"
    by (simp add: one all_fields)
  then show ?thesis by (simp add: numeral_eq_Suc)
qed

lemma complete_put: "complete sq sv (PutRing st # rest) sv' \<longleftrightarrow> complete sq (add_pump_history st sv) rest sv'"
  by (subst complete_Cons_iff) simp

lemma complete_record:
  "complete sq sv (AddRing # rest) sv' \<longleftrightarrow> complete sq (add_pump_history (current_pump_status sv) sv) rest sv'"
  "complete sq sv (InsertSnapshot # rest) sv' \<longleftrightarrow> complete sq (insert_current_snapshot sq sv) rest sv'"
  by (subst complete_Cons_iff, simp add: complete_fields, subst complete_Cons_iff,
      simp add: complete_put insert_current_snapshot_def)+

lemma complete_single:
  "complete sq sv (InsertCommand i st # rest) sv' \<longleftrightarrow>
     complete sq (sv\<lparr>database := fst (db_insert_command sq i st (ps_time (current_pump_status sv)) ''api'' (database sv))\<rparr>) rest sv'"
  "complete sq sv (InsertFeedback i f # rest) sv' \<longleftrightarrow>
     complete sq (sv\<lparr>database := fst (db_insert_feedback sq i f (ps_time (current_pump_status sv)) (database sv))\<rparr>) rest sv'"
  "complete sq sv (InsertGateway d fw # rest) sv' \<longleftrightarrow> complete sq (heartbeat_record sq d fw sv) rest sv'"
  "complete sq sv (CommitCommand i st # rest) sv' \<longleftrightarrow> complete sq (command_commit i st sv) rest sv'"
  "complete sq sv (CommitFeedback i f # rest) sv' \<longleftrightarrow> complete sq (feedback_commit i f sv) rest sv'"
  "complete sq sv (CommitSystem b a # rest) sv' \<longleftrightarrow> complete sq (system_commit b a sv) rest sv'"
  "complete sq sv (CommitHeartbeat d fw g # rest) sv' \<longleftrightarrow> complete sq (heartbeat_commit d fw g sv) rest sv'"
  by (subst complete_Cons_iff, simp)+

lemmas complete_steps = complete_record complete_single

lemma complete_command:
  "complete sq sv (EnterCommand i st # rest) sv' \<longleftrightarrow> (\<exists>now. complete sq (update_pump_status sq now i st sv) rest sv')"
proof -
  have "complete sq (fst (exec sq now (EnterCommand i st) sv)) (snd (exec sq now (EnterCommand i st) sv) @ rest) sv' =
      complete sq (update_pump_status sq now i st sv) rest sv'" for now
    by (simp add: update_pump_status_def Let_def command_record_def complete_steps split: prod.split)
  then show ?thesis by (simp only: complete_Cons_iff)
qed

lemma complete_feedback:
  "complete sq sv (EnterFeedback i f # rest) sv' \<longleftrightarrow> (\<exists>now. complete sq (update_pump_feedback sq now i f sv) rest sv')"
proof -
  have "complete sq (fst (exec sq now (EnterFeedback i f) sv)) (snd (exec sq now (EnterFeedback i f) sv) @ rest) sv' =
      complete sq (update_pump_feedback sq now i f sv) rest sv'" for now
    by (simp add: update_pump_feedback_def Let_def feedback_record_def complete_steps split: prod.split)
  then show ?thesis by (simp only: complete_Cons_iff)
qed

lemma complete_system:
  "complete sq sv (EnterSystem b a # rest) sv' \<longleftrightarrow> (\<exists>now. complete sq (update_system_status sq now b a sv) rest sv')"
proof -
  have "complete sq (fst (exec sq now (EnterSystem b a) sv)) (snd (exec sq now (EnterSystem b a) sv) @ rest) sv' =
      complete sq (update_system_status sq now b a sv) rest sv'" for now
    by (simp add: update_system_status_def Let_def complete_steps split: prod.split)
  then show ?thesis by (simp only: complete_Cons_iff)
qed

lemma complete_heartbeat:
  "complete sq sv (EnterHeartbeat d fw g # rest) sv' \<longleftrightarrow>
     (\<exists>now. complete sq (update_gateway_heartbeat sq now d fw g sv) rest sv')"
proof -
  have "complete sq (fst (exec sq now (EnterHeartbeat d fw g) sv)) (snd (exec sq now (EnterHeartbeat d fw g) sv) @ rest) sv' =
      complete sq (update_gateway_heartbeat sq now d fw g sv) rest sv'" for now
    by (simp add: update_gateway_heartbeat_def Let_def complete_steps split: prod.split)
  then show ?thesis by (simp only: complete_Cons_iff)
qed

lemma complete_read:
  "complete sq sv (ReadSystem b a # rest) sv' \<longleftrightarrow>
     (\<exists>now. complete sq (update_system_status sq now
        (case b of None \<Rightarrow> ps_busy (current_pump_status sv) | Some v \<Rightarrow> v)
        (case a of None \<Rightarrow> ps_alarm (current_pump_status sv) | Some v \<Rightarrow> v) sv) rest sv')"
  by (subst complete_Cons_iff) (simp add: complete_system)

lemmas complete_updates = complete_command complete_feedback complete_heartbeat complete_read

lemma complete_feedback_message:
  assumes "jc_parse jc p = Some j"
  shows "complete sq sv (feedback_message_program jc j) sv' \<longleftrightarrow> (\<exists>now now2. sv' = on_feedback sq jc now now2 p sv)"
proof -
  let ?rest = "let b = checked_int jc 2 j ''busy''; a = checked_int jc 1 j ''alarm''
      in if b = None \<and> a = None then [] else [Lock, ReadSystem b a]"
  have tail: "complete sq (feedback_status_part sq jc now j sv) ?rest sv' \<longleftrightarrow>
      (\<exists>now2. sv' = on_feedback sq jc now now2 p sv)" for now
    using assms by (auto simp: on_feedback_def Let_def complete_updates)
  have "complete sq sv (feedback_message_program jc j) sv' \<longleftrightarrow>
      (\<exists>now. complete sq (feedback_status_part sq jc now j sv) ?rest sv')"
    by (auto simp: feedback_message_program_def feedback_status_part_def complete_updates Let_def
        split: option.split)
  with tail show ?thesis by simp
qed

lemma complete_message:
  "complete sq sv (message_program jc topic data) sv' \<longleftrightarrow>
     (\<exists>now now2. sv' = mqtt_message_arrived sq jc now now2 topic data sv)"
proof (cases "jc_parse jc (payload_text data)")
  case None
  then show ?thesis
    by (auto simp: message_program_def mqtt_message_arrived_def on_heartbeat_def on_control_def on_feedback_def Let_def)
next
  case (Some j)
  have beat: "complete sq sv (heartbeat_message_program jc j) sv' \<longleftrightarrow>
      (\<exists>now. sv' = on_heartbeat sq jc now (payload_text data) sv)"
    using Some by (auto simp: heartbeat_message_program_def on_heartbeat_def complete_updates Let_def)
  have control: "complete sq sv (control_message_program jc j) sv' \<longleftrightarrow>
      (\<exists>now. sv' = on_control sq jc now (payload_text data) sv)"
    using Some by (auto simp: control_message_program_def on_control_def complete_updates split: option.split)
  show ?thesis
    using Some beat control complete_feedback_message [OF Some]
    by (auto simp: message_program_def mqtt_message_arrived_def Let_def)
qed

lemma complete_http_feedback:
  "complete sq sv (http_feedback_program jc body) sv' \<longleftrightarrow>
     (\<exists>now. sv' = fst (handle_pump_feedback sq jc now body sv))"
  by (auto simp: http_feedback_program_def handle_pump_feedback_def complete_updates split: option.split)

section \<open>The threads and the mutex\<close>

text \<open>
  The callback thread of the subscriber's client, the thread of the HTTP daemon, which serves one
  request at a time, and the publisher's thread.
\<close>

datatype thread = Sub_thread | Http_thread | Pub_thread

record machine =
  shared :: server
  lock_holder :: "thread option"
  thread_code :: "thread \<Rightarrow> instr list"

abbreviation subscriber :: "machine \<Rightarrow> instr list" where
  "subscriber m \<equiv> thread_code m Sub_thread"

abbreviation http_thread :: "machine \<Rightarrow> instr list" where
  "http_thread m \<equiv> thread_code m Http_thread"

abbreviation set_code :: "thread \<Rightarrow> instr list \<Rightarrow> machine \<Rightarrow> machine" where
  "set_code t prog m \<equiv> m\<lparr>thread_code := (thread_code m)(t := prog)\<rparr>"

definition boot_machine :: "database \<Rightarrow> machine" where
  "boot_machine d = \<lparr>shared = initial_server d, lock_holder = None, thread_code = \<lambda>t. []\<rparr>"

text \<open>A message or a request reaches a thread that waits for one; the publisher wakes up.\<close>

inductive arrives :: "jsonc \<Rightarrow> machine \<Rightarrow> machine \<Rightarrow> bool" for jc where
  message: "subscriber m = [] \<Longrightarrow> arrives jc m (set_code Sub_thread (message_program jc topic data) m)"
| request: "http_thread m = [] \<Longrightarrow> arrives jc m (set_code Http_thread (http_feedback_program jc body) m)"
| look: "http_thread m = [] \<Longrightarrow> arrives jc m (set_code Http_thread look_program m)"
| publish: "thread_code m Pub_thread = [] \<Longrightarrow> arrives jc m (set_code Pub_thread look_program m)"

text \<open>
  \<^verbatim>\<open>pthread_mutex_lock\<close> waits for the mutex, which is not recursive; \<^verbatim>\<open>pthread_mutex_unlock\<close> is for the
  thread that holds it.
\<close>

fun may_run :: "thread option \<Rightarrow> thread \<Rightarrow> instr \<Rightarrow> bool" where
  "may_run h t Lock = (h = None)"
| "may_run h t Unlock = (h = Some t)"
| "may_run h t _ = True"

fun lock_after :: "thread option \<Rightarrow> thread \<Rightarrow> instr \<Rightarrow> thread option" where
  "lock_after h t Lock = Some t"
| "lock_after h t Unlock = None"
| "lock_after h t _ = h"

inductive runs :: "sqlite \<Rightarrow> thread \<Rightarrow> machine \<Rightarrow> machine \<Rightarrow> bool" for sq t where
  run: "thread_code m t = ins # rest \<Longrightarrow> may_run (lock_holder m) t ins \<Longrightarrow>
    exec sq now ins (shared m) = (sv, nxt) \<Longrightarrow>
    runs sq t m (set_code t (nxt @ rest) (m\<lparr>shared := sv, lock_holder := lock_after (lock_holder m) t ins\<rparr>))"

inductive thread_step :: "sqlite \<Rightarrow> jsonc \<Rightarrow> machine \<Rightarrow> machine \<Rightarrow> bool" for sq jc where
  arrive: "arrives jc m m' \<Longrightarrow> thread_step sq jc m m'"
| progress: "runs sq t m m' \<Longrightarrow> thread_step sq jc m m'"

definition thread_reachable :: "sqlite \<Rightarrow> jsonc \<Rightarrow> database \<Rightarrow> machine \<Rightarrow> bool" where
  "thread_reachable sq jc d m \<longleftrightarrow> (thread_step sq jc)\<^sup>*\<^sup>* (boot_machine d) m"

lemma runs_steps: "(runs sq t)\<^sup>*\<^sup>* m m' \<Longrightarrow> (thread_step sq jc)\<^sup>*\<^sup>* m m'"
  by (rule rtranclp_mono [THEN predicate2D, of "runs sq t"]) (auto intro: thread_step.progress)

lemma reachable_induct [consumes 1, case_names boot arrive progress]:
  assumes "thread_reachable sq jc d m" "P (boot_machine d)"
    and "\<And>m m'. P m \<Longrightarrow> arrives jc m m' \<Longrightarrow> P m'" "\<And>t m m'. P m \<Longrightarrow> runs sq t m m' \<Longrightarrow> P m'"
  shows "P m"
  using assms(1) unfolding thread_reachable_def
proof (induction rule: rtranclp_induct)
  case (step m m')
  from step.hyps(2) step.IH show ?case by cases (blast intro: assms(3,4))+
qed (rule assms(2))

text \<open>The work a thread has left: every step of its own does some of it.\<close>

fun instr_work :: "instr \<Rightarrow> nat" where
  "instr_work (EnterCommand _ _) = 30"
| "instr_work (EnterFeedback _ _) = 18"
| "instr_work (ReadSystem _ _) = 20"
| "instr_work (EnterSystem _ _) = 17"
| "instr_work (EnterHeartbeat _ _ _) = 6"
| "instr_work AddRing = 12"
| "instr_work InsertSnapshot = 12"
| "instr_work (ReadField k _ _) = 4 + (7 - k)"
| "instr_work _ = 1"

definition work :: "instr list \<Rightarrow> nat" where
  "work p = sum_list (map instr_work p)"

lemma exec_work: "exec sq now ins sv = (sv1, nxt) \<Longrightarrow> work (nxt @ rest) < work (ins # rest)"
  by (cases ins) (auto simp: work_def Let_def split: prod.splits if_splits purpose.splits)

lemma message_work: "work (message_program jc topic data) \<le> 40"
  by (auto simp: message_program_def heartbeat_message_program_def control_message_program_def
      feedback_message_program_def work_def Let_def split: option.split)

lemma http_work: "work (http_feedback_program jc body) \<le> 40"
  by (auto simp: http_feedback_program_def work_def split: option.split)

lemma look_work: "work look_program \<le> 40"
  by (simp add: look_program_def work_def)

section \<open>The discipline of the mutex\<close>

text \<open>
  Whether a thread that has the mutex (or not) may do a step, with all that the step leads to, and
  whether it has the mutex afterwards: the globals are written with the mutex and the database is
  called without it.
\<close>

fun lock_effect :: "bool \<Rightarrow> instr \<Rightarrow> bool option" where
  "lock_effect held Lock = (if held then None else Some True)"
| "lock_effect held Unlock = (if held then Some False else None)"
| "lock_effect held (EnterCommand _ _) = (if held then Some False else None)"
| "lock_effect held (EnterFeedback _ _) = (if held then Some False else None)"
| "lock_effect held (ReadSystem _ _) = (if held then Some False else None)"
| "lock_effect held (EnterSystem _ _) = (if held then Some False else None)"
| "lock_effect held (EnterHeartbeat _ _ _) = (if held then Some False else None)"
| "lock_effect held (CommitCommand _ _) = (if held then Some True else None)"
| "lock_effect held (CommitFeedback _ _) = (if held then Some True else None)"
| "lock_effect held (CommitSystem _ _) = (if held then Some True else None)"
| "lock_effect held (CommitHeartbeat _ _ _) = (if held then Some True else None)"
| "lock_effect held (PutRing _) = (if held then Some True else None)"
| "lock_effect held Look = (if held then Some True else None)"
| "lock_effect held _ = (if held then None else Some False)"

text \<open>A program that respects this and ends without the mutex.\<close>

fun balanced :: "bool \<Rightarrow> instr list \<Rightarrow> bool" where
  "balanced held [] \<longleftrightarrow> \<not> held"
| "balanced held (ins # rest) \<longleftrightarrow> (case lock_effect held ins of None \<Rightarrow> False | Some h \<Rightarrow> balanced h rest)"

lemma exec_balanced:
  assumes "balanced held (ins # rest)" "exec sq now ins sv = (sv1, nxt)"
  shows "balanced (if ins = Lock then True else if ins = Unlock then False else held) (nxt @ rest)"
  using assms by (cases ins) (auto simp: Let_def split: prod.splits if_splits purpose.splits option.splits)

lemma balanced_programs:
  "balanced False (message_program jc topic data)" "balanced False (http_feedback_program jc body)"
  "balanced False look_program"
  by (auto simp: message_program_def http_feedback_program_def heartbeat_message_program_def look_program_def
      control_message_program_def feedback_message_program_def Let_def split: option.split)

lemma lock_after_eq: "lock_after h t ins = (if ins = Lock then Some t else if ins = Unlock then None else h)"
  by (cases ins) simp_all

definition locks_ok :: "machine \<Rightarrow> bool" where
  "locks_ok m \<longleftrightarrow> (\<forall>t. balanced (lock_holder m = Some t) (thread_code m t))"

lemma idle_without_lock: "locks_ok m \<Longrightarrow> thread_code m t = [] \<Longrightarrow> lock_holder m \<noteq> Some t"
  by (metis balanced.simps(1) locks_ok_def)

lemma locks_ok_start:
  assumes "locks_ok m" "thread_code m t = []" "balanced False prog"
  shows "locks_ok (set_code t prog m)"
  using assms idle_without_lock [OF assms(1,2)] by (simp add: locks_ok_def)

lemma locks_ok_arrives: "arrives jc m m' \<Longrightarrow> locks_ok m \<Longrightarrow> locks_ok m'"
  by (induction rule: arrives.induct) (simp_all only: locks_ok_start balanced_programs)

lemma locks_ok_runs:
  assumes "runs sq t m m'" "locks_ok m"
  shows "locks_ok m'"
  using assms(1)
proof cases
  case (run ins rest now sv nxt)
  have "balanced (lock_holder m = Some t) (ins # rest)" using assms(2) run(2) by (metis locks_ok_def)
  note mine = exec_balanced [OF this run(4)]
  have "balanced (lock_holder m' = Some u) (thread_code m' u)" for u
  proof (cases "u = t")
    case True
    then show ?thesis using mine run(1) by (auto simp: lock_after_eq split: if_splits)
  next
    case False
    have "(lock_holder m' = Some u) = (lock_holder m = Some u)"
      using run(1,3) False by (cases ins) auto
    moreover have "balanced (lock_holder m = Some u) (thread_code m u)" using assms(2) by (simp add: locks_ok_def)
    ultimately show ?thesis using run(1) False by simp
  qed
  then show ?thesis by (simp add: locks_ok_def)
qed

lemma locks_ok_reachable: "thread_reachable sq jc d m \<Longrightarrow> locks_ok m"
proof (induction rule: reachable_induct)
  case boot
  then show ?case by (simp add: locks_ok_def boot_machine_def)
qed (auto intro: locks_ok_arrives locks_ok_runs)

text \<open>The next step of a thread waits for the mutex or can be made.\<close>

lemma next_step:
  assumes "locks_ok m" "thread_code m t \<noteq> []"
  shows "(\<exists>m'. runs sq t m m') \<or> (\<exists>u. u \<noteq> t \<and> lock_holder m = Some u)"
proof -
  from assms(2) obtain ins rest where prog: "thread_code m t = ins # rest" by (cases "thread_code m t") auto
  then have bal: "balanced (lock_holder m = Some t) (ins # rest)" using assms(1) by (metis locks_ok_def)
  obtain sv nxt where ex: "exec sq 0 ins (shared m) = (sv, nxt)" by fastforce
  have "may_run (lock_holder m) t ins \<or> (\<exists>u. u \<noteq> t \<and> lock_holder m = Some u)"
    using bal by (cases ins; cases "lock_holder m") (auto split: if_splits)
  with runs.run [OF prog _ ex] show ?thesis by blast
qed

text \<open>The globals other than the database.\<close>

definition same_globals :: "server \<Rightarrow> server \<Rightarrow> bool" where
  "same_globals sv sv' \<longleftrightarrow> sv' = sv\<lparr>database := database sv'\<rparr>"

lemma exec_globals:
  assumes "balanced held (ins # rest)" "exec sq now ins sv = (sv1, nxt)" "\<not> held"
  shows "same_globals sv sv1"
  using assms by (cases ins) (auto simp: same_globals_def heartbeat_record_def split: if_splits purpose.splits)

lemma exec_database:
  assumes "balanced held (ins # rest)" "exec sq now ins sv = (sv1, nxt)" "held"
  shows "database sv1 = database sv"
  using assms by (cases ins) (auto simp: Let_def command_enter_def feedback_enter_def system_enter_def heartbeat_enter_def
      command_commit_def feedback_commit_def system_commit_def heartbeat_commit_def add_pump_history_def split: if_splits)

lemma work_bounded: "thread_reachable sq jc d m \<Longrightarrow> work (thread_code m t) \<le> 40"
proof (induction arbitrary: t rule: reachable_induct)
  case boot
  then show ?case by (simp add: boot_machine_def work_def)
next
  case (arrive m m')
  from arrive(2,1) show ?case by cases (auto simp: message_work http_work look_work)
next
  case (progress u m m')
  from progress(2) show ?case
  proof cases
    case (run ins rest now sv nxt)
    with exec_work [OF run(4), of rest] progress(1) [of t] show ?thesis by auto
  qed
qed

section \<open>A thread that is not disturbed\<close>

lemma complete_runs:
  assumes "complete sq sv prog sv'" "shared m = sv" "thread_code m t = prog"
    "balanced (lock_holder m = Some t) prog" "lock_holder m = None \<or> lock_holder m = Some t"
  shows "(runs sq t)\<^sup>*\<^sup>* m (set_code t [] (m\<lparr>shared := sv', lock_holder := None\<rparr>))"
  using assms
proof (induction arbitrary: m rule: complete.induct)
  case (finished sv)
  then have same: "set_code t [] (m\<lparr>shared := sv, lock_holder := None\<rparr>) = m" by (auto simp: fun_upd_idem)
  show ?case by (simp only: same rtranclp.rtrancl_refl)
next
  case (step now ins sv sv1 nxt rest sv')
  let ?m = "set_code t (nxt @ rest) (m\<lparr>shared := sv1, lock_holder := lock_after (lock_holder m) t ins\<rparr>)"
  have "may_run (lock_holder m) t ins"
    using step.prems by (cases ins) (auto split: if_splits)
  then have "runs sq t m ?m" using runs.run [OF step.prems(2), of sq now sv1 nxt] step.hyps(1) step.prems(1) by simp
  moreover have "(runs sq t)\<^sup>*\<^sup>* ?m (set_code t [] (?m\<lparr>shared := sv', lock_holder := None\<rparr>))"
  proof (rule step.IH)
    show "balanced (lock_holder ?m = Some t) (nxt @ rest)"
      using exec_balanced [OF step.prems(3) step.hyps(1)] by (auto simp: lock_after_eq split: if_splits)
  qed (use step.prems in \<open>auto simp: lock_after_eq\<close>)
  ultimately have "(runs sq t)\<^sup>*\<^sup>* m (set_code t [] (?m\<lparr>shared := sv', lock_holder := None\<rparr>))"
    by (rule converse_rtranclp_into_rtranclp)
  moreover have "set_code t [] (?m\<lparr>shared := sv', lock_holder := None\<rparr>) =
      set_code t [] (m\<lparr>shared := sv', lock_holder := None\<rparr>)" by simp
  ultimately show ?case by (simp only:)
qed

lemma runs_complete:
  assumes "(runs sq t)\<^sup>*\<^sup>* m m'" "thread_code m' t = []"
    "balanced (lock_holder m = Some t) (thread_code m t)" "lock_holder m = None \<or> lock_holder m = Some t"
  shows "complete sq (shared m) (thread_code m t) (shared m') \<and> lock_holder m' = None \<and>
    (\<forall>u. u \<noteq> t \<longrightarrow> thread_code m' u = thread_code m u)"
  using assms
proof (induction rule: converse_rtranclp_induct)
  case base
  then show ?case by auto
next
  case (step m m1)
  from step.hyps(1) show ?case
  proof cases
    case (run ins rest now sv nxt)
    have "balanced (lock_holder m1 = Some t) (thread_code m1 t)"
      using exec_balanced [OF _ run(4), of _ rest] step.prems(2) run by (auto simp: lock_after_eq split: if_splits)
    moreover have "lock_holder m1 = None \<or> lock_holder m1 = Some t"
      using step.prems(3) run by (auto simp: lock_after_eq)
    ultimately show ?thesis using step.IH [OF step.prems(1)] run by (auto intro: complete.step)
  qed
qed

section \<open>What holds under every interleaving\<close>

text \<open>The values a program still carries.\<close>

fun instr_ok :: "instr \<Rightarrow> bool" where
  "instr_ok (EnterSystem b a) = (0 \<le> sint b \<and> sint b \<le> 2 \<and> 0 \<le> sint a \<and> sint a \<le> 1)"
| "instr_ok (ReadSystem b a) =
     ((case b of None \<Rightarrow> True | Some v \<Rightarrow> 0 \<le> sint v \<and> sint v \<le> 2) \<and>
      (case a of None \<Rightarrow> True | Some v \<Rightarrow> 0 \<le> sint v \<and> sint v \<le> 1))"
| "instr_ok (ReadField k acc p) = values_in_range acc"
| "instr_ok (PutRing st) = values_in_range st"
| "instr_ok _ = True"

definition server_ok :: "server \<Rightarrow> bool" where
  "server_ok sv \<longleftrightarrow> log_in_range sv \<and> ring_ok (pump_history sv) \<and> gateway_ok (gateway_hw_status sv)"

definition machine_ok :: "machine \<Rightarrow> bool" where
  "machine_ok m \<longleftrightarrow> server_ok (shared m) \<and> (\<forall>t. list_all instr_ok (thread_code m t))"

lemma copy_field_in_range: "values_in_range p \<Longrightarrow> values_in_range acc \<Longrightarrow> values_in_range (copy_field k p acc)"
  by (simp add: copy_field_def values_in_range_def)

lemma exec_ok:
  assumes "server_ok sv" "instr_ok ins" "exec sq now ins sv = (sv1, nxt)"
  shows "server_ok sv1 \<and> list_all instr_ok nxt"
proof (cases ins)
  case (EnterFeedback i f)
  with assms valid_status_range [of f] show ?thesis
    by (auto simp: server_ok_def log_in_range_def feedback_enter_def set_status_def values_in_range_def Let_def
        split: if_splits)
next
  case (EnterHeartbeat d fw g)
  have "gateway_ok ((gateway_hw_status sv)\<lparr>gw_online := 1, gw_reported := g, gw_seen := now\<rparr>)"
    using assms(1) by (simp add: server_ok_def gateway_ok_def)
  with EnterHeartbeat assms show ?thesis
    by (auto simp: server_ok_def log_in_range_def heartbeat_enter_def Let_def gateway_ok_copy)
next
  case (ReadField k acc p)
  with assms show ?thesis
    by (auto simp: server_ok_def log_in_range_def copy_field_in_range insert_rows add_pump_history_def
        ring_ok_add split: if_splits purpose.splits)
next
  case (ReadSystem b a)
  with assms show ?thesis
    by (auto simp: server_ok_def log_in_range_def values_in_range_def split: option.splits)
qed (use assms zero_in_range in \<open>auto simp: server_ok_def log_in_range_def values_in_range_def command_enter_def set_pump_def
      system_enter_def add_pump_history_def ring_ok_add insert_rows insert_current_snapshot_def
      heartbeat_record_def command_commit_def feedback_commit_def system_commit_def heartbeat_commit_def
      Let_def split: if_splits\<close>)

lemma program_ok: "list_all instr_ok (message_program jc topic data)" "list_all instr_ok (http_feedback_program jc body)"
  "list_all instr_ok look_program"
  by (auto simp: message_program_def http_feedback_program_def heartbeat_message_program_def look_program_def
      control_message_program_def feedback_message_program_def Let_def checked_int_range
      split: option.split dest: checked_int_range)

lemma machine_ok_arrives: "arrives jc m m' \<Longrightarrow> machine_ok m \<Longrightarrow> machine_ok m'"
  by (induction rule: arrives.induct) (auto simp: machine_ok_def program_ok)

lemma machine_ok_runs:
  assumes "runs sq t m m'" "machine_ok m"
  shows "machine_ok m'"
  using assms(1)
proof cases
  case (run ins rest now sv nxt)
  have "list_all instr_ok (ins # rest)" using assms(2) run(2) by (metis machine_ok_def)
  with assms(2) run exec_ok [OF _ _ run(4)] show ?thesis by (auto simp: machine_ok_def)
qed

lemma machine_ok_reachable:
  assumes "thread_reachable sq jc d m" "list_all snapshot_in_range (pump_snapshots d)"
  shows "machine_ok m"
  using assms(1)
proof (induction rule: reachable_induct)
  case boot
  then show ?case
    using assms(2) by (simp add: machine_ok_def boot_machine_def server_ok_def log_in_range_def initial_facts)
qed (auto intro: machine_ok_arrives machine_ok_runs)

text \<open>The snapshot table only grows.\<close>

definition rows_grow :: "server \<Rightarrow> server \<Rightarrow> bool" where
  "rows_grow sv sv' \<longleftrightarrow> (\<exists>new. pump_snapshots (database sv') = pump_snapshots (database sv) @ new)"

lemma exec_grow: "rows_grow sv (fst (exec sq now ins sv))"
  by (cases ins) (auto simp: rows_grow_def Let_def command_enter_def feedback_enter_def system_enter_def
      heartbeat_enter_def add_pump_history_def insert_rows insert_current_snapshot_def heartbeat_record_def
      command_commit_def feedback_commit_def system_commit_def heartbeat_commit_def split: purpose.split)

section \<open>Properties\<close>

text \<open>
  C6. Under every interleaving of the subscriber thread and the HTTP thread the state stays well
  formed: hardware states, busy and alarm in their ranges, also in every stored snapshot and in every
  update still under way; the ring's indices in bounds; the gateway's texts terminated.
\<close>

theorem interleaving_keeps_state_valid:
  assumes "thread_reachable sq jc d m" "list_all snapshot_in_range (pump_snapshots d)"
  shows "machine_ok m"
  using assms by (rule machine_ok_reachable)

theorem interleaving_keeps_state_valid_witness:
  "machine_ok (set_code Pub_thread look_program
     (set_code Http_thread (http_feedback_program jsonc_model ''x'')
       (set_code Sub_thread (message_program jsonc_model ''pump/control'' ''x'') (boot_machine fresh_database))))"
proof (rule interleaving_keeps_state_valid)
  let ?m1 = "set_code Sub_thread (message_program jsonc_model ''pump/control'' ''x'') (boot_machine fresh_database)"
  let ?m2 = "set_code Http_thread (http_feedback_program jsonc_model ''x'') ?m1"
  let ?m3 = "set_code Pub_thread look_program ?m2"
  have "thread_step sqlite_model jsonc_model (boot_machine fresh_database) ?m1"
    by (intro thread_step.arrive arrives.message) (simp add: boot_machine_def)
  moreover have "thread_step sqlite_model jsonc_model ?m1 ?m2"
    by (intro thread_step.arrive arrives.request) (simp add: boot_machine_def)
  moreover have "thread_step sqlite_model jsonc_model ?m2 ?m3"
    by (intro thread_step.arrive arrives.publish) (simp add: boot_machine_def)
  ultimately show "thread_reachable sqlite_model jsonc_model fresh_database ?m3"
    unfolding thread_reachable_def by (meson converse_rtranclp_into_rtranclp rtranclp.rtrancl_refl)
qed (simp add: fresh_database_def db_init_def)

text \<open>A feedback text for pump i with status s, and what both threads make of it.\<close>

definition feedback_text :: "int \<Rightarrow> int \<Rightarrow> string" where
  "feedback_text i s = json_text (JObj [(''pump_id'', JNum i), (''status'', JNum s)])"

lemma feedback_programs:
  assumes "json_c jc" "i \<in> {1, 2}" "s \<in> {0..3}"
  shows "http_feedback_program jc (feedback_text i s) = [Lock, EnterFeedback (word_of_int i) (word_of_int s)]"
    and "message_program jc ''pump/feedback'' (feedback_text i s) = [Lock, EnterFeedback (word_of_int i) (word_of_int s)]"
proof -
  let ?kvs = "[(''pump_id'', JNum i), (''status'', JNum s)]"
  have "flat_members ?kvs" using assms(2,3) by (auto simp: flat_members_def plain_def)
  then have parse: "jc_parse jc (feedback_text i s) = Some (JObj ?kvs)"
    using json_c.parse_flat [OF assms(1)] by (simp add: feedback_text_def del: json_text.simps)
  have int: "jc_int jc (JNum i) = word_of_int i" "jc_int jc (JNum s) = word_of_int s"
    using json_c.int_num [OF assms(1), of i] json_c.int_num [OF assms(1), of s] assms(2,3) by auto
  have get: "jc_get jc (JObj ?kvs) k = map_of (rev ?kvs) k" for k by (rule json_c.get_member [OF assms(1)])
  show "http_feedback_program jc (feedback_text i s) = [Lock, EnterFeedback (word_of_int i) (word_of_int s)]"
    by (simp add: http_feedback_program_def parse get int)
  have digit: "length (int_dec n) \<le> 11 \<and> nul \<notin> set (int_dec n)" if "n \<in> {0..3}" for n
  proof -
    have "n = 0 \<or> n = 1 \<or> n = 2 \<or> n = 3" using that by auto
    moreover have "int_dec 0 = ''0''" "int_dec 1 = ''1''" "int_dec 2 = ''2''" "int_dec 3 = ''3''" by code_simp+
    ultimately show ?thesis by (auto simp: nul_def)
  qed
  have "payload_text (feedback_text i s) = feedback_text i s"
    by (rule payload_text_short)
      (use digit [of i] digit [of s] assms(2,3) in \<open>auto simp: feedback_text_def quoted_def nul_def\<close>)
  moreover have "sint (word_of_int s :: c_int) = s" using assms(3) by simp
  ultimately show "message_program jc ''pump/feedback'' (feedback_text i s) = [Lock, EnterFeedback (word_of_int i) (word_of_int s)]"
    using assms(3)
    by (simp add: message_program_def feedback_message_program_def parse get int checked_int_def Let_def)
qed

text \<open>
  C30. Every handler ends, although the threads wait for each other's mutex. From the start on, under every
  interleaving of messages, requests, the publisher's rounds and the threads' steps: a thread with work
  left can make its next step, or another thread holds the mutex and that one can make its next step (no
  deadlock, and no thread locks twice or ends with the mutex); each step of a thread does some of
  its own work, of which a handler has at most 40 steps, and adds nothing to the others'; the globals other than the
  database are written by the thread that holds the mutex only, and no row is written to the database by it.
\<close>

theorem handlers_end:
  assumes "thread_reachable sq jc d m"
  shows "(\<forall>t. thread_code m t \<noteq> [] \<longrightarrow>
        (\<exists>m'. runs sq t m m') \<or> (\<exists>u m'. u \<noteq> t \<and> lock_holder m = Some u \<and> runs sq u m m')) \<and>
      (\<forall>t. thread_code m t = [] \<longrightarrow> lock_holder m \<noteq> Some t) \<and>
      (\<forall>t. work (thread_code m t) \<le> 40) \<and>
      (\<forall>t m'. runs sq t m m' \<longrightarrow>
        work (thread_code m' t) < work (thread_code m t) \<and> (\<forall>u. u \<noteq> t \<longrightarrow> thread_code m' u = thread_code m u) \<and>
        (same_globals (shared m) (shared m') \<or> lock_holder m = Some t) \<and>
        (database (shared m') = database (shared m) \<or> lock_holder m \<noteq> Some t))"
proof (intro conjI allI impI)
  note ok = locks_ok_reachable [OF assms]
  show "work (thread_code m t) \<le> 40" for t by (rule work_bounded [OF assms])
  show "lock_holder m \<noteq> Some t" if "thread_code m t = []" for t
    using that ok by (rule idle_without_lock [rotated])
  show "(\<exists>m'. runs sq t m m') \<or> (\<exists>u m'. u \<noteq> t \<and> lock_holder m = Some u \<and> runs sq u m m')"
    if "thread_code m t \<noteq> []" for t
  proof -
    have "\<exists>m'. runs sq u m m'" if "lock_holder m = Some u" for u
      using next_step [OF ok, of u sq] idle_without_lock [OF ok, of u] that by auto
    with next_step [OF ok \<open>thread_code m t \<noteq> []\<close>, of sq] show ?thesis by blast
  qed
  fix t m' assume step: "runs sq t m m'"
  then obtain ins rest now sv nxt where run: "thread_code m t = ins # rest" "exec sq now ins (shared m) = (sv, nxt)"
      "m' = set_code t (nxt @ rest) (m\<lparr>shared := sv, lock_holder := lock_after (lock_holder m) t ins\<rparr>)"
    by cases auto
  have bal: "balanced (lock_holder m = Some t) (ins # rest)" using ok run(1) by (metis locks_ok_def)
  show "work (thread_code m' t) < work (thread_code m t)" using exec_work [OF run(2), of rest] run by simp
  show "thread_code m' u = thread_code m u" if "u \<noteq> t" for u using run(3) that by simp
  show "same_globals (shared m) (shared m') \<or> lock_holder m = Some t"
    using exec_globals [OF bal run(2)] run(3) by auto
  show "database (shared m') = database (shared m) \<or> lock_holder m \<noteq> Some t"
    using exec_database [OF bal run(2)] run(3) by auto
qed

theorem handlers_end_witness:
  "\<exists>m m'. subscriber m = [Lock, EnterFeedback 1 1] \<and> runs sqlite_model Sub_thread m m' \<and>
    work (subscriber m') < work (subscriber m)"
proof -
  let ?m = "set_code Sub_thread [Lock, EnterFeedback 1 1] (boot_machine fresh_database)"
  have "thread_step sqlite_model jsonc_model (boot_machine fresh_database) ?m"
    using arrives.message [of "boot_machine fresh_database" jsonc_model "''pump/feedback''" "feedback_text 1 1"]
      feedback_programs(2) [OF jsonc_model.json_c_axioms, of 1 1]
    by (intro thread_step.arrive) (simp add: boot_machine_def)
  then have "thread_reachable sqlite_model jsonc_model fresh_database ?m"
    unfolding thread_reachable_def by (rule r_into_rtranclp)
  note ends = handlers_end [OF this]
  have "subscriber ?m \<noteq> []" "lock_holder ?m = None" by (simp_all add: boot_machine_def)
  then obtain m' where "runs sqlite_model Sub_thread ?m m'" using conjunct1 [OF ends] by fastforce
  with ends show ?thesis by (intro exI [of _ ?m] exI [of _ m'] conjI) (simp, assumption, blast)
qed

text \<open>
  Two reports about pump 1 overlap: the subscriber's thread has left its first critical section, the
  HTTP thread has not begun.
\<close>

lemma overlap_start:
  assumes "json_c jc"
  shows "(thread_step sq jc)\<^sup>*\<^sup>* (boot_machine d)
    (set_code Http_thread [Lock, EnterFeedback 1 2]
      (set_code Sub_thread [InsertFeedback 1 1, InsertSnapshot, Lock, CommitFeedback 1 1, Unlock]
        ((boot_machine d)\<lparr>shared := fst (feedback_enter 5 1 1 (initial_server d))\<rparr>)))"
proof -
  let ?m0 = "boot_machine d"
  let ?m1 = "set_code Sub_thread [Lock, EnterFeedback 1 1] ?m0"
  let ?m2 = "set_code Http_thread [Lock, EnterFeedback 1 2] ?m1"
  let ?m2a = "set_code Sub_thread [EnterFeedback 1 1] (?m2\<lparr>lock_holder := Some Sub_thread\<rparr>)"
  let ?sv3 = "fst (feedback_enter 5 1 1 (initial_server d))"
  let ?rest = "[InsertFeedback 1 1, InsertSnapshot, Lock, CommitFeedback 1 1, Unlock]"
  let ?m2b = "set_code Sub_thread (Unlock # ?rest) (?m2a\<lparr>shared := ?sv3\<rparr>)"
  let ?m3 = "set_code Sub_thread ?rest (?m2b\<lparr>lock_holder := None\<rparr>)"
  have valid: "valid_status 1 = 1" by (simp add: valid_status_def)
  have "thread_step sq jc ?m0 ?m1"
    using arrives.message [of ?m0 jc "''pump/feedback''" "feedback_text 1 1"] feedback_programs(2) [OF assms, of 1 1]
    by (intro thread_step.arrive) (simp add: boot_machine_def)
  moreover have "thread_step sq jc ?m1 ?m2"
    using arrives.request [of ?m1 jc "feedback_text 1 2"] feedback_programs(1) [OF assms, of 1 2]
    by (intro thread_step.arrive) (simp add: boot_machine_def)
  moreover have "runs sq Sub_thread ?m2 ?m2a"
    using runs.run [of ?m2 Sub_thread Lock "[EnterFeedback 1 1]" sq 0 "shared ?m2" "[]"] by (simp add: boot_machine_def)
  moreover have "runs sq Sub_thread ?m2a ?m2b"
    using runs.run [of ?m2a Sub_thread "EnterFeedback 1 1" "[]" sq 5 ?sv3 "Unlock # ?rest"]
    by (simp add: boot_machine_def valid feedback_enter_def initial_server_def zero_status_def)
  moreover have "runs sq Sub_thread ?m2b ?m3"
    using runs.run [of ?m2b Sub_thread Unlock ?rest sq 0 "shared ?m2b" "[]"] by simp
  ultimately have "(thread_step sq jc)\<^sup>*\<^sup>* ?m0 ?m3"
    by (meson thread_step.progress converse_rtranclp_into_rtranclp rtranclp.rtrancl_refl)
  then show ?thesis by (simp add: boot_machine_def fun_upd_twist)
qed

text \<open>
  C7. The two threads can leave the change detector wrong: when an MQTT feedback (pump 1 running)
  and an HTTP feedback (pump 1 stopped) overlap, both threads can end with the state at stopped and
  the previous value at running; the next report that pump 1 runs then changes the state without a row
  in the history.
\<close>

theorem feedback_race:
  assumes "json_c jc"
  shows "\<exists>m. thread_reachable sq jc d m \<and> subscriber m = [] \<and> http_thread m = [] \<and> \<not> detector_ok (shared m) \<and>
    (\<forall>now. let sv' = update_pump_feedback sq now 1 1 (shared m) in
      ps_status1 (current_pump_status (shared m)) = 2 \<and> ps_status1 (current_pump_status sv') = 1 \<and>
      database sv' = database (shared m))"
proof -
  let ?step = "(thread_step sq jc)\<^sup>*\<^sup>*"
  let ?sv3 = "fst (feedback_enter 5 1 1 (initial_server d))"
  let ?rest = "[InsertFeedback 1 1, InsertSnapshot, Lock, CommitFeedback 1 1, Unlock]"
  let ?m3 = "set_code Http_thread [Lock, EnterFeedback 1 2] (set_code Sub_thread ?rest ((boot_machine d)\<lparr>shared := ?sv3\<rparr>))"
  let ?sv4 = "update_pump_feedback sq 5 1 2 ?sv3"
  let ?m4 = "set_code Http_thread [] (?m3\<lparr>shared := ?sv4, lock_holder := None\<rparr>)"
  let ?sv5 = "feedback_commit 1 1 (feedback_record sq 1 1 ?sv4)"
  let ?m5 = "set_code Sub_thread [] (?m4\<lparr>shared := ?sv5, lock_holder := None\<rparr>)"
  have valid: "valid_status 1 = 1" "valid_status 2 = 2" by (simp_all add: valid_status_def)
  have m3: "?step (boot_machine d) ?m3" using overlap_start [OF assms] by simp
  have "complete sq ?sv3 [Lock, EnterFeedback 1 2] ?sv4" by (auto simp: complete_updates)
  then have m4: "?step ?m3 ?m4"
    by (rule runs_steps [OF complete_runs]) (simp_all add: boot_machine_def)
  have "complete sq ?sv4 ?rest ?sv5" by (simp add: complete_steps feedback_record_def)
  then have m5: "?step ?m4 ?m5"
    by (rule runs_steps [OF complete_runs]) (simp_all add: boot_machine_def)
  have "?step (boot_machine d) ?m5" using m3 m4 m5 by (meson rtranclp_trans)
  moreover have cur: "ps_status1 (current_pump_status ?sv5) = 2" "ps_status1 (previous_pump_status ?sv5) = 1"
    by (simp_all add: shared_defs valid set_status_def initial_server_def zero_status_def)
  moreover from cur have "\<not> detector_ok ?sv5" by (simp add: detector_ok_def status_values_eq_iff)
  moreover from cur have "database (update_pump_feedback sq now 1 1 ?sv5) = database ?sv5 \<and>
      ps_status1 (current_pump_status (update_pump_feedback sq now 1 1 ?sv5)) = 1" for now
    by (simp add: update_current set_status_def valid)
      (simp add: update_pump_feedback_def feedback_enter_def valid Let_def)
  ultimately show ?thesis
    by (intro exI [of _ ?m5]) (simp add: thread_reachable_def Let_def)
qed

theorem feedback_race_witness:
  "\<exists>m. thread_reachable sqlite_model jsonc_model fresh_database m \<and> \<not> detector_ok (shared m)"
  using feedback_race [OF jsonc_model.json_c_axioms, of sqlite_model fresh_database] by blast

end
