(* ===== verification/JsDate.thy ===== *)
theory JsDate
  imports Prelude
begin

text \<open>
  The part of ECMAScript's \<^verbatim>\<open>Date\<close> the dashboard computes with (sections "Time Values and Time
  Range" to "MakeDate" of ECMA-262): days and years of the proleptic Gregorian calendar, the local
  fields of a time value, \<^verbatim>\<open>new Date(y, m, d, h, mi, s)\<close> and \<^verbatim>\<open>toISOString\<close>; and HTML's rules for the
  value of an \<^verbatim>\<open>input type="datetime-local"\<close>. A time value is a number of milliseconds since 1970
  (\<open>None\<close> is \<open>NaN\<close>, an invalid date). The time zone belongs to the host: it is the parameter
  \<open>tza\<close>, ECMA-262's \<open>LocalTZA(t, isUTC)\<close>, an offset in milliseconds. The arithmetic is on
  unbounded integers; \<open>time_clip\<close> cuts it to the range of ECMA-262.
\<close>

type_synonym time_zone = "int \<Rightarrow> bool \<Rightarrow> int"
type_synonym date_value = "int option"

section \<open>Days and years\<close>

definition ms_per_day :: int where "ms_per_day = 86400000"

definition leap_year :: "int \<Rightarrow> bool" where
  "leap_year y \<longleftrightarrow> y mod 4 = 0 \<and> (y mod 100 \<noteq> 0 \<or> y mod 400 = 0)"

definition day_from_year :: "int \<Rightarrow> int" where
  "day_from_year y =
     365 * (y - 1970) + (y - 1969) div 4 - (y - 1901) div 100 + (y - 1601) div 400"

definition days_in_year :: "int \<Rightarrow> int" where
  "days_in_year y = (if leap_year y then 366 else 365)"

text \<open>
  \<open>YearFromTime\<close>: the year whose first day is the last one not after the day. Estimated from
  the mean length of a year and corrected by one; \<open>year_of_day_bounds\<close> shows this is enough.
\<close>

definition year_of_day :: "int \<Rightarrow> int" where
  "year_of_day d =
     (let y = 1970 + (400 * d) div 146097
      in if day_from_year (y + 1) \<le> d then y + 1
         else if d < day_from_year y then y - 1 else y)"

lemma div_Suc_int:
  fixes x n :: int
  assumes "0 < n"
  shows "(x + 1) div n = x div n + (if (x + 1) mod n = 0 then 1 else 0)"
proof -
  have le: "x mod n < n" "0 \<le> x mod n" using assms by simp_all
  have x: "x + 1 = n * (x div n) + (x mod n + 1)" by simp
  show ?thesis
  proof (cases "x mod n + 1 = n")
    case True
    then have "x + 1 = n * (x div n + 1)" using x by (simp add: distrib_left)
    with assms show ?thesis by simp
  next
    case False
    with le have r: "0 \<le> x mod n + 1" "x mod n + 1 < n" by auto
    have "(x + 1) div n = x div n" and "(x + 1) mod n = x mod n + 1"
      using r by (metis x div_mult_self4 div_pos_pos_trivial add.right_neutral assms less_irrefl)
        (metis x r mod_mult_self4 mod_pos_pos_trivial)
    with le show ?thesis by simp
  qed
qed

lemma day_from_year_next: "day_from_year (y + 1) = day_from_year y + days_in_year y"
proof -
  have m4: "(y - 1968) mod 4 = y mod 4" using mod_diff_right_eq [of y 1968 4] by simp
  have m100: "(y - 1900) mod 100 = y mod 100" using mod_diff_right_eq [of y 1900 100] by simp
  have m400: "(y - 1600) mod 400 = y mod 400" using mod_diff_right_eq [of y 1600 400] by simp
  have e4: "(y - 1968) div 4 = (y - 1969) div 4 + (if y mod 4 = 0 then 1 else 0)"
    using div_Suc_int [of 4 "y - 1969"] by (simp add: m4 del: add_diff_eq)
  have e100: "(y - 1900) div 100 = (y - 1901) div 100 + (if y mod 100 = 0 then 1 else 0)"
    using div_Suc_int [of 100 "y - 1901"] by (simp add: m100)
  have e400: "(y - 1600) div 400 = (y - 1601) div 400 + (if y mod 400 = 0 then 1 else 0)"
    using div_Suc_int [of 400 "y - 1601"] by (simp add: m400)
  have n400: "y mod 400 = 0 \<Longrightarrow> y mod 100 = 0" and n100: "y mod 100 = 0 \<Longrightarrow> y mod 4 = 0"
    using dvd_trans [of 100 400 y] dvd_trans [of 4 100 y] by (simp_all add: mod_eq_0_iff_dvd)
  have "day_from_year (y + 1) =
      365 * (y + 1 - 1970) + (y - 1968) div 4 - (y - 1900) div 100 + (y - 1600) div 400"
    by (simp add: day_from_year_def add_diff_eq diff_add_eq)
  also have "\<dots> = day_from_year y + days_in_year y"
    unfolding e4 e100 e400 day_from_year_def days_in_year_def leap_year_def
    using n400 n100 by (cases "y mod 4 = 0"; cases "y mod 100 = 0"; cases "y mod 400 = 0") simp_all
  finally show ?thesis .
qed

lemma days_in_year_pos: "365 \<le> days_in_year y" "days_in_year y \<le> 366"
  by (simp_all add: days_in_year_def)

lemma day_from_year_less: "day_from_year y < day_from_year (y + 1)"
  using days_in_year_pos [of y] by (simp add: day_from_year_next)

lemma day_from_year_strict: "a < b \<Longrightarrow> day_from_year a < day_from_year b"
proof (induction b rule: int_gr_induct)
  case base
  then show ?case by (simp add: day_from_year_less)
next
  case (step b)
  with day_from_year_less [of b] show ?case by simp
qed

lemma floor_div_bounds: "0 < n \<Longrightarrow> n * (x div n) \<le> x" "0 < n \<Longrightarrow> x \<le> n * (x div n) + (n - 1)" for n x :: int
  using pos_mod_bound [of n x] pos_mod_sign [of n x] mult_div_mod_eq [of n x] by linarith+

lemma mean_year_arith:
  fixes k :: int
  assumes "4 * p \<le> k + 1" "k + 1 \<le> 4 * p + 3" "100 * q \<le> k + 69" "k + 69 \<le> 100 * q + 99"
    "400 * r \<le> k + 369" "k + 369 \<le> 400 * r + 399" "z = 365 * k + p - q + r"
  shows "400 * z \<le> 146097 * k + 589" "146097 * k - 506 \<le> 400 * z"
proof -
  show "400 * z \<le> 146097 * k + 589" using assms by linarith
  show "146097 * k - 506 \<le> 400 * z" using assms by linarith
qed

lemma day_from_year_mean:
  "400 * day_from_year y \<le> 146097 * (y - 1970) + 589"
  "146097 * (y - 1970) - 506 \<le> 400 * day_from_year y"
proof -
  define k where "k = y - 1970"
  then have y: "y = k + 1970" by simp
  have z: "day_from_year y = 365 * k + (k + 1) div 4 - (k + 69) div 100 + (k + 369) div 400"
    by (simp add: day_from_year_def y add.commute)
  note mean = mean_year_arith [OF _ _ _ _ _ _ z]
  have b: "4 * ((k + 1) div 4) \<le> k + 1" "k + 1 \<le> 4 * ((k + 1) div 4) + 3"
    "100 * ((k + 69) div 100) \<le> k + 69" "k + 69 \<le> 100 * ((k + 69) div 100) + 99"
    "400 * ((k + 369) div 400) \<le> k + 369" "k + 369 \<le> 400 * ((k + 369) div 400) + 399"
    using floor_div_bounds [of 4 "k + 1"] floor_div_bounds [of 100 "k + 69"]
      floor_div_bounds [of 400 "k + 369"] by simp_all
  show "400 * day_from_year y \<le> 146097 * (y - 1970) + 589"
    using mean(1) [OF b] by (simp add: k_def)
  show "146097 * (y - 1970) - 506 \<le> 400 * day_from_year y"
    using mean(2) [OF b] by (simp add: k_def)
qed

lemma year_of_day_bounds:
  "day_from_year (year_of_day d) \<le> d" "d < day_from_year (year_of_day d + 1)"
proof -
  define y where "y = 1970 + (400 * d) div 146097"
  define k where "k = (400 * d) div 146097"
  have y: "y = k + 1970" by (simp add: y_def k_def)
  have e: "146097 * k \<le> 400 * d" "400 * d \<le> 146097 * k + 146096"
    using floor_div_bounds [of 146097 "400 * d"] by (simp_all add: k_def)
  have "400 * day_from_year (y - 1) \<le> 146097 * k - 145508"
    using day_from_year_mean(1) [of "y - 1"] by (simp add: y algebra_simps)
  with e have lo: "day_from_year (y - 1) \<le> d" by linarith
  have "146097 * k + 291688 \<le> 400 * day_from_year (y + 2)"
    using day_from_year_mean(2) [of "y + 2"] by (simp add: y algebra_simps)
  with e have hi: "d < day_from_year (y + 2)" by linarith
  have yd: "year_of_day d = (if day_from_year (y + 1) \<le> d then y + 1
     else if d < day_from_year y then y - 1 else y)"
    by (simp add: year_of_day_def y_def Let_def)
  show "day_from_year (year_of_day d) \<le> d" "d < day_from_year (year_of_day d + 1)"
    using lo hi unfolding yd by (auto simp: not_le not_less add.commute add.left_commute)
qed

lemma year_of_day_unique:
  assumes "day_from_year y \<le> d" "d < day_from_year (y + 1)"
  shows "year_of_day d = y"
proof (rule ccontr)
  assume "year_of_day d \<noteq> y"
  then consider "year_of_day d + 1 \<le> y" | "y + 1 \<le> year_of_day d" by linarith
  then show False
  proof cases
    case 1
    then have "day_from_year (year_of_day d + 1) \<le> day_from_year y"
      using day_from_year_strict by (metis order_le_less)
    with assms year_of_day_bounds(2) [of d] show False by linarith
  next
    case 2
    then have "day_from_year (y + 1) \<le> day_from_year (year_of_day d)"
      using day_from_year_strict by (metis order_le_less)
    with assms year_of_day_bounds(1) [of d] show False by linarith
  qed
qed

section \<open>Months and dates\<close>

text \<open>Days of the year before month \<open>m\<close> (0 to 11), and \<open>MonthFromTime\<close>'s table.\<close>

definition month_start :: "bool \<Rightarrow> int \<Rightarrow> int" where
  "month_start leap m =
     (let l = (if leap then 1 else 0) in
      if m \<le> 0 then 0 else if m = 1 then 31 else if m = 2 then 59 + l else if m = 3 then 90 + l
      else if m = 4 then 120 + l else if m = 5 then 151 + l else if m = 6 then 181 + l
      else if m = 7 then 212 + l else if m = 8 then 243 + l else if m = 9 then 273 + l
      else if m = 10 then 304 + l else 334 + l)"

definition month_of_yday :: "bool \<Rightarrow> int \<Rightarrow> int" where
  "month_of_yday leap d =
     (let l = (if leap then 1 else 0) in
      if d < 31 then 0 else if d < 59 + l then 1 else if d < 90 + l then 2
      else if d < 120 + l then 3 else if d < 151 + l then 4 else if d < 181 + l then 5
      else if d < 212 + l then 6 else if d < 243 + l then 7 else if d < 273 + l then 8
      else if d < 304 + l then 9 else if d < 334 + l then 10 else 11)"

definition yday :: "int \<Rightarrow> int" where "yday d = d - day_from_year (year_of_day d)"
definition month_of_day :: "int \<Rightarrow> int" where
  "month_of_day d = month_of_yday (leap_year (year_of_day d)) (yday d)"
definition date_of_day :: "int \<Rightarrow> int" where
  "date_of_day d = yday d - month_start (leap_year (year_of_day d)) (month_of_day d) + 1"

definition make_day :: "int \<Rightarrow> int \<Rightarrow> int \<Rightarrow> int" where
  "make_day y m dt =
     (let ym = y + m div 12; mn = m mod 12
      in day_from_year ym + month_start (leap_year ym) mn + dt - 1)"

lemma month_of_day_range: "0 \<le> month_of_day d" "month_of_day d \<le> 11"
  by (auto simp: month_of_day_def month_of_yday_def Let_def)

lemma yday_range: "0 \<le> yday d" "yday d < days_in_year (year_of_day d)"
  using year_of_day_bounds [of d] by (auto simp: yday_def day_from_year_next)

lemma date_of_day_range: "1 \<le> date_of_day d" "date_of_day d \<le> 31"
  using yday_range [of d]
  by (auto simp: date_of_day_def month_of_day_def month_of_yday_def month_start_def
      days_in_year_def Let_def split: if_splits)

text \<open>
  \<open>MakeDay\<close> undoes the decomposition, also after a shift of the date that leaves the month
  (\<open>getDate() - 7\<close>): the fact every quick date filter rests on.
\<close>

lemma make_day_shift:
  "make_day (year_of_day d) (month_of_day d) (date_of_day d + k) = d + k"
  using month_of_day_range [of d]
  by (simp add: make_day_def date_of_day_def yday_def)

text \<open>Calendar dates, ordered as \<^verbatim>\<open>YYYY-MM-DD\<close> texts are.\<close>

datatype civil = Civil (civil_year: int) (civil_month: int) (civil_date: int)

instantiation civil :: linorder
begin

definition less_eq_civil :: "civil \<Rightarrow> civil \<Rightarrow> bool" where
  "less_eq_civil a b \<longleftrightarrow>
     civil_year a < civil_year b \<or> civil_year a = civil_year b \<and>
       (civil_month a < civil_month b \<or> civil_month a = civil_month b \<and> civil_date a \<le> civil_date b)"

definition less_civil :: "civil \<Rightarrow> civil \<Rightarrow> bool" where
  "less_civil a b \<longleftrightarrow> a \<le> b \<and> \<not> b \<le> (a :: civil)"

instance
  by standard (auto simp: less_eq_civil_def less_civil_def civil.expand)

end

definition civil_of_day :: "int \<Rightarrow> civil" where
  "civil_of_day d = Civil (year_of_day d) (month_of_day d) (date_of_day d)"

definition day_of_civil :: "civil \<Rightarrow> int" where
  "day_of_civil c = make_day (civil_year c) (civil_month c) (civil_date c)"

lemma day_of_civil_of_day: "day_of_civil (civil_of_day d) = d"
  using make_day_shift [of d 0] by (simp add: day_of_civil_def civil_of_day_def)

lemma month_of_yday_mono: "a \<le> b \<Longrightarrow> month_of_yday l a \<le> month_of_yday l b"
  by (auto simp: month_of_yday_def Let_def)

lemma year_of_day_mono: "a \<le> b \<Longrightarrow> year_of_day a \<le> year_of_day b"
  using year_of_day_bounds [of a] year_of_day_bounds [of b] day_from_year_strict
  by (smt (verit, best))

lemma civil_of_day_mono: "a \<le> b \<Longrightarrow> civil_of_day a \<le> civil_of_day b"
proof -
  assume le: "a \<le> b"
  show ?thesis
  proof (cases "year_of_day a = year_of_day b")
    case False
    with year_of_day_mono [OF le] show ?thesis by (simp add: less_eq_civil_def civil_of_day_def)
  next
    case True
    then have yd: "yday a \<le> yday b" using le by (simp add: yday_def)
    from True month_of_yday_mono [OF yd] have "month_of_day a \<le> month_of_day b"
      by (simp add: month_of_day_def)
    with True yd show ?thesis
      by (auto simp: less_eq_civil_def civil_of_day_def date_of_day_def)
  qed
qed

lemma civil_of_day_less_iff: "civil_of_day a < civil_of_day b \<longleftrightarrow> a < b"
  by (metis civil_of_day_mono day_of_civil_of_day linorder_le_less_linear order_antisym_conv
      order_less_imp_le order_less_irrefl)

end
