(* ===== verification/LocalTime.thy ===== *)
theory LocalTime
  imports JsDate
begin

text \<open>
  Local time on top of \<^verbatim>\<open>JsDate\<close>: the local fields of a date, the seven-argument
  \<^verbatim>\<open>Date\<close> constructor, \<^verbatim>\<open>toISOString\<close>, the helper \<^verbatim>\<open>toISOLocal\<close> of \<^verbatim>\<open>web/script.js\<close>, the value
  rules of \<^verbatim>\<open>datetime-local\<close> inputs, and the date ranges of the quick filters.
\<close>

section \<open>Fields of a time value\<close>

definition day_of :: "int \<Rightarrow> int" where "day_of t = t div ms_per_day"
definition hour_of :: "int \<Rightarrow> int" where "hour_of t = (t div 3600000) mod 24"
definition minute_of :: "int \<Rightarrow> int" where "minute_of t = (t div 60000) mod 60"
definition second_of :: "int \<Rightarrow> int" where "second_of t = (t div 1000) mod 60"
definition milli_of :: "int \<Rightarrow> int" where "milli_of t = t mod 1000"

definition local_time :: "time_zone \<Rightarrow> int \<Rightarrow> int" where "local_time tza t = t + tza t True"
definition utc_time :: "time_zone \<Rightarrow> int \<Rightarrow> int" where "utc_time tza t = t - tza t False"

definition getFullYear :: "time_zone \<Rightarrow> int \<Rightarrow> int" where
  "getFullYear tza t = year_of_day (day_of (local_time tza t))"
definition getMonth :: "time_zone \<Rightarrow> int \<Rightarrow> int" where
  "getMonth tza t = month_of_day (day_of (local_time tza t))"
definition getDate :: "time_zone \<Rightarrow> int \<Rightarrow> int" where
  "getDate tza t = date_of_day (day_of (local_time tza t))"
definition getHours :: "time_zone \<Rightarrow> int \<Rightarrow> int" where
  "getHours tza t = hour_of (local_time tza t)"
definition getMinutes :: "time_zone \<Rightarrow> int \<Rightarrow> int" where
  "getMinutes tza t = minute_of (local_time tza t)"

definition make_time :: "int \<Rightarrow> int \<Rightarrow> int \<Rightarrow> int \<Rightarrow> int" where
  "make_time h m s ms = h * 3600000 + m * 60000 + s * 1000 + ms"

definition time_clip :: "int \<Rightarrow> date_value" where
  "time_clip t = (if \<bar>t\<bar> \<le> 8640000000000000 then Some t else None)"

text \<open>\<open>new Date(y, m, d, h, mi, s)\<close>; years 0 to 99 mean 1900 to 1999.\<close>

definition new_date :: "time_zone \<Rightarrow> int \<Rightarrow> int \<Rightarrow> int \<Rightarrow> int \<Rightarrow> int \<Rightarrow> int \<Rightarrow> date_value" where
  "new_date tza y m d h mi s =
     (let yr = (if 0 \<le> y \<and> y \<le> 99 then 1900 + y else y)
      in time_clip (utc_time tza (make_day yr m d * ms_per_day + make_time h mi s 0)))"

section \<open>Quick date ranges\<close>

text \<open>
  The \<open>switch\<close> of \<open>applyQuickFilter\<close>: \<open>fromDate\<close> and \<open>toDate\<close>, \<open>None\<close> for \<open>null\<close>.
\<close>

definition quick_range :: "time_zone \<Rightarrow> int \<Rightarrow> string \<Rightarrow> date_value option \<times> date_value option" where
  "quick_range tza now rng =
     (let start = (\<lambda>k. new_date tza (getFullYear tza now) (getMonth tza now) (getDate tza now - k) 0 0 0);
          fin = (\<lambda>k. new_date tza (getFullYear tza now) (getMonth tza now) (getDate tza now - k) 23 59 59)
      in if rng = ''all'' then (None, None)
         else if rng = ''today'' then (Some (start 0), Some (fin 0))
         else if rng = ''yesterday'' then (Some (start 1), Some (fin 1))
         else if rng = ''week'' then (Some (start 7), Some (fin 0))
         else if rng = ''month'' then (Some (start 30), Some (fin 0))
         else (None, None))"

text \<open>
  A zone without clock changes (the deployment's, UTC+7, is one), offset below a day, and a clock
  between 1970 and 2100.
\<close>

definition fixed_offset :: "time_zone \<Rightarrow> int \<Rightarrow> bool" where
  "fixed_offset tza off \<longleftrightarrow> tza = (\<lambda>_ _. off) \<and> \<bar>off\<bar> < ms_per_day"

definition current_era :: "int \<Rightarrow> bool" where
  "current_era now \<longleftrightarrow> 0 \<le> now \<and> now < 4102444800000"

text \<open>Local midnight of the day of \<open>now\<close>, as a time value.\<close>

definition day_start :: "int \<Rightarrow> int \<Rightarrow> int" where
  "day_start off now = (now + off) div ms_per_day * ms_per_day - off"

lemma day_start_bounds: "day_start off now \<le> now" "now < day_start off now + ms_per_day"
  using floor_div_bounds [of ms_per_day "now + off"]
  by (simp_all add: day_start_def ms_per_day_def)

lemma year_of_minus_1: "year_of_day (- 1) = 1969"
  by (rule year_of_day_unique) (simp_all add: day_from_year_def)

lemma new_date_shift:
  assumes "fixed_offset tza off" "current_era now" "\<bar>k\<bar> \<le> 366" "0 \<le> make_time h mi s 0"
    "make_time h mi s 0 < ms_per_day"
  shows "new_date tza (getFullYear tza now) (getMonth tza now) (getDate tza now - k) h mi s =
    Some (day_start off now - k * ms_per_day + make_time h mi s 0)"
proof -
  from assms(1) have off: "\<bar>off\<bar> < ms_per_day" and lt: "local_time tza now = now + off"
    and ut: "utc_time tza t = t - off" for t
    by (simp_all add: fixed_offset_def local_time_def utc_time_def)
  define d where "d = day_of (now + off)"
  have "- ms_per_day \<le> now + off"
    using off assms(2) by (auto simp: ms_per_day_def current_era_def)
  then have "- 1 \<le> d"
    using zdiv_mono1 [of "- ms_per_day" "now + off" ms_per_day]
    by (simp add: d_def day_of_def ms_per_day_def)
  then have "1969 \<le> year_of_day d" using year_of_day_mono [of "- 1" d] by (simp add: year_of_minus_1)
  then have "new_date tza (getFullYear tza now) (getMonth tza now) (getDate tza now - k) h mi s =
     time_clip ((d - k) * ms_per_day + make_time h mi s 0 - off)"
    using make_day_shift [of d "- k"]
    by (simp add: new_date_def getFullYear_def getMonth_def getDate_def lt ut d_def)
  also have "(d - k) * ms_per_day + make_time h mi s 0 - off =
     day_start off now - k * ms_per_day + make_time h mi s 0"
    by (simp add: d_def day_of_def day_start_def algebra_simps)
  also have "time_clip \<dots> = Some \<dots>"
    using day_start_bounds(1) [of off now] day_start_bounds(2) [of now off] assms(2-5)
    by (simp add: time_clip_def ms_per_day_def current_era_def abs_le_iff)
  finally show ?thesis .
qed

lemma quick_range_closed:
  assumes "fixed_offset tza off" "current_era now"
  defines "m \<equiv> day_start off now"
  shows "quick_range tza now ''today'' = (Some (Some m), Some (Some (m + 86399000)))"
    and "quick_range tza now ''yesterday'' =
      (Some (Some (m - ms_per_day)), Some (Some (m - ms_per_day + 86399000)))"
    and "quick_range tza now ''week'' = (Some (Some (m - 7 * ms_per_day)), Some (Some (m + 86399000)))"
    and "quick_range tza now ''month'' = (Some (Some (m - 30 * ms_per_day)), Some (Some (m + 86399000)))"
proof -
  note shift = new_date_shift [OF assms(1,2)]
  have start: "new_date tza (getFullYear tza now) (getMonth tza now) (getDate tza now - k) 0 0 0 =
      Some (m - k * ms_per_day)" if "\<bar>k\<bar> \<le> 366" for k
    using shift [OF that, of 0 0 0] by (simp add: make_time_def ms_per_day_def m_def)
  have fin: "new_date tza (getFullYear tza now) (getMonth tza now) (getDate tza now - k) 23 59 59 =
      Some (m - k * ms_per_day + 86399000)" if "\<bar>k\<bar> \<le> 366" for k
    using shift [OF that, of 23 59 59] by (simp add: make_time_def ms_per_day_def m_def)
  show "quick_range tza now ''today'' = (Some (Some m), Some (Some (m + 86399000)))"
    "quick_range tza now ''yesterday'' =
      (Some (Some (m - ms_per_day)), Some (Some (m - ms_per_day + 86399000)))"
    "quick_range tza now ''week'' = (Some (Some (m - 7 * ms_per_day)), Some (Some (m + 86399000)))"
    "quick_range tza now ''month'' = (Some (Some (m - 30 * ms_per_day)), Some (Some (m + 86399000)))"
    using start [of 0] start [of 1] start [of 7] start [of 30] fin [of 0] fin [of 1]
    by (simp_all add: quick_range_def)
qed

section \<open>toISOString and toISOLocal\<close>

definition pad_dec :: "nat \<Rightarrow> int \<Rightarrow> string" where
  "pad_dec n i = padStart n (CHR ''0'') (int_dec i)"

definition iso_year :: "int \<Rightarrow> string" where
  "iso_year y =
     (if 0 \<le> y \<and> y \<le> 9999 then pad_dec 4 y
      else if y < 0 then CHR ''-'' # pad_dec 6 (- y) else CHR ''+'' # pad_dec 6 y)"

definition iso_date_text :: "civil \<Rightarrow> string" where
  "iso_date_text c =
     iso_year (civil_year c) @ ''-'' @ pad_dec 2 (civil_month c + 1) @ ''-'' @ pad_dec 2 (civil_date c)"

definition iso_text :: "int \<Rightarrow> string" where
  "iso_text t =
     iso_date_text (civil_of_day (day_of t)) @ ''T'' @ pad_dec 2 (hour_of t) @ '':'' @
     pad_dec 2 (minute_of t) @ '':'' @ pad_dec 2 (second_of t) @ ''.'' @ pad_dec 3 (milli_of t) @ ''Z''"

definition toISOString :: "date_value \<Rightarrow> js_error + string" where
  "toISOString v = (case v of None \<Rightarrow> Inl RangeError | Some t \<Rightarrow> Inr (iso_text t))"

text \<open>\<open>getTimezoneOffset() * 60000\<close>: the distance from local time, in milliseconds.\<close>

definition tz_offset_ms :: "time_zone \<Rightarrow> int \<Rightarrow> int" where
  "tz_offset_ms tza t = t - local_time tza t"

definition toISOLocal :: "time_zone \<Rightarrow> date_value \<Rightarrow> js_error + string" where
  "toISOLocal tza v =
     toISOString (case v of None \<Rightarrow> None | Some t \<Rightarrow> time_clip (t - tz_offset_ms tza t))"

section \<open>Values of a datetime-local input\<close>

text \<open>\<open>split_at c s\<close>: the text before the first \<open>c\<close>, and the text after it when there is one.\<close>

definition split_at :: "char \<Rightarrow> string \<Rightarrow> string \<times> string option" where
  "split_at c s =
     (takeWhile (\<lambda>x. x \<noteq> c) s, case dropWhile (\<lambda>x. x \<noteq> c) s of [] \<Rightarrow> None | _ # r \<Rightarrow> Some r)"

definition all_digits :: "string \<Rightarrow> bool" where "all_digits s \<longleftrightarrow> list_all is_digit s"

text \<open>
  The fields of a valid local date and time string of HTML (year, month, day, hour, minute,
  second, millisecond), \<open>None\<close> for any other text.
\<close>

definition parse_date_text :: "string \<Rightarrow> (int \<times> int \<times> int) option" where
  "parse_date_text s =
     (case split_at (CHR ''-'') s of (_, None) \<Rightarrow> None | (y, Some md) \<Rightarrow>
       (case split_at (CHR ''-'') md of (_, None) \<Rightarrow> None | (m, Some d) \<Rightarrow>
         (if all_digits y \<and> all_digits m \<and> all_digits d \<and> 4 \<le> length y \<and> length m = 2 \<and> length d = 2
             \<and> 0 < dec_val y \<and> 1 \<le> dec_val m \<and> dec_val m \<le> 12 \<and> 1 \<le> dec_val d
             \<and> int (dec_val d) \<le>
                 (if dec_val m = 12 then 31 else
                   month_start (leap_year (int (dec_val y))) (int (dec_val m))
                   - month_start (leap_year (int (dec_val y))) (int (dec_val m) - 1))
          then Some (int (dec_val y), int (dec_val m) - 1, int (dec_val d)) else None)))"

definition parse_seconds_text :: "string \<Rightarrow> (int \<times> int) option" where
  "parse_seconds_text s =
     (case split_at (CHR ''.'') s of
        (sec, None) \<Rightarrow>
          (if all_digits sec \<and> length sec = 2 \<and> dec_val sec \<le> 59 then Some (int (dec_val sec), 0) else None)
      | (sec, Some f) \<Rightarrow>
          (if all_digits sec \<and> length sec = 2 \<and> dec_val sec \<le> 59 \<and> all_digits f \<and> 1 \<le> length f \<and> length f \<le> 3
           then Some (int (dec_val sec), int (dec_val f) * 10 ^ (3 - length f)) else None))"

definition parse_time_text :: "string \<Rightarrow> (int \<times> int \<times> int \<times> int) option" where
  "parse_time_text s =
     (case split_at (CHR '':'') s of (_, None) \<Rightarrow> None | (h, Some ms) \<Rightarrow>
       (case split_at (CHR '':'') ms of (m, rest) \<Rightarrow>
         (if all_digits h \<and> all_digits m \<and> length h = 2 \<and> length m = 2 \<and> dec_val h \<le> 23 \<and> dec_val m \<le> 59
          then (case rest of None \<Rightarrow> Some (int (dec_val h), int (dec_val m), 0, 0)
                | Some st \<Rightarrow> map_option (\<lambda>(sec, f). (int (dec_val h), int (dec_val m), sec, f))
                               (parse_seconds_text st))
          else None)))"

definition parse_local_datetime :: "string \<Rightarrow> (int \<times> int \<times> int \<times> int \<times> int \<times> int \<times> int) option" where
  "parse_local_datetime s =
     (case split_at (CHR ''T'') s of (_, None) \<Rightarrow> None | (d, Some t) \<Rightarrow>
       (case parse_date_text d of None \<Rightarrow> None | Some (y, m, dt) \<Rightarrow>
         map_option (\<lambda>(h, mi, sec, f). (y, m, dt, h, mi, sec, f)) (parse_time_text t)))"

text \<open>
  The value sanitization algorithm of \<open>datetime-local\<close>: assigning a text that is not a valid local
  date and time string leaves the empty string. (A valid one may be rewritten to its shortest form,
  which names the same time; the model keeps it as it is.)
\<close>

definition set_datetime_input :: "string \<Rightarrow> string" where
  "set_datetime_input s = (if parse_local_datetime s \<noteq> None then s else [])"

text \<open>\<open>new Date(value)\<close> on such a value: read as local time, four-digit years.\<close>

definition new_date_text :: "time_zone \<Rightarrow> string \<Rightarrow> date_value" where
  "new_date_text tza s =
     (case parse_local_datetime s of None \<Rightarrow> None
      | Some (y, m, dt, h, mi, sec, f) \<Rightarrow>
          if y \<le> 9999 then time_clip (utc_time tza (make_day y m dt * ms_per_day + make_time h mi sec f))
          else None)"

lemma split_at_set:
  assumes "split_at c s = (a, r)"
  shows "set s \<subseteq> set a \<union> {c} \<union> (case r of None \<Rightarrow> {} | Some b \<Rightarrow> set b)"
proof -
  have s: "s = takeWhile (\<lambda>x. x \<noteq> c) s @ dropWhile (\<lambda>x. x \<noteq> c) s" by simp
  show ?thesis
  proof (cases "dropWhile (\<lambda>x. x \<noteq> c) s")
    case Nil
    with s assms show ?thesis by (auto simp: split_at_def)
  next
    case (Cons x xs)
    then have "x = c" using hd_dropWhile [of "\<lambda>x. x \<noteq> c" s] by auto
    with Cons assms show ?thesis
      by (subst s) (auto simp: split_at_def dest: set_takeWhileD)
  qed
qed

lemma all_digits_not: "all_digits s \<Longrightarrow> \<not> is_digit c \<Longrightarrow> c \<notin> set s"
  by (auto simp: all_digits_def list_all_iff)

lemma split_at_cases:
  "split_at c s = (a, r) \<Longrightarrow> x \<in> set s \<Longrightarrow> x \<in> set a \<or> x = c \<or> (\<exists>b. r = Some b \<and> x \<in> set b)"
  using split_at_set [of c s a r] by (auto split: option.splits)

lemma all_digits_in: "all_digits s \<Longrightarrow> c \<in> set s \<Longrightarrow> is_digit c"
  by (simp add: all_digits_def list_all_iff)

text \<open>The characters of a valid value: digits and the separators, so never a \<open>Z\<close>.\<close>

lemma parse_seconds_chars:
  assumes "parse_seconds_text s = Some v" "c \<in> set s"
  shows "is_digit c \<or> c = CHR ''.''"
proof -
  obtain a r where s: "split_at (CHR ''.'') s = (a, r)" by (cases "split_at (CHR ''.'') s")
  with assms(1) have "all_digits a" "\<And>b. r = Some b \<Longrightarrow> all_digits b"
    by (auto simp: parse_seconds_text_def split: option.splits if_splits)
  with split_at_cases [OF s assms(2)] show ?thesis by (auto dest: all_digits_in)
qed

lemma parse_time_chars:
  assumes "parse_time_text s = Some v" "c \<in> set s"
  shows "is_digit c \<or> c = CHR ''.'' \<or> c = CHR '':''"
proof -
  obtain h r where s: "split_at (CHR '':'') s = (h, r)" by (cases "split_at (CHR '':'') s")
  with assms(1) obtain b where r: "r = Some b" by (auto simp: parse_time_text_def split: option.splits)
  obtain m rest where b: "split_at (CHR '':'') b = (m, rest)" by (cases "split_at (CHR '':'') b")
  from assms(1) s r b have d: "all_digits h" "all_digits m"
    and w: "\<And>st. rest = Some st \<Longrightarrow> parse_seconds_text st \<noteq> None"
    by (auto simp: parse_time_text_def split: if_splits option.splits)
  show ?thesis
    using split_at_cases [OF s assms(2)] split_at_cases [OF b, of c] r d w
    by (auto dest: all_digits_in parse_seconds_chars)
qed

lemma parse_date_chars:
  assumes "parse_date_text s = Some v" "c \<in> set s"
  shows "is_digit c \<or> c = CHR ''-''"
proof -
  obtain y r where s: "split_at (CHR ''-'') s = (y, r)" by (cases "split_at (CHR ''-'') s")
  with assms(1) obtain b where r: "r = Some b" by (auto simp: parse_date_text_def split: option.splits)
  obtain m q where b: "split_at (CHR ''-'') b = (m, q)" by (cases "split_at (CHR ''-'') b")
  with assms(1) s r obtain e where q: "q = Some e"
    by (auto simp: parse_date_text_def split: option.splits)
  from assms(1) s r b q have "all_digits y" "all_digits m" "all_digits e"
    by (auto simp: parse_date_text_def split: if_splits)
  with split_at_cases [OF s assms(2)] split_at_cases [OF b, of c] r q show ?thesis
    by (auto dest: all_digits_in)
qed

lemma parse_local_datetime_no_Z:
  assumes "parse_local_datetime s = Some v"
  shows "CHR ''Z'' \<notin> set s"
proof -
  obtain d t y w where s: "split_at (CHR ''T'') s = (d, Some t)" "parse_date_text d = Some y"
    "parse_time_text t = Some w"
    using assms by (auto simp: parse_local_datetime_def split: prod.splits option.splits)
  have "\<not> is_digit (CHR ''Z'')" by (simp add: is_digit_def)
  then show ?thesis
    using split_at_set [OF s(1)] parse_date_chars [OF s(2)] parse_time_chars [OF s(3)] by fastforce
qed

lemma iso_text_rejected: "set_datetime_input (iso_text t) = []"
  using parse_local_datetime_no_Z [of "iso_text t"]
  by (cases "parse_local_datetime (iso_text t)") (simp_all add: set_datetime_input_def iso_text_def)

end
