(* ===== verification/JsSort.thy ===== *)
theory JsSort
  imports Prelude
begin

text \<open>
  \<^verbatim>\<open>Array.prototype.sort(cmp)\<close>. ECMA-262 fixes the result for a consistent comparator only, and
  the dashboard's comparator is not consistent (it never returns 0). The model is the insertion
  sort that engines use on short runs: each element goes in front of the first element it compares
  below. The locale states what a client may rely on whatever the engine does: the result is a
  permutation, and it is sorted when the comparator decides every pair of different elements
  strictly and transitively.
\<close>

type_synonym 'a comparator = "'a \<Rightarrow> 'a \<Rightarrow> int"

fun js_insert :: "'a comparator \<Rightarrow> 'a \<Rightarrow> 'a list \<Rightarrow> 'a list" where
  "js_insert cmp x [] = [x]"
| "js_insert cmp x (y # ys) = (if cmp x y < 0 then x # y # ys else y # js_insert cmp x ys)"

definition array_sort :: "'a comparator \<Rightarrow> 'a list \<Rightarrow> 'a list" where
  "array_sort cmp xs = fold (js_insert cmp) xs []"

text \<open>ECMA-262's consistent comparator for the values in \<open>S\<close>.\<close>

definition consistent_comparator :: "'a comparator \<Rightarrow> 'a set \<Rightarrow> bool" where
  "consistent_comparator cmp S \<longleftrightarrow>
     (\<forall>a \<in> S. cmp a a = 0) \<and>
     (\<forall>a \<in> S. \<forall>b \<in> S. cmp a b = 0 \<longrightarrow> cmp b a = 0) \<and>
     (\<forall>a \<in> S. \<forall>b \<in> S. \<forall>c \<in> S.
        (cmp a b = 0 \<and> cmp b c = 0 \<longrightarrow> cmp a c = 0) \<and>
        (cmp a b < 0 \<and> cmp b c < 0 \<longrightarrow> cmp a c < 0) \<and>
        (cmp a b > 0 \<and> cmp b c > 0 \<longrightarrow> cmp a c > 0))"

text \<open>A comparator that decides different elements strictly.\<close>

definition strict_comparator :: "'a comparator \<Rightarrow> 'a set \<Rightarrow> bool" where
  "strict_comparator cmp S \<longleftrightarrow>
     (\<forall>a \<in> S. \<forall>b \<in> S. a \<noteq> b \<longrightarrow> (cmp a b < 0 \<longleftrightarrow> \<not> cmp b a < 0)) \<and>
     (\<forall>a \<in> S. \<forall>b \<in> S. \<forall>c \<in> S. a \<noteq> c \<longrightarrow> cmp a b < 0 \<and> cmp b c < 0 \<longrightarrow> cmp a c < 0)"

lemma strict_comparator_trans:
  "strict_comparator cmp S \<Longrightarrow> a \<in> S \<Longrightarrow> b \<in> S \<Longrightarrow> c \<in> S \<Longrightarrow> a \<noteq> c \<Longrightarrow> cmp a b < 0 \<Longrightarrow> cmp b c < 0 \<Longrightarrow>
    cmp a c < 0"
  unfolding strict_comparator_def by blast

lemma strict_comparator_total:
  "strict_comparator cmp S \<Longrightarrow> a \<in> S \<Longrightarrow> b \<in> S \<Longrightarrow> a \<noteq> b \<Longrightarrow> cmp a b < 0 \<longleftrightarrow> \<not> cmp b a < 0"
  unfolding strict_comparator_def by blast

lemma mset_js_insert [simp]: "mset (js_insert cmp x ys) = add_mset x (mset ys)"
  by (induction ys) auto

lemma set_js_insert [simp]: "set (js_insert cmp x ys) = insert x (set ys)"
  by (induction ys) auto

lemma distinct_js_insert [simp]: "distinct (js_insert cmp x ys) \<longleftrightarrow> x \<notin> set ys \<and> distinct ys"
  by (induction ys) auto

lemma mset_fold_insert: "mset (fold (js_insert cmp) xs acc) = mset xs + mset acc"
  by (induction xs arbitrary: acc) auto

lemma mset_array_sort: "mset (array_sort cmp xs) = mset xs"
  by (simp add: array_sort_def mset_fold_insert)

lemma js_insert_strict:
  assumes "strict_comparator cmp S" "insert x (set ys) \<subseteq> S" "x \<notin> set ys" "distinct ys"
    "sorted_wrt (\<lambda>a b. cmp a b < 0) ys"
  shows "sorted_wrt (\<lambda>a b. cmp a b < 0) (js_insert cmp x ys)"
  using assms(2-)
proof (induction ys)
  case Nil
  then show ?case by simp
next
  case (Cons y ys)
  then have ne: "x \<noteq> y" "\<And>z. z \<in> set ys \<Longrightarrow> x \<noteq> z" "x \<in> S" "y \<in> S" "\<And>z. z \<in> set ys \<Longrightarrow> z \<in> S"
    by auto
  show ?case
  proof (cases "cmp x y < 0")
    case True
    then have "cmp x z < 0" if "z \<in> set ys" for z
      using Cons.prems(4) that ne by (intro strict_comparator_trans [OF assms(1), of x y z]) auto
    with True Cons.prems(4) show ?thesis by simp
  next
    case False
    then have "cmp y x < 0" using strict_comparator_total [OF assms(1)] ne by blast
    with False Cons show ?thesis by simp
  qed
qed

lemma fold_insert_strict:
  assumes "strict_comparator cmp S"
  shows "set xs \<union> set acc \<subseteq> S \<Longrightarrow> distinct (acc @ xs) \<Longrightarrow> sorted_wrt (\<lambda>a b. cmp a b < 0) acc \<Longrightarrow>
    sorted_wrt (\<lambda>a b. cmp a b < 0) (fold (js_insert cmp) xs acc)"
proof (induction xs arbitrary: acc)
  case Nil
  then show ?case by simp
next
  case (Cons x xs)
  have "sorted_wrt (\<lambda>a b. cmp a b < 0) (js_insert cmp x acc)"
    by (rule js_insert_strict [OF assms]) (use Cons.prems in auto)
  then show ?case using Cons by auto
qed

section \<open>The interface and what its clients get\<close>

locale array_sorting =
  fixes sort_by :: "'a comparator \<Rightarrow> 'a list \<Rightarrow> 'a list"
  assumes sort_mset: "mset (sort_by cmp xs) = mset xs"
    and sort_strict: "distinct xs \<Longrightarrow> strict_comparator cmp (set xs) \<Longrightarrow>
      sorted_wrt (\<lambda>a b. cmp a b < 0) (sort_by cmp xs)"
begin

lemma sort_set: "set (sort_by cmp xs) = set xs"
  using sort_mset [of cmp xs] by (metis set_mset_mset)

lemma sort_length: "length (sort_by cmp xs) = length xs"
  using sort_mset [of cmp xs] by (metis size_mset)

lemma sort_distinct: "distinct (sort_by cmp xs) = distinct xs"
  using sort_mset [of cmp xs] mset_eq_imp_distinct_iff by blast

text \<open>Where the comparator is strict, the order is the only one possible.\<close>

lemma sort_unique:
  assumes "distinct xs" "strict_comparator cmp (set xs)" "mset ys = mset xs"
    "sorted_wrt (\<lambda>a b. cmp a b < 0) ys"
  shows "ys = sort_by cmp xs"
proof -
  have sx: "sorted_wrt (\<lambda>a b. cmp a b < 0) (sort_by cmp xs)" using assms(1,2) by (rule sort_strict)
  have strict: "x \<in> set xs \<Longrightarrow> y \<in> set xs \<Longrightarrow> cmp x y < 0 \<Longrightarrow> cmp y x < 0 \<Longrightarrow> x = y" for x y
    using strict_comparator_total [OF assms(2)] by blast
  have eq: "mset us = mset vs \<Longrightarrow> set us \<subseteq> set xs \<Longrightarrow> sorted_wrt (\<lambda>a b. cmp a b < 0) us \<Longrightarrow>
      sorted_wrt (\<lambda>a b. cmp a b < 0) vs \<Longrightarrow> us = vs" for us vs
  proof (induction us arbitrary: vs)
    case Nil
    then show ?case by simp
  next
    case (Cons u us)
    then obtain v vs' where vs: "vs = v # vs'" by (cases vs) auto
    from Cons.prems(1) have sets: "insert u (set us) = insert v (set vs')"
      unfolding vs by (metis list.set(2) mset_eq_setD)
    have "u = v"
    proof (rule ccontr)
      assume "u \<noteq> v"
      with sets have "v \<in> set us" "u \<in> set vs'" by auto
      with Cons.prems vs strict [of u v] \<open>u \<noteq> v\<close> show False by auto
    qed
    with Cons vs show ?case by auto
  qed
  show ?thesis
    using eq [of ys "sort_by cmp xs"] assms(3,4) sx sort_mset [of cmp xs]
    by (metis mset_eq_setD order_refl)
qed

end

interpretation arr: array_sorting array_sort
proof
  show "mset (array_sort cmp xs) = mset xs" for cmp :: "'a comparator" and xs
    by (rule mset_array_sort)
  show "sorted_wrt (\<lambda>a b. cmp a b < 0) (array_sort cmp xs)"
    if "distinct xs" "strict_comparator cmp (set xs)" for cmp :: "'a comparator" and xs
    unfolding array_sort_def by (rule fold_insert_strict [OF that(2)]) (use that(1) in auto)
qed

section \<open>Comparators that break ties one way\<close>

text \<open>
  A comparator that answers "below" exactly when a key is not above: the sort is the library's
  stable sort of the reversed list, so rows with equal keys come out in reverse order.
\<close>

lemma js_insert_insort_key:
  assumes "\<And>a b. cmp a b < 0 \<longleftrightarrow> f a \<le> (f b :: 'k :: linorder)"
  shows "js_insert cmp x ys = insort_key f x ys"
  by (induction ys) (auto simp: assms)

lemma array_sort_ties_reversed:
  assumes "\<And>a b. cmp a b < 0 \<longleftrightarrow> f a \<le> (f b :: 'k :: linorder)"
  shows "array_sort cmp xs = sort_key f (rev xs)"
proof -
  have "js_insert cmp = insort_key f"
    by (intro ext js_insert_insort_key) (rule assms)
  then show ?thesis by (simp add: array_sort_def sort_key_def foldr_conv_fold)
qed

end
