(* ===== verification/HistoryData.thy ===== *)
theory HistoryData
  imports LocalTime JsSort
begin

text \<open>
  The data of the history page of \<^verbatim>\<open>web/script.js\<close>: the constants, the rows and responses of
  \<^verbatim>\<open>/api/pump/history\<close>, the filters, and the pure core of \<open>applyLocalFilters\<close>: the search
  callback, the two status filters, the comparator and the number of pages. A field the JSON may
  lack is an option (\<open>None\<close> is \<open>undefined\<close>). The host's \<^verbatim>\<open>Date.prototype.toLocaleString\<close> is the
  parameter \<open>loc\<close>.
\<close>

section \<open>Constants\<close>

definition STATUS_TEXT :: "string list" where
  "STATUS_TEXT = [''Unknown'', ''Running'', ''Stopped'', ''Error'']"

definition STATUS_ICONS :: "string list" where
  "STATUS_ICONS = [''help'', ''play_circle'', ''stop_circle'', ''error'']"

definition BUSY_TEXT :: "string list" where
  "BUSY_TEXT = [''Idle'', ''Starting P1'', ''Starting P2'']"

definition BUSY_ICONS :: "string list" where
  "BUSY_ICONS = [''check_circle'', ''sync'', ''sync'']"

definition API :: string where "API = ''http://localhost:8080''"

lemma length_texts [simp]: "length STATUS_TEXT = 4" "length STATUS_ICONS = 4"
  "length BUSY_TEXT = 3" "length BUSY_ICONS = 3"
  by (simp_all add: STATUS_TEXT_def STATUS_ICONS_def BUSY_TEXT_def BUSY_ICONS_def)

section \<open>Rows, responses and filters\<close>

record item =
  timestamp :: js_int
  pump1 :: js_int
  pump1_status :: js_int
  pump2 :: js_int
  pump2_status :: js_int
  busy :: js_int
  alarm :: js_int

text \<open>The parsed body: an error object has neither \<open>count\<close> nor \<open>data\<close>.\<close>

record response =
  r_count :: js_int
  r_data :: "item list option"

text \<open>\<open>dateFrom\<close> and \<open>dateTo\<close> are \<open>null\<close> (\<open>None\<close>) or a \<^verbatim>\<open>Date\<close>, which may be invalid.\<close>

record filters =
  pump1Status :: string
  pump2Status :: string
  searchTerm :: string
  dateFrom :: "date_value option"
  dateTo :: "date_value option"

definition no_filters :: filters where
  "no_filters = \<lparr>pump1Status = ''all'', pump2Status = ''all'', searchTerm = [], dateFrom = None, dateTo = None\<rparr>"

datatype sort_dir = Asc | Desc

text \<open>\<open>item[column]\<close>: the columns of the table, \<open>undefined\<close> for any other name.\<close>

definition item_field :: "string \<Rightarrow> item \<Rightarrow> js_int" where
  "item_field col it =
     (if col = ''timestamp'' then timestamp it else if col = ''pump1'' then pump1 it
      else if col = ''pump1_status'' then pump1_status it else if col = ''pump2'' then pump2 it
      else if col = ''pump2_status'' then pump2_status it else if col = ''busy'' then busy it
      else if col = ''alarm'' then alarm it else None)"

definition table_columns :: "string list" where
  "table_columns = [''timestamp'', ''pump1'', ''pump1_status'', ''pump2'', ''pump2_status'', ''busy'', ''alarm'']"

section \<open>The filters of applyLocalFilters\<close>

text \<open>\<open>new Date(item.timestamp * 1000)\<close>.\<close>

definition item_date :: "item \<Rightarrow> date_value" where
  "item_date it = (case timestamp it of None \<Rightarrow> None | Some t \<Rightarrow> time_clip (t * 1000))"

text \<open>\<open>STATUS_TEXT[v || 0].toLowerCase()\<close>: a \<open>TypeError\<close> on \<open>undefined\<close>.\<close>

definition status_lower :: "js_int \<Rightarrow> js_error + string" where
  "status_lower v =
     (case js_index STATUS_TEXT (js_or v 0) of None \<Rightarrow> Inl TypeError | Some s \<Rightarrow> Inr (toLowerCase s))"

text \<open>The callback of the search filter.\<close>

definition search_hit :: "(date_value \<Rightarrow> string) \<Rightarrow> string \<Rightarrow> item \<Rightarrow> js_error + bool" where
  "search_hit loc term it =
     (let ts = toLowerCase (loc (item_date it)) in
      case status_lower (pump1_status it) of Inl e \<Rightarrow> Inl e | Inr p1Status \<Rightarrow>
      (case status_lower (pump2_status it) of Inl e \<Rightarrow> Inl e | Inr p2Status \<Rightarrow>
        Inr (js_includes ts term \<or> js_includes p1Status term \<or> js_includes p2Status term)))"

definition search_filter :: "(date_value \<Rightarrow> string) \<Rightarrow> string \<Rightarrow> item list \<Rightarrow> js_error + item list" where
  "search_filter loc s data =
     (if s \<noteq> [] then js_filter (search_hit loc (toLowerCase s)) data else Inr data)"

text \<open>\<open>(v || 0) === statusNum\<close>, with \<open>statusNum = parseInt(choice)\<close>; \<open>NaN\<close> equals nothing.\<close>

definition status_match :: "string \<Rightarrow> js_int \<Rightarrow> bool" where
  "status_match choice v \<longleftrightarrow> parse_int choice = Some (js_or v 0)"

definition status_filter :: "string \<Rightarrow> (item \<Rightarrow> js_int) \<Rightarrow> item list \<Rightarrow> item list" where
  "status_filter choice field data =
     (if choice \<noteq> ''all'' then filter (\<lambda>it. status_match choice (field it)) data else data)"

definition filter_rows :: "(date_value \<Rightarrow> string) \<Rightarrow> filters \<Rightarrow> item list \<Rightarrow> js_error + item list" where
  "filter_rows loc fs data =
     (case search_filter loc (searchTerm fs) data of Inl e \<Rightarrow> Inl e
      | Inr d \<Rightarrow> Inr (status_filter (pump2Status fs) pump2_status
                       (status_filter (pump1Status fs) pump1_status d)))"

section \<open>Sorting and pages\<close>

definition row_key :: "string \<Rightarrow> item \<Rightarrow> int" where
  "row_key col it = js_or (item_field col it) 0"

definition row_compare :: "string \<Rightarrow> sort_dir \<Rightarrow> item comparator" where
  "row_compare col dir a b =
     (let aVal = row_key col a; bVal = row_key col b in
      case dir of Asc \<Rightarrow> (if aVal > bVal then 1 else -1) | Desc \<Rightarrow> (if aVal < bVal then 1 else -1))"

definition totalPages :: "int \<Rightarrow> int \<Rightarrow> int" where
  "totalPages n rows = ceil_div n rows"

section \<open>Which rows pass\<close>

text \<open>The filter as a predicate on rows with a known status: the specification.\<close>

definition known_status :: "item \<Rightarrow> bool" where
  "known_status it \<longleftrightarrow> js_or (pump1_status it) 0 \<in> {0..3} \<and> js_or (pump2_status it) 0 \<in> {0..3}"

definition status_name :: "js_int \<Rightarrow> string" where
  "status_name v = toLowerCase (STATUS_TEXT ! nat (js_or v 0))"

definition row_matches :: "(date_value \<Rightarrow> string) \<Rightarrow> filters \<Rightarrow> item \<Rightarrow> bool" where
  "row_matches loc fs it \<longleftrightarrow>
     (searchTerm fs \<noteq> [] \<longrightarrow>
        (\<exists>text \<in> {toLowerCase (loc (item_date it)), status_name (pump1_status it), status_name (pump2_status it)}.
           js_includes text (toLowerCase (searchTerm fs)))) \<and>
     (pump1Status fs \<noteq> ''all'' \<longrightarrow> status_match (pump1Status fs) (pump1_status it)) \<and>
     (pump2Status fs \<noteq> ''all'' \<longrightarrow> status_match (pump2Status fs) (pump2_status it))"

lemma status_lower_known:
  "js_or v 0 \<in> {0..3} \<Longrightarrow> status_lower v = Inr (status_name v)"
  by (simp add: status_lower_def status_name_def js_index_def)

lemma status_lower_unknown: "js_or v 0 \<notin> {0..3} \<Longrightarrow> status_lower v = Inl TypeError"
  by (auto simp: status_lower_def js_index_def)

lemma search_hit_known:
  "known_status it \<Longrightarrow> search_hit loc term it =
     Inr (\<exists>text \<in> {toLowerCase (loc (item_date it)), status_name (pump1_status it), status_name (pump2_status it)}.
           js_includes text term)"
  by (simp add: search_hit_def known_status_def status_lower_known)

lemma search_hit_unknown: "\<not> known_status it \<Longrightarrow> search_hit loc term it = Inl TypeError"
  by (cases "js_or (pump1_status it) 0 \<in> {0..3}")
    (auto simp: search_hit_def known_status_def status_lower_known status_lower_unknown)

lemma status_filter_eq: "status_filter choice field data =
    filter (\<lambda>it. choice \<noteq> ''all'' \<longrightarrow> status_match choice (field it)) data"
  by (simp add: status_filter_def)

lemma filter_rows_known:
  assumes "\<forall>it \<in> set data. known_status it"
  shows "filter_rows loc fs data = Inr (filter (row_matches loc fs) data)"
proof -
  have "search_filter loc (searchTerm fs) data =
     Inr (filter (\<lambda>it. searchTerm fs \<noteq> [] \<longrightarrow>
        (\<exists>text \<in> {toLowerCase (loc (item_date it)), status_name (pump1_status it), status_name (pump2_status it)}.
           js_includes text (toLowerCase (searchTerm fs)))) data)"
  proof (cases "searchTerm fs = []")
    case False
    have "js_filter (search_hit loc (toLowerCase (searchTerm fs))) data =
      Inr (filter (\<lambda>it. \<exists>text \<in> {toLowerCase (loc (item_date it)), status_name (pump1_status it),
           status_name (pump2_status it)}. js_includes text (toLowerCase (searchTerm fs))) data)"
      by (rule js_filter_pure) (use assms in \<open>blast intro: search_hit_known\<close>)
    with False show ?thesis by (simp add: search_filter_def)
  qed (simp add: search_filter_def)
  then show ?thesis
    unfolding filter_rows_def status_filter_eq row_matches_def by (simp add: conj_ac)
qed

lemma filter_rows_no_search:
  "searchTerm fs = [] \<Longrightarrow> filter_rows loc fs data = Inr (filter (row_matches loc fs) data)"
  unfolding filter_rows_def search_filter_def status_filter_eq row_matches_def by (simp add: conj_ac)

lemma filter_rows_error:
  assumes "searchTerm fs \<noteq> []" "it \<in> set data" "\<not> known_status it"
  shows "filter_rows loc fs data = Inl TypeError"
proof -
  have "js_filter (search_hit loc t) data = Inl TypeError" for t
    using assms(2)
  proof (induction data)
    case (Cons x xs)
    show ?case
    proof (cases "known_status x")
      case True
      with Cons assms(3) have "js_filter (search_hit loc t) xs = Inl TypeError" by auto
      with True show ?thesis by (simp add: search_hit_known)
    qed (simp add: search_hit_unknown)
  qed simp
  with assms(1) show ?thesis by (simp add: filter_rows_def search_filter_def)
qed

text \<open>\<open>filter_rows\<close> only ever drops rows, whatever they hold.\<close>

lemma filter_rows_subset: "filter_rows loc fs data = Inr rows \<Longrightarrow> set rows \<subseteq> set data"
  by (auto simp: filter_rows_def search_filter_def status_filter_def split: sum.splits if_splits
      dest!: js_filter_Inr)

section \<open>What the comparator sorts by\<close>

definition dir_key :: "sort_dir \<Rightarrow> int \<Rightarrow> int" where
  "dir_key dir k = (case dir of Asc \<Rightarrow> k | Desc \<Rightarrow> - k)"

lemma row_compare_less: "row_compare col dir a b < 0 \<longleftrightarrow> dir_key dir (row_key col a) \<le> dir_key dir (row_key col b)"
  by (cases dir) (auto simp: row_compare_def dir_key_def)

lemma sort_rows_eq: "array_sort (row_compare col dir) rows = sort_key (\<lambda>it. dir_key dir (row_key col it)) (rev rows)"
  by (rule array_sort_ties_reversed) (rule row_compare_less)

lemma row_compare_not_consistent:
  "a \<in> S \<Longrightarrow> \<not> consistent_comparator (row_compare col dir) S"
  by (cases dir) (auto simp: consistent_comparator_def row_compare_def)

lemma row_compare_strict:
  assumes "inj_on (row_key col) (set rows)"
  shows "strict_comparator (row_compare col dir) (set rows)"
proof -
  have ne: "a \<in> set rows \<Longrightarrow> b \<in> set rows \<Longrightarrow> a \<noteq> b \<Longrightarrow>
      dir_key dir (row_key col a) \<noteq> dir_key dir (row_key col b)" for a b
    using assms by (cases dir) (auto simp: dir_key_def dest: inj_onD)
  show ?thesis
    unfolding strict_comparator_def row_compare_less
  proof (intro conjI ballI impI)
    fix a b assume "a \<in> set rows" "b \<in> set rows" "a \<noteq> b"
    then show "(dir_key dir (row_key col a) \<le> dir_key dir (row_key col b)) =
        (\<not> dir_key dir (row_key col b) \<le> dir_key dir (row_key col a))"
      using ne [of a b] by linarith
  next
    fix a b c :: item
    assume "dir_key dir (row_key col a) \<le> dir_key dir (row_key col b) \<and>
        dir_key dir (row_key col b) \<le> dir_key dir (row_key col c)"
    then show "dir_key dir (row_key col a) \<le> dir_key dir (row_key col c)" by linarith
  qed
qed

section \<open>Properties\<close>

text \<open>
  C14. The filters select exactly the rows that match: the search term in the date text or in one of
  the status names, and the chosen statuses. The one failure is a search over a row whose status has
  no name, a TypeError.
\<close>

theorem filter_rows_exact:
  "filter_rows loc fs data =
     (if searchTerm fs \<noteq> [] \<and> \<not> list_all known_status data then Inl TypeError
      else Inr (filter (row_matches loc fs) data))"
proof (cases "searchTerm fs = []")
  case False
  then show ?thesis
    using filter_rows_error [of fs _ data loc] filter_rows_known [of data loc fs]
    by (auto simp: list_all_iff)
qed (simp add: filter_rows_no_search)

text \<open>
  The table's order: the sort is stable on the reversed rows, so equal keys come out in the
  reverse of their order in the answer; the comparator never answers 0, so for no rows at all is it a
  consistent comparator, and the language leaves the order of the result to the engine.
\<close>

theorem sort_order_of_ties:
  "array_sort (row_compare col dir) rows = sort_key (\<lambda>it. dir_key dir (row_key col it)) (rev rows) \<and>
    mset (array_sort (row_compare col dir) rows) = mset rows \<and>
    (rows \<noteq> [] \<longrightarrow> \<not> consistent_comparator (row_compare col dir) (set rows))"
proof -
  have "rows \<noteq> [] \<Longrightarrow> hd rows \<in> set rows" by simp
  then show ?thesis using sort_rows_eq arr.sort_mset row_compare_not_consistent by blast
qed

definition sample_item :: "int \<Rightarrow> item" where
  "sample_item t = \<lparr>timestamp = Some t, pump1 = Some 1, pump1_status = Some 1, pump2 = Some 0, pump2_status = Some 2,
     busy = Some 0, alarm = Some 0\<rparr>"

theorem sort_order_of_ties_witness:
  "\<not> consistent_comparator (row_compare ''timestamp'' Desc) (set [sample_item 5])"
  using sort_order_of_ties [of "''timestamp''" Desc "[sample_item 5]"] by simp

text \<open>
  When the rows differ in the sorted column, the result does not depend on the engine: there is
  one permutation of the rows in the comparator's order, and it is the sort's.
\<close>

theorem sort_unique_without_ties:
  assumes "distinct rows" "inj_on (row_key col) (set rows)"
  shows "mset ys = mset rows \<and> sorted_wrt (\<lambda>a b. row_compare col dir a b < 0) ys \<longleftrightarrow>
    ys = array_sort (row_compare col dir) rows"
  using arr.sort_unique [OF assms(1) row_compare_strict [OF assms(2)], of ys dir]
    arr.sort_strict [OF assms(1) row_compare_strict [OF assms(2)]] arr.sort_mset
  by metis

theorem sort_unique_without_ties_witness:
  "array_sort (row_compare ''timestamp'' Desc) [sample_item 5, sample_item 9] = [sample_item 9, sample_item 5]"
  using sort_unique_without_ties [of "[sample_item 5, sample_item 9]" "''timestamp''" "[sample_item 9, sample_item 5]" Desc]
  by (simp add: sample_item_def row_key_def item_field_def row_compare_def add_mset_commute)

end
