(* ===== verification/HistoryView.thy ===== *)
theory HistoryView
  imports HistoryData
begin

text \<open>
  What the history page shows: the state of the page (the module-level variables of
  \<^verbatim>\<open>web/script.js\<close> and the document elements the functions write), and the functions that
  render it. A template literal is modelled by the values interpolated in it, in order; its fixed
  markup is left out. \<open>undefined\<close> interpolates as the text \<^verbatim>\<open>undefined\<close>.
\<close>

section \<open>The rendered table\<close>

record cell =
  c_badge :: string
  c_icon :: string
  c_text :: string

record row_view =
  rv_time :: string
  rv_cells :: "cell list"

datatype table_view = Loading | LoadError js_error | NoRecords | Rows "row_view list"

text \<open>Interpolation of an array read.\<close>

definition interpolate :: "string option \<Rightarrow> string" where
  "interpolate v = (case v of None \<Rightarrow> ''undefined'' | Some s \<Rightarrow> s)"

definition getBadgeClass :: "int \<Rightarrow> string" where
  "getBadgeClass status =
     (case js_index [''badge-warning'', ''badge-success'', ''badge-secondary'', ''badge-danger''] status of
        None \<Rightarrow> ''badge-secondary'' | Some c \<Rightarrow> c)"

definition command_cell :: "js_int \<Rightarrow> cell" where
  "command_cell v =
     \<lparr>c_badge = (if truthy v then ''badge-success'' else ''badge-secondary''),
      c_icon = (if truthy v then ''toggle_on'' else ''toggle_off''),
      c_text = (if truthy v then ''ON'' else ''OFF'')\<rparr>"

definition status_cell :: "int \<Rightarrow> cell" where
  "status_cell st =
     \<lparr>c_badge = getBadgeClass st, c_icon = interpolate (js_index STATUS_ICONS st),
      c_text = interpolate (js_index STATUS_TEXT st)\<rparr>"

definition busy_cell :: "js_int \<Rightarrow> cell" where
  "busy_cell v =
     \<lparr>c_badge = (if js_or v 0 > 0 then ''badge-warning'' else ''badge-success''),
      c_icon = interpolate (js_index BUSY_ICONS (js_or v 0)),
      c_text = interpolate (js_index BUSY_TEXT (js_or v 0))\<rparr>"

definition alarm_cell :: "js_int \<Rightarrow> cell" where
  "alarm_cell v =
     \<lparr>c_badge = (if js_or v 0 \<noteq> 0 then ''badge-danger'' else ''badge-success''),
      c_icon = (if js_or v 0 \<noteq> 0 then ''warning'' else ''check_circle''),
      c_text = (if js_or v 0 \<noteq> 0 then ''ACTIVE'' else ''OK'')\<rparr>"

definition render_row :: "(date_value \<Rightarrow> string) \<Rightarrow> item \<Rightarrow> row_view" where
  "render_row loc it =
     (let p1Status = js_default (pump1_status it) 0; p2Status = js_default (pump2_status it) 0 in
      \<lparr>rv_time = loc (item_date it),
       rv_cells = [command_cell (pump1 it), status_cell p1Status, command_cell (pump2 it),
         status_cell p2Status, busy_cell (busy it), alarm_cell (alarm it)]\<rparr>)"

section \<open>The pager\<close>

text \<open>
  The four buttons (the page each goes to, and whether it is disabled), the page text, and the
  entries of the rows-per-page menu with their \<open>selected\<close> marks.
\<close>

record pager =
  pg_buttons :: "(int \<times> bool) list"
  pg_info :: string
  pg_sizes :: "(int \<times> bool) list"

definition page_sizes :: "int list" where "page_sizes = [10, 20, 50, 100]"

section \<open>The state of the page\<close>

record history =
  historyCache :: "response option"
  filteredData :: "item list"
  currentPage :: int
  rowsPerPage :: int
  sortColumn :: string
  sortDirection :: sort_dir
  activeFilters :: filters
  historyBody :: table_view
  paginationContainer :: "pager option"
  totalRecords :: string
  filteredRecords :: string
  dateRange :: string
  sortMark :: "(string \<times> sort_dir) option"
  filterP1 :: string
  filterP2 :: string
  searchInput :: string
  datetimeFrom :: string
  datetimeTo :: string
  quickActive :: "nat option"

text \<open>The variables' initial values, and the page as \<^verbatim>\<open>index.html\<close> first shows it.\<close>

definition initial_history :: history where
  "initial_history =
     \<lparr>historyCache = None, filteredData = [], currentPage = 1, rowsPerPage = 20,
      sortColumn = ''timestamp'', sortDirection = Desc, activeFilters = no_filters,
      historyBody = Rows [], paginationContainer = None, totalRecords = ''0'', filteredRecords = ''0'',
      dateRange = ''--'', sortMark = None, filterP1 = ''all'', filterP2 = ''all'', searchInput = [],
      datetimeFrom = [], datetimeTo = [], quickActive = Some 0\<rparr>"

section \<open>Rendering\<close>

definition page_rows :: "history \<Rightarrow> item list" where
  "page_rows st =
     (let start = (currentPage st - 1) * rowsPerPage st
      in js_slice start (start + rowsPerPage st) (filteredData st))"

definition renderHistoryTable :: "(date_value \<Rightarrow> string) \<Rightarrow> history \<Rightarrow> history" where
  "renderHistoryTable loc st =
     (if filteredData st = [] then st\<lparr>historyBody := NoRecords\<rparr>
      else st\<lparr>historyBody := Rows (map (render_row loc) (page_rows st))\<rparr>)"

definition page_count :: "history \<Rightarrow> int" where
  "page_count st = totalPages (int (length (filteredData st))) (rowsPerPage st)"

definition renderPagination :: "history \<Rightarrow> history" where
  "renderPagination st =
     (let total = page_count st; cur = currentPage st in
      if total = 0 then st\<lparr>paginationContainer := None\<rparr>
      else st\<lparr>paginationContainer := Some
        \<lparr>pg_buttons = [(1, cur = 1), (cur - 1, cur = 1), (cur + 1, cur = total), (total, cur = total)],
         pg_info = ''Page '' @ int_dec cur @ '' of '' @ int_dec total,
         pg_sizes = map (\<lambda>n. (n, rowsPerPage st = n)) page_sizes\<rparr>\<rparr>)"

definition goToPage :: "(date_value \<Rightarrow> string) \<Rightarrow> int \<Rightarrow> history \<Rightarrow> history" where
  "goToPage loc page st =
     (if page < 1 \<or> page > page_count st then st
      else renderPagination (renderHistoryTable loc (st\<lparr>currentPage := page\<rparr>)))"

text \<open>\<open>n\<close> is \<open>parseInt(this.value)\<close> of the menu, one of \<open>page_sizes\<close>.\<close>

definition changeRowsPerPage :: "(date_value \<Rightarrow> string) \<Rightarrow> int \<Rightarrow> history \<Rightarrow> history" where
  "changeRowsPerPage loc n st =
     renderPagination (renderHistoryTable loc (st\<lparr>rowsPerPage := n, currentPage := 1\<rparr>))"

definition updateSortIndicators :: "history \<Rightarrow> history" where
  "updateSortIndicators st =
     st\<lparr>sortMark := (if sortColumn st \<in> set table_columns then Some (sortColumn st, sortDirection st) else None)\<rparr>"

section \<open>Statistics\<close>

definition formatDate :: "time_zone \<Rightarrow> date_value \<Rightarrow> string" where
  "formatDate tza v =
     (case v of None \<Rightarrow> ''NaN/NaN''
      | Some t \<Rightarrow> int_dec (getMonth tza t + 1) @ ''/'' @ int_dec (getDate tza t))"

definition formatDateTime :: "time_zone \<Rightarrow> date_value \<Rightarrow> string" where
  "formatDateTime tza v =
     (case v of None \<Rightarrow> ''NaN/NaN NaN:NaN''
      | Some t \<Rightarrow> int_dec (getMonth tza t + 1) @ ''/'' @ int_dec (getDate tza t) @ '' '' @
          int_dec (getHours tza t) @ '':'' @ pad_dec 2 (getMinutes tza t))"

text \<open>\<open>Math.min(...xs)\<close> and \<open>Math.max(...xs)\<close> of a non-empty array: \<open>NaN\<close> when an entry is \<open>undefined\<close>.\<close>

definition js_extremum :: "(int \<Rightarrow> int \<Rightarrow> int) \<Rightarrow> js_int list \<Rightarrow> js_int" where
  "js_extremum f xs =
     (if None \<in> set xs then None
      else case map the xs of [] \<Rightarrow> None | y # ys \<Rightarrow> Some (fold f ys y))"

definition seconds_date :: "js_int \<Rightarrow> date_value" where
  "seconds_date v = (case v of None \<Rightarrow> None | Some t \<Rightarrow> time_clip (t * 1000))"

definition date_range_text :: "time_zone \<Rightarrow> history \<Rightarrow> string" where
  "date_range_text tza st =
     (let fs = activeFilters st in
      if dateFrom fs \<noteq> None \<or> dateTo fs \<noteq> None then
        (case dateFrom fs of None \<Rightarrow> ''--'' | Some d \<Rightarrow> formatDateTime tza d) @ '' - '' @
        (case dateTo fs of None \<Rightarrow> ''now'' | Some d \<Rightarrow> formatDateTime tza d)
      else if filteredData st \<noteq> [] then
        (let ts = map timestamp (filteredData st) in
         formatDate tza (seconds_date (js_extremum min ts)) @ '' - '' @
         formatDate tza (seconds_date (js_extremum max ts)))
      else ''--'')"

text \<open>The caller has already spread \<open>historyCache.data\<close>, so a cache without it does not get here.\<close>

definition updateHistoryStats :: "time_zone \<Rightarrow> history \<Rightarrow> history" where
  "updateHistoryStats tza st =
     (case historyCache st of None \<Rightarrow> st
      | Some r \<Rightarrow>
          st\<lparr>totalRecords := int_dec (js_or (r_count r) (int (length (case r_data r of None \<Rightarrow> [] | Some d \<Rightarrow> d)))),
             filteredRecords := int_dec (int (length (filteredData st))),
             dateRange := date_range_text tza st\<rparr>)"

section \<open>What rendering keeps and shows\<close>

text \<open>The variables a function of this theory reads; rendering changes none of them.\<close>

definition same_vars :: "history \<Rightarrow> history \<Rightarrow> bool" where
  "same_vars a b \<longleftrightarrow>
     historyCache a = historyCache b \<and> filteredData a = filteredData b \<and> currentPage a = currentPage b \<and>
     rowsPerPage a = rowsPerPage b \<and> sortColumn a = sortColumn b \<and> sortDirection a = sortDirection b \<and>
     activeFilters a = activeFilters b"

lemma render_same_vars:
  "same_vars (renderHistoryTable loc st) st" "same_vars (renderPagination st) st"
  "same_vars (updateHistoryStats tza st) st" "same_vars (updateSortIndicators st) st"
  by (auto simp: same_vars_def renderHistoryTable_def renderPagination_def updateHistoryStats_def
      updateSortIndicators_def Let_def split: option.split)

lemma render_table_sel [simp]:
  "historyCache (renderHistoryTable loc st) = historyCache st"
  "filteredData (renderHistoryTable loc st) = filteredData st"
  "currentPage (renderHistoryTable loc st) = currentPage st"
  "rowsPerPage (renderHistoryTable loc st) = rowsPerPage st"
  "sortColumn (renderHistoryTable loc st) = sortColumn st"
  "sortDirection (renderHistoryTable loc st) = sortDirection st"
  "activeFilters (renderHistoryTable loc st) = activeFilters st"
  "paginationContainer (renderHistoryTable loc st) = paginationContainer st"
  by (simp_all add: renderHistoryTable_def)

lemma render_pagination_sel [simp]:
  "historyCache (renderPagination st) = historyCache st"
  "filteredData (renderPagination st) = filteredData st"
  "currentPage (renderPagination st) = currentPage st"
  "rowsPerPage (renderPagination st) = rowsPerPage st"
  "sortColumn (renderPagination st) = sortColumn st"
  "sortDirection (renderPagination st) = sortDirection st"
  "activeFilters (renderPagination st) = activeFilters st"
  "historyBody (renderPagination st) = historyBody st"
  by (simp_all add: renderPagination_def Let_def)

lemma update_stats_sel [simp]:
  "historyCache (updateHistoryStats tza st) = historyCache st"
  "filteredData (updateHistoryStats tza st) = filteredData st"
  "currentPage (updateHistoryStats tza st) = currentPage st"
  "rowsPerPage (updateHistoryStats tza st) = rowsPerPage st"
  "sortColumn (updateHistoryStats tza st) = sortColumn st"
  "sortDirection (updateHistoryStats tza st) = sortDirection st"
  "activeFilters (updateHistoryStats tza st) = activeFilters st"
  "historyBody (updateHistoryStats tza st) = historyBody st"
  "paginationContainer (updateHistoryStats tza st) = paginationContainer st"
  by (simp_all add: updateHistoryStats_def split: option.split)

lemma update_sort_sel [simp]:
  "historyCache (updateSortIndicators st) = historyCache st"
  "filteredData (updateSortIndicators st) = filteredData st"
  "currentPage (updateSortIndicators st) = currentPage st"
  "rowsPerPage (updateSortIndicators st) = rowsPerPage st"
  "sortColumn (updateSortIndicators st) = sortColumn st"
  "sortDirection (updateSortIndicators st) = sortDirection st"
  "activeFilters (updateSortIndicators st) = activeFilters st"
  "historyBody (updateSortIndicators st) = historyBody st"
  "paginationContainer (updateSortIndicators st) = paginationContainer st"
  by (simp_all add: updateSortIndicators_def)

text \<open>The pages, one after the other, are the filtered rows.\<close>

lemma page_rows_eq:
  assumes "1 \<le> currentPage st" "0 < rowsPerPage st"
  shows "page_rows st = take (nat (rowsPerPage st)) (drop (nat (currentPage st - 1) * nat (rowsPerPage st)) (filteredData st))"
  using assms
  by (simp add: page_rows_def Let_def js_slice_page nat_mult_distrib)

lemma page_count_nonneg: "0 < rowsPerPage st \<Longrightarrow> 0 \<le> page_count st"
  using ceil_div_pos [of "rowsPerPage st" "int (length (filteredData st))"]
  by (cases "filteredData st = []") (auto simp: page_count_def totalPages_def)

lemma page_count_0_iff: "0 < rowsPerPage st \<Longrightarrow> page_count st = 0 \<longleftrightarrow> filteredData st = []"
  by (simp add: page_count_def totalPages_def ceil_div_eq_0_iff)

lemma page_rows_concat:
  assumes "0 < rowsPerPage st"
  shows "concat (map (\<lambda>p. page_rows (st\<lparr>currentPage := int p\<rparr>)) [1..<Suc (nat (page_count st))]) = filteredData st"
proof -
  let ?k = "nat (rowsPerPage st)" and ?n = "nat (page_count st)" and ?xs = "filteredData st"
  have "int (length ?xs) \<le> rowsPerPage st * page_count st"
    using ceil_div_bounds(1) [OF assms] by (simp add: page_count_def totalPages_def)
  then have "int (length ?xs) \<le> int (?n * ?k)"
    using assms page_count_nonneg [OF assms] by (simp add: mult.commute)
  then have "length ?xs \<le> ?n * ?k" by (simp only: of_nat_le_iff)
  then have "concat (map (\<lambda>i. take ?k (drop (i * ?k) ?xs)) [0..<?n]) = ?xs" by (rule take_drop_concat)
  moreover have "map (\<lambda>p. page_rows (st\<lparr>currentPage := int p\<rparr>)) [1..<Suc ?n] =
      map (\<lambda>i. take ?k (drop (i * ?k) ?xs)) [0..<?n]"
  proof -
    have "[1..<Suc ?n] = map Suc [0..<?n]" by (simp add: map_Suc_upt)
    then show ?thesis using assms by (simp add: page_rows_eq)
  qed
  ultimately show ?thesis by simp
qed

lemma page_rows_nonempty:
  assumes "0 < rowsPerPage st" "1 \<le> currentPage st" "currentPage st \<le> page_count st"
  shows "page_rows st \<noteq> []"
proof -
  have "rowsPerPage st * (page_count st - 1) < int (length (filteredData st))"
    using ceil_div_bounds(2) [OF assms(1)] by (simp add: page_count_def totalPages_def)
  moreover have "rowsPerPage st * (currentPage st - 1) \<le> rowsPerPage st * (page_count st - 1)"
    using assms by (intro mult_left_mono) auto
  ultimately have "rowsPerPage st * (currentPage st - 1) < int (length (filteredData st))" by linarith
  then have "int (nat (currentPage st - 1) * nat (rowsPerPage st)) < int (length (filteredData st))"
    using assms by (simp add: mult.commute)
  then have "nat (currentPage st - 1) * nat (rowsPerPage st) < length (filteredData st)"
    by (simp only: of_nat_less_iff)
  then show ?thesis using assms by (simp add: page_rows_eq)
qed

section \<open>The page invariant\<close>

text \<open>
  The current page exists, unless there is no page at all. (The state before the first load and
  after a response without rows has no page.)
\<close>

definition page_ok :: "history \<Rightarrow> bool" where
  "page_ok st \<longleftrightarrow>
     0 < rowsPerPage st \<and> 1 \<le> currentPage st \<and> (filteredData st \<noteq> [] \<longrightarrow> currentPage st \<le> page_count st)"

lemma page_count_pos: "0 < rowsPerPage st \<Longrightarrow> filteredData st \<noteq> [] \<Longrightarrow> 1 \<le> page_count st"
  using page_count_0_iff [of st] page_count_nonneg [of st] by linarith

lemma page_count_cong:
  "filteredData a = filteredData b \<Longrightarrow> rowsPerPage a = rowsPerPage b \<Longrightarrow> page_count a = page_count b"
  by (simp add: page_count_def)

lemma page_ok_same_vars: "same_vars a b \<Longrightarrow> page_ok a \<longleftrightarrow> page_ok b"
  by (auto simp: page_ok_def same_vars_def page_count_def)

lemma page_ok_first: "0 < rowsPerPage st \<Longrightarrow> currentPage st = 1 \<Longrightarrow> page_ok st"
  using page_count_pos [of st] by (auto simp: page_ok_def)

lemma page_ok_renders [simp]:
  "page_ok (renderHistoryTable loc st) \<longleftrightarrow> page_ok st" "page_ok (renderPagination st) \<longleftrightarrow> page_ok st"
  "page_ok (updateHistoryStats tza st) \<longleftrightarrow> page_ok st" "page_ok (updateSortIndicators st) \<longleftrightarrow> page_ok st"
  by (rule page_ok_same_vars, rule render_same_vars)+

lemma goToPage_ok: "page_ok st \<Longrightarrow> page_ok (goToPage loc p st)"
proof -
  assume ok: "page_ok st"
  have "page_count (st\<lparr>currentPage := p\<rparr>) = page_count st" by (rule page_count_cong) simp_all
  with ok have "\<not> (p < 1 \<or> p > page_count st) \<Longrightarrow> page_ok (st\<lparr>currentPage := p\<rparr>)"
    by (simp add: page_ok_def)
  with ok show ?thesis by (simp add: goToPage_def)
qed

lemma changeRowsPerPage_ok: "0 < n \<Longrightarrow> page_ok (changeRowsPerPage loc n st)"
  by (simp add: changeRowsPerPage_def page_ok_first)

lemma initial_page_ok: "page_ok initial_history"
  by (rule page_ok_first) (simp_all add: initial_history_def)

text \<open>Pressing an enabled button of the pager.\<close>

lemma pager_button_valid:
  assumes "page_ok st" "paginationContainer (renderPagination st) = Some pg" "(target, False) \<in> set (pg_buttons pg)"
  shows "1 \<le> target \<and> target \<le> page_count st \<and> target \<noteq> currentPage st"
proof -
  have total: "page_count st \<noteq> 0"
    and pg: "pg_buttons pg = [(1, currentPage st = 1), (currentPage st - 1, currentPage st = 1),
       (currentPage st + 1, currentPage st = page_count st), (page_count st, currentPage st = page_count st)]"
    using assms(2) by (auto simp: renderPagination_def Let_def split: if_splits)
  then have "1 \<le> currentPage st" "currentPage st \<le> page_count st"
    using assms(1) page_count_0_iff [of st] by (auto simp: page_ok_def)
  with assms(3) pg show ?thesis by auto
qed

section \<open>Properties\<close>

text \<open>
  C27. The pages cut the filtered rows without loss: put one after the other they are the filtered
  rows, every page of the pager has a row, and none has more than the chosen number.
\<close>

theorem pages_partition_rows:
  assumes "0 < rowsPerPage st"
  shows "concat (map (\<lambda>p. page_rows (st\<lparr>currentPage := int p\<rparr>)) [1..<Suc (nat (page_count st))]) = filteredData st \<and>
    (1 \<le> currentPage st \<and> currentPage st \<le> page_count st \<longrightarrow>
      page_rows st \<noteq> [] \<and> int (length (page_rows st)) \<le> rowsPerPage st)"
  using page_rows_concat [OF assms] page_rows_nonempty [OF assms] page_rows_eq [OF _ assms] assms
  by auto

theorem pages_partition_rows_witness:
  "concat (map (\<lambda>p. page_rows (initial_history\<lparr>filteredData := replicate 45 (sample_item 5), currentPage := int p\<rparr>)) [1..<Suc 3]) =
     replicate 45 (sample_item 5)"
proof -
  have "page_count (initial_history\<lparr>filteredData := replicate 45 (sample_item 5)\<rparr>) = 3"
    by (simp add: page_count_def totalPages_def ceil_div_def initial_history_def)
  then show ?thesis
    using pages_partition_rows [of "initial_history\<lparr>filteredData := replicate 45 (sample_item 5)\<rparr>"]
    by (simp add: initial_history_def del: upt_Suc)
qed

text \<open>
  Every enabled button of the pager leads to another existing page, and pressing it shows that
  page.
\<close>

theorem pager_buttons_lead_to_pages:
  assumes "page_ok st" "paginationContainer (renderPagination st) = Some pg" "(target, False) \<in> set (pg_buttons pg)"
  shows "1 \<le> target \<and> target \<le> page_count st \<and> target \<noteq> currentPage st \<and>
    currentPage (goToPage loc target st) = target \<and>
    historyBody (goToPage loc target st) = Rows (map (render_row loc) (page_rows (st\<lparr>currentPage := target\<rparr>)))"
proof -
  note valid = pager_button_valid [OF assms]
  have "filteredData st \<noteq> []"
    using assms(1) valid page_count_0_iff [of st] by (auto simp: page_ok_def)
  with valid show ?thesis by (simp add: goToPage_def renderHistoryTable_def)
qed

theorem pager_buttons_lead_to_pages_witness:
  "currentPage (goToPage (\<lambda>_. []) 2 (initial_history\<lparr>filteredData := replicate 45 (sample_item 5)\<rparr>)) = 2"
proof -
  let ?st = "initial_history\<lparr>filteredData := replicate 45 (sample_item 5)\<rparr>"
  have total: "page_count ?st = 3"
    by (simp add: page_count_def totalPages_def ceil_div_def initial_history_def)
  obtain pg where pg: "paginationContainer (renderPagination ?st) = Some pg" "(2, False) \<in> set (pg_buttons pg)"
    by (simp add: renderPagination_def total) (simp add: initial_history_def)
  have "page_ok ?st" by (rule page_ok_first) (simp_all add: initial_history_def)
  from pager_buttons_lead_to_pages [OF this pg] show ?thesis by simp
qed

end
