(* ===== verification/HistoryOps.thy ===== *)
theory HistoryOps
  imports HistoryView
begin

text \<open>
  The functions of the history page that change its variables: \<open>applyLocalFilters\<close>, the two
  halves of the asynchronous \<open>loadHistory\<close> (before the request, and the continuation that gets
  the reply), and the handlers of the filters, the column headers, the date inputs and the refresh
  button. Each returns the new state and what else happens: nothing, an exception that leaves
  the function, or a request.
\<close>

datatype effect = Quiet | Throws js_error | Fetch string

section \<open>applyLocalFilters\<close>

definition show_filtered :: "(date_value \<Rightarrow> string) \<Rightarrow> time_zone \<Rightarrow> item list \<Rightarrow> history \<Rightarrow> history" where
  "show_filtered loc tza data st =
     (let st1 = st\<lparr>filteredData := array_sort (row_compare (sortColumn st) (sortDirection st)) data\<rparr>;
          total = page_count st1;
          st2 = (if currentPage st1 > total \<and> total > 0 then st1\<lparr>currentPage := 1\<rparr> else st1)
      in updateSortIndicators (updateHistoryStats tza (renderPagination (renderHistoryTable loc st2))))"

definition applyLocalFilters :: "(date_value \<Rightarrow> string) \<Rightarrow> time_zone \<Rightarrow> history \<Rightarrow> history \<times> effect" where
  "applyLocalFilters loc tza st =
     (case historyCache st of None \<Rightarrow> (st, Quiet)
      | Some r \<Rightarrow>
         (case r_data r of None \<Rightarrow> (st, Throws TypeError)
          | Some d \<Rightarrow>
             (case filter_rows loc (activeFilters st) d of Inl e \<Rightarrow> (st, Throws e)
              | Inr data \<Rightarrow> (show_filtered loc tza data st, Quiet))))"

section \<open>loadHistory\<close>

definition showHistoryLoading :: "history \<Rightarrow> history" where
  "showHistoryLoading st = st\<lparr>historyBody := Loading, paginationContainer := None\<rparr>"

definition showHistoryError :: "js_error \<Rightarrow> history \<Rightarrow> history" where
  "showHistoryError e st = st\<lparr>historyBody := LoadError e, paginationContainer := None\<rparr>"

text \<open>\<open>Math.floor(d.getTime() / 1000)\<close> in a template literal.\<close>

definition seconds_text :: "date_value \<Rightarrow> string" where
  "seconds_text v = (case v of None \<Rightarrow> ''NaN'' | Some t \<Rightarrow> int_dec (t div 1000))"

definition history_url :: "filters \<Rightarrow> string" where
  "history_url fs =
     API @ ''/api/pump/history?limit=5000'' @
     (case dateFrom fs of None \<Rightarrow> [] | Some d \<Rightarrow> ''&from='' @ seconds_text d) @
     (case dateTo fs of None \<Rightarrow> [] | Some d \<Rightarrow> ''&to='' @ seconds_text d)"

definition loadHistory :: "history \<Rightarrow> history \<times> effect" where
  "loadHistory st = (showHistoryLoading st, Fetch (history_url (activeFilters st)))"

text \<open>The rows the log line of a non-empty reply reads: \<open>data[0]\<close> and \<open>data[count - 1]\<close>.\<close>

definition log_range_ok :: "response \<Rightarrow> bool" where
  "log_range_ok r \<longleftrightarrow>
     (case r_count r of None \<Rightarrow> True
      | Some c \<Rightarrow> c > 0 \<longrightarrow>
          (case r_data r of None \<Rightarrow> False
           | Some d \<Rightarrow> js_index d 0 \<noteq> None \<and> js_index d (c - 1) \<noteq> None))"

text \<open>
  The continuation after \<open>fetch\<close> and \<open>res.json()\<close>, with the \<open>catch\<close> block; \<open>Inl\<close> is a rejected
  promise. What was assigned before an exception stays assigned.
\<close>

definition historyReply :: "(date_value \<Rightarrow> string) \<Rightarrow> time_zone \<Rightarrow> js_error + response \<Rightarrow> history \<Rightarrow> history" where
  "historyReply loc tza reply st =
     (case reply of Inl e \<Rightarrow> showHistoryError e st
      | Inr r \<Rightarrow>
         if \<not> log_range_ok r then showHistoryError TypeError st
         else (case r_data r of None \<Rightarrow> showHistoryError TypeError (st\<lparr>historyCache := Some r\<rparr>)
          | Some d \<Rightarrow>
             (case applyLocalFilters loc tza
                     (st\<lparr>historyCache := Some r, filteredData := d, currentPage := 1\<rparr>) of
                (st', Throws e) \<Rightarrow> showHistoryError e st'
              | (st', _) \<Rightarrow> st')))"

section \<open>Handlers\<close>

definition refreshHistory :: "history \<Rightarrow> history \<times> effect" where
  "refreshHistory st =
     loadHistory (st\<lparr>historyCache := None, filteredData := [], currentPage := 1, activeFilters := no_filters,
       filterP1 := ''all'', filterP2 := ''all'', searchInput := [], datetimeFrom := [], datetimeTo := [],
       quickActive := Some 0\<rparr>)"

text \<open>The debounced body of \<open>handleSearchInput\<close>.\<close>

definition searchNow :: "(date_value \<Rightarrow> string) \<Rightarrow> time_zone \<Rightarrow> string \<Rightarrow> history \<Rightarrow> history \<times> effect" where
  "searchNow loc tza v st =
     applyLocalFilters loc tza (st\<lparr>activeFilters := (activeFilters st)\<lparr>searchTerm := v\<rparr>, currentPage := 1\<rparr>)"

definition filterByStatus :: "(date_value \<Rightarrow> string) \<Rightarrow> time_zone \<Rightarrow> string \<Rightarrow> string \<Rightarrow> history \<Rightarrow> history \<times> effect" where
  "filterByStatus loc tza pump status st =
     (let fs = activeFilters st;
          fs' = (if pump = ''pump1'' then fs\<lparr>pump1Status := status\<rparr>
                 else if pump = ''pump2'' then fs\<lparr>pump2Status := status\<rparr> else fs)
      in applyLocalFilters loc tza (st\<lparr>activeFilters := fs', currentPage := 1\<rparr>))"

definition flip_dir :: "sort_dir \<Rightarrow> sort_dir" where
  "flip_dir d = (if d = Asc then Desc else Asc)"

definition sortTable :: "(date_value \<Rightarrow> string) \<Rightarrow> time_zone \<Rightarrow> string \<Rightarrow> history \<Rightarrow> history \<times> effect" where
  "sortTable loc tza column st =
     applyLocalFilters loc tza
       (if sortColumn st = column then st\<lparr>sortDirection := flip_dir (sortDirection st)\<rparr>
        else st\<lparr>sortColumn := column, sortDirection := Desc\<rparr>)"

text \<open>The text \<open>applyQuickFilter\<close> assigns to an input: empty for \<open>null\<close>.\<close>

definition quick_text :: "time_zone \<Rightarrow> date_value option \<Rightarrow> js_error + string" where
  "quick_text tza d = (case d of None \<Rightarrow> Inr [] | Some v \<Rightarrow> toISOLocal tza v)"

text \<open>\<open>btn\<close> is the index of the pressed button, \<open>now\<close> the clock's value.\<close>

definition applyQuickFilter :: "time_zone \<Rightarrow> nat \<Rightarrow> string \<Rightarrow> int \<Rightarrow> history \<Rightarrow> history \<times> effect" where
  "applyQuickFilter tza btn rng now st =
     (let (fromDate, toDate) = quick_range tza now rng;
          st1 = st\<lparr>quickActive := Some btn,
                  activeFilters := (activeFilters st)\<lparr>dateFrom := fromDate, dateTo := toDate\<rparr>\<rparr>
      in case quick_text tza fromDate of Inl e \<Rightarrow> (st1, Throws e)
         | Inr s1 \<Rightarrow>
           (let st2 = st1\<lparr>datetimeFrom := set_datetime_input s1\<rparr> in
            case quick_text tza toDate of Inl e \<Rightarrow> (st2, Throws e)
            | Inr s2 \<Rightarrow> loadHistory (st2\<lparr>datetimeTo := set_datetime_input s2\<rparr>)))"

definition input_date :: "time_zone \<Rightarrow> string \<Rightarrow> date_value option" where
  "input_date tza v = (if v \<noteq> [] then Some (new_date_text tza v) else None)"

definition filterByDateRange :: "time_zone \<Rightarrow> history \<Rightarrow> history \<times> effect" where
  "filterByDateRange tza st =
     loadHistory (st\<lparr>activeFilters := (activeFilters st)\<lparr>dateFrom := input_date tza (datetimeFrom st),
       dateTo := input_date tza (datetimeTo st)\<rparr>, quickActive := None\<rparr>)"

definition clearDateFilter :: "history \<Rightarrow> history \<times> effect" where
  "clearDateFilter st =
     loadHistory (st\<lparr>datetimeFrom := [], datetimeTo := [],
       activeFilters := (activeFilters st)\<lparr>dateFrom := None, dateTo := None\<rparr>, quickActive := Some 0\<rparr>)"

section \<open>applyLocalFilters: result and frame\<close>

lemma show_filtered_sel [simp]:
  "historyCache (show_filtered loc tza data st) = historyCache st"
  "rowsPerPage (show_filtered loc tza data st) = rowsPerPage st"
  "sortColumn (show_filtered loc tza data st) = sortColumn st"
  "sortDirection (show_filtered loc tza data st) = sortDirection st"
  "activeFilters (show_filtered loc tza data st) = activeFilters st"
  "filteredData (show_filtered loc tza data st) =
     array_sort (row_compare (sortColumn st) (sortDirection st)) data"
  by (simp_all add: show_filtered_def Let_def)

lemma show_filtered_page_ok:
  assumes "0 < rowsPerPage st" "1 \<le> currentPage st"
  shows "page_ok (show_filtered loc tza data st)"
proof -
  let ?st1 = "st\<lparr>filteredData := array_sort (row_compare (sortColumn st) (sortDirection st)) data\<rparr>"
  let ?st2 = "if currentPage ?st1 > page_count ?st1 \<and> page_count ?st1 > 0
      then ?st1\<lparr>currentPage := 1\<rparr> else ?st1"
  have "page_ok ?st2"
  proof (cases "currentPage ?st1 > page_count ?st1 \<and> page_count ?st1 > 0")
    case True
    then show ?thesis using assms by (simp add: page_ok_first)
  next
    case False
    with assms page_count_pos [of ?st1] show ?thesis by (auto simp: page_ok_def)
  qed
  then show ?thesis by (simp add: show_filtered_def Let_def)
qed

lemma apply_known:
  assumes "historyCache st = Some r" "r_data r = Some d" "\<forall>it \<in> set d. known_status it"
  shows "applyLocalFilters loc tza st =
     (show_filtered loc tza (filter (row_matches loc (activeFilters st)) d) st, Quiet)"
  using assms by (simp add: applyLocalFilters_def filter_rows_known)

lemma apply_page_ok:
  assumes "applyLocalFilters loc tza st = (st', eff)" "page_ok st"
  shows "page_ok st'"
  using assms show_filtered_page_ok [of st loc tza]
  by (auto simp: applyLocalFilters_def page_ok_def split: option.splits sum.splits)

lemma apply_frame:
  assumes "applyLocalFilters loc tza st = (st', eff)"
  shows "historyCache st' = historyCache st" "activeFilters st' = activeFilters st"
    "sortColumn st' = sortColumn st" "sortDirection st' = sortDirection st" "rowsPerPage st' = rowsPerPage st"
  using assms by (auto simp: applyLocalFilters_def split: option.splits sum.splits)

section \<open>Page invariant of the handlers\<close>

lemma page_ok_loading [simp]: "page_ok (showHistoryLoading st) \<longleftrightarrow> page_ok st"
  "page_ok (showHistoryError e st) \<longleftrightarrow> page_ok st"
  by (rule page_ok_same_vars, simp add: same_vars_def showHistoryLoading_def showHistoryError_def)+

lemma loadHistory_ok: "loadHistory st = (st', eff) \<Longrightarrow> page_ok st \<Longrightarrow> page_ok st'"
  by (auto simp: loadHistory_def)

lemma historyReply_ok:
  assumes "page_ok st"
  shows "page_ok (historyReply loc tza reply st)"
proof (cases reply)
  case (Inl e)
  with assms show ?thesis by (simp add: historyReply_def)
next
  case (Inr r)
  have keep: "page_ok (st\<lparr>historyCache := Some r\<rparr>)"
    using assms by (simp add: page_ok_def page_count_def)
  have first: "page_ok (st\<lparr>historyCache := Some r, filteredData := d, currentPage := 1\<rparr>)" for d
    using assms by (intro page_ok_first) (simp_all add: page_ok_def)
  show ?thesis
    using Inr assms keep apply_page_ok [OF _ first]
    by (auto simp: historyReply_def split: option.split prod.split effect.split)
qed

lemma page_ok_handlers:
  assumes "page_ok st"
  shows "refreshHistory st = (st', eff) \<Longrightarrow> page_ok st'"
    and "searchNow loc tza v st = (st', eff) \<Longrightarrow> page_ok st'"
    and "filterByStatus loc tza pump status st = (st', eff) \<Longrightarrow> page_ok st'"
    and "sortTable loc tza column st = (st', eff) \<Longrightarrow> page_ok st'"
    and "applyQuickFilter tza btn rng now st = (st', eff) \<Longrightarrow> page_ok st'"
    and "filterByDateRange tza st = (st', eff) \<Longrightarrow> page_ok st'"
    and "clearDateFilter st = (st', eff) \<Longrightarrow> page_ok st'"
proof -
  have rows: "0 < rowsPerPage st" using assms by (simp add: page_ok_def)
  show "refreshHistory st = (st', eff) \<Longrightarrow> page_ok st'"
    by (auto simp: refreshHistory_def loadHistory_def showHistoryLoading_def rows intro!: page_ok_first)
  show "searchNow loc tza v st = (st', eff) \<Longrightarrow> page_ok st'"
    unfolding searchNow_def by (erule apply_page_ok) (simp add: page_ok_first rows)
  show "filterByStatus loc tza pump status st = (st', eff) \<Longrightarrow> page_ok st'"
    unfolding filterByStatus_def Let_def by (erule apply_page_ok) (simp add: page_ok_first rows)
  have "page_ok (if sortColumn st = column then st\<lparr>sortDirection := flip_dir (sortDirection st)\<rparr>
        else st\<lparr>sortColumn := column, sortDirection := Desc\<rparr>)"
    using assms by (simp add: page_ok_def page_count_def)
  then show "sortTable loc tza column st = (st', eff) \<Longrightarrow> page_ok st'"
    unfolding sortTable_def by (rule apply_page_ok [rotated])
  show "applyQuickFilter tza btn rng now st = (st', eff) \<Longrightarrow> page_ok st'"
    using assms by (auto simp: applyQuickFilter_def loadHistory_def page_ok_def page_count_def
        showHistoryLoading_def Let_def split: prod.splits sum.splits)
  show "filterByDateRange tza st = (st', eff) \<Longrightarrow> page_ok st'"
    "clearDateFilter st = (st', eff) \<Longrightarrow> page_ok st'"
    using assms by (auto simp: filterByDateRange_def clearDateFilter_def loadHistory_def page_ok_def
        page_count_def showHistoryLoading_def)
qed

section \<open>Replies\<close>

text \<open>A reply as the server means it: \<open>count\<close> is the number of rows, every status is known.\<close>

definition good_response :: "response \<Rightarrow> bool" where
  "good_response r \<longleftrightarrow>
     (\<exists>d. r_data r = Some d \<and> r_count r = Some (int (length d)) \<and> (\<forall>it \<in> set d. known_status it))"

lemma good_response_log: "good_response r \<Longrightarrow> log_range_ok r"
  by (auto simp: good_response_def log_range_ok_def js_index_None_iff)

lemma historyReply_good:
  assumes "good_response r"
  shows "historyReply loc tza (Inr r) st =
    show_filtered loc tza (filter (row_matches loc (activeFilters st)) (the (r_data r)))
      (st\<lparr>historyCache := Some r, filteredData := the (r_data r), currentPage := 1\<rparr>)"
  using assms good_response_log [OF assms]
  by (auto simp: historyReply_def good_response_def apply_known)

section \<open>Properties\<close>

lemma quick_text_blank: "quick_text tza d = Inr s \<Longrightarrow> set_datetime_input s = []"
proof -
  have "set_datetime_input [] = []" by (simp add: set_datetime_input_def)
  then show "quick_text tza d = Inr s \<Longrightarrow> set_datetime_input s = []"
    by (auto simp: quick_text_def toISOLocal_def toISOString_def iso_text_rejected split: option.splits)
qed

text \<open>
  A quick filter never fills the date inputs: the text of \<open>toISOLocal\<close> ends in Z, which a
  datetime-local input rejects, so both inputs are blank after every quick filter, and reading them
  back with \<open>filterByDateRange\<close> drops the dates just chosen.
\<close>

theorem quick_filter_blanks_inputs:
  assumes "applyQuickFilter tza btn rng now st = (st', Fetch u)"
  shows "datetimeFrom st' = [] \<and> datetimeTo st' = [] \<and>
    dateFrom (activeFilters (fst (filterByDateRange tza st'))) = None \<and>
    dateTo (activeFilters (fst (filterByDateRange tza st'))) = None"
proof -
  obtain a b where ab: "quick_range tza now rng = (a, b)" by fastforce
  with assms obtain s1 s2 where s: "quick_text tza a = Inr s1" "quick_text tza b = Inr s2"
    by (auto simp: applyQuickFilter_def Let_def split: sum.splits)
  have "datetimeFrom st' = [] \<and> datetimeTo st' = []"
    using assms s quick_text_blank [OF s(1)] quick_text_blank [OF s(2)]
    by (auto simp: applyQuickFilter_def ab loadHistory_def showHistoryLoading_def Let_def)
  then show ?thesis
    by (simp add: filterByDateRange_def loadHistory_def showHistoryLoading_def input_date_def)
qed

theorem quick_filter_blanks_inputs_witness:
  "datetimeFrom (fst (applyQuickFilter (\<lambda>_ _. 25200000) 1 ''today'' 1700000000000 initial_history)) = []"
proof -
  have "fixed_offset (\<lambda>_ _. 25200000) 25200000" "current_era 1700000000000"
    by (simp_all add: fixed_offset_def ms_per_day_def current_era_def)
  note today = quick_range_closed(1) [OF this]
  have iso: "\<exists>s. quick_text (\<lambda>_ _. 25200000) (Some (Some t)) = Inr s" if "\<bar>t\<bar> < 8000000000000000" for t
    using that by (auto simp: quick_text_def toISOLocal_def toISOString_def time_clip_def tz_offset_ms_def local_time_def abs_le_iff)
  have "\<bar>day_start 25200000 1700000000000\<bar> < 8000000000000000" "\<bar>day_start 25200000 1700000000000 + 86399000\<bar> < 8000000000000000"
    by (simp_all add: day_start_def ms_per_day_def)
  then obtain s1 s2 where s: "quick_text (\<lambda>_ _. 25200000) (Some (Some (day_start 25200000 1700000000000))) = Inr s1"
    "quick_text (\<lambda>_ _. 25200000) (Some (Some (day_start 25200000 1700000000000 + 86399000))) = Inr s2"
    using iso by blast
  then obtain st' u where run: "applyQuickFilter (\<lambda>_ _. 25200000) 1 ''today'' 1700000000000 initial_history = (st', Fetch u)"
    by (simp add: applyQuickFilter_def today loadHistory_def)
  from quick_filter_blanks_inputs [OF run] show ?thesis by (simp add: run del: One_nat_def)
qed

end
