(* ===== verification/Debounce.thy ===== *)
theory Debounce
  imports Prelude
begin

text \<open>
  \<open>debounce(func, wait)\<close> of \<^verbatim>\<open>web/script.js\<close>: the closure's variable \<open>timeout\<close> is the state, a
  pending call with the milliseconds left, or none. Calling the returned function clears a pending
  call and starts a new one; when time passes the pending call is made once its delay is over.
\<close>

type_synonym 'a timer = "('a \<times> nat) option"

definition debounced_call :: "nat \<Rightarrow> 'a \<Rightarrow> 'a timer \<Rightarrow> 'a timer" where
  "debounced_call wait v timeout = Some (v, wait)"

text \<open>\<open>d\<close> milliseconds pass: the timer afterwards and the calls of \<open>func\<close> made meanwhile.\<close>

definition elapse :: "nat \<Rightarrow> 'a timer \<Rightarrow> 'a timer \<times> 'a list" where
  "elapse d timeout =
     (case timeout of None \<Rightarrow> (None, [])
      | Some (v, left) \<Rightarrow> if left \<le> d then (None, [v]) else (Some (v, left - d), []))"

text \<open>A sequence of calls, each followed by a pause: the timer afterwards and the calls made.\<close>

fun debounce_run :: "nat \<Rightarrow> ('a \<times> nat) list \<Rightarrow> 'a timer \<Rightarrow> 'a timer \<times> 'a list" where
  "debounce_run wait [] timeout = (timeout, [])"
| "debounce_run wait ((v, pause) # calls) timeout =
     (let (t1, out1) = elapse pause (debounced_call wait v timeout);
          (t2, out2) = debounce_run wait calls t1
      in (t2, out1 @ out2))"

lemma elapse_split: "elapse (a + b) t =
    (let (t1, o1) = elapse a t; (t2, o2) = elapse b t1 in (t2, o1 @ o2))"
  by (auto simp: elapse_def split: option.split)

lemma elapse_None [simp]: "elapse d None = (None, [])"
  by (simp add: elapse_def)

lemma debounce_run_fires:
  "snd (debounce_run wait calls timeout) = map fst (filter (\<lambda>(v, pause). wait \<le> pause) calls)"
proof (induction wait calls timeout rule: debounce_run.induct)
  case (2 wait v pause calls timeout)
  then show ?case
    by (cases "wait \<le> pause") (auto simp: elapse_def debounced_call_def split: prod.splits)
qed simp

lemma debounce_run_pending:
  assumes "calls \<noteq> []"
  shows "fst (debounce_run wait calls timeout) =
    (let (v, pause) = last calls in if wait \<le> pause then None else Some (v, wait - pause))"
  using assms
proof (induction wait calls timeout rule: debounce_run.induct)
  case (2 wait v pause calls timeout)
  show ?case
  proof (cases "calls = []")
    case True
    then show ?thesis by (simp add: elapse_def debounced_call_def)
  next
    case False
    obtain t1 o1 where e: "elapse pause (debounced_call wait v timeout) = (t1, o1)" by fastforce
    with 2 False show ?thesis by (auto split: prod.splits)
  qed
qed simp

section \<open>Properties\<close>

text \<open>
  C40. Debouncing: of a sequence of calls exactly those are made that are followed by a pause of at
  least the delay, in order, each once; after the last call the timer is pending exactly when its pause
  is shorter, with the rest of the delay.
\<close>

theorem debounce_makes_quiet_calls:
  "snd (debounce_run wait calls timeout) = map fst (filter (\<lambda>(v, pause). wait \<le> pause) calls) \<and>
    (calls \<noteq> [] \<longrightarrow> fst (debounce_run wait calls timeout) =
      (let (v, pause) = last calls in if wait \<le> pause then None else Some (v, wait - pause)))"
  using debounce_run_fires debounce_run_pending by blast

theorem debounce_makes_quiet_calls_witness:
  "snd (debounce_run 300 [(''r'', 100), (''ru'', 250), (''run'', 400)] None) = [''run'']"
  using debounce_makes_quiet_calls [of 300 "[(''r'', 100), (''ru'', 250), (''run'', 400)]" None] by simp

end
