(* ===== verification/HistoryPage.thy ===== *)
theory HistoryPage
  imports HistoryOps Debounce
begin

text \<open>
  The history page as a machine: its variables, the search box's debounce timer, the requests not
  answered yet (oldest first) and the exceptions that left a handler. An event is one call the
  browser makes: a handler, time passing, or the reply to any open request, in any order.
\<close>

record page =
  hist :: history
  searchTimer :: "string timer"
  inflight :: "string list"
  thrown :: "js_error list"

datatype event =
    ShowHistoryPage
  | TypeSearch string
  | Elapse nat
  | SelectStatus string string
  | ClickHeader string
  | GoToPage int
  | SelectRows int
  | Refresh
  | QuickFilter nat string int
  | PickDates string string
  | ClearDates
  | Reply nat "js_error + response"

definition initial_page :: page where
  "initial_page = \<lparr>hist = initial_history, searchTimer = None, inflight = [], thrown = []\<rparr>"

definition search_wait :: nat where "search_wait = 300"

text \<open>A handler's outcome: an exception is logged, a request is opened.\<close>

definition settle :: "page \<Rightarrow> history \<times> effect \<Rightarrow> page" where
  "settle p out =
     (case out of (h, eff) \<Rightarrow>
       (case eff of Quiet \<Rightarrow> p\<lparr>hist := h\<rparr>
        | Throws e \<Rightarrow> p\<lparr>hist := h, thrown := e # thrown p\<rparr>
        | Fetch u \<Rightarrow> p\<lparr>hist := h, inflight := inflight p @ [u]\<rparr>))"

definition drop_at :: "nat \<Rightarrow> 'a list \<Rightarrow> 'a list" where
  "drop_at i xs = take i xs @ drop (Suc i) xs"

text \<open>
  The widgets hold what the user picked before the handler runs: the search box, the two menus and
  the date inputs.
\<close>

definition pick_status :: "string \<Rightarrow> string \<Rightarrow> history \<Rightarrow> history" where
  "pick_status pump v st =
     (if pump = ''pump1'' then st\<lparr>filterP1 := v\<rparr> else if pump = ''pump2'' then st\<lparr>filterP2 := v\<rparr> else st)"

definition fire :: "(date_value \<Rightarrow> string) \<Rightarrow> time_zone \<Rightarrow> string list \<Rightarrow> page \<Rightarrow> page" where
  "fire loc tza vs p = fold (\<lambda>v q. settle q (searchNow loc tza v (hist q))) vs p"

fun do_event :: "(date_value \<Rightarrow> string) \<Rightarrow> time_zone \<Rightarrow> event \<Rightarrow> page \<Rightarrow> page" where
  "do_event loc tza ShowHistoryPage p = settle p (loadHistory (hist p))"
| "do_event loc tza (TypeSearch v) p =
     p\<lparr>hist := (hist p)\<lparr>searchInput := v\<rparr>, searchTimer := debounced_call search_wait v (searchTimer p)\<rparr>"
| "do_event loc tza (Elapse d) p =
     (let (t, vs) = elapse d (searchTimer p) in fire loc tza vs (p\<lparr>searchTimer := t\<rparr>))"
| "do_event loc tza (SelectStatus pump v) p =
     settle p (filterByStatus loc tza pump v (pick_status pump v (hist p)))"
| "do_event loc tza (ClickHeader column) p = settle p (sortTable loc tza column (hist p))"
| "do_event loc tza (GoToPage n) p = p\<lparr>hist := goToPage loc n (hist p)\<rparr>"
| "do_event loc tza (SelectRows n) p = p\<lparr>hist := changeRowsPerPage loc n (hist p)\<rparr>"
| "do_event loc tza Refresh p = settle p (refreshHistory (hist p))"
| "do_event loc tza (QuickFilter btn rng now) p = settle p (applyQuickFilter tza btn rng now (hist p))"
| "do_event loc tza (PickDates a b) p =
     settle p (filterByDateRange tza
       ((hist p)\<lparr>datetimeFrom := set_datetime_input a, datetimeTo := set_datetime_input b\<rparr>))"
| "do_event loc tza ClearDates p = settle p (clearDateFilter (hist p))"
| "do_event loc tza (Reply i r) p =
     p\<lparr>hist := historyReply loc tza r (hist p), inflight := drop_at i (inflight p)\<rparr>"

text \<open>The menu offers four sizes; a reply answers an open request.\<close>

fun enabled :: "event \<Rightarrow> page \<Rightarrow> bool" where
  "enabled (SelectRows n) p = (n \<in> set page_sizes)"
| "enabled (Reply i r) p = (i < length (inflight p))"
| "enabled _ p = True"

text \<open>Pages reached by enabled events that satisfy \<open>allowed\<close>.\<close>

inductive reachable :: "(date_value \<Rightarrow> string) \<Rightarrow> time_zone \<Rightarrow> (event \<Rightarrow> page \<Rightarrow> bool) \<Rightarrow> page \<Rightarrow> bool"
  for loc tza allowed where
  start: "reachable loc tza allowed initial_page"
| event: "reachable loc tza allowed p \<Longrightarrow> enabled ev p \<Longrightarrow> allowed ev p \<Longrightarrow>
    reachable loc tza allowed (do_event loc tza ev p)"

lemma reachable_mono:
  assumes "reachable loc tza allowed p" "\<And>ev q. allowed ev q \<Longrightarrow> allowed2 ev q"
  shows "reachable loc tza allowed2 p"
  using assms(1) by (induction rule: reachable.induct) (auto intro: reachable.intros assms(2))

section \<open>Invariants of reachable pages\<close>

lemma settle_hist [simp]: "hist (settle p out) = fst out"
  by (auto simp: settle_def split: prod.split effect.split)

lemma fire_invariant:
  assumes "P (hist p)" "\<And>h v. P h \<Longrightarrow> P (fst (searchNow loc tza v h))"
  shows "P (hist (fire loc tza vs p))"
  using assms(1) unfolding fire_def by (induction vs arbitrary: p) (simp_all add: assms(2))

text \<open>An invariant of the variables needs one fact per handler.\<close>

lemma do_event_invariant:
  assumes P: "P (hist p)"
    and search: "\<And>h v. P h \<Longrightarrow> P (fst (searchNow loc tza v h))"
    and box: "\<And>h v. P h \<Longrightarrow> P (h\<lparr>searchInput := v\<rparr>)"
    and load: "\<And>h. P h \<Longrightarrow> P (fst (loadHistory h))"
    and status: "\<And>h pump v. P h \<Longrightarrow> P (fst (filterByStatus loc tza pump v (pick_status pump v h)))"
    and sort: "\<And>h c. P h \<Longrightarrow> P (fst (sortTable loc tza c h))"
    and goto: "\<And>h n. P h \<Longrightarrow> P (goToPage loc n h)"
    and rows: "\<And>h n. P h \<Longrightarrow> enabled (SelectRows n) p \<Longrightarrow> P (changeRowsPerPage loc n h)"
    and refresh: "\<And>h. P h \<Longrightarrow> P (fst (refreshHistory h))"
    and quick: "\<And>h b r n. P h \<Longrightarrow> P (fst (applyQuickFilter tza b r n h))"
    and dates: "\<And>h a b. P h \<Longrightarrow> P (fst (filterByDateRange tza (h\<lparr>datetimeFrom := a, datetimeTo := b\<rparr>)))"
    and clear: "\<And>h. P h \<Longrightarrow> P (fst (clearDateFilter h))"
    and reply: "\<And>h i r. P h \<Longrightarrow> ev = Reply i r \<Longrightarrow> P (historyReply loc tza r h)"
    and en: "enabled ev p"
  shows "P (hist (do_event loc tza ev p))"
proof (cases ev)
  case (Elapse d)
  have "P (hist (fire loc tza vs (p\<lparr>searchTimer := t\<rparr>)))" for vs t
    by (rule fire_invariant) (use P search in auto)
  with Elapse show ?thesis by (auto split: prod.split)
qed (use assms in auto)

lemma page_ok_event:
  assumes "page_ok (hist p)" "enabled ev p"
  shows "page_ok (hist (do_event loc tza ev p))"
proof -
  have pick: "page_ok (pick_status pump v h) \<longleftrightarrow> page_ok h" for pump v h
    by (simp add: pick_status_def page_ok_def page_count_def)
  have ui: "page_ok (h\<lparr>searchInput := v\<rparr>) \<longleftrightarrow> page_ok h"
    "page_ok (h\<lparr>datetimeFrom := a, datetimeTo := b\<rparr>) \<longleftrightarrow> page_ok h" for h v a b
    by (simp_all add: page_ok_def page_count_def)
  note fst_ok = page_ok_handlers [OF _ surjective_pairing] loadHistory_ok [OF surjective_pairing]
  show ?thesis
  proof (rule do_event_invariant [where P = page_ok, OF assms(1)])
    show "page_ok h \<Longrightarrow> enabled (SelectRows n) p \<Longrightarrow> page_ok (changeRowsPerPage loc n h)" for h n
      by (rule changeRowsPerPage_ok) (auto simp: page_sizes_def)
  qed (simp_all add: ui pick fst_ok goToPage_ok historyReply_ok assms(2))
qed

lemma reachable_page_ok: "reachable loc tza allowed p \<Longrightarrow> page_ok (hist p)"
  by (induction rule: reachable.induct) (auto simp: initial_page_def initial_page_ok page_ok_event)

section \<open>The screen follows the variables\<close>

text \<open>
  With good replies: the filtered rows are the sorted, matching rows of the cache, the table shows
  the current page of them, and the pager is the one of the current page.
\<close>

definition matching_rows :: "(date_value \<Rightarrow> string) \<Rightarrow> history \<Rightarrow> response \<Rightarrow> item list" where
  "matching_rows loc st r =
     array_sort (row_compare (sortColumn st) (sortDirection st))
       (filter (row_matches loc (activeFilters st)) (the (r_data r)))"

definition data_ok :: "(date_value \<Rightarrow> string) \<Rightarrow> history \<Rightarrow> bool" where
  "data_ok loc st \<longleftrightarrow>
     (case historyCache st of None \<Rightarrow> filteredData st = []
      | Some r \<Rightarrow> good_response r \<and> filteredData st = matching_rows loc st r)"

definition screen_ok :: "(date_value \<Rightarrow> string) \<Rightarrow> history \<Rightarrow> bool" where
  "screen_ok loc st \<longleftrightarrow>
     (\<forall>rs. historyBody st = Rows rs \<longrightarrow> rs = map (render_row loc) (page_rows st)) \<and>
     (historyBody st = NoRecords \<longrightarrow> filteredData st = []) \<and>
     (\<forall>pg. paginationContainer st = Some pg \<longrightarrow> paginationContainer (renderPagination st) = Some pg)"

definition synced :: "(date_value \<Rightarrow> string) \<Rightarrow> history \<Rightarrow> bool" where
  "synced loc st \<longleftrightarrow> data_ok loc st \<and> screen_ok loc st"

lemma page_rows_cong:
  "filteredData a = filteredData b \<Longrightarrow> currentPage a = currentPage b \<Longrightarrow> rowsPerPage a = rowsPerPage b \<Longrightarrow>
    page_rows a = page_rows b"
  by (simp add: page_rows_def)

lemma pager_cong:
  "filteredData a = filteredData b \<Longrightarrow> currentPage a = currentPage b \<Longrightarrow> rowsPerPage a = rowsPerPage b \<Longrightarrow>
    paginationContainer (renderPagination a) = paginationContainer (renderPagination b)"
  by (simp add: renderPagination_def page_count_def Let_def)

lemma page_rows_Nil: "filteredData st = [] \<Longrightarrow> page_rows st = []"
  by (simp add: page_rows_def js_slice_def Let_def)

lemma screen_ok_rendered:
  assumes "filteredData b = filteredData a" "currentPage b = currentPage a" "rowsPerPage b = rowsPerPage a"
    "historyBody b = historyBody (renderHistoryTable loc a)"
    "paginationContainer b = paginationContainer (renderPagination a)"
  shows "screen_ok loc b"
  using assms page_rows_cong [of b a] pager_cong [of b a]
  by (auto simp: screen_ok_def renderHistoryTable_def split: if_splits)

lemma pager_of_render [simp]:
  "paginationContainer (renderPagination (renderHistoryTable loc st)) = paginationContainer (renderPagination st)"
  by (rule pager_cong) simp_all

lemma screen_ok_show_filtered: "screen_ok loc (show_filtered loc tza data st)"
proof -
  have "screen_ok loc (updateSortIndicators (updateHistoryStats tza (renderPagination (renderHistoryTable loc a))))" for a
    by (rule screen_ok_rendered [of _ a]) simp_all
  then show ?thesis by (simp add: show_filtered_def Let_def)
qed

lemma screen_ok_goToPage: "screen_ok loc st \<Longrightarrow> screen_ok loc (goToPage loc n st)"
  by (auto simp: goToPage_def intro: screen_ok_rendered [of _ "st\<lparr>currentPage := n\<rparr>"])

lemma screen_ok_changeRowsPerPage: "screen_ok loc (changeRowsPerPage loc n st)"
  unfolding changeRowsPerPage_def
  by (rule screen_ok_rendered [of _ "st\<lparr>rowsPerPage := n, currentPage := 1\<rparr>"]) simp_all

lemma screen_ok_blank: "historyBody st \<in> {Loading, LoadError e} \<Longrightarrow> paginationContainer st = None \<Longrightarrow> screen_ok loc st"
  by (auto simp: screen_ok_def)

lemma data_ok_cong:
  assumes "historyCache a = historyCache b" "filteredData a = filteredData b" "sortColumn a = sortColumn b"
    "sortDirection a = sortDirection b" "pump1Status (activeFilters a) = pump1Status (activeFilters b)"
    "pump2Status (activeFilters a) = pump2Status (activeFilters b)"
    "searchTerm (activeFilters a) = searchTerm (activeFilters b)"
  shows "data_ok loc a \<longleftrightarrow> data_ok loc b"
proof -
  have "row_matches loc (activeFilters a) = row_matches loc (activeFilters b)"
    using assms by (intro ext) (simp add: row_matches_def)
  with assms show ?thesis by (simp add: data_ok_def matching_rows_def split: option.split)
qed

text \<open>\<open>applyLocalFilters\<close> restores both, from any state whose cache is good.\<close>

lemma apply_synced:
  assumes "\<And>r. historyCache st = Some r \<Longrightarrow> good_response r"
    and "historyCache st = None \<Longrightarrow> filteredData st = [] \<and> screen_ok loc st"
  shows "applyLocalFilters loc tza st = (st', eff) \<Longrightarrow> synced loc st' \<and> eff = Quiet"
proof (cases "historyCache st")
  case None
  then show "applyLocalFilters loc tza st = (st', eff) \<Longrightarrow> synced loc st' \<and> eff = Quiet"
    using assms(2) by (auto simp: applyLocalFilters_def synced_def data_ok_def)
next
  case (Some r)
  with assms(1) obtain d where d: "good_response r" "r_data r = Some d" "\<forall>it \<in> set d. known_status it"
    by (auto simp: good_response_def)
  show "applyLocalFilters loc tza st = (st', eff) \<Longrightarrow> synced loc st' \<and> eff = Quiet"
    using apply_known [OF Some d(2,3)] Some d
    by (auto simp: synced_def data_ok_def matching_rows_def screen_ok_show_filtered)
qed

lemma screen_ok_empty:
  "filteredData st = [] \<Longrightarrow> screen_ok loc st \<longleftrightarrow>
     paginationContainer st = None \<and> (\<forall>rs. historyBody st = Rows rs \<longrightarrow> rs = [])"
  by (auto simp: screen_ok_def page_rows_Nil renderPagination_def page_count_def totalPages_def)

lemma screen_ok_empty_cong:
  "filteredData a = [] \<Longrightarrow> filteredData b = [] \<Longrightarrow> historyBody a = historyBody b \<Longrightarrow>
    paginationContainer a = paginationContainer b \<Longrightarrow> screen_ok loc a \<longleftrightarrow> screen_ok loc b"
  by (simp add: screen_ok_empty)

lemma screen_ok_cong:
  assumes "filteredData a = filteredData b" "currentPage a = currentPage b" "rowsPerPage a = rowsPerPage b"
    "historyBody a = historyBody b" "paginationContainer a = paginationContainer b"
  shows "screen_ok loc a \<longleftrightarrow> screen_ok loc b"
  using assms page_rows_cong [of a b] pager_cong [of a b] by (simp add: screen_ok_def)

text \<open>A handler that changes filters, page or order and then applies the filters.\<close>

lemma apply_after_synced:
  assumes "synced loc st" "historyCache st1 = historyCache st" "filteredData st1 = filteredData st"
    "historyBody st1 = historyBody st" "paginationContainer st1 = paginationContainer st"
    "applyLocalFilters loc tza st1 = (st', eff)"
  shows "synced loc st' \<and> eff = Quiet"
proof (rule apply_synced [OF _ _ assms(6)])
  show "good_response r" if "historyCache st1 = Some r" for r
    using that assms(1,2) by (auto simp: synced_def data_ok_def)
  show "filteredData st1 = [] \<and> screen_ok loc st1" if "historyCache st1 = None"
  proof -
    from that assms(1,2) have "filteredData st = []" by (auto simp: synced_def data_ok_def)
    with assms show ?thesis using screen_ok_empty_cong [of st1 st loc] by (simp add: synced_def)
  qed
qed

lemma load_synced:
  assumes "synced loc st" "historyCache st1 = historyCache st" "filteredData st1 = filteredData st"
    "sortColumn st1 = sortColumn st" "sortDirection st1 = sortDirection st"
    "pump1Status (activeFilters st1) = pump1Status (activeFilters st)"
    "pump2Status (activeFilters st1) = pump2Status (activeFilters st)"
    "searchTerm (activeFilters st1) = searchTerm (activeFilters st)"
  shows "synced loc (fst (loadHistory st1)) \<and> (\<exists>u. snd (loadHistory st1) = Fetch u)"
proof -
  have "data_ok loc (showHistoryLoading st1) \<longleftrightarrow> data_ok loc st"
    by (rule data_ok_cong) (simp_all add: showHistoryLoading_def assms)
  moreover have "screen_ok loc (showHistoryLoading st1)"
    by (rule screen_ok_blank) (simp_all add: showHistoryLoading_def)
  ultimately show ?thesis using assms(1) by (simp add: loadHistory_def synced_def)
qed

lemma refresh_synced:
  "synced loc (fst (refreshHistory st)) \<and> (\<exists>u. snd (refreshHistory st) = Fetch u)"
  by (auto simp: refreshHistory_def loadHistory_def synced_def data_ok_def showHistoryLoading_def
      intro: screen_ok_blank)

lemma error_synced:
  assumes "synced loc st" shows "synced loc (showHistoryError e st)"
proof -
  have "data_ok loc (showHistoryError e st) \<longleftrightarrow> data_ok loc st"
    by (rule data_ok_cong) (simp_all add: showHistoryError_def)
  moreover have "screen_ok loc (showHistoryError e st)"
    by (rule screen_ok_blank) (auto simp: showHistoryError_def)
  ultimately show ?thesis using assms by (simp add: synced_def)
qed

lemma reply_synced:
  assumes "synced loc st" "\<And>r. reply = Inr r \<Longrightarrow> good_response r"
  shows "synced loc (historyReply loc tza reply st)"
proof (cases reply)
  case (Inl e)
  with assms(1) show ?thesis by (simp add: historyReply_def error_synced)
next
  case (Inr r)
  with assms(2) have "good_response r" by simp
  with Inr show ?thesis
    by (simp add: historyReply_good synced_def data_ok_def matching_rows_def screen_ok_show_filtered)
qed

text \<open>The quick filters' texts exist: their dates are valid in the zones considered.\<close>

lemma quick_text_ok:
  assumes "fixed_offset tza off" "current_era now" "quick_range tza now rng = (a, b)"
  shows "\<exists>s. quick_text tza a = Inr s" "\<exists>s. quick_text tza b = Inr s"
proof -
  have iso: "\<exists>s. toISOLocal tza (Some t) = Inr s" if "\<bar>t\<bar> \<le> 8630000000000000" for t
    using that assms(1)
    by (auto simp: toISOLocal_def toISOString_def time_clip_def tz_offset_ms_def local_time_def
        fixed_offset_def ms_per_day_def abs_le_iff)
  define m where "m = day_start off now"
  have m: "- 200000000 \<le> m" "m \<le> 4102444800000"
    using day_start_bounds(1) [of off now] day_start_bounds(2) [of now off] assms(2)
    by (simp_all add: m_def current_era_def ms_per_day_def)
  have range: "quick_range tza now rng = (None, None) \<or>
      (\<exists>k \<in> {0, 1, 7, 30}. \<exists>j \<in> {0, 1}. quick_range tza now rng =
        (Some (Some (m - k * ms_per_day)), Some (Some (m - j * ms_per_day + 86399000))))"
    using quick_range_closed [OF assms(1,2)]
    by (cases "rng \<in> {''today'', ''yesterday'', ''week'', ''month''}") (auto simp: m_def quick_range_def)
  have "\<bar>m - k * ms_per_day\<bar> \<le> 8630000000000000 \<and> \<bar>m - j * ms_per_day + 86399000\<bar> \<le> 8630000000000000"
    if "k \<in> {0, 1, 7, 30}" "j \<in> {0, 1}" for k j
    using that m by (auto simp: ms_per_day_def abs_le_iff)
  with range iso assms(3) show "\<exists>s. quick_text tza a = Inr s" "\<exists>s. quick_text tza b = Inr s"
    by (fastforce simp: quick_text_def)+
qed

lemma quick_synced:
  assumes "fixed_offset tza off" "current_era now" "synced loc st"
  shows "synced loc (fst (applyQuickFilter tza btn rng now st)) \<and>
    (\<exists>u. snd (applyQuickFilter tza btn rng now st) = Fetch u)"
proof -
  obtain a b where ab: "quick_range tza now rng = (a, b)" by fastforce
  obtain s1 s2 where s: "quick_text tza a = Inr s1" "quick_text tza b = Inr s2"
    using quick_text_ok [OF assms(1,2) ab] by blast
  show ?thesis
    unfolding applyQuickFilter_def ab
    by (simp add: s) (rule load_synced [OF assms(3)], simp_all)
qed

section \<open>Runs with good replies\<close>

text \<open>Replies are failures or good responses; the clock is in the era considered.\<close>

fun good_event :: "event \<Rightarrow> page \<Rightarrow> bool" where
  "good_event (QuickFilter btn rng now) p = current_era now"
| "good_event (Reply i r) p = (case r of Inl _ \<Rightarrow> True | Inr x \<Rightarrow> good_response x)"
| "good_event _ p = True"

definition calm :: "(date_value \<Rightarrow> string) \<Rightarrow> page \<Rightarrow> bool" where
  "calm loc p \<longleftrightarrow> synced loc (hist p) \<and> thrown p = []"

lemma settle_calm:
  assumes "calm loc p" "synced loc (fst out)" "\<And>e. snd out \<noteq> Throws e"
  shows "calm loc (settle p out)"
  using assms by (cases out; cases "snd out") (auto simp: settle_def calm_def)

lemma apply_calm:
  assumes "calm loc p" "historyCache st1 = historyCache (hist p)" "filteredData st1 = filteredData (hist p)"
    "historyBody st1 = historyBody (hist p)" "paginationContainer st1 = paginationContainer (hist p)"
  shows "calm loc (settle p (applyLocalFilters loc tza st1))"
  using apply_after_synced [of loc "hist p" st1 tza, OF _ assms(2-5) surjective_pairing] assms(1)
  by (intro settle_calm) (auto simp: calm_def)

lemma synced_cong:
  assumes "synced loc b" "historyCache a = historyCache b" "filteredData a = filteredData b"
    "sortColumn a = sortColumn b" "sortDirection a = sortDirection b" "activeFilters a = activeFilters b"
    "currentPage a = currentPage b" "rowsPerPage a = rowsPerPage b" "historyBody a = historyBody b"
    "paginationContainer a = paginationContainer b"
  shows "synced loc a"
  using assms data_ok_cong [of a b loc] screen_ok_cong [of a b loc] by (simp add: synced_def)

lemma fire_calm: "calm loc p \<Longrightarrow> calm loc (fire loc tza vs p)"
  unfolding fire_def
  by (induction vs arbitrary: p) (simp_all add: searchNow_def apply_calm)

lemma goToPage_calm:
  assumes "synced loc st" shows "synced loc (goToPage loc n st)"
  using assms screen_ok_goToPage [of loc st n] data_ok_cong [of "goToPage loc n st" st loc]
  by (simp add: synced_def goToPage_def)

lemma changeRowsPerPage_calm:
  assumes "synced loc st" shows "synced loc (changeRowsPerPage loc n st)"
  using assms screen_ok_changeRowsPerPage [of loc n st] data_ok_cong [of "changeRowsPerPage loc n st" st loc]
  by (simp add: synced_def changeRowsPerPage_def)

lemma calm_event:
  assumes "fixed_offset tza off" "calm loc p" "good_event ev p"
  shows "calm loc (do_event loc tza ev p)"
proof -
  from assms(2) have sync: "synced loc (hist p)" and thrown: "thrown p = []" by (simp_all add: calm_def)
  note settled = settle_calm [OF assms(2)]
  show ?thesis
  proof (cases ev)
    case ShowHistoryPage
    with load_synced [OF sync, of "hist p"] show ?thesis by (auto intro!: settled)
  next
    case (TypeSearch v)
    with thrown show ?thesis by (auto simp: calm_def intro: synced_cong [OF sync])
  next
    case (Elapse d)
    have "calm loc (p\<lparr>searchTimer := t\<rparr>)" for t using sync thrown by (simp add: calm_def)
    with Elapse show ?thesis by (auto simp: fire_calm split: prod.split)
  next
    case (SelectStatus pump v)
    then show ?thesis
      by (auto simp: filterByStatus_def pick_status_def Let_def intro!: apply_calm [OF assms(2)])
  next
    case (ClickHeader c)
    then show ?thesis by (auto simp: sortTable_def intro!: apply_calm [OF assms(2)])
  next
    case (GoToPage n)
    with thrown show ?thesis by (simp add: calm_def goToPage_calm sync)
  next
    case (SelectRows n)
    with thrown show ?thesis by (simp add: calm_def changeRowsPerPage_calm sync)
  next
    case Refresh
    with refresh_synced [of loc "hist p"] show ?thesis by (auto intro!: settled)
  next
    case (QuickFilter btn rng now)
    with quick_synced [OF assms(1) _ sync, of now btn rng] assms(3) show ?thesis
      by (auto intro!: settled)
  next
    case (PickDates a b)
    have "synced loc (fst (filterByDateRange tza ((hist p)\<lparr>datetimeFrom := x, datetimeTo := y\<rparr>))) \<and>
        (\<exists>u. snd (filterByDateRange tza ((hist p)\<lparr>datetimeFrom := x, datetimeTo := y\<rparr>)) = Fetch u)" for x y
      unfolding filterByDateRange_def by (rule load_synced [OF sync]) simp_all
    with PickDates show ?thesis by (auto intro!: settled) (metis effect.distinct(5))
  next
    case ClearDates
    have "synced loc (fst (clearDateFilter (hist p))) \<and> (\<exists>u. snd (clearDateFilter (hist p)) = Fetch u)"
      unfolding clearDateFilter_def by (rule load_synced [OF sync]) simp_all
    with ClearDates show ?thesis by (auto intro!: settled)
  next
    case (Reply i r)
    with assms(3) thrown show ?thesis
      by (auto simp: calm_def intro!: reply_synced [OF sync] split: sum.splits)
  qed
qed

lemma initial_calm: "calm loc initial_page"
  by (simp add: calm_def initial_page_def synced_def data_ok_def screen_ok_empty initial_history_def)

lemma reachable_calm: "fixed_offset tza off \<Longrightarrow> reachable loc tza good_event p \<Longrightarrow> calm loc p"
  by (rotate_tac, induction rule: reachable.induct) (auto intro: calm_event initial_calm)

section \<open>Requests answered in order, and out of order\<close>

text \<open>Every reply carries what the server answers to its request.\<close>

definition served :: "(string \<Rightarrow> response) \<Rightarrow> event \<Rightarrow> page \<Rightarrow> bool" where
  "served srv ev p \<longleftrightarrow>
     (case ev of Reply i r \<Rightarrow> r = Inr (srv (inflight p ! i)) | _ \<Rightarrow> good_event ev p)"

definition in_order :: "(string \<Rightarrow> response) \<Rightarrow> event \<Rightarrow> page \<Rightarrow> bool" where
  "in_order srv ev p \<longleftrightarrow> served srv ev p \<and> (case ev of Reply i r \<Rightarrow> i = 0 | _ \<Rightarrow> True)"

text \<open>
  The last open request is the one for the current filters; with none open, the cache is the answer
  for the current filters.
\<close>

definition current :: "(string \<Rightarrow> response) \<Rightarrow> page \<Rightarrow> bool" where
  "current srv p \<longleftrightarrow>
     (if inflight p = [] then historyCache (hist p) \<in> {None, Some (srv (history_url (activeFilters (hist p))))}
      else last (inflight p) = history_url (activeFilters (hist p)))"

lemma history_url_cong:
  "dateFrom a = dateFrom b \<Longrightarrow> dateTo a = dateTo b \<Longrightarrow> history_url a = history_url b"
  by (simp add: history_url_def)

lemma current_settle_fetch: "snd out = Fetch (history_url (activeFilters (fst out))) \<Longrightarrow> current srv (settle p out)"
  by (cases out) (auto simp: settle_def current_def)

lemma current_load: "current srv (settle p (loadHistory st))"
  by (rule current_settle_fetch) (simp add: loadHistory_def showHistoryLoading_def)

lemma current_cong:
  assumes "current srv p" "inflight q = inflight p" "historyCache (hist q) = historyCache (hist p)"
    "dateFrom (activeFilters (hist q)) = dateFrom (activeFilters (hist p))"
    "dateTo (activeFilters (hist q)) = dateTo (activeFilters (hist p))"
  shows "current srv q"
  using assms history_url_cong [OF assms(4,5)] by (cases "inflight p = []") (simp_all add: current_def)

lemma apply_no_fetch:
  assumes "applyLocalFilters loc tza st = (st', eff)" shows "eff \<noteq> Fetch u"
  using assms by (auto simp: applyLocalFilters_def split: option.splits sum.splits)

lemma current_apply:
  assumes "current srv p" "historyCache st = historyCache (hist p)"
    "dateFrom (activeFilters st) = dateFrom (activeFilters (hist p))"
    "dateTo (activeFilters st) = dateTo (activeFilters (hist p))"
  shows "current srv (settle p (applyLocalFilters loc tza st))"
proof -
  obtain st' eff where ap: "applyLocalFilters loc tza st = (st', eff)" by fastforce
  have "inflight (settle p (st', eff)) = inflight p"
    using apply_no_fetch [OF ap] by (auto simp: settle_def split: effect.split)
  with ap apply_frame [OF ap] assms show ?thesis
    by (intro current_cong [OF assms(1)]) auto
qed

lemma current_fire: "current srv p \<Longrightarrow> current srv (fire loc tza vs p)"
  unfolding fire_def by (induction vs arbitrary: p) (simp_all add: searchNow_def current_apply)

lemma reply_cache:
  "log_range_ok r \<Longrightarrow> historyCache (historyReply loc tza (Inr r) st) = Some r \<and>
     activeFilters (historyReply loc tza (Inr r) st) = activeFilters st"
  by (auto simp: historyReply_def showHistoryError_def apply_frame
      split: option.split prod.split effect.split dest: apply_frame)

lemma current_event:
  assumes "fixed_offset tza off" "\<And>u. good_response (srv u)" "current srv p" "enabled ev p" "in_order srv ev p"
  shows "current srv (do_event loc tza ev p)"
proof (cases ev)
  case (Elapse d)
  have "current srv (p\<lparr>searchTimer := t\<rparr>)" for t by (rule current_cong [OF assms(3)]) simp_all
  with Elapse show ?thesis by (auto simp: current_fire split: prod.split)
next
  case (QuickFilter btn rng now)
  then have era: "current_era now" using assms(5) by (simp add: in_order_def served_def)
  obtain a b where ab: "quick_range tza now rng = (a, b)" by fastforce
  obtain s1 s2 where "quick_text tza a = Inr s1" "quick_text tza b = Inr s2"
    using quick_text_ok [OF assms(1) era ab] by blast
  with QuickFilter ab show ?thesis by (simp add: applyQuickFilter_def current_load)
next
  case (Reply i r)
  with assms(4,5) have r: "i = 0" "inflight p \<noteq> []" "r = Inr (srv (hd (inflight p)))"
    by (auto simp: in_order_def served_def hd_conv_nth)
  note cache = reply_cache [OF good_response_log [OF assms(2)]]
  show ?thesis
  proof (cases "tl (inflight p) = []")
    case True
    with r(2) obtain u where "inflight p = [u]" by (cases "inflight p") auto
    with Reply r assms(3) cache show ?thesis by (auto simp: current_def drop_at_def)
  next
    case False
    with Reply r assms(3) cache show ?thesis
      by (cases "inflight p") (auto simp: current_def drop_at_def)
  qed
qed (use assms(3) in \<open>auto simp: current_load filterByStatus_def sortTable_def pick_status_def
      refreshHistory_def filterByDateRange_def clearDateFilter_def goToPage_def changeRowsPerPage_def Let_def
      intro!: current_apply intro: current_cong\<close>)

lemma initial_current: "current srv initial_page"
  by (simp add: current_def initial_page_def initial_history_def)

lemma reachable_current:
  assumes "fixed_offset tza off" "\<And>u. good_response (srv u)" "reachable loc tza (in_order srv) p"
  shows "current srv p"
  using assms(3) by (induction rule: reachable.induct) (auto intro: current_event [OF assms(1,2)] initial_current)

section \<open>Runs, and what was asked for\<close>

text \<open>The events of a run, newest first.\<close>

inductive run_of :: "(date_value \<Rightarrow> string) \<Rightarrow> time_zone \<Rightarrow> (event \<Rightarrow> page \<Rightarrow> bool) \<Rightarrow> event list \<Rightarrow> page \<Rightarrow> bool"
  for loc tza allowed where
  begun: "run_of loc tza allowed [] initial_page"
| went: "run_of loc tza allowed evs p \<Longrightarrow> enabled ev p \<Longrightarrow> allowed ev p \<Longrightarrow>
    run_of loc tza allowed (ev # evs) (do_event loc tza ev p)"

text \<open>The actions that ask the server for rows.\<close>

fun asks :: "event \<Rightarrow> bool" where
  "asks ShowHistoryPage = True"
| "asks Refresh = True"
| "asks (QuickFilter _ _ _) = True"
| "asks (PickDates _ _) = True"
| "asks ClearDates = True"
| "asks _ = False"

text \<open>The table and the pager are those of the variables.\<close>

definition rendered :: "(date_value \<Rightarrow> string) \<Rightarrow> history \<Rightarrow> bool" where
  "rendered loc h \<longleftrightarrow>
     historyBody h = (if filteredData h = [] then NoRecords else Rows (map (render_row loc) (page_rows h))) \<and>
     paginationContainer h = paginationContainer (renderPagination h)"

lemma rendered_as:
  assumes "filteredData b = filteredData a" "currentPage b = currentPage a" "rowsPerPage b = rowsPerPage a"
    "historyBody b = historyBody (renderHistoryTable loc a)"
    "paginationContainer b = paginationContainer (renderPagination a)"
  shows "rendered loc b"
  using assms page_rows_cong [of b a] pager_cong [of b a] by (simp add: rendered_def renderHistoryTable_def)

lemma rendered_show_filtered: "rendered loc (show_filtered loc tza data st)"
proof -
  have "rendered loc (updateSortIndicators (updateHistoryStats tza (renderPagination (renderHistoryTable loc a))))" for a
    by (rule rendered_as [of _ a]) simp_all
  then show ?thesis by (simp add: show_filtered_def Let_def)
qed

lemma rendered_cong:
  assumes "rendered loc b" "filteredData a = filteredData b" "currentPage a = currentPage b"
    "rowsPerPage a = rowsPerPage b" "historyBody a = historyBody b" "paginationContainer a = paginationContainer b"
  shows "rendered loc a"
  using assms page_rows_cong [of a b] pager_cong [of a b] by (simp add: rendered_def)

lemma rendered_goToPage: "rendered loc h \<Longrightarrow> rendered loc (goToPage loc n h)"
  by (auto simp: goToPage_def intro: rendered_as [of _ "h\<lparr>currentPage := n\<rparr>"])

lemma rendered_rows: "rendered loc (changeRowsPerPage loc n h)"
  unfolding changeRowsPerPage_def by (rule rendered_as [of _ "h\<lparr>rowsPerPage := n, currentPage := 1\<rparr>"]) simp_all

text \<open>Before anything is asked for, the page is as \<^verbatim>\<open>index.html\<close> shows it; rows asked for are shown once all answers are in.\<close>

definition untouched :: "page \<Rightarrow> bool" where
  "untouched p \<longleftrightarrow> inflight p = [] \<and> historyCache (hist p) = None \<and> filteredData (hist p) = [] \<and>
     historyBody (hist p) \<in> {Rows [], NoRecords}"

definition all_answered :: "(date_value \<Rightarrow> string) \<Rightarrow> page \<Rightarrow> bool" where
  "all_answered loc p \<longleftrightarrow>
     (inflight p = [] \<longrightarrow> historyCache (hist p) \<noteq> None \<and> rendered loc (hist p)) \<and>
     (\<forall>r. historyCache (hist p) = Some r \<longrightarrow> good_response r)"

lemma apply_untouched:
  assumes "untouched p" "historyCache st = None" "filteredData st = []" "historyBody st = historyBody (hist p)"
  shows "untouched (settle p (applyLocalFilters loc tza st))"
  using assms by (simp add: untouched_def applyLocalFilters_def settle_def)

lemma untouched_event:
  assumes "untouched p" "enabled ev p" "\<not> asks ev"
  shows "untouched (do_event loc tza ev p)"
proof (cases ev)
  case (Elapse d)
  have "untouched (fire loc tza vs q)" if "untouched q" for vs q
    using that unfolding fire_def
    by (induction vs arbitrary: q) (auto simp: searchNow_def untouched_def applyLocalFilters_def settle_def)
  moreover have "untouched (p\<lparr>searchTimer := t\<rparr>)" for t using assms(1) by (simp add: untouched_def)
  ultimately show ?thesis using Elapse by (auto split: prod.split)
next
  case (GoToPage n)
  with assms(1) show ?thesis by (auto simp: untouched_def goToPage_def renderHistoryTable_def renderPagination_def Let_def)
next
  case (SelectRows n)
  with assms(1) show ?thesis
    by (auto simp: untouched_def changeRowsPerPage_def renderHistoryTable_def renderPagination_def Let_def)
next
  case (Reply i r)
  with assms(1,2) show ?thesis by (simp add: untouched_def)
qed (use assms in \<open>auto simp: filterByStatus_def sortTable_def pick_status_def Let_def intro!: apply_untouched,
      auto simp: untouched_def\<close>)

lemma answered_apply:
  assumes "all_answered loc p" "historyCache st = historyCache (hist p)"
  shows "all_answered loc (settle p (applyLocalFilters loc tza st))"
proof (cases "historyCache (hist p)")
  case None
  with assms show ?thesis by (simp add: all_answered_def applyLocalFilters_def settle_def)
next
  case (Some r)
  with assms have good: "good_response r" by (simp add: all_answered_def)
  then obtain d where d: "r_data r = Some d" "\<forall>it \<in> set d. known_status it" by (auto simp: good_response_def)
  have cache: "historyCache st = Some r" using Some assms(2) by simp
  show ?thesis
    unfolding apply_known [OF cache d]
    using good cache by (simp add: settle_def all_answered_def rendered_show_filtered)
qed

lemma answered_cong:
  assumes "all_answered loc p" "inflight q = inflight p" "historyCache (hist q) = historyCache (hist p)"
    "rendered loc (hist p) \<Longrightarrow> rendered loc (hist q)"
  shows "all_answered loc q"
  using assms by (auto simp: all_answered_def)

lemma answered_fire: "all_answered loc p \<Longrightarrow> all_answered loc (fire loc tza vs p)"
  unfolding fire_def by (induction vs arbitrary: p) (simp_all add: searchNow_def answered_apply)

lemma asks_opens:
  assumes "fixed_offset tza off" "good_event ev p" "asks ev"
  shows "inflight (do_event loc tza ev p) \<noteq> [] \<and>
    historyCache (hist (do_event loc tza ev p)) \<in> {None, historyCache (hist p)}"
proof (cases ev)
  case (QuickFilter btn rng now)
  obtain a b where ab: "quick_range tza now rng = (a, b)" by fastforce
  obtain s1 s2 where "quick_text tza a = Inr s1" "quick_text tza b = Inr s2"
    using quick_text_ok [OF assms(1) _ ab] assms(2) QuickFilter by fastforce
  with QuickFilter ab show ?thesis
    by (simp add: applyQuickFilter_def loadHistory_def showHistoryLoading_def settle_def)
qed (use assms(3) in \<open>auto simp: refreshHistory_def filterByDateRange_def clearDateFilter_def loadHistory_def
      showHistoryLoading_def settle_def\<close>)

lemma asked_answered:
  assumes "fixed_offset tza off" "good_event ev p" "asks ev" "all_answered loc p \<or> untouched p"
  shows "all_answered loc (do_event loc tza ev p)"
  using asks_opens [OF assms(1-3), of loc] assms(4) by (auto simp: all_answered_def untouched_def)

lemma answered_event:
  assumes "fixed_offset tza off" "\<And>u. good_response (srv u)" "all_answered loc p" "in_order srv ev p"
  shows "all_answered loc (do_event loc tza ev p)"
proof (cases "asks ev")
  case True
  then have "good_event ev p" using assms(4) by (cases ev) (simp_all add: in_order_def served_def)
  with True assms show ?thesis using asked_answered by blast
next
  case False
  note old = assms(3)
  show ?thesis
  proof (cases ev)
    case (TypeSearch v)
    show ?thesis unfolding TypeSearch by (rule answered_cong [OF old]) (auto intro: rendered_cong)
  next
    case (Elapse d)
    have "all_answered loc (p\<lparr>searchTimer := t\<rparr>)" for t by (rule answered_cong [OF old]) simp_all
    with Elapse show ?thesis by (auto simp: answered_fire split: prod.split)
  next
    case (GoToPage n)
    show ?thesis unfolding GoToPage
      by (rule answered_cong [OF old]) (simp_all add: rendered_goToPage, simp add: goToPage_def)
  next
    case (SelectRows n)
    show ?thesis unfolding SelectRows
      by (rule answered_cong [OF old]) (simp_all add: rendered_rows, simp add: changeRowsPerPage_def)
  next
    case (Reply i r)
    with assms(4) have r: "r = Inr (srv (inflight p ! i))" by (simp add: in_order_def served_def)
    then show ?thesis unfolding Reply
      using assms(2) [of "inflight p ! i"] by (simp add: historyReply_good all_answered_def rendered_show_filtered)
  qed (use False old in \<open>auto simp: filterByStatus_def sortTable_def pick_status_def Let_def intro!: answered_apply\<close>)
qed

lemma run_of_reachable: "run_of loc tza allowed evs p \<Longrightarrow> reachable loc tza allowed p"
  by (induction rule: run_of.induct) (auto intro: reachable.intros)

lemma run_of_status:
  assumes "fixed_offset tza off" "\<And>u. good_response (srv u)" "run_of loc tza (in_order srv) evs p"
  shows "if \<exists>ev \<in> set evs. asks ev then all_answered loc p else untouched p"
  using assms(3)
proof (induction rule: run_of.induct)
  case begun
  then show ?case by (simp add: untouched_def initial_page_def initial_history_def)
next
  case (went evs p ev)
  then show ?case
  proof (cases "\<exists>e \<in> set evs. asks e")
    case True
    with went answered_event [where srv = srv, OF assms(1,2)] show ?thesis by simp
  next
    case False
    have "good_event ev p" if "asks ev" using went.hyps(3) that by (cases ev) (simp_all add: in_order_def served_def)
    with False went asked_answered [OF assms(1)] untouched_event show ?thesis by auto
  qed
qed

section \<open>Properties\<close>

text \<open>
  C18. The current page always exists: on every page reachable by any handlers and replies, good or
  not, in any order, the current page is between 1 and the number of pages, unless there is no row.
\<close>

theorem current_page_exists:
  assumes "reachable loc tza (\<lambda>_ _. True) p"
  shows "1 \<le> currentPage (hist p) \<and> rowsPerPage (hist p) > 0 \<and>
    (filteredData (hist p) \<noteq> [] \<longrightarrow> currentPage (hist p) \<le> page_count (hist p) \<and> page_rows (hist p) \<noteq> [])"
  using reachable_page_ok [OF assms] page_rows_nonempty [of "hist p"] by (auto simp: page_ok_def)

theorem current_page_exists_witness:
  "currentPage (hist (do_event (\<lambda>_. []) (\<lambda>_ _. 0) (SelectRows 50) initial_page)) \<ge> 1"
proof -
  have "reachable (\<lambda>_. []) (\<lambda>_ _. 0) (\<lambda>_ _. True) (do_event (\<lambda>_. []) (\<lambda>_ _. 0) (SelectRows 50) initial_page)"
    by (intro reachable.event reachable.start) (simp_all add: page_sizes_def)
  from current_page_exists [OF this] show ?thesis by simp
qed


definition empty_response :: response where
  "empty_response = \<lparr>r_count = Some 0, r_data = Some []\<rparr>"

definition one_response :: response where
  "one_response = \<lparr>r_count = Some 1, r_data = Some [sample_item 5]\<rparr>"

lemma empty_response_good: "good_response empty_response"
  by (simp add: good_response_def empty_response_def)

lemma one_response_good: "good_response one_response"
  by (simp add: good_response_def one_response_def sample_item_def known_status_def js_or_def)


lemma quick_fetches:
  assumes "fixed_offset tza off" "current_era now" "rng \<in> {''today'', ''yesterday'', ''week'', ''month''}"
  shows "\<exists>h. applyQuickFilter tza btn rng now st = (h, Fetch (history_url (activeFilters h))) \<and>
    dateFrom (activeFilters h) \<noteq> None"
proof -
  obtain a b where ab: "quick_range tza now rng = (a, b)" by fastforce
  have a: "a \<noteq> None" using ab assms(3) by (auto simp: quick_range_def Let_def)
  obtain s1 s2 where s: "quick_text tza a = Inr s1" "quick_text tza b = Inr s2"
    using quick_text_ok [OF assms(1,2) ab] by blast
  with a show ?thesis by (simp add: applyQuickFilter_def ab loadHistory_def showHistoryLoading_def)
qed

text \<open>
  C16. Out of order they are not. On a page just opened the user presses a quick filter (today, yesterday, week or
  month) and then clears the dates; two requests are open, for the range and for everything. The answer to the second
  arrives first, the one to the first last, both good. Then no request is open, the date filters, the date inputs and
  the buttons say that there is no date filter, and what the page keeps and shows are the rows of the range that
  was given up. The zone is without clock changes, the clock in the years 1970 to 2100.
\<close>

theorem stale_reply_wins:
  assumes "fixed_offset tza off" "current_era now" "\<And>u. good_response (srv u)"
    "rng \<in> {''today'', ''yesterday'', ''week'', ''month''}"
  shows "let range = no_filters\<lparr>dateFrom := fst (quick_range tza now rng), dateTo := snd (quick_range tza now rng)\<rparr>;
      stale = srv (history_url range); fresh = srv (history_url no_filters);
      asked = fold (do_event loc tza) [QuickFilter btn rng now, ClearDates] initial_page;
      p = fold (do_event loc tza) [Reply 1 (Inr fresh), Reply 0 (Inr stale)] asked
    in dateFrom range \<noteq> None \<and> dateTo range \<noteq> None \<and>
      inflight asked = [history_url range, history_url no_filters] \<and>
      inflight p = [] \<and> activeFilters (hist p) = no_filters \<and> quickActive (hist p) = Some 0 \<and>
      datetimeFrom (hist p) = [] \<and> datetimeTo (hist p) = [] \<and>
      historyCache (hist p) = Some stale \<and> filteredData (hist p) = matching_rows loc (hist p) stale"
proof -
  obtain a b where ab: "quick_range tza now rng = (a, b)" by fastforce
  have some: "a \<noteq> None" "b \<noteq> None" using ab assms(4) by (auto simp: quick_range_def Let_def)
  obtain s1 s2 where s: "quick_text tza a = Inr s1" "quick_text tza b = Inr s2"
    using quick_text_ok [OF assms(1,2) ab] by blast
  let ?range = "no_filters\<lparr>dateFrom := a, dateTo := b\<rparr>"
  define asked where "asked = fold (do_event loc tza) [QuickFilter btn rng now, ClearDates] initial_page"
  have asked: "inflight asked = [history_url ?range, history_url no_filters]" "activeFilters (hist asked) = no_filters"
    "quickActive (hist asked) = Some 0" "datetimeFrom (hist asked) = []" "datetimeTo (hist asked) = []"
    by (simp_all add: asked_def settle_def applyQuickFilter_def ab s loadHistory_def showHistoryLoading_def
        clearDateFilter_def initial_page_def initial_history_def no_filters_def)
  have reply: "historyReply loc tza (Inr (srv u)) h =
      show_filtered loc tza (filter (row_matches loc (activeFilters h)) (the (r_data (srv u))))
        (h\<lparr>historyCache := Some (srv u), filteredData := the (r_data (srv u)), currentPage := 1\<rparr>)" for u h
    by (rule historyReply_good [OF assms(3)])
  have page: "quickActive (updateSortIndicators (updateHistoryStats tza (renderPagination (renderHistoryTable loc x)))) = quickActive x"
    "datetimeFrom (updateSortIndicators (updateHistoryStats tza (renderPagination (renderHistoryTable loc x)))) = datetimeFrom x"
    "datetimeTo (updateSortIndicators (updateHistoryStats tza (renderPagination (renderHistoryTable loc x)))) = datetimeTo x" for x
    by (simp_all add: updateSortIndicators_def updateHistoryStats_def renderPagination_def renderHistoryTable_def Let_def
        split: option.split)
  have keep: "quickActive (show_filtered loc tza data h) = quickActive h"
    "datetimeFrom (show_filtered loc tza data h) = datetimeFrom h"
    "datetimeTo (show_filtered loc tza data h) = datetimeTo h" for data h
    by (simp_all add: show_filtered_def page Let_def)
  show ?thesis
    unfolding ab fst_conv snd_conv Let_def asked_def [symmetric]
    using some asked by (simp add: reply keep drop_at_def matching_rows_def)
qed

theorem stale_reply_wins_witness:
  "\<exists>srv p. inflight p = [] \<and> activeFilters (hist p) = no_filters \<and> historyCache (hist p) = Some one_response \<and>
    srv (history_url no_filters) = empty_response \<and>
    p = fold (do_event (\<lambda>_. []) (\<lambda>_ _. 25200000)) [QuickFilter 1 ''today'' 1700000000000, ClearDates,
      Reply 1 (Inr (srv (history_url no_filters))), Reply 0 (Inr one_response)] initial_page"
proof -
  let ?srv = "\<lambda>u. if u = history_url no_filters then empty_response else one_response"
  let ?tza = "\<lambda>_ _. 25200000 :: int"
  have off: "fixed_offset ?tza 25200000" and era: "current_era 1700000000000"
    by (simp_all add: fixed_offset_def ms_per_day_def current_era_def)
  have rng: "''today'' \<in> {''today'', ''yesterday'', ''week'', ''month''}" by simp
  have good: "good_response (?srv u)" for u by (simp add: empty_response_good one_response_good)
  let ?range = "no_filters\<lparr>dateFrom := fst (quick_range ?tza 1700000000000 ''today''),
    dateTo := snd (quick_range ?tza 1700000000000 ''today'')\<rparr>"
  note wins = stale_reply_wins [where srv = ?srv and loc = "\<lambda>_. []" and btn = 1, OF off era good rng, unfolded Let_def]
  from wins have "dateFrom ?range \<noteq> None" by blast
  then have other: "?srv (history_url ?range) = one_response"
    by (auto simp: history_url_def no_filters_def)
  show ?thesis
    using wins unfolding other
    by (intro exI [of _ ?srv] exI [of _ "fold (do_event (\<lambda>_. []) ?tza) [QuickFilter 1 ''today'' 1700000000000, ClearDates,
      Reply 1 (Inr (?srv (history_url no_filters))), Reply 0 (Inr one_response)] initial_page"])
      (simp only: fold_simps simp_thms if_True)
qed



text \<open>
  An answer without rows (the server's error object) is kept as the cache: the page shows the
  load error, but the next click on a column header, status menu or search ends in an uncaught
  TypeError, until a reload succeeds.
\<close>

theorem error_object_poisons_cache:
  assumes "r_count r = None" "r_data r = None"
  shows "let p1 = do_event loc tza (Reply i (Inr r)) p; p2 = do_event loc tza (ClickHeader c) p1;
      p3 = do_event loc tza (SelectStatus pump v) p1
    in historyBody (hist p1) = LoadError TypeError \<and> thrown p1 = thrown p \<and>
      thrown p2 = TypeError # thrown p \<and> thrown p3 = TypeError # thrown p"
  using assms
  by (simp add: historyReply_def log_range_ok_def showHistoryError_def settle_def sortTable_def filterByStatus_def
      applyLocalFilters_def pick_status_def Let_def)

theorem error_object_poisons_cache_witness:
  "thrown (do_event (\<lambda>_. []) (\<lambda>_ _. 0) (ClickHeader ''alarm'')
     (do_event (\<lambda>_. []) (\<lambda>_ _. 0) (Reply 0 (Inr \<lparr>r_count = None, r_data = None\<rparr>)) initial_page)) = [TypeError]"
  using error_object_poisons_cache [of "\<lparr>r_count = None, r_data = None\<rparr>" "\<lambda>_. []" "\<lambda>_ _. 0" 0 initial_page "''alarm''"]
  by (simp add: Let_def initial_page_def)

text \<open>
  A click on a column header sorts by that column, downwards first and the other way on each
  further click, marks the header, and shows all rows of the cache that match the filters in that order.
\<close>

theorem header_click_sorts:
  assumes "historyCache st = Some r" "good_response r" "sortTable loc tza c st = (st', eff)"
  shows "eff = Quiet \<and> sortColumn st' = c \<and>
    sortDirection st' = (if sortColumn st = c then flip_dir (sortDirection st) else Desc) \<and>
    filteredData st' = matching_rows loc st' r \<and>
    sortMark st' = (if c \<in> set table_columns then Some (c, sortDirection st') else None)"
proof -
  let ?st1 = "if sortColumn st = c then st\<lparr>sortDirection := flip_dir (sortDirection st)\<rparr>
      else st\<lparr>sortColumn := c, sortDirection := Desc\<rparr>"
  obtain d where d: "r_data r = Some d" "\<forall>it \<in> set d. known_status it"
    using assms(2) by (auto simp: good_response_def)
  have cache: "historyCache ?st1 = Some r" using assms(1) by simp
  have col: "sortColumn ?st1 = c" by simp
  have dir: "sortDirection ?st1 = (if sortColumn st = c then flip_dir (sortDirection st) else Desc)" by simp
  have eq: "st' = show_filtered loc tza (filter (row_matches loc (activeFilters ?st1)) d) ?st1" "eff = Quiet"
    using assms(3) apply_known [OF cache d, of loc tza] by (simp_all add: sortTable_def)
  have mark: "sortMark (show_filtered loc tza data st2) =
      (if sortColumn st2 \<in> set table_columns then Some (sortColumn st2, sortDirection st2) else None)" for data st2
    by (simp add: show_filtered_def updateSortIndicators_def Let_def)
  show ?thesis
    unfolding eq mark using d(1) col dir by (simp only: matching_rows_def show_filtered_sel option.sel)
qed

theorem header_click_sorts_witness:
  "sortDirection (fst (sortTable (\<lambda>_. []) (\<lambda>_ _. 0) ''alarm'' (initial_history\<lparr>historyCache := Some empty_response\<rparr>))) = Desc"
proof -
  let ?st = "initial_history\<lparr>historyCache := Some empty_response\<rparr>"
  obtain st' eff where run: "sortTable (\<lambda>_. []) (\<lambda>_ _. 0) ''alarm'' ?st = (st', eff)" by fastforce
  have "historyCache ?st = Some empty_response" by simp
  from header_click_sorts [OF this empty_response_good run] show ?thesis by (simp add: run) (simp add: initial_history_def)
qed

end
