(* ===== verification/HistoryExport.thy ===== *)
theory HistoryExport
  imports HistoryView
begin

text \<open>
  \<open>exportToCSV\<close> of \<^verbatim>\<open>web/script.js\<close>: the text of the downloaded file, and a reader of quoted CSV
  (RFC 4180) as the specification of what the file must contain.
\<close>

definition csv_headers :: "string list" where
  "csv_headers = [''Timestamp'', ''P1 Command'', ''P1 Status'', ''P2 Command'', ''P2 Status'', ''Inverter'', ''Alarm'']"

definition csv_cells :: "(date_value \<Rightarrow> string) \<Rightarrow> item \<Rightarrow> string list" where
  "csv_cells loc it =
     (let p1Status = js_default (pump1_status it) 0; p2Status = js_default (pump2_status it) 0;
          b = js_default (busy it) 0; a = js_default (alarm it) 0 in
      [loc (item_date it),
       (if truthy (pump1 it) then ''ON'' else ''OFF''),
       interpolate (js_index STATUS_TEXT p1Status),
       (if truthy (pump2 it) then ''ON'' else ''OFF''),
       interpolate (js_index STATUS_TEXT p2Status),
       interpolate (js_index BUSY_TEXT b),
       (if a \<noteq> 0 then ''ACTIVE'' else ''OK'')])"

definition dquote :: char where "dquote = CHR 0x22"
definition newline :: char where "newline = CHR 0x0A"

definition csv_quote :: "string \<Rightarrow> string" where
  "csv_quote s = dquote # s @ [dquote]"

definition csv_line :: "string list \<Rightarrow> string" where
  "csv_line row = join '','' (map csv_quote row) @ [newline]"

definition csv_text :: "(date_value \<Rightarrow> string) \<Rightarrow> item list \<Rightarrow> string" where
  "csv_text loc rows = join '','' csv_headers @ [newline] @ concat (map (csv_line \<circ> csv_cells loc) rows)"

text \<open>
  What the function asks the browser to do, in order: the URL is what \<open>createObjectURL\<close> returns, \<open>now\<close>
  is \<open>Date.now()\<close>.
\<close>

datatype browser_call =
    AlertBox string
  | CreateObjectURL string string string
  | AppendLink string string
  | ClickLink string string
  | RemoveLink string string
  | RevokeObjectURL string

definition csv_name :: "int \<Rightarrow> string" where
  "csv_name now = ''pump_history_'' @ int_dec now @ ''.csv''"

definition exportToCSV :: "(date_value \<Rightarrow> string) \<Rightarrow> string \<Rightarrow> int \<Rightarrow> history \<Rightarrow> browser_call list" where
  "exportToCSV loc url now st =
     (if filteredData st = [] then [AlertBox ''No data to export'']
      else let csv = csv_text loc (filteredData st); name = csv_name now in
        [CreateObjectURL url csv ''text/csv;charset=utf-8;'', AppendLink url name, ClickLink url name,
         RemoveLink url name, RevokeObjectURL url])"

text \<open>
  The browser's side: object URLs with their texts, links in the document, files saved and alerts.
  Clicking a link that is in the document saves what its URL stands for.
\<close>

record browser =
  object_urls :: "(string \<times> string) list"
  doc_links :: "(string \<times> string) list"
  saved_files :: "(string \<times> string) list"
  alert_texts :: "string list"

fun browser_do :: "browser_call \<Rightarrow> browser \<Rightarrow> browser" where
  "browser_do (AlertBox t) b = b\<lparr>alert_texts := alert_texts b @ [t]\<rparr>"
| "browser_do (CreateObjectURL u t ty) b = b\<lparr>object_urls := (u, t) # object_urls b\<rparr>"
| "browser_do (AppendLink u n) b = b\<lparr>doc_links := (u, n) # doc_links b\<rparr>"
| "browser_do (ClickLink u n) b =
     (case map_of (object_urls b) u of
        Some t \<Rightarrow> if (u, n) \<in> set (doc_links b) then b\<lparr>saved_files := saved_files b @ [(n, t)]\<rparr> else b
      | None \<Rightarrow> b)"
| "browser_do (RemoveLink u n) b = b\<lparr>doc_links := remove1 (u, n) (doc_links b)\<rparr>"
| "browser_do (RevokeObjectURL u) b = b\<lparr>object_urls := filter (\<lambda>(v, t). v \<noteq> u) (object_urls b)\<rparr>"

section \<open>Reading quoted CSV\<close>

text \<open>After an opening quote: the cell (a doubled quote stands for one) and the rest.\<close>

fun read_quoted :: "string \<Rightarrow> (string \<times> string) option" where
  "read_quoted [] = None"
| "read_quoted (c # cs) =
     (if c \<noteq> dquote then map_option (\<lambda>(a, r). (c # a, r)) (read_quoted cs)
      else if cs \<noteq> [] \<and> hd cs = dquote then map_option (\<lambda>(a, r). (dquote # a, r)) (read_quoted (tl cs))
      else Some ([], cs))"

text \<open>One line of quoted cells; the fuel bounds the number of cells.\<close>

fun read_line :: "nat \<Rightarrow> string \<Rightarrow> (string list \<times> string) option" where
  "read_line 0 s = None"
| "read_line (Suc n) s =
     (case s of [] \<Rightarrow> None
      | q # cs \<Rightarrow>
         if q \<noteq> dquote then None
         else (case read_quoted cs of None \<Rightarrow> None
          | Some (cell, rest) \<Rightarrow>
             (case rest of [] \<Rightarrow> None
              | c # r \<Rightarrow>
                 if c = newline then Some ([cell], r)
                 else if c = CHR '','' then map_option (\<lambda>(row, r'). (cell # row, r')) (read_line n r)
                 else None)))"

fun read_lines :: "nat \<Rightarrow> string \<Rightarrow> string list list option" where
  "read_lines 0 s = (if s = [] then Some [] else None)"
| "read_lines (Suc n) s =
     (if s = [] then Some []
      else case read_line (length s) s of None \<Rightarrow> None
           | Some (row, r) \<Rightarrow> map_option ((#) row) (read_lines n r))"

text \<open>The file without its header line.\<close>

definition csv_body :: "string \<Rightarrow> string" where
  "csv_body s = drop 1 (dropWhile (\<lambda>c. c \<noteq> newline) s)"

definition read_csv :: "string \<Rightarrow> string list list option" where
  "read_csv s = read_lines (length s) (csv_body s)"

lemma read_quoted_cell:
  "dquote \<notin> set s \<Longrightarrow> rest = [] \<or> hd rest \<noteq> dquote \<Longrightarrow> read_quoted (s @ dquote # rest) = Some (s, rest)"
  by (induction s) auto

lemma read_line_cells:
  assumes "row \<noteq> []" "\<forall>c \<in> set row. dquote \<notin> set c" "length row \<le> n"
  shows "read_line n (csv_line row @ rest) = Some (row, rest)"
  using assms
proof (induction row arbitrary: n)
  case Nil
  then show ?case by simp
next
  case (Cons c row)
  then obtain m where n: "n = Suc m" by (cases n) auto
  show ?case
  proof (cases "row = []")
    case True
    with Cons n show ?thesis
      by (simp add: csv_line_def csv_quote_def newline_def)
        (subst read_quoted_cell, auto simp: newline_def dquote_def)
  next
    case False
    have line: "csv_line (c # row) @ rest = dquote # c @ dquote # CHR '','' # csv_line row @ rest"
      using False by (simp add: csv_line_def csv_quote_def join_Cons)
    have "read_quoted (c @ dquote # CHR '','' # csv_line row @ rest) = Some (c, CHR '','' # csv_line row @ rest)"
      using Cons.prems(2) by (intro read_quoted_cell) (auto simp: dquote_def)
    moreover have "read_line m (csv_line row @ rest) = Some (row, rest)"
      using Cons False n by simp
    ultimately show ?thesis by (simp add: line n newline_def)
  qed
qed

lemma length_csv_line: "length row \<le> length (csv_line row)"
proof (induction row)
  case (Cons c row)
  then show ?case by (cases "row = []") (auto simp: csv_line_def csv_quote_def join_Cons)
qed simp

lemma csv_line_not_Nil [simp]: "csv_line row \<noteq> []"
  by (simp add: csv_line_def)

lemma read_lines_rows:
  assumes "\<forall>row \<in> set rows. row \<noteq> [] \<and> (\<forall>c \<in> set row. dquote \<notin> set c)" "length rows \<le> n"
  shows "read_lines n (concat (map csv_line rows)) = Some rows"
  using assms
proof (induction rows arbitrary: n)
  case Nil
  then show ?case by (cases n) auto
next
  case (Cons row rows)
  then obtain m where n: "n = Suc m" by (cases n) auto
  let ?s = "csv_line row @ concat (map csv_line rows)"
  have "length row \<le> length ?s" using length_csv_line [of row] by simp
  then have "read_line (length ?s) ?s = Some (row, concat (map csv_line rows))"
    using Cons.prems(1) by (intro read_line_cells) auto
  with Cons n show ?case by simp
qed

lemma csv_header_line: "newline \<notin> set (join '','' csv_headers)"
  by (simp add: csv_headers_def newline_def)

lemma dropWhile_neq_append: "c \<notin> set h \<Longrightarrow> dropWhile (\<lambda>x. x \<noteq> c) (h @ c # r) = c # r"
  by (induction h) auto

lemma csv_body_text: "csv_body (csv_text loc rows) = concat (map (csv_line \<circ> csv_cells loc) rows)"
  using dropWhile_neq_append [OF csv_header_line] by (simp add: csv_body_def csv_text_def)

lemma interpolate_no_quote:
  "(\<And>x. v = Some x \<Longrightarrow> dquote \<notin> set x) \<Longrightarrow> dquote \<notin> set (interpolate v)"
  by (cases v) (auto simp: interpolate_def dquote_def)

lemma js_index_set: "js_index xs i = Some x \<Longrightarrow> x \<in> set xs"
  by (auto simp: js_index_def split: if_splits)

lemma csv_cells_no_quote:
  assumes "\<And>d. dquote \<notin> set (loc d)" "c \<in> set (csv_cells loc it)"
  shows "dquote \<notin> set c"
proof -
  have t: "x \<in> set STATUS_TEXT \<union> set BUSY_TEXT \<Longrightarrow> dquote \<notin> set x" for x
    by (auto simp: STATUS_TEXT_def BUSY_TEXT_def dquote_def)
  have "dquote \<notin> set (interpolate (js_index STATUS_TEXT i))" "dquote \<notin> set (interpolate (js_index BUSY_TEXT i))" for i
    by (rule interpolate_no_quote, drule js_index_set, simp add: t)+
  with assms show ?thesis by (auto simp: csv_cells_def Let_def dquote_def split: if_splits)
qed

lemma csv_cells_not_Nil [simp]: "csv_cells loc it \<noteq> []"
  by (simp add: csv_cells_def Let_def)

lemma length_csv_text: "length rows \<le> length (csv_text loc rows)"
proof -
  have "length rows \<le> length (concat (map (csv_line \<circ> csv_cells loc) rows))"
  proof (induction rows)
    case (Cons it rows)
    have "1 \<le> length (csv_line (csv_cells loc it))" by (simp add: csv_line_def)
    with Cons show ?case by simp
  qed simp
  then show ?thesis by (simp add: csv_text_def)
qed

lemma read_csv_text:
  assumes "\<And>d. dquote \<notin> set (loc d)"
  shows "read_csv (csv_text loc rows) = Some (map (csv_cells loc) rows)"
  using read_lines_rows [of "map (csv_cells loc) rows" "length (csv_text loc rows)"]
    csv_cells_no_quote [OF assms] length_csv_text [of rows loc]
  by (auto simp: read_csv_def csv_body_text)

section \<open>Properties\<close>

text \<open>
  C39. The export saves one file, named after the time, that can be read back: a reader of quoted CSV
  finds one line per filtered row with its seven cells, provided the host's date texts contain no double
  quote; no link and no object URL is left behind. With no row there is one alert and nothing else.
\<close>

theorem export_reads_back:
  assumes "\<And>d. dquote \<notin> set (loc d)" "url \<notin> fst ` set (object_urls b)"
  shows "let b2 = fold browser_do (exportToCSV loc url now st) b in
    (if filteredData st = [] then b2 = b\<lparr>alert_texts := alert_texts b @ [''No data to export'']\<rparr>
     else \<exists>csv. b2 = b\<lparr>saved_files := saved_files b @ [(csv_name now, csv)]\<rparr> \<and>
       read_csv csv = Some (map (csv_cells loc) (filteredData st)) \<and>
       (\<forall>row \<in> set (map (csv_cells loc) (filteredData st)). length row = length csv_headers))"
proof -
  have "filter (\<lambda>(v, t). v \<noteq> url) (object_urls b) = object_urls b"
    using assms(2) by (intro filter_True) force
  then show ?thesis
    using read_csv_text [OF assms(1)]
    by (auto simp: exportToCSV_def csv_cells_def csv_headers_def Let_def)
qed

definition blank_browser :: browser where
  "blank_browser = \<lparr>object_urls = [], doc_links = [], saved_files = [], alert_texts = []\<rparr>"

theorem export_reads_back_witness:
  "\<exists>csv. saved_files (fold browser_do (exportToCSV (\<lambda>_. ''1/2/2024, 10:00:00'') ''blob:1'' 5
        (initial_history\<lparr>filteredData := [sample_item 5]\<rparr>)) blank_browser) = [(csv_name 5, csv)] \<and>
    read_csv csv = Some [[''1/2/2024, 10:00:00'', ''ON'', ''Running'', ''OFF'', ''Stopped'', ''Idle'', ''OK'']]"
proof -
  have "dquote \<notin> set ''1/2/2024, 10:00:00''" by (simp add: dquote_def)
  moreover have "''blob:1'' \<notin> fst ` set (object_urls blank_browser)" by (simp add: blank_browser_def)
  ultimately obtain csv where csv: "fold browser_do (exportToCSV (\<lambda>_. ''1/2/2024, 10:00:00'') ''blob:1'' 5
        (initial_history\<lparr>filteredData := [sample_item 5]\<rparr>)) blank_browser =
      blank_browser\<lparr>saved_files := saved_files blank_browser @ [(csv_name 5, csv)]\<rparr>"
    "read_csv csv = Some (map (csv_cells (\<lambda>_. ''1/2/2024, 10:00:00'')) [sample_item 5])"
    using export_reads_back [of "\<lambda>_. ''1/2/2024, 10:00:00''" "''blob:1''" blank_browser 5
        "initial_history\<lparr>filteredData := [sample_item 5]\<rparr>"]
    by (auto simp: Let_def)
  have "map (csv_cells (\<lambda>_. ''1/2/2024, 10:00:00'')) [sample_item 5] =
      [[''1/2/2024, 10:00:00'', ''ON'', ''Running'', ''OFF'', ''Stopped'', ''Idle'', ''OK'']]"
    by (simp add: csv_cells_def sample_item_def STATUS_TEXT_def BUSY_TEXT_def interpolate_def
        js_index_def truthy_def js_default_def)
  with csv show ?thesis by (auto simp: blank_browser_def)
qed

end
