(* ===== verification/ClientJson.thy ===== *)
theory ClientJson
  imports HistoryData Json
begin

text \<open>
  What \<^verbatim>\<open>web/script.js\<close> makes of a response body: \<^verbatim>\<open>res.json()\<close> and the properties it then reads.
  A property that is missing, or not of the kind the code treats it as, reads as \<open>undefined\<close>.
\<close>

definition item_of_json :: "json \<Rightarrow> item" where
  "item_of_json j =
     \<lparr>timestamp = int_field ''timestamp'' j, pump1 = int_field ''pump1'' j,
      pump1_status = int_field ''pump1_status'' j, pump2 = int_field ''pump2'' j,
      pump2_status = int_field ''pump2_status'' j, busy = int_field ''busy'' j, alarm = int_field ''alarm'' j\<rparr>"

definition response_of_json :: "json \<Rightarrow> response" where
  "response_of_json j =
     \<lparr>r_count = int_field ''count'' j,
      r_data = (case json_field ''data'' j of Some (JArr xs) \<Rightarrow> Some (map item_of_json xs) | _ \<Rightarrow> None)\<rparr>"

record gateway_data =
  g_status :: js_int
  g_is_online :: js_int
  g_device_id :: "string option"
  g_firmware :: "string option"
  g_last_seen :: js_int

definition gateway_of_json :: "json \<Rightarrow> gateway_data" where
  "gateway_of_json j =
     \<lparr>g_status = int_field ''status'' j, g_is_online = int_field ''is_online'' j,
      g_device_id = string_field ''device_id'' j, g_firmware = string_field ''firmware'' j,
      g_last_seen = int_field ''last_seen'' j\<rparr>"

text \<open>A body that is not JSON rejects \<open>res.json()\<close>; reading a property of \<open>null\<close> throws.\<close>

definition read_body :: "(json \<Rightarrow> 'a) \<Rightarrow> string \<Rightarrow> js_error + 'a" where
  "read_body f body =
     (case json_parse body of None \<Rightarrow> Inl SyntaxError
      | Some j \<Rightarrow> if j = JNull then Inl TypeError else Inr (f j))"

lemma read_body_text: "plain_json j \<Longrightarrow> j \<noteq> JNull \<Longrightarrow> read_body f (json_text j) = Inr (f j)"
  using http_json.dec_enc [of j] by (simp add: read_body_def)

end
