(* ===== verification/Dashboard.thy ===== *)
theory Dashboard
  imports ClientJson HistoryView
begin

text \<open>
  The dashboard page of \<^verbatim>\<open>web/script.js\<close>: the system status and pump cards written by
  \<open>loadStatus\<close>, the gateway box written by \<open>loadGateway\<close>, and the request \<open>control\<close> sends. The
  first half of each asynchronous function is its request, the second a function of the reply.
\<close>

definition js_lookup :: "'a list \<Rightarrow> js_int \<Rightarrow> 'a option" where
  "js_lookup xs v = (case v of None \<Rightarrow> None | Some i \<Rightarrow> js_index xs i)"

text \<open>\<open>s || d\<close> on a string: the empty string and \<open>undefined\<close> give \<open>d\<close>.\<close>

definition or_text :: "string option \<Rightarrow> string \<Rightarrow> string" where
  "or_text v d = (case v of None \<Rightarrow> d | Some s \<Rightarrow> if s = [] then d else s)"

section \<open>Pump cards\<close>

record pump_card =
  pc_id :: int
  pc_class :: string
  pc_icon :: string
  pc_status :: string
  pc_cmd_icon :: string
  pc_cmd_text :: string
  pc_controls :: "(int \<times> int) list"

definition createPumpCard :: "int \<Rightarrow> js_int \<Rightarrow> js_int \<Rightarrow> pump_card" where
  "createPumpCard i cmd status =
     \<lparr>pc_id = i,
      pc_class = or_text (js_lookup [''unknown'', ''running'', ''stopped'', ''error''] status) ''unknown'',
      pc_icon = or_text (js_lookup STATUS_ICONS status) ''help'',
      pc_status = interpolate (js_lookup STATUS_TEXT status),
      pc_cmd_icon = (if truthy cmd then ''toggle_on'' else ''toggle_off''),
      pc_cmd_text = (if truthy cmd then ''ON'' else ''OFF''),
      pc_controls = [(i, 1), (i, 0)]\<rparr>"

section \<open>The dashboard\<close>

record dashboard =
  busyIcon :: string
  busyText :: string
  alarmIcon :: string
  alarmText :: string
  pumpGrid :: "pump_card list"
  lastUpdate :: string
  gatewayDot :: string
  deviceId :: string
  firmwareText :: string
  lastSeen :: string

definition status_url :: string where "status_url = API @ ''/api/pump/status''"
definition gateway_url :: string where "gateway_url = API @ ''/api/gateway/status''"
definition control_url :: string where "control_url = API @ ''/api/pump/control''"

text \<open>\<open>clock\<close> is \<open>new Date().toLocaleTimeString()\<close>; a failure is only logged.\<close>

definition loadStatus :: "string \<Rightarrow> js_error + item \<Rightarrow> dashboard \<Rightarrow> dashboard" where
  "loadStatus clock reply d =
     (case reply of Inl _ \<Rightarrow> d
      | Inr data \<Rightarrow>
         d\<lparr>busyIcon := interpolate (js_lookup BUSY_ICONS (busy data)),
           busyText := or_text (js_lookup BUSY_TEXT (busy data)) ''--'',
           alarmIcon := (if truthy (alarm data) then ''warning'' else ''check_circle''),
           alarmText := (if truthy (alarm data) then ''ACTIVE'' else ''OK''),
           pumpGrid := [createPumpCard 1 (pump1 data) (pump1_status data),
                        createPumpCard 2 (pump2 data) (pump2_status data)],
           lastUpdate := clock\<rparr>)"

definition loadGateway :: "(date_value \<Rightarrow> string) \<Rightarrow> js_error + gateway_data \<Rightarrow> dashboard \<Rightarrow> dashboard" where
  "loadGateway loc reply d =
     (case reply of Inl _ \<Rightarrow> d
      | Inr data \<Rightarrow>
         d\<lparr>gatewayDot := ''status-dot '' @ (if truthy (g_status data) then ''online'' else ''offline''),
           deviceId := or_text (g_device_id data) ''N/A'',
           firmwareText := or_text (g_firmware data) ''N/A'',
           lastSeen := (if truthy (g_last_seen data)
                        then loc (case g_last_seen data of None \<Rightarrow> None | Some t \<Rightarrow> time_clip (t * 1000))
                        else ''Never'')\<rparr>)"

section \<open>Control\<close>

text \<open>The body \<open>JSON.stringify({pump_id: pumpId, state: state})\<close>.\<close>

definition control_body :: "int \<Rightarrow> int \<Rightarrow> string" where
  "control_body pumpId state = json_text (JObj [(''pump_id'', JNum pumpId), (''state'', JNum state)])"

text \<open>After the request: a status reload in 200 ms, or an alert when \<open>fetch\<close> is rejected.\<close>

datatype control_outcome = ReloadStatusIn nat | AlertError js_error

definition control_done :: "js_error + unit \<Rightarrow> control_outcome" where
  "control_done r = (case r of Inl e \<Rightarrow> AlertError e | Inr _ \<Rightarrow> ReloadStatusIn 200)"

section \<open>Facts\<close>

lemma js_lookup_range: "js_lookup xs (Some i) = (if 0 \<le> i \<and> i < int (length xs) then Some (xs ! nat i) else None)"
  by (simp add: js_lookup_def js_index_def)

lemma control_body_read:
  "json_parse (control_body p s) = Some (JObj [(''pump_id'', JNum p), (''state'', JNum s)])"
  unfolding control_body_def by (rule http_json.dec_enc) (simp add: plain_def)

end
