(* ===== verification/Navigation.thy ===== *)
theory Navigation
  imports Prelude
begin

text \<open>
  The sidebar and page navigation of \<^verbatim>\<open>web/script.js\<close>: the classes the functions set on the
  sidebar, the overlay, the three page sections and the three navigation items, and the icon of the
  mobile menu button.
\<close>

definition page_names :: "string list" where
  "page_names = [''dashboard'', ''history'', ''settings'']"

record nav =
  collapsed :: bool
  mobileOpen :: bool
  overlayActive :: bool
  menuIcon :: string
  hiddenPages :: "string list"
  activeItems :: "nat list"
  innerWidth :: int

definition initial_nav :: "int \<Rightarrow> nav" where
  "initial_nav w =
     \<lparr>collapsed = False, mobileOpen = False, overlayActive = False, menuIcon = ''menu'',
      hiddenPages = [''history'', ''settings''], activeItems = [0], innerWidth = w\<rparr>"

definition toggleSidebar :: "nav \<Rightarrow> nav" where
  "toggleSidebar n = n\<lparr>collapsed := \<not> collapsed n\<rparr>"

definition toggleMobileMenu :: "nav \<Rightarrow> nav" where
  "toggleMobileMenu n =
     (let n1 = n\<lparr>mobileOpen := \<not> mobileOpen n, overlayActive := \<not> overlayActive n\<rparr>
      in if mobileOpen n1 then n1\<lparr>menuIcon := ''close''\<rparr> else n1\<lparr>menuIcon := ''menu''\<rparr>)"

definition closeMobileMenu :: "nav \<Rightarrow> nav" where
  "closeMobileMenu n = n\<lparr>mobileOpen := False, overlayActive := False, menuIcon := ''menu''\<rparr>"

definition onResize :: "int \<Rightarrow> nav \<Rightarrow> nav" where
  "onResize w n = (let n1 = n\<lparr>innerWidth := w\<rparr> in if w > 1024 then closeMobileMenu n1 else n1)"

text \<open>
  \<open>showPage(page)\<close> pressed on navigation item \<open>i\<close>: the new state, and whether the history is to be
  loaded; a page that does not exist ends in a \<open>TypeError\<close> with every page hidden.
\<close>

definition showPage :: "string \<Rightarrow> nat \<Rightarrow> nav \<Rightarrow> nav \<times> (js_error + bool)" where
  "showPage pg i n =
     (let n1 = n\<lparr>hiddenPages := page_names\<rparr> in
      if pg \<notin> set page_names then (n1, Inl TypeError)
      else (let n2 = n1\<lparr>hiddenPages := filter (\<lambda>p. p \<noteq> pg) page_names, activeItems := [i]\<rparr>;
                n3 = (if innerWidth n2 \<le> 1024 then closeMobileMenu n2 else n2)
            in (n3, Inr (pg = ''history''))))"

text \<open>What can happen: the items are wired to their own pages in \<^verbatim>\<open>index.html\<close>.\<close>

inductive nav_step :: "nav \<Rightarrow> nav \<Rightarrow> bool" where
  sidebar: "nav_step n (toggleSidebar n)"
| menu: "nav_step n (toggleMobileMenu n)"
| overlay: "nav_step n (closeMobileMenu n)"
| resize: "nav_step n (onResize w n)"
| nav_item: "i < length page_names \<Longrightarrow> nav_step n (fst (showPage (page_names ! i) i n))"

inductive_cases nav_stepE: "nav_step n m"

definition nav_ok :: "nav \<Rightarrow> bool" where
  "nav_ok n \<longleftrightarrow>
     overlayActive n = mobileOpen n \<and> menuIcon n = (if mobileOpen n then ''close'' else ''menu'') \<and>
     (\<exists>i < length page_names. activeItems n = [i] \<and>
        filter (\<lambda>p. p \<notin> set (hiddenPages n)) page_names = [page_names ! i])"

lemma nav_ok_initial: "nav_ok (initial_nav w)"
  by (auto simp: nav_ok_def initial_nav_def page_names_def intro!: exI [of _ 0])

lemma one_page_shown:
  assumes "i < length page_names"
  shows "filter (\<lambda>p. p \<notin> set (filter (\<lambda>p. p \<noteq> page_names ! i) page_names)) page_names = [page_names ! i]"
proof -
  have "i = 0 \<or> i = 1 \<or> i = 2" using assms by (auto simp: page_names_def)
  then show ?thesis by (auto simp: page_names_def)
qed

lemma nav_ok_step: "nav_step n m \<Longrightarrow> nav_ok n \<Longrightarrow> nav_ok m"
proof (induction rule: nav_step.induct)
  case (nav_item i n)
  then show ?case
    using one_page_shown [OF nav_item(1)]
    by (auto simp: nav_ok_def showPage_def closeMobileMenu_def Let_def intro!: exI [of _ i])
qed (auto simp: nav_ok_def toggleSidebar_def toggleMobileMenu_def closeMobileMenu_def onResize_def Let_def)

lemma nav_ok_reachable: "nav_step\<^sup>*\<^sup>* (initial_nav w) n \<Longrightarrow> nav_ok n"
  by (induction rule: rtranclp_induct) (auto intro: nav_ok_step nav_ok_initial)

section \<open>Properties\<close>

text \<open>
  However the user navigates, exactly one page is shown and its item alone is marked, the overlay
  is up exactly when the mobile menu is open, and the menu button shows the matching icon.
\<close>

theorem navigation_consistent:
  assumes "nav_step\<^sup>*\<^sup>* (initial_nav w) n"
  shows "nav_ok n"
  using assms by (rule nav_ok_reachable)

theorem navigation_consistent_witness:
  "nav_ok (fst (showPage ''settings'' 2 (toggleMobileMenu (initial_nav 800))))"
proof (rule navigation_consistent)
  have "nav_step (initial_nav 800) (toggleMobileMenu (initial_nav 800))" by (rule nav_step.menu)
  moreover have "nav_step (toggleMobileMenu (initial_nav 800)) (fst (showPage ''settings'' 2 (toggleMobileMenu (initial_nav 800))))"
    using nav_step.nav_item [of 2 "toggleMobileMenu (initial_nav 800)"] by (simp add: page_names_def numeral_2_eq_2)
  ultimately show "nav_step\<^sup>*\<^sup>* (initial_nav 800) (fst (showPage ''settings'' 2 (toggleMobileMenu (initial_nav 800))))"
    by (meson r_into_rtranclp rtranclp_trans)
qed

end
