(* ===== verification/ServerClient.thy ===== *)
theory ServerClient
  imports Threads HistoryPage HistoryExport Dashboard Navigation
begin

text \<open>
  Where \<^verbatim>\<open>web/script.js\<close> and \<^verbatim>\<open>src/http_api.c\<close> meet: the query the page sends and the query the
  server reads, the server's rows as the page decodes them, and the pages whose replies come from a
  running server.
\<close>

section \<open>The query\<close>

text \<open>The query arguments of \<open>history_url\<close>, as the HTTP library hands them over.\<close>

definition client_args :: "filters \<Rightarrow> (string \<times> string option) list" where
  "client_args fs =
     (''limit'', Some ''5000'') #
     (case dateFrom fs of None \<Rightarrow> [] | Some d \<Rightarrow> [(''from'', Some (seconds_text d))]) @
     (case dateTo fs of None \<Rightarrow> [] | Some d \<Rightarrow> [(''to'', Some (seconds_text d))])"

definition query_text :: "(string \<times> string option) list \<Rightarrow> string" where
  "query_text args = join ''&'' (map (\<lambda>(k, v). k @ (case v of None \<Rightarrow> [] | Some s \<Rightarrow> ''='' @ s)) args)"

lemma history_url_args: "history_url fs = API @ ''/api/pump/history?'' @ query_text (client_args fs)"
  by (simp add: history_url_def client_args_def query_text_def join_Cons split: option.split)

text \<open>A bound as the server reads it: 0 for none and for an invalid date.\<close>

definition date_bound :: "date_value option \<Rightarrow> c_long" where
  "date_bound v = (case v of Some (Some t) \<Rightarrow> word_of_int (clamp64 (t div 1000)) | _ \<Rightarrow> 0)"

lemma query_time_seconds: "query_time (Some (seconds_text d)) = date_bound (Some d)"
proof (cases d)
  case None
  have "parse_int ''NaN'' = None" by code_simp
  with None show ?thesis by (simp add: query_time_def seconds_text_def date_bound_def c_atoll_def)
next
  case (Some t)
  then show ?thesis by (simp add: query_time_def seconds_text_def date_bound_def c_atoll_def parse_int_int_dec)
qed

lemma limit_5000: "c_atoi ''5000'' = 5000"
  by code_simp

lemma client_selection:
  "history_selection sq (client_args fs) sv =
     select_history sq 5000 (date_bound (dateFrom fs)) (date_bound (dateTo fs)) (database sv)"
proof -
  have t: "query_time None = date_bound None" by (simp add: query_time_def date_bound_def)
  show ?thesis
    by (cases "dateFrom fs"; cases "dateTo fs")
      (simp_all add: history_selection_def client_args_def collect_params_def get_query_iterator_def
        query_limit_def limit_5000 query_time_seconds t Let_def)
qed

section \<open>The server's rows in the page\<close>

definition item_of_snapshot :: "snapshot \<Rightarrow> item" where
  "item_of_snapshot r =
     \<lparr>timestamp = Some (sint (sn_time r)), pump1 = Some (sint (sn_p1_cmd r)),
      pump1_status = Some (sint (sn_p1_st r)), pump2 = Some (sint (sn_p2_cmd r)),
      pump2_status = Some (sint (sn_p2_st r)), busy = Some (sint (sn_busy r)), alarm = Some (sint (sn_alarm r))\<rparr>"

definition response_of_rows :: "snapshot list \<Rightarrow> response" where
  "response_of_rows rows =
     \<lparr>r_count = Some (int (length rows)), r_data = Some (map item_of_snapshot rows)\<rparr>"

lemma item_of_row_json: "item_of_json (row_json r) = item_of_snapshot r"
  by (simp add: item_of_json_def row_json_def item_of_snapshot_def int_field_def json_field_def)

lemma response_of_history_json: "response_of_json (history_json rows) = response_of_rows rows"
  by (simp add: response_of_json_def history_json_def response_of_rows_def int_field_def json_field_def
      item_of_row_json)

lemma known_status_item: "snapshot_in_range r \<Longrightarrow> known_status (item_of_snapshot r)"
  by (simp add: known_status_def item_of_snapshot_def snapshot_in_range_def status_range_def js_or_def)

lemma good_rows: "list_all snapshot_in_range rows \<Longrightarrow> good_response (response_of_rows rows)"
  by (auto simp: good_response_def response_of_rows_def list_all_iff known_status_item)

text \<open>The rows of an answer.\<close>

definition answered_rows :: "sqlite \<Rightarrow> (string \<times> string option) list \<Rightarrow> server \<Rightarrow> snapshot list" where
  "answered_rows sq args sv =
     take (rows_fit 409600 0 (history_selection sq args sv)) (history_selection sq args sv)"

lemma read_history:
  assumes "orders_desc sq" "db_ready sq (database sv)"
  shows "read_body response_of_json (handle_pump_history sq args sv) = Inr (response_of_rows (answered_rows sq args sv))"
  unfolding handle_pump_history_json [OF assms] answered_rows_def
  by (subst read_body_text) (simp_all add: response_of_history_json, simp add: history_json_def)

text \<open>
  A step that fails after \<open>k\<close> rows goes unnoticed: the answer is a good response with the rows so far,
  and its count is theirs.
\<close>

lemma interrupted_query_unnoticed:
  assumes "orders_desc sq" "db_open (database sv)" "sq_ok sq (db_stmts (database sv))"
    "sq_stops sq (db_stmts (database sv)) = Some k" "rows = take k (history_selection sq args sv)"
  shows "read_body response_of_json (handle_pump_history sq args sv) =
    Inr (response_of_rows (take (rows_fit 409600 0 rows) rows))"
proof -
  have "1 \<le> sint (query_limit (collect_params args))" "sint (query_limit (collect_params args)) \<le> 5000"
    using query_limit_range by blast+
  then have "length (history_selection sq args sv) \<le> 5000"
    using select_history_spec(1) [OF assms(1), of "query_limit (collect_params args)"]
    by (simp add: history_selection_def Let_def)
  then have "write_history 409600 512000 rows = (json_text (history_json (take (rows_fit 409600 0 rows) rows)), 0)"
    by (intro write_history_json) (simp_all add: assms(5))
  then have answer: "handle_pump_history sq args sv = json_text (history_json (take (rows_fit 409600 0 rows) rows))"
    using assms(2-5)
    by (simp add: handle_pump_history_def db_get_history_filtered_def stepped_rows_def Let_def history_selection_def)
  show ?thesis
    unfolding answer by (subst read_body_text) (simp_all add: response_of_history_json, simp add: history_json_def)
qed

lemma history_selection_rows:
  assumes "orders_desc sq"
  shows "set (history_selection sq args sv) \<subseteq> set (pump_snapshots (database sv))"
  using select_history_spec(3) [OF assms, of "query_limit (collect_params args)"] query_limit_range [of "collect_params args"]
  by (fastforce simp: history_selection_def Let_def)

lemma answered_good:
  assumes "orders_desc sq" "log_in_range sv"
  shows "good_response (response_of_rows (answered_rows sq args sv))"
proof (rule good_rows)
  have "set (answered_rows sq args sv) \<subseteq> set (pump_snapshots (database sv))"
    using history_selection_rows [OF assms(1), of args sv] unfolding answered_rows_def
    by (meson order_trans set_take_subset)
  with assms(2) show "list_all snapshot_in_range (answered_rows sq args sv)"
    by (auto simp: log_in_range_def list_all_iff)
qed

lemma sys_log_in_range:
  assumes "sys_reachable sq jc d s" "list_all snapshot_in_range (pump_snapshots d)"
  shows "log_in_range (sys_server s)"
  by (rule sys_invariant [OF assms(1) closed_log_range]) (simp add: log_in_range_def initial_facts assms(2))

lemma sys_ready: "sys_reachable sq jc d s \<Longrightarrow> db_ready sq d \<Longrightarrow> db_ready sq (database (sys_server s))"
  using sys_invariant [OF _ closed_ready] by (simp add: initial_facts)

section \<open>Pages served by a running server\<close>

text \<open>Every reply is a failure of the connection or the answer of some reachable server.\<close>

definition from_server :: "sqlite \<Rightarrow> jsonc \<Rightarrow> database \<Rightarrow> event \<Rightarrow> page \<Rightarrow> bool" where
  "from_server sq jc d ev p \<longleftrightarrow>
     (case ev of
        Reply i (Inr x) \<Rightarrow>
          (\<exists>s args. sys_reachable sq jc d s \<and>
            read_body response_of_json (handle_pump_history sq args (sys_server s)) = Inr x)
      | _ \<Rightarrow> good_event ev p)"

lemma from_server_good:
  assumes "orders_desc sq" "db_ready sq d" "list_all snapshot_in_range (pump_snapshots d)" "from_server sq jc d ev p"
  shows "good_event ev p"
proof (cases "\<exists>i x. ev = Reply i (Inr x)")
  case True
  then obtain i x where ev: "ev = Reply i (Inr x)" by blast
  with assms(4) obtain s args where s: "sys_reachable sq jc d s"
    and x: "read_body response_of_json (handle_pump_history sq args (sys_server s)) = Inr x"
    by (auto simp: from_server_def)
  have "x = response_of_rows (answered_rows sq args (sys_server s))"
    using x read_history [OF assms(1) sys_ready [OF s assms(2)]] by simp
  with answered_good [OF assms(1) sys_log_in_range [OF s assms(3)]] ev show ?thesis by simp
qed (use assms(4) in \<open>auto simp: from_server_def split: event.splits sum.splits\<close>)

section \<open>The dashboard\<close>

lemma read_status:
  "read_body item_of_json (handle_pump_status sv) = Inr (item_of_snapshot (snapshot_of (current_pump_status sv)))"
  using read_body_text [of "row_json (snapshot_of (current_pump_status sv))" item_of_json]
  by (simp add: handle_pump_status_json item_of_row_json) (simp add: row_json_def)

lemma control_body_flat: "flat_members [(''pump_id'', JNum p), (''state'', JNum st)] \<longleftrightarrow>
    - (2 ^ 63) \<le> p \<and> p < 2 ^ 63 \<and> - (2 ^ 63) \<le> st \<and> st < 2 ^ 63"
  by (simp add: flat_members_def plain_def conj_assoc)

end
