(* ===== verification/TornReads.thy ===== *)
theory TornReads
  imports Threads
begin

text \<open>
  What a row of the history says when the threads overlap. \<^verbatim>\<open>update_pump_status\<close> and
  \<^verbatim>\<open>update_pump_feedback\<close> pass the fields of \<^verbatim>\<open>current_pump_status\<close> to the database after the lock is
  given up: every value of a stored row was current at some moment, but the values of one row need
  not have been current together.
\<close>

section \<open>A run and the states it went through\<close>

abbreviation now_current :: "machine \<Rightarrow> pump_status" where
  "now_current m \<equiv> current_pump_status (shared m)"

inductive watched :: "sqlite \<Rightarrow> jsonc \<Rightarrow> database \<Rightarrow> machine \<Rightarrow> pump_status list \<Rightarrow> bool" for sq jc d where
  started: "watched sq jc d (boot_machine d) [zero_status]"
| moved: "watched sq jc d m H \<Longrightarrow> thread_step sq jc m m' \<Longrightarrow> watched sq jc d m' (now_current m' # H)"

abbreviation stored :: "server \<Rightarrow> snapshot list" where
  "stored sv \<equiv> pump_snapshots (database sv)"

text \<open>The column number \<open>k\<close> of a row holds the value it has in a state.\<close>

definition column_of :: "nat \<Rightarrow> snapshot \<Rightarrow> pump_status \<Rightarrow> bool" where
  "column_of k r p \<longleftrightarrow>
     (if k = 0 then sn_p1_cmd r = ps_pump1 p else if k = 1 then sn_p1_st r = ps_status1 p
      else if k = 2 then sn_p2_cmd r = ps_pump2 p else if k = 3 then sn_p2_st r = ps_status2 p
      else if k = 4 then sn_busy r = ps_busy p else if k = 5 then sn_alarm r = ps_alarm p
      else sn_time r = ps_time p)"

definition column_seen :: "pump_status list \<Rightarrow> snapshot \<Rightarrow> nat \<Rightarrow> bool" where
  "column_seen H r k \<longleftrightarrow> (\<exists>p \<in> set H. column_of k r p)"

fun fields_seen :: "pump_status list \<Rightarrow> instr \<Rightarrow> bool" where
  "fields_seen H (ReadField k acc p) = (\<forall>j < k. column_seen H (snapshot_of acc) j)"
| "fields_seen H _ = True"

definition rows_seen :: "pump_status list \<Rightarrow> snapshot list \<Rightarrow> bool" where
  "rows_seen H rows \<longleftrightarrow> (\<forall>r \<in> set rows. \<forall>k. column_seen H r k)"

definition run_ok :: "database \<Rightarrow> machine \<Rightarrow> pump_status list \<Rightarrow> bool" where
  "run_ok d m H \<longleftrightarrow> now_current m \<in> set H \<and> (\<forall>t. list_all (fields_seen H) (thread_code m t)) \<and>
     (\<exists>rows. stored (shared m) = pump_snapshots d @ rows \<and> rows_seen H rows)"

lemma column_copied:
  "column_of k (snapshot_of (copy_field k p acc)) p"
  "j < k \<Longrightarrow> j < 7 \<Longrightarrow> k < 7 \<Longrightarrow> column_of j (snapshot_of (copy_field k p acc)) q = column_of j (snapshot_of acc) q"
  by (auto simp: column_of_def copy_field_def snapshot_of_def)

lemma column_late: "6 \<le> k \<Longrightarrow> column_seen H r k = column_seen H r 6"
  by (simp add: column_seen_def column_of_def)

lemma all_columns: "\<forall>j < k. column_seen H r j \<Longrightarrow> \<not> k < 7 \<Longrightarrow> column_seen H r i"
  by (cases "i < 7") (simp_all add: column_late [of i])

lemma seen_mono: "set H \<subseteq> set H' \<Longrightarrow> column_seen H r k \<Longrightarrow> column_seen H' r k"
  by (auto simp: column_seen_def)

lemma fields_mono: "set H \<subseteq> set H' \<Longrightarrow> fields_seen H ins \<Longrightarrow> fields_seen H' ins"
  by (cases ins) (auto intro: seen_mono)

lemma programs_mono: "set H \<subseteq> set H' \<Longrightarrow> list_all (fields_seen H) prog \<Longrightarrow> list_all (fields_seen H') prog"
  by (auto simp: list_all_iff intro: fields_mono)

lemma fields_next:
  assumes "fields_seen H (ReadField k acc p)" "cur \<in> set H" "k < 7"
  shows "fields_seen H (ReadField (Suc k) (copy_field k cur acc) p)"
proof -
  have "column_seen H (snapshot_of (copy_field k cur acc)) k"
    using assms(2) column_copied(1) unfolding column_seen_def by blast
  moreover have "column_seen H (snapshot_of (copy_field k cur acc)) j" if "j < k" for j
    using that assms(1,3) by (simp add: column_seen_def column_copied(2))
  ultimately show ?thesis by (auto simp: less_Suc_eq)
qed

lemma exec_next_seen:
  "exec sq now ins sv = (sv1, nxt) \<Longrightarrow> fields_seen H ins \<Longrightarrow> current_pump_status sv \<in> set H \<Longrightarrow>
    list_all (fields_seen H) nxt"
proof (cases ins)
  case (ReadField k acc p)
  moreover assume "exec sq now ins sv = (sv1, nxt)" "fields_seen H ins" "current_pump_status sv \<in> set H"
  ultimately show ?thesis using fields_next [of H k acc p "current_pump_status sv"] by (auto split: if_splits purpose.splits)
qed (auto simp: Let_def split: prod.splits if_splits)

lemma exec_stores:
  "exec sq now ins sv = (sv1, nxt) \<Longrightarrow> fields_seen H ins \<Longrightarrow>
    \<exists>rows. stored sv1 = stored sv @ rows \<and> rows_seen H rows"
proof (cases ins)
  case (ReadField k acc p)
  moreover assume "exec sq now ins sv = (sv1, nxt)" "fields_seen H ins"
  ultimately show ?thesis
    by (auto simp: rows_seen_def insert_rows split: if_splits purpose.splits
        elim: all_columns)
qed (auto simp: rows_seen_def Let_def command_enter_def feedback_enter_def system_enter_def heartbeat_enter_def
      add_pump_history_def insert_rows heartbeat_record_def command_commit_def feedback_commit_def
      system_commit_def heartbeat_commit_def)

lemma programs_seen:
  "list_all (fields_seen H) (message_program jc topic data)" "list_all (fields_seen H) (http_feedback_program jc body)"
  "list_all (fields_seen H) look_program"
  by (auto simp: look_program_def message_program_def http_feedback_program_def heartbeat_message_program_def
      control_message_program_def feedback_message_program_def Let_def split: option.split)

lemma rows_seen_append: "rows_seen H (xs @ ys) \<longleftrightarrow> rows_seen H xs \<and> rows_seen H ys"
  by (auto simp: rows_seen_def)

lemma rows_mono: "set H \<subseteq> set H' \<Longrightarrow> rows_seen H rows \<Longrightarrow> rows_seen H' rows"
  by (auto simp: rows_seen_def intro: seen_mono)

lemma run_ok_moved:
  assumes "run_ok d m H" "now_current m' = p" "\<And>t. list_all (fields_seen H) (thread_code m' t)"
    and "stored (shared m') = stored (shared m) @ new" "rows_seen H new"
  shows "run_ok d m' (p # H)"
proof -
  have sub: "set H \<subseteq> set (p # H)" by auto
  from assms(1) obtain old where old: "stored (shared m) = pump_snapshots d @ old" "rows_seen H old"
    by (auto simp: run_ok_def)
  then have "stored (shared m') = pump_snapshots d @ (old @ new)" "rows_seen (p # H) (old @ new)"
    using assms(4,5) rows_mono [OF sub, of "old @ new"] by (simp_all add: rows_seen_append)
  then show ?thesis using assms(2,3) programs_mono [OF sub] unfolding run_ok_def by auto
qed

lemma watched_run_ok: "watched sq jc d m H \<Longrightarrow> run_ok d m H"
proof (induction rule: watched.induct)
  case started
  then show ?case by (auto simp: run_ok_def boot_machine_def initial_server_def rows_seen_def)
next
  case (moved m H m')
  note ok = moved.IH
  have codes: "list_all (fields_seen H) (thread_code m t)" for t using ok by (simp add: run_ok_def)
  from moved.hyps(2) show ?case
  proof cases
    case arrive
    then have "\<And>t. list_all (fields_seen H) (thread_code m' t)" "stored (shared m') = stored (shared m)"
      using codes by (cases rule: arrives.cases; auto simp: programs_seen)+
    then show ?thesis using run_ok_moved [OF ok refl, of m' "[]"] by (simp add: rows_seen_def)
  next
    case (progress t)
    then show ?thesis
    proof cases
      case (run ins rest now sv nxt)
      have ins: "fields_seen H ins" "list_all (fields_seen H) rest" using codes [of t] run(2) by simp_all
      have nxt: "list_all (fields_seen H) nxt"
        using exec_next_seen [OF run(4) ins(1)] ok by (simp add: run_ok_def)
      from exec_stores [OF run(4) ins(1)] obtain new where "stored sv = stored (shared m) @ new" "rows_seen H new" by blast
      then show ?thesis using run_ok_moved [OF ok refl, of m' new] run(1) ins(2) nxt codes by simp
    qed
  qed
qed

section \<open>Steps that keep the current state\<close>

fun quiet :: "instr \<Rightarrow> bool" where
  "quiet (EnterCommand _ _) = False"
| "quiet (EnterFeedback _ _) = False"
| "quiet (ReadSystem _ _) = False"
| "quiet (EnterSystem _ _) = False"
| "quiet _ = True"

lemma exec_quiet:
  "quiet ins \<Longrightarrow> exec sq now ins sv = (sv1, nxt) \<Longrightarrow> current_pump_status sv1 = current_pump_status sv \<and> list_all quiet nxt"
  by (cases ins) (auto simp: Let_def add_pump_history_def heartbeat_enter_def heartbeat_record_def
      command_commit_def feedback_commit_def system_commit_def heartbeat_commit_def split: if_splits purpose.splits)

lemma watched_current: "watched sq jc d m H \<Longrightarrow> now_current m \<in> set H"
  using watched_run_ok by (auto simp: run_ok_def)

lemma watched_run: "watched sq jc d m H \<Longrightarrow> runs sq t m m' \<Longrightarrow> watched sq jc d m' (now_current m' # H)"
  by (blast intro: watched.moved thread_step.progress)

lemma watched_quiet:
  "(runs sq t)\<^sup>*\<^sup>* m m' \<Longrightarrow> list_all quiet (thread_code m t) \<Longrightarrow> watched sq jc d m H \<Longrightarrow>
    \<exists>H'. watched sq jc d m' H' \<and> set H' = set H"
proof (induction arbitrary: H rule: converse_rtranclp_induct)
  case (step m m1)
  from step.hyps(1) show ?case
  proof cases
    case (run ins rest now sv nxt)
    have quiet: "now_current m1 = now_current m" "list_all quiet (thread_code m1 t)"
      using exec_quiet [OF _ run(4)] step.prems(1) run by auto
    have "watched sq jc d m1 (now_current m # H)" using watched_run [OF step.prems(2) step.hyps(1)] quiet(1) by simp
    from step.IH [OF quiet(2) this] show ?thesis
      using watched_current [OF step.prems(2)] by (auto simp: insert_absorb)
  qed
qed auto

text \<open>A feedback request that runs while the subscriber's thread waits.\<close>

lemma feedback_tail:
  "exec sq now (EnterFeedback i f) sv = (sv1, nxt) \<Longrightarrow>
    list_all quiet nxt \<and> complete sq sv1 nxt (update_pump_feedback sq now i f sv) \<and> balanced True nxt \<and>
    current_pump_status sv1 = current_pump_status (update_pump_feedback sq now i f sv)"
  by (auto simp: update_pump_feedback_def Let_def complete_steps feedback_record_def feedback_commit_def
      insert_current_snapshot_def split: prod.splits if_splits)

lemma watched_request:
  assumes "watched sq jc d m H" "http_thread m = []" "lock_holder m = None" "json_c jc" "i \<in> {1, 2}" "s \<in> {0..3}"
    and "sv' = update_pump_feedback sq now (word_of_int i) (word_of_int s) (shared m)"
  shows "\<exists>H'. watched sq jc d (m\<lparr>shared := sv'\<rparr>) H' \<and> set H' = insert (current_pump_status sv') (set H)"
proof -
  let ?ins = "EnterFeedback (word_of_int i) (word_of_int s)"
  let ?m1 = "set_code Http_thread [Lock, ?ins] m"
  let ?m2 = "set_code Http_thread [?ins] (?m1\<lparr>lock_holder := Some Http_thread\<rparr>)"
  obtain sv1 nxt where ex: "exec sq now ?ins (shared m) = (sv1, nxt)" by fastforce
  let ?m3 = "set_code Http_thread nxt (?m1\<lparr>shared := sv1, lock_holder := Some Http_thread\<rparr>)"
  let ?m4 = "set_code Http_thread [] (?m3\<lparr>shared := sv', lock_holder := None\<rparr>)"
  note tail = feedback_tail [OF ex]
  have "thread_step sq jc m ?m1"
    using arrives.request [OF assms(2), of jc "feedback_text i s"] feedback_programs(1) [OF assms(4-6)]
    by (intro thread_step.arrive) simp
  with assms(1) have w1: "watched sq jc d ?m1 (now_current m # H)" using watched.moved by fastforce
  have "runs sq Http_thread ?m1 ?m2"
    using runs.run [of ?m1 Http_thread Lock "[?ins]" sq now "shared m" "[]"] assms(3) by simp
  from watched_run [OF w1 this] have w2: "watched sq jc d ?m2 (now_current m # now_current m # H)" by simp
  have "runs sq Http_thread ?m2 ?m3"
    using runs.run [of ?m2 Http_thread ?ins "[]" sq now sv1 nxt] ex by simp
  from watched_run [OF w2 this] have w3: "watched sq jc d ?m3 (current_pump_status sv1 # now_current m # now_current m # H)"
    by simp
  have "(runs sq Http_thread)\<^sup>*\<^sup>* ?m3 ?m4"
    by (rule complete_runs [of sq sv1 nxt]) (use tail assms(7) in simp_all)
  from watched_quiet [OF this _ w3] tail obtain H' where H': "watched sq jc d ?m4 H'"
      "set H' = set (current_pump_status sv1 # now_current m # now_current m # H)" by auto
  have "thread_code m = (thread_code m)(Http_thread := [])" using assms(2) by (simp add: fun_upd_idem)
  then have "?m4 = m\<lparr>shared := sv'\<rparr>" using assms(3) by simp
  with H' show ?thesis
    using watched_current [OF assms(1)] tail assms(7) by (intro exI [of _ H']) (auto simp: insert_absorb)
qed

text \<open>
  The subscriber's thread after the message that pump 1 runs, when it has read the first two fields
  of its row: the row's state of pump 1 is running, nothing else has happened.
\<close>

definition running_state :: pump_status where
  "running_state = zero_status\<lparr>ps_status1 := 1, ps_time := 5\<rparr>"

definition half_read :: "instr list" where
  "half_read = [ReadField 2 (zero_status\<lparr>ps_status1 := 1\<rparr>) For_table, Lock, CommitFeedback 1 1, Unlock]"

lemma half_way:
  assumes "json_c jc" "db_ready sq d"
  shows "\<exists>m H. watched sq jc d m H \<and> set H = {zero_status, running_state} \<and> now_current m = running_state \<and>
    subscriber m = half_read \<and> http_thread m = [] \<and> lock_holder m = None \<and> db_ready sq (database (shared m))"
proof -
  let ?m0 = "boot_machine d"
  let ?m1 = "set_code Sub_thread [Lock, EnterFeedback 1 1] ?m0"
  let ?m2 = "set_code Sub_thread [EnterFeedback 1 1] (?m1\<lparr>lock_holder := Some Sub_thread\<rparr>)"
  let ?sv3 = "fst (feedback_enter 5 1 1 (initial_server d))"
  let ?commit = "[Lock, CommitFeedback 1 1, Unlock]"
  let ?m3 = "set_code Sub_thread (Unlock # InsertFeedback 1 1 # InsertSnapshot # ?commit) (?m2\<lparr>shared := ?sv3\<rparr>)"
  let ?m4 = "set_code Sub_thread (InsertFeedback 1 1 # InsertSnapshot # ?commit) (?m3\<lparr>lock_holder := None\<rparr>)"
  let ?sv5 = "fst (exec sq 0 (InsertFeedback 1 1) ?sv3)"
  let ?m5 = "set_code Sub_thread (InsertSnapshot # ?commit) (?m3\<lparr>shared := ?sv5, lock_holder := None\<rparr>)"
  let ?read = "\<lambda>k acc. set_code Sub_thread (ReadField k acc For_table # ?commit) ?m5"
  have valid: "valid_status 1 = 1" by (simp add: valid_status_def)
  have cur: "current_pump_status ?sv3 = running_state" "current_pump_status ?sv5 = running_state"
    by (simp_all add: feedback_enter_def set_status_def initial_server_def zero_status_def running_state_def)
  have "thread_step sq jc ?m0 ?m1"
    using arrives.message [of ?m0 jc "''pump/feedback''" "feedback_text 1 1"] feedback_programs(2) [OF assms(1), of 1 1]
    by (intro thread_step.arrive) (simp add: boot_machine_def)
  then have w1: "watched sq jc d ?m1 [zero_status, zero_status]"
    using watched.moved [OF watched.started] by (fastforce simp: boot_machine_def initial_server_def)
  have "runs sq Sub_thread ?m1 ?m2"
    using runs.run [of ?m1 Sub_thread Lock "[EnterFeedback 1 1]" sq 0 "shared ?m1" "[]"] by (simp add: boot_machine_def)
  from watched_run [OF w1 this] have w2: "watched sq jc d ?m2 [zero_status, zero_status, zero_status]"
    by (simp add: boot_machine_def initial_server_def)
  have "runs sq Sub_thread ?m2 ?m3"
    using runs.run [of ?m2 Sub_thread "EnterFeedback 1 1" "[]" sq 5 ?sv3 "Unlock # InsertFeedback 1 1 # InsertSnapshot # ?commit"]
    by (simp add: boot_machine_def valid feedback_enter_def initial_server_def zero_status_def)
  from watched_run [OF w2 this] have w3: "watched sq jc d ?m3 [running_state, zero_status, zero_status, zero_status]"
    using cur(1) by simp
  have "runs sq Sub_thread ?m3 ?m4"
    using runs.run [of ?m3 Sub_thread Unlock "InsertFeedback 1 1 # InsertSnapshot # ?commit" sq 0 "shared ?m3" "[]"] by simp
  moreover have "runs sq Sub_thread ?m4 ?m5"
    using runs.run [of ?m4 Sub_thread "InsertFeedback 1 1" "InsertSnapshot # ?commit" sq 0 ?sv5 "[]"] by simp
  moreover have "runs sq Sub_thread ?m5 (?read 0 zero_status)"
    using runs.run [of ?m5 Sub_thread InsertSnapshot ?commit sq 0 ?sv5 "[ReadField 0 zero_status For_table]"] by simp
  moreover have "runs sq Sub_thread (?read 0 zero_status) (?read 1 zero_status)"
    using runs.run [of "?read 0 zero_status" Sub_thread "ReadField 0 zero_status For_table" ?commit sq 0 ?sv5
        "[ReadField 1 zero_status For_table]"] cur(2)
    by (simp add: copy_field_def running_state_def zero_status_def)
  moreover have "runs sq Sub_thread (?read 1 zero_status) (?read 2 (zero_status\<lparr>ps_status1 := 1\<rparr>))"
    using runs.run [of "?read 1 zero_status" Sub_thread "ReadField 1 zero_status For_table" ?commit sq 0 ?sv5
        "[ReadField 2 (zero_status\<lparr>ps_status1 := 1\<rparr>) For_table]"] cur(2)
    by (simp add: copy_field_def running_state_def zero_status_def numeral_eq_Suc)
  ultimately have "(runs sq Sub_thread)\<^sup>*\<^sup>* ?m3 (?read 2 (zero_status\<lparr>ps_status1 := 1\<rparr>))"
    by (meson converse_rtranclp_into_rtranclp rtranclp.rtrancl_refl)
  from watched_quiet [OF this _ w3] obtain H where
    "watched sq jc d (?read 2 (zero_status\<lparr>ps_status1 := 1\<rparr>)) H" "set H = {zero_status, running_state}" by auto
  moreover have "db_ready sq (database ?sv5)"
    using assms(2) by (simp add: feedback_enter_def initial_server_def insert_ready)
  ultimately show ?thesis
    using cur by (intro exI [of _ "?read 2 (zero_status\<lparr>ps_status1 := 1\<rparr>)"] exI [of _ H])
      (auto simp: half_read_def boot_machine_def)
qed

text \<open>The run of the second property below.\<close>

lemma torn_run:
  assumes "json_c jc" "db_ready sq d"
  shows "\<exists>m H rows r. watched sq jc d m H \<and> subscriber m = [] \<and> http_thread m = [] \<and>
    pump_snapshots (database (shared m)) = pump_snapshots d @ rows \<and> r \<in> set rows \<and>
    sn_p1_st r = 1 \<and> sn_p2_st r = 1 \<and> (\<forall>p \<in> set H. \<not> (ps_status1 p = 1 \<and> ps_status2 p = 1))"
proof -
  obtain m H where m: "watched sq jc d m H" "set H = {zero_status, running_state}" "now_current m = running_state"
      "subscriber m = half_read" "http_thread m = []" "lock_holder m = None" "db_ready sq (database (shared m))"
    using half_way [OF assms] by blast
  let ?sv1 = "update_pump_feedback sq 5 1 2 (shared m)"
  let ?sv2 = "update_pump_feedback sq 5 2 1 ?sv1"
  let ?row = "\<lparr>sn_p1_cmd = 0, sn_p1_st = 1, sn_p2_cmd = 0, sn_p2_st = 1, sn_busy = 0, sn_alarm = 0, sn_time = 5\<rparr>"
  let ?sv3 = "feedback_commit 1 1 (?sv2\<lparr>database := fst (db_insert_snapshot sq ?row (database ?sv2))\<rparr>)"
  have valid: "valid_status 1 = 1" "valid_status 2 = 2" by (simp_all add: valid_status_def)
  have cur: "current_pump_status ?sv1 = zero_status\<lparr>ps_status1 := 2, ps_time := 5\<rparr>"
      "current_pump_status ?sv2 = zero_status\<lparr>ps_status1 := 2, ps_status2 := 1, ps_time := 5\<rparr>"
    using m(3) by (simp_all add: update_current valid set_status_def running_state_def zero_status_def)
  obtain H1 where H1: "watched sq jc d (m\<lparr>shared := ?sv1\<rparr>) H1" "set H1 = insert (current_pump_status ?sv1) (set H)"
    using watched_request [OF m(1,5,6) assms(1) _ _ refl, of 1 2 5] by auto
  obtain H2 where H2: "watched sq jc d (m\<lparr>shared := ?sv2\<rparr>) H2" "set H2 = insert (current_pump_status ?sv2) (set H1)"
    using watched_request [OF H1(1) _ _ assms(1) _ _ refl, of 2 1 5] m(5,6) by auto
  let ?m2 = "m\<lparr>shared := ?sv2\<rparr>"
  let ?m3 = "set_code Sub_thread [] (?m2\<lparr>shared := ?sv3, lock_holder := None\<rparr>)"
  have "complete sq ?sv2 half_read ?sv3"
    by (simp add: half_read_def complete_Cons_iff copy_field_def cur snapshot_of_def zero_status_def)
  then have "(runs sq Sub_thread)\<^sup>*\<^sup>* ?m2 ?m3"
    by (rule complete_runs) (use m(4,6) in \<open>simp_all add: half_read_def\<close>)
  from watched_quiet [OF this _ H2(1)] m(4) obtain H3 where H3: "watched sq jc d ?m3 H3" "set H3 = set H2"
    by (auto simp: half_read_def)
  obtain rows where "pump_snapshots (database ?sv2) = pump_snapshots d @ rows"
    using watched_run_ok [OF H2(1)] by (auto simp: run_ok_def)
  moreover have "db_ready sq (database ?sv2)" using m(7) by (simp add: update_ready)
  ultimately have "pump_snapshots (database ?sv3) = pump_snapshots d @ (rows @ [?row])"
    by (simp add: feedback_commit_def insert_ready)
  moreover have "\<forall>p \<in> set H3. \<not> (ps_status1 p = 1 \<and> ps_status2 p = 1)"
    using H1(2) H2(2) H3(2) m(2) cur by (simp add: running_state_def zero_status_def)
  ultimately show ?thesis
    using H3(1) m(5) by (intro exI [of _ ?m3] exI [of _ H3]
        exI [of _ "rows @ [?row]"] exI [of _ ?row]) simp
qed

lemma fresh_ready: "db_ready sqlite_model fresh_database" "pump_snapshots fresh_database = []"
  by (simp_all add: db_ready_def sqlite_model_def fresh_database_def db_init_def)

section \<open>Properties\<close>

text \<open>
  C8. No value in the history is invented: whatever the threads do, each column of each row stored
  since the start holds a value that the state had in that field at some moment of the run.
\<close>

theorem stored_values_were_current:
  assumes "watched sq jc d m H"
  shows "\<exists>rows. pump_snapshots (database (shared m)) = pump_snapshots d @ rows \<and>
    (\<forall>r \<in> set rows. \<forall>k. \<exists>p \<in> set H. column_of k r p)"
  using watched_run_ok [OF assms] by (simp add: run_ok_def rows_seen_def column_seen_def)

theorem stored_values_were_current_witness:
  "\<exists>m H. watched sqlite_model jsonc_model fresh_database m H \<and>
    (\<exists>r \<in> set (pump_snapshots (database (shared m))). sn_p2_st r = 1 \<and> (\<exists>p \<in> set H. ps_status2 p = 1))"
proof -
  obtain m H rows r where run: "watched sqlite_model jsonc_model fresh_database m H"
      "pump_snapshots (database (shared m)) = rows" "r \<in> set rows" "sn_p2_st r = 1"
    using torn_run [OF jsonc_model.json_c_axioms fresh_ready(1)] by (auto simp: fresh_database_def db_init_def)
  then obtain p where "p \<in> set H" "column_of 3 r p"
    using stored_values_were_current [OF run(1)] by (auto simp: fresh_database_def db_init_def)
  with run show ?thesis by (intro exI [of _ m] exI [of _ H] conjI bexI [of _ r] bexI [of _ p]) (auto simp: column_of_def)
qed

text \<open>
  C9. A row of the history need not be a state: the fields are read without the lock, so a row can
  report both pumps running although in no state of the run both were. The subscriber's thread has
  read that pump 1 runs; then a request reports that pump 1 has stopped and another one that pump 2
  runs; then the thread reads the rest.
\<close>

theorem torn_snapshot:
  assumes "json_c jc" "db_ready sq d"
  shows "\<exists>m H rows r. watched sq jc d m H \<and> subscriber m = [] \<and> http_thread m = [] \<and>
    pump_snapshots (database (shared m)) = pump_snapshots d @ rows \<and> r \<in> set rows \<and>
    sn_p1_st r = 1 \<and> sn_p2_st r = 1 \<and> (\<forall>p \<in> set H. \<not> (ps_status1 p = 1 \<and> ps_status2 p = 1))"
  using assms by (rule torn_run)

theorem torn_snapshot_witness:
  "\<exists>m H. watched sqlite_model jsonc_model fresh_database m H \<and>
    (\<exists>r \<in> set (pump_snapshots (database (shared m))). \<forall>p \<in> set H. \<not> (ps_status1 p = sn_p1_st r \<and> ps_status2 p = sn_p2_st r))"
proof -
  from torn_snapshot [OF jsonc_model.json_c_axioms fresh_ready(1)] obtain m H rows r where
    "watched sqlite_model jsonc_model fresh_database m H"
    "pump_snapshots (database (shared m)) = pump_snapshots fresh_database @ rows" "r \<in> set rows"
    "sn_p1_st r = 1" "sn_p2_st r = 1" "\<forall>p \<in> set H. \<not> (ps_status1 p = 1 \<and> ps_status2 p = 1)"
    by blast
  then show ?thesis by (intro exI [of _ m] exI [of _ H] conjI bexI [of _ r]) auto
qed

end
