(* ===== verification/Undisturbed.thy ===== *)
theory Undisturbed
  imports Threads
begin

text \<open>
  What a report or a command does to the globals and to the database when no other thread runs in
  between, written out: the new state, the rows added to each table, the ring of recent states and the
  change detector. The steps are those of \<^verbatim>\<open>Threads\<close>, with the mutex.
\<close>

section \<open>The records, written out\<close>

text \<open>
  The report that pump \<open>i\<close> is in state \<open>s\<close>, taken at time \<open>now\<close>: the state shows it; a report that
  changes the state adds one row to \<^verbatim>\<open>pump_feedback\<close> and one to \<^verbatim>\<open>pump_snapshots\<close>, another one adds none.
\<close>

definition feedback_recorded :: "c_int \<Rightarrow> c_int \<Rightarrow> c_long \<Rightarrow> server \<Rightarrow> server \<Rightarrow> bool" where
  "feedback_recorded i s now sv sv' \<longleftrightarrow>
     (let old = current_pump_status sv;
          s1 = (if i = 1 then s else ps_status1 old);
          s2 = (if i = 2 then s else ps_status2 old);
          changed = (s1 \<noteq> ps_status1 old \<or> s2 \<noteq> ps_status2 old);
          d = database sv; d' = database sv'
      in current_pump_status sv' = old\<lparr>ps_status1 := s1, ps_status2 := s2, ps_time := now\<rparr> \<and>
         pump_feedback d' = pump_feedback d @ (if changed then [\<lparr>fr_pump = i, fr_status = s, fr_time = now\<rparr>] else []) \<and>
         pump_snapshots d' = pump_snapshots d @ (if changed then
           [\<lparr>sn_p1_cmd = ps_pump1 old, sn_p1_st = s1, sn_p2_cmd = ps_pump2 old, sn_p2_st = s2,
             sn_busy = ps_busy old, sn_alarm = ps_alarm old, sn_time = now\<rparr>] else []) \<and>
         pump_commands d' = pump_commands d \<and> gateway_history d' = gateway_history d \<and>
         ring_view (pump_history sv') = ring_view (pump_history sv) \<and> gateway_hw_status sv' = gateway_hw_status sv)"

text \<open>
  The command \<open>st\<close> for pump \<open>i\<close>: one that changes the state adds one row to \<^verbatim>\<open>pump_commands\<close>, one to
  \<^verbatim>\<open>pump_snapshots\<close> and the new state to the ring, which keeps the last hundred.
\<close>

definition command_recorded :: "c_int \<Rightarrow> c_int \<Rightarrow> c_long \<Rightarrow> server \<Rightarrow> server \<Rightarrow> bool" where
  "command_recorded i st now sv sv' \<longleftrightarrow>
     (let old = current_pump_status sv;
          c1 = (if i = 1 then st else ps_pump1 old);
          c2 = (if i = 2 then st else ps_pump2 old);
          changed = (c1 \<noteq> ps_pump1 old \<or> c2 \<noteq> ps_pump2 old);
          new = old\<lparr>ps_pump1 := c1, ps_pump2 := c2, ps_time := now\<rparr>;
          d = database sv; d' = database sv'
      in current_pump_status sv' = new \<and>
         pump_commands d' = pump_commands d @
           (if changed then [\<lparr>cr_pump = i, cr_command = st, cr_time = now, cr_source = ''api''\<rparr>] else []) \<and>
         pump_snapshots d' = pump_snapshots d @ (if changed then
           [\<lparr>sn_p1_cmd = c1, sn_p1_st = ps_status1 old, sn_p2_cmd = c2, sn_p2_st = ps_status2 old,
             sn_busy = ps_busy old, sn_alarm = ps_alarm old, sn_time = now\<rparr>] else []) \<and>
         pump_feedback d' = pump_feedback d \<and> gateway_history d' = gateway_history d \<and>
         ring_view (pump_history sv') =
           (if changed then last_n 100 (ring_view (pump_history sv) @ [new]) else ring_view (pump_history sv)) \<and>
         gateway_hw_status sv' = gateway_hw_status sv)"

lemmas insert_defs = db_insert_snapshot_def db_insert_command_def db_insert_feedback_def run_stmt_def

lemma feedback_exact:
  assumes "db_ready sq (database sv)" "detector_ok sv" "i = 1 \<or> i = 2" "0 \<le> sint s" "sint s \<le> 3"
  shows "feedback_recorded i s now sv (update_pump_feedback sq now i s sv)"
proof -
  have valid: "valid_status s = s" using assms(4,5) by (simp add: valid_status_def)
  have prev: "ps_status1 (previous_pump_status sv) = ps_status1 (current_pump_status sv)"
      "ps_status2 (previous_pump_status sv) = ps_status2 (current_pump_status sv)"
    using assms(2) by (simp_all add: detector_ok_def status_values_eq_iff)
  have ready: "db_open (database sv)" "\<And>n. sq_ok sq n" "\<And>n. sq_stops sq n = None"
    using assms(1) by (simp_all add: db_ready_def)
  from assms(3) show ?thesis
    by (elim disjE) (auto simp: feedback_recorded_def shared_defs set_status_def valid prev insert_defs ready
        snapshot_of_def)
qed

lemma command_exact:
  assumes "db_ready sq (database sv)" "detector_ok sv" "ring_ok (pump_history sv)" "i = 1 \<or> i = 2"
  shows "command_recorded i st now sv (update_pump_status sq now i st sv)"
proof -
  have prev: "ps_pump1 (previous_pump_status sv) = ps_pump1 (current_pump_status sv)"
      "ps_pump2 (previous_pump_status sv) = ps_pump2 (current_pump_status sv)"
    using assms(2) by (simp_all add: detector_ok_def status_values_eq_iff)
  have ready: "db_open (database sv)" "\<And>n. sq_ok sq n" "\<And>n. sq_stops sq n = None"
    using assms(1) by (simp_all add: db_ready_def)
  have ring: "ring_view (ring_add x (pump_history sv)) = last_n 100 (ring_view (pump_history sv) @ [x])" for x
    using ring.view_add [OF assms(3)] by (simp add: MAX_HISTORY_def)
  from assms(4) show ?thesis
    by (elim disjE) (auto simp: command_recorded_def shared_defs set_pump_def prev insert_defs ready ring
        snapshot_of_def)
qed

section \<open>What reaches the threads\<close>

text \<open>The text of a command, as the dashboard's buttons send it.\<close>

definition command_text :: "int \<Rightarrow> int \<Rightarrow> string" where
  "command_text i st = json_text (JObj [(''pump_id'', JNum i), (''state'', JNum st)])"

lemma command_program:
  assumes "json_c jc" "i \<in> {1, 2}" "st \<in> {0, 1}"
  shows "message_program jc ''pump/control'' (command_text i st) = [Lock, EnterCommand (word_of_int i) (word_of_int st)]"
proof -
  let ?kvs = "[(''pump_id'', JNum i), (''state'', JNum st)]"
  have "flat_members ?kvs" using assms(2,3) by (auto simp: flat_members_def plain_def)
  then have parse: "jc_parse jc (command_text i st) = Some (JObj ?kvs)"
    using json_c.parse_flat [OF assms(1)] by (simp add: command_text_def del: json_text.simps)
  have int: "jc_int jc (JNum i) = word_of_int i" "jc_int jc (JNum st) = word_of_int st"
    using json_c.int_num [OF assms(1), of i] json_c.int_num [OF assms(1), of st] assms(2,3) by auto
  have get: "jc_get jc (JObj ?kvs) k = map_of (rev ?kvs) k" for k by (rule json_c.get_member [OF assms(1)])
  have digits: "int_dec 0 = ''0''" "int_dec 1 = ''1''" "int_dec 2 = ''2''" by code_simp+
  have "payload_text (command_text i st) = command_text i st"
    by (rule payload_text_short) (use digits assms(2,3) in \<open>auto simp: command_text_def quoted_def nul_def\<close>)
  then show ?thesis by (simp add: message_program_def control_message_program_def parse get int)
qed

text \<open>A thread alone: every complete run of it is a run of its program.\<close>

lemma alone_iff:
  assumes "lock_holder m = None" "balanced False (thread_code m t)"
  shows "(\<exists>m'. (runs sq t)\<^sup>*\<^sup>* m m' \<and> thread_code m' t = [] \<and> shared m' = sv') \<longleftrightarrow>
    complete sq (shared m) (thread_code m t) sv'" (is "?runs \<longleftrightarrow> ?complete")
proof
  assume ?runs
  then show ?complete using runs_complete [of sq t m] assms by auto
next
  assume ?complete
  from complete_runs [OF this refl refl] assms show ?runs
    by (intro exI [of _ "set_code t [] (m\<lparr>shared := sv', lock_holder := None\<rparr>)"]) simp
qed

lemma alone_outcome:
  assumes "lock_holder m = None" "thread_code m t = Lock # prog" "balanced True prog"
    and "\<And>sv'. complete sq (shared m) prog sv' \<longleftrightarrow> (\<exists>now :: c_long. sv' = f now)"
  shows "\<exists>m'. (runs sq t)\<^sup>*\<^sup>* m m' \<and> thread_code m' t = []"
    and "(runs sq t)\<^sup>*\<^sup>* m m' \<Longrightarrow> thread_code m' t = [] \<Longrightarrow> \<exists>now. shared m' = f now"
proof -
  have bal: "balanced False (thread_code m t)" using assms(2,3) by simp
  have all: "(\<exists>m'. (runs sq t)\<^sup>*\<^sup>* m m' \<and> thread_code m' t = [] \<and> shared m' = sv') \<longleftrightarrow> (\<exists>now. sv' = f now)" for sv'
    using alone_iff [OF assms(1) bal, of sq sv'] assms(2,4) by simp
  from all [of "f 0"] show "\<exists>m'. (runs sq t)\<^sup>*\<^sup>* m m' \<and> thread_code m' t = []" by blast
  show "(runs sq t)\<^sup>*\<^sup>* m m' \<Longrightarrow> thread_code m' t = [] \<Longrightarrow> \<exists>now. shared m' = f now" using all by blast
qed

section \<open>Properties\<close>

text \<open>
  C10. Reports and commands that are not disturbed are recorded exactly, with every SQL statement successful,
  the change detector exact and the mutex free. The report that pump 1 or 2 is in
  state 0 to 3, by MQTT or by HTTP, and the MQTT command 0 or 1 for pump 1 or 2: running the steps of
  the thread alone comes to an end, and however it ends, the state shows the new value at some reading
  of the clock and is otherwise unchanged; when the value changed, exactly one row of the report (or
  command, with the source \<open>api\<close>) and one snapshot of exactly this state are added, for a command also one
  entry of the ring, which keeps the last hundred; when it did not change, none is added; the other tables stay, and the
  change detector is exact again.
\<close>

theorem undisturbed_update_exact:
  assumes "json_c jc" "db_ready sq (database (shared m))" "detector_ok (shared m)" "ring_ok (pump_history (shared m))"
    and "lock_holder m = None" "i \<in> {1, 2}"
  shows "(s \<in> {0..3} \<and> thread_code m t \<in> {http_feedback_program jc (feedback_text i s),
        message_program jc ''pump/feedback'' (feedback_text i s)} \<longrightarrow>
      (\<exists>m'. (runs sq t)\<^sup>*\<^sup>* m m' \<and> thread_code m' t = []) \<and>
      (\<forall>m'. (runs sq t)\<^sup>*\<^sup>* m m' \<and> thread_code m' t = [] \<longrightarrow> detector_ok (shared m') \<and>
        (\<exists>now. feedback_recorded (word_of_int i) (word_of_int s) now (shared m) (shared m')))) \<and>
    (st \<in> {0, 1} \<and> thread_code m t = message_program jc ''pump/control'' (command_text i st) \<longrightarrow>
      (\<exists>m'. (runs sq t)\<^sup>*\<^sup>* m m' \<and> thread_code m' t = []) \<and>
      (\<forall>m'. (runs sq t)\<^sup>*\<^sup>* m m' \<and> thread_code m' t = [] \<longrightarrow> detector_ok (shared m') \<and>
        (\<exists>now. command_recorded (word_of_int i) (word_of_int st) now (shared m) (shared m'))))"
proof (intro conjI impI)
  have pump: "word_of_int i = (1 :: c_int) \<or> word_of_int i = (2 :: c_int)" using assms(6) by auto
  {
    assume "s \<in> {0..3} \<and> thread_code m t \<in> {http_feedback_program jc (feedback_text i s),
        message_program jc ''pump/feedback'' (feedback_text i s)}"
    then have s: "s \<in> {0..3}" and code: "thread_code m t = [Lock, EnterFeedback (word_of_int i) (word_of_int s)]"
      using feedback_programs [OF assms(1,6)] by auto
    have bal: "balanced True [EnterFeedback (word_of_int i) (word_of_int s)]" by simp
    have "complete sq (shared m) [EnterFeedback (word_of_int i) (word_of_int s)] sv' \<longleftrightarrow>
        (\<exists>now. sv' = update_pump_feedback sq now (word_of_int i) (word_of_int s) (shared m))" for sv'
      by (auto simp: complete_updates)
    note out = alone_outcome [OF assms(5) code bal this]
    have "sint (word_of_int s :: c_int) = s" using s by simp
    then have exact: "feedback_recorded (word_of_int i) (word_of_int s) now (shared m)
        (update_pump_feedback sq now (word_of_int i) (word_of_int s) (shared m))" for now
      using feedback_exact [OF assms(2,3) pump] s by simp
    show "\<exists>m'. (runs sq t)\<^sup>*\<^sup>* m m' \<and> thread_code m' t = []" by (rule out(1))
    show "\<forall>m'. (runs sq t)\<^sup>*\<^sup>* m m' \<and> thread_code m' t = [] \<longrightarrow> detector_ok (shared m') \<and>
        (\<exists>now. feedback_recorded (word_of_int i) (word_of_int s) now (shared m) (shared m'))"
      using out(2) exact update_detector_ok(2) [OF assms(3)] by metis
  }
  {
    assume "st \<in> {0, 1} \<and> thread_code m t = message_program jc ''pump/control'' (command_text i st)"
    then have code: "thread_code m t = [Lock, EnterCommand (word_of_int i) (word_of_int st)]"
      using command_program [OF assms(1,6)] by auto
    have bal: "balanced True [EnterCommand (word_of_int i) (word_of_int st)]" by simp
    have "complete sq (shared m) [EnterCommand (word_of_int i) (word_of_int st)] sv' \<longleftrightarrow>
        (\<exists>now. sv' = update_pump_status sq now (word_of_int i) (word_of_int st) (shared m))" for sv'
      by (auto simp: complete_updates)
    note out = alone_outcome [OF assms(5) code bal this]
    show "\<exists>m'. (runs sq t)\<^sup>*\<^sup>* m m' \<and> thread_code m' t = []" by (rule out(1))
    show "\<forall>m'. (runs sq t)\<^sup>*\<^sup>* m m' \<and> thread_code m' t = [] \<longrightarrow> detector_ok (shared m') \<and>
        (\<exists>now. command_recorded (word_of_int i) (word_of_int st) now (shared m) (shared m'))"
      using out(2) command_exact [OF assms(2-4) pump] update_detector_ok(1) [OF assms(3)] by metis
  }
qed

theorem undisturbed_update_exact_witness:
  "\<exists>m'. (runs sqlite_model Sub_thread)\<^sup>*\<^sup>*
      (set_code Sub_thread (message_program jsonc_model ''pump/control'' (command_text 2 1)) (boot_machine fresh_database)) m' \<and>
    ps_pump2 (current_pump_status (shared m')) = 1 \<and> length (pump_commands (database (shared m'))) = 1 \<and>
    length (pump_snapshots (database (shared m'))) = 1"
proof -
  let ?m = "set_code Sub_thread (message_program jsonc_model ''pump/control'' (command_text 2 1)) (boot_machine fresh_database)"
  have ready: "db_ready sqlite_model (database (shared ?m))"
    by (simp add: boot_machine_def initial_server_def db_ready_def sqlite_model_def fresh_database_def db_init_def)
  have start: "detector_ok (shared ?m)" "ring_ok (pump_history (shared ?m))" "lock_holder ?m = None" "2 \<in> {1, 2 :: int}"
    by (simp_all add: boot_machine_def initial_detector_ok) (simp_all add: initial_server_def empty_ring_ok)
  have "1 \<in> {0, 1 :: int} \<and> subscriber ?m = message_program jsonc_model ''pump/control'' (command_text 2 1)" by simp
  from mp [OF conjunct2 [OF undisturbed_update_exact [OF jsonc_model.json_c_axioms ready start]] this]
  have "(\<exists>m'. (runs sqlite_model Sub_thread)\<^sup>*\<^sup>* ?m m' \<and> subscriber m' = []) \<and>
      (\<forall>m'. (runs sqlite_model Sub_thread)\<^sup>*\<^sup>* ?m m' \<and> subscriber m' = [] \<longrightarrow> detector_ok (shared m') \<and>
        (\<exists>now. command_recorded (word_of_int 2) (word_of_int 1) now (shared ?m) (shared m')))" .
  then obtain m' now where "(runs sqlite_model Sub_thread)\<^sup>*\<^sup>* ?m m'" "command_recorded (word_of_int 2) (word_of_int 1) now (shared ?m) (shared m')"
    by blast
  moreover have "current_pump_status (shared ?m) = zero_status" "pump_commands (database (shared ?m)) = []"
      "pump_snapshots (database (shared ?m)) = []"
    by (simp_all add: boot_machine_def initial_server_def fresh_database_def db_init_def)
  ultimately have "ps_pump2 (current_pump_status (shared m')) = 1 \<and> length (pump_commands (database (shared m'))) = 1 \<and>
      length (pump_snapshots (database (shared m'))) = 1"
    unfolding command_recorded_def Let_def by (elim conjE) (simp add: zero_status_def)
  with \<open>(runs sqlite_model Sub_thread)\<^sup>*\<^sup>* ?m m'\<close> show ?thesis by blast
qed

end
