(* ===== verification/HttpDaemon.thy ===== *)
theory HttpDaemon
  imports HttpApi
begin

text \<open>
  \<^verbatim>\<open>handle_request\<close> call by call. libmicrohttpd calls it several times for one POST: first with
  \<^verbatim>\<open>*con_cls\<close> NULL, then once for each piece of the body, then with no data; uploads of several clients
  interleave in its one thread, and a client can hang up, after which the handler is not called again.
  The buffers the handler allocates are an explicit store. The theory \<open>HttpApi\<close> describes a request as
  one event; here is shown when that is what the calls compute, and what becomes of the buffers.
\<close>

section \<open>One call\<close>

record post_heap =
  live :: "nat \<rightharpoonup> string"
  next_free :: nat

datatype call_result =
    Go_on
  | Answered nat string
  | Denied
  | Broken

text \<open>
  The end of the upload: the route, then \<^verbatim>\<open>strdup\<close> of the answer, then \<^verbatim>\<open>free\<close>. \<open>dup\<close> tells whether
  \<^verbatim>\<open>strdup\<close> succeeds; if not, \<^verbatim>\<open>strlen\<close> is called with NULL.
\<close>

definition post_route ::
  "sqlite \<Rightarrow> jsonc \<Rightarrow> surroundings \<Rightarrow> c_long \<Rightarrow> string \<Rightarrow> string \<Rightarrow> server \<Rightarrow> server \<times> mqtt_message list \<times> nat \<times> string" where
  "post_route sq jc env now url body sv =
     (if url = ''/api/pump/control'' then
        (let m = control_message body; sent = publish_ok env m; sv1 = (if sent then meanwhile env sv else sv)
         in (sv1, (if sent then [m] else []), 200, handle_pump_control sent sv1))
      else if url = ''/api/pump/feedback'' then
        (let (sv1, code) = handle_pump_feedback sq jc now body sv in (sv1, [], code, ''{\"status\":\"ok\"}''))
      else (sv, [], 404, ''{\"error\":\"Not found\"}''))"

definition answered :: "bool \<Rightarrow> nat \<Rightarrow> string \<Rightarrow> call_result" where
  "answered dup code txt = (if dup then Answered code txt else Broken)"

definition post_call ::
  "sqlite \<Rightarrow> jsonc \<Rightarrow> surroundings \<Rightarrow> bool \<Rightarrow> c_long \<Rightarrow> request \<Rightarrow> string \<Rightarrow> nat option \<Rightarrow> post_heap \<Rightarrow> server \<Rightarrow>
    server \<times> post_heap \<times> nat option \<times> mqtt_message list \<times> call_result" where
  "post_call sq jc env dup now rq upload_data con_cls h sv =
     (case con_cls of
        None \<Rightarrow>
          (if \<not> malloc_ok env then (sv, h, None, [], Denied)
           else (sv, \<lparr>live = (live h)(next_free h \<mapsto> []), next_free = Suc (next_free h)\<rparr>, Some (next_free h), [], Go_on))
      | Some p \<Rightarrow>
          (case live h p of
             None \<Rightarrow> (sv, h, con_cls, [], Broken)
           | Some buf \<Rightarrow>
               (if upload_data \<noteq> [] then
                  (case post_chunk buf upload_data of
                     None \<Rightarrow> (sv, h, con_cls, [], Broken)
                   | Some b \<Rightarrow> (sv, h\<lparr>live := (live h)(p \<mapsto> b)\<rparr>, con_cls, [], Go_on))
                else
                  (let (sv1, ms, code, txt) = post_route sq jc env now (rq_url rq) buf sv
                   in (sv1, h\<lparr>live := (live h)(p := None)\<rparr>, con_cls, ms, answered dup code txt)))))"

definition handle_call ::
  "sqlite \<Rightarrow> jsonc \<Rightarrow> surroundings \<Rightarrow> bool \<Rightarrow> c_long \<Rightarrow> request \<Rightarrow> string \<Rightarrow> nat option \<Rightarrow> post_heap \<Rightarrow> server \<Rightarrow>
    server \<times> post_heap \<times> nat option \<times> mqtt_message list \<times> call_result" where
  "handle_call sq jc env dup now rq upload_data con_cls h sv =
     (if rq_method rq = ''OPTIONS'' then (sv, h, con_cls, [], Answered 204 [])
      else if rq_method rq = ''POST'' then post_call sq jc env dup now rq upload_data con_cls h sv
      else if rq_method rq = ''GET'' then
        (sv, h, con_cls, [],
          (case handle_get sq now rq sv of Respond code txt \<Rightarrow> answered dup code txt | _ \<Rightarrow> Broken))
      else (sv, h, con_cls, [], answered dup 405 ''{\"error\":\"Not allowed\"}''))"

section \<open>The calls the library makes\<close>

text \<open>
  What libmicrohttpd documents: the order of the calls for one request, the value of \<^verbatim>\<open>*con_cls\<close> handed
  from call to call, no further call after an answer, a refusal or the end of the connection. The pieces
  of a body are what is still to come of a request.
\<close>

record conn =
  cn_request :: request
  cn_cls :: "nat option"
  cn_left :: "string list"

record daemon =
  dm_server :: server
  dm_heap :: post_heap
  dm_open :: "nat \<rightharpoonup> conn"
  dm_messages :: "mqtt_message list"
  dm_answers :: "(nat \<times> outcome) list"
  dm_crashed :: bool

datatype daemon_event =
    Begin nat request surroundings bool c_long
  | Proceed nat surroundings bool c_long
  | Hang_up nat
  | Elsewhere "server \<Rightarrow> server"

definition daemon_call ::
  "sqlite \<Rightarrow> jsonc \<Rightarrow> surroundings \<Rightarrow> bool \<Rightarrow> c_long \<Rightarrow> nat \<Rightarrow> conn \<Rightarrow> string \<Rightarrow> string list \<Rightarrow> daemon \<Rightarrow> daemon" where
  "daemon_call sq jc env dup now c cn upload rest d =
     (let (sv, h, cls, ms, res) = handle_call sq jc env dup now (cn_request cn) upload (cn_cls cn) (dm_heap d) (dm_server d);
          d1 = d\<lparr>dm_server := sv, dm_heap := h, dm_messages := dm_messages d @ ms\<rparr>
      in case res of
           Go_on \<Rightarrow> d1\<lparr>dm_open := (dm_open d)(c \<mapsto> cn\<lparr>cn_cls := cls, cn_left := rest\<rparr>)\<rparr>
         | Answered code txt \<Rightarrow>
             d1\<lparr>dm_open := (dm_open d)(c := None), dm_answers := dm_answers d @ [(c, Respond code txt)]\<rparr>
         | Denied \<Rightarrow> d1\<lparr>dm_open := (dm_open d)(c := None), dm_answers := dm_answers d @ [(c, Refused)]\<rparr>
         | Broken \<Rightarrow> d1\<lparr>dm_crashed := True\<rparr>)"

fun daemon_step :: "sqlite \<Rightarrow> jsonc \<Rightarrow> daemon_event \<Rightarrow> daemon \<Rightarrow> daemon" where
  "daemon_step sq jc (Begin c rq env dup now) d =
     (if dm_crashed d \<or> dm_open d c \<noteq> None then d
      else daemon_call sq jc env dup now c \<lparr>cn_request = rq, cn_cls = None, cn_left = rq_chunks rq\<rparr> [] (rq_chunks rq) d)"
| "daemon_step sq jc (Proceed c env dup now) d =
     (if dm_crashed d then d
      else case dm_open d c of None \<Rightarrow> d
      | Some cn \<Rightarrow> (case cn_left cn of [] \<Rightarrow> daemon_call sq jc env dup now c cn [] [] d
                    | x # xs \<Rightarrow> daemon_call sq jc env dup now c cn x xs d))"
| "daemon_step sq jc (Hang_up c) d = (if dm_crashed d then d else d\<lparr>dm_open := (dm_open d)(c := None)\<rparr>)"
| "daemon_step sq jc (Elsewhere f) d = (if dm_crashed d then d else d\<lparr>dm_server := f (dm_server d)\<rparr>)"

definition start_daemon :: "server \<Rightarrow> daemon" where
  "start_daemon sv =
     \<lparr>dm_server = sv, dm_heap = \<lparr>live = Map.empty, next_free = 0\<rparr>, dm_open = Map.empty,
      dm_messages = [], dm_answers = [], dm_crashed = False\<rparr>"

section \<open>Requests as single events\<close>

text \<open>
  The specification: no buffers; a request is handled as a whole at its last call. It counts the uploads
  that were given up.
\<close>

record site =
  st_server :: server
  st_open :: "nat \<rightharpoonup> request \<times> nat"
  st_messages :: "mqtt_message list"
  st_answers :: "(nat \<times> outcome) list"
  st_given_up :: nat

definition handle_whole :: "sqlite \<Rightarrow> jsonc \<Rightarrow> surroundings \<Rightarrow> c_long \<Rightarrow> nat \<Rightarrow> request \<Rightarrow> site \<Rightarrow> site" where
  "handle_whole sq jc env now c rq s =
     (let (sv, ms, out) = handle_request sq jc (env\<lparr>malloc_ok := True\<rparr>) now rq (st_server s)
      in s\<lparr>st_server := sv, st_open := (st_open s)(c := None), st_messages := st_messages s @ ms,
           st_answers := st_answers s @ [(c, out)]\<rparr>)"

fun site_step :: "sqlite \<Rightarrow> jsonc \<Rightarrow> daemon_event \<Rightarrow> site \<Rightarrow> site" where
  "site_step sq jc (Begin c rq env dup now) s =
     (if st_open s c \<noteq> None then s
      else if rq_method rq \<noteq> ''POST'' then handle_whole sq jc env now c rq s
      else if malloc_ok env then s\<lparr>st_open := (st_open s)(c \<mapsto> (rq, length (rq_chunks rq)))\<rparr>
      else s\<lparr>st_answers := st_answers s @ [(c, Refused)]\<rparr>)"
| "site_step sq jc (Proceed c env dup now) s =
     (case st_open s c of None \<Rightarrow> s
      | Some (rq, k) \<Rightarrow>
          (if k = 0 then handle_whole sq jc env now c rq s else s\<lparr>st_open := (st_open s)(c \<mapsto> (rq, k - 1))\<rparr>))"
| "site_step sq jc (Hang_up c) s =
     s\<lparr>st_open := (st_open s)(c := None), st_given_up := st_given_up s + (if st_open s c = None then 0 else 1)\<rparr>"
| "site_step sq jc (Elsewhere f) s = s\<lparr>st_server := f (st_server s)\<rparr>"

definition start_site :: "server \<Rightarrow> site" where
  "start_site sv = \<lparr>st_server = sv, st_open = Map.empty, st_messages = [], st_answers = [], st_given_up = 0\<rparr>"

section \<open>The calls implement the requests\<close>

definition request_fits :: "request \<Rightarrow> bool" where
  "request_fits rq \<longleftrightarrow> [] \<notin> set (rq_chunks rq) \<and> length (concat (map c_string (rq_chunks rq))) \<le> 1023"

fun event_ok :: "daemon_event \<Rightarrow> bool" where
  "event_ok (Begin c rq env dup now) = (dup \<and> request_fits rq)"
| "event_ok (Proceed c env dup now) = dup"
| "event_ok _ = True"

text \<open>An open connection has a buffer of its own, which holds what has come of its body.\<close>

definition conn_ok :: "post_heap \<Rightarrow> conn \<Rightarrow> bool" where
  "conn_ok h cn \<longleftrightarrow> rq_method (cn_request cn) = ''POST'' \<and> request_fits (cn_request cn) \<and>
     (\<exists>p pre buf. cn_cls cn = Some p \<and> live h p = Some buf \<and> rq_chunks (cn_request cn) = pre @ cn_left cn \<and>
        collect_body [] pre = Some buf)"

definition owned :: "daemon \<Rightarrow> nat \<Rightarrow> nat option" where
  "owned d c = Option.bind (dm_open d c) cn_cls"

definition heap_ok :: "daemon \<Rightarrow> bool" where
  "heap_ok d \<longleftrightarrow> (\<forall>c cn. dm_open d c = Some cn \<longrightarrow> conn_ok (dm_heap d) cn) \<and>
     inj_on (owned d) (dom (dm_open d)) \<and> (\<forall>p \<in> dom (live (dm_heap d)). p < next_free (dm_heap d)) \<and>
     finite (dom (dm_open d)) \<and> finite (dom (live (dm_heap d)))"

definition conn_view :: "conn \<Rightarrow> request \<times> nat" where
  "conn_view cn = (cn_request cn, length (cn_left cn))"

definition implements :: "daemon \<Rightarrow> site \<Rightarrow> bool" where
  "implements d s \<longleftrightarrow> \<not> dm_crashed d \<and> dm_server d = st_server s \<and> map_option conn_view \<circ> dm_open d = st_open s \<and>
     dm_messages d = st_messages s \<and> dm_answers d = st_answers s \<and>
     card (dom (live (dm_heap d))) = card (dom (dm_open d)) + st_given_up s"

lemma collect_body_append:
  "collect_body b (xs @ ys) = Option.bind (collect_body b xs) (\<lambda>b'. collect_body b' ys)"
  by (induction xs arbitrary: b) (auto split: option.split)

lemma post_call_end:
  assumes "live h p = Some buf" "collect_body [] (rq_chunks rq) = Some buf" "rq_method rq = ''POST''"
  shows "handle_call sq jc env True now rq [] (Some p) h sv =
    (case handle_request sq jc (env\<lparr>malloc_ok := True\<rparr>) now rq sv of
       (sv1, ms, out) \<Rightarrow> (sv1, h\<lparr>live := (live h)(p := None)\<rparr>, Some p, ms,
         (case out of Respond code txt \<Rightarrow> Answered code txt | _ \<Rightarrow> Broken)))"
  using assms
  by (simp add: handle_call_def post_call_def handle_request_def handle_post_def post_route_def answered_def Let_def
      split: prod.split)

lemma other_call:
  assumes "rq_method rq \<noteq> ''POST''"
  shows "handle_call sq jc env True now rq [] cls h sv =
    (case handle_request sq jc (env\<lparr>malloc_ok := True\<rparr>) now rq sv of
       (sv1, ms, out) \<Rightarrow> (sv1, h, cls, ms, (case out of Respond code txt \<Rightarrow> Answered code txt | _ \<Rightarrow> Broken)))"
  using assms by (simp add: handle_call_def handle_request_def answered_def split: outcome.split)

lemma request_answered:
  assumes "request_fits rq"
  shows "\<exists>sv1 ms code txt. handle_request sq jc (env\<lparr>malloc_ok := True\<rparr>) now rq sv = (sv1, ms, Respond code txt)"
proof -
  have "collect_body [] (rq_chunks rq) = Some (concat (map c_string (rq_chunks rq)))"
    using assms by (simp add: collect_body_eq request_fits_def)
  then show ?thesis
    by (auto simp: handle_request_def handle_post_def handle_get_def Let_def split: prod.split)
qed

definition sim :: "daemon \<Rightarrow> site \<Rightarrow> bool" where
  "sim d s \<longleftrightarrow> heap_ok d \<and> implements d s"

lemma sim_closed: "sim d s \<Longrightarrow> dm_open d c = None \<longleftrightarrow> st_open s c = None"
  by (auto simp: sim_def implements_def dest: fun_cong [of _ _ c])

lemma sim_view: "sim d s \<Longrightarrow> dm_open d c = Some cn \<Longrightarrow> st_open s c = Some (conn_view cn)"
  by (auto simp: sim_def implements_def dest: fun_cong [of _ _ c])

lemma sim_start: "sim (start_daemon sv) (start_site sv)"
  by (auto simp: sim_def heap_ok_def implements_def start_daemon_def start_site_def)

lemma whole_view:
  assumes "handle_request sq jc (env\<lparr>malloc_ok := True\<rparr>) now rq (st_server s) = (sv, ms, out)"
  shows "handle_whole sq jc env now c rq s = s\<lparr>st_server := sv, st_open := (st_open s)(c := None),
    st_messages := st_messages s @ ms, st_answers := st_answers s @ [(c, out)]\<rparr>"
  using assms by (simp add: handle_whole_def)

lemma sim_begin_other:
  assumes sim: "sim d s" and c: "dm_open d c = None" and rq: "rq_method rq \<noteq> ''POST''" "request_fits rq"
  shows "sim (daemon_step sq jc (Begin c rq env True now) d) (site_step sq jc (Begin c rq env True now) s)"
proof -
  obtain sv ms code reply where res:
    "handle_request sq jc (env\<lparr>malloc_ok := True\<rparr>) now rq (dm_server d) = (sv, ms, Respond code reply)"
    using request_answered [OF rq(2)] by blast
  have imp: "implements d s" "\<not> dm_crashed d" "dm_server d = st_server s" using sim by (simp_all add: sim_def implements_def)
  have s: "st_open s c = None" using sim_closed [OF sim] c by simp
  have d': "daemon_step sq jc (Begin c rq env True now) d =
      d\<lparr>dm_server := sv, dm_messages := dm_messages d @ ms, dm_answers := dm_answers d @ [(c, Respond code reply)]\<rparr>"
    using imp(2) c rq(1) by (simp add: daemon_call_def other_call res fun_upd_idem)
  have s': "site_step sq jc (Begin c rq env True now) s =
      s\<lparr>st_server := sv, st_messages := st_messages s @ ms, st_answers := st_answers s @ [(c, Respond code reply)]\<rparr>"
    using rq(1) s res imp(3) by (simp add: whole_view fun_upd_idem)
  show ?thesis unfolding d' s' using sim by (simp add: sim_def heap_ok_def implements_def owned_def [abs_def])
qed

lemma sim_begin_post:
  assumes sim: "sim d s" and c: "dm_open d c = None" and rq: "rq_method rq = ''POST''" "request_fits rq"
  shows "sim (daemon_step sq jc (Begin c rq env True now) d) (site_step sq jc (Begin c rq env True now) s)"
proof (cases "malloc_ok env")
  case False
  then have "daemon_step sq jc (Begin c rq env True now) d = d\<lparr>dm_answers := dm_answers d @ [(c, Refused)]\<rparr>"
    "site_step sq jc (Begin c rq env True now) s = s\<lparr>st_answers := st_answers s @ [(c, Refused)]\<rparr>"
    using sim c rq sim_closed [OF sim, of c]
    by (simp_all add: sim_def implements_def daemon_call_def handle_call_def post_call_def fun_upd_idem)
  then show ?thesis using sim by (simp add: sim_def heap_ok_def implements_def owned_def [abs_def])
next
  case True
  let ?h = "dm_heap d" let ?p = "next_free ?h"
  let ?h' = "\<lparr>live = (live ?h)(?p \<mapsto> []), next_free = Suc ?p\<rparr>"
  let ?cn = "\<lparr>cn_request = rq, cn_cls = Some ?p, cn_left = rq_chunks rq\<rparr>"
  let ?d = "d\<lparr>dm_heap := ?h', dm_open := (dm_open d)(c \<mapsto> ?cn)\<rparr>"
  have d': "daemon_step sq jc (Begin c rq env True now) d = ?d"
    and s': "site_step sq jc (Begin c rq env True now) s = s\<lparr>st_open := (st_open s)(c \<mapsto> (rq, length (rq_chunks rq)))\<rparr>"
    using sim c rq True sim_closed [OF sim, of c]
    by (simp_all add: sim_def implements_def daemon_call_def handle_call_def post_call_def)
  have old: "heap_ok d" "implements d s" using sim by (simp_all add: sim_def)
  have fresh: "?p \<notin> dom (live ?h)" using old(1) by (auto simp: heap_ok_def)
  have keep: "conn_ok ?h' cn" if "dm_open d e = Some cn" for e cn
  proof -
    have "conn_ok ?h cn" using old(1) that by (simp add: heap_ok_def)
    then show ?thesis using fresh unfolding conn_ok_def by fastforce
  qed
  have new: "conn_ok ?h' ?cn" using rq by (simp add: conn_ok_def)
  have free: "cn_cls cn \<noteq> Some ?p" if "dm_open d e = Some cn" for e cn
    using old(1) fresh that by (fastforce simp: heap_ok_def conn_ok_def)
  have "inj_on (owned ?d) (dom (dm_open ?d))"
    using old(1) c by (auto simp: heap_ok_def inj_on_def owned_def dest: free not_sym [OF free])
  moreover have "card (dom (live ?h')) = Suc (card (dom (live ?h)))" "card (dom (dm_open ?d)) = Suc (card (dom (dm_open d)))"
    using old(1) fresh c by (simp_all add: heap_ok_def domIff)
  ultimately show ?thesis unfolding d' s' using old keep new
    by (auto simp: sim_def heap_ok_def implements_def conn_view_def less_Suc_eq fun_eq_iff)
qed

lemma card_unmap: "finite (dom m) \<Longrightarrow> m c = Some v \<Longrightarrow> card (dom m) = Suc (card (dom (m(c := None))))"
  using card.remove [of "dom m" c] by (simp add: domI)

lemma unshared:
  assumes "heap_ok d" "dm_open d c = Some cn" "dm_open d e = Some cn'" "e \<noteq> c"
  shows "cn_cls cn' \<noteq> cn_cls cn"
proof
  assume "cn_cls cn' = cn_cls cn"
  with assms(2,3) have "owned d e = owned d c" by (simp add: owned_def)
  moreover have "inj_on (owned d) (dom (dm_open d))" using assms(1) by (simp add: heap_ok_def)
  ultimately show False using assms(2-4) by (auto dest!: inj_onD)
qed

lemma others_ok:
  assumes "heap_ok d" "dm_open d c = Some cn" "cn_cls cn = Some p" "dm_open d e = Some cn'" "e \<noteq> c"
  shows "conn_ok ((dm_heap d)\<lparr>live := (live (dm_heap d))(p := v)\<rparr>) cn'"
proof -
  have "cn_cls cn' \<noteq> Some p" using unshared [OF assms(1,2,4,5)] assms(3) by simp
  moreover have "conn_ok (dm_heap d) cn'" using assms(1,4) by (simp add: heap_ok_def)
  ultimately show ?thesis by (auto simp: conn_ok_def)
qed

lemma sim_chunk:
  assumes sim: "sim d s" and c: "dm_open d c = Some cn" and left: "cn_left cn = x # xs"
  shows "sim (daemon_step sq jc (Proceed c env dup now) d) (site_step sq jc (Proceed c env dup now) s)"
proof -
  have old: "heap_ok d" "implements d s" using sim by (simp_all add: sim_def)
  then have ok: "conn_ok (dm_heap d) cn" using c by (simp add: heap_ok_def)
  then obtain p pre buf where cn: "cn_cls cn = Some p" "live (dm_heap d) p = Some buf"
      "rq_chunks (cn_request cn) = pre @ x # xs" "collect_body [] pre = Some buf" "rq_method (cn_request cn) = ''POST''"
      "request_fits (cn_request cn)"
    by (auto simp: conn_ok_def left)
  have whole: "collect_body [] (pre @ x # xs) = Some (concat (map c_string (pre @ x # xs)))"
    using cn(3,6) by (simp add: collect_body_eq request_fits_def)
  then obtain b where b: "post_chunk buf x = Some b"
    using cn(4) by (auto simp: collect_body_append split: option.splits)
  have more: "collect_body [] (pre @ [x]) = Some b" using cn(4) b by (simp add: collect_body_append)
  have x: "x \<noteq> []" using cn(3,6) by (auto simp: request_fits_def)
  let ?h = "dm_heap d" let ?h' = "?h\<lparr>live := (live ?h)(p \<mapsto> b)\<rparr>"
  let ?cn = "cn\<lparr>cn_cls := Some p, cn_left := xs\<rparr>"
  let ?d = "d\<lparr>dm_heap := ?h', dm_open := (dm_open d)(c \<mapsto> ?cn)\<rparr>"
  have d': "daemon_step sq jc (Proceed c env dup now) d = ?d"
    using old(2) c left cn b x by (simp add: implements_def daemon_call_def handle_call_def post_call_def)
  have s': "site_step sq jc (Proceed c env dup now) s = s\<lparr>st_open := (st_open s)(c \<mapsto> (cn_request cn, length xs))\<rparr>"
    using sim_view [OF sim c] left by (simp add: conn_view_def)
  have other: "conn_ok ?h' cn'" if "dm_open d e = Some cn'" "e \<noteq> c" for e cn'
    using others_ok [OF old(1) c cn(1)] that by simp
  have own: "conn_ok ?h' ?cn" using cn more by (auto simp: conn_ok_def intro!: exI [of _ "pre @ [x]"])
  have same: "owned ?d = owned d" "dom (dm_open ?d) = dom (dm_open d)" using c cn(1) by (auto simp: owned_def)
  have "inj_on (owned ?d) (dom (dm_open ?d))" unfolding same using old(1) by (simp add: heap_ok_def)
  moreover have "insert c (dom (dm_open d)) = dom (dm_open d)" "insert p (dom (live ?h)) = dom (live ?h)" using c cn(2) by auto
  ultimately show ?thesis unfolding d' s' using old other own
    by (auto simp: sim_def heap_ok_def implements_def conn_view_def fun_eq_iff)
qed

lemma sim_end:
  assumes sim: "sim d s" and c: "dm_open d c = Some cn" and left: "cn_left cn = []"
  shows "sim (daemon_step sq jc (Proceed c env True now) d) (site_step sq jc (Proceed c env True now) s)"
proof -
  have old: "heap_ok d" "implements d s" using sim by (simp_all add: sim_def)
  then have "conn_ok (dm_heap d) cn" using c by (simp add: heap_ok_def)
  then obtain p buf where cn: "cn_cls cn = Some p" "live (dm_heap d) p = Some buf"
      "collect_body [] (rq_chunks (cn_request cn)) = Some buf" "rq_method (cn_request cn) = ''POST''"
      "request_fits (cn_request cn)"
    by (auto simp: conn_ok_def left)
  let ?h = "dm_heap d" let ?h' = "?h\<lparr>live := (live ?h)(p := None)\<rparr>"
  obtain sv ms code reply where res:
    "handle_request sq jc (env\<lparr>malloc_ok := True\<rparr>) now (cn_request cn) (dm_server d) = (sv, ms, Respond code reply)"
    using request_answered [OF cn(5)] by blast
  let ?d = "d\<lparr>dm_server := sv, dm_heap := ?h', dm_open := (dm_open d)(c := None), dm_messages := dm_messages d @ ms,
      dm_answers := dm_answers d @ [(c, Respond code reply)]\<rparr>"
  have alive: "\<not> dm_crashed d" and same: "dm_server d = st_server s" using old(2) by (simp_all add: implements_def)
  have d': "daemon_step sq jc (Proceed c env True now) d = ?d"
    using alive c left cn by (simp add: daemon_call_def post_call_end res)
  have s': "site_step sq jc (Proceed c env True now) s = s\<lparr>st_server := sv, st_open := (st_open s)(c := None),
      st_messages := st_messages s @ ms, st_answers := st_answers s @ [(c, Respond code reply)]\<rparr>"
    using sim_view [OF sim c] left res same by (simp add: conn_view_def whole_view)
  have other: "conn_ok ?h' cn'" if "dm_open d e = Some cn'" "e \<noteq> c" for e cn'
    using others_ok [OF old(1) c cn(1)] that by simp
  have "inj_on (owned ?d) (dom (dm_open ?d))" using old(1) by (auto simp: heap_ok_def inj_on_def owned_def)
  moreover have "card (dom (live ?h)) = Suc (card (dom (live ?h')))" "card (dom (dm_open d)) = Suc (card (dom (dm_open ?d)))"
    using old(1) c cn(2) by (simp_all add: heap_ok_def card_unmap del: dom_fun_upd)
  ultimately show ?thesis unfolding d' s' using old other
    by (auto simp: sim_def heap_ok_def implements_def fun_eq_iff)
qed

lemma sim_hang_up:
  assumes sim: "sim d s"
  shows "sim (daemon_step sq jc (Hang_up c) d) (site_step sq jc (Hang_up c) s)"
proof (cases "dm_open d c")
  case None
  then show ?thesis using sim sim_closed [OF sim, of c] by (simp add: sim_def implements_def fun_upd_idem)
next
  case (Some cn)
  let ?d = "d\<lparr>dm_open := (dm_open d)(c := None)\<rparr>"
  have "inj_on (owned ?d) (dom (dm_open ?d))" using sim by (auto simp: sim_def heap_ok_def inj_on_def owned_def)
  moreover have "card (dom (dm_open d)) = Suc (card (dom (dm_open ?d)))"
    using sim Some by (simp add: sim_def heap_ok_def card_unmap del: dom_fun_upd)
  ultimately show ?thesis using sim Some sim_view [OF sim Some]
    by (auto simp: sim_def heap_ok_def implements_def fun_eq_iff)
qed

lemma sim_step:
  assumes "sim d s" "event_ok ev"
  shows "sim (daemon_step sq jc ev d) (site_step sq jc ev s)"
proof (cases ev)
  case (Begin c rq env dup now)
  show ?thesis
  proof (cases "dm_open d c")
    case None
    with Begin assms show ?thesis
      using sim_begin_other [OF assms(1) None, of rq sq jc env now] sim_begin_post [OF assms(1) None, of rq sq jc env now]
      by (cases "rq_method rq = ''POST''") simp_all
  next
    case (Some cn)
    with Begin assms(1) sim_closed [OF assms(1), of c] show ?thesis by (simp del: not_None_eq)
  qed
next
  case (Proceed c env dup now)
  show ?thesis
  proof (cases "dm_open d c")
    case None
    with Proceed assms(1) sim_closed [OF assms(1), of c] show ?thesis by simp
  next
    case (Some cn)
    with Proceed assms show ?thesis
      using sim_chunk [OF assms(1) Some] sim_end [OF assms(1) Some] by (cases "cn_left cn") simp_all
  qed
next
  case (Hang_up c)
  with assms show ?thesis by (simp only: sim_hang_up)
next
  case (Elsewhere f)
  with assms show ?thesis by (simp add: sim_def heap_ok_def implements_def owned_def [abs_def])
qed

definition run_daemon :: "sqlite \<Rightarrow> jsonc \<Rightarrow> daemon_event list \<Rightarrow> server \<Rightarrow> daemon" where
  "run_daemon sq jc evs sv = fold (daemon_step sq jc) evs (start_daemon sv)"

definition run_site :: "sqlite \<Rightarrow> jsonc \<Rightarrow> daemon_event list \<Rightarrow> server \<Rightarrow> site" where
  "run_site sq jc evs sv = fold (site_step sq jc) evs (start_site sv)"

lemma sim_run: "list_all event_ok evs \<Longrightarrow> sim (run_daemon sq jc evs sv) (run_site sq jc evs sv)"
proof -
  have "list_all event_ok evs \<Longrightarrow> sim d s \<Longrightarrow> sim (fold (daemon_step sq jc) evs d) (fold (site_step sq jc) evs s)" for d s
    by (induction evs arbitrary: d s) (simp_all add: sim_step)
  then show "list_all event_ok evs \<Longrightarrow> ?thesis" by (simp add: run_daemon_def run_site_def sim_start)
qed

section \<open>Uploads that are given up\<close>

definition upload :: "request" where
  "upload = \<lparr>rq_method = ''POST'', rq_url = ''/api/pump/control'', rq_args = [], rq_chunks = [''x'']\<rparr>"

definition plain_world :: surroundings where
  "plain_world = \<lparr>malloc_ok = True, publish_ok = (\<lambda>_. True), meanwhile = (\<lambda>s. s)\<rparr>"

definition given_up :: "daemon_event list" where
  "given_up = [Begin 0 upload plain_world True 0, Hang_up 0]"

lemma upload_ok: "list_all event_ok given_up"
  by (simp add: given_up_def upload_def request_fits_def c_string_def nul_def)

lemma given_up_site:
  "st_open s 0 = None \<Longrightarrow> fold (site_step sq jc) given_up s = s\<lparr>st_given_up := Suc (st_given_up s)\<rparr>"
  by (simp add: given_up_def upload_def plain_world_def fun_upd_idem)

lemma many_given_up:
  "run_site sq jc (concat (replicate n given_up)) sv = (start_site sv)\<lparr>st_given_up := n\<rparr>"
proof (induction n)
  case (Suc n)
  have "concat (replicate (Suc n) given_up) = concat (replicate n given_up) @ given_up"
    by (simp flip: replicate_append_same)
  with Suc show ?case by (simp add: run_site_def given_up_site start_site_def)
qed (simp add: run_site_def start_site_def)

section \<open>Properties\<close>

text \<open>
  C11. The calls implement the requests: however the uploads of several clients interleave, are cut
  into pieces and are given up, each request is answered, publishes and changes the state exactly as if
  it were handled in one go at its last call, on its own whole body, and the handler never touches a buffer
  it has freed; provided that the bodies have at most 1023 characters and \<^verbatim>\<open>strdup\<close> succeeds.
\<close>

theorem calls_implement_requests:
  assumes "list_all event_ok evs"
  shows "let d = run_daemon sq jc evs sv; s = run_site sq jc evs sv in
    \<not> dm_crashed d \<and> dm_server d = st_server s \<and> dm_answers d = st_answers s \<and> dm_messages d = st_messages s \<and>
    (\<forall>c. map_option (\<lambda>cn. (cn_request cn, length (cn_left cn))) (dm_open d c) = st_open s c)"
  using sim_run [OF assms, of sq jc sv]
  by (auto simp: sim_def implements_def Let_def conn_view_def [abs_def] fun_eq_iff)

theorem calls_implement_requests_witness:
  "dm_messages (run_daemon sqlite_model jsonc_model
     [Begin 0 upload plain_world True 0, Begin 1 (upload\<lparr>rq_chunks := [''y'', ''z'']\<rparr>) plain_world True 0,
      Proceed 1 plain_world True 0, Proceed 0 plain_world True 0, Proceed 1 plain_world True 0,
      Proceed 0 plain_world True 0, Proceed 1 plain_world True 0] (initial_server fresh_database)) =
    [control_message ''x'', control_message ''yz'']"
  (is "dm_messages (run_daemon _ _ ?evs _) = _")
proof -
  have chunk: "c_string ''x'' = ''x''" "c_string ''y'' = ''y''" "c_string ''z'' = ''z''" by (simp_all add: c_string_def nul_def)
  have "list_all event_ok ?evs" by (simp add: upload_def request_fits_def chunk)
  from calls_implement_requests [OF this, of sqlite_model jsonc_model "initial_server fresh_database"]
  have "dm_messages (run_daemon sqlite_model jsonc_model ?evs (initial_server fresh_database)) =
      st_messages (run_site sqlite_model jsonc_model ?evs (initial_server fresh_database))"
    by (simp add: Let_def)
  also have "\<dots> = [control_message ''x'', control_message ''yz'']"
    by (simp add: run_site_def start_site_def upload_def plain_world_def handle_whole_def handle_request_def
        handle_post_def collect_body_eq chunk Let_def)
  finally show ?thesis .
qed

text \<open>
  C12. The buffers that are live are those of the open uploads and one for each upload that was given
  up before its end: the handler frees a buffer only when it answers, and no callback for ended
  connections is registered. So clients that hang up make the process lose 1024 bytes each, for good: for
  every number there is a run after which no connection is open and that many buffers are live.
\<close>

theorem given_up_uploads_leak:
  assumes "list_all event_ok evs"
  shows "card (dom (live (dm_heap (run_daemon sq jc evs sv)))) =
      card (dom (dm_open (run_daemon sq jc evs sv))) + st_given_up (run_site sq jc evs sv) \<and>
    (\<exists>evs2. list_all event_ok evs2 \<and> dm_open (run_daemon sq jc evs2 sv) = Map.empty \<and>
      card (dom (live (dm_heap (run_daemon sq jc evs2 sv)))) = n)"
proof
  show "card (dom (live (dm_heap (run_daemon sq jc evs sv)))) =
      card (dom (dm_open (run_daemon sq jc evs sv))) + st_given_up (run_site sq jc evs sv)"
    using sim_run [OF assms, of sq jc sv] by (simp add: sim_def implements_def)
next
  let ?evs = "concat (replicate n given_up)" let ?d = "run_daemon sq jc ?evs sv"
  have ok: "list_all event_ok ?evs" using upload_ok by (auto simp: list_all_iff)
  have sim: "sim ?d ((start_site sv)\<lparr>st_given_up := n\<rparr>)" using sim_run [OF ok, of sq jc sv] by (simp add: many_given_up)
  then have "dm_open ?d = Map.empty" by (auto simp: sim_closed start_site_def)
  with sim ok show "\<exists>evs2. list_all event_ok evs2 \<and> dm_open (run_daemon sq jc evs2 sv) = Map.empty \<and>
      card (dom (live (dm_heap (run_daemon sq jc evs2 sv)))) = n"
    by (intro exI [of _ ?evs]) (simp add: sim_def implements_def)
qed

theorem given_up_uploads_leak_witness:
  "card (dom (live (dm_heap (run_daemon sqlite_model jsonc_model given_up (initial_server fresh_database))))) = 1 \<and>
    dm_open (run_daemon sqlite_model jsonc_model given_up (initial_server fresh_database)) = Map.empty"
proof -
  have open0: "dm_open (run_daemon sqlite_model jsonc_model given_up (initial_server fresh_database)) = Map.empty"
    by (simp add: run_daemon_def start_daemon_def given_up_def upload_def plain_world_def daemon_call_def handle_call_def post_call_def)
  have "st_given_up (run_site sqlite_model jsonc_model given_up (initial_server fresh_database)) = 1"
    by (simp add: run_site_def start_site_def given_up_site)
  then show ?thesis
    using given_up_uploads_leak [OF upload_ok, of sqlite_model jsonc_model "initial_server fresh_database"] open0 by simp
qed

end
