(* ===== verification/PageMarkup.thy ===== *)
theory PageMarkup
  imports HistoryOps Navigation Dashboard
begin

text \<open>
  \<^verbatim>\<open>web/index.html\<close>: the elements the script looks up, the controls with their \<^verbatim>\<open>onclick\<close>, \<^verbatim>\<open>oninput\<close>
  and \<^verbatim>\<open>onchange\<close> attributes, and the classes the script sets on them. \<open>Navigation\<close> and \<open>HistoryView\<close>
  keep what is marked, hidden or open in fields of records; here the same functions act on the class lists
  of the document's elements, and the two are shown to agree.
\<close>

section \<open>The document\<close>

datatype handler =
    On_toggleSidebar
  | On_showPage string
  | On_toggleMobileMenu
  | On_closeMobileMenu
  | On_handleSearchInput
  | On_applyQuickFilter string
  | On_filterByDateRange
  | On_clearDateFilter
  | On_filterByStatus string
  | On_exportToCSV
  | On_refreshHistory
  | On_sortTable string

text \<open>
  An element with its tag, its id, its classes, its \<^verbatim>\<open>data-column\<close> or the values of its options, its
  handler and the nearest listed element around it. Listed are the elements with an id, a handler or a
  class the script selects by, in document order, and the icon in the menu button.
\<close>

record markup =
  mk_tag :: string
  mk_id :: string
  mk_class :: "string list"
  mk_values :: "string list"
  mk_handler :: "handler option"
  mk_within :: "nat option"

definition elem :: "string \<Rightarrow> string \<Rightarrow> string list \<Rightarrow> nat option \<Rightarrow> markup" where
  "elem t i cs w = \<lparr>mk_tag = t, mk_id = i, mk_class = cs, mk_values = [], mk_handler = None, mk_within = w\<rparr>"

definition control_elem :: "string \<Rightarrow> string \<Rightarrow> string list \<Rightarrow> string list \<Rightarrow> handler \<Rightarrow> nat option \<Rightarrow> markup" where
  "control_elem t i cs vs h w =
     \<lparr>mk_tag = t, mk_id = i, mk_class = cs, mk_values = vs, mk_handler = Some h, mk_within = w\<rparr>"

definition nav_markup :: "markup list" where
  "nav_markup =
     [elem ''aside'' ''sidebar'' [''sidebar''] None,
      control_elem ''button'' [] [''toggle-btn''] [] On_toggleSidebar (Some 0),
      control_elem ''li'' [] [''nav-item'', ''active''] [] (On_showPage ''dashboard'') (Some 0),
      control_elem ''li'' [] [''nav-item''] [] (On_showPage ''history'') (Some 0),
      control_elem ''li'' [] [''nav-item''] [] (On_showPage ''settings'') (Some 0),
      control_elem ''button'' ''mobileMenuBtn'' [''mobile-menu-btn''] [] On_toggleMobileMenu None,
      elem ''span'' [] [''material-symbols-rounded''] (Some 5),
      control_elem ''div'' ''overlay'' [''overlay''] [] On_closeMobileMenu None]"

definition dashboard_markup :: "markup list" where
  "dashboard_markup =
     [elem ''div'' ''page-dashboard'' [] None,
      elem ''span'' ''lastUpdate'' [] (Some 8),
      elem ''span'' ''gatewayDot'' [''status-dot'', ''offline''] (Some 8),
      elem ''span'' ''deviceId'' [] (Some 8),
      elem ''span'' ''firmware'' [] (Some 8),
      elem ''span'' ''lastSeen'' [] (Some 8),
      elem ''span'' ''busyStatus'' [''info-value''] (Some 8),
      elem ''span'' ''alarmStatus'' [''info-value''] (Some 8),
      elem ''div'' ''pumpGrid'' [''pump-grid''] (Some 8)]"

definition status_values_markup :: "string list" where
  "status_values_markup = [''all'', ''0'', ''1'', ''2'', ''3'']"

definition history_markup :: "markup list" where
  "history_markup =
     [elem ''div'' ''page-history'' [''hidden''] None,
      control_elem ''input'' ''searchInput'' [] [] On_handleSearchInput (Some 17),
      control_elem ''button'' [] [''quick-filter-btn'', ''active''] [] (On_applyQuickFilter ''all'') (Some 17),
      control_elem ''button'' [] [''quick-filter-btn''] [] (On_applyQuickFilter ''today'') (Some 17),
      control_elem ''button'' [] [''quick-filter-btn''] [] (On_applyQuickFilter ''yesterday'') (Some 17),
      control_elem ''button'' [] [''quick-filter-btn''] [] (On_applyQuickFilter ''week'') (Some 17),
      control_elem ''button'' [] [''quick-filter-btn''] [] (On_applyQuickFilter ''month'') (Some 17),
      control_elem ''input'' ''datetimeFrom'' [] [] On_filterByDateRange (Some 17),
      control_elem ''input'' ''datetimeTo'' [] [] On_filterByDateRange (Some 17),
      control_elem ''button'' [] [''btn-clear-date''] [] On_clearDateFilter (Some 17),
      control_elem ''select'' ''filterP1'' [''filter-select''] status_values_markup (On_filterByStatus ''pump1'') (Some 17),
      control_elem ''select'' ''filterP2'' [''filter-select''] status_values_markup (On_filterByStatus ''pump2'') (Some 17),
      control_elem ''button'' [] [''btn-action'', ''btn-export''] [] On_exportToCSV (Some 17),
      control_elem ''button'' [] [''btn-action'', ''btn-refresh''] [] On_refreshHistory (Some 17),
      elem ''div'' ''historyStats'' [''history-stats''] (Some 17),
      elem ''div'' ''totalRecords'' [''stat-value''] (Some 31),
      elem ''div'' ''filteredRecords'' [''stat-value''] (Some 31),
      elem ''div'' ''dateRange'' [''stat-value''] (Some 31)]"

definition header_markup :: "markup list" where
  "header_markup =
     [control_elem ''th'' [] [''sortable''] [''timestamp''] (On_sortTable ''timestamp'') (Some 17),
      control_elem ''th'' [] [''sortable''] [''pump1''] (On_sortTable ''pump1'') (Some 17),
      control_elem ''th'' [] [''sortable''] [''pump1_status''] (On_sortTable ''pump1_status'') (Some 17),
      control_elem ''th'' [] [''sortable''] [''pump2''] (On_sortTable ''pump2'') (Some 17),
      control_elem ''th'' [] [''sortable''] [''pump2_status''] (On_sortTable ''pump2_status'') (Some 17),
      control_elem ''th'' [] [''sortable''] [''busy''] (On_sortTable ''busy'') (Some 17),
      control_elem ''th'' [] [''sortable''] [''alarm''] (On_sortTable ''alarm'') (Some 17)]"

definition index_html :: "markup list" where
  "index_html = nav_markup @ dashboard_markup @ history_markup @ header_markup @
     [elem ''tbody'' ''historyBody'' [] (Some 17),
      elem ''div'' ''paginationContainer'' [''pagination-container''] (Some 17),
      elem ''div'' ''page-settings'' [''hidden''] None]"

section \<open>Selectors and class lists\<close>

text \<open>The state of the document: the class list and the text of each element.\<close>

record document =
  class_of :: "nat \<Rightarrow> string list"
  text_of :: "nat \<Rightarrow> string"

definition initial_document :: document where
  "initial_document = \<lparr>class_of = (\<lambda>k. mk_class (index_html ! k)), text_of = (\<lambda>k. if k = 6 then ''menu'' else if k = 9 then ''--:--:--''
       else if k \<in> {11, 12, 13, 14, 15, 34} then ''--'' else if k \<in> {32, 33} then ''0'' else [])\<rparr>"

definition positions :: "(nat \<Rightarrow> bool) \<Rightarrow> nat list" where
  "positions p = filter p [0..<length index_html]"

definition first_of :: "nat list \<Rightarrow> nat option" where
  "first_of ks = (case ks of [] \<Rightarrow> None | k # _ \<Rightarrow> Some k)"

definition by_id :: "string \<Rightarrow> nat option" where
  "by_id i = first_of (positions (\<lambda>k. mk_id (index_html ! k) = i))"

definition by_id_prefix :: "string \<Rightarrow> nat list" where
  "by_id_prefix i = positions (\<lambda>k. starts_with (mk_id (index_html ! k)) i)"

definition by_class :: "string \<Rightarrow> document \<Rightarrow> nat list" where
  "by_class c d = positions (\<lambda>k. c \<in> set (class_of d k))"

definition header_of_column :: "string \<Rightarrow> nat option" where
  "header_of_column c = first_of (positions (\<lambda>k. mk_tag (index_html ! k) = ''th'' \<and> mk_values (index_html ! k) = [c]))"

definition inner_span :: "nat \<Rightarrow> nat option" where
  "inner_span b = first_of (positions (\<lambda>k. mk_tag (index_html ! k) = ''span'' \<and> mk_within (index_html ! k) = Some b))"

definition class_add :: "string \<Rightarrow> nat \<Rightarrow> document \<Rightarrow> document" where
  "class_add c k d = d\<lparr>class_of := (class_of d)(k := if c \<in> set (class_of d k) then class_of d k else class_of d k @ [c])\<rparr>"

definition class_remove :: "string \<Rightarrow> nat \<Rightarrow> document \<Rightarrow> document" where
  "class_remove c k d = d\<lparr>class_of := (class_of d)(k := removeAll c (class_of d k))\<rparr>"

definition class_toggle :: "string \<Rightarrow> nat \<Rightarrow> document \<Rightarrow> document" where
  "class_toggle c k d = (if c \<in> set (class_of d k) then class_remove c k d else class_add c k d)"

definition has_class :: "document \<Rightarrow> nat \<Rightarrow> string \<Rightarrow> bool" where
  "has_class d k c \<longleftrightarrow> c \<in> set (class_of d k)"

lemma has_class_set [simp]:
  "has_class (class_add c' k' d) k c \<longleftrightarrow> has_class d k c \<or> k = k' \<and> c = c'"
  "has_class (class_remove c' k' d) k c \<longleftrightarrow> has_class d k c \<and> \<not> (k = k' \<and> c = c')"
  "has_class (class_toggle c' k' d) k c \<longleftrightarrow> (if k = k' \<and> c = c' then \<not> has_class d k c else has_class d k c)"
  by (auto simp: has_class_def class_add_def class_remove_def class_toggle_def)

lemma has_class_fold [simp]:
  "has_class (fold (class_add c') ks d) k c \<longleftrightarrow> has_class d k c \<or> k \<in> set ks \<and> c = c'"
  "has_class (fold (class_remove c') ks d) k c \<longleftrightarrow> has_class d k c \<and> \<not> (k \<in> set ks \<and> c = c')"
  by (induction ks arbitrary: d) auto

lemma text_kept [simp]:
  "text_of (class_add c k d) = text_of d" "text_of (class_remove c k d) = text_of d"
  "text_of (class_toggle c k d) = text_of d"
  "text_of (fold (class_add c) ks d) = text_of d" "text_of (fold (class_remove c) ks d) = text_of d"
proof -
  show add: "text_of (class_add c k d) = text_of d" and remove: "text_of (class_remove c k d) = text_of d" for c k d
    by (simp_all add: class_add_def class_remove_def)
  show "text_of (class_toggle c k d) = text_of d" by (simp add: class_toggle_def add remove)
  show "text_of (fold (class_add c) ks d) = text_of d" "text_of (fold (class_remove c) ks d) = text_of d"
    by (induction ks arbitrary: d) (simp_all add: add remove)
qed

text \<open>Assigning \<open>className\<close>: the words of the text.\<close>

definition class_words :: "string \<Rightarrow> string list" where
  "class_words s = filter (\<lambda>w. w \<noteq> [])
     (foldr (\<lambda>c ws. if c = CHR '' '' then [] # ws else (c # hd ws) # tl ws) s [[]])"

definition set_class_name :: "string \<Rightarrow> nat \<Rightarrow> document \<Rightarrow> document" where
  "set_class_name s k d = d\<lparr>class_of := (class_of d)(k := class_words s)\<rparr>"

definition set_text :: "string \<Rightarrow> nat \<Rightarrow> document \<Rightarrow> document" where
  "set_text s k d = d\<lparr>text_of := (text_of d)(k := s)\<rparr>"

section \<open>The script's functions on the document\<close>

text \<open>An element that is looked up and missing ends in a \<open>TypeError\<close>: \<open>None\<close>.\<close>

definition on_element :: "nat option \<Rightarrow> (nat \<Rightarrow> document \<Rightarrow> document) \<Rightarrow> document \<Rightarrow> document option" where
  "on_element k f d = map_option (\<lambda>k. f k d) k"

definition set_icon_text :: "string \<Rightarrow> document \<Rightarrow> document option" where
  "set_icon_text s d =
     on_element (Option.bind (by_id ''mobileMenuBtn'') inner_span) (\<lambda>k d. d\<lparr>text_of := (text_of d)(k := s)\<rparr>) d"

definition doc_toggleSidebar :: "document \<Rightarrow> document option" where
  "doc_toggleSidebar = on_element (by_id ''sidebar'') (class_toggle ''collapsed'')"

definition doc_toggleMobileMenu :: "document \<Rightarrow> document option" where
  "doc_toggleMobileMenu d =
     (case by_id ''sidebar'' of None \<Rightarrow> None
      | Some sb \<Rightarrow>
         Option.bind (on_element (by_id ''overlay'') (class_toggle ''active'') (class_toggle ''mobile-open'' sb d))
           (\<lambda>d1. if has_class d1 sb ''mobile-open'' then set_icon_text ''close'' d1 else set_icon_text ''menu'' d1))"

definition doc_closeMobileMenu :: "document \<Rightarrow> document option" where
  "doc_closeMobileMenu d =
     Option.bind (on_element (by_id ''sidebar'') (class_remove ''mobile-open'') d)
       (\<lambda>d1. Option.bind (on_element (by_id ''overlay'') (class_remove ''active'') d1) (set_icon_text ''menu''))"

text \<open>\<open>k\<close> is \<^verbatim>\<open>event.currentTarget\<close>, the element with the handler.\<close>

definition doc_showPage :: "string \<Rightarrow> nat \<Rightarrow> int \<Rightarrow> document \<Rightarrow> document option" where
  "doc_showPage pg k width d =
     Option.bind (on_element (by_id (''page-'' @ pg)) (class_remove ''hidden'') (fold (class_add ''hidden'') (by_id_prefix ''page-'') d))
       (\<lambda>d1. let d2 = class_add ''active'' k (fold (class_remove ''active'') (by_class ''nav-item'' d1) d1)
             in if width \<le> 1024 then doc_closeMobileMenu d2 else Some d2)"

text \<open>The marks of the quick filter buttons: \<open>applyQuickFilter\<close>, \<open>filterByDateRange\<close>, \<open>clearDateFilter\<close>.\<close>

definition doc_applyQuickFilter :: "nat \<Rightarrow> document \<Rightarrow> document" where
  "doc_applyQuickFilter k d = class_add ''active'' k (fold (class_remove ''active'') (by_class ''quick-filter-btn'' d) d)"

definition doc_filterByDateRange :: "document \<Rightarrow> document" where
  "doc_filterByDateRange d = fold (class_remove ''active'') (by_class ''quick-filter-btn'' d) d"

definition doc_clearDateFilter :: "document \<Rightarrow> document" where
  "doc_clearDateFilter d =
     (case by_class ''quick-filter-btn'' d of [] \<Rightarrow> d
      | k # ks \<Rightarrow> fold (class_remove ''active'') ks (class_add ''active'' k d))"

definition sort_class :: "sort_dir \<Rightarrow> string" where
  "sort_class dir = (case dir of Asc \<Rightarrow> ''sort-asc'' | Desc \<Rightarrow> ''sort-desc'')"

definition sortable_headers :: "document \<Rightarrow> nat list" where
  "sortable_headers d = filter (\<lambda>k. mk_tag (index_html ! k) = ''th'') (by_class ''sortable'' d)"

definition doc_updateSortIndicators :: "string \<Rightarrow> sort_dir \<Rightarrow> document \<Rightarrow> document" where
  "doc_updateSortIndicators column dir d =
     (let d1 = fold (class_remove ''sort-desc'') (sortable_headers d) (fold (class_remove ''sort-asc'') (sortable_headers d) d)
      in case header_of_column column of None \<Rightarrow> d1 | Some k \<Rightarrow> class_add (sort_class dir) k d1)"

text \<open>The listener of \<open>resize\<close>, with the new width of the window.\<close>

definition doc_onResize :: "int \<Rightarrow> document \<Rightarrow> document option" where
  "doc_onResize width d = (if width > 1024 then doc_closeMobileMenu d else Some d)"

text \<open>The gateway box: \<open>loadGateway\<close> when its answer has come.\<close>

definition doc_loadGateway :: "(date_value \<Rightarrow> string) \<Rightarrow> js_error + gateway_data \<Rightarrow> document \<Rightarrow> document option" where
  "doc_loadGateway loc reply d =
     (case reply of Inl _ \<Rightarrow> Some d
      | Inr data \<Rightarrow>
          Option.bind (on_element (by_id ''gatewayDot'')
            (set_class_name (''status-dot '' @ (if truthy (g_status data) then ''online'' else ''offline''))) d)
         (\<lambda>d1. Option.bind (on_element (by_id ''deviceId'') (set_text (or_text (g_device_id data) ''N/A'')) d1)
         (\<lambda>d2. Option.bind (on_element (by_id ''firmware'') (set_text (or_text (g_firmware data) ''N/A'')) d2)
         (\<lambda>d3. on_element (by_id ''lastSeen'') (set_text (if truthy (g_last_seen data)
            then loc (case g_last_seen data of None \<Rightarrow> None | Some t \<Rightarrow> time_clip (t * 1000)) else ''Never'')) d3))))"

section \<open>What the records say of the document\<close>

text \<open>The facts about the document the functions rely on, each computed once.\<close>

definition static_class :: "nat \<Rightarrow> string \<Rightarrow> bool" where
  "static_class k c \<longleftrightarrow> c \<in> set (mk_class (index_html ! k))"

lemma positions_elem:
  "positions (\<lambda>k. P (index_html ! k)) = map fst (filter (\<lambda>ke. P (snd ke)) (enumerate 0 index_html))"
proof -
  have "enumerate 0 index_html = map (\<lambda>k. (k, index_html ! k)) [0..<length index_html]"
    by (rule nth_equalityI) (simp_all add: nth_enumerate_eq)
  then show ?thesis by (simp add: positions_def filter_map comp_def)
qed

lemma markup_ids:
  "by_id ''sidebar'' = Some 0" "by_id ''overlay'' = Some 7" "by_id ''mobileMenuBtn'' = Some 5" "inner_span 5 = Some 6"
  "by_id ''page-dashboard'' = Some 8" "by_id ''page-history'' = Some 17" "by_id ''page-settings'' = Some 44"
  "by_id ''gatewayDot'' = Some 10" "by_id ''deviceId'' = Some 11" "by_id ''firmware'' = Some 12" "by_id ''lastSeen'' = Some 13"
  "by_id_prefix ''page-'' = [8, 17, 44]" "length index_html = 45"
  unfolding by_id_def by_id_prefix_def inner_span_def positions_elem by code_simp+

lemma static_places:
  "positions (\<lambda>k. static_class k ''nav-item'') = [2, 3, 4]"
  "positions (\<lambda>k. static_class k ''quick-filter-btn'') = [19, 20, 21, 22, 23]"
  "positions (\<lambda>k. static_class k ''sortable'') = [35, 36, 37, 38, 39, 40, 41]"
  unfolding static_class_def positions_elem by code_simp+

definition page_element :: "nat \<Rightarrow> nat" where
  "page_element i = [8, 17, 44] ! i"

lemma page_found: "i < 3 \<Longrightarrow> by_id (''page-'' @ page_names ! i) = Some (page_element i)"
  by (auto simp: less_Suc_eq numeral_3_eq_3 page_names_def page_element_def markup_ids)

text \<open>The classes that change, and what each stands for; all others stay as in the markup.\<close>

datatype slot =
    Collapsed
  | Mobile_open
  | Overlay_up
  | Page_hidden nat
  | Item_active nat
  | Quick_active nat
  | Sort_marked nat sort_dir

definition slots :: "((nat \<times> string) \<times> slot) list" where
  "slots =
     [((0, ''collapsed''), Collapsed), ((0, ''mobile-open''), Mobile_open), ((7, ''active''), Overlay_up)] @
     map (\<lambda>i. ((page_element i, ''hidden''), Page_hidden i)) [0..<3] @
     map (\<lambda>i. ((2 + i, ''active''), Item_active i)) [0..<3] @
     map (\<lambda>j. ((19 + j, ''active''), Quick_active j)) [0..<5] @
     map (\<lambda>m. ((35 + m, sort_class Asc), Sort_marked m Asc)) [0..<7] @
     map (\<lambda>m. ((35 + m, sort_class Desc), Sort_marked m Desc)) [0..<7]"

fun slot_value :: "nav \<Rightarrow> history \<Rightarrow> slot \<Rightarrow> bool" where
  "slot_value n st Collapsed = collapsed n"
| "slot_value n st Mobile_open = mobileOpen n"
| "slot_value n st Overlay_up = overlayActive n"
| "slot_value n st (Page_hidden i) = (page_names ! i \<in> set (hiddenPages n))"
| "slot_value n st (Item_active i) = (i \<in> set (activeItems n))"
| "slot_value n st (Quick_active j) = (quickActive st = Some j)"
| "slot_value n st (Sort_marked m dir) = (sortMark st = Some (table_columns ! m, dir))"

definition class_expected :: "nav \<Rightarrow> history \<Rightarrow> nat \<Rightarrow> string \<Rightarrow> bool" where
  "class_expected n st k c =
     (case map_of slots (k, c) of None \<Rightarrow> static_class k c | Some s \<Rightarrow> slot_value n st s)"

text \<open>All classes but those of the gateway's dot, and the icon.\<close>

definition shown_as :: "nav \<Rightarrow> history \<Rightarrow> document \<Rightarrow> bool" where
  "shown_as n st d \<longleftrightarrow> (\<forall>k < length index_html. \<forall>c. (k, c) \<notin> {(10, ''online''), (10, ''offline'')} \<longrightarrow>
       has_class d k c = class_expected n st k c) \<and> text_of d 6 = menuIcon n"

text \<open>The gateway's box.\<close>

definition gateway_shown :: "dashboard \<Rightarrow> document \<Rightarrow> bool" where
  "gateway_shown g d \<longleftrightarrow>
     (\<forall>c \<in> {''online'', ''offline''}. has_class d 10 c \<longleftrightarrow> c \<in> set (class_words (gatewayDot g))) \<and>
     text_of d 11 = deviceId g \<and> text_of d 12 = firmwareText g \<and> text_of d 13 = lastSeen g"

definition document_shown :: "nav \<Rightarrow> history \<Rightarrow> dashboard \<Rightarrow> document \<Rightarrow> bool" where
  "document_shown n st g d \<longleftrightarrow> shown_as n st d \<and> gateway_shown g d"

text \<open>The dashboard as \<^verbatim>\<open>index.html\<close> first shows it.\<close>

definition first_dashboard :: dashboard where
  "first_dashboard =
     \<lparr>busyIcon = [], busyText = ''--'', alarmIcon = [], alarmText = ''--'', pumpGrid = [], lastUpdate = ''--:--:--'',
      gatewayDot = ''status-dot offline'', deviceId = ''--'', firmwareText = ''--'', lastSeen = ''--''\<rparr>"

lemma slots_distinct: "distinct (map fst slots)"
  by code_simp

lemma slot_iff: "map_of slots p = Some s \<longleftrightarrow> (p, s) \<in> set slots"
  by (rule map_of_eq_Some_iff [OF slots_distinct])

lemma slot_at:
  "map_of slots p = Some Collapsed \<longleftrightarrow> p = (0, ''collapsed'')"
  "map_of slots p = Some Mobile_open \<longleftrightarrow> p = (0, ''mobile-open'')"
  "map_of slots p = Some Overlay_up \<longleftrightarrow> p = (7, ''active'')"
  "map_of slots p = Some (Page_hidden i) \<longleftrightarrow> i < 3 \<and> p = (page_element i, ''hidden'')"
  "map_of slots p = Some (Item_active i) \<longleftrightarrow> i < 3 \<and> p = (2 + i, ''active'')"
  "map_of slots p = Some (Quick_active j) \<longleftrightarrow> j < 5 \<and> p = (19 + j, ''active'')"
  "map_of slots p = Some (Sort_marked m dir) \<longleftrightarrow> m < 7 \<and> p = (35 + m, sort_class dir)"
  unfolding slot_iff by (cases dir; auto simp: slots_def)+

text \<open>A function that changes the classes of some slots, and its record.\<close>

lemma shown_change:
  assumes "shown_as n st d"
    and "\<And>k c. k < 45 \<Longrightarrow> map_of slots (k, c) = None \<Longrightarrow> has_class d' k c = has_class d k c"
    and "\<And>k c s. k < 45 \<Longrightarrow> map_of slots (k, c) = Some s \<Longrightarrow> has_class d k c = slot_value n st s \<Longrightarrow>
      has_class d' k c = slot_value n' st' s"
    and "text_of d' 6 = menuIcon n'"
  shows "shown_as n' st' d'"
  unfolding shown_as_def
proof (intro conjI allI impI)
  fix k c assume k: "k < length index_html" and other: "(k, c) \<notin> {(10, ''online''), (10, ''offline'')}"
  with assms(1) have "has_class d k c = class_expected n st k c" by (simp add: shown_as_def)
  with k assms(2,3) [of k c] show "has_class d' k c = class_expected n' st' k c"
    by (cases "map_of slots (k, c)") (simp_all add: class_expected_def markup_ids)
qed (rule assms(4))

lemma by_class_static:
  assumes "shown_as n st d" "\<And>k. map_of slots (k, c) = None" "c \<notin> {''online'', ''offline''}"
  shows "by_class c d = positions (\<lambda>k. static_class k c)"
  unfolding by_class_def positions_def
  using assms by (intro filter_cong) (auto simp: shown_as_def class_expected_def simp flip: has_class_def)

lemma free_classes: "c \<in> {''nav-item'', ''quick-filter-btn'', ''sortable''} \<Longrightarrow> map_of slots (k, c) = None"
proof (rule ccontr)
  have free: "list_all (\<lambda>ps. snd (fst ps) \<notin> {''nav-item'', ''quick-filter-btn'', ''sortable''}) slots" by code_simp
  assume "c \<in> {''nav-item'', ''quick-filter-btn'', ''sortable''}" "map_of slots (k, c) \<noteq> None"
  then obtain s where "((k, c), s) \<in> set slots" by (auto dest: map_of_SomeD)
  with free \<open>c \<in> _\<close> show False by (auto simp: list_all_iff)
qed

lemma class_marks:
  assumes "shown_as n st d"
  shows "by_class ''nav-item'' d = [2, 3, 4]" "by_class ''quick-filter-btn'' d = [19, 20, 21, 22, 23]"
    "by_class ''sortable'' d = [35, 36, 37, 38, 39, 40, 41]"
  using by_class_static [OF assms free_classes, of "''nav-item''"] by_class_static [OF assms free_classes, of "''quick-filter-btn''"]
    by_class_static [OF assms free_classes, of "''sortable''"]
  by (simp_all add: static_places)

lemma slot_numbers:
  "k \<in> set [8, 17, 44] \<longleftrightarrow> (\<exists>i < 3. k = page_element i)" "k \<in> set [2, 3, 4] \<longleftrightarrow> (\<exists>i < 3. k = 2 + i)"
  "k \<in> set [19, 20, 21, 22, 23] \<longleftrightarrow> (\<exists>j < 5. k = 19 + j)"
  "k \<in> set [35, 36, 37, 38, 39, 40, 41] \<longleftrightarrow> (\<exists>m < 7. k = 35 + m)"
  by (simp_all add: page_element_def Ex_less_Suc2 eval_nat_numeral)

lemma slot_of_pair:
  "k \<in> set [8, 17, 44] \<and> c = ''hidden'' \<longleftrightarrow> (\<exists>i. map_of slots (k, c) = Some (Page_hidden i))"
  "k \<in> set [2, 3, 4] \<and> c = ''active'' \<longleftrightarrow> (\<exists>i. map_of slots (k, c) = Some (Item_active i))"
  "k \<in> set [19, 20, 21, 22, 23] \<and> c = ''active'' \<longleftrightarrow> (\<exists>j. map_of slots (k, c) = Some (Quick_active j))"
  "k \<in> set [35, 36, 37, 38, 39, 40, 41] \<and> c = sort_class dir \<longleftrightarrow> (\<exists>m. map_of slots (k, c) = Some (Sort_marked m dir))"
  unfolding slot_at slot_numbers by blast+

lemma icon_shown: "set_icon_text s d = Some (d\<lparr>text_of := (text_of d)(6 := s)\<rparr>)"
  by (simp add: set_icon_text_def on_element_def markup_ids)

lemma has_class_text [simp]: "has_class (d\<lparr>text_of := f\<rparr>) k c = has_class d k c"
  by (simp add: has_class_def)

lemma shown_icon: "shown_as n st d \<Longrightarrow> text_of d 6 = menuIcon n"
  by (simp add: shown_as_def)

section \<open>The functions keep the records true\<close>

lemma slot_of_single:
  "k = 0 \<and> c = ''collapsed'' \<longleftrightarrow> map_of slots (k, c) = Some Collapsed"
  "k = 0 \<and> c = ''mobile-open'' \<longleftrightarrow> map_of slots (k, c) = Some Mobile_open"
  "k = 7 \<and> c = ''active'' \<longleftrightarrow> map_of slots (k, c) = Some Overlay_up"
  unfolding slot_at by simp_all

lemma shown_toggleSidebar:
  assumes "shown_as n st d"
  shows "\<exists>d'. doc_toggleSidebar d = Some d' \<and> shown_as (toggleSidebar n) st d'"
proof -
  have "shown_as (toggleSidebar n) st (class_toggle ''collapsed'' 0 d)"
  proof (rule shown_change [OF assms])
    fix k c s assume "map_of slots (k, c) = Some s" "has_class d k c = slot_value n st s"
    then show "has_class (class_toggle ''collapsed'' 0 d) k c = slot_value (toggleSidebar n) st s"
      by (cases s) (simp_all only: has_class_set slot_of_single toggleSidebar_def, simp_all)
  qed (simp_all only: has_class_set slot_of_single, simp_all add: shown_icon [OF assms] toggleSidebar_def)
  then show ?thesis by (simp add: doc_toggleSidebar_def on_element_def markup_ids)
qed

lemma shown_menu:
  assumes "shown_as n st d"
  shows "shown_as (closeMobileMenu n) st
      ((class_remove ''active'' 7 (class_remove ''mobile-open'' 0 d))\<lparr>text_of := (text_of d)(6 := ''menu'')\<rparr>)"
    and "shown_as (toggleMobileMenu n) st
      ((class_toggle ''active'' 7 (class_toggle ''mobile-open'' 0 d))\<lparr>text_of := (text_of d)(6 := (if mobileOpen n then ''menu'' else ''close''))\<rparr>)"
proof -
  have close: "slot_value (closeMobileMenu n) st s = (slot_value n st s \<and> s \<noteq> Mobile_open \<and> s \<noteq> Overlay_up)"
    and toggle: "slot_value (toggleMobileMenu n) st s = (if s = Mobile_open \<or> s = Overlay_up then \<not> slot_value n st s else slot_value n st s)" for s
    by (cases s; simp add: closeMobileMenu_def toggleMobileMenu_def Let_def)+
  show "shown_as (closeMobileMenu n) st
      ((class_remove ''active'' 7 (class_remove ''mobile-open'' 0 d))\<lparr>text_of := (text_of d)(6 := ''menu'')\<rparr>)"
    by (rule shown_change [OF assms])
      (simp_all only: has_class_text has_class_set slot_of_single close, simp_all add: closeMobileMenu_def)
  show "shown_as (toggleMobileMenu n) st
      ((class_toggle ''active'' 7 (class_toggle ''mobile-open'' 0 d))\<lparr>text_of := (text_of d)(6 := (if mobileOpen n then ''menu'' else ''close''))\<rparr>)"
    by (rule shown_change [OF assms])
      (simp_all only: has_class_text has_class_set slot_of_single toggle, simp_all add: toggleMobileMenu_def Let_def)
qed

lemma shown_closeMobileMenu:
  assumes "shown_as n st d"
  shows "\<exists>d'. doc_closeMobileMenu d = Some d' \<and> shown_as (closeMobileMenu n) st d'"
  using shown_menu(1) [OF assms] by (simp add: doc_closeMobileMenu_def on_element_def markup_ids icon_shown)

lemma shown_toggleMobileMenu:
  assumes "shown_as n st d"
  shows "\<exists>d'. doc_toggleMobileMenu d = Some d' \<and> shown_as (toggleMobileMenu n) st d'"
proof -
  have "map_of slots (0, ''mobile-open'') = Some Mobile_open" by (simp add: slot_at)
  then have "has_class d 0 ''mobile-open'' = mobileOpen n"
    using assms by (simp add: shown_as_def class_expected_def markup_ids)
  with shown_menu(2) [OF assms] show ?thesis
    by (simp add: doc_toggleMobileMenu_def on_element_def markup_ids icon_shown split: if_splits)
qed

text \<open>Of a group of slots exactly one is set.\<close>

lemma shown_showPage_classes:
  assumes "shown_as n st d" "i < 3"
  shows "shown_as (n\<lparr>hiddenPages := filter (\<lambda>p. p \<noteq> page_names ! i) page_names, activeItems := [i]\<rparr>) st
    (class_add ''active'' (2 + i) (fold (class_remove ''active'') [2, 3, 4]
      (class_remove ''hidden'' (page_element i) (fold (class_add ''hidden'') [8, 17, 44] d))))"
    (is "shown_as ?n st ?d")
proof (rule shown_change [OF assms(1)])
  have one: "k = page_element i \<and> c = ''hidden'' \<longleftrightarrow> map_of slots (k, c) = Some (Page_hidden i)"
    "k = 2 + i \<and> c = ''active'' \<longleftrightarrow> map_of slots (k, c) = Some (Item_active i)" for k c
    using assms(2) by (simp_all add: slot_at)
  have vals: "slot_value ?n st s = (case s of Page_hidden j \<Rightarrow> page_names ! j \<in> set page_names \<and> page_names ! j \<noteq> page_names ! i
      | Item_active j \<Rightarrow> j = i | _ \<Rightarrow> slot_value n st s)" for s
    by (cases s) auto
  have names: "page_names ! j \<in> set page_names \<and> page_names ! j \<noteq> page_names ! i \<longleftrightarrow> j \<noteq> i" if "j < 3" for j
    using that assms(2) nth_mem [of j page_names] by (auto simp: page_names_def nth_eq_iff_index_eq)
  fix k c s assume slot: "map_of slots (k, c) = Some s" "has_class d k c = slot_value n st s"
  then show "has_class ?d k c = slot_value ?n st s"
    by (cases s) (simp_all only: has_class_set has_class_fold slot_of_pair one vals, auto simp: names slot_at(4))
next
  fix k c assume "map_of slots (k, c) = None"
  moreover have "k = page_element i \<and> c = ''hidden'' \<longrightarrow> map_of slots (k, c) = Some (Page_hidden i)"
    "k = 2 + i \<and> c = ''active'' \<longrightarrow> map_of slots (k, c) = Some (Item_active i)"
    using assms(2) by (simp_all add: slot_at)
  ultimately show "has_class ?d k c = has_class d k c" by (simp only: has_class_set has_class_fold slot_of_pair) auto
qed (simp add: shown_icon [OF assms(1)])

lemma shown_showPage:
  assumes "shown_as n st d" "i < 3"
  shows "\<exists>d'. doc_showPage (page_names ! i) (2 + i) (innerWidth n) d = Some d' \<and>
    shown_as (fst (showPage (page_names ! i) i n)) st d'"
proof -
  let ?d1 = "class_remove ''hidden'' (page_element i) (fold (class_add ''hidden'') [8, 17, 44] d)"
  let ?d2 = "class_add ''active'' (2 + i) (fold (class_remove ''active'') [2, 3, 4] ?d1)"
  let ?n = "n\<lparr>hiddenPages := filter (\<lambda>p. p \<noteq> page_names ! i) page_names, activeItems := [i]\<rparr>"
  have "has_class ?d1 k ''nav-item'' = has_class d k ''nav-item''" for k by simp
  then have "by_class ''nav-item'' ?d1 = by_class ''nav-item'' d" by (simp only: by_class_def flip: has_class_def)
  with class_marks(1) [OF assms(1)] have items: "by_class ''nav-item'' ?d1 = [2, 3, 4]" by simp
  have doc: "doc_showPage (page_names ! i) (2 + i) (innerWidth n) d =
      (if innerWidth n \<le> 1024 then doc_closeMobileMenu ?d2 else Some ?d2)"
    by (simp only: doc_showPage_def on_element_def page_found [OF assms(2)] markup_ids option.map bind.simps Let_def items)
  have "page_names ! i \<in> set page_names" using assms(2) by (intro nth_mem) (simp add: page_names_def)
  then have rec: "fst (showPage (page_names ! i) i n) = (if innerWidth n \<le> 1024 then closeMobileMenu ?n else ?n)"
    by (simp add: showPage_def Let_def)
  show ?thesis
    using shown_showPage_classes [OF assms] shown_closeMobileMenu [OF shown_showPage_classes [OF assms]]
    unfolding doc rec by simp
qed

lemma shown_quick:
  assumes "shown_as n st d" "\<And>k c. has_class d' k c =
      (if k \<in> set [19, 20, 21, 22, 23] \<and> c = ''active'' then q = Some (k - 19) else has_class d k c)"
    "text_of d' = text_of d"
  shows "shown_as n (st\<lparr>quickActive := q\<rparr>) d'"
proof (rule shown_change [OF assms(1)])
  have vals: "slot_value n (st\<lparr>quickActive := q\<rparr>) s = (case s of Quick_active j \<Rightarrow> q = Some j | _ \<Rightarrow> slot_value n st s)" for s
    by (cases s) simp_all
  fix k c s assume slot: "map_of slots (k, c) = Some s" "has_class d k c = slot_value n st s"
  then show "has_class d' k c = slot_value n (st\<lparr>quickActive := q\<rparr>) s"
    by (cases s) (simp_all only: assms(2) slot_of_pair vals, auto simp: slot_at(6))
qed (simp_all only: assms(2,3) slot_of_pair, simp_all add: shown_icon [OF assms(1)])

lemma shown_quick_marks:
  assumes "shown_as n st d"
  shows "j < 5 \<Longrightarrow> shown_as n (st\<lparr>quickActive := Some j\<rparr>) (doc_applyQuickFilter (19 + j) d)"
    and "shown_as n (st\<lparr>quickActive := None\<rparr>) (doc_filterByDateRange d)"
    and "shown_as n (st\<lparr>quickActive := Some 0\<rparr>) (doc_clearDateFilter d)"
proof -
  show "shown_as n (st\<lparr>quickActive := None\<rparr>) (doc_filterByDateRange d)"
    by (rule shown_quick [OF assms]) (auto simp: doc_filterByDateRange_def class_marks [OF assms])
  show "shown_as n (st\<lparr>quickActive := Some 0\<rparr>) (doc_clearDateFilter d)"
    by (rule shown_quick [OF assms]) (auto simp: doc_clearDateFilter_def class_marks [OF assms])
  assume "j < 5"
  then have place: "19 + j \<in> set [19, 20, 21, 22, 23]" unfolding slot_numbers by blast
  have num: "k \<in> set [19, 20, 21, 22, 23] \<Longrightarrow> k = 19 + j \<longleftrightarrow> Some j = Some (k - 19)" for k by auto
  show "shown_as n (st\<lparr>quickActive := Some j\<rparr>) (doc_applyQuickFilter (19 + j) d)"
  proof (rule shown_quick [OF assms])
    show "has_class (doc_applyQuickFilter (19 + j) d) k c =
        (if k \<in> set [19, 20, 21, 22, 23] \<and> c = ''active'' then Some j = Some (k - 19) else has_class d k c)" for k c
      unfolding doc_applyQuickFilter_def class_marks [OF assms] has_class_set has_class_fold using place num [of k] by metis
  qed (simp add: doc_applyQuickFilter_def)
qed

lemma header_columns: "header_of_column c = map_of (zip table_columns [35, 36, 37, 38, 39, 40, 41]) c"
proof (cases "c \<in> set table_columns")
  case True
  have "list_all (\<lambda>c. header_of_column c = map_of (zip table_columns [35, 36, 37, 38, 39, 40, 41]) c) table_columns"
    unfolding header_of_column_def
      positions_elem [where P = "\<lambda>e. mk_tag e = ''th'' \<and> mk_values e = [c]" for c] by code_simp
  with True show ?thesis by (simp add: list_all_iff)
next
  case False
  have "list_all (\<lambda>e. mk_tag e = ''th'' \<longrightarrow> hd (mk_values e) \<in> set table_columns) index_html" by code_simp
  then have "mk_tag (index_html ! k) = ''th'' \<Longrightarrow> mk_values (index_html ! k) \<noteq> [c]" if "k < length index_html" for k
    using False that by (auto simp: list_all_length)
  then have "header_of_column c = None"
    by (auto simp: header_of_column_def first_of_def positions_def filter_empty_conv split: list.split)
  moreover have "map_of (zip table_columns [35 :: nat, 36, 37, 38, 39, 40, 41]) c = None"
    using False by (simp add: map_of_eq_None_iff table_columns_def)
  ultimately show ?thesis by simp
qed

lemma header_tags: "list_all (\<lambda>k. mk_tag (index_html ! k) = ''th'') [35, 36, 37, 38, 39, 40, 41]"
  by code_simp

lemma header_place: "m < 7 \<Longrightarrow> [35, 36, 37, 38, 39, 40, 41] ! m = 35 + m"
  by (auto simp: less_Suc_eq numeral_eq_Suc)

lemma shown_sort:
  assumes "shown_as n st d"
  shows "shown_as n (updateSortIndicators st) (doc_updateSortIndicators (sortColumn st) (sortDirection st) d)"
proof -
  let ?hs = "[35, 36, 37, 38, 39, 40, 41] :: nat list"
  have heads: "sortable_headers d = ?hs"
    using header_tags by (simp add: sortable_headers_def class_marks [OF assms])
  let ?d1 = "fold (class_remove (sort_class Desc)) ?hs (fold (class_remove (sort_class Asc)) ?hs d)"
  have doc: "doc_updateSortIndicators (sortColumn st) (sortDirection st) d =
      (case map_of (zip table_columns ?hs) (sortColumn st) of None \<Rightarrow> ?d1 | Some k \<Rightarrow> class_add (sort_class (sortDirection st)) k ?d1)"
    by (simp only: doc_updateSortIndicators_def heads header_columns Let_def sort_class_def sort_dir.case)
  let ?st = "updateSortIndicators st"
  have vals: "slot_value n ?st s = (case s of Sort_marked m dir \<Rightarrow> sortMark ?st = Some (table_columns ! m, dir) | _ \<Rightarrow> slot_value n st s)" for s
    by (cases s) (simp_all add: updateSortIndicators_def)
  show ?thesis
  proof (cases "sortColumn st \<in> set table_columns")
    case True
    then obtain m where "m < length table_columns" "table_columns ! m = sortColumn st" unfolding in_set_conv_nth by blast
    then have m: "m < 7" "sortColumn st = table_columns ! m" by (simp_all add: table_columns_def)
    have "map_of (zip table_columns ?hs) (table_columns ! m) = Some (?hs ! m)"
      using m(1) by (intro map_of_zip_nth) (simp_all add: table_columns_def)
    moreover have "?hs ! m = 35 + m" using m(1) by (rule header_place)
    ultimately have key: "map_of (zip table_columns ?hs) (sortColumn st) = Some (35 + m)" by (simp only: m(2))
    have doc': "doc_updateSortIndicators (sortColumn st) (sortDirection st) d =
        class_add (sort_class (sortDirection st)) (35 + m) ?d1"
      unfolding doc key by simp
    have one: "k = 35 + m \<and> c = sort_class dir \<longleftrightarrow> map_of slots (k, c) = Some (Sort_marked m dir)" for k c dir
      using m(1) by (simp add: slot_at)
    have mark: "sortMark ?st = Some (table_columns ! m, sortDirection st)" using m True by (simp add: updateSortIndicators_def)
    have names: "table_columns ! i = table_columns ! m \<longleftrightarrow> i = m" "table_columns ! m = table_columns ! i \<longleftrightarrow> i = m"
      if "i < 7" for i
      using that m(1) by (auto simp: nth_eq_iff_index_eq table_columns_def)
    show ?thesis unfolding doc'
    proof (rule shown_change [OF assms])
      fix k c s assume slot: "map_of slots (k, c) = Some s" "has_class d k c = slot_value n st s"
      show "has_class (class_add (sort_class (sortDirection st)) (35 + m) ?d1) k c = slot_value n ?st s"
      proof (cases s)
        case (Sort_marked i dir)
        with slot show ?thesis by (cases dir; simp only: has_class_set has_class_fold slot_of_pair one vals; simp add: names slot_at mark; auto)
      qed (use slot in \<open>simp_all only: has_class_set has_class_fold slot_of_pair one vals, simp_all\<close>)
    qed (simp_all only: has_class_set has_class_fold slot_of_pair one, simp_all add: shown_icon [OF assms])
  next
    case False
    then have "map_of (zip table_columns ?hs) (sortColumn st) = None" by (simp add: map_of_eq_None_iff table_columns_def)
    then have doc': "doc_updateSortIndicators (sortColumn st) (sortDirection st) d = ?d1" by (simp only: doc option.case)
    have mark: "sortMark ?st = None" using False by (simp add: updateSortIndicators_def)
    show ?thesis unfolding doc'
    proof (rule shown_change [OF assms])
      fix k c s assume slot: "map_of slots (k, c) = Some s" "has_class d k c = slot_value n st s"
      show "has_class ?d1 k c = slot_value n ?st s"
      proof (cases s)
        case (Sort_marked i dir)
        with slot show ?thesis by (cases dir; simp only: has_class_set has_class_fold slot_of_pair vals; simp add: mark; auto)
      qed (use slot in \<open>simp_all only: has_class_set has_class_fold slot_of_pair vals, simp_all\<close>)
    qed (simp_all only: has_class_set has_class_fold slot_of_pair, simp_all add: shown_icon [OF assms])
  qed
qed

lemma shown_cong:
  "shown_as n st d \<Longrightarrow> quickActive st' = quickActive st \<Longrightarrow> sortMark st' = sortMark st \<Longrightarrow> shown_as n st' d"
proof -
  assume marks: "quickActive st' = quickActive st" "sortMark st' = sortMark st"
  have "slot_value n st' s = slot_value n st s" for s by (cases s) (simp_all add: marks)
  then have same: "slot_value n st' = slot_value n st" by (rule ext)
  assume "shown_as n st d"
  then show "shown_as n st' d" unfolding shown_as_def class_expected_def same .
qed

lemma initial_slots:
  "list_all (\<lambda>ps. static_class (fst (fst ps)) (snd (fst ps)) = slot_value (initial_nav 0) initial_history (snd ps)) slots"
  by code_simp

lemma shown_initial: "shown_as (initial_nav w) initial_history initial_document"
proof -
  have width: "slot_value (initial_nav w) initial_history s = slot_value (initial_nav 0) initial_history s" for s
    by (cases s) (simp_all add: initial_nav_def)
  have "has_class initial_document k c = class_expected (initial_nav w) initial_history k c" for k c
  proof (cases "map_of slots (k, c)")
    case (Some s)
    then have "((k, c), s) \<in> set slots" by (rule map_of_SomeD)
    with initial_slots have "static_class k c = slot_value (initial_nav 0) initial_history s" by (fastforce simp: list_all_iff)
    with Some show ?thesis by (simp add: has_class_def initial_document_def class_expected_def static_class_def width)
  qed (simp add: has_class_def initial_document_def class_expected_def static_class_def)
  then show ?thesis by (simp add: shown_as_def initial_document_def initial_nav_def)
qed

lemma handler_marks:
  "quickActive (fst (applyQuickFilter tza j r now st)) = Some j \<and> sortMark (fst (applyQuickFilter tza j r now st)) = sortMark st"
  "quickActive (fst (filterByDateRange tza st)) = None \<and> sortMark (fst (filterByDateRange tza st)) = sortMark st"
  "quickActive (fst (clearDateFilter st)) = Some 0 \<and> sortMark (fst (clearDateFilter st)) = sortMark st"
  "quickActive (fst (refreshHistory st)) = Some 0 \<and> sortMark (fst (refreshHistory st)) = sortMark st"
  by (simp_all add: applyQuickFilter_def filterByDateRange_def clearDateFilter_def refreshHistory_def loadHistory_def
      showHistoryLoading_def Let_def split: prod.split sum.split)

lemma shown_marks:
  assumes "shown_as n (st\<lparr>quickActive := q\<rparr>) d" "quickActive st' = q \<and> sortMark st' = sortMark st"
  shows "shown_as n st' d"
  by (rule shown_cong [OF assms(1)]) (simp_all add: assms(2))

section \<open>The gateway's box and the window's width\<close>

text \<open>What changes neither the dot nor the box's texts.\<close>

definition keeps_gateway :: "document \<Rightarrow> document \<Rightarrow> bool" where
  "keeps_gateway d d' \<longleftrightarrow>
     (\<forall>k. \<forall>c \<in> {''online'', ''offline''}. has_class d' k c = has_class d k c) \<and> (\<forall>k. k \<noteq> 6 \<longrightarrow> text_of d' k = text_of d k)"

lemma keeps_shown: "keeps_gateway d d' \<Longrightarrow> gateway_shown g d \<Longrightarrow> gateway_shown g d'"
  by (simp add: keeps_gateway_def gateway_shown_def)

lemma keeps_menu:
  "doc_toggleSidebar d = Some d' \<Longrightarrow> keeps_gateway d d'" "doc_toggleMobileMenu d = Some d' \<Longrightarrow> keeps_gateway d d'"
  "doc_closeMobileMenu d = Some d' \<Longrightarrow> keeps_gateway d d'"
  by (auto simp: doc_toggleSidebar_def doc_toggleMobileMenu_def doc_closeMobileMenu_def on_element_def markup_ids icon_shown
      keeps_gateway_def split: if_splits)

lemma keeps_showPage: "doc_showPage pg k w d = Some d' \<Longrightarrow> keeps_gateway d d'"
proof -
  assume "doc_showPage pg k w d = Some d'"
  then obtain j d2 where j: "d2 = class_add ''active'' k (fold (class_remove ''active'')
        (by_class ''nav-item'' (class_remove ''hidden'' j (fold (class_add ''hidden'') (by_id_prefix ''page-'') d)))
        (class_remove ''hidden'' j (fold (class_add ''hidden'') (by_id_prefix ''page-'') d)))"
      "(if w \<le> 1024 then doc_closeMobileMenu d2 else Some d2) = Some d'"
    by (auto simp: doc_showPage_def on_element_def Let_def bind_eq_Some_conv)
  then have "keeps_gateway d d2" by (simp add: keeps_gateway_def)
  with j(2) keeps_menu(3) [of d2 d'] show ?thesis by (auto simp: keeps_gateway_def split: if_splits)
qed

lemma keeps_quick:
  "keeps_gateway d (doc_applyQuickFilter k d)" "keeps_gateway d (doc_filterByDateRange d)" "keeps_gateway d (doc_clearDateFilter d)"
  by (auto simp: keeps_gateway_def doc_applyQuickFilter_def doc_filterByDateRange_def doc_clearDateFilter_def split: list.split)

lemma keeps_sort: "keeps_gateway d (doc_updateSortIndicators c dir d)"
  by (auto simp: keeps_gateway_def doc_updateSortIndicators_def sort_class_def Let_def split: option.split sort_dir.split)

lemma width_free:
  assumes "shown_as n st d" shows "shown_as (n\<lparr>innerWidth := w\<rparr>) st d"
proof -
  have "slot_value (n\<lparr>innerWidth := w\<rparr>) st s = slot_value n st s" for s by (cases s) simp_all
  then have same: "slot_value (n\<lparr>innerWidth := w\<rparr>) st = slot_value n st" by (rule ext)
  show ?thesis using assms unfolding shown_as_def class_expected_def same by simp
qed

lemma shown_resize:
  assumes "shown_as n st d"
  shows "\<exists>d'. doc_onResize w d = Some d' \<and> shown_as (onResize w n) st d'"
  using shown_closeMobileMenu [OF width_free [OF assms, of w]] width_free [OF assms, of w]
  by (simp add: doc_onResize_def onResize_def Let_def)

lemma dot_words:
  "class_words ''status-dot online'' = [''status-dot'', ''online'']"
  "class_words ''status-dot offline'' = [''status-dot'', ''offline'']"
  by code_simp+

lemma shown_gateway:
  assumes "document_shown n st g d"
  shows "\<exists>d'. doc_loadGateway loc reply d = Some d' \<and> document_shown n st (loadGateway loc reply g) d'"
proof (cases reply)
  case (Inl e)
  with assms show ?thesis by (simp add: doc_loadGateway_def loadGateway_def)
next
  case (Inr data)
  let ?word = "if truthy (g_status data) then ''online'' else ''offline''"
  let ?seen = "if truthy (g_last_seen data)
     then loc (case g_last_seen data of None \<Rightarrow> None | Some t \<Rightarrow> time_clip (t * 1000)) else ''Never''"
  define d1 where "d1 = set_text ?seen 13 (set_text (or_text (g_firmware data) ''N/A'') 12
    (set_text (or_text (g_device_id data) ''N/A'') 11 (set_class_name (''status-dot '' @ ?word) 10 d)))"
  have doc: "doc_loadGateway loc reply d = Some d1"
    by (simp add: doc_loadGateway_def Inr on_element_def markup_ids d1_def)
  have cls: "has_class d1 k c = (if k = 10 then c = ''status-dot'' \<or> c = ?word else has_class d k c)" for k c
    by (auto simp: d1_def set_text_def set_class_name_def has_class_def dot_words)
  have txts: "text_of d1 6 = text_of d 6" "text_of d1 11 = or_text (g_device_id data) ''N/A''"
    "text_of d1 12 = or_text (g_firmware data) ''N/A''" "text_of d1 13 = ?seen"
    by (simp_all add: d1_def set_text_def set_class_name_def)
  have old: "shown_as n st d" using assms by (simp add: document_shown_def)
  have dot: "map_of slots (10, c) = None" for c
    by (rule ccontr) (auto dest!: map_of_SomeD simp: slots_def page_element_def less_Suc_eq numeral_3_eq_3)
  have "static_class 10 ''status-dot''" "\<And>c. static_class 10 c \<Longrightarrow> c = ''status-dot'' \<or> c = ''offline''"
    by (simp_all add: static_class_def index_html_def nav_markup_def dashboard_markup_def elem_def)
  then have "shown_as n st d1"
    using old txts(1) unfolding shown_as_def
    by (auto simp: cls class_expected_def dot split: if_splits)
  moreover have "gateway_shown (loadGateway loc reply g) d1"
    by (simp add: gateway_shown_def Inr loadGateway_def cls txts dot_words)
  ultimately show ?thesis using doc by (simp add: document_shown_def)
qed

lemma gateway_initial: "gateway_shown first_dashboard initial_document"
proof -
  have "has_class initial_document 10 ''offline''" "\<not> has_class initial_document 10 ''online''"
    by (simp_all add: has_class_def initial_document_def index_html_def nav_markup_def dashboard_markup_def elem_def)
  then show ?thesis by (simp add: gateway_shown_def first_dashboard_def dot_words) (simp add: initial_document_def)
qed

section \<open>Handlers and ids\<close>

definition quick_ranges :: "string list" where
  "quick_ranges = [''all'', ''today'', ''yesterday'', ''week'', ''month'']"

text \<open>What each control's attribute calls: the places of the controls, with their handlers.\<close>

definition wired :: "nat \<Rightarrow> handler \<Rightarrow> bool" where
  "wired k h \<longleftrightarrow> mk_handler (index_html ! k) = Some h"

text \<open>The controls whose functions change no class.\<close>

lemma other_controls_wired:
  "wired 18 On_handleSearchInput" "wired 27 (On_filterByStatus ''pump1'')" "wired 28 (On_filterByStatus ''pump2'')"
  "wired 29 On_exportToCSV" "mk_id (index_html ! 27) = ''filterP1''" "mk_id (index_html ! 28) = ''filterP2''"
  by code_simp+

lemma controls_wired:
  "i < 3 \<Longrightarrow> wired (2 + i) (On_showPage (page_names ! i))"
  "j < 5 \<Longrightarrow> wired (19 + j) (On_applyQuickFilter (quick_ranges ! j))"
  "m < 7 \<Longrightarrow> wired (35 + m) (On_sortTable (table_columns ! m))"
  "wired 1 On_toggleSidebar" "wired 5 On_toggleMobileMenu" "wired 7 On_closeMobileMenu"
  "wired 24 On_filterByDateRange" "wired 25 On_filterByDateRange" "wired 26 On_clearDateFilter" "wired 30 On_refreshHistory"
proof -
  have all: "list_all (\<lambda>i. wired (2 + i) (On_showPage (page_names ! i))) [0..<3]"
    "list_all (\<lambda>j. wired (19 + j) (On_applyQuickFilter (quick_ranges ! j))) [0..<5]"
    "list_all (\<lambda>m. wired (35 + m) (On_sortTable (table_columns ! m))) [0..<7]"
    by code_simp+
  show "i < 3 \<Longrightarrow> wired (2 + i) (On_showPage (page_names ! i))"
    "j < 5 \<Longrightarrow> wired (19 + j) (On_applyQuickFilter (quick_ranges ! j))"
    "m < 7 \<Longrightarrow> wired (35 + m) (On_sortTable (table_columns ! m))"
    using all unfolding list_all_iff set_upt by simp_all
  show "wired 1 On_toggleSidebar" "wired 5 On_toggleMobileMenu" "wired 7 On_closeMobileMenu"
    "wired 24 On_filterByDateRange" "wired 25 On_filterByDateRange" "wired 26 On_clearDateFilter" "wired 30 On_refreshHistory"
    by code_simp+
qed

text \<open>The ids the script looks up are each carried by one element.\<close>

definition script_ids :: "string list" where
  "script_ids =
     [''sidebar'', ''overlay'', ''mobileMenuBtn'', ''page-dashboard'', ''page-history'', ''page-settings'',
      ''busyStatus'', ''alarmStatus'', ''pumpGrid'', ''lastUpdate'', ''gatewayDot'', ''deviceId'', ''firmware'', ''lastSeen'',
      ''historyBody'', ''paginationContainer'', ''filterP1'', ''filterP2'', ''searchInput'', ''datetimeFrom'', ''datetimeTo'',
      ''totalRecords'', ''filteredRecords'', ''dateRange'']"

lemma ids_once: "list_all (\<lambda>i. length (filter (\<lambda>e. mk_id e = i) index_html) = 1) script_ids"
  by code_simp

section \<open>Properties\<close>

text \<open>
  C19. On the document of \<^verbatim>\<open>index.html\<close> the functions of the script that change classes do what the records say. At
  the start and after each of them (\<open>toggleSidebar\<close>, \<open>toggleMobileMenu\<close>, \<open>closeMobileMenu\<close>, the listener of
  \<open>resize\<close>, \<open>showPage\<close>, \<open>loadGateway\<close> with any answer, \<open>applyQuickFilter\<close>, \<open>filterByDateRange\<close>, \<open>clearDateFilter\<close>,
  \<open>refreshHistory\<close>, \<open>updateSortIndicators\<close>) the classes of all listed elements, the menu icon and the texts of the gateway's box are
  those the fields of the records describe, and no lookup fails. The controls call these functions: each navigation
  item its page, each quick filter button its range, each column header its column, both date inputs, the clear, refresh, toggle and
  menu buttons and the overlay their own.
\<close>

theorem document_follows_records:
  assumes "document_shown n st g d"
  shows "document_shown (initial_nav w) initial_history first_dashboard initial_document \<and>
    (wired 1 On_toggleSidebar \<and> (\<exists>d'. doc_toggleSidebar d = Some d' \<and> document_shown (toggleSidebar n) st g d')) \<and>
    (wired 5 On_toggleMobileMenu \<and> (\<exists>d'. doc_toggleMobileMenu d = Some d' \<and> document_shown (toggleMobileMenu n) st g d')) \<and>
    (wired 7 On_closeMobileMenu \<and> (\<exists>d'. doc_closeMobileMenu d = Some d' \<and> document_shown (closeMobileMenu n) st g d')) \<and>
    (\<exists>d'. doc_onResize w d = Some d' \<and> document_shown (onResize w n) st g d') \<and>
    (\<exists>d'. doc_loadGateway loc reply d = Some d' \<and> document_shown n st (loadGateway loc reply g) d') \<and>
    (i < 3 \<longrightarrow> wired (2 + i) (On_showPage (page_names ! i)) \<and>
       (\<exists>d'. doc_showPage (page_names ! i) (2 + i) (innerWidth n) d = Some d' \<and>
         document_shown (fst (showPage (page_names ! i) i n)) st g d')) \<and>
    (j < 5 \<longrightarrow> wired (19 + j) (On_applyQuickFilter (quick_ranges ! j)) \<and>
       document_shown n (fst (applyQuickFilter tza j (quick_ranges ! j) now st)) g (doc_applyQuickFilter (19 + j) d)) \<and>
    (wired 24 On_filterByDateRange \<and> wired 25 On_filterByDateRange \<and>
       document_shown n (fst (filterByDateRange tza st)) g (doc_filterByDateRange d)) \<and>
    (wired 26 On_clearDateFilter \<and> document_shown n (fst (clearDateFilter st)) g (doc_clearDateFilter d)) \<and>
    (wired 30 On_refreshHistory \<and> document_shown n (fst (refreshHistory st)) g (doc_clearDateFilter d)) \<and>
    (m < 7 \<longrightarrow> wired (35 + m) (On_sortTable (table_columns ! m))) \<and>
    document_shown n (updateSortIndicators st) g (doc_updateSortIndicators (sortColumn st) (sortDirection st) d)"
proof -
  have old: "shown_as n st d" and gate: "gateway_shown g d" using assms by (simp_all add: document_shown_def)
  note keep = keeps_shown [OF _ gate]
  have both: "\<exists>d'. r = Some d' \<and> document_shown n' st g d'"
    if "\<exists>d'. r = Some d' \<and> shown_as n' st d'" "\<And>d'. r = Some d' \<Longrightarrow> keeps_gateway d d'" for r n'
    using that keep by (auto simp: document_shown_def)
  have resize: "keeps_gateway d d'" if "doc_onResize w d = Some d'" for d'
    using that keeps_menu(3) [of d d'] by (auto simp: doc_onResize_def keeps_gateway_def split: if_splits)
  have start: "document_shown (initial_nav w) initial_history first_dashboard initial_document"
    using shown_initial gateway_initial by (simp add: document_shown_def)
  have marks: "document_shown n st' g d'" if "shown_as n st' d'" "keeps_gateway d d'" for st' d'
    using that keep by (simp add: document_shown_def)
  note sidebar = both [OF shown_toggleSidebar [OF old] keeps_menu(1)]
    and menu = both [OF shown_toggleMobileMenu [OF old] keeps_menu(2)]
    and overlay = both [OF shown_closeMobileMenu [OF old] keeps_menu(3)]
    and width = both [OF shown_resize [OF old, of w] resize]
    and nav = both [OF shown_showPage [OF old, of i] keeps_showPage]
    and button = marks [OF shown_marks [OF shown_quick_marks(1) [OF old, of j]
      handler_marks(1) [of tza j "quick_ranges ! j" now st]] keeps_quick(1)]
    and dates = marks [OF shown_marks [OF shown_quick_marks(2) [OF old] handler_marks(2) [of tza st]] keeps_quick(2)]
    and clear = marks [OF shown_marks [OF shown_quick_marks(3) [OF old] handler_marks(3)] keeps_quick(3)]
    and refresh = marks [OF shown_marks [OF shown_quick_marks(3) [OF old] handler_marks(4)] keeps_quick(3)]
    and headers = marks [OF shown_sort [OF old] keeps_sort]
  show ?thesis
    by (intro conjI impI) (simp_all only: start controls_wired sidebar menu overlay width shown_gateway [OF assms] nav button
        dates clear refresh headers)
qed

theorem document_follows_records_witness:
  "(\<exists>d'. doc_showPage ''history'' 3 800 initial_document = Some d' \<and>
    document_shown (fst (showPage ''history'' 1 (initial_nav 800))) initial_history first_dashboard d') \<and>
   (\<exists>d'. doc_loadGateway (\<lambda>_. ''noon'') (Inl SyntaxError) initial_document = Some d')"
proof -
  have "document_shown (initial_nav 800) initial_history first_dashboard initial_document"
    using shown_initial gateway_initial by (simp add: document_shown_def)
  note follows = document_follows_records [OF this, of 0 "\<lambda>_. ''noon''" "Inl SyntaxError" 1 0 "\<lambda>_ _. 0" 0 0]
  from follows have "\<exists>d'. doc_loadGateway (\<lambda>_. ''noon'') (Inl SyntaxError) initial_document = Some d'" by blast
  moreover from follows have "\<exists>d'. doc_showPage (page_names ! 1) (2 + 1) (innerWidth (initial_nav 800)) initial_document = Some d' \<and>
      document_shown (fst (showPage (page_names ! 1) 1 (initial_nav 800))) initial_history first_dashboard d'"
    by (meson one_less_numeral_iff semiring_norm(77))
  ultimately show ?thesis by (simp add: page_names_def initial_nav_def)
qed

end
