(* ===== verification/DashboardPage.thy ===== *)
theory DashboardPage
  imports ServerClient
begin

text \<open>
  The dashboard over time, with the server behind it: the first requests and the polling every two
  seconds (\<^verbatim>\<open>web/script.js\<close>, lines 748 to 755), the buttons, the reload 200 ms after a command, and
  answers that arrive in any order. A request carries when it was sent and, once the server has
  answered, the time and the server's state at that moment, for the statements only.
\<close>

section \<open>The page\<close>

datatype call = Status_call | Gateway_call | Control_call int int

record open_call =
  oc_call :: call
  oc_sent :: nat
  oc_answer :: "(nat \<times> pump_status \<times> (js_error + string)) option"

record dash_tab =
  tab_view :: dashboard
  tab_time :: nat
  tab_reloads :: "nat list"
  tab_calls :: "open_call list"
  tab_alerts :: "js_error list"
  tab_shown :: "(nat \<times> nat \<times> pump_status) option"

text \<open>The request of a call, as the server sees it.\<close>

fun request_of :: "call \<Rightarrow> request" where
  "request_of Status_call = \<lparr>rq_method = ''GET'', rq_url = ''/api/pump/status'', rq_args = [], rq_chunks = []\<rparr>"
| "request_of Gateway_call = \<lparr>rq_method = ''GET'', rq_url = ''/api/gateway/status'', rq_args = [], rq_chunks = []\<rparr>"
| "request_of (Control_call i s) =
     \<lparr>rq_method = ''POST'', rq_url = ''/api/pump/control'', rq_args = [], rq_chunks = [control_body i s]\<rparr>"

definition send_call :: "call \<Rightarrow> dash_tab \<Rightarrow> dash_tab" where
  "send_call c t = t\<lparr>tab_calls := tab_calls t @ [\<lparr>oc_call = c, oc_sent = tab_time t, oc_answer = None\<rparr>]\<rparr>"

text \<open>The callback of the interval, which is also what the script does at its end.\<close>

definition poll :: "dash_tab \<Rightarrow> dash_tab" where
  "poll t = send_call Gateway_call (send_call Status_call t)"

definition poll_interval :: nat where "poll_interval = 2000"

definition open_dashboard :: "dashboard \<Rightarrow> dash_tab" where
  "open_dashboard v =
     poll \<lparr>tab_view = v, tab_time = 0, tab_reloads = [], tab_calls = [], tab_alerts = [], tab_shown = None\<rparr>"

text \<open>A millisecond passes: reloads that are due, then the interval.\<close>

definition due_reloads :: "dash_tab \<Rightarrow> dash_tab" where
  "due_reloads t =
     fold (\<lambda>_. send_call Status_call) (filter (\<lambda>d. d \<le> tab_time t) (tab_reloads t))
       (t\<lparr>tab_reloads := filter (\<lambda>d. \<not> d \<le> tab_time t) (tab_reloads t)\<rparr>)"

definition tick :: "dash_tab \<Rightarrow> dash_tab" where
  "tick t =
     (let t = due_reloads (t\<lparr>tab_time := Suc (tab_time t)\<rparr>)
      in if poll_interval dvd tab_time t then poll t else t)"

definition read_reply :: "(json \<Rightarrow> 'a) \<Rightarrow> js_error + string \<Rightarrow> js_error + 'a" where
  "read_reply f r = (case r of Inl e \<Rightarrow> Inl e | Inr body \<Rightarrow> read_body f body)"

text \<open>The continuation after \<open>await\<close>, by the kind of the call.\<close>

definition receive ::
  "(nat \<Rightarrow> string) \<Rightarrow> (date_value \<Rightarrow> string) \<Rightarrow> call \<Rightarrow> nat \<Rightarrow> pump_status \<Rightarrow> js_error + string \<Rightarrow> dash_tab \<Rightarrow> dash_tab" where
  "receive clk loc c x ps r t =
     (case c of
        Status_call \<Rightarrow>
          t\<lparr>tab_view := loadStatus (clk (tab_time t)) (read_reply item_of_json r) (tab_view t),
            tab_shown := (case read_reply item_of_json r of Inl _ \<Rightarrow> tab_shown t | Inr _ \<Rightarrow> Some (tab_time t, x, ps))\<rparr>
      | Gateway_call \<Rightarrow> t\<lparr>tab_view := loadGateway loc (read_reply gateway_of_json r) (tab_view t)\<rparr>
      | Control_call i s \<Rightarrow>
          (case control_done (map_sum id (\<lambda>_. ()) r) of
             ReloadStatusIn d \<Rightarrow> t\<lparr>tab_reloads := tab_reloads t @ [tab_time t + d]\<rparr>
           | AlertError e \<Rightarrow> t\<lparr>tab_alerts := e # tab_alerts t\<rparr>))"

definition arrive :: "(nat \<Rightarrow> string) \<Rightarrow> (date_value \<Rightarrow> string) \<Rightarrow> nat \<Rightarrow> dash_tab \<Rightarrow> dash_tab" where
  "arrive clk loc k t =
     (case oc_answer (tab_calls t ! k) of
        None \<Rightarrow> t
      | Some (x, ps, r) \<Rightarrow>
          receive clk loc (oc_call (tab_calls t ! k)) x ps r (t\<lparr>tab_calls := drop_at k (tab_calls t)\<rparr>))"

section \<open>The page and the server\<close>

record web =
  web_site :: system
  web_tab :: dash_tab
  web_states :: "(nat \<times> pump_status) list"

datatype web_event =
    Tick
  | Press int int
  | Site server_event
  | Handle nat surroundings c_long
  | Fail nat
  | Arrive nat

definition site_status :: "web \<Rightarrow> pump_status" where
  "site_status w = current_pump_status (sys_server (web_site w))"

definition answer_call :: "nat \<Rightarrow> js_error + string \<Rightarrow> web \<Rightarrow> web" where
  "answer_call k r w =
     (let t = web_tab w in
      w\<lparr>web_tab := t\<lparr>tab_calls := (tab_calls t)[k := (tab_calls t ! k)\<lparr>oc_answer := Some (tab_time t, site_status w, r)\<rparr>]\<rparr>\<rparr>)"

text \<open>\<open>fetch\<close> takes any status code; a connection closed without an answer rejects it.\<close>

definition reply_of :: "HttpApi.outcome \<Rightarrow> js_error + string" where
  "reply_of out = (case out of Respond code body \<Rightarrow> Inr body | _ \<Rightarrow> Inl NetworkError)"

fun web_do ::
  "sqlite \<Rightarrow> jsonc \<Rightarrow> (nat \<Rightarrow> string) \<Rightarrow> (date_value \<Rightarrow> string) \<Rightarrow> web_event \<Rightarrow> web \<Rightarrow> web" where
  "web_do sq jc clk loc Tick w = w\<lparr>web_tab := tick (web_tab w)\<rparr>"
| "web_do sq jc clk loc (Press i s) w = w\<lparr>web_tab := send_call (Control_call i s) (web_tab w)\<rparr>"
| "web_do sq jc clk loc (Site ev) w = w\<lparr>web_site := serve sq jc ev (web_site w)\<rparr>"
| "web_do sq jc clk loc (Handle k env now) w =
     (let rq = request_of (oc_call (tab_calls (web_tab w) ! k));
          (sv, ms, out) = handle_request sq jc env now rq (sys_server (web_site w))
      in (answer_call k (reply_of out) w)\<lparr>web_site := serve sq jc (Http env rq now) (web_site w)\<rparr>)"
| "web_do sq jc clk loc (Fail k) w = answer_call k (Inl NetworkError) w"
| "web_do sq jc clk loc (Arrive k) w = w\<lparr>web_tab := arrive clk loc k (web_tab w)\<rparr>"

text \<open>Every state the server has had, with the page's time.\<close>

definition web_step ::
  "sqlite \<Rightarrow> jsonc \<Rightarrow> (nat \<Rightarrow> string) \<Rightarrow> (date_value \<Rightarrow> string) \<Rightarrow> web_event \<Rightarrow> web \<Rightarrow> web" where
  "web_step sq jc clk loc ev w =
     (let w = web_do sq jc clk loc ev w
      in w\<lparr>web_states := (tab_time (web_tab w), site_status w) # web_states w\<rparr>)"

definition web_start :: "database \<Rightarrow> dashboard \<Rightarrow> web" where
  "web_start d v =
     \<lparr>web_site = \<lparr>sys_server = initial_server d, sys_queue = []\<rparr>, web_tab = open_dashboard v,
      web_states = [(0, current_pump_status (initial_server d))]\<rparr>"

fun can_happen :: "web_event \<Rightarrow> web \<Rightarrow> bool" where
  "can_happen Tick w = True"
| "can_happen (Press i s) w = ((i, s) \<in> {(1, 1), (1, 0), (2, 1), (2, 0)})"
| "can_happen (Site ev) w = undisturbed ev"
| "can_happen (Handle k env now) w =
     (k < length (tab_calls (web_tab w)) \<and> oc_answer (tab_calls (web_tab w) ! k) = None \<and> meanwhile env = (\<lambda>sv. sv))"
| "can_happen (Fail k) w = (k < length (tab_calls (web_tab w)) \<and> oc_answer (tab_calls (web_tab w) ! k) = None)"
| "can_happen (Arrive k) w = (k < length (tab_calls (web_tab w)) \<and> oc_answer (tab_calls (web_tab w) ! k) \<noteq> None)"

text \<open>
  Within \<open>D\<close> milliseconds every request is answered and its answer has arrived; status requests do
  not fail.
\<close>

fun prompt :: "nat \<Rightarrow> web_event \<Rightarrow> web \<Rightarrow> bool" where
  "prompt D Tick w = list_all (\<lambda>c. tab_time (web_tab w) < oc_sent c + D) (tab_calls (web_tab w))"
| "prompt D (Fail k) w = (oc_call (tab_calls (web_tab w) ! k) \<noteq> Status_call)"
| "prompt D ev w = True"

inductive web_reachable ::
  "sqlite \<Rightarrow> jsonc \<Rightarrow> (nat \<Rightarrow> string) \<Rightarrow> (date_value \<Rightarrow> string) \<Rightarrow> (web_event \<Rightarrow> web \<Rightarrow> bool) \<Rightarrow> database \<Rightarrow> dashboard \<Rightarrow> web \<Rightarrow> bool"
  for sq jc clk loc allowed d v where
  start: "web_reachable sq jc clk loc allowed d v (web_start d v)"
| event: "web_reachable sq jc clk loc allowed d v w \<Longrightarrow> can_happen ev w \<Longrightarrow> allowed ev w \<Longrightarrow>
    web_reachable sq jc clk loc allowed d v (web_step sq jc clk loc ev w)"

section \<open>What the dashboard shows\<close>

definition displays :: "pump_status \<Rightarrow> dashboard \<Rightarrow> bool" where
  "displays ps v \<longleftrightarrow>
     (let it = item_of_snapshot (snapshot_of ps) in
      busyIcon v = interpolate (js_lookup BUSY_ICONS (busy it)) \<and> busyText v = or_text (js_lookup BUSY_TEXT (busy it)) ''--'' \<and>
      alarmText v = (if truthy (alarm it) then ''ACTIVE'' else ''OK'') \<and>
      pumpGrid v = [createPumpCard 1 (pump1 it) (pump1_status it), createPumpCard 2 (pump2 it) (pump2_status it)])"

lemma displays_loaded: "displays ps (loadStatus c (Inr (item_of_snapshot (snapshot_of ps))) v)"
  by (simp add: displays_def loadStatus_def Let_def)

lemma displays_gateway: "displays ps v \<Longrightarrow> displays ps (loadGateway loc r v)"
  by (simp add: displays_def loadGateway_def Let_def split: sum.split)

text \<open>
  Open requests are young and answered with states the server had; every poll so far is open or an
  answer has arrived since; the page shows the state its last answer carried.
\<close>

definition call_ok :: "nat \<Rightarrow> (nat \<times> pump_status) set \<Rightarrow> nat \<Rightarrow> open_call \<Rightarrow> bool" where
  "call_ok D S t c \<longleftrightarrow>
     oc_sent c \<le> t \<and> t \<le> oc_sent c + D \<and>
     (case oc_answer c of None \<Rightarrow> True
      | Some (x, ps, r) \<Rightarrow>
          oc_sent c \<le> x \<and> x \<le> t \<and> (x, ps) \<in> S \<and>
          (oc_call c = Status_call \<longrightarrow> read_reply item_of_json r = Inr (item_of_snapshot (snapshot_of ps))))"

definition call_key :: "open_call \<Rightarrow> call \<times> nat" where
  "call_key c = (oc_call c, oc_sent c)"

definition polls_ok :: "nat \<Rightarrow> dash_tab \<Rightarrow> bool" where
  "polls_ok b t \<longleftrightarrow>
     (\<forall>m \<le> b. poll_interval dvd m \<longrightarrow> (Status_call, m) \<in> call_key ` set (tab_calls t) \<or>
        (\<exists>a x ps. tab_shown t = Some (a, x, ps) \<and> m \<le> a))"

definition shown_ok :: "nat \<Rightarrow> (nat \<times> pump_status) set \<Rightarrow> dash_tab \<Rightarrow> bool" where
  "shown_ok D S t \<longleftrightarrow>
     (case tab_shown t of None \<Rightarrow> True
      | Some (a, x, ps) \<Rightarrow> a \<le> tab_time t \<and> x \<le> a \<and> a \<le> x + D \<and> (x, ps) \<in> S \<and> displays ps (tab_view t))"

definition tab_ok :: "nat \<Rightarrow> (nat \<times> pump_status) set \<Rightarrow> nat \<Rightarrow> dash_tab \<Rightarrow> bool" where
  "tab_ok D S b t \<longleftrightarrow>
     (\<forall>c \<in> set (tab_calls t). call_ok D S (tab_time t) c) \<and> polls_ok b t \<and> shown_ok D S t"

lemma tab_ok_mono: "tab_ok D S b t \<Longrightarrow> S \<subseteq> S2 \<Longrightarrow> tab_ok D S2 b t"
  by (auto simp: tab_ok_def call_ok_def shown_ok_def split: option.splits)

lemma send_fields [simp]:
  "tab_time (send_call c t) = tab_time t" "tab_shown (send_call c t) = tab_shown t"
  "tab_view (send_call c t) = tab_view t" "tab_reloads (send_call c t) = tab_reloads t"
  "set (tab_calls (send_call c t)) = insert \<lparr>oc_call = c, oc_sent = tab_time t, oc_answer = None\<rparr> (set (tab_calls t))"
  by (simp_all add: send_call_def)

lemma send_ok: "tab_ok D S b t \<Longrightarrow> tab_ok D S b (send_call c t)"
  by (auto simp: tab_ok_def call_ok_def polls_ok_def shown_ok_def split: option.splits)

lemma send_many_ok: "tab_ok D S b t \<Longrightarrow> tab_ok D S b (fold (\<lambda>_. send_call c) ds t)"
  by (induction ds arbitrary: t) (simp_all add: send_ok)

lemma send_many_time [simp]: "tab_time (fold (\<lambda>_. send_call c) ds t) = tab_time t"
  by (induction ds arbitrary: t) simp_all

lemma poll_time [simp]: "tab_time (poll t) = tab_time t"
  by (simp add: poll_def)

lemma poll_ok:
  assumes "tab_ok D S b t" "tab_time t \<le> Suc b" shows "tab_ok D S (tab_time t) (poll t)"
proof -
  have "tab_ok D S b (poll t)" using assms(1) by (simp add: poll_def send_ok)
  moreover have "(Status_call, tab_time t) \<in> call_key ` set (tab_calls (poll t))"
    by (auto simp: poll_def call_key_def image_iff)
  moreover have "m \<le> b \<or> m = tab_time t" if "m \<le> tab_time t" for m using that assms(2) by linarith
  ultimately show ?thesis unfolding tab_ok_def polls_ok_def poll_time by metis
qed

lemma reloads_ok: "tab_ok D S b (t\<lparr>tab_reloads := rs\<rparr>) \<longleftrightarrow> tab_ok D S b t"
  by (auto simp: tab_ok_def polls_ok_def shown_ok_def split: option.splits)

lemma due_ok: "tab_ok D S b t \<Longrightarrow> tab_ok D S b (due_reloads t)"
  by (simp add: due_reloads_def send_many_ok reloads_ok)

lemma tick_time [simp]: "tab_time (tick t) = Suc (tab_time t)"
  by (simp add: tick_def due_reloads_def Let_def)

lemma tick_ok:
  assumes "tab_ok D S (tab_time t) t" "list_all (\<lambda>c. tab_time t < oc_sent c + D) (tab_calls t)"
  shows "tab_ok D S (tab_time (tick t)) (tick t)"
proof -
  define u where "u = due_reloads (t\<lparr>tab_time := Suc (tab_time t)\<rparr>)"
  have time: "tab_time u = Suc (tab_time t)" by (simp add: u_def due_reloads_def)
  have "call_ok D S (Suc (tab_time t)) c" if "c \<in> set (tab_calls t)" for c
    using assms that by (fastforce simp: tab_ok_def call_ok_def list_all_iff split: option.split)
  then have "tab_ok D S (tab_time t) (t\<lparr>tab_time := Suc (tab_time t)\<rparr>)"
    using assms(1) by (auto simp: tab_ok_def polls_ok_def shown_ok_def split: option.split)
  then have u: "tab_ok D S (tab_time t) u" unfolding u_def by (rule due_ok)
  show ?thesis
  proof (cases "poll_interval dvd Suc (tab_time t)")
    case True
    with poll_ok [OF u] show ?thesis by (simp add: tick_def u_def [symmetric] time)
  next
    case False
    with u have "tab_ok D S (Suc (tab_time t)) u" by (auto simp: tab_ok_def polls_ok_def le_Suc_eq)
    with False show ?thesis by (simp add: tick_def u_def [symmetric] time)
  qed
qed

lemma drop_at_set: "k < length xs \<Longrightarrow> set xs = insert (xs ! k) (set (drop_at k xs))"
  by (metis drop_at_def id_take_nth_drop list.simps(15) set_append Un_insert_right)

lemma receive_other:
  assumes "c \<noteq> Status_call" "tab_ok D S b t"
  shows "tab_ok D S b (receive clk loc c x ps r t)"
  using assms
  by (auto simp: receive_def tab_ok_def polls_ok_def shown_ok_def control_done_def displays_gateway
      split: call.split sum.split option.split)

lemma arrive_time [simp]: "tab_time (arrive clk loc k t) = tab_time t"
  by (auto simp: arrive_def receive_def control_done_def split: option.split call.split sum.split)

lemma arrive_ok:
  assumes ok: "tab_ok D S (tab_time t) t" and k: "k < length (tab_calls t)"
  shows "tab_ok D S (tab_time t) (arrive clk loc k t)"
proof (cases "oc_answer (tab_calls t ! k)")
  case (Some y)
  then obtain x ps r where ans: "oc_answer (tab_calls t ! k) = Some (x, ps, r)" by (cases y) auto
  let ?c = "tab_calls t ! k" and ?t = "t\<lparr>tab_calls := drop_at k (tab_calls t)\<rparr>"
  have cok: "call_ok D S (tab_time t) ?c" using ok k by (simp add: tab_ok_def)
  note calls = drop_at_set [OF k]
  show ?thesis
  proof (cases "oc_call ?c = Status_call")
    case True
    then have "read_reply item_of_json r = Inr (item_of_snapshot (snapshot_of ps))"
      "x \<le> tab_time t" "tab_time t \<le> x + D" "(x, ps) \<in> S"
      using cok ans by (auto simp: call_ok_def)
    then show ?thesis
      using ok True ans calls
      by (simp add: arrive_def receive_def tab_ok_def polls_ok_def shown_ok_def displays_loaded)
  next
    case False
    then have "((Status_call, m) = call_key ?c) = False" for m by (auto simp: call_key_def)
    with ok calls have "tab_ok D S (tab_time t) ?t"
      by (auto simp: tab_ok_def polls_ok_def shown_ok_def split: option.split)
    with False ans show ?thesis by (simp add: arrive_def receive_other)
  qed
qed (use ok in \<open>simp add: arrive_def\<close>)

lemma answered_ok:
  assumes ok: "tab_ok D S (tab_time t) t" and k: "k < length (tab_calls t)" and S: "(tab_time t, ps) \<in> S"
    and r: "oc_call (tab_calls t ! k) = Status_call \<Longrightarrow> read_reply item_of_json r = Inr (item_of_snapshot (snapshot_of ps))"
  shows "tab_ok D S (tab_time t)
    (t\<lparr>tab_calls := (tab_calls t)[k := (tab_calls t ! k)\<lparr>oc_answer := Some (tab_time t, ps, r)\<rparr>]\<rparr>)"
proof -
  let ?c = "(tab_calls t ! k)\<lparr>oc_answer := Some (tab_time t, ps, r)\<rparr>"
  have "call_ok D S (tab_time t) (tab_calls t ! k)" using ok k by (simp add: tab_ok_def)
  then have "call_ok D S (tab_time t) ?c" using S r by (simp add: call_ok_def)
  moreover have "map call_key ((tab_calls t)[k := ?c]) = map call_key (tab_calls t)"
    by (simp add: map_update call_key_def list_update_same_conv k)
  then have "call_key ` set ((tab_calls t)[k := ?c]) = call_key ` set (tab_calls t)"
    by (metis list.set_map)
  ultimately show ?thesis
    using ok set_update_subset_insert [of "tab_calls t" k ?c]
    by (auto simp: tab_ok_def polls_ok_def shown_ok_def split: option.split)
qed

section \<open>Bounded staleness\<close>

definition web_ok :: "nat \<Rightarrow> web \<Rightarrow> bool" where
  "web_ok D w \<longleftrightarrow>
     tab_ok D (set (web_states w)) (tab_time (web_tab w)) (web_tab w) \<and>
     (tab_time (web_tab w), site_status w) \<in> set (web_states w)"

lemma web_ok_start: "web_ok D (web_start d v)"
proof -
  have "tab_ok D {(0, current_pump_status (initial_server d))} 0 (open_dashboard v)"
    by (simp add: open_dashboard_def poll_def send_call_def tab_ok_def call_ok_def polls_ok_def shown_ok_def call_key_def)
  then show ?thesis by (simp add: web_ok_def web_start_def site_status_def open_dashboard_def)
qed

lemma status_reply:
  "read_reply item_of_json (reply_of (snd (snd (handle_request sq jc env now (request_of Status_call) sv)))) =
    Inr (item_of_snapshot (snapshot_of (current_pump_status sv)))"
  by (simp add: handle_request_def handle_get_def reply_of_def read_reply_def read_status)

lemma answer_fields [simp]: "web_states (answer_call k r w) = web_states w" "web_site (answer_call k r w) = web_site w"
  "tab_time (web_tab (answer_call k r w)) = tab_time (web_tab w)"
  by (simp_all add: answer_call_def Let_def)

lemma answer_call_ok:
  assumes "web_ok D w" "k < length (tab_calls (web_tab w))"
    "oc_call (tab_calls (web_tab w) ! k) = Status_call \<Longrightarrow>
      read_reply item_of_json r = Inr (item_of_snapshot (snapshot_of (site_status w)))"
  shows "tab_ok D (set (web_states w)) (tab_time (web_tab w)) (web_tab (answer_call k r w))"
  using answered_ok [of D "set (web_states w)" "web_tab w" k "site_status w" r] assms
  by (simp add: web_ok_def answer_call_def Let_def)

lemma web_do_ok:
  assumes ok: "web_ok D w" and "can_happen ev w" "prompt D ev w"
  shows "tab_ok D (set (web_states w)) (tab_time (web_tab (web_do sq jc clk loc ev w))) (web_tab (web_do sq jc clk loc ev w)) \<and>
    web_states (web_do sq jc clk loc ev w) = web_states w"
proof (cases ev)
  case (Handle k env now)
  define c where "c = oc_call (tab_calls (web_tab w) ! k)"
  obtain sv ms out where out: "handle_request sq jc env now (request_of c) (sys_server (web_site w)) = (sv, ms, out)"
    by (cases "handle_request sq jc env now (request_of c) (sys_server (web_site w))") auto
  have "c = Status_call \<Longrightarrow> read_reply item_of_json (reply_of out) = Inr (item_of_snapshot (snapshot_of (site_status w)))"
    using status_reply [of sq jc env now "sys_server (web_site w)"] out by (simp add: site_status_def)
  then show ?thesis
    using assms Handle out answer_call_ok [OF ok, of k "reply_of out"] by (simp add: c_def)
next
  case (Fail k)
  then show ?thesis using assms answer_call_ok [OF ok, of k "Inl NetworkError"] by simp
qed (use assms tick_ok arrive_ok in \<open>auto simp: web_ok_def send_ok\<close>)

lemma web_step_ok:
  assumes "web_ok D w" "can_happen ev w" "prompt D ev w"
  shows "web_ok D (web_step sq jc clk loc ev w)"
  using web_do_ok [OF assms, of sq jc clk loc]
  by (auto simp: web_ok_def web_step_def Let_def site_status_def intro: tab_ok_mono [OF _ subset_insertI])

lemma web_reachable_ok: "web_reachable sq jc clk loc (prompt D) d v w \<Longrightarrow> web_ok D w"
  by (induction rule: web_reachable.induct) (simp_all add: web_ok_start web_step_ok)

lemma last_poll: "0 < t \<Longrightarrow> \<exists>m. m < t \<and> poll_interval dvd m \<and> t \<le> m + poll_interval"
proof (intro exI conjI)
  let ?m = "poll_interval * ((t - 1) div poll_interval)"
  assume "0 < t"
  have "(t - 1) mod poll_interval < poll_interval" by (simp add: poll_interval_def)
  moreover have "t - 1 = ?m + (t - 1) mod poll_interval" by simp
  ultimately show "?m < t" "t \<le> ?m + poll_interval" using \<open>0 < t\<close> by linarith+
qed simp

text \<open>
  C3. The dashboard is never far behind: if every request is answered within D milliseconds and
  status requests do not fail, then, in whatever order answers arrive and whatever buttons are pressed,
  after D milliseconds the page always shows a state the server had at most 2000 + 2 D milliseconds ago.
\<close>

theorem dashboard_staleness_bounded:
  assumes "web_reachable sq jc clk loc (prompt D) d v w" "D < tab_time (web_tab w)"
  shows "\<exists>x ps. (x, ps) \<in> set (web_states w) \<and> displays ps (tab_view (web_tab w)) \<and>
    x \<le> tab_time (web_tab w) \<and> tab_time (web_tab w) \<le> x + 2000 + 2 * D"
proof -
  let ?t = "web_tab w"
  have ok: "tab_ok D (set (web_states w)) (tab_time ?t) ?t"
    using web_reachable_ok [OF assms(1)] by (simp add: web_ok_def)
  obtain m where m: "m < tab_time ?t - D" "poll_interval dvd m" "tab_time ?t - D \<le> m + poll_interval"
    using last_poll [of "tab_time ?t - D"] assms(2) by auto
  have "(Status_call, m) \<notin> call_key ` set (tab_calls ?t)"
    using ok m(1) by (fastforce simp: tab_ok_def call_ok_def call_key_def)
  moreover have "m \<le> tab_time ?t" using m(1) by simp
  ultimately obtain a x ps where a: "tab_shown ?t = Some (a, x, ps)" "m \<le> a"
    using ok m(2) unfolding tab_ok_def polls_ok_def by blast
  then have "a \<le> tab_time ?t" "x \<le> a" "a \<le> x + D" "(x, ps) \<in> set (web_states w)" "displays ps (tab_view ?t)"
    using ok by (simp_all add: tab_ok_def shown_ok_def)
  then show ?thesis using a(2) m(3) by (auto simp: poll_interval_def intro!: exI [of _ x] exI [of _ ps])
qed

definition blank_dashboard :: dashboard where
  "blank_dashboard =
     \<lparr>busyIcon = [], busyText = [], alarmIcon = [], alarmText = [], pumpGrid = [], lastUpdate = [],
      gatewayDot = [], deviceId = [], firmwareText = [], lastSeen = []\<rparr>"

definition no_surroundings :: surroundings where
  "no_surroundings = \<lparr>malloc_ok = True, publish_ok = (\<lambda>_. True), meanwhile = (\<lambda>sv. sv)\<rparr>"

text \<open>The first two requests are answered at once, then two milliseconds pass.\<close>

definition first_events :: "web_event list" where
  "first_events = [Handle 0 no_surroundings 0, Handle 1 no_surroundings 0, Arrive 0, Arrive 0, Tick, Tick]"

definition sample_web :: "web_event list \<Rightarrow> web" where
  "sample_web evs = foldl (\<lambda>w ev. web_step sqlite_model jsonc_model (\<lambda>_. ''now'') (\<lambda>_. ''then'') ev w)
     (web_start fresh_database blank_dashboard) evs"

abbreviation sample_reach :: "web \<Rightarrow> bool" where
  "sample_reach \<equiv> web_reachable sqlite_model jsonc_model (\<lambda>_. ''now'') (\<lambda>_. ''then'') (prompt 1) fresh_database blank_dashboard"

text \<open>What decides whether an event can happen: the time, the reloads and the open requests.\<close>

type_synonym web_sketch = "nat \<times> nat list \<times> (call \<times> nat \<times> bool) list"

definition web_outline :: "web \<Rightarrow> web_sketch" where
  "web_outline w =
     (tab_time (web_tab w), tab_reloads (web_tab w),
      map (\<lambda>c. (oc_call c, oc_sent c, oc_answer c = None)) (tab_calls (web_tab w)))"

fun outline_step :: "web_event \<Rightarrow> web_sketch \<Rightarrow> web_sketch option" where
  "outline_step (Handle k env now) (t, rs, cs) =
     (if k < length cs \<and> snd (snd (cs ! k)) \<and> meanwhile env = (\<lambda>sv. sv)
      then Some (t, rs, cs[k := (fst (cs ! k), fst (snd (cs ! k)), False)]) else None)"
| "outline_step (Arrive k) (t, rs, cs) =
     (if k < length cs \<and> \<not> snd (snd (cs ! k)) \<and> fst (cs ! k) \<in> {Status_call, Gateway_call}
      then Some (t, rs, drop_at k cs) else None)"
| "outline_step Tick (t, rs, cs) =
     (if rs = [] \<and> cs = [] \<and> \<not> poll_interval dvd Suc t then Some (Suc t, [], []) else None)"
| "outline_step ev o1 = None"

lemma outline_Handle:
  "web_outline (web_step sq jc clk loc (Handle k env now) w) =
    (tab_time (web_tab w), tab_reloads (web_tab w),
     (snd (snd (web_outline w)))[k := (oc_call (tab_calls (web_tab w) ! k), oc_sent (tab_calls (web_tab w) ! k), False)])"
  by (simp add: web_outline_def web_step_def answer_call_def map_update Let_def split: prod.split)

lemma outline_Arrive:
  assumes "oc_answer (tab_calls (web_tab w) ! k) \<noteq> None" "oc_call (tab_calls (web_tab w) ! k) \<in> {Status_call, Gateway_call}"
  shows "web_outline (web_step sq jc clk loc (Arrive k) w) =
    (tab_time (web_tab w), tab_reloads (web_tab w), drop_at k (snd (snd (web_outline w))))"
  using assms
  by (auto simp: web_outline_def web_step_def arrive_def receive_def drop_at_def take_map drop_map Let_def)

lemma outline_sound:
  assumes "outline_step ev (web_outline w) = Some o2"
  shows "can_happen ev w \<and> prompt D ev w \<and> web_outline (web_step sq jc clk loc ev w) = o2"
proof (cases ev)
  case (Handle k env now)
  with assms show ?thesis
    unfolding Handle by (simp add: outline_Handle) (simp add: web_outline_def split: if_splits)
next
  case (Arrive k)
  with assms have "oc_answer (tab_calls (web_tab w) ! k) \<noteq> None" "k < length (tab_calls (web_tab w))"
    "oc_call (tab_calls (web_tab w) ! k) \<in> {Status_call, Gateway_call}"
    by (auto simp: web_outline_def split: if_splits)
  with assms Arrive show ?thesis
    by (simp add: outline_Arrive) (simp add: web_outline_def split: if_splits)
next
  case Tick
  with assms show ?thesis
    by (auto simp: web_outline_def web_step_def tick_def due_reloads_def Let_def split: if_splits)
qed (use assms in \<open>simp_all add: web_outline_def\<close>)

lemma sample_reach_outline:
  assumes "sample_reach (sample_web es)" "outline_step ev (web_outline (sample_web es)) = Some o2"
  shows "sample_reach (sample_web (es @ [ev])) \<and> web_outline (sample_web (es @ [ev])) = o2"
  using outline_sound [OF assms(2), of 1 sqlite_model jsonc_model "\<lambda>_. ''now''" "\<lambda>_. ''then''"] web_reachable.event [OF assms(1)]
  by (simp add: sample_web_def)

fun outline_run :: "web_event list \<Rightarrow> web_sketch \<Rightarrow> web_sketch option" where
  "outline_run [] o1 = Some o1"
| "outline_run (ev # evs) o1 = (case outline_step ev o1 of None \<Rightarrow> None | Some o2 \<Rightarrow> outline_run evs o2)"

lemma sample_reach_run:
  assumes "sample_reach (sample_web es)" "outline_run evs (web_outline (sample_web es)) = Some o2"
  shows "sample_reach (sample_web (es @ evs)) \<and> web_outline (sample_web (es @ evs)) = o2"
  using assms
proof (induction evs arbitrary: es)
  case (Cons ev evs)
  then obtain o1 where o1: "outline_step ev (web_outline (sample_web es)) = Some o1" "outline_run evs o1 = Some o2"
    by (auto split: option.splits)
  with sample_reach_outline [OF Cons.prems(1) o1(1)] Cons.IH [of "es @ [ev]"] show ?case by simp
qed simp

lemma sample_first:
  "sample_reach (sample_web first_events) \<and> web_outline (sample_web first_events) = (2, [], [])"
proof -
  have "sample_reach (sample_web [])" by (simp add: sample_web_def web_reachable.start)
  moreover have "outline_run first_events (web_outline (sample_web [])) = Some (2, [], [])"
    by (simp add: sample_web_def web_start_def open_dashboard_def poll_def send_call_def web_outline_def first_events_def
        no_surroundings_def drop_at_def poll_interval_def dvd_eq_mod_eq_0)
  ultimately show ?thesis using sample_reach_run [of "[]" first_events] by simp
qed

theorem dashboard_staleness_bounded_witness:
  "\<exists>x ps. (x, ps) \<in> set (web_states (sample_web first_events)) \<and> displays ps (tab_view (web_tab (sample_web first_events)))"
proof -
  have "1 < tab_time (web_tab (sample_web first_events))"
    using sample_first by (simp add: web_outline_def)
  with dashboard_staleness_bounded [OF conjunct1 [OF sample_first]] show ?thesis by blast
qed

end
