(* ===== verification/Cors.thy ===== *)
theory Cors
  imports DashboardPage
begin

text \<open>
  The dashboard is another origin than the API, so the browser asks before it lets the page send or read
  (the CORS protocol of the Fetch standard): the response headers \<open>handle_request\<close> sets in
  \<^verbatim>\<open>http_api.c\<close>, the checks of the browser, and \<open>fetch\<close> with them in front of the handler.
\<close>

section \<open>Response headers\<close>

type_synonym headers = "(string \<times> string) list"

definition response_headers :: "request \<Rightarrow> headers" where
  "response_headers rq =
     (if rq_method rq = ''OPTIONS''
      then [(''Access-Control-Allow-Origin'', ''*''), (''Access-Control-Allow-Methods'', ''GET, POST, OPTIONS''),
            (''Access-Control-Allow-Headers'', ''Content-Type'')]
      else [(''Access-Control-Allow-Origin'', ''*''), (''Content-Type'', ''application/json'')])"

section \<open>The checks of the browser\<close>

text \<open>A header's list value, cut at commas, without blanks, in lower case.\<close>

fun split_commas :: "string \<Rightarrow> string \<Rightarrow> string list" where
  "split_commas acc [] = [rev acc]"
| "split_commas acc (c # cs) =
     (if c = CHR '','' then rev acc # split_commas [] cs
      else if c = CHR '' '' then split_commas acc cs else split_commas (c # acc) cs)"

definition header_values :: "string \<Rightarrow> headers \<Rightarrow> string list" where
  "header_values n hs = (case map_of hs n of None \<Rightarrow> [] | Some v \<Rightarrow> split_commas [] v)"

definition origin_allowed :: "string \<Rightarrow> headers \<Rightarrow> bool" where
  "origin_allowed origin hs \<longleftrightarrow> map_of hs ''Access-Control-Allow-Origin'' \<in> {Some ''*'', Some origin}"

text \<open>The headers that need no permission, and the requests that are sent without asking.\<close>

definition safelisted :: "string \<times> string \<Rightarrow> bool" where
  "safelisted h \<longleftrightarrow>
     toLowerCase (fst h) \<in> {''accept'', ''accept-language'', ''content-language''} \<or>
     (toLowerCase (fst h) = ''content-type'' \<and>
      toLowerCase (snd h) \<in> {''application/x-www-form-urlencoded'', ''multipart/form-data'', ''text/plain''})"

definition needs_preflight :: "request \<Rightarrow> headers \<Rightarrow> bool" where
  "needs_preflight rq hs \<longleftrightarrow> rq_method rq \<notin> {''GET'', ''HEAD'', ''POST''} \<or> \<not> list_all safelisted hs"

definition preflight_passes :: "string \<Rightarrow> request \<Rightarrow> headers \<Rightarrow> nat \<Rightarrow> headers \<Rightarrow> bool" where
  "preflight_passes origin rq hs status answer \<longleftrightarrow>
     200 \<le> status \<and> status \<le> 299 \<and> origin_allowed origin answer \<and>
     (rq_method rq \<in> {''GET'', ''HEAD'', ''POST''} \<or> rq_method rq \<in> set (header_values ''Access-Control-Allow-Methods'' answer)) \<and>
     list_all (\<lambda>h. safelisted h \<or>
       toLowerCase (fst h) \<in> toLowerCase ` set (header_values ''Access-Control-Allow-Headers'' answer)) hs"

definition preflight_of :: "request \<Rightarrow> request" where
  "preflight_of rq = rq\<lparr>rq_method := ''OPTIONS'', rq_chunks := []\<rparr>"

section \<open>fetch across origins\<close>

text \<open>
  The new state of the server, what it published, and what \<open>fetch\<close> gives: a request whose preflight
  fails is not sent, and an answer the page may not read is a network error although it was handled.
\<close>

definition cors_fetch ::
  "sqlite \<Rightarrow> jsonc \<Rightarrow> surroundings \<Rightarrow> c_long \<Rightarrow> string \<Rightarrow> headers \<Rightarrow> request \<Rightarrow> server \<Rightarrow>
     server \<times> mqtt_message list \<times> (js_error + string)" where
  "cors_fetch sq jc env now origin hs rq sv =
     (let send = (let (sv2, ms, out) = handle_request sq jc env now rq sv
                  in (sv2, ms, if origin_allowed origin (response_headers rq) then reply_of out else Inl NetworkError))
      in if \<not> needs_preflight rq hs then send
         else case handle_request sq jc env now (preflight_of rq) sv of
             (sv1, ms1, Respond status body) \<Rightarrow>
               if preflight_passes origin rq hs status (response_headers (preflight_of rq)) then send
               else (sv1, ms1, Inl NetworkError)
           | (sv1, ms1, _) \<Rightarrow> (sv1, ms1, Inl NetworkError))"

text \<open>The headers the page sets.\<close>

fun call_headers :: "call \<Rightarrow> headers" where
  "call_headers (Control_call i s) = [(''Content-Type'', ''application/json'')]"
| "call_headers _ = []"

definition history_request :: "filters \<Rightarrow> request" where
  "history_request fs = \<lparr>rq_method = ''GET'', rq_url = ''/api/pump/history'', rq_args = client_args fs, rq_chunks = []\<rparr>"

section \<open>Properties\<close>

lemma api_origin_allowed: "origin_allowed origin (response_headers rq)"
  by (simp add: origin_allowed_def response_headers_def)

lemma preflight_answer: "handle_request sq jc env now (preflight_of rq) sv = (sv, [], Respond 204 [])"
  by (simp add: handle_request_def preflight_of_def)

lemma json_preflight:
  assumes "rq_method rq = ''POST''"
  shows "preflight_passes origin rq [(''Content-Type'', ''application/json'')] 204 (response_headers (preflight_of rq))"
  using api_origin_allowed assms
  by (simp add: preflight_passes_def preflight_of_def)
    (simp add: header_values_def response_headers_def)

text \<open>
  C36. The CORS layer is transparent: from whatever origin the page comes, each request it makes
  (status, gateway, control, history) is sent, has exactly the effect of the handler, and its answer
  reaches the page; the preflight of a command changes nothing.
\<close>

theorem page_requests_pass_cors:
  "cors_fetch sq jc env now origin (call_headers c) (request_of c) sv =
     (let (sv2, ms, out) = handle_request sq jc env now (request_of c) sv in (sv2, ms, reply_of out)) \<and>
   cors_fetch sq jc env now origin [] (history_request fs) sv =
     (sv, [], Inr (handle_pump_history sq (client_args fs) sv))"
proof
  show "cors_fetch sq jc env now origin (call_headers c) (request_of c) sv =
     (let (sv2, ms, out) = handle_request sq jc env now (request_of c) sv in (sv2, ms, reply_of out))"
    using json_preflight [of "request_of c" origin]
    by (cases c) (simp_all add: cors_fetch_def api_origin_allowed preflight_answer needs_preflight_def Let_def)
  show "cors_fetch sq jc env now origin [] (history_request fs) sv =
     (sv, [], Inr (handle_pump_history sq (client_args fs) sv))"
    by (simp add: cors_fetch_def api_origin_allowed needs_preflight_def history_request_def handle_request_def
        handle_get_def reply_of_def)
qed

end
