(* ===== verification/ServerLife.thy ===== *)
theory ServerLife
  imports Server
begin

text \<open>
  The life of the server process: \<^verbatim>\<open>main.c\<close> (start, signals, joining the threads, closing the
  database) and the bodies of the three threads (\<^verbatim>\<open>mqtt_publisher_thread\<close> and
  \<^verbatim>\<open>mqtt_subscriber_thread\<close> in \<^verbatim>\<open>mqtt.c\<close>, \<^verbatim>\<open>http_api_thread\<close> in \<^verbatim>\<open>http_api.c\<close>). What
  a connection attempt or the start of the HTTP daemon returns comes with the event. The handlers are the
  events of \<^verbatim>\<open>Server\<close>; they need the connection or the daemon they run on.
\<close>

definition db_close :: "database \<Rightarrow> database \<times> c_int" where
  "db_close d = (d\<lparr>db_open := False\<rparr>, 0)"

section \<open>Threads and main\<close>

datatype thread_at = Not_created | Starting | Looping | Ended

record life =
  life_site :: system
  life_running :: bool
  pub_at :: thread_at
  sub_at :: thread_at
  http_at :: thread_at
  sub_connected :: bool
  subscriptions :: "string list"
  published :: "string list"
  exit_code :: "c_int option"

datatype life_event =
    Main_start bool bool
  | Pub_connect bool
  | Pub_round
  | Sub_connect bool
  | Sub_round
  | Sub_lost
  | Http_start bool
  | Http_round
  | Site_event server_event
  | Signal
  | Main_join

text \<open>Opening the database, then creating the threads; otherwise the process returns 1.\<close>

definition main_start :: "bool \<Rightarrow> bool \<Rightarrow> life \<Rightarrow> life" where
  "main_start open_ok exec_ok l =
     (let sv = sys_server (life_site l); (d, rc) = db_init open_ok exec_ok (database sv);
          l = l\<lparr>life_site := (life_site l)\<lparr>sys_server := sv\<lparr>database := d\<rparr>\<rparr>\<rparr>
      in if rc \<noteq> 0 then l\<lparr>exit_code := Some 1\<rparr>
         else l\<lparr>pub_at := Starting, sub_at := Starting, http_at := Starting\<rparr>)"

text \<open>A test of \<open>running\<close> at the head of a thread's loop, and what follows it up to the next test.\<close>

definition publisher_round :: "life \<Rightarrow> life" where
  "publisher_round l =
     (if life_running l
      then l\<lparr>published := published l @ [publish_payload (current_pump_status (sys_server (life_site l)))]\<rparr>
      else l\<lparr>pub_at := Ended\<rparr>)"

definition subscriber_connect :: "bool \<Rightarrow> life \<Rightarrow> life" where
  "subscriber_connect ok l =
     (if ok then l\<lparr>sub_at := Looping, sub_connected := True, subscriptions := subscribed_topics\<rparr>
      else l\<lparr>sub_at := Ended\<rparr>)"

definition subscriber_round :: "life \<Rightarrow> life" where
  "subscriber_round l = (if life_running l then l else l\<lparr>sub_at := Ended, sub_connected := False\<rparr>)"

definition main_join :: "life \<Rightarrow> life" where
  "main_join l =
     (let sv = sys_server (life_site l); (d, _) = db_close (database sv)
      in l\<lparr>life_site := (life_site l)\<lparr>sys_server := sv\<lparr>database := d\<rparr>\<rparr>, exit_code := Some 0\<rparr>)"

fun life_step :: "sqlite \<Rightarrow> jsonc \<Rightarrow> life_event \<Rightarrow> life \<Rightarrow> life" where
  "life_step sq jc (Main_start open_ok exec_ok) l = main_start open_ok exec_ok l"
| "life_step sq jc (Pub_connect ok) l = l\<lparr>pub_at := (if ok then Looping else Ended)\<rparr>"
| "life_step sq jc Pub_round l = publisher_round l"
| "life_step sq jc (Sub_connect ok) l = subscriber_connect ok l"
| "life_step sq jc Sub_round l = subscriber_round l"
| "life_step sq jc Sub_lost l = l\<lparr>sub_connected := False\<rparr>"
| "life_step sq jc (Http_start ok) l = l\<lparr>http_at := (if ok then Looping else Ended)\<rparr>"
| "life_step sq jc Http_round l = (if life_running l then l else l\<lparr>http_at := Ended\<rparr>)"
| "life_step sq jc (Site_event ev) l = l\<lparr>life_site := serve sq jc ev (life_site l)\<rparr>"
| "life_step sq jc Signal l = l\<lparr>life_running := False\<rparr>"
| "life_step sq jc Main_join l = main_join l"

text \<open>
  Messages reach the callback over the subscriber's connection, and \<open>handle_pump_control\<close> publishes over
  it, so without it publishing fails. \<open>pthread_join\<close> waits for all three threads.
\<close>

fun site_possible :: "server_event \<Rightarrow> life \<Rightarrow> bool" where
  "site_possible (Http env rq now) l =
     (http_at l = Looping \<and> undisturbed (Http env rq now) \<and> (sub_connected l \<or> publish_ok env = (\<lambda>_. False)))"
| "site_possible ev l = sub_connected l"

fun life_possible :: "life_event \<Rightarrow> life \<Rightarrow> bool" where
  "life_possible (Main_start open_ok exec_ok) l = (exit_code l = None \<and> pub_at l = Not_created)"
| "life_possible (Pub_connect ok) l = (pub_at l = Starting)"
| "life_possible Pub_round l = (pub_at l = Looping)"
| "life_possible (Sub_connect ok) l = (sub_at l = Starting)"
| "life_possible Sub_round l = (sub_at l = Looping)"
| "life_possible Sub_lost l = sub_connected l"
| "life_possible (Http_start ok) l = (http_at l = Starting)"
| "life_possible Http_round l = (http_at l = Looping)"
| "life_possible (Site_event ev) l = site_possible ev l"
| "life_possible Signal l = (exit_code l = None)"
| "life_possible Main_join l = (exit_code l = None \<and> pub_at l = Ended \<and> sub_at l = Ended \<and> http_at l = Ended)"

definition life_start :: "database \<Rightarrow> life" where
  "life_start d =
     \<lparr>life_site = \<lparr>sys_server = initial_server d, sys_queue = []\<rparr>, life_running = True, pub_at = Not_created,
      sub_at = Not_created, http_at = Not_created, sub_connected = False, subscriptions = [], published = [],
      exit_code = None\<rparr>"

inductive life_reaches :: "sqlite \<Rightarrow> jsonc \<Rightarrow> life \<Rightarrow> life \<Rightarrow> bool" for sq jc l0 where
  here: "life_reaches sq jc l0 l0"
| event: "life_reaches sq jc l0 l \<Longrightarrow> life_possible ev l \<Longrightarrow> life_reaches sq jc l0 (life_step sq jc ev l)"

lemmas life_defs = main_start_def publisher_round_def subscriber_connect_def subscriber_round_def main_join_def
  db_close_def db_init_def

section \<open>The structure of a run\<close>

text \<open>
  Before \<open>main\<close> has created the threads none of them runs and no one is connected; a connection is used
  by a looping thread only; once the process has exited nothing runs any more.
\<close>

definition life_ok :: "life \<Rightarrow> bool" where
  "life_ok l \<longleftrightarrow>
     (pub_at l = Not_created \<longleftrightarrow> sub_at l = Not_created) \<and> (pub_at l = Not_created \<longleftrightarrow> http_at l = Not_created) \<and>
     (sub_connected l \<longrightarrow> sub_at l = Looping) \<and>
     (\<forall>c. exit_code l = Some c \<longrightarrow>
        (c = 1 \<and> pub_at l = Not_created) \<or>
        (c = 0 \<and> pub_at l = Ended \<and> sub_at l = Ended \<and> http_at l = Ended \<and> \<not> db_open (database (sys_server (life_site l)))))"

lemma life_ok_step:
  assumes "life_ok l" "life_possible ev l"
  shows "life_ok (life_step sq jc ev l)"
proof (cases ev)
  case (Site_event e)
  with assms have "sub_connected l \<or> http_at l = Looping" by (cases e) auto
  with assms Site_event show ?thesis by (auto simp: life_ok_def)
qed (use assms in \<open>auto simp: life_ok_def life_defs Let_def\<close>)

lemma life_ok_reaches: "life_reaches sq jc l0 l \<Longrightarrow> life_ok l0 \<Longrightarrow> life_ok l"
  by (induction rule: life_reaches.induct) (simp_all add: life_ok_step)

lemma life_ok_start: "life_ok (life_start d)"
  by (simp add: life_ok_def life_start_def)

section \<open>Without the connection\<close>

definition commands :: "system \<Rightarrow> c_int \<times> c_int \<times> command_row list \<times> mqtt_message list" where
  "commands s =
     (ps_pump1 (current_pump_status (sys_server s)), ps_pump2 (current_pump_status (sys_server s)),
      pump_commands (database (sys_server s)), sys_queue s)"

lemma feedback_keeps_commands:
  "ps_pump1 (current_pump_status (update_pump_feedback sq t i f s)) = ps_pump1 (current_pump_status s)"
  "ps_pump2 (current_pump_status (update_pump_feedback sq t i f s)) = ps_pump2 (current_pump_status s)"
  "pump_commands (database (update_pump_feedback sq t i f s)) = pump_commands (database s)"
  by (simp_all add: update_current set_status_def)
    (simp add: shared_defs db_insert_feedback_def db_insert_snapshot_def run_stmt_def)

lemma unpublished_request:
  assumes "publish_ok env = (\<lambda>_. False)"
  shows "commands (serve sq jc (Http env rq now) s) = commands s"
  using assms
  by (auto simp: commands_def handle_request_def handle_post_def handle_pump_feedback_def Let_def feedback_keeps_commands
      split: option.split prod.split)

definition cut_off :: "life \<Rightarrow> life \<Rightarrow> bool" where
  "cut_off l0 l \<longleftrightarrow>
     \<not> sub_connected l \<and> sub_at l \<in> {Looping, Ended} \<and> pub_at l \<noteq> Not_created \<and>
     subscriptions l = subscriptions l0 \<and> commands (life_site l) = commands (life_site l0)"

lemma cut_off_step:
  assumes "cut_off l0 l" "life_possible ev l"
  shows "cut_off l0 (life_step sq jc ev l)"
proof (cases ev)
  case (Site_event e)
  with assms obtain env rq now where "e = Http env rq now" "publish_ok env = (\<lambda>_. False)"
    by (cases e) (auto simp: cut_off_def)
  with assms Site_event show ?thesis by (simp add: cut_off_def unpublished_request del: serve.simps)
qed (use assms in \<open>auto simp: cut_off_def life_defs commands_def Let_def\<close>)

section \<open>Shutting down\<close>

text \<open>The events of the threads and of \<open>main\<close>, as opposed to what reaches them from outside.\<close>

fun own_event :: "life_event \<Rightarrow> bool" where
  "own_event (Site_event ev) = False"
| "own_event Signal = False"
| "own_event Sub_lost = False"
| "own_event _ = True"

fun thread_work :: "thread_at \<Rightarrow> nat" where
  "thread_work Starting = 2"
| "thread_work Looping = 1"
| "thread_work _ = 0"

definition life_work :: "life \<Rightarrow> nat" where
  "life_work l =
     thread_work (pub_at l) + thread_work (sub_at l) + thread_work (http_at l) + (if exit_code l = None then 1 else 0)"

lemma life_work_step:
  assumes "\<not> life_running l" "pub_at l \<noteq> Not_created" "life_possible ev l"
  shows "life_work (life_step sq jc ev l) + (if own_event ev then 1 else 0) \<le> life_work l"
    "\<not> life_running (life_step sq jc ev l)" "pub_at (life_step sq jc ev l) \<noteq> Not_created"
  using assms by (cases ev; auto simp: life_work_def life_defs Let_def)+

lemma life_progress:
  assumes "life_ok l" "pub_at l \<noteq> Not_created" "exit_code l = None"
  shows "\<exists>ev. own_event ev \<and> life_possible ev l"
proof (cases "pub_at l = Ended \<and> sub_at l = Ended \<and> http_at l = Ended")
  case True
  with assms(3) have "own_event Main_join \<and> life_possible Main_join l" by simp
  then show ?thesis ..
next
  case False
  then consider (p) "pub_at l \<noteq> Ended" | (s) "sub_at l \<noteq> Ended" | (h) "http_at l \<noteq> Ended" by blast
  then show ?thesis
  proof cases
    case p
    then have "life_possible (Pub_connect True) l \<or> life_possible Pub_round l" using assms(2) by (cases "pub_at l") auto
    then show ?thesis by (metis own_event.simps)
  next
    case s
    then have "life_possible (Sub_connect True) l \<or> life_possible Sub_round l"
      using assms(1,2) by (cases "sub_at l") (auto simp: life_ok_def)
    then show ?thesis by (metis own_event.simps)
  next
    case h
    then have "life_possible (Http_start True) l \<or> life_possible Http_round l"
      using assms(1,2) by (cases "http_at l") (auto simp: life_ok_def)
    then show ?thesis by (metis own_event.simps)
  qed
qed

text \<open>Runs with their events.\<close>

fun life_run :: "sqlite \<Rightarrow> jsonc \<Rightarrow> life_event list \<Rightarrow> life \<Rightarrow> life option" where
  "life_run sq jc [] l = Some l"
| "life_run sq jc (ev # evs) l = (if life_possible ev l then life_run sq jc evs (life_step sq jc ev l) else None)"

lemma life_run_work:
  assumes "life_run sq jc evs l = Some l2" "\<not> life_running l" "pub_at l \<noteq> Not_created"
  shows "life_work l2 + length (filter own_event evs) \<le> life_work l \<and> pub_at l2 \<noteq> Not_created"
  using assms
proof (induction evs arbitrary: l)
  case (Cons ev evs)
  then have p: "life_possible ev l" by (auto split: if_splits)
  from Cons.IH [of "life_step sq jc ev l"] Cons.prems life_work_step [OF Cons.prems(2,3) p, of sq jc] p
  show ?case by auto
qed simp

lemma life_run_ok: "life_run sq jc evs l = Some l2 \<Longrightarrow> life_ok l \<Longrightarrow> life_ok l2"
  by (induction evs arbitrary: l) (auto simp: life_ok_step split: if_splits)

section \<open>Properties\<close>

text \<open>What a request finds when the broker cannot be reached: publishing fails, no other handler runs in between.\<close>

definition no_broker :: surroundings where
  "no_broker = \<lparr>malloc_ok = True, publish_ok = (\<lambda>_. False), meanwhile = (\<lambda>sv. sv)\<rparr>"

lemma http_goes_on:
  "life_reaches sq jc l0 l \<Longrightarrow> pub_at l0 \<noteq> Not_created \<Longrightarrow> http_at l0 = Looping \<Longrightarrow>
    pub_at l \<noteq> Not_created \<and> (life_running l \<longrightarrow> http_at l = Looping)"
proof (induction rule: life_reaches.induct)
  case (event l ev)
  then show ?case by (cases ev) (auto simp: life_defs Let_def split: if_splits)
qed simp

lemma no_broker_answer:
  assumes "collect_body [] (rq_chunks rq) = Some body"
  shows "\<exists>code answer. snd (snd (handle_request sq jc no_broker now rq sv)) = Respond code answer"
    and "rq_method rq = ''POST'' \<Longrightarrow> rq_url rq = ''/api/pump/control'' \<Longrightarrow>
      snd (snd (handle_request sq jc no_broker now rq sv)) = Respond 200 ''{\"status\":\"error\"}''"
    and "rq_method rq = ''GET'' \<Longrightarrow> rq_url rq = ''/api/pump/status'' \<Longrightarrow>
      snd (snd (handle_request sq jc no_broker now rq sv)) = Respond 200 (handle_pump_status sv)"
  using assms
  by (auto simp: handle_request_def handle_post_def handle_get_def no_broker_def handle_pump_control_def Let_def
      split: prod.split)

text \<open>
  C28. There is no way back from a lost broker connection: once the subscriber's connection attempt has
  failed or its connection is lost (over it no message arrives and every publish fails, as Paho documents), then
  whatever happens until the process ends, the connection stays away, no command is executed or recorded
  and no control message is published. Meanwhile an HTTP daemon that has started stays up until a signal, and as long as
  it is up every request, with a body that fits the buffer, is possible and answered: a status request with the state, a
  control request with status 200 and the text \<^verbatim>\<open>{"status":"error"}\<close>.
\<close>

theorem lost_connection_is_final:
  assumes "life_reaches sq jc l0 l" "\<not> sub_connected l0" "sub_at l0 \<in> {Looping, Ended}" "pub_at l0 \<noteq> Not_created"
  shows "\<not> sub_connected l \<and> subscriptions l = subscriptions l0 \<and> commands (life_site l) = commands (life_site l0) \<and>
    (http_at l0 = Looping \<and> life_running l \<longrightarrow> http_at l = Looping) \<and>
    (http_at l = Looping \<and> collect_body [] (rq_chunks rq) \<noteq> None \<longrightarrow>
      life_possible (Site_event (Http no_broker rq now)) l \<and>
      (\<exists>code answer. snd (snd (handle_request sq jc no_broker now rq (sys_server (life_site l)))) = Respond code answer) \<and>
      (rq_method rq = ''GET'' \<and> rq_url rq = ''/api/pump/status'' \<longrightarrow>
        snd (snd (handle_request sq jc no_broker now rq (sys_server (life_site l)))) =
          Respond 200 (handle_pump_status (sys_server (life_site l)))) \<and>
      (rq_method rq = ''POST'' \<and> rq_url rq = ''/api/pump/control'' \<longrightarrow>
        snd (snd (handle_request sq jc no_broker now rq (sys_server (life_site l)))) = Respond 200 ''{\"status\":\"error\"}''))"
proof -
  have "cut_off l0 l"
    using assms by (induction rule: life_reaches.induct) (simp_all add: cut_off_def [of l0 l0] cut_off_step)
  moreover have "life_possible (Site_event (Http no_broker rq now)) l" if "http_at l = Looping"
    using that by (simp add: no_broker_def)
  ultimately show ?thesis
    using http_goes_on [OF assms(1,4)] no_broker_answer [of rq _ sq jc now "sys_server (life_site l)"]
    unfolding cut_off_def by blast
qed

definition failed_start :: life where
  "failed_start = life_step sqlite_model jsonc_model (Sub_connect False)
     (life_step sqlite_model jsonc_model (Main_start True True) (life_start fresh_database))"

theorem lost_connection_is_final_witness:
  "let l = life_step sqlite_model jsonc_model (Http_start True) failed_start;
     rq = \<lparr>rq_method = ''POST'', rq_url = ''/api/pump/control'', rq_args = [], rq_chunks = [''{}'']\<rparr>
   in commands (life_site l) = commands (life_site failed_start) \<and>
     life_possible (Site_event (Http no_broker rq 7)) l \<and>
     snd (snd (handle_request sqlite_model jsonc_model no_broker 7 rq (sys_server (life_site l)))) =
       Respond 200 ''{\"status\":\"error\"}''"
proof -
  let ?l = "life_step sqlite_model jsonc_model (Http_start True) failed_start"
  let ?rq = "\<lparr>rq_method = ''POST'', rq_url = ''/api/pump/control'', rq_args = [], rq_chunks = [''{}'']\<rparr>"
  have f: "\<not> sub_connected failed_start" "sub_at failed_start \<in> {Looping, Ended}" "pub_at failed_start \<noteq> Not_created"
    "life_possible (Http_start True) failed_start"
    by (simp_all add: failed_start_def life_start_def life_defs Let_def)
  have "life_reaches sqlite_model jsonc_model failed_start ?l"
    by (rule life_reaches.event [OF life_reaches.here f(4)])
  note final = lost_connection_is_final [OF this f(1-3), of ?rq 7]
  have "http_at ?l = Looping" by simp
  moreover have "collect_body [] (rq_chunks ?rq) \<noteq> None" by code_simp
  moreover have "rq_method ?rq = ''POST''" "rq_url ?rq = ''/api/pump/control''" by simp_all
  ultimately show ?thesis using final unfolding Let_def by blast
qed

text \<open>
  C29. A signal ends the process, once \<open>main\<close> has opened the database and created the threads: in any run after the
  signal and the creation, in either order, at most seven events of the threads and of
  \<open>main\<close> happen, one of them can happen as long as the process has not exited, and when it has, the code
  is 0, all threads have ended and the database is closed.
\<close>

theorem shutdown_completes:
  assumes "life_reaches sq jc (life_start d) l0" "\<not> life_running l0" "pub_at l0 \<noteq> Not_created"
    and "life_run sq jc evs l0 = Some l"
  shows "length (filter own_event evs) \<le> 7 \<and>
    (if exit_code l = None then \<exists>ev. own_event ev \<and> life_possible ev l
     else exit_code l = Some 0 \<and> pub_at l = Ended \<and> sub_at l = Ended \<and> http_at l = Ended \<and>
       \<not> db_open (database (sys_server (life_site l))))"
proof -
  have ok: "life_ok l" by (rule life_run_ok [OF assms(4) life_ok_reaches [OF assms(1) life_ok_start]])
  have work: "length (filter own_event evs) \<le> life_work l0" "pub_at l \<noteq> Not_created"
    using life_run_work [OF assms(4,2,3)] by auto
  have "thread_work t \<le> 2" for t by (cases t) auto
  then have "life_work l0 \<le> 2 + 2 + 2 + 1"
    unfolding life_work_def by (intro add_mono) auto
  with work(1) have "length (filter own_event evs) \<le> 7" by simp
  moreover have "\<exists>ev. own_event ev \<and> life_possible ev l" if "exit_code l = None"
    by (rule life_progress [OF ok work(2) that])
  moreover have "c = 0 \<and> pub_at l = Ended \<and> sub_at l = Ended \<and> http_at l = Ended \<and>
      \<not> db_open (database (sys_server (life_site l)))" if "exit_code l = Some c" for c
    using ok that work(2) by (auto simp: life_ok_def)
  ultimately show ?thesis by auto
qed

definition signalled :: life where
  "signalled = life_step sqlite_model jsonc_model Signal
     (life_step sqlite_model jsonc_model (Main_start True True) (life_start fresh_database))"

theorem shutdown_completes_witness:
  "\<exists>l. life_run sqlite_model jsonc_model
      [Pub_connect True, Sub_connect True, Http_start True, Pub_round, Sub_round, Http_round, Main_join] signalled = Some l \<and>
    exit_code l = Some 0 \<and> \<not> db_open (database (sys_server (life_site l)))"
proof -
  have r: "life_reaches sqlite_model jsonc_model (life_start fresh_database) signalled"
    unfolding signalled_def
    by (intro life_reaches.event life_reaches.here) (simp_all add: life_start_def life_defs Let_def)
  have s: "\<not> life_running signalled" "pub_at signalled \<noteq> Not_created"
    by (simp_all add: signalled_def life_start_def life_defs Let_def)
  obtain l where l: "life_run sqlite_model jsonc_model
      [Pub_connect True, Sub_connect True, Http_start True, Pub_round, Sub_round, Http_round, Main_join] signalled = Some l"
    "exit_code l \<noteq> None"
    by (simp add: signalled_def life_start_def life_defs Let_def)
  from shutdown_completes [OF r s l(1)] l show ?thesis by auto
qed

end
