(* ===== verification/SearchId.thy ===== *)
theory SearchId
  imports Prelude "HOL-Library.Word" "HOL-Library.Sublist"
begin

text \<open>
  Texts and identifiers of the search of the reference pages: JavaScript strings as lists of 16-bit
  code units, the library functions \<^verbatim>\<open>toLowerCase\<close>, \<^verbatim>\<open>escape\<close> and \<^verbatim>\<open>unescape\<close> on
  them, \<^verbatim>\<open>convertToId\<close> of \<^verbatim>\<open>search.js\<close>, and the shape of the entries of the index
  files (\<^verbatim>\<open>search/all_0.js\<close> and the others). Lower case is modelled for the letters of
  ASCII and Latin-1; other letters stay as they are.
\<close>

section \<open>Code units\<close>

type_synonym code_unit = "16 word"
type_synonym ustring = "code_unit list"

definition unit_of :: "char \<Rightarrow> code_unit" where
  "unit_of c = of_nat (of_char c)"

text \<open>A text of the source as code units.\<close>

definition ustr :: "string \<Rightarrow> ustring" where
  "ustr s = map unit_of s"

definition lower_unit :: "code_unit \<Rightarrow> code_unit" where
  "lower_unit c =
     (let n = unat c in if (65 \<le> n \<and> n \<le> 90) \<or> (192 \<le> n \<and> n \<le> 222 \<and> n \<noteq> 215) then c + 32 else c)"

definition lower_case :: "ustring \<Rightarrow> ustring" where
  "lower_case s = map lower_unit s"

definition blank :: code_unit where
  "blank = 32"

text \<open>\<open>s.replace(/^ +/, "")\<close>, \<open>s.replace(/ +$/, "")\<close> and \<open>s.replace(/ +/g, "")\<close>.\<close>

definition strip_leading :: "ustring \<Rightarrow> ustring" where
  "strip_leading s = dropWhile (\<lambda>c. c = blank) s"

definition strip_trailing :: "ustring \<Rightarrow> ustring" where
  "strip_trailing s = rev (dropWhile (\<lambda>c. c = blank) (rev s))"

definition strip_blanks :: "ustring \<Rightarrow> ustring" where
  "strip_blanks s = filter (\<lambda>c. c \<noteq> blank) s"

text \<open>\<open>n.toString(16)\<close> for a natural number, and a digit of it.\<close>

definition hex_char :: "nat \<Rightarrow> char" where
  "hex_char n = (if n < 10 then char_of (48 + n) else char_of (87 + n))"

fun to_hex :: "nat \<Rightarrow> string" where
  "to_hex n = (if n < 16 then [hex_char n] else to_hex (n div 16) @ [hex_char (n mod 16)])"

declare to_hex.simps [simp del]

section \<open>convertToId\<close>

text \<open>\<open>c.match(/[a-z0-9\u0080-\uFFFF]/)\<close>.\<close>

definition id_unit :: "code_unit \<Rightarrow> bool" where
  "id_unit c \<longleftrightarrow>
     (let n = unat c in (97 \<le> n \<and> n \<le> 122) \<or> (48 \<le> n \<and> n \<le> 57) \<or> 128 \<le> n)"

definition id_piece :: "code_unit \<Rightarrow> ustring" where
  "id_piece c =
     (let cn = unat c in
      if id_unit c then [c]
      else if cn < 16 then ustr (''_0'' @ to_hex cn)
      else ustr (''_'' @ to_hex cn))"

definition convertToId :: "ustring \<Rightarrow> ustring" where
  "convertToId search = foldl (\<lambda>result c. result @ id_piece c) [] search"

section \<open>escape and unescape\<close>

text \<open>The characters \<^verbatim>\<open>escape\<close> keeps: letters, digits and \<open>@*_+-./\<close>.\<close>

definition escape_keeps :: "nat \<Rightarrow> bool" where
  "escape_keeps n \<longleftrightarrow>
     (65 \<le> n \<and> n \<le> 90) \<or> (97 \<le> n \<and> n \<le> 122) \<or> (48 \<le> n \<and> n \<le> 57) \<or> n \<in> {64, 42, 95, 43, 45, 46, 47}"

definition upper_hex :: "nat \<Rightarrow> char" where
  "upper_hex n = (if n < 10 then char_of (48 + n) else char_of (55 + n))"

definition escape_unit :: "code_unit \<Rightarrow> string" where
  "escape_unit c =
     (let n = unat c in
      if escape_keeps n then [char_of n]
      else if n < 256 then CHR ''%'' # [upper_hex (n div 16), upper_hex (n mod 16)]
      else CHR ''%'' # CHR ''u'' #
           [upper_hex (n div 4096), upper_hex (n div 256 mod 16), upper_hex (n div 16 mod 16), upper_hex (n mod 16)])"

definition escape :: "ustring \<Rightarrow> string" where
  "escape s = concat (map escape_unit s)"

definition hex_digit :: "char \<Rightarrow> nat option" where
  "hex_digit c =
     (let n = of_char c in
      if 48 \<le> n \<and> n \<le> 57 then Some (n - 48)
      else if 65 \<le> n \<and> n \<le> 70 then Some (n - 55)
      else if 97 \<le> n \<and> n \<le> 102 then Some (n - 87)
      else None)"

text \<open>The number a run of hexadecimal digits spells, if all of them are digits.\<close>

fun hex_number :: "nat \<Rightarrow> string \<Rightarrow> nat option" where
  "hex_number a [] = Some a"
| "hex_number a (c # cs) = (case hex_digit c of None \<Rightarrow> None | Some d \<Rightarrow> hex_number (16 * a + d) cs)"

definition hex_at :: "nat \<Rightarrow> string \<Rightarrow> nat option" where
  "hex_at k s = (if length s < k then None else hex_number 0 (take k s))"

function unescape_text :: "string \<Rightarrow> ustring" where
  "unescape_text [] = []"
| "unescape_text (c # cs) =
     (if c = CHR ''%'' then
        (case (if cs \<noteq> [] \<and> hd cs = CHR ''u'' then hex_at 4 (tl cs) else None) of
           Some n \<Rightarrow> of_nat n # unescape_text (drop 5 cs)
         | None \<Rightarrow>
             (case hex_at 2 cs of
                Some n \<Rightarrow> of_nat n # unescape_text (drop 2 cs)
              | None \<Rightarrow> unit_of c # unescape_text cs))
      else unit_of c # unescape_text cs)"
  by pat_completeness auto
termination by (relation "measure length") auto

section \<open>Entries of the index files\<close>

text \<open>
  \<open>searchData[e]\<close> is \<open>[id, [name, [url, flag, scope], ...]]\<close>; a result is one
  \<open>[url, flag, scope]\<close>.
\<close>

type_synonym search_result = "string \<times> int \<times> string"
type_synonym search_entry = "string \<times> string \<times> search_result list"

definition entry_id :: "search_entry \<Rightarrow> string" where
  "entry_id e = fst e"

definition entry_name :: "search_entry \<Rightarrow> string" where
  "entry_name e = fst (snd e)"

definition entry_results :: "search_entry \<Rightarrow> search_result list" where
  "entry_results e = snd (snd e)"

section \<open>Laws\<close>

lemma of_char_less: "(of_char c :: nat) < 256"
  by (metis of_char_mod_256 mod_less_divisor zero_less_numeral)

lemma unat_unit_of [simp]: "unat (unit_of c) = of_char c"
  using less_trans [OF of_char_less [of c], of 65536] by (simp add: unit_of_def unat_of_nat)

lemma unit_of_inject [simp]: "unit_of c = unit_of d \<longleftrightarrow> c = d"
  by (metis unat_unit_of of_char_eq_iff)

lemma ustr_simps [simp]: "ustr [] = []" "ustr (c # s) = unit_of c # ustr s" "ustr (s @ t) = ustr s @ ustr t"
  by (simp_all add: ustr_def)

lemma ustr_inject [simp]: "ustr s = ustr t \<longleftrightarrow> s = t"
  by (simp add: ustr_def inj_map_eq_map inj_def)

lemma length_ustr [simp]: "length (ustr s) = length s"
  by (simp add: ustr_def)

lemma prefix_ustr [simp]: "prefix (ustr s) (ustr t) \<longleftrightarrow> prefix s t"
  by (auto simp: prefix_def ustr_def map_eq_append_conv)
     (metis ustr_def ustr_inject)

lemma lower_case_simps [simp]:
  "lower_case [] = []" "lower_case (c # s) = lower_unit c # lower_case s"
  "lower_case (s @ t) = lower_case s @ lower_case t" "length (lower_case s) = length s"
  by (simp_all add: lower_case_def)

lemma convertToId_map: "convertToId s = concat (map id_piece s)"
proof -
  have "foldl (\<lambda>result c. result @ id_piece c) r s = r @ concat (map id_piece s)" for r
    by (induction s arbitrary: r) auto
  then show ?thesis by (simp add: convertToId_def)
qed

lemma convertToId_simps [simp]:
  "convertToId [] = []" "convertToId (c # s) = id_piece c @ convertToId s"
  "convertToId (s @ t) = convertToId s @ convertToId t"
  by (simp_all add: convertToId_map)

lemma convertToId_prefix: "prefix s t \<Longrightarrow> prefix (convertToId s) (convertToId t)"
  by (auto simp: prefix_def)

text \<open>The comparison the search makes is the prefix order.\<close>

lemma substr_prefix: "length s \<le> length t \<and> take (length s) t = s \<longleftrightarrow> prefix s t"
  by (metis prefix_length_le take_is_prefix append_eq_conv_conj prefix_def)

section \<open>escape is undone by unescape\<close>

lemma of_char_upper_hex: "d < 16 \<Longrightarrow> (of_char (upper_hex d) :: nat) = (if d < 10 then 48 + d else 55 + d)"
  by (simp add: upper_hex_def)

lemma hex_digit_upper: "d < 16 \<Longrightarrow> hex_digit (upper_hex d) = Some d"
  by (auto simp: hex_digit_def of_char_upper_hex Let_def)

lemma upper_hex_neq_u: "d < 16 \<Longrightarrow> upper_hex d \<noteq> CHR ''u''"
proof
  assume "d < 16" "upper_hex d = CHR ''u''"
  with of_char_upper_hex [of d] show False by (simp split: if_splits)
qed

lemma hex_at_digits:
  "a < 16 \<Longrightarrow> b < 16 \<Longrightarrow> hex_at 2 (upper_hex a # upper_hex b # s) = Some (16 * a + b)"
  "a < 16 \<Longrightarrow> b < 16 \<Longrightarrow> c < 16 \<Longrightarrow> d < 16 \<Longrightarrow>
     hex_at 4 (upper_hex a # upper_hex b # upper_hex c # upper_hex d # s) = Some (16 * (16 * (16 * a + b) + c) + d)"
  by (simp_all add: hex_at_def hex_digit_upper take_Cons')

lemma hex_at_two:
  "n < 256 \<Longrightarrow> hex_at 2 (upper_hex (n div 16) # upper_hex (n mod 16) # s) = Some n"
  by (subst hex_at_digits) (auto simp: less_mult_imp_div_less)

lemma hex_at_four:
  assumes "n < 65536"
  shows "hex_at 4 (upper_hex (n div 4096) # upper_hex (n div 256 mod 16) # upper_hex (n div 16 mod 16)
           # upper_hex (n mod 16) # s) = Some n"
proof -
  have d: "n div 4096 < 16" "n div 256 mod 16 < 16" "n div 16 mod 16 < 16" "n mod 16 < 16"
    using assms by (simp_all add: less_mult_imp_div_less)
  have "16 * (n div 4096) + n div 256 mod 16 = n div 256"
    using mult_div_mod_eq [of 16 "n div 256"] by (simp flip: div_mult2_eq)
  moreover have "16 * (n div 256) + n div 16 mod 16 = n div 16"
    using mult_div_mod_eq [of 16 "n div 16"] by (simp flip: div_mult2_eq)
  ultimately have "16 * (16 * (16 * (n div 4096) + n div 256 mod 16) + n div 16 mod 16) + n mod 16 = n"
    by (simp only: mult_div_mod_eq)
  with hex_at_digits(2) [OF d, of s] show ?thesis by simp
qed

lemma unit_of_char_of: "unat c < 256 \<Longrightarrow> unit_of (char_of (unat c)) = c"
  by (simp add: unit_of_def)

lemma unescape_unit: "unescape_text (escape_unit c @ s) = c # unescape_text s"
proof -
  define n where "n = unat c"
  have n: "n < 65536" unfolding n_def using unsigned_less [of c] by simp
  have c: "of_nat n = c" by (simp add: n_def)
  consider "escape_keeps n" | "\<not> escape_keeps n" "n < 256" | "\<not> escape_keeps n" "\<not> n < 256" by blast
  then show ?thesis
  proof cases
    case 1
    then have "n < 256" "n \<noteq> 37" by (auto simp: escape_keeps_def)
    then have "char_of n \<noteq> CHR ''%''" by (auto dest: arg_cong [where f = "of_char :: char \<Rightarrow> nat"])
    with 1 \<open>n < 256\<close> show ?thesis by (simp add: escape_unit_def unit_of_char_of flip: n_def) (simp add: n_def unit_of_char_of)
  next
    case 2
    then have "n div 16 < 16" by (simp add: less_mult_imp_div_less)
    with 2 show ?thesis
      by (simp add: escape_unit_def Let_def hex_at_two upper_hex_neq_u c flip: n_def)
  next
    case 3
    with n show ?thesis
      by (simp add: escape_unit_def Let_def hex_at_four c flip: n_def)
  qed
qed

lemma unescape_escape: "unescape_text (escape s) = s"
  by (induction s) (simp_all add: escape_def unescape_unit)

text \<open>A text of letters and digits is its own escape.\<close>

lemma escape_plain:
  "list_all (\<lambda>c. escape_keeps (of_char c)) s \<Longrightarrow> escape (ustr s) = s"
  by (induction s) (auto simp: escape_def escape_unit_def Let_def)

section \<open>Well-formed index files\<close>

text \<open>
  An index file belongs to one first letter \<open>c\<close>: the id of each entry is the identifier of its
  lower-case name, an underscore and a running number, and the name starts with the letter.
\<close>

fun index_wf :: "char \<Rightarrow> nat \<Rightarrow> search_entry list \<Rightarrow> bool" where
  "index_wf c k [] = True"
| "index_wf c k (e # es) =
     (ustr (entry_id e) = convertToId (lower_case (ustr (entry_name e))) @ ustr (''_'' @ nat_dec k) \<and>
      take 1 (lower_case (ustr (entry_name e))) = [unit_of c] \<and>
      index_wf c (k + 1) es)"

lemma index_wf_append: "index_wf c k (es @ fs) \<longleftrightarrow> index_wf c k es \<and> index_wf c (k + length es) fs"
  by (induction es arbitrary: k) auto

definition index_file :: "char \<Rightarrow> search_entry list \<Rightarrow> bool" where
  "index_file c es \<longleftrightarrow> es \<noteq> [] \<and> (\<exists>n. index_wf c n es)"

lemma index_fileI: "es \<noteq> [] \<Longrightarrow> index_wf c n es \<Longrightarrow> index_file c es"
  by (auto simp: index_file_def)

text \<open>
  The same on characters, for ASCII names. The table of what each character contributes makes the
  check a rewriting of the entry's name.
\<close>

definition ascii :: "char \<Rightarrow> bool" where
  "ascii c \<longleftrightarrow> (of_char c :: nat) < 128"

definition name_piece :: "char \<Rightarrow> string" where
  "name_piece c =
     (let n = of_char c; m = (if 65 \<le> n \<and> n \<le> 90 then n + 32 else n) in
      if (97 \<le> m \<and> m \<le> 122) \<or> (48 \<le> m \<and> m \<le> 57) then [char_of m]
      else if m < 16 then ''_0'' @ to_hex m else ''_'' @ to_hex m)"

fun name_id :: "string \<Rightarrow> string" where
  "name_id [] = []"
| "name_id (c # s) = name_piece c @ name_id s"

fun index_check :: "char \<Rightarrow> nat \<Rightarrow> search_entry list \<Rightarrow> bool" where
  "index_check c k [] = True"
| "index_check c k ((i, n, rs) # es) =
     (list_all ascii n \<and> i = name_id n @ CHR ''_'' # nat_dec k \<and> n \<noteq> [] \<and> lower_char (hd n) = c \<and>
      index_check c (k + 1) es)"

named_theorems index_simps \<open>what the characters of the names contribute to an id\<close>

lemma ascii_table [index_simps]:
  "ascii CHR '' ''"
  "ascii CHR ''#''"
  "ascii CHR ''&''"
  "ascii CHR ''(''"
  "ascii CHR '')''"
  "ascii CHR ''.''"
  "ascii CHR ''/''"
  "ascii CHR ''0''"
  "ascii CHR ''1''"
  "ascii CHR ''2''"
  "ascii CHR ''3''"
  "ascii CHR ''4''"
  "ascii CHR ''5''"
  "ascii CHR ''6''"
  "ascii CHR ''7''"
  "ascii CHR ''8''"
  "ascii CHR ''9''"
  "ascii CHR '':''"
  "ascii CHR '';''"
  "ascii CHR ''A''"
  "ascii CHR ''B''"
  "ascii CHR ''C''"
  "ascii CHR ''D''"
  "ascii CHR ''E''"
  "ascii CHR ''F''"
  "ascii CHR ''G''"
  "ascii CHR ''H''"
  "ascii CHR ''I''"
  "ascii CHR ''J''"
  "ascii CHR ''K''"
  "ascii CHR ''L''"
  "ascii CHR ''M''"
  "ascii CHR ''N''"
  "ascii CHR ''O''"
  "ascii CHR ''P''"
  "ascii CHR ''Q''"
  "ascii CHR ''R''"
  "ascii CHR ''S''"
  "ascii CHR ''T''"
  "ascii CHR ''U''"
  "ascii CHR ''V''"
  "ascii CHR ''W''"
  "ascii CHR ''X''"
  "ascii CHR ''Y''"
  "ascii CHR ''Z''"
  "ascii CHR ''_''"
  "ascii CHR ''-''"
  "ascii CHR '',''"
  "ascii CHR ''a''"
  "ascii CHR ''b''"
  "ascii CHR ''c''"
  "ascii CHR ''d''"
  "ascii CHR ''e''"
  "ascii CHR ''f''"
  "ascii CHR ''g''"
  "ascii CHR ''h''"
  "ascii CHR ''i''"
  "ascii CHR ''j''"
  "ascii CHR ''k''"
  "ascii CHR ''l''"
  "ascii CHR ''m''"
  "ascii CHR ''n''"
  "ascii CHR ''o''"
  "ascii CHR ''p''"
  "ascii CHR ''q''"
  "ascii CHR ''r''"
  "ascii CHR ''s''"
  "ascii CHR ''t''"
  "ascii CHR ''u''"
  "ascii CHR ''v''"
  "ascii CHR ''w''"
  "ascii CHR ''x''"
  "ascii CHR ''y''"
  "ascii CHR ''z''"
  by (simp_all add: ascii_def)

text \<open>The table is proved through the numbers of the characters.\<close>

lemma char_of_eqI: "n = of_char d \<Longrightarrow> char_of n = d"
  by simp

lemma name_piece_letter:
  assumes "(of_char d :: nat) = (if 65 \<le> (of_char c :: nat) \<and> (of_char c :: nat) \<le> 90 then of_char c + 32 else of_char c)"
    and "(97 \<le> (of_char d :: nat) \<and> (of_char d :: nat) \<le> 122) \<or> (48 \<le> (of_char d :: nat) \<and> (of_char d :: nat) \<le> 57)"
  shows "name_piece c = [d]"
  using assms by (simp only: name_piece_def Let_def char_of_eqI if_True simp_thms flip: assms(1))

lemma lower_char_eqI:
  assumes "(of_char d :: nat) = (if (65 \<le> (of_char c :: nat) \<and> (of_char c :: nat) \<le> 90) \<or>
      (192 \<le> (of_char c :: nat) \<and> (of_char c :: nat) \<le> 222 \<and> (of_char c :: nat) \<noteq> 215) then of_char c + 32 else of_char c)"
  shows "lower_char c = d"
  using assms by (auto simp: lower_char_def Let_def intro: char_of_eqI split: if_splits)

lemma name_piece_table [index_simps]:
  "name_piece CHR ''0'' = ''0''"
  "name_piece CHR ''1'' = ''1''"
  "name_piece CHR ''2'' = ''2''"
  "name_piece CHR ''3'' = ''3''"
  "name_piece CHR ''4'' = ''4''"
  "name_piece CHR ''5'' = ''5''"
  "name_piece CHR ''6'' = ''6''"
  "name_piece CHR ''7'' = ''7''"
  "name_piece CHR ''8'' = ''8''"
  "name_piece CHR ''9'' = ''9''"
  "name_piece CHR ''A'' = ''a''"
  "name_piece CHR ''B'' = ''b''"
  "name_piece CHR ''C'' = ''c''"
  "name_piece CHR ''D'' = ''d''"
  "name_piece CHR ''E'' = ''e''"
  "name_piece CHR ''F'' = ''f''"
  "name_piece CHR ''G'' = ''g''"
  "name_piece CHR ''H'' = ''h''"
  "name_piece CHR ''I'' = ''i''"
  "name_piece CHR ''J'' = ''j''"
  "name_piece CHR ''K'' = ''k''"
  "name_piece CHR ''L'' = ''l''"
  "name_piece CHR ''M'' = ''m''"
  "name_piece CHR ''N'' = ''n''"
  "name_piece CHR ''O'' = ''o''"
  "name_piece CHR ''P'' = ''p''"
  "name_piece CHR ''Q'' = ''q''"
  "name_piece CHR ''R'' = ''r''"
  "name_piece CHR ''S'' = ''s''"
  "name_piece CHR ''T'' = ''t''"
  "name_piece CHR ''U'' = ''u''"
  "name_piece CHR ''V'' = ''v''"
  "name_piece CHR ''W'' = ''w''"
  "name_piece CHR ''X'' = ''x''"
  "name_piece CHR ''Y'' = ''y''"
  "name_piece CHR ''Z'' = ''z''"
  "name_piece CHR ''a'' = ''a''"
  "name_piece CHR ''b'' = ''b''"
  "name_piece CHR ''c'' = ''c''"
  "name_piece CHR ''d'' = ''d''"
  "name_piece CHR ''e'' = ''e''"
  "name_piece CHR ''f'' = ''f''"
  "name_piece CHR ''g'' = ''g''"
  "name_piece CHR ''h'' = ''h''"
  "name_piece CHR ''i'' = ''i''"
  "name_piece CHR ''j'' = ''j''"
  "name_piece CHR ''k'' = ''k''"
  "name_piece CHR ''l'' = ''l''"
  "name_piece CHR ''m'' = ''m''"
  "name_piece CHR ''n'' = ''n''"
  "name_piece CHR ''o'' = ''o''"
  "name_piece CHR ''p'' = ''p''"
  "name_piece CHR ''q'' = ''q''"
  "name_piece CHR ''r'' = ''r''"
  "name_piece CHR ''s'' = ''s''"
  "name_piece CHR ''t'' = ''t''"
  "name_piece CHR ''u'' = ''u''"
  "name_piece CHR ''v'' = ''v''"
  "name_piece CHR ''w'' = ''w''"
  "name_piece CHR ''x'' = ''x''"
  "name_piece CHR ''y'' = ''y''"
  "name_piece CHR ''z'' = ''z''"
  by (rule name_piece_letter; simp)+

lemma name_piece_other [index_simps]:
  "name_piece CHR '' '' = ''_20''"
  "name_piece CHR ''#'' = ''_23''"
  "name_piece CHR ''&'' = ''_26''"
  "name_piece CHR ''('' = ''_28''"
  "name_piece CHR '')'' = ''_29''"
  "name_piece CHR ''.'' = ''_2e''"
  "name_piece CHR ''/'' = ''_2f''"
  "name_piece CHR '':'' = ''_3a''"
  "name_piece CHR '';'' = ''_3b''"
  "name_piece CHR ''_'' = ''_5f''"
  "name_piece CHR ''-'' = ''_2d''"
  "name_piece CHR '','' = ''_2c''"
  by code_simp+

lemma lower_char_table [index_simps]:
  "lower_char CHR ''A'' = CHR ''a''"
  "lower_char CHR ''B'' = CHR ''b''"
  "lower_char CHR ''C'' = CHR ''c''"
  "lower_char CHR ''D'' = CHR ''d''"
  "lower_char CHR ''E'' = CHR ''e''"
  "lower_char CHR ''F'' = CHR ''f''"
  "lower_char CHR ''G'' = CHR ''g''"
  "lower_char CHR ''H'' = CHR ''h''"
  "lower_char CHR ''I'' = CHR ''i''"
  "lower_char CHR ''J'' = CHR ''j''"
  "lower_char CHR ''K'' = CHR ''k''"
  "lower_char CHR ''L'' = CHR ''l''"
  "lower_char CHR ''M'' = CHR ''m''"
  "lower_char CHR ''N'' = CHR ''n''"
  "lower_char CHR ''O'' = CHR ''o''"
  "lower_char CHR ''P'' = CHR ''p''"
  "lower_char CHR ''Q'' = CHR ''q''"
  "lower_char CHR ''R'' = CHR ''r''"
  "lower_char CHR ''S'' = CHR ''s''"
  "lower_char CHR ''T'' = CHR ''t''"
  "lower_char CHR ''U'' = CHR ''u''"
  "lower_char CHR ''V'' = CHR ''v''"
  "lower_char CHR ''W'' = CHR ''w''"
  "lower_char CHR ''X'' = CHR ''x''"
  "lower_char CHR ''Y'' = CHR ''y''"
  "lower_char CHR ''Z'' = CHR ''z''"
  "lower_char CHR ''a'' = CHR ''a''"
  "lower_char CHR ''b'' = CHR ''b''"
  "lower_char CHR ''c'' = CHR ''c''"
  "lower_char CHR ''d'' = CHR ''d''"
  "lower_char CHR ''e'' = CHR ''e''"
  "lower_char CHR ''f'' = CHR ''f''"
  "lower_char CHR ''g'' = CHR ''g''"
  "lower_char CHR ''h'' = CHR ''h''"
  "lower_char CHR ''i'' = CHR ''i''"
  "lower_char CHR ''j'' = CHR ''j''"
  "lower_char CHR ''k'' = CHR ''k''"
  "lower_char CHR ''l'' = CHR ''l''"
  "lower_char CHR ''m'' = CHR ''m''"
  "lower_char CHR ''n'' = CHR ''n''"
  "lower_char CHR ''o'' = CHR ''o''"
  "lower_char CHR ''p'' = CHR ''p''"
  "lower_char CHR ''q'' = CHR ''q''"
  "lower_char CHR ''r'' = CHR ''r''"
  "lower_char CHR ''s'' = CHR ''s''"
  "lower_char CHR ''t'' = CHR ''t''"
  "lower_char CHR ''u'' = CHR ''u''"
  "lower_char CHR ''v'' = CHR ''v''"
  "lower_char CHR ''w'' = CHR ''w''"
  "lower_char CHR ''x'' = CHR ''x''"
  "lower_char CHR ''y'' = CHR ''y''"
  "lower_char CHR ''z'' = CHR ''z''"
  "lower_char CHR ''_'' = CHR ''_''"
  by (rule lower_char_eqI; simp)+

lemma digit_char_table [index_simps]:
  "digit_char 0 = CHR ''0''"
  "digit_char 1 = CHR ''1''"
  "digit_char 2 = CHR ''2''"
  "digit_char 3 = CHR ''3''"
  "digit_char 4 = CHR ''4''"
  "digit_char 5 = CHR ''5''"
  "digit_char 6 = CHR ''6''"
  "digit_char 7 = CHR ''7''"
  "digit_char 8 = CHR ''8''"
  "digit_char 9 = CHR ''9''"
  by code_simp+

lemma hex_char_table:
  "hex_char 2 = CHR ''2''"
  "hex_char 3 = CHR ''3''"
  "hex_char 4 = CHR ''4''"
  "hex_char 5 = CHR ''5''"
  "hex_char 6 = CHR ''6''"
  "hex_char 7 = CHR ''7''"
  "hex_char 8 = CHR ''8''"
  "hex_char 9 = CHR ''9''"
  "hex_char 10 = CHR ''a''"
  "hex_char 11 = CHR ''b''"
  "hex_char 12 = CHR ''c''"
  "hex_char 13 = CHR ''d''"
  "hex_char 14 = CHR ''e''"
  "hex_char 15 = CHR ''f''"
  "hex_char 0 = CHR ''0''" "hex_char (Suc 0) = CHR ''1''"
  by code_simp+

lemma digit_char_one [index_simps]: "digit_char (Suc 0) = CHR ''1''"
  by code_simp

text \<open>All that evaluates \<open>index_check\<close> on a file.\<close>

lemmas index_eval = index_simps nat_dec.simps

lemma lower_unit_ascii:
  assumes "ascii c" shows "lower_unit (unit_of c) = unit_of (lower_char c)"
proof (cases "65 \<le> (of_char c :: nat) \<and> (of_char c :: nat) \<le> 90")
  case True
  then have "unit_of (char_of (of_char c + 32 :: nat)) = unit_of c + 32"
    by (simp add: unit_of_def)
  with True show ?thesis by (simp add: lower_unit_def lower_char_def Let_def)
qed (use assms in \<open>auto simp: lower_unit_def lower_char_def ascii_def Let_def\<close>)

lemma id_piece_ascii:
  assumes "ascii c" shows "id_piece (lower_unit (unit_of c)) = ustr (name_piece c)"
proof -
  define n where "n = (of_char c :: nat)"
  then have c: "c = char_of n" and n: "n < 128" using assms by (simp_all add: ascii_def)
  show ?thesis
    using n by (auto simp: c lower_unit_ascii [OF assms, unfolded c] id_piece_def id_unit_def lower_char_def
        name_piece_def Let_def)
qed

lemma id_piece_lower: "ascii c \<Longrightarrow> id_piece (unit_of (lower_char c)) = ustr (name_piece c)"
  using id_piece_ascii [of c] by (simp add: lower_unit_ascii)

lemma convertToId_ascii:
  "list_all ascii s \<Longrightarrow> convertToId (lower_case (ustr s)) = ustr (name_id s)"
  by (induction s) (auto simp: id_piece_ascii)

lemma index_wf_check: "index_check c k es \<Longrightarrow> index_wf c k es"
proof (induction c k es rule: index_check.induct)
  case (2 c k i n rs es)
  then obtain x xs where n: "n = x # xs" by (cases n) auto
  from 2 show ?case
    by (auto simp: entry_id_def entry_name_def convertToId_ascii n lower_unit_ascii id_piece_lower)
qed simp

end
