(* ===== verification/SearchBox.thy ===== *)
theory SearchBox
  imports SearchId
begin

text \<open>
  The search panel of the reference pages, the object \<^verbatim>\<open>SearchBox\<close> of
  \<^verbatim>\<open>search.js\<close>: its instance variables together with the elements of the page it reads
  and changes (the input field, the filter menu, the popup that frames the results), the timers it
  starts, and the calls of its handlers by the browser. Positions the browser computes are the
  parameter \<open>lay\<close>.
\<close>

section \<open>Positions\<close>

text \<open>
  An element with its \<open>offsetLeft\<close>, \<open>offsetTop\<close>, \<open>offsetWidth\<close>, \<open>offsetHeight\<close> and
  \<open>offsetParent\<close>; \<open>Body\<close> is \<open>document.body\<close>.
\<close>

datatype box = Body | Box (offsetLeft: int) (offsetTop: int) (offsetWidth: int) (offsetHeight: int) (offsetParent: "box option")

fun sum_left :: "box option \<Rightarrow> int" where
  "sum_left (Some (Box l t w h p)) = l + sum_left p"
| "sum_left _ = 0"

fun sum_top :: "box option \<Rightarrow> int" where
  "sum_top (Some (Box l t w h p)) = t + sum_top p"
| "sum_top _ = 0"

fun getXPos :: "box \<Rightarrow> int" where
  "getXPos Body = 0"
| "getXPos (Box l t w h p) = (if w \<noteq> 0 then sum_left (Some (Box l t w h p)) else 0)"

fun getYPos :: "box \<Rightarrow> int" where
  "getYPos Body = 0"
| "getYPos (Box l t w h p) = (if w \<noteq> 0 then sum_top (Some (Box l t w h p)) else 0)"

record layout =
  select_icon :: box
  box_place :: box
  select_width :: int
  results_width :: int
  body_width :: int

definition px :: "int \<Rightarrow> string" where
  "px n = int_dec n @ ''px''"

section \<open>The panel\<close>

text \<open>The tables of \<^verbatim>\<open>searchdata.js\<close>, objects with number keys.\<close>

record search_tables =
  indexSectionsWithContent :: "(nat \<times> string) list"
  indexSectionNames :: "(nat \<times> string) list"
  indexSectionLabels :: "(nat \<times> string) list"

text \<open>An entry of the filter menu: a link whose first child is the span with the mark.\<close>

record menu_item =
  item_class :: string
  item_onclick :: string
  item_mark :: string
  item_label :: string

datatype panel_focus = Search_field | Menu_item nat | Elsewhere

text \<open>A timer: its number, the code it runs and the time it is due.\<close>

type_synonym timer = "nat \<times> string \<times> nat"

record panel =
  box_name :: string
  resultsPath :: string
  keyTimeout :: nat
  keyTimeoutLength :: nat
  closeSelectionTimeout :: nat
  lastSearchValue :: ustring
  lastResultsPage :: string
  hideTimeout :: nat
  searchIndex :: nat
  searchActive :: bool
  insideFrame :: bool
  searchLabel :: ustring
  extension :: string
  fieldValue :: ustring
  menuItems :: "menu_item list"
  menuDisplay :: string
  menuLeft :: string
  menuTop :: string
  popupDisplay :: string
  popupPosition :: string
  popupLeft :: string
  popupTop :: string
  popupWidth :: string
  frameWidth :: string
  closeDisplay :: string
  boxClass :: string
  frameLocation :: string
  frameMessages :: "string list"
  focused :: panel_focus
  alerts :: "string list"
  timers :: "timer list"
  clock :: nat
  nextTimer :: nat

text \<open>\<open>new SearchBox(name, resultsPath, inFrame, label, extension)\<close> on a freshly loaded page.\<close>

definition new_SearchBox :: "string \<Rightarrow> string \<Rightarrow> bool \<Rightarrow> ustring \<Rightarrow> string \<Rightarrow> panel" where
  "new_SearchBox name path inFrame label ext =
     \<lparr>box_name = name, resultsPath = path, keyTimeout = 0, keyTimeoutLength = 500, closeSelectionTimeout = 300,
      lastSearchValue = [], lastResultsPage = '''', hideTimeout = 0, searchIndex = 0, searchActive = False,
      insideFrame = inFrame, searchLabel = label, extension = (if ext = '''' then ''.html'' else ext),
      fieldValue = label, menuItems = [], menuDisplay = '''', menuLeft = '''', menuTop = '''',
      popupDisplay = '''', popupPosition = '''', popupLeft = '''', popupTop = '''', popupWidth = '''', frameWidth = '''',
      closeDisplay = '''', boxClass = ''MSearchBoxInactive'', frameLocation = '''', frameMessages = [],
      focused = Elsewhere, alerts = (if name = '''' \<or> path = '''' then [''Missing parameters to SearchBox.''] else []),
      timers = [], clock = 0, nextTimer = 1\<rparr>"

definition setTimeout :: "string \<Rightarrow> nat \<Rightarrow> panel \<Rightarrow> panel" where
  "setTimeout code ms p = p\<lparr>timers := timers p @ [(nextTimer p, code, clock p + ms)], nextTimer := nextTimer p + 1\<rparr>"

definition clearTimeout :: "nat \<Rightarrow> panel \<Rightarrow> panel" where
  "clearTimeout k p = p\<lparr>timers := filter (\<lambda>(i, _). i \<noteq> k) (timers p)\<rparr>"

section \<open>Activation and focus\<close>

definition Activate :: "bool \<Rightarrow> panel \<Rightarrow> panel" where
  "Activate isActive p =
     (if isActive \<or> popupDisplay p = ''block'' then
        (let p = p\<lparr>boxClass := ''MSearchBoxActive''\<rparr> in
         if fieldValue p = searchLabel p then p\<lparr>fieldValue := [], searchActive := True\<rparr> else p)
      else p\<lparr>boxClass := ''MSearchBoxInactive'', fieldValue := searchLabel p, searchActive := False,
             lastSearchValue := [], lastResultsPage := ''''\<rparr>)"

definition OnSearchFieldFocus :: "bool \<Rightarrow> panel \<Rightarrow> panel" where
  "OnSearchFieldFocus isActive p = Activate isActive p"

text \<open>
  Moving the focus runs the handlers of the field, \<open>onblur\<close> and then \<open>onfocus\<close>
  (both are \<open>OnSearchFieldFocus\<close>, see \<^verbatim>\<open>menu.js\<close>).
\<close>

definition set_focus :: "panel_focus \<Rightarrow> panel \<Rightarrow> panel" where
  "set_focus target p =
     (if focused p = target then p
      else let p = (if focused p = Search_field then OnSearchFieldFocus False (p\<lparr>focused := Elsewhere\<rparr>) else p);
               p = p\<lparr>focused := target\<rparr>
           in if target = Search_field then OnSearchFieldFocus True p else p)"

section \<open>The filter menu\<close>

definition OnSearchSelectShow :: "layout \<Rightarrow> panel \<Rightarrow> panel" where
  "OnSearchSelectShow lay p =
     (let searchField = select_icon lay;
          h = (case searchField of Body \<Rightarrow> 0 | Box _ _ _ h _ \<Rightarrow> h);
          w = (case searchField of Body \<Rightarrow> 0 | Box _ _ w _ _ \<Rightarrow> w);
          top = getYPos searchField + h;
          left = (if insideFrame p then getXPos searchField + (w + 6) - select_width lay else getXPos searchField);
          p = p\<lparr>menuDisplay := ''block'', menuLeft := px left, menuTop := px top\<rparr>
      in if hideTimeout p \<noteq> 0 then (clearTimeout (hideTimeout p) p)\<lparr>hideTimeout := 0\<rparr> else p)"

definition OnSearchSelectHide :: "panel \<Rightarrow> panel" where
  "OnSearchSelectHide p =
     (setTimeout (box_name p @ ''.CloseSelectionWindow()'') (closeSelectionTimeout p) p)\<lparr>hideTimeout := nextTimer p\<rparr>"

definition CloseSelectionWindow :: "panel \<Rightarrow> panel" where
  "CloseSelectionWindow p = p\<lparr>menuDisplay := ''none''\<rparr>"

definition SelectItemCount :: "panel \<Rightarrow> nat" where
  "SelectItemCount p = foldl (\<lambda>count child. if item_class child = ''SelectItem'' then count + 1 else count) 0 (menuItems p)"

fun select_marks :: "nat \<Rightarrow> nat \<Rightarrow> menu_item list \<Rightarrow> menu_item list" where
  "select_marks i j [] = []"
| "select_marks i j (c # cs) =
     (if item_class c = ''SelectItem''
      then c\<lparr>item_mark := (if j = i then ''&#8226;'' else ''&#160;'')\<rparr> # select_marks i (j + 1) cs
      else c # select_marks i j cs)"

definition SelectItemSet :: "nat \<Rightarrow> panel \<Rightarrow> panel" where
  "SelectItemSet i p = p\<lparr>menuItems := select_marks i 0 (menuItems p)\<rparr>"

section \<open>Searching\<close>

text \<open>\<open>s.indexOf(t)\<close>.\<close>

fun indexOf_aux :: "nat \<Rightarrow> ustring \<Rightarrow> ustring \<Rightarrow> nat option" where
  "indexOf_aux i [] t = (if t = [] then Some i else None)"
| "indexOf_aux i (c # cs) t = (if take (length t) (c # cs) = t then Some i else indexOf_aux (i + 1) cs t)"

definition indexOf :: "ustring \<Rightarrow> ustring \<Rightarrow> nat option" where
  "indexOf s t = indexOf_aux 0 s t"

text \<open>
  \<open>s > 1\<close> for a text. Texts of decimal digits are modelled; the only use is on a text that starts
  with a surrogate, which is not a number and so never greater.
\<close>

definition text_greater_one :: "ustring \<Rightarrow> bool" where
  "text_greater_one s \<longleftrightarrow>
     (s \<noteq> [] \<and> list_all (\<lambda>c. 48 \<le> unat c \<and> unat c \<le> 57) s \<and> 1 < foldl (\<lambda>a c. 10 * a + (unat c - 48)) 0 s)"

text \<open>The first character of the search value, \<open>idxChar\<close>.\<close>

definition index_char :: "ustring \<Rightarrow> ustring" where
  "index_char searchValue =
     (if (case lower_case searchValue of [] \<Rightarrow> False | c # _ \<Rightarrow> 0xD800 \<le> unat c \<and> unat c \<le> 0xDBFF) \<and>
         text_greater_one searchValue
      then take 2 searchValue
      else lower_case (take 1 searchValue))"

text \<open>\<open>resultsPage\<close> and \<open>resultsPageWithSearch\<close>.\<close>

definition results_page_of :: "search_tables \<Rightarrow> nat \<Rightarrow> string \<Rightarrow> string \<Rightarrow> ustring \<Rightarrow> js_error + string \<times> string" where
  "results_page_of tab section path ext searchValue =
     (case map_of (indexSectionsWithContent tab) section of
        None \<Rightarrow> Inl TypeError
      | Some content \<Rightarrow>
          (case indexOf (ustr content) (index_char searchValue) of
             Some idx \<Rightarrow>
               (let name = (case map_of (indexSectionNames tab) section of None \<Rightarrow> ''undefined'' | Some n \<Rightarrow> n);
                    page = path @ ''/'' @ name @ ''_'' @ to_hex idx @ ext
                in Inr (page, page @ ''?'' @ escape searchValue))
           | None \<Rightarrow> let page = path @ ''/nomatches'' @ ext in Inr (page, page)))"

definition show_popup :: "layout \<Rightarrow> panel \<Rightarrow> panel" where
  "show_popup lay p =
     (if popupDisplay p \<noteq> ''block'' then
        (let p = p\<lparr>closeDisplay := ''inline-block''\<rparr> in
         if insideFrame p then
           (let width = body_width lay - 8 in
            p\<lparr>popupPosition := ''relative'', popupDisplay := ''block'', popupWidth := px width, frameWidth := px width\<rparr>)
         else
           (let left = getXPos (box_place lay) + 150 - results_width lay; top = getYPos (box_place lay) + 20 in
            p\<lparr>popupDisplay := ''block'', popupTop := px top, popupLeft := px left\<rparr>))
      else p)"

text \<open>
  A handler that may throw gives the exception and the panel as it is at that point: what was
  assigned before stays assigned.
\<close>

type_synonym outcome = "js_error option \<times> panel"

definition box_Search :: "layout \<Rightarrow> search_tables \<Rightarrow> panel \<Rightarrow> outcome" where
  "box_Search lay tab p =
     (let p = p\<lparr>keyTimeout := 0\<rparr>;
          searchValue = strip_leading (fieldValue p)
      in case results_page_of tab (searchIndex p) (resultsPath p) (extension p) searchValue of
           Inl e \<Rightarrow> (Some e, p)
         | Inr (page, withSearch) \<Rightarrow>
             let p = p\<lparr>frameLocation := withSearch\<rparr>; p = show_popup lay p
             in (None, p\<lparr>lastSearchValue := searchValue, lastResultsPage := page\<rparr>))"

definition OnSelectItem :: "layout \<Rightarrow> search_tables \<Rightarrow> nat \<Rightarrow> panel \<Rightarrow> outcome" where
  "OnSelectItem lay tab i p =
     (let p = SelectItemSet i (p\<lparr>searchIndex := i\<rparr>) in
      if strip_blanks (fieldValue p) \<noteq> [] \<and> searchActive p then box_Search lay tab p else (None, p))"

section \<open>Key handlers\<close>

record key =
  keyCode :: nat
  shiftKey :: bool

definition CloseResultsWindow :: "panel \<Rightarrow> panel" where
  "CloseResultsWindow p = Activate False (p\<lparr>popupDisplay := ''none'', closeDisplay := ''none''\<rparr>)"

text \<open>The first entry of the menu, which Shift with Down or Enter moves the focus to.\<close>

fun first_item :: "nat \<Rightarrow> menu_item list \<Rightarrow> nat option" where
  "first_item i [] = None"
| "first_item i (c # cs) = (if item_class c = ''SelectItem'' then Some i else first_item (i + 1) cs)"

definition field_changed :: "panel \<Rightarrow> panel" where
  "field_changed p =
     (let searchValue = strip_blanks (fieldValue p) in
      if searchValue \<noteq> lastSearchValue p then
        (if searchValue \<noteq> []
         then (setTimeout (box_name p @ ''.Search()'') (keyTimeoutLength p) p)\<lparr>keyTimeout := nextTimer p\<rparr>
         else p\<lparr>popupDisplay := ''none'', closeDisplay := ''none'', lastSearchValue := []\<rparr>)
      else p)"

definition OnSearchFieldChange :: "layout \<Rightarrow> key \<Rightarrow> panel \<Rightarrow> panel" where
  "OnSearchFieldChange lay e p =
     (let p = (if keyTimeout p \<noteq> 0 then (clearTimeout (keyTimeout p) p)\<lparr>keyTimeout := 0\<rparr> else p) in
      if keyCode e = 40 \<or> keyCode e = 13 then
        (if shiftKey e then
           (let p = OnSearchSelectShow lay p in
            case first_item 0 (menuItems p) of None \<Rightarrow> p | Some i \<Rightarrow> set_focus (Menu_item i) p)
         else field_changed (p\<lparr>frameMessages := frameMessages p @ [''take_focus'']\<rparr>))
      else if keyCode e = 27 then
        (let p = (if focused p = Search_field then set_focus Elsewhere p else p);
             p = p\<lparr>popupDisplay := ''none'', closeDisplay := ''none'', lastSearchValue := []\<rparr>
         in Activate False p)
      else field_changed p)"

definition OnSearchSelectKey :: "layout \<Rightarrow> search_tables \<Rightarrow> key \<Rightarrow> panel \<Rightarrow> outcome" where
  "OnSearchSelectKey lay tab e p =
     (if keyCode e = 40 \<and> searchIndex p < SelectItemCount p then
        OnSelectItem lay tab (searchIndex p + 1) (p\<lparr>searchIndex := searchIndex p + 1\<rparr>)
      else if keyCode e = 38 \<and> 0 < searchIndex p then
        OnSelectItem lay tab (searchIndex p - 1) (p\<lparr>searchIndex := searchIndex p - 1\<rparr>)
      else if keyCode e = 13 \<or> keyCode e = 27 then
        (case OnSelectItem lay tab (searchIndex p) p of
           (Some err, p) \<Rightarrow> (Some err, p)
         | (None, p) \<Rightarrow> (None, set_focus Search_field (CloseSelectionWindow p)))
      else (None, p))"

section \<open>Start-up\<close>

text \<open>\<open>init_search()\<close>: one link per label, then the first filter is selected.\<close>

definition menu_link :: "nat \<times> string \<Rightarrow> menu_item" where
  "menu_link kl =
     \<lparr>item_class = ''SelectItem'', item_onclick = ''searchBox.OnSelectItem('' @ nat_dec (fst kl) @ '')'',
      item_mark = ''&#160;'', item_label = snd kl\<rparr>"

definition init_search :: "layout \<Rightarrow> search_tables \<Rightarrow> panel \<Rightarrow> outcome" where
  "init_search lay tab p =
     OnSelectItem lay tab 0
       (foldl (\<lambda>p kl. p\<lparr>menuItems := menuItems p @ [menu_link kl]\<rparr>) p (indexSectionLabels tab))"

end
