(* ===== verification/SearchTables.thy ===== *)
theory SearchTables
  imports SearchBox
begin

text \<open>
  The tables of \<^verbatim>\<open>search/searchdata.js\<close> of the three references: for every section of the
  filter menu the first letters that have an index file, the file name prefix and the label.
\<close>

section \<open>The asynchronous client\<close>

definition async_contents :: "(nat \<times> string) list" where
  "async_contents =
    [(0, ''abcdehiklmnopqrstuvw''),
     (1, ''m''),
     (2, ''m''),
     (3, ''m''),
     (4, ''abcdehiklmnopqrstuvw''),
     (5, ''mp''),
     (6, ''m''),
     (7, ''m''),
     (8, ''m''),
     (9, ''acpqst'')]"

definition async_names :: "(nat \<times> string) list" where
  "async_names =
    [(0, ''all''),
     (1, ''classes''),
     (2, ''files''),
     (3, ''functions''),
     (4, ''variables''),
     (5, ''typedefs''),
     (6, ''enums''),
     (7, ''enumvalues''),
     (8, ''defines''),
     (9, ''pages'')]"

definition async_labels :: "(nat \<times> string) list" where
  "async_labels =
    [(0, ''All''),
     (1, ''Data Structures''),
     (2, ''Files''),
     (3, ''Functions''),
     (4, ''Variables''),
     (5, ''Typedefs''),
     (6, ''Enumerations''),
     (7, ''Enumerator''),
     (8, ''Macros''),
     (9, ''Pages'')]"

definition async_tables :: search_tables where
  "async_tables = \<lparr>indexSectionsWithContent = async_contents, indexSectionNames = async_names, indexSectionLabels = async_labels\<rparr>"

section \<open>The synchronous client\<close>

definition client_contents :: "(nat \<times> string) list" where
  "client_contents =
    [(0, ''abcdehiklmnpqrstuvw''),
     (1, ''m''),
     (2, ''m''),
     (3, ''m''),
     (4, ''abcdehiklmnpqrstuvw''),
     (5, ''mp''),
     (6, ''m''),
     (7, ''m''),
     (8, ''m''),
     (9, ''acmqst'')]"

definition client_names :: "(nat \<times> string) list" where
  "client_names =
    [(0, ''all''),
     (1, ''classes''),
     (2, ''files''),
     (3, ''functions''),
     (4, ''variables''),
     (5, ''typedefs''),
     (6, ''enums''),
     (7, ''enumvalues''),
     (8, ''defines''),
     (9, ''pages'')]"

definition client_labels :: "(nat \<times> string) list" where
  "client_labels =
    [(0, ''All''),
     (1, ''Data Structures''),
     (2, ''Files''),
     (3, ''Functions''),
     (4, ''Variables''),
     (5, ''Typedefs''),
     (6, ''Enumerations''),
     (7, ''Enumerator''),
     (8, ''Macros''),
     (9, ''Pages'')]"

definition client_tables :: search_tables where
  "client_tables = \<lparr>indexSectionsWithContent = client_contents, indexSectionNames = client_names, indexSectionLabels = client_labels\<rparr>"

section \<open>The internals of the library\<close>

definition internal_contents :: "(nat \<times> string) list" where
  "internal_contents =
    [(0, ''_abcdefghiklmnopqrstuvw''),
     (1, ''acfhlmnpqstuw''),
     (2, ''chlmstu''),
     (3, ''cfhilmprstuw''),
     (4, ''_abcdefghiklmnopqrstuvw''),
     (5, ''mp''),
     (6, ''_amp''),
     (7, ''m'')]"

definition internal_names :: "(nat \<times> string) list" where
  "internal_names =
    [(0, ''all''),
     (1, ''classes''),
     (2, ''files''),
     (3, ''functions''),
     (4, ''variables''),
     (5, ''typedefs''),
     (6, ''defines''),
     (7, ''pages'')]"

definition internal_labels :: "(nat \<times> string) list" where
  "internal_labels =
    [(0, ''All''),
     (1, ''Data Structures''),
     (2, ''Files''),
     (3, ''Functions''),
     (4, ''Variables''),
     (5, ''Typedefs''),
     (6, ''Macros''),
     (7, ''Pages'')]"

definition internal_tables :: search_tables where
  "internal_tables = \<lparr>indexSectionsWithContent = internal_contents, indexSectionNames = internal_names, indexSectionLabels = internal_labels\<rparr>"

end
