(* ===== verification/Dom.thy ===== *)
theory Dom
  imports Prelude "HOL-Library.AList"
begin

text \<open>
  Documents of the generated reference pages (\<^verbatim>\<open>lib/paho.mqtt.c-1.3.13/docs\<close>), as far as
  their scripts read and change them. A document is a finite tree of elements; an element of it is
  named by its path, the child numbers from the root down, so that \<open>firstChild\<close>,
  \<open>nextSibling\<close> and \<open>parentNode\<close> are functions from paths to paths that may be null
  (\<open>None\<close>). The tree does not change once a script has built it; what changes afterwards, the
  \<open>style.display\<close> of each element, is a separate map from paths to texts.
\<close>

section \<open>Elements\<close>

text \<open>Tag name, attributes, text set through \<open>innerHTML\<close>, child elements.\<close>

datatype dom = Node (nodeName: string) (attrs: "(string \<times> string) list") (innerHTML: string) (childNodes: "dom list")

type_synonym path = "nat list"

definition getAttribute :: "dom \<Rightarrow> string \<Rightarrow> string option" where
  "getAttribute n a = map_of (attrs n) a"

definition className :: "dom \<Rightarrow> string" where
  "className n = (case getAttribute n ''class'' of None \<Rightarrow> '''' | Some c \<Rightarrow> c)"

definition createElement :: "string \<Rightarrow> dom" where
  "createElement tag = Node tag [] '''' []"

definition setAttribute :: "string \<Rightarrow> string \<Rightarrow> dom \<Rightarrow> dom" where
  "setAttribute a v n = Node (nodeName n) (AList.update a v (attrs n)) (innerHTML n) (childNodes n)"

definition setInnerHTML :: "string \<Rightarrow> dom \<Rightarrow> dom" where
  "setInnerHTML h n = Node (nodeName n) (attrs n) h []"

definition appendChild :: "dom \<Rightarrow> dom \<Rightarrow> dom" where
  "appendChild c n = Node (nodeName n) (attrs n) (innerHTML n) (childNodes n @ [c])"

section \<open>Navigation\<close>

fun node_at :: "dom \<Rightarrow> path \<Rightarrow> dom option" where
  "node_at n [] = Some n"
| "node_at n (i # p) = (if i < length (childNodes n) then node_at (childNodes n ! i) p else None)"

definition firstChild :: "dom \<Rightarrow> path \<Rightarrow> path option" where
  "firstChild d p = (if node_at d (p @ [0]) = None then None else Some (p @ [0]))"

definition parentNode :: "path \<Rightarrow> path option" where
  "parentNode p = (if p = [] then None else Some (butlast p))"

definition nextSibling :: "dom \<Rightarrow> path \<Rightarrow> path option" where
  "nextSibling d p =
     (if p = [] then None
      else let q = butlast p @ [Suc (last p)] in if node_at d q = None then None else Some q)"

text \<open>The paths of all elements, in document order.\<close>

fun paths :: "dom \<Rightarrow> path list" and paths_list :: "dom list \<Rightarrow> nat \<Rightarrow> path list" where
  "paths (Node t as h ks) = [] # paths_list ks 0"
| "paths_list [] i = []"
| "paths_list (k # ks) i = map ((#) i) (paths k) @ paths_list ks (Suc i)"

definition element :: "dom \<Rightarrow> path \<Rightarrow> dom" where
  "element d p = (case node_at d p of None \<Rightarrow> createElement '''' | Some n \<Rightarrow> n)"

definition getElementById :: "dom \<Rightarrow> string \<Rightarrow> path option" where
  "getElementById d x = find (\<lambda>p. getAttribute (element d p) ''id'' = Some x) (paths d)"

definition getElementsByTagName :: "dom \<Rightarrow> string \<Rightarrow> path list" where
  "getElementsByTagName d t = filter (\<lambda>p. nodeName (element d p) = t) (paths d)"

text \<open>Appending to the element at a path, \<open>getElementById(...).appendChild(c)\<close>.\<close>

fun append_at :: "dom \<Rightarrow> dom \<Rightarrow> path \<Rightarrow> dom" where
  "append_at c n [] = appendChild c n"
| "append_at c n (i # p) =
     Node (nodeName n) (attrs n) (innerHTML n) ((childNodes n)[i := append_at c (childNodes n ! i) p])"

section \<open>Laws\<close>

lemma node_at_append: "node_at d (p @ q) = (case node_at d p of None \<Rightarrow> None | Some n \<Rightarrow> node_at n q)"
  by (induction d p rule: node_at.induct) auto

lemma element_append: "node_at d p = Some n \<Longrightarrow> element d (p @ q) = element n q"
  by (simp add: element_def node_at_append)

lemma element_Nil [simp]: "element d [] = d"
  by (simp add: element_def)

lemma element_Some: "node_at d p = Some n \<Longrightarrow> element d p = n"
  by (simp add: element_def)

lemma node_at_child:
  "node_at d p = Some n \<Longrightarrow> node_at d (p @ [i]) = (if i < length (childNodes n) then Some (childNodes n ! i) else None)"
  by (simp add: node_at_append)

lemma firstChild_eq:
  "node_at d p = Some n \<Longrightarrow> firstChild d p = (if childNodes n = [] then None else Some (p @ [0]))"
  by (simp add: firstChild_def node_at_child)

lemma nextSibling_snoc:
  "node_at d p = Some n \<Longrightarrow>
     nextSibling d (p @ [i]) = (if Suc i < length (childNodes n) then Some (p @ [Suc i]) else None)"
  by (simp add: nextSibling_def node_at_child)

lemma parentNode_snoc [simp]: "parentNode (p @ [i]) = Some p"
  by (simp add: parentNode_def)

lemma set_paths:
  "set (paths d) = {p. node_at d p \<noteq> None}"
  "set (paths_list ks i) = {j # p |j p. i \<le> j \<and> j < i + length ks \<and> node_at (ks ! (j - i)) p \<noteq> None}"
proof (induction d and ks i rule: paths_paths_list.induct)
  case (1 t as h ks)
  show ?case
  proof (intro set_eqI)
    fix p
    show "p \<in> set (paths (Node t as h ks)) \<longleftrightarrow> p \<in> {p. node_at (Node t as h ks) p \<noteq> None}"
      by (cases p) (auto simp: 1 split: if_splits)
  qed
next
  case (3 k ks i)
  show ?case
  proof (intro set_eqI iffI)
    fix q assume "q \<in> set (paths_list (k # ks) i)"
    then consider p where "q = i # p" "node_at k p \<noteq> None"
      | j p where "q = j # p" "Suc i \<le> j" "j < Suc i + length ks" "node_at (ks ! (j - Suc i)) p \<noteq> None"
      unfolding paths_list.simps set_append set_map 3 by blast
    then show "q \<in> {j # p |j p. i \<le> j \<and> j < i + length (k # ks) \<and> node_at ((k # ks) ! (j - i)) p \<noteq> None}"
      by cases (auto simp: nth_Cons' Suc_diff_le)
  next
    fix q assume "q \<in> {j # p |j p. i \<le> j \<and> j < i + length (k # ks) \<and> node_at ((k # ks) ! (j - i)) p \<noteq> None}"
    then obtain j p where q: "q = j # p" and j: "i \<le> j" "j < Suc (i + length ks)"
      and n: "node_at ((k # ks) ! (j - i)) p \<noteq> None" by auto
    show "q \<in> set (paths_list (k # ks) i)"
    proof (cases "j = i")
      case True
      with q n show ?thesis by (simp add: 3)
    next
      case False
      with j n have "Suc i \<le> j" "node_at (ks ! (j - Suc i)) p \<noteq> None" by (auto simp: nth_Cons')
      with q j show ?thesis by (simp add: 3)
    qed
  qed
qed simp

lemma in_paths_iff: "p \<in> set (paths d) \<longleftrightarrow> node_at d p \<noteq> None"
  by (simp add: set_paths)

lemma distinct_paths: "distinct (paths d)" "distinct (paths_list ks i)"
proof (induction d and ks i rule: paths_paths_list.induct)
  case (1 t as h ks)
  then show ?case by (auto simp: set_paths)
next
  case (3 k ks i)
  then show ?case by (auto simp: set_paths distinct_map)
qed simp_all

text \<open>When one element only carries the id, the lookup finds it.\<close>

lemma getElementById_unique:
  assumes "node_at d p = Some n" "getAttribute n ''id'' = Some x"
    and "\<And>q m. node_at d q = Some m \<Longrightarrow> getAttribute m ''id'' = Some x \<Longrightarrow> q = p"
  shows "getElementById d x = Some p"
proof -
  have "find (\<lambda>p. getAttribute (element d p) ''id'' = Some x) (paths d) \<noteq> None"
    using assms(1,2) by (auto simp: find_None_iff in_paths_iff element_def)
  then obtain q where q: "find (\<lambda>p. getAttribute (element d p) ''id'' = Some x) (paths d) = Some q" by blast
  then have "q \<in> set (paths d)" "getAttribute (element d q) ''id'' = Some x" by (auto simp: find_Some_iff)
  then have "q = p" using assms(3) by (auto simp: in_paths_iff element_def)
  with q show ?thesis by (simp add: getElementById_def)
qed

lemma getElementById_None:
  "(\<And>q m. node_at d q = Some m \<Longrightarrow> getAttribute m ''id'' \<noteq> Some x) \<Longrightarrow> getElementById d x = None"
  by (auto simp: getElementById_def find_None_iff in_paths_iff element_def)

lemma getElementById_Some:
  assumes "getElementById d x = Some p"
  shows "getAttribute (element d p) ''id'' = Some x" "p \<in> set (paths d)"
  using assms find_Some_iff [of "\<lambda>p. getAttribute (element d p) ''id'' = Some x" "paths d" p]
  by (auto simp: getElementById_def)

lemma getElementById_in_paths: "getElementById d x = Some p \<Longrightarrow> node_at d p \<noteq> None"
  using in_paths_iff by (fastforce simp: getElementById_def find_Some_iff)

lemma in_getElementsByTagName:
  "p \<in> set (getElementsByTagName d t) \<longleftrightarrow> (\<exists>n. node_at d p = Some n \<and> nodeName n = t)"
  by (auto simp: getElementsByTagName_def in_paths_iff element_def)

lemma distinct_getElementsByTagName: "distinct (getElementsByTagName d t)"
  by (simp add: getElementsByTagName_def distinct_paths)

end
