(* ===== verification/SearchResults.thy ===== *)
theory SearchResults
  imports Dom SearchId
begin

text \<open>
  The page that lists the results of a search: \<^verbatim>\<open>createResults\<close> and the object
  \<^verbatim>\<open>SearchResults\<close> of \<^verbatim>\<open>search.js\<close>. The document is built once from the entries of
  an index file; afterwards only \<open>style.display\<close> of its elements and the focus change.
\<close>

section \<open>Building the page\<close>

definition setKeyActions :: "string \<Rightarrow> dom \<Rightarrow> dom" where
  "setKeyActions action elem =
     setAttribute ''onkeyup'' action (setAttribute ''onkeypress'' action (setAttribute ''onkeydown'' action elem))"

definition setClassAttr :: "string \<Rightarrow> dom \<Rightarrow> dom" where
  "setClassAttr attr elem = setAttribute ''className'' attr (setAttribute ''class'' attr elem)"

definition item_id :: "int \<Rightarrow> string" where
  "item_id e = ''Item'' @ int_dec e"

definition child_id :: "int \<Rightarrow> nat \<Rightarrow> string" where
  "child_id e c = ''Item'' @ int_dec e @ ''_c'' @ nat_dec c"

text \<open>One child link of an entry with several results.\<close>

definition result_child :: "nat \<Rightarrow> nat \<Rightarrow> search_result \<Rightarrow> dom" where
  "result_child e c r =
     (let srChild = setAttribute ''id'' (child_id (int e) c) (createElement ''a'');
          srChild = setKeyActions (''return searchResults.NavChild(event,'' @ nat_dec e @ '','' @ nat_dec c @ '')'') srChild;
          srChild = setClassAttr ''SRScope'' srChild;
          srChild = setAttribute ''href'' (fst r) srChild;
          srChild = (if fst (snd r) \<noteq> 0 then setAttribute ''target'' ''_parent'' srChild else srChild)
      in setInnerHTML (snd (snd r)) srChild)"

text \<open>One entry, the body of the loop over \<open>searchData\<close>.\<close>

definition result_link :: "nat \<Rightarrow> search_entry \<Rightarrow> dom" where
  "result_link e d =
     (let srLink = setAttribute ''id'' (item_id (int e)) (createElement ''a'');
          srLink = setKeyActions (''return searchResults.Nav(event,'' @ nat_dec e @ '')'') srLink;
          srLink = setClassAttr ''SRSymbol'' srLink;
          srLink = setInnerHTML (entry_name d) srLink
      in case entry_results d of
           [r] \<Rightarrow>
             (let srLink = setAttribute ''href'' (fst r) srLink
              in if fst (snd r) \<noteq> 0 then setAttribute ''target'' ''_parent'' srLink else srLink)
         | _ \<Rightarrow> setAttribute ''href'' (''javascript:searchResults.Toggle(\"SR_'' @ entry_id d @ ''\")'') srLink)"

definition result_extra :: "nat \<Rightarrow> search_entry \<Rightarrow> dom" where
  "result_extra e d =
     (case entry_results d of
        [r] \<Rightarrow> setInnerHTML (snd (snd r)) (setClassAttr ''SRScope'' (createElement ''span''))
      | rs \<Rightarrow>
          foldl (\<lambda>srChildren (c, r). appendChild (result_child e c r) srChildren)
            (setClassAttr ''SRChildren'' (createElement ''div'')) (enumerate 0 rs))"

definition result_row :: "nat \<Rightarrow> search_entry \<Rightarrow> dom" where
  "result_row e d =
     (let srResult = setClassAttr ''SRResult'' (setAttribute ''id'' (''SR_'' @ entry_id d) (createElement ''div''));
          srEntry = setClassAttr ''SREntry'' (createElement ''div'');
          srEntry = appendChild (result_link e d) srEntry;
          srEntry = appendChild (result_extra e d) srEntry
      in appendChild srEntry srResult)"

text \<open>
  \<open>createResults()\<close> on a document: every row is appended to the element \<open>SRResults\<close>. A page
  without that element makes \<open>results.appendChild\<close> throw, unless there is nothing to append.
\<close>

definition createResults :: "search_entry list \<Rightarrow> dom \<Rightarrow> js_error + dom" where
  "createResults searchData doc =
     (case getElementById doc ''SRResults'' of
        None \<Rightarrow> if searchData = [] then Inr doc else Inl TypeError
      | Some p \<Rightarrow> Inr (foldl (\<lambda>doc (e, d). append_at (result_row e d) doc p) doc (enumerate 0 searchData)))"

text \<open>The static body of the result pages (\<^verbatim>\<open>all_0.html\<close> and the others), without its text.\<close>

definition status_line :: "string \<Rightarrow> string \<Rightarrow> dom" where
  "status_line i t = Node ''div'' [(''class'', ''SRStatus''), (''id'', i)] t []"

definition results_body :: dom where
  "results_body =
     Node ''body'' [(''class'', ''SRPage'')] ''''
       [Node ''div'' [(''id'', ''SRIndex'')] ''''
          [status_line ''Loading'' ''Loading...'',
           Node ''div'' [(''id'', ''SRResults'')] '''' [],
           Node ''script'' [] '''' [],
           status_line ''Searching'' ''Searching...'',
           status_line ''NoMatches'' ''No Matches'',
           Node ''script'' [] '''' []]]"

section \<open>The object\<close>

text \<open>Calls into the page that frames the results, through \<open>parent\<close>.\<close>

datatype parent_call = Parent_CloseResultsWindow | Parent_focus_field

record results =
  page :: dom
  display :: "path \<Rightarrow> string"
  lastMatchCount :: nat
  lastKey :: nat
  repeatOn :: bool
  active :: "path option"
  parent_calls :: "parent_call list"

definition new_SearchResults :: "dom \<Rightarrow> results" where
  "new_SearchResults doc =
     \<lparr>page = doc, display = (\<lambda>p. ''''), lastMatchCount = 0, lastKey = 0, repeatOn = False,
      active = None, parent_calls = []\<rparr>"

definition set_display :: "path \<Rightarrow> string \<Rightarrow> results \<Rightarrow> results" where
  "set_display p v s = s\<lparr>display := (display s)(p := v)\<rparr>"

definition focus_element :: "path \<Rightarrow> results \<Rightarrow> results" where
  "focus_element p s = s\<lparr>active := Some p\<rparr>"

subsection \<open>FindChildElement\<close>

definition is_div :: "dom \<Rightarrow> bool" where
  "is_div n \<longleftrightarrow> toLowerCase (nodeName n) = ''div''"

text \<open>The inner loop: up until an element has a next sibling, or the start is reached.\<close>

function climb :: "dom \<Rightarrow> path \<Rightarrow> path \<Rightarrow> path option" where
  "climb d start p =
     (case parentNode p of
        None \<Rightarrow> None
      | Some q \<Rightarrow> if q \<noteq> start \<and> nextSibling d q = None then climb d start q else Some q)"
  by pat_completeness auto
termination
  by (relation "measure (\<lambda>(_, _, p). length p)") (auto simp: parentNode_def split: if_splits)

declare climb.simps [simp del]

text \<open>One round of the outer loop, from the element \<open>p\<close> to the next one.\<close>

definition walk_next :: "dom \<Rightarrow> path \<Rightarrow> path \<Rightarrow> path option" where
  "walk_next d start p =
     (if is_div (element d p) \<and> childNodes (element d p) \<noteq> [] then firstChild d p
      else case nextSibling d p of
             Some q \<Rightarrow> Some q
           | None \<Rightarrow>
               (case climb d start p of
                  None \<Rightarrow> None
                | Some q \<Rightarrow> if q \<noteq> start then nextSibling d q else Some q))"

text \<open>
  The outer loop with fuel: \<open>None\<close> when the fuel runs out, \<open>Some None\<close> when the loop ends
  without an element, which makes the function return \<open>undefined\<close>.
\<close>

fun find_walk :: "nat \<Rightarrow> dom \<Rightarrow> path \<Rightarrow> path option \<Rightarrow> path option option" where
  "find_walk f d start None = Some None"
| "find_walk f d start (Some p) =
     (if p = start then Some None
      else case f of
             0 \<Rightarrow> None
           | Suc f \<Rightarrow>
               if is_div (element d p) \<and> className (element d p) = ''SRChildren'' then Some (Some p)
               else find_walk f d start (walk_next d start p))"

definition FindChildElement :: "dom \<Rightarrow> string \<Rightarrow> js_error + path option option" where
  "FindChildElement d i =
     (case getElementById d i of
        None \<Rightarrow> Inl TypeError
      | Some p \<Rightarrow> Inr (find_walk (length (paths d)) d p (firstChild d p)))"

text \<open>
  What a handler gives: \<open>None\<close> when a loop does not end, otherwise the exception or the returned
  value, and the state at that point.
\<close>

type_synonym 'a nav_outcome = "((js_error + 'a) \<times> results) option"

definition Toggle :: "string \<Rightarrow> results \<Rightarrow> unit nav_outcome" where
  "Toggle i s =
     (case FindChildElement (page s) i of
        Inl e \<Rightarrow> Some (Inl e, s)
      | Inr None \<Rightarrow> None
      | Inr (Some None) \<Rightarrow> Some (Inr (), s)
      | Inr (Some (Some p)) \<Rightarrow>
          Some (Inr (), set_display p (if display s p = ''block'' then ''none'' else ''block'') s))"

subsection \<open>Search\<close>

text \<open>\<open>s.replace(/^sr\d*_/, '')\<close>.\<close>

definition strip_sr :: "string \<Rightarrow> string" where
  "strip_sr s =
     (if take 2 s = ''sr'' then
        (case dropWhile is_digit (drop 2 s) of
           [] \<Rightarrow> s
         | c # r \<Rightarrow> if c = CHR ''_'' then r else s)
      else s)"

definition result_matches :: "ustring \<Rightarrow> dom \<Rightarrow> bool" where
  "result_matches search row =
     (let rowMatchName = ustr (strip_sr (toLowerCase (case getAttribute row ''id'' of None \<Rightarrow> '''' | Some i \<Rightarrow> i)))
      in length search \<le> length rowMatchName \<and> take (length search) rowMatchName = search)"

text \<open>The loop over the rows, counting the matches.\<close>

definition show_rows :: "ustring \<Rightarrow> results \<Rightarrow> nat \<times> results" where
  "show_rows search s =
     foldl (\<lambda>(matches, s) p.
         if className (element (page s) p) = ''SRResult'' then
           (if result_matches search (element (page s) p)
            then (matches + 1, set_display p ''block'' s)
            else (matches, set_display p ''none'' s))
         else (matches, s))
       (0, s) (getElementsByTagName (page s) ''div'')"

definition search_word :: "ustring \<Rightarrow> string \<Rightarrow> ustring" where
  "search_word search location_search =
     (let search = (if search = [] then unescape_text (tl location_search) else search)
      in convertToId (lower_case (strip_trailing (strip_leading search))))"

definition results_Search :: "ustring \<Rightarrow> string \<Rightarrow> results \<Rightarrow> bool nav_outcome" where
  "results_Search search location_search s =
     (let (matches, s) = show_rows (search_word search location_search) s in
      case getElementById (page s) ''Searching'' of
        None \<Rightarrow> Some (Inl TypeError, s)
      | Some p \<Rightarrow>
          (let s = set_display p ''none'' s in
           case getElementById (page s) ''NoMatches'' of
             None \<Rightarrow> Some (Inl TypeError, s)
           | Some q \<Rightarrow>
               Some (Inr True, (set_display q (if matches = 0 then ''block'' else ''none'') s)\<lparr>lastMatchCount := matches\<rparr>)))"

subsection \<open>Moving the focus\<close>

definition grandparent :: "path \<Rightarrow> path option" where
  "grandparent p = (case parentNode p of None \<Rightarrow> None | Some q \<Rightarrow> parentNode q)"

lemma finite_ids:
  assumes "inj f" shows "finite {j. P j \<and> getElementById d (f j) \<noteq> None}"
proof -
  let ?A = "{j. P j \<and> getElementById d (f j) \<noteq> None}"
  have attr: "getAttribute (element d (the (getElementById d (f j)))) ''id'' = Some (f j)" if "j \<in> ?A" for j
    using that by (auto dest: getElementById_Some)
  have "inj_on (\<lambda>j. the (getElementById d (f j))) ?A"
  proof (rule inj_onI)
    fix j k assume j: "j \<in> ?A" and k: "k \<in> ?A"
      and eq: "the (getElementById d (f j)) = the (getElementById d (f k))"
    have "Some (f j) = Some (f k)" by (rule trans [OF attr [OF j, symmetric] attr [OF k, folded eq]])
    then have "f j = f k" by (rule option.inject [THEN iffD1])
    then show "j = k" by (rule injD [OF assms])
  qed
  moreover have "(\<lambda>j. the (getElementById d (f j))) ` ?A \<subseteq> set (paths d)"
    by (auto dest: getElementById_Some)
  ultimately show ?thesis by (rule inj_on_finite) (rule finite_set)
qed

lemma card_ids_less:
  assumes "inj f" "getElementById d (f i) \<noteq> None" "P i" "\<not> Q i" "\<And>j. Q j \<Longrightarrow> P j"
  shows "card {j. Q j \<and> getElementById d (f j) \<noteq> None} < card {j. P j \<and> getElementById d (f j) \<noteq> None}"
  by (rule psubset_card_mono [OF finite_ids [OF assms(1)]]) (use assms(2-) in blast)

lemma inj_item_id: "inj item_id"
  by (rule injI) (simp add: item_id_def)

lemma nat_dec_inject [simp]: "nat_dec m = nat_dec n \<longleftrightarrow> m = n"
  by (metis dec_val_nat_dec)

lemma inj_child_id: "inj (child_id e)"
  by (rule injI) (simp add: child_id_def)

text \<open>\<open>NavNext\<close> and \<open>NavPrev\<close>: the loops end because only finitely many elements have an id.\<close>

function NavNext :: "results \<Rightarrow> int \<Rightarrow> js_error + path option" where
  "NavNext s index =
     (case getElementById (page s) (item_id index) of
        None \<Rightarrow> Inr None
      | Some p \<Rightarrow>
          (case grandparent p of
             None \<Rightarrow> Inl TypeError
           | Some g \<Rightarrow> if display s g = ''block'' then Inr (Some p) else NavNext s (index + 1)))"
  by pat_completeness auto
termination
  by (relation "measure (\<lambda>(s, i). card {j. i \<le> j \<and> getElementById (page s) (item_id j) \<noteq> None})")
     (auto simp del: not_None_eq intro!: card_ids_less inj_item_id inj_child_id)

function NavPrev :: "results \<Rightarrow> int \<Rightarrow> js_error + path option" where
  "NavPrev s index =
     (case getElementById (page s) (item_id index) of
        None \<Rightarrow> Inr None
      | Some p \<Rightarrow>
          (case grandparent p of
             None \<Rightarrow> Inl TypeError
           | Some g \<Rightarrow> if display s g = ''block'' then Inr (Some p) else NavPrev s (index - 1)))"
  by pat_completeness auto
termination
  by (relation "measure (\<lambda>(s, i). card {j. j \<le> i \<and> getElementById (page s) (item_id j) \<noteq> None})")
     (auto simp del: not_None_eq intro!: card_ids_less inj_item_id inj_child_id)

text \<open>The loop of \<open>Nav\<close> that looks for the last child link of entry \<open>e\<close>, starting with child \<open>n\<close>.\<close>

function last_child :: "dom \<Rightarrow> int \<Rightarrow> nat \<Rightarrow> path \<Rightarrow> path" where
  "last_child d e n focusItem =
     (case getElementById d (child_id e n) of
        None \<Rightarrow> focusItem
      | Some tmpElem \<Rightarrow> last_child d e (n + 1) tmpElem)"
  by pat_completeness auto
termination
  by (relation "measure (\<lambda>(d, e, n, _). card {m. n \<le> m \<and> getElementById d (child_id e m) \<noteq> None})")
     (auto simp del: not_None_eq intro!: card_ids_less inj_item_id inj_child_id)

declare NavNext.simps [simp del] NavPrev.simps [simp del] last_child.simps [simp del]

record key_event =
  ev_type :: string
  ev_keyCode :: nat

definition ProcessKeys :: "key_event \<Rightarrow> results \<Rightarrow> bool \<times> results" where
  "ProcessKeys e s =
     (if ev_type e = ''keydown'' then (ev_keyCode e \<noteq> 0, s\<lparr>repeatOn := False, lastKey := ev_keyCode e\<rparr>)
      else if ev_type e = ''keypress'' then
        (if \<not> repeatOn s then (False, if lastKey s \<noteq> 0 then s\<lparr>repeatOn := True\<rparr> else s)
         else (lastKey s \<noteq> 0, s))
      else if ev_type e = ''keyup'' then (False, s\<lparr>lastKey := 0, repeatOn := False\<rparr>)
      else (lastKey s \<noteq> 0, s))"

text \<open>\<open>FindChildElement(item.parentNode.parentNode.id)\<close> for the link at a path.\<close>

definition children_of :: "dom \<Rightarrow> path \<Rightarrow> js_error + path option option" where
  "children_of d p =
     (case grandparent p of
        None \<Rightarrow> Inl TypeError
      | Some g \<Rightarrow> FindChildElement d (case getAttribute (element d g) ''id'' of None \<Rightarrow> '''' | Some i \<Rightarrow> i))"

definition nav_up :: "int \<Rightarrow> results \<Rightarrow> bool nav_outcome" where
  "nav_up itemIndex s =
     (let newIndex = itemIndex - 1 in
      case NavPrev s newIndex of
        Inl e \<Rightarrow> Some (Inl e, s)
      | Inr None \<Rightarrow> Some (Inr False, s\<lparr>parent_calls := parent_calls s @ [Parent_focus_field]\<rparr>)
      | Inr (Some focusItem) \<Rightarrow>
          (case children_of (page s) focusItem of
             Inl e \<Rightarrow> Some (Inl e, s)
           | Inr None \<Rightarrow> None
           | Inr (Some child) \<Rightarrow>
               (let focusItem =
                  (case child of
                     None \<Rightarrow> focusItem
                   | Some c \<Rightarrow> if display s c = ''block'' then last_child (page s) newIndex 0 focusItem else focusItem)
                in Some (Inr False, focus_element focusItem s))))"

definition nav_down :: "int \<Rightarrow> results \<Rightarrow> bool nav_outcome" where
  "nav_down itemIndex s =
     (case getElementById (page s) (item_id itemIndex) of
        None \<Rightarrow> Some (Inl TypeError, s)
      | Some item \<Rightarrow>
          (case children_of (page s) item of
             Inl e \<Rightarrow> Some (Inl e, s)
           | Inr None \<Rightarrow> None
           | Inr (Some elem) \<Rightarrow>
               (let focusItem =
                  (case elem of
                     None \<Rightarrow> None
                   | Some c \<Rightarrow> if display s c = ''block'' then getElementById (page s) (child_id itemIndex 0) else None)
                in case focusItem of
                     Some p \<Rightarrow> Some (Inr False, focus_element p s)
                   | None \<Rightarrow>
                       (case NavNext s (itemIndex + 1) of
                          Inl e \<Rightarrow> Some (Inl e, s)
                        | Inr None \<Rightarrow> Some (Inr False, s)
                        | Inr (Some p) \<Rightarrow> Some (Inr False, focus_element p s)))))"

definition nav_show :: "string \<Rightarrow> int \<Rightarrow> results \<Rightarrow> bool nav_outcome" where
  "nav_show v itemIndex s =
     (case getElementById (page s) (item_id itemIndex) of
        None \<Rightarrow> Some (Inl TypeError, s)
      | Some item \<Rightarrow>
          (case children_of (page s) item of
             Inl e \<Rightarrow> Some (Inl e, s)
           | Inr None \<Rightarrow> None
           | Inr (Some None) \<Rightarrow> Some (Inr False, s)
           | Inr (Some (Some elem)) \<Rightarrow> Some (Inr False, set_display elem v s)))"

definition nav_escape :: "results \<Rightarrow> results" where
  "nav_escape s = s\<lparr>parent_calls := parent_calls s @ [Parent_CloseResultsWindow, Parent_focus_field]\<rparr>"

definition Nav :: "key_event \<Rightarrow> int \<Rightarrow> results \<Rightarrow> bool nav_outcome" where
  "Nav e itemIndex s =
     (if ev_keyCode e = 13 then Some (Inr True, s)
      else let (go, s) = ProcessKeys e s in
        if \<not> go then Some (Inr False, s)
        else if lastKey s = 38 then nav_up itemIndex s
        else if lastKey s = 40 then nav_down itemIndex s
        else if lastKey s = 39 then nav_show ''block'' itemIndex s
        else if lastKey s = 37 then nav_show ''none'' itemIndex s
        else if lastKey s = 27 then Some (Inr False, nav_escape s)
        else Some (Inr (lastKey s = 13), s))"

definition focus_id :: "string \<Rightarrow> results \<Rightarrow> bool nav_outcome" where
  "focus_id i s =
     (case getElementById (page s) i of
        None \<Rightarrow> Some (Inl TypeError, s)
      | Some p \<Rightarrow> Some (Inr False, focus_element p s))"

definition NavChild :: "key_event \<Rightarrow> int \<Rightarrow> nat \<Rightarrow> results \<Rightarrow> bool nav_outcome" where
  "NavChild e itemIndex childIndex s =
     (if ev_keyCode e = 13 then Some (Inr True, s)
      else let (go, s) = ProcessKeys e s in
        if \<not> go then Some (Inr False, s)
        else if lastKey s = 38 then
          (if 0 < childIndex then focus_id (child_id itemIndex (childIndex - 1)) s
           else focus_id (item_id itemIndex) s)
        else if lastKey s = 40 then
          (case getElementById (page s) (child_id itemIndex (childIndex + 1)) of
             Some p \<Rightarrow> Some (Inr False, focus_element p s)
           | None \<Rightarrow>
               (case NavNext s (itemIndex + 1) of
                  Inl e \<Rightarrow> Some (Inl e, s)
                | Inr None \<Rightarrow> Some (Inr False, s)
                | Inr (Some p) \<Rightarrow> Some (Inr False, focus_element p s)))
        else if lastKey s = 27 then Some (Inr False, nav_escape s)
        else Some (Inr (lastKey s = 13), s))"

text \<open>The message the search field sends: the first visible entry gets the focus.\<close>

definition take_focus :: "results \<Rightarrow> (js_error option) \<times> results" where
  "take_focus s =
     (case NavNext s 0 of
        Inl e \<Rightarrow> (Some e, s)
      | Inr None \<Rightarrow> (None, s)
      | Inr (Some p) \<Rightarrow> (None, focus_element p s))"

end
