(* ===== verification/FindChild.thy ===== *)
theory FindChild
  imports SearchResults
begin

text \<open>
  \<open>FindChildElement\<close> walks the document by \<open>firstChild\<close>, \<open>nextSibling\<close> and
  \<open>parentNode\<close>. Here it is compared with the search it stands for, a recursion over the tree:
  the first element with class \<open>SRChildren\<close> among the descendants that are reached through
  \<open>div\<close> elements only. The walk always ends and finds that element.
\<close>

section \<open>The reference search\<close>

fun first_children :: "dom \<Rightarrow> path option" and first_children_list :: "dom list \<Rightarrow> nat \<Rightarrow> path option" where
  "first_children (Node t as h ks) =
     (if is_div (Node t as h ks) then
        (if className (Node t as h ks) = ''SRChildren'' then Some [] else first_children_list ks 0)
      else None)"
| "first_children_list [] i = None"
| "first_children_list (k # ks) i =
     (case first_children k of
        Some p \<Rightarrow> Some (i # p)
      | None \<Rightarrow> first_children_list ks (Suc i))"

text \<open>The elements the walk visits below an element, an upper bound for its rounds.\<close>

fun visits :: "dom \<Rightarrow> nat" and visits_list :: "dom list \<Rightarrow> nat" where
  "visits (Node t as h ks) = Suc (if is_div (Node t as h ks) then visits_list ks else 0)"
| "visits_list [] = 0"
| "visits_list (k # ks) = visits k + visits_list ks"

lemma visits_le_paths: "visits d \<le> length (paths d)" "visits_list ks \<le> length (paths_list ks i)"
  by (induction d and ks i rule: paths_paths_list.induct) auto

lemma paths_child_le: "i < length ks \<Longrightarrow> length (paths (ks ! i)) \<le> length (paths_list ks j)"
proof (induction ks arbitrary: i j)
  case (Cons k ks)
  then show ?case
    by (cases i) (auto intro: trans_le_add2)
qed simp

lemma paths_node_le: "node_at d p = Some n \<Longrightarrow> length (paths n) \<le> length (paths d)"
proof (induction d p rule: node_at.induct)
  case (2 d i p)
  then have i: "i < length (childNodes d)" and le: "length (paths n) \<le> length (paths (childNodes d ! i))"
    by (auto split: if_splits)
  show ?case using le paths_child_le [OF i, of 0] by (cases d) simp
qed simp

section \<open>The walk\<close>

text \<open>Where the walk goes when the subtree of an element is done.\<close>

definition walk_past :: "dom \<Rightarrow> path \<Rightarrow> path \<Rightarrow> path option" where
  "walk_past d start p =
     (case nextSibling d p of
        Some q \<Rightarrow> Some q
      | None \<Rightarrow>
          (case climb d start p of
             None \<Rightarrow> None
           | Some q \<Rightarrow> if q \<noteq> start then nextSibling d q else Some q))"

lemma walk_next_eq:
  "walk_next d start p =
     (if is_div (element d p) \<and> childNodes (element d p) \<noteq> [] then firstChild d p else walk_past d start p)"
  by (simp add: walk_next_def walk_past_def)

lemma walk_past_last:
  assumes "node_at d p = Some m" "childNodes m \<noteq> []"
  shows "walk_past d start (p @ [length (childNodes m) - 1]) = (if p = start then Some start else walk_past d start p)"
proof -
  have "nextSibling d (p @ [length (childNodes m) - 1]) = None"
    using assms by (simp add: nextSibling_snoc)
  then show ?thesis
    by (subst walk_past_def, subst climb.simps) (simp add: walk_past_def split: option.splits)
qed

lemma walk_past_inner:
  assumes "node_at d p = Some m" "Suc i < length (childNodes m)"
  shows "walk_past d start (p @ [i]) = Some (p @ [Suc i])"
  using assms by (simp add: walk_past_def nextSibling_snoc)

lemma find_walk_step:
  "p \<noteq> start \<Longrightarrow>
     find_walk (Suc f) d start (Some p) =
       (if is_div (element d p) \<and> className (element d p) = ''SRChildren'' then Some (Some p)
        else find_walk f d start (walk_next d start p))"
  by simp

lemma find_walk_start [simp]: "find_walk f d start (Some start) = Some None"
  by simp

declare find_walk.simps(2) [simp del]

lemma find_walk_subtree:
  "node_at d p = Some n \<Longrightarrow> strict_prefix start p \<Longrightarrow> visits n \<le> f \<Longrightarrow>
     find_walk f d start (Some p) =
       (case first_children n of
          Some q \<Rightarrow> Some (Some (p @ q))
        | None \<Rightarrow> find_walk (f - visits n) d start (walk_past d start p))"
  "node_at d p = Some m \<Longrightarrow> childNodes m = pre @ ks \<Longrightarrow> length pre = i \<Longrightarrow> ks \<noteq> [] \<Longrightarrow>
     prefix start p \<Longrightarrow> visits_list ks \<le> f \<Longrightarrow>
     find_walk f d start (Some (p @ [i])) =
       (case first_children_list ks i of
          Some q \<Rightarrow> Some (Some (p @ q))
        | None \<Rightarrow> find_walk (f - visits_list ks) d start (walk_past d start (p @ [length (childNodes m) - 1])))"
proof (induction n and ks i arbitrary: p f and p m pre f rule: first_children_first_children_list.induct)
  case (1 t as h ks)
  define n where "n = Node t as h ks"
  from "1.prems" obtain g where f: "f = Suc g" by (cases f) auto
  have el: "element d p = n" and ne: "p \<noteq> start" and pre: "prefix start p"
    using "1.prems" by (auto simp: element_def n_def)
  consider "\<not> is_div n" | "is_div n" "className n = ''SRChildren''"
    | "is_div n" "className n \<noteq> ''SRChildren''" "ks = []"
    | "is_div n" "className n \<noteq> ''SRChildren''" "ks \<noteq> []" by blast
  then show ?case
  proof cases
    case 4
    have n: "childNodes n = ks" "visits n = Suc (visits_list ks)" "first_children n = first_children_list ks 0"
      using 4 by (simp_all add: n_def)
    have first: "firstChild d p = Some (p @ [0])"
      using "1.prems"(1) 4(3) by (simp add: firstChild_eq)
    have "visits_list ks \<le> g" using "1.prems"(3) 4(1) f by (simp add: n_def)
    from "1.IH" [of p n "[]" g] this 4 "1.prems"(1) pre have
      "find_walk g d start (Some (p @ [0])) =
         (case first_children_list ks 0 of
            Some q \<Rightarrow> Some (Some (p @ q))
          | None \<Rightarrow> find_walk (g - visits_list ks) d start (walk_past d start (p @ [length (childNodes n) - 1])))"
      by (simp add: n_def)
    moreover have "walk_past d start (p @ [length (childNodes n) - 1]) = walk_past d start p"
      using walk_past_last [of d p n start] "1.prems"(1) 4(3) ne n by (simp flip: n_def)
    moreover have "find_walk f d start (Some p) = find_walk g d start (Some (p @ [0]))"
      using 4 ne first n by (simp add: f el walk_next_eq find_walk_step)
    ultimately show ?thesis unfolding n_def [symmetric] f n by (simp split: option.split)
  qed (use ne f in \<open>auto simp: el walk_next_eq n_def find_walk_step\<close>)
next
  case (2 i)
  then show ?case by simp
next
  case (3 k ks i)
  have k: "node_at d (p @ [i]) = Some k"
    using "3.prems" by (auto simp: node_at_child nth_append)
  have sp: "strict_prefix start (p @ [i])"
    using "3.prems"(5) by (auto simp: strict_prefix_def prefix_def)
  have vk: "visits k \<le> f" and vks: "visits_list ks \<le> f - visits k" using "3.prems"(6) by simp_all
  show ?case
  proof (cases "first_children k")
    case (Some q)
    with "3.IH"(1) [OF k sp vk] show ?thesis by simp
  next
    case None
    with "3.IH"(1) [OF k sp vk]
    have step: "find_walk f d start (Some (p @ [i])) = find_walk (f - visits k) d start (walk_past d start (p @ [i]))"
      by simp
    show ?thesis
    proof (cases "ks = []")
      case True
      with "3.prems"(2,3) have "length (childNodes m) - 1 = i" by simp
      with True step None show ?thesis by simp
    next
      case False
      with "3.prems"(1-3) have "walk_past d start (p @ [i]) = Some (p @ [Suc i])"
        by (intro walk_past_inner) (auto simp: neq_Nil_conv)
      with step "3.IH"(2) [OF None "3.prems"(1), of "pre @ [k]" "f - visits k"] False "3.prems" vks None
      show ?thesis by (simp split: option.split)
    qed
  qed
qed

section \<open>The result\<close>

lemma find_walk_eq:
  assumes "node_at d start = Some m"
  shows "find_walk (length (paths d)) d start (firstChild d start) =
         Some (map_option ((@) start) (first_children_list (childNodes m) 0))"
proof (cases "childNodes m = []")
  case True
  with assms show ?thesis by (simp add: firstChild_eq)
next
  case False
  have "visits_list (childNodes m) \<le> length (paths m)"
    using visits_le_paths(2) [of "childNodes m" 0] by (cases m) simp
  with paths_node_le [OF assms] have v: "visits_list (childNodes m) \<le> length (paths d)" by simp
  have last: "walk_past d start (start @ [length (childNodes m) - 1]) = Some start"
    using walk_past_last [OF assms False, of start] by simp
  show ?thesis
    using find_walk_subtree(2) [OF assms, of "[]" "childNodes m" 0 start "length (paths d)"] v False last assms
    by (simp add: firstChild_eq split: option.splits)
qed

lemma find_child_eq:
  "FindChildElement d i =
     (case getElementById d i of
        None \<Rightarrow> Inl TypeError
      | Some p \<Rightarrow> Inr (Some (map_option ((@) p) (first_children_list (childNodes (element d p)) 0))))"
proof (cases "getElementById d i")
  case (Some p)
  then obtain m where "node_at d p = Some m" using getElementById_in_paths by blast
  with find_walk_eq [of d p m] Some show ?thesis by (simp add: FindChildElement_def element_def)
qed (simp add: FindChildElement_def)

text \<open>
  C22. \<open>FindChildElement\<close> always returns, and what it returns is the structural search's result:
  the first element of class \<open>SRChildren\<close>, in document order, among the descendants of the named
  element that are reached through \<open>div\<close> elements; \<open>undefined\<close> if there is none; an exception
  if no element has the id.
\<close>

theorem find_child_element_exact:
  "FindChildElement d i =
     (case getElementById d i of
        None \<Rightarrow> Inl TypeError
      | Some p \<Rightarrow> Inr (Some (map_option ((@) p) (first_children_list (childNodes (element d p)) 0))))"
  by (rule find_child_eq)

end
