(* ===== verification/ResultsPage.thy ===== *)
theory ResultsPage
  imports FindChild
begin

text \<open>
  The results page of an index file: what \<open>createResults\<close> builds, where each id is, and with that
  what the functions of \<open>SearchResults\<close> do on such a page.
\<close>

section \<open>The document\<close>

text \<open>The places of an entry: its row, its link and its \<open>c\<close>-th child link.\<close>

definition row_path :: "nat \<Rightarrow> path" where
  "row_path e = [0, 1, e]"

definition link_path :: "nat \<Rightarrow> path" where
  "link_path e = [0, 1, e, 0, 0]"

definition extra_path :: "nat \<Rightarrow> path" where
  "extra_path e = [0, 1, e, 0, 1]"

definition child_path :: "nat \<Rightarrow> nat \<Rightarrow> path" where
  "child_path e c = [0, 1, e, 0, 1, c]"

lemmas place_defs = row_path_def link_path_def extra_path_def child_path_def

definition child_count :: "search_entry \<Rightarrow> nat" where
  "child_count d = (if length (entry_results d) = 1 then 0 else length (entry_results d))"

definition results_doc :: "search_entry list \<Rightarrow> dom" where
  "results_doc es =
     Node ''body'' [(''class'', ''SRPage'')] ''''
       [Node ''div'' [(''id'', ''SRIndex'')] ''''
          [status_line ''Loading'' ''Loading...'',
           Node ''div'' [(''id'', ''SRResults'')] '''' (map (\<lambda>(e, d). result_row e d) (enumerate 0 es)),
           Node ''script'' [] '''' [],
           status_line ''Searching'' ''Searching...'',
           status_line ''NoMatches'' ''No Matches'',
           Node ''script'' [] '''' []]]"

lemma getAttribute_set [simp]:
  "getAttribute (setAttribute a v n) b = (if a = b then Some v else getAttribute n b)"
  "getAttribute (setInnerHTML h n) b = getAttribute n b"
  "getAttribute (appendChild c n) b = getAttribute n b"
  "getAttribute (createElement t) b = None"
  by (auto simp: getAttribute_def setAttribute_def setInnerHTML_def appendChild_def createElement_def update_conv')

lemma childNodes_set [simp]:
  "childNodes (setAttribute a v n) = childNodes n" "childNodes (setInnerHTML h n) = []"
  "childNodes (appendChild c n) = childNodes n @ [c]" "childNodes (createElement t) = []"
  by (simp_all add: setAttribute_def setInnerHTML_def appendChild_def createElement_def)

lemma nodeName_set [simp]:
  "nodeName (setAttribute a v n) = nodeName n" "nodeName (setInnerHTML h n) = nodeName n"
  "nodeName (appendChild c n) = nodeName n" "nodeName (createElement t) = t"
  by (simp_all add: setAttribute_def setInnerHTML_def appendChild_def createElement_def)

lemmas attr_defs = setClassAttr_def setKeyActions_def

lemma result_child_node [simp]:
  "childNodes (result_child e c r) = []" "nodeName (result_child e c r) = ''a''"
  "getAttribute (result_child e c r) ''id'' = Some (child_id (int e) c)" "className (result_child e c r) = ''SRScope''"
  by (simp_all add: result_child_def Let_def attr_defs className_def)

lemma result_link_node [simp]:
  "childNodes (result_link e d) = []" "nodeName (result_link e d) = ''a''"
  "getAttribute (result_link e d) ''id'' = Some (item_id (int e))" "className (result_link e d) = ''SRSymbol''"
  by (auto simp: result_link_def Let_def attr_defs className_def split: list.splits)

lemma append_children:
  "foldl (\<lambda>n (c, r). appendChild (f c r) n) n rs =
     Node (nodeName n) (attrs n) (innerHTML n) (childNodes n @ map (\<lambda>(c, r). f c r) rs)"
  by (induction rs arbitrary: n) (auto simp: appendChild_def)

lemma child_count_single: "entry_results d = [r] \<Longrightarrow> child_count d = 0"
  by (simp add: child_count_def)

lemma child_count_other: "\<nexists>r. entry_results d = [r] \<Longrightarrow> child_count d = length (entry_results d)"
  by (auto simp: child_count_def length_Suc_conv)

lemma result_extra_single:
  "entry_results d = [r] \<Longrightarrow>
     result_extra e d = setInnerHTML (snd (snd r)) (setClassAttr ''SRScope'' (createElement ''span''))"
  by (simp add: result_extra_def)

lemma result_extra_other:
  "\<nexists>r. entry_results d = [r] \<Longrightarrow>
     result_extra e d = foldl (\<lambda>srChildren (c, r). appendChild (result_child e c r) srChildren)
       (setClassAttr ''SRChildren'' (createElement ''div'')) (enumerate 0 (entry_results d))"
  by (auto simp: result_extra_def split: list.split)

lemma result_extra_node [simp]:
  "getAttribute (result_extra e d) ''id'' = None"
  "is_div (result_extra e d) \<longleftrightarrow> (\<nexists>r. entry_results d = [r])"
  "is_div (result_extra e d) \<Longrightarrow> className (result_extra e d) = ''SRChildren''"
  "length (childNodes (result_extra e d)) = child_count d"
  "c < child_count d \<Longrightarrow> childNodes (result_extra e d) ! c = result_child e c (entry_results d ! c)"
proof -
  have "getAttribute (Node t (attrs n) h ks) b = getAttribute n b" for t n h ks b
    by (simp add: getAttribute_def)
  moreover have "toLowerCase ''span'' \<noteq> ''div''" "toLowerCase ''div'' = ''div''"
    by (code_simp)+
  ultimately have
    "getAttribute (result_extra e d) ''id'' = None \<and>
     (is_div (result_extra e d) \<longleftrightarrow> (\<nexists>r. entry_results d = [r])) \<and>
     (is_div (result_extra e d) \<longrightarrow> className (result_extra e d) = ''SRChildren'') \<and>
     length (childNodes (result_extra e d)) = child_count d \<and>
     (c < child_count d \<longrightarrow> childNodes (result_extra e d) ! c = result_child e c (entry_results d ! c))"
    by (cases "\<exists>r. entry_results d = [r]")
       (auto simp: result_extra_single result_extra_other append_children attr_defs is_div_def className_def
          child_count_single child_count_other nth_enumerate_eq)
  then show "getAttribute (result_extra e d) ''id'' = None"
    "is_div (result_extra e d) \<longleftrightarrow> (\<nexists>r. entry_results d = [r])"
    "is_div (result_extra e d) \<Longrightarrow> className (result_extra e d) = ''SRChildren''"
    "length (childNodes (result_extra e d)) = child_count d"
    "c < child_count d \<Longrightarrow> childNodes (result_extra e d) ! c = result_child e c (entry_results d ! c)"
    by blast+
qed

lemma className_extra: "className (result_extra e d) \<in> {''SRScope'', ''SRChildren''}"
proof (cases "\<exists>r. entry_results d = [r]")
  case True
  then show ?thesis by (auto simp: result_extra_single className_def attr_defs)
qed simp

definition entry_div :: "nat \<Rightarrow> search_entry \<Rightarrow> dom" where
  "entry_div e d =
     appendChild (result_extra e d) (appendChild (result_link e d) (setClassAttr ''SREntry'' (createElement ''div'')))"

lemma entry_div_node [simp]:
  "childNodes (entry_div e d) = [result_link e d, result_extra e d]" "nodeName (entry_div e d) = ''div''"
  "getAttribute (entry_div e d) ''id'' = None" "className (entry_div e d) = ''SREntry''"
  by (simp_all add: entry_div_def attr_defs className_def)

lemma result_row_node [simp]:
  "childNodes (result_row e d) = [entry_div e d]" "nodeName (result_row e d) = ''div''"
  "getAttribute (result_row e d) ''id'' = Some (''SR_'' @ entry_id d)" "className (result_row e d) = ''SRResult''"
  by (simp_all add: result_row_def entry_div_def Let_def attr_defs className_def)

text \<open>\<open>createResults\<close> on the static page builds this document.\<close>

lemma createResults_eq: "createResults es results_body = Inr (results_doc es)"
proof -
  define with_rows where "with_rows rows =
     Node ''body'' [(''class'', ''SRPage'')] ''''
       [Node ''div'' [(''id'', ''SRIndex'')] ''''
          [status_line ''Loading'' ''Loading...'',
           Node ''div'' [(''id'', ''SRResults'')] '''' rows,
           Node ''script'' [] '''' [],
           status_line ''Searching'' ''Searching...'',
           status_line ''NoMatches'' ''No Matches'',
           Node ''script'' [] '''' []]]" for rows
  have app: "append_at c (with_rows rows) [0, 1] = with_rows (rows @ [c])" for c rows
    by (simp add: with_rows_def appendChild_def)
  have rows: "foldl (\<lambda>doc (e, d). append_at (result_row e d) doc [0, 1]) (with_rows rows) eds =
      with_rows (rows @ map (\<lambda>(e, d). result_row e d) eds)" for rows eds
    by (induction eds arbitrary: rows) (auto simp: app simp del: append_at.simps One_nat_def)
  have "getElementById results_body ''SRResults'' = Some [0, 1]"
    by (simp add: getElementById_def results_body_def status_line_def element_def getAttribute_def)
  then have "createResults es results_body =
      Inr (foldl (\<lambda>doc (e, d). append_at (result_row e d) doc [0, 1]) results_body (enumerate 0 es))"
    by (simp only: createResults_def option.case)
  also have body: "results_body = with_rows []" by (simp add: results_body_def with_rows_def)
  also note rows
  also have "with_rows ([] @ map (\<lambda>(e, d). result_row e d) (enumerate 0 es)) = results_doc es"
    by (simp add: results_doc_def with_rows_def)
  finally show ?thesis by (simp only: body)
qed

section \<open>Where the ids are\<close>

lemma node_at_static:
  "node_at (results_doc es) [] = Some (results_doc es)"
  "node_at (results_doc es) [0] = Some (childNodes (results_doc es) ! 0)"
  "node_at (results_doc es) [0, 0] = Some (status_line ''Loading'' ''Loading...'')"
  "node_at (results_doc es) [0, 1] =
     Some (Node ''div'' [(''id'', ''SRResults'')] '''' (map (\<lambda>(e, d). result_row e d) (enumerate 0 es)))"
  "node_at (results_doc es) [0, 3] = Some (status_line ''Searching'' ''Searching...'')"
  "node_at (results_doc es) [0, 4] = Some (status_line ''NoMatches'' ''No Matches'')"
  by (simp_all add: results_doc_def numeral_eq_Suc)

lemma node_at_rows:
  assumes "e < length es"
  shows "node_at (results_doc es) (row_path e) = Some (result_row e (es ! e))"
    "node_at (results_doc es) (link_path e) = Some (result_link e (es ! e))"
    "node_at (results_doc es) (extra_path e) = Some (result_extra e (es ! e))"
    "c < child_count (es ! e) \<Longrightarrow>
       node_at (results_doc es) (child_path e c) = Some (result_child e c (entry_results (es ! e) ! c))"
  using assms by (simp_all add: results_doc_def place_defs nth_enumerate_eq)

text \<open>Every element with an id is one of these.\<close>

definition page_ids :: "search_entry list \<Rightarrow> (path \<times> string) set" where
  "page_ids es =
     {([0], ''SRIndex''), ([0, 0], ''Loading''), ([0, 1], ''SRResults''), ([0, 3], ''Searching''), ([0, 4], ''NoMatches'')}
     \<union> {(row_path e, ''SR_'' @ entry_id (es ! e)) |e. e < length es}
     \<union> {(link_path e, item_id (int e)) |e. e < length es}
     \<union> {(child_path e c, child_id (int e) c) |e c. e < length es \<and> c < child_count (es ! e)}"

lemma page_idsI:
  "e < length es \<Longrightarrow> (row_path e, ''SR_'' @ entry_id (es ! e)) \<in> page_ids es"
  "e < length es \<Longrightarrow> (link_path e, item_id (int e)) \<in> page_ids es"
  "e < length es \<Longrightarrow> c < child_count (es ! e) \<Longrightarrow> (child_path e c, child_id (int e) c) \<in> page_ids es"
  unfolding page_ids_def by blast+

lemma page_ids_static:
  "{([0], ''SRIndex''), ([0, 0], ''Loading''), ([0, 1], ''SRResults''), ([0, 3], ''Searching''), ([0, 4], ''NoMatches'')}
     \<subseteq> page_ids es"
  unfolding page_ids_def by blast

lemma static_ids:
  assumes "p \<in> {[], [0], [0, 0], [0, 1], [0, 2], [0, 3], [0, 4], [0, 5]}"
    and "node_at (results_doc es) p = Some n" "getAttribute n ''id'' = Some x"
  shows "(p, x) \<in> {([0], ''SRIndex''), ([0, 0], ''Loading''), ([0, 1], ''SRResults''), ([0, 3], ''Searching''),
           ([0, 4], ''NoMatches'')}"
  using assms(1) unfolding insert_iff empty_iff
  by (elim disjE; use assms(2,3) in \<open>auto simp: results_doc_def status_line_def getAttribute_def numeral_eq_Suc split: if_splits\<close>)

lemma page_node_cases [consumes 1, case_names static row entry link extra child]:
  assumes "node_at (results_doc es) p = Some n"
  obtains "p \<in> {[], [0], [0, 0], [0, 1], [0, 2], [0, 3], [0, 4], [0, 5]}"
  | e where "e < length es" "p = row_path e" "n = result_row e (es ! e)"
  | e where "e < length es" "p = [0, 1, e, 0]" "n = entry_div e (es ! e)"
  | e where "e < length es" "p = link_path e" "n = result_link e (es ! e)"
  | e where "e < length es" "p = extra_path e" "n = result_extra e (es ! e)"
  | e c where "e < length es" "c < child_count (es ! e)" "p = child_path e c"
      "n = result_child e c (entry_results (es ! e) ! c)"
proof -
  consider "p = []" | "p = [0]" | i q where "p = 0 # i # q" "i < 6"
    using assms by (cases p; cases "tl p") (auto simp: results_doc_def split: if_splits)
  then show thesis
  proof cases
    case 3
    then consider "i \<in> {0, 1, 2, 3, 4, 5}" "q = []" | e q' where "i = 1" "q = e # q'"
      using assms by (cases q) (auto simp: results_doc_def status_line_def less_Suc_eq numeral_eq_Suc nth_Cons' split: if_splits)
    then show thesis
    proof cases
      case 1
      with 3 that(1) show thesis by auto
    next
      case 2
      then have e: "e < length es" and q': "node_at (result_row e (es ! e)) q' = Some n"
        using assms 3 by (auto simp: results_doc_def nth_enumerate_eq split: if_splits)
      show thesis
      proof (cases q')
        case Nil
        with e q' 2 3 that(2) show thesis by (simp add: row_path_def)
      next
        case (Cons j r)
        with q' have j: "j = 0" and r: "node_at (entry_div e (es ! e)) r = Some n" by (auto split: if_splits)
        note p = 3 2 Cons j
        from r consider "r = []" | "r = [0]" | "r = [1]" | c r' where "r = 1 # c # r'"
          by (cases r; cases "tl r") (auto simp: less_Suc_eq split: if_splits)
        then show thesis
        proof cases
          case 1
          with e p r that(3) show thesis by simp
        next
          case 2
          with e p r that(4) show thesis by (simp add: link_path_def)
        next
          case 3
          with e p r that(5) show thesis by (simp add: extra_path_def)
        next
          case 4
          with r have c: "c < child_count (es ! e)" and r': "node_at (result_child e c (entry_results (es ! e) ! c)) r' = Some n"
            by (auto split: if_splits)
          then have "r' = []" by (cases r') auto
          with 4 c e p r' that(6) show thesis by (simp add: child_path_def)
        qed
      qed
    qed
  qed (use that(1) in auto)
qed

lemma id_in_page_ids:
  assumes "node_at (results_doc es) p = Some n" "getAttribute n ''id'' = Some x"
  shows "(p, x) \<in> page_ids es"
  using assms(1)
proof (cases rule: page_node_cases)
  case static
  from static_ids [OF this assms] page_ids_static show ?thesis by (rule subsetD [rotated])
qed (use assms(2) page_idsI [of _ es] in auto)

text \<open>Decimal texts followed by something else are read back in one way.\<close>

lemma int_dec_nat [simp]: "int_dec (int n) = nat_dec n"
  by (simp add: int_dec_def)

lemma takeWhile_nat_dec: "\<not> is_digit c \<Longrightarrow> takeWhile is_digit (nat_dec n @ c # s) = nat_dec n"
  using nat_dec_digits [of n] by (simp add: takeWhile_append list_all_iff)

lemma nat_dec_split:
  assumes "nat_dec m @ c # s = nat_dec n @ c # t" "\<not> is_digit c" shows "m = n \<and> s = t"
proof -
  have "nat_dec m = nat_dec n" using takeWhile_nat_dec [OF assms(2)] assms(1) by metis
  with assms show ?thesis by simp
qed

lemma nat_dec_not_split: "nat_dec m \<noteq> nat_dec n @ CHR ''_'' # s"
  using nat_dec_digits [of m] not_digit_underscore by auto

lemma nat_dec_no_minus: "CHR ''-'' # s \<noteq> nat_dec n"
  using nat_dec_digits [of n] by (auto simp: is_digit_def dest!: arg_cong [where f = "list_all is_digit"])

lemma child_id_inject: "child_id (int e) c = child_id (int e') c' \<longleftrightarrow> e = e' \<and> c = c'"
  using nat_dec_split [of e "CHR ''_''" "''c'' @ nat_dec c" e' "''c'' @ nat_dec c'"] not_digit_underscore
  by (auto simp: child_id_def)

lemma item_child_id: "item_id (int e) \<noteq> child_id (int e') c"
  by (simp add: item_id_def child_id_def nat_dec_not_split)

lemma page_ids_unique:
  assumes "distinct (map entry_id es)" "(p, x) \<in> page_ids es" "(q, x) \<in> page_ids es"
  shows "p = q"
proof -
  have "entry_id (es ! e) = entry_id (es ! e') \<Longrightarrow> e < length es \<Longrightarrow> e' < length es \<Longrightarrow> e = e'" for e e'
    using assms(1) by (auto simp: distinct_conv_nth)
  with assms(2,3) show ?thesis
    unfolding page_ids_def
    by (auto simp: child_id_inject item_child_id item_child_id [symmetric])
       (auto simp: item_id_def child_id_def)
qed

text \<open>An index file whose ids are distinct; \<open>index_wf\<close> gives that.\<close>

definition ids_distinct :: "search_entry list \<Rightarrow> bool" where
  "ids_distinct es \<longleftrightarrow> distinct (map entry_id es)"

lemma getElementById_page:
  assumes "ids_distinct es" "(p, x) \<in> page_ids es" "node_at (results_doc es) p = Some n" "getAttribute n ''id'' = Some x"
  shows "getElementById (results_doc es) x = Some p"
  using assms(3,4)
proof (rule getElementById_unique)
  fix q m assume "node_at (results_doc es) q = Some m" "getAttribute m ''id'' = Some x"
  then show "q = p" using id_in_page_ids page_ids_unique assms(1,2) unfolding ids_distinct_def by blast
qed

lemma getElementById_page_None:
  "x \<notin> snd ` page_ids es \<Longrightarrow> getElementById (results_doc es) x = None"
  by (rule getElementById_None) (force dest: id_in_page_ids)

lemma getElementById_row:
  "ids_distinct es \<Longrightarrow> e < length es \<Longrightarrow>
     getElementById (results_doc es) (''SR_'' @ entry_id (es ! e)) = Some (row_path e)"
  by (rule getElementById_page [where n = "result_row e (es ! e)"]) (auto simp: page_ids_def node_at_rows)

lemma getElementById_item:
  assumes "ids_distinct es"
  shows "getElementById (results_doc es) (item_id i) =
         (if 0 \<le> i \<and> i < int (length es) then Some (link_path (nat i)) else None)"
proof (cases "0 \<le> i \<and> i < int (length es)")
  case True
  then have i: "i = int (nat i)" "nat i < length es" by auto
  have "getElementById (results_doc es) (item_id (int (nat i))) = Some (link_path (nat i))"
    using i by (intro getElementById_page [OF assms, where n = "result_link (nat i) (es ! nat i)"])
      (auto simp: page_ids_def node_at_rows)
  with i True show ?thesis by simp
next
  case False
  have "item_id i \<notin> snd ` page_ids es"
  proof
    assume "item_id i \<in> snd ` page_ids es"
    then obtain p where "(p, item_id i) \<in> page_ids es" by force
    moreover have "item_id i = child_id (int e) c \<Longrightarrow> False" for e c
    proof -
      assume "item_id i = child_id (int e) c"
      then have "int_dec i = nat_dec e @ CHR ''_'' # ''c'' @ nat_dec c" by (simp add: item_id_def child_id_def)
      then show False
        using nat_dec_not_split nat_dec_no_minus
        by (cases "i < 0") (auto simp: int_dec_def Cons_eq_append_conv)
    qed
    ultimately show False using False inj_item_id
      unfolding page_ids_def by (auto simp: item_id_def) (use False in \<open>auto simp flip: int_dec_nat\<close>)
  qed
  with False show ?thesis by (simp add: getElementById_page_None)
qed

lemma getElementById_child:
  assumes "ids_distinct es"
  shows "getElementById (results_doc es) (child_id (int e) c) =
         (if e < length es \<and> c < child_count (es ! e) then Some (child_path e c) else None)"
proof (cases "e < length es \<and> c < child_count (es ! e)")
  case True
  then have "getElementById (results_doc es) (child_id (int e) c) = Some (child_path e c)"
    by (intro getElementById_page [OF assms, where n = "result_child e c (entry_results (es ! e) ! c)"])
       (auto simp: page_ids_def node_at_rows)
  with True show ?thesis by simp
next
  case False
  have "child_id (int e) c \<notin> snd ` page_ids es"
  proof
    assume "child_id (int e) c \<in> snd ` page_ids es"
    then obtain p where "(p, child_id (int e) c) \<in> page_ids es" by force
    with False show False
      unfolding page_ids_def by (auto simp: child_id_inject item_child_id [symmetric]) (auto simp: child_id_def)
  qed
  with False show ?thesis by (simp add: getElementById_page_None)
qed

lemma getElementById_status:
  assumes "ids_distinct es"
  shows "getElementById (results_doc es) ''Searching'' = Some [0, 3]"
    "getElementById (results_doc es) ''NoMatches'' = Some [0, 4]"
  by (rule getElementById_page [OF assms _ node_at_static(5)], simp_all add: page_ids_def status_line_def getAttribute_def)
     (rule getElementById_page [OF assms _ node_at_static(6)], simp_all add: page_ids_def status_line_def getAttribute_def)

text \<open>The children block of an entry.\<close>

lemma FindChildElement_row:
  assumes "ids_distinct es" "e < length es"
  shows "FindChildElement (results_doc es) (''SR_'' @ entry_id (es ! e)) =
         Inr (Some (if \<exists>r. entry_results (es ! e) = [r] then None else Some (extra_path e)))"
proof -
  have el: "element (results_doc es) (row_path e) = result_row e (es ! e)"
    using node_at_rows(1) [OF assms(2)] by (simp add: element_def)
  have fc: "first_children n = (if is_div n then if className n = ''SRChildren'' then Some []
      else first_children_list (childNodes n) 0 else None)" for n
    by (cases n) simp
  have div: "is_div (entry_div e d)" "\<not> is_div (result_link e d)" for d
    unfolding is_div_def by (simp_all, code_simp+)
  have "first_children_list (childNodes (result_row e (es ! e))) 0 =
      (if \<exists>r. entry_results (es ! e) = [r] then None else Some [0, 1])"
    by (auto simp: fc div)
  then show ?thesis
    unfolding find_child_eq getElementById_row [OF assms] option.case el
    by (auto simp: row_path_def extra_path_def)
qed

lemma grandparent_places [simp]:
  "grandparent (link_path e) = Some (row_path e)"
  by (simp add: grandparent_def parentNode_def place_defs)

lemma children_of_link:
  assumes "ids_distinct es" "e < length es"
  shows "children_of (results_doc es) (link_path e) =
         Inr (Some (if \<exists>r. entry_results (es ! e) = [r] then None else Some (extra_path e)))"
  using FindChildElement_row [OF assms] node_at_rows(1) [OF assms(2)]
  by (simp add: children_of_def element_def)

section \<open>Which rows a search shows\<close>

lemma page_set_display [simp]: "page (set_display p v s) = page s"
  by (simp add: set_display_def)

lemma display_set_display [simp]: "display (set_display p v s) q = (if q = p then v else display s q)"
  by (simp add: set_display_def)

definition is_row :: "dom \<Rightarrow> path \<Rightarrow> bool" where
  "is_row d p \<longleftrightarrow> className (element d p) = ''SRResult''"

text \<open>The loop changes the display of the rows it passes and nothing else.\<close>

lemma show_rows_fold:
  assumes "distinct ps" "page s = d"
    and "foldl (\<lambda>(matches, s) p.
         if className (element (page s) p) = ''SRResult'' then
           (if result_matches search (element (page s) p)
            then (matches + 1, set_display p ''block'' s)
            else (matches, set_display p ''none'' s))
         else (matches, s)) (m, s) ps = (m', s')"
  shows "m' = m + length (filter (\<lambda>p. is_row d p \<and> result_matches search (element d p)) ps) \<and>
         s' = s\<lparr>display := (\<lambda>p. if p \<in> set ps \<and> is_row d p
                               then (if result_matches search (element d p) then ''block'' else ''none'')
                               else display s p)\<rparr>"
  using assms
proof (induction ps arbitrary: m s)
  case Nil
  then show ?case by simp
next
  case (Cons p ps)
  define t where "t = (if is_row d p then
      set_display p (if result_matches search (element d p) then ''block'' else ''none'') s else s)"
  have t: "page t = d" using Cons.prems by (simp add: t_def)
  define k where "k = (if is_row d p \<and> result_matches search (element d p) then m + 1 else m)"
  from Cons.prems have "foldl (\<lambda>(matches, s) p.
         if className (element (page s) p) = ''SRResult'' then
           (if result_matches search (element (page s) p)
            then (matches + 1, set_display p ''block'' s)
            else (matches, set_display p ''none'' s))
         else (matches, s)) (k, t) ps = (m', s')"
    by (auto simp: t_def k_def is_row_def)
  from Cons.IH [OF _ t this] Cons.prems(1) show ?case
    by (cases "is_row d p")
       (auto simp: t_def k_def set_display_def intro!: arg_cong [where f = "\<lambda>h. s\<lparr>display := h\<rparr>"])
qed

lemma row_paths:
  "node_at (results_doc es) p = Some n \<and> className n = ''SRResult'' \<longleftrightarrow>
     (\<exists>e<length es. p = row_path e \<and> n = result_row e (es ! e))"
proof
  assume n: "node_at (results_doc es) p = Some n \<and> className n = ''SRResult''"
  then have "node_at (results_doc es) p = Some n" by simp
  then show "\<exists>e<length es. p = row_path e \<and> n = result_row e (es ! e)"
  proof (cases rule: page_node_cases)
    case static
    with n show ?thesis
      by (auto simp: results_doc_def status_line_def className_def getAttribute_def numeral_eq_Suc split: option.splits)
  next
    case (extra e)
    with n className_extra [of e "es ! e"] show ?thesis by auto
  qed (use n in auto)
qed (auto simp: node_at_rows)

text \<open>What a search compares with the name typed: the id of the entry in lower case.\<close>

definition entry_matches :: "ustring \<Rightarrow> search_entry \<Rightarrow> bool" where
  "entry_matches w d \<longleftrightarrow> prefix w (ustr (toLowerCase (entry_id d)))"

lemma strip_sr_row: "strip_sr (toLowerCase (''SR_'' @ i)) = toLowerCase i"
proof -
  have "lower_char CHR ''S'' = CHR ''s''" "lower_char CHR ''R'' = CHR ''r''" "lower_char CHR ''_'' = CHR ''_''"
    by code_simp+
  then show ?thesis by (simp add: strip_sr_def toLowerCase_def not_digit_underscore)
qed

lemma result_matches_row: "result_matches w (result_row e d) \<longleftrightarrow> entry_matches w d"
  by (simp only: result_matches_def result_row_node option.case Let_def strip_sr_row substr_prefix entry_matches_def)

lemma rows_are_divs:
  "{p \<in> set (getElementsByTagName (results_doc es) ''div''). is_row (results_doc es) p} = row_path ` {..<length es}"
proof (intro set_eqI iffI)
  fix p assume "p \<in> {p \<in> set (getElementsByTagName (results_doc es) ''div''). is_row (results_doc es) p}"
  then obtain n where "node_at (results_doc es) p = Some n" "className n = ''SRResult''"
    by (auto simp: in_getElementsByTagName is_row_def element_def)
  with row_paths [of es p n] show "p \<in> row_path ` {..<length es}" by auto
next
  fix p assume "p \<in> row_path ` {..<length es}"
  then show "p \<in> {p \<in> set (getElementsByTagName (results_doc es) ''div''). is_row (results_doc es) p}"
    by (auto simp: in_getElementsByTagName is_row_def element_def node_at_rows)
qed

lemma inj_row_path: "inj row_path"
  by (rule injI) (simp add: row_path_def)

lemma element_row: "e < length es \<Longrightarrow> element (results_doc es) (row_path e) = result_row e (es ! e)"
  by (simp add: element_def node_at_rows)

lemma show_rows_page:
  assumes "page s = results_doc es"
  shows "show_rows w s =
     (card {e. e < length es \<and> entry_matches w (es ! e)},
      s\<lparr>display := (\<lambda>p. case p of
            [a, b, e] \<Rightarrow> if a = 0 \<and> b = 1 \<and> e < length es
                        then (if entry_matches w (es ! e) then ''block'' else ''none'') else display s p
          | _ \<Rightarrow> display s p)\<rparr>)"
proof -
  let ?d = "results_doc es" and ?ps = "getElementsByTagName (results_doc es) ''div''"
  obtain m' s' where r: "show_rows w s = (m', s')" by fastforce
  note fold = show_rows_fold [OF distinct_getElementsByTagName [of ?d "''div''"] assms
      r [unfolded show_rows_def assms]]
  have rows: "p \<in> set ?ps \<and> is_row ?d p \<longleftrightarrow> p \<in> row_path ` {..<length es}" for p
    using rows_are_divs [of es] by blast
  have "{p \<in> set ?ps. is_row ?d p \<and> result_matches w (element ?d p)}
      = {p \<in> row_path ` {..<length es}. result_matches w (element ?d p)}"
    using rows by blast
  also have "\<dots> = row_path ` {e. e < length es \<and> entry_matches w (es ! e)}"
    by (auto simp: element_row result_matches_row)
  finally have "{p \<in> set ?ps. is_row ?d p \<and> result_matches w (element ?d p)}
      = row_path ` {e. e < length es \<and> entry_matches w (es ! e)}" .
  then have "m' = card (row_path ` {e. e < length es \<and> entry_matches w (es ! e)})"
    using fold distinct_card [OF distinct_filter [OF distinct_getElementsByTagName [of ?d "''div''"]],
        of "\<lambda>p. is_row ?d p \<and> result_matches w (element ?d p)"]
    by (simp only: set_filter add_0)
  then have m: "m' = card {e. e < length es \<and> entry_matches w (es ! e)}"
    using card_image [OF inj_on_subset [OF inj_row_path]] by simp
  have "s' = s\<lparr>display := (\<lambda>p. if p \<in> row_path ` {..<length es}
      then (if result_matches w (element ?d p) then ''block'' else ''none'') else display s p)\<rparr>"
    using fold by (simp add: rows)
  also have "\<dots> = s\<lparr>display := (\<lambda>p. case p of
            [a, b, e] \<Rightarrow> if a = 0 \<and> b = 1 \<and> e < length es
                        then (if entry_matches w (es ! e) then ''block'' else ''none'') else display s p
          | _ \<Rightarrow> display s p)\<rparr>"
    by (intro arg_cong [where f = "\<lambda>h. s\<lparr>display := h\<rparr>"] ext)
       (auto simp: row_path_def element_row [unfolded row_path_def One_nat_def] result_matches_row image_iff split: list.split)
  finally show ?thesis using r m by simp
qed

lemma search_shows:
  assumes "ids_distinct es" "page s = results_doc es"
  shows "\<exists>t :: results. results_Search search loc s = Some (Inr True, t) \<and> page t = results_doc es \<and>
     (\<forall>e < length es. display t (row_path e) =
        (if entry_matches (search_word search loc) (es ! e) then ''block'' else ''none'')) \<and>
     lastMatchCount t = card {e. e < length es \<and> entry_matches (search_word search loc) (es ! e)} \<and>
     display t [0, 3] = ''none'' \<and>
     (display t [0, 4] = ''block'') = (lastMatchCount t = 0)"
proof -
  show ?thesis
    using getElementById_status [OF assms(1)] assms(2)
    by (auto simp: results_Search_def show_rows_page [OF assms(2)] row_path_def set_display_def)
qed

text \<open>
  C23. On the page of an index file whose entries have different ids, \<open>Search\<close> returns true and
  leaves visible exactly the rows whose id starts with the converted search word; it counts them,
  hides the line "Searching" and shows "No Matches" exactly when there is none.
\<close>

theorem results_search_exact:
  assumes "ids_distinct es" "page s = results_doc es"
  shows "\<exists>t :: results. results_Search search loc s = Some (Inr True, t) \<and> page t = results_doc es \<and>
     (\<forall>e < length es. display t (row_path e) =
        (if entry_matches (search_word search loc) (es ! e) then ''block'' else ''none'')) \<and>
     lastMatchCount t = card {e. e < length es \<and> entry_matches (search_word search loc) (es ! e)} \<and>
     display t [0, 3] = ''none'' \<and>
     (display t [0, 4] = ''block'') = (lastMatchCount t = 0)"
  by (rule search_shows [OF assms])

theorem results_search_exact_witness:
  "let es = [(''ab_0'', ''ab'', [(''u'', 1, ''x'')]), (''ac_1'', ''AC'', [(''w'', 1, ''z'')])]
   in \<exists>t :: results. results_Search [] ''?A'' (new_SearchResults (results_doc es)) = Some (Inr True, t) \<and>
        lastMatchCount t = card {e. e < length es \<and> entry_matches (search_word [] ''?A'') (es ! e)} \<and>
        display t [0, 3] = ''none''"
proof -
  define es :: "search_entry list" where "es = [(''ab_0'', ''ab'', [(''u'', 1, ''x'')]), (''ac_1'', ''AC'', [(''w'', 1, ''z'')])]"
  have "ids_distinct es" by (simp add: ids_distinct_def es_def entry_id_def)
  moreover have "page (new_SearchResults (results_doc es)) = results_doc es" by (simp add: new_SearchResults_def)
  ultimately show ?thesis using results_search_exact [of es _ "[]" "''?A''"] unfolding es_def Let_def by blast
qed

end
