(* ===== verification/SearchMatch.thy ===== *)
theory SearchMatch
  imports ResultsPage
begin

text \<open>
  From ids to names. The search compares converted texts; here the comparison is traced back to the
  names of a well-formed index file: every beginning of a name finds it, and a query made of letters,
  digits and underscores finds nothing else.
\<close>

section \<open>Ids are in lower case\<close>

definition no_capital :: "code_unit \<Rightarrow> bool" where
  "no_capital c \<longleftrightarrow> \<not> (65 \<le> unat c \<and> unat c \<le> 90) \<and> \<not> (192 \<le> unat c \<and> unat c \<le> 222 \<and> unat c \<noteq> 215)"

lemma of_char_hex_char: "d < 16 \<Longrightarrow> (of_char (hex_char d) :: nat) = (if d < 10 then 48 + d else 87 + d)"
  by (simp add: hex_char_def)

lemma no_capital_hex: "list_all no_capital (ustr (to_hex n))"
proof (induction n rule: to_hex.induct)
  case (1 n)
  have "no_capital (unit_of (hex_char d))" if "d < 16" for d
    using that by (simp add: no_capital_def of_char_hex_char)
  with 1 show ?case by (subst to_hex.simps) simp
qed

lemma no_capital_lower: "list_all no_capital (lower_case s)"
proof -
  have "no_capital (lower_unit c)" for c
    by (auto simp: lower_unit_def no_capital_def Let_def unat_word_ariths)
  then show ?thesis by (simp add: lower_case_def list_all_iff)
qed

lemma no_capital_piece: "no_capital c \<Longrightarrow> list_all no_capital (id_piece c)"
proof (cases "id_unit c")
  case True
  then show "no_capital c \<Longrightarrow> list_all no_capital (id_piece c)" by (simp add: id_piece_def)
next
  case False
  moreover have "no_capital (unit_of CHR ''_'')" "no_capital (unit_of CHR ''0'')" by (simp_all add: no_capital_def)
  ultimately show "list_all no_capital (id_piece c)" using no_capital_hex by (simp add: id_piece_def Let_def)
qed

lemma no_capital_id: "list_all no_capital s \<Longrightarrow> list_all no_capital (convertToId s)"
  by (induction s) (simp_all add: no_capital_piece)

lemma no_capital_dec: "list_all no_capital (ustr (nat_dec k))"
  using nat_dec_digits [of k] by (auto simp: list_all_iff ustr_def no_capital_def is_digit_def)

lemma lower_no_capital: "list_all no_capital (ustr s) \<Longrightarrow> toLowerCase s = s"
  by (induction s) (auto simp: toLowerCase_def lower_char_def no_capital_def Let_def)

text \<open>What \<open>index_wf\<close> says about one entry.\<close>

lemma index_wf_nth:
  "index_wf c k es \<Longrightarrow> e < length es \<Longrightarrow>
     ustr (entry_id (es ! e)) = convertToId (lower_case (ustr (entry_name (es ! e)))) @ ustr (''_'' @ nat_dec (k + e)) \<and>
     take 1 (lower_case (ustr (entry_name (es ! e)))) = [unit_of c]"
proof (induction c k es arbitrary: e rule: index_wf.induct)
  case (2 c k d es)
  then show ?case by (cases e) auto
qed simp

lemma entry_matches_wf:
  assumes "index_wf c k es" "e < length es"
  shows "entry_matches w (es ! e) \<longleftrightarrow>
    prefix w (convertToId (lower_case (ustr (entry_name (es ! e)))) @ ustr (''_'' @ nat_dec (k + e)))"
proof -
  note wf = index_wf_nth [OF assms]
  then have "list_all no_capital (ustr (entry_id (es ! e)))"
    using no_capital_id [OF no_capital_lower] no_capital_dec by (simp add: no_capital_def)
  with wf show ?thesis by (simp add: entry_matches_def lower_no_capital)
qed

text \<open>The running numbers make the ids of a file different.\<close>

lemma ids_distinct_wf:
  assumes "index_wf c k es" shows "ids_distinct es"
proof -
  have "entry_id (es ! i) \<noteq> entry_id (es ! j)" if ij: "i < length es" "j < length es" "i \<noteq> j" for i j
  proof
    assume "entry_id (es ! i) = entry_id (es ! j)"
    with index_wf_nth [OF assms ij(1)] index_wf_nth [OF assms ij(2)]
    have "convertToId (lower_case (ustr (entry_name (es ! i)))) @ unit_of CHR ''_'' # ustr (nat_dec (k + i)) =
        convertToId (lower_case (ustr (entry_name (es ! j)))) @ unit_of CHR ''_'' # ustr (nat_dec (k + j))"
      by simp
    then obtain u v where eq: "u @ unit_of CHR ''_'' # ustr (nat_dec (k + i)) = v @ unit_of CHR ''_'' # ustr (nat_dec (k + j))"
      by blast
    have no: "unit_of CHR ''_'' \<notin> set (rev (ustr (nat_dec n)))" for n
      using nat_dec_digits [of n] by (auto simp: ustr_def list_all_iff is_digit_def)
    have "rev (ustr (nat_dec (k + i))) @ unit_of CHR ''_'' # rev u = rev (ustr (nat_dec (k + j))) @ unit_of CHR ''_'' # rev v"
      using arg_cong [where f = rev, OF eq] by (simp only: rev_append rev.simps append_assoc append_Cons append_Nil)
    moreover have "takeWhile (\<lambda>c. c \<noteq> unit_of CHR ''_'') (rev (ustr (nat_dec n)) @ unit_of CHR ''_'' # l) = rev (ustr (nat_dec n))" for n l
      using no [of n] by (subst takeWhile_append2) auto
    ultimately have "rev (ustr (nat_dec (k + i))) = rev (ustr (nat_dec (k + j)))" by metis
    with ij(3) show False by simp
  qed
  then show ?thesis by (auto simp: ids_distinct_def distinct_conv_nth)
qed

section \<open>Beginnings of names\<close>

text \<open>Completeness: whatever the name begins with, up to case, its id begins with its conversion.\<close>

lemma entry_found:
  assumes "index_wf c k es" "e < length es" "prefix q (lower_case (ustr (entry_name (es ! e))))"
  shows "entry_matches (convertToId q) (es ! e)"
  using convertToId_prefix [OF assms(3)] entry_matches_wf [OF assms(1,2)] by (auto intro: prefix_order.trans)

text \<open>Letters, digits and the underscore, in lower case.\<close>

definition ident_unit :: "code_unit \<Rightarrow> bool" where
  "ident_unit c \<longleftrightarrow> (97 \<le> unat c \<and> unat c \<le> 122) \<or> (48 \<le> unat c \<and> unat c \<le> 57) \<or> c = unit_of CHR ''_''"

lemma unat_underscore: "unat (unit_of CHR ''_'') = 95"
  by simp

lemma id_unit_or_underscore: "ident_unit c \<Longrightarrow> id_unit c \<or> c = unit_of CHR ''_''"
  by (auto simp: ident_unit_def id_unit_def)

lemma not_id_underscore: "\<not> id_unit (unit_of CHR ''_'')"
  by (simp add: id_unit_def)

lemma id_piece_underscore: "id_piece (unit_of CHR ''_'') = ustr ''_5f''"
proof -
  have "to_hex 95 = ''5f''" by code_simp
  then show ?thesis by (simp add: id_piece_def id_unit_def)
qed

lemma id_piece_id_unit: "id_unit c \<Longrightarrow> id_piece c = [c]"
  by (simp add: id_piece_def)

text \<open>The other units: an underscore and two digits of their code.\<close>

lemma to_hex_two:
  assumes "16 \<le> n" "n < 128" shows "to_hex n = [hex_char (n div 16), hex_char (n mod 16)]"
proof -
  have "n div 16 < 16" using assms by (simp add: less_mult_imp_div_less)
  with assms(1) show ?thesis by (subst to_hex.simps, subst to_hex.simps) simp
qed

lemma id_piece_other:
  assumes "\<not> id_unit c"
  shows "id_piece c = ustr [CHR ''_'', hex_char (unat c div 16), hex_char (unat c mod 16)]"
proof (cases "unat c < 16")
  case True
  moreover from True have "to_hex (unat c) = [hex_char (unat c)]" by (subst to_hex.simps) simp
  moreover have "hex_char 0 = CHR ''0''" by code_simp
  ultimately show ?thesis using assms by (simp add: id_piece_def)
next
  case False
  moreover have "unat c < 128" using assms by (auto simp: id_unit_def Let_def)
  ultimately show ?thesis using assms by (simp add: id_piece_def Let_def to_hex_two)
qed

lemma hex_char_inject: "a < 16 \<Longrightarrow> b < 16 \<Longrightarrow> hex_char a = hex_char b \<longleftrightarrow> a = b"
  by (auto dest!: arg_cong [where f = "of_char :: char \<Rightarrow> nat"] simp: of_char_hex_char split: if_splits)

lemma id_piece_prefix:
  assumes "ident_unit a" "prefix (id_piece a @ r) (id_piece b @ t)"
  shows "a = b \<and> prefix r t"
proof -
  from id_unit_or_underscore [OF assms(1)] consider "id_unit a" | "a = unit_of CHR ''_''" "\<not> id_unit a"
    using not_id_underscore by auto
  then show ?thesis
  proof cases
    case 1
    then have "a \<noteq> unit_of CHR ''_''" using not_id_underscore by auto
    with 1 assms(2) show ?thesis
      by (cases "id_unit b") (auto simp: id_piece_id_unit id_piece_other)
  next
    case 2
    show ?thesis
    proof (cases "id_unit b")
      case True
      then have "b \<noteq> unit_of CHR ''_''" using not_id_underscore by auto
      with True assms(2) 2 show ?thesis by (auto simp: id_piece_id_unit id_piece_underscore)
    next
      case False
      have lt: "unat b div 16 < 16" "unat b mod 16 < 16"
        using False by (auto simp: id_unit_def Let_def less_mult_imp_div_less)
      have "CHR ''5'' = hex_char 5" "CHR ''f'' = hex_char 15" by code_simp+
      with assms(2) 2 False lt have "unat b div 16 = 5" "unat b mod 16 = 15" and r: "prefix r t"
        by (auto simp: id_piece_underscore id_piece_other hex_char_inject)
      then have "unat b = 95" using div_mult_mod_eq [of "unat b" 16] by simp
      then have "b = unit_of CHR ''_''" using unat_underscore by (metis unsigned_word_eqI)
      with 2 r show ?thesis by simp
    qed
  qed
qed

lemma id_piece_number:
  assumes "ident_unit a" shows "\<not> prefix (id_piece a @ r) (ustr (''_'' @ nat_dec k))"
proof
  assume pre: "prefix (id_piece a @ r) (ustr (''_'' @ nat_dec k))"
  from id_unit_or_underscore [OF assms] show False
  proof
    assume "id_unit a"
    then show False using pre not_id_underscore by (auto simp: id_piece_id_unit)
  next
    assume "a = unit_of CHR ''_''"
    then have "prefix (ustr ''5f'') (ustr (nat_dec k))"
      using pre by (auto simp: id_piece_underscore prefix_def)
    then have "prefix ''5f'' (nat_dec k)" by (simp only: prefix_ustr)
    then have "CHR ''f'' \<in> set (nat_dec k)" by (auto simp: prefix_def)
    then show False using nat_dec_digits [of k] by (auto simp: list_all_iff is_digit_def)
  qed
qed

lemma convertToId_prefix_ident:
  assumes "list_all ident_unit q"
  shows "prefix (convertToId q) (convertToId n @ ustr (''_'' @ nat_dec k)) \<longleftrightarrow> prefix q n"
proof
  assume "prefix (convertToId q) (convertToId n @ ustr (''_'' @ nat_dec k))"
  with assms show "prefix q n"
  proof (induction q arbitrary: n)
    case (Cons a q)
    show ?case
    proof (cases n)
      case Nil
      with Cons.prems id_piece_number [of a "convertToId q" k] show ?thesis by simp
    next
      case (Cons b m)
      with Cons.prems id_piece_prefix [of a "convertToId q" b "convertToId m @ ustr (''_'' @ nat_dec k)"]
      have "a = b" "prefix (convertToId q) (convertToId m @ ustr (''_'' @ nat_dec k))" by simp_all
      with Cons.IH [of m] Cons.prems(1) Cons show ?thesis by simp
    qed
  qed simp
qed (auto dest: convertToId_prefix intro: prefix_order.trans)

text \<open>
  C24. A query made of letters, digits and underscores matches an entry of a well-formed index file
  exactly when the entry's name begins with it, ignoring case: comparing converted ids is the same as
  comparing names.
\<close>

theorem identifier_query_exact:
  assumes "index_wf c k es" "e < length es" "list_all ident_unit (lower_case q)"
  shows "entry_matches (convertToId (lower_case q)) (es ! e) \<longleftrightarrow>
         prefix (lower_case q) (lower_case (ustr (entry_name (es ! e))))"
  using entry_matches_wf [OF assms(1,2)] convertToId_prefix_ident [OF assms(3)] by simp

theorem identifier_query_exact_witness:
  "entry_matches (convertToId (lower_case (ustr ''Max_C'')))
     (''max_5fcount_36'', ''max_count'', [(''../m.html'', 1, ''MQTTProperties'')])"
proof -
  define es :: "search_entry list" where "es = [(''max_5fcount_36'', ''max_count'', [(''../m.html'', 1, ''MQTTProperties'')])]"
  have "index_wf CHR ''m'' 36 es"
    by (rule index_wf_check) (simp add: es_def index_eval del: One_nat_def)
  moreover have "list_all ident_unit (lower_case (ustr ''Max_C''))"
    by (simp add: ident_unit_def lower_unit_def unit_of_def)
  moreover have "prefix (lower_case (ustr ''Max_C'')) (lower_case (ustr (entry_name (es ! 0))))"
    by (simp add: es_def entry_name_def lower_unit_def unit_of_def)
  ultimately have "entry_matches (convertToId (lower_case (ustr ''Max_C''))) (es ! 0)"
    using identifier_query_exact [of "CHR ''m''" 36 es 0 "ustr ''Max_C''"] by (simp add: es_def)
  then show ?thesis by (simp add: es_def)
qed

end
