(* ===== verification/IndexAsyncKinds.thy ===== *)
theory IndexAsyncKinds
  imports SearchId
begin

text \<open>
  The index files of the reference of the asynchronous client library by kind of name: classes, files,
  functions, variables, typedefs, enumerations, enumerators, macros and pages
  (\<^verbatim>\<open>docs/MQTTAsync/html/search\<close>), each with the check that it is well-formed.
\<close>

definition async_classes_0 :: "search_entry list" where
  "async_classes_0 = [
  (''mqttasync_5fconnectdata_353'', ''MQTTAsync_connectData'',
    [(''../struct_m_q_t_t_async__connect_data.html'', 1, '''')]),
  (''mqttasync_5fconnectoptions_354'', ''MQTTAsync_connectOptions'',
    [(''../struct_m_q_t_t_async__connect_options.html'', 1, '''')]),
  (''mqttasync_5fcreateoptions_355'', ''MQTTAsync_createOptions'',
    [(''../struct_m_q_t_t_async__create_options.html'', 1, '''')]),
  (''mqttasync_5fdisconnectoptions_356'', ''MQTTAsync_disconnectOptions'',
    [(''../struct_m_q_t_t_async__disconnect_options.html'', 1, '''')]),
  (''mqttasync_5ffailuredata_357'', ''MQTTAsync_failureData'',
    [(''../struct_m_q_t_t_async__failure_data.html'', 1, '''')]),
  (''mqttasync_5ffailuredata5_358'', ''MQTTAsync_failureData5'',
    [(''../struct_m_q_t_t_async__failure_data5.html'', 1, '''')]),
  (''mqttasync_5finit_5foptions_359'', ''MQTTAsync_init_options'',
    [(''../struct_m_q_t_t_async__init__options.html'', 1, '''')]),
  (''mqttasync_5fmessage_360'', ''MQTTAsync_message'',
    [(''../struct_m_q_t_t_async__message.html'', 1, '''')]),
  (''mqttasync_5fnamevalue_361'', ''MQTTAsync_nameValue'',
    [(''../struct_m_q_t_t_async__name_value.html'', 1, '''')]),
  (''mqttasync_5fresponseoptions_362'', ''MQTTAsync_responseOptions'',
    [(''../struct_m_q_t_t_async__response_options.html'', 1, '''')]),
  (''mqttasync_5fssloptions_363'', ''MQTTAsync_SSLOptions'',
    [(''../struct_m_q_t_t_async___s_s_l_options.html'', 1, '''')]),
  (''mqttasync_5fsuccessdata_364'', ''MQTTAsync_successData'',
    [(''../struct_m_q_t_t_async__success_data.html'', 1, '''')]),
  (''mqttasync_5fsuccessdata5_365'', ''MQTTAsync_successData5'',
    [(''../struct_m_q_t_t_async__success_data5.html'', 1, '''')]),
  (''mqttasync_5fwilloptions_366'', ''MQTTAsync_willOptions'',
    [(''../struct_m_q_t_t_async__will_options.html'', 1, '''')]),
  (''mqttclient_5fpersistence_367'', ''MQTTClient_persistence'',
    [(''../struct_m_q_t_t_client__persistence.html'', 1, '''')]),
  (''mqttlenstring_368'', ''MQTTLenString'',
    [(''../struct_m_q_t_t_len_string.html'', 1, '''')]),
  (''mqttproperties_369'', ''MQTTProperties'',
    [(''../struct_m_q_t_t_properties.html'', 1, '''')]),
  (''mqttproperty_370'', ''MQTTProperty'',
    [(''../struct_m_q_t_t_property.html'', 1, '''')]),
  (''mqttsubscribe_5foptions_371'', ''MQTTSubscribe_options'',
    [(''../struct_m_q_t_t_subscribe__options.html'', 1, '''')])]"

lemma async_classes_0_wf: "index_wf CHR ''m'' 353 async_classes_0"
  by (rule index_wf_check) (simp add: async_classes_0_def index_eval del: One_nat_def)

lemma async_classes_0_file: "index_file CHR ''m'' async_classes_0"
  by (rule index_fileI [OF _ async_classes_0_wf]) (simp add: async_classes_0_def)

definition async_files_0 :: "search_entry list" where
  "async_files_0 = [
  (''mqttasync_2eh_372'', ''MQTTAsync.h'',
    [(''../_m_q_t_t_async_8h.html'', 1, '''')]),
  (''mqttclientpersistence_2eh_373'', ''MQTTClientPersistence.h'',
    [(''../_m_q_t_t_client_persistence_8h.html'', 1, '''')]),
  (''mqttproperties_2eh_374'', ''MQTTProperties.h'',
    [(''../_m_q_t_t_properties_8h.html'', 1, '''')]),
  (''mqttreasoncodes_2eh_375'', ''MQTTReasonCodes.h'',
    [(''../_m_q_t_t_reason_codes_8h.html'', 1, '''')]),
  (''mqttsubscribeopts_2eh_376'', ''MQTTSubscribeOpts.h'',
    [(''../_m_q_t_t_subscribe_opts_8h.html'', 1, '''')])]"

lemma async_files_0_wf: "index_wf CHR ''m'' 372 async_files_0"
  by (rule index_wf_check) (simp add: async_files_0_def index_eval del: One_nat_def)

lemma async_files_0_file: "index_file CHR ''m'' async_files_0"
  by (rule index_fileI [OF _ async_files_0_wf]) (simp add: async_files_0_def)

definition async_functions_0 :: "search_entry list" where
  "async_functions_0 = [
  (''mqttasync_5fconnect_377'', ''MQTTAsync_connect'',
    [(''../_m_q_t_t_async_8h.html#a0388b226a414b09fa733f6d65004ec32'', 1, ''MQTTAsync.h'')]),
  (''mqttasync_5fcreate_378'', ''MQTTAsync_create'',
    [(''../_m_q_t_t_async_8h.html#a5462c4618d0a229116db5fbadacf95d2'', 1, ''MQTTAsync.h'')]),
  (''mqttasync_5fcreatewithoptions_379'', ''MQTTAsync_createWithOptions'',
    [(''../_m_q_t_t_async_8h.html#a78cbe1b851fea48001112f7ba9e4ea62'', 1, ''MQTTAsync.h'')]),
  (''mqttasync_5fdestroy_380'', ''MQTTAsync_destroy'',
    [(''../_m_q_t_t_async_8h.html#ad5562f9dc71fbd93d25ad20b328cb887'', 1, ''MQTTAsync.h'')]),
  (''mqttasync_5fdisconnect_381'', ''MQTTAsync_disconnect'',
    [(''../_m_q_t_t_async_8h.html#adc69afa4725f8321bdaa5a05aec5cfd5'', 1, ''MQTTAsync.h'')]),
  (''mqttasync_5ffree_382'', ''MQTTAsync_free'',
    [(''../_m_q_t_t_async_8h.html#a2b836f58612a2c4627e40ae848da190d'', 1, ''MQTTAsync.h'')]),
  (''mqttasync_5ffreemessage_383'', ''MQTTAsync_freeMessage'',
    [(''../_m_q_t_t_async_8h.html#a9b45db63052fe29ab1fad22d2a00c91c'', 1, ''MQTTAsync.h'')]),
  (''mqttasync_5fgetpendingtokens_384'', ''MQTTAsync_getPendingTokens'',
    [(''../_m_q_t_t_async_8h.html#abc92f60743fc471643b473abbc987be0'', 1, ''MQTTAsync.h'')]),
  (''mqttasync_5fgetversioninfo_385'', ''MQTTAsync_getVersionInfo'',
    [(''../_m_q_t_t_async_8h.html#a7cf29b785a1d4ff1de2e67e2f916b658'', 1, ''MQTTAsync.h'')]),
  (''mqttasync_5fglobal_5finit_386'', ''MQTTAsync_global_init'',
    [(''../_m_q_t_t_async_8h.html#a1705e75a48999cb45bf85c15608478f5'', 1, ''MQTTAsync.h'')]),
  (''mqttasync_5fiscomplete_387'', ''MQTTAsync_isComplete'',
    [(''../_m_q_t_t_async_8h.html#ab207095cab6f9a48b52cdb593b8456f4'', 1, ''MQTTAsync.h'')]),
  (''mqttasync_5fisconnected_388'', ''MQTTAsync_isConnected'',
    [(''../_m_q_t_t_async_8h.html#a46c332245c379629ae11f457fc179457'', 1, ''MQTTAsync.h'')]),
  (''mqttasync_5fmalloc_389'', ''MQTTAsync_malloc'',
    [(''../_m_q_t_t_async_8h.html#af5500ba58592afafaade2fcabdc61e61'', 1, ''MQTTAsync.h'')]),
  (''mqttasync_5freconnect_390'', ''MQTTAsync_reconnect'',
    [(''../_m_q_t_t_async_8h.html#abd3ea01869b89ff23f9522640479c395'', 1, ''MQTTAsync.h'')]),
  (''mqttasync_5fsend_391'', ''MQTTAsync_send'',
    [(''../_m_q_t_t_async_8h.html#a63c66a311ab16239a4175ff671871bf2'', 1, ''MQTTAsync.h'')]),
  (''mqttasync_5fsendmessage_392'', ''MQTTAsync_sendMessage'',
    [(''../_m_q_t_t_async_8h.html#a5687171e67e98f9ea590c9e3b64cde18'', 1, ''MQTTAsync.h'')]),
  (''mqttasync_5fsetafterpersistenceread_393'', ''MQTTAsync_setAfterPersistenceRead'',
    [(''../_m_q_t_t_async_8h.html#ab4d16e3c57502be6a7d1b1d3bcc382f3'', 1, ''MQTTAsync.h'')]),
  (''mqttasync_5fsetbeforepersistencewrite_394'', ''MQTTAsync_setBeforePersistenceWrite'',
    [(''../_m_q_t_t_async_8h.html#a1002b09c62a096578c9b3e0135eb98c1'', 1, ''MQTTAsync.h'')]),
  (''mqttasync_5fsetcallbacks_395'', ''MQTTAsync_setCallbacks'',
    [(''../_m_q_t_t_async_8h.html#ae9ae8d61023e7029ef5a19f5219c3599'', 1, ''MQTTAsync.h'')]),
  (''mqttasync_5fsetconnected_396'', ''MQTTAsync_setConnected'',
    [(''../_m_q_t_t_async_8h.html#a18cc19740d9b00c629dc53a4420ecf1f'', 1, ''MQTTAsync.h'')]),
  (''mqttasync_5fsetconnectionlostcallback_397'', ''MQTTAsync_setConnectionLostCallback'',
    [(''../_m_q_t_t_async_8h.html#aee15bbd9224efd9dcce9b4ae491b2e2e'', 1, ''MQTTAsync.h'')]),
  (''mqttasync_5fsetdeliverycompletecallback_398'', ''MQTTAsync_setDeliveryCompleteCallback'',
    [(''../_m_q_t_t_async_8h.html#a94ec624ee22cc01d2ca58a9e646a2665'', 1, ''MQTTAsync.h'')]),
  (''mqttasync_5fsetdisconnected_399'', ''MQTTAsync_setDisconnected'',
    [(''../_m_q_t_t_async_8h.html#ada4dd26d23c8849c51e4ab8200339040'', 1, ''MQTTAsync.h'')]),
  (''mqttasync_5fsetmessagearrivedcallback_400'', ''MQTTAsync_setMessageArrivedCallback'',
    [(''../_m_q_t_t_async_8h.html#a44abc360051b918a39b0596a137775ae'', 1, ''MQTTAsync.h'')]),
  (''mqttasync_5fsettracecallback_401'', ''MQTTAsync_setTraceCallback'',
    [(''../_m_q_t_t_async_8h.html#a0b350581324a4ff0eaee71e7a6721388'', 1, ''MQTTAsync.h'')]),
  (''mqttasync_5fsettracelevel_402'', ''MQTTAsync_setTraceLevel'',
    [(''../_m_q_t_t_async_8h.html#ac7fbab13a0b2e5dd4ee11efbbb9f6a3a'', 1, ''MQTTAsync.h'')]),
  (''mqttasync_5fsetupdateconnectoptions_403'', ''MQTTAsync_setUpdateConnectOptions'',
    [(''../_m_q_t_t_async_8h.html#aa078aec3eba83481f63db3c3939a5da9'', 1, ''MQTTAsync.h'')]),
  (''mqttasync_5fstrerror_404'', ''MQTTAsync_strerror'',
    [(''../_m_q_t_t_async_8h.html#a875cd089a8b23eb3fd50c0406fc75d9f'', 1, ''MQTTAsync.h'')]),
  (''mqttasync_5fsubscribe_405'', ''MQTTAsync_subscribe'',
    [(''../_m_q_t_t_async_8h.html#ae10bd009934b3bb4a9f4abae7424a611'', 1, ''MQTTAsync.h'')]),
  (''mqttasync_5fsubscribemany_406'', ''MQTTAsync_subscribeMany'',
    [(''../_m_q_t_t_async_8h.html#ac78620b33434a187255bd1a3faec1578'', 1, ''MQTTAsync.h'')]),
  (''mqttasync_5funsubscribe_407'', ''MQTTAsync_unsubscribe'',
    [(''../_m_q_t_t_async_8h.html#a08d18ece91c1b011011354570d8ac1ab'', 1, ''MQTTAsync.h'')]),
  (''mqttasync_5funsubscribemany_408'', ''MQTTAsync_unsubscribeMany'',
    [(''../_m_q_t_t_async_8h.html#a69fd433ce1b9b6a1b3b453c4793a9311'', 1, ''MQTTAsync.h'')]),
  (''mqttasync_5fwaitforcompletion_409'', ''MQTTAsync_waitForCompletion'',
    [(''../_m_q_t_t_async_8h.html#a4fe09cc9c976b1cf424e13765d6cd8c9'', 1, ''MQTTAsync.h'')]),
  (''mqttproperties_5fadd_410'', ''MQTTProperties_add'',
    [(''../_m_q_t_t_properties_8h.html#a88f1d21556c2d23330d71357cd226a15'', 1, ''MQTTProperties.h'')]),
  (''mqttproperties_5fcopy_411'', ''MQTTProperties_copy'',
    [(''../_m_q_t_t_properties_8h.html#a69b3e474ee2f828e5b827d615fe0fe72'', 1, ''MQTTProperties.h'')]),
  (''mqttproperties_5ffree_412'', ''MQTTProperties_free'',
    [(''../_m_q_t_t_properties_8h.html#ab68247ed365ee51170a9309c828b1823'', 1, ''MQTTProperties.h'')]),
  (''mqttproperties_5fgetnumericvalue_413'', ''MQTTProperties_getNumericValue'',
    [(''../_m_q_t_t_properties_8h.html#afa777eb796532a3c0c59ddc40aca3792'', 1, ''MQTTProperties.h'')]),
  (''mqttproperties_5fgetnumericvalueat_414'', ''MQTTProperties_getNumericValueAt'',
    [(''../_m_q_t_t_properties_8h.html#abc6bc80d9bb644c9b4a66b6808829a53'', 1, ''MQTTProperties.h'')]),
  (''mqttproperties_5fgetproperty_415'', ''MQTTProperties_getProperty'',
    [(''../_m_q_t_t_properties_8h.html#a788b033cbed8a7906799fccbb1463f20'', 1, ''MQTTProperties.h'')]),
  (''mqttproperties_5fgetpropertyat_416'', ''MQTTProperties_getPropertyAt'',
    [(''../_m_q_t_t_properties_8h.html#ac6942d8fafb5794591fc558b4bb06beb'', 1, ''MQTTProperties.h'')]),
  (''mqttproperties_5fhasproperty_417'', ''MQTTProperties_hasProperty'',
    [(''../_m_q_t_t_properties_8h.html#a4ccdf6a712c3d803a16a4d3f00f9be2f'', 1, ''MQTTProperties.h'')]),
  (''mqttproperties_5flen_418'', ''MQTTProperties_len'',
    [(''../_m_q_t_t_properties_8h.html#ab7ad6f14e2dc7576d35827a28b0dc81d'', 1, ''MQTTProperties.h'')]),
  (''mqttproperties_5fpropertycount_419'', ''MQTTProperties_propertyCount'',
    [(''../_m_q_t_t_properties_8h.html#a6f0d8b230c2e7008c7639cfce1c04429'', 1, ''MQTTProperties.h'')]),
  (''mqttproperties_5fread_420'', ''MQTTProperties_read'',
    [(''../_m_q_t_t_properties_8h.html#afcb874dfcc9f0eaa0b063e2fad740871'', 1, ''MQTTProperties.h'')]),
  (''mqttproperties_5fwrite_421'', ''MQTTProperties_write'',
    [(''../_m_q_t_t_properties_8h.html#ade0027a4e571bd288fe40271ff7aa497'', 1, ''MQTTProperties.h'')]),
  (''mqttproperty_5fgettype_422'', ''MQTTProperty_getType'',
    [(''../_m_q_t_t_properties_8h.html#a7d30ad0520bc9b9366e700d4b493b173'', 1, ''MQTTProperties.h'')]),
  (''mqttpropertyname_423'', ''MQTTPropertyName'',
    [(''../_m_q_t_t_properties_8h.html#afa0a7306d7b6174c5bc417ca49d99851'', 1, ''MQTTProperties.h'')]),
  (''mqttreasoncode_5ftostring_424'', ''MQTTReasonCode_toString'',
    [(''../_m_q_t_t_reason_codes_8h.html#a91922a5e3c1e5ec7670b6e296854f1b7'', 1, ''MQTTReasonCodes.h'')])]"

lemma async_functions_0_wf: "index_wf CHR ''m'' 377 async_functions_0"
  by (rule index_wf_check) (simp add: async_functions_0_def index_eval del: One_nat_def)

lemma async_functions_0_file: "index_file CHR ''m'' async_functions_0"
  by (rule index_fileI [OF _ async_functions_0_wf]) (simp add: async_functions_0_def)

definition async_variables_0 :: "search_entry list" where
  "async_variables_0 = [
  (''allowdisconnectedsendatanytime_425'', ''allowDisconnectedSendAtAnyTime'',
    [(''../struct_m_q_t_t_async__create_options.html#abe7fdbe18bfd3577a75d3b386d69406c'', 1, ''MQTTAsync_createOptions'')]),
  (''alt_426'', ''alt'',
    [(''../struct_m_q_t_t_async__success_data.html#afbc1fee4467369fefa30cb07047fca14'', 1, ''MQTTAsync_successData::alt()''),
     (''../struct_m_q_t_t_async__success_data5.html#a4bde812772718b8051b0d6e2000a5f5c'', 1, ''MQTTAsync_successData5::alt()'')]),
  (''array_427'', ''array'',
    [(''../struct_m_q_t_t_properties.html#a3ac4c38b423393c1553dcf8b71e7dd58'', 1, ''MQTTProperties'')]),
  (''automaticreconnect_428'', ''automaticReconnect'',
    [(''../struct_m_q_t_t_async__connect_options.html#a7902ce4d11b96d8b19582bdd1f82b630'', 1, ''MQTTAsync_connectOptions'')])]"

lemma async_variables_0_wf: "index_wf CHR ''a'' 425 async_variables_0"
  by (rule index_wf_check) (simp add: async_variables_0_def index_eval del: One_nat_def)

lemma async_variables_0_file: "index_file CHR ''a'' async_variables_0"
  by (rule index_fileI [OF _ async_variables_0_wf]) (simp add: async_variables_0_def)

definition async_variables_1 :: "search_entry list" where
  "async_variables_1 = [
  (''binarypwd_429'', ''binarypwd'',
    [(''../struct_m_q_t_t_async__connect_data.html#ad5c523e5e6dc0105cc7b4a296451915b'', 1, ''MQTTAsync_connectData::binarypwd()''),
     (''../struct_m_q_t_t_async__connect_options.html#a3bccd0957cca80fa2200962051093931'', 1, ''MQTTAsync_connectOptions::binarypwd()'')]),
  (''byte_430'', ''byte'',
    [(''../struct_m_q_t_t_property.html#a1581cde4f73c9a797ae1e7afcc1bb3de'', 1, ''MQTTProperty'')])]"

lemma async_variables_1_wf: "index_wf CHR ''b'' 429 async_variables_1"
  by (rule index_wf_check) (simp add: async_variables_1_def index_eval del: One_nat_def)

lemma async_variables_1_file: "index_file CHR ''b'' async_variables_1"
  by (rule index_fileI [OF _ async_variables_1_wf]) (simp add: async_variables_1_def)

definition async_variables_2 :: "search_entry list" where
  "async_variables_2 = [
  (''capath_431'', ''CApath'',
    [(''../struct_m_q_t_t_async___s_s_l_options.html#a3078b3c824cc9753a57898072445c34d'', 1, ''MQTTAsync_SSLOptions'')]),
  (''cleansession_432'', ''cleansession'',
    [(''../struct_m_q_t_t_async__connect_options.html#a036c36a2a4d3a3ffae9ab4dd8b3e7f7b'', 1, ''MQTTAsync_connectOptions'')]),
  (''cleanstart_433'', ''cleanstart'',
    [(''../struct_m_q_t_t_async__connect_options.html#acdcb75a5d5981da027bce83849140f7b'', 1, ''MQTTAsync_connectOptions'')]),
  (''code_434'', ''code'',
    [(''../struct_m_q_t_t_async__failure_data.html#a45a5b7c00a796a23f01673cef1dbe0a9'', 1, ''MQTTAsync_failureData::code()''),
     (''../struct_m_q_t_t_async__failure_data5.html#a45a5b7c00a796a23f01673cef1dbe0a9'', 1, ''MQTTAsync_failureData5::code()'')]),
  (''connect_435'', ''connect'',
    [(''../struct_m_q_t_t_async__success_data.html#a028701cd79a4923d1d2172422c022447'', 1, ''MQTTAsync_successData::connect()''),
     (''../struct_m_q_t_t_async__success_data5.html#ac73a35b7229f7f4193127cac7b20bc8a'', 1, ''MQTTAsync_successData5::connect()'')]),
  (''connectproperties_436'', ''connectProperties'',
    [(''../struct_m_q_t_t_async__connect_options.html#a9f8b7ffb4a698eb151a3b090548b82e8'', 1, ''MQTTAsync_connectOptions'')]),
  (''connecttimeout_437'', ''connectTimeout'',
    [(''../struct_m_q_t_t_async__connect_options.html#a38c6aa24b36d981c49405db425c24db0'', 1, ''MQTTAsync_connectOptions'')]),
  (''context_438'', ''context'',
    [(''../struct_m_q_t_t_async__response_options.html#ae376f130b17d169ee51be68077a89ed0'', 1, ''MQTTAsync_responseOptions::context()''),
     (''../struct_m_q_t_t_async__connect_options.html#ae376f130b17d169ee51be68077a89ed0'', 1, ''MQTTAsync_connectOptions::context()''),
     (''../struct_m_q_t_t_async__disconnect_options.html#ae376f130b17d169ee51be68077a89ed0'', 1, ''MQTTAsync_disconnectOptions::context()''),
     (''../struct_m_q_t_t_client__persistence.html#ae376f130b17d169ee51be68077a89ed0'', 1, ''MQTTClient_persistence::context()'')]),
  (''count_439'', ''count'',
    [(''../struct_m_q_t_t_properties.html#ad43c3812e6d13e0518d9f8b8f463ffcf'', 1, ''MQTTProperties'')])]"

lemma async_variables_2_wf: "index_wf CHR ''c'' 431 async_variables_2"
  by (rule index_wf_check) (simp add: async_variables_2_def index_eval del: One_nat_def)

lemma async_variables_2_file: "index_file CHR ''c'' async_variables_2"
  by (rule index_fileI [OF _ async_variables_2_wf]) (simp add: async_variables_2_def)

definition async_variables_3 :: "search_entry list" where
  "async_variables_3 = [
  (''data_440'', ''data'',
    [(''../struct_m_q_t_t_async__connect_data.html#a0d49d74db4c035719c3867723cf7e779'', 1, ''MQTTAsync_connectData::data()''),
     (''../struct_m_q_t_t_async__will_options.html#a0d49d74db4c035719c3867723cf7e779'', 1, ''MQTTAsync_willOptions::data()''),
     (''../struct_m_q_t_t_async__connect_options.html#a0d49d74db4c035719c3867723cf7e779'', 1, ''MQTTAsync_connectOptions::data()''),
     (''../struct_m_q_t_t_len_string.html#a91a70b77df95bd8b0830b49a094c2acb'', 1, ''MQTTLenString::data()''),
     (''../struct_m_q_t_t_property.html#aa43ebcb9f97210421431a671384ef159'', 1, ''MQTTProperty::data()'')]),
  (''deleteoldestmessages_441'', ''deleteOldestMessages'',
    [(''../struct_m_q_t_t_async__create_options.html#a76de37b3cff885e83db204a347fe0a2d'', 1, ''MQTTAsync_createOptions'')]),
  (''destinationname_442'', ''destinationName'',
    [(''../struct_m_q_t_t_async__success_data.html#ae25f4a1d2a3fa952d052a965376d8fef'', 1, ''MQTTAsync_successData::destinationName()''),
     (''../struct_m_q_t_t_async__success_data5.html#ae25f4a1d2a3fa952d052a965376d8fef'', 1, ''MQTTAsync_successData5::destinationName()'')]),
  (''disabledefaulttruststore_443'', ''disableDefaultTrustStore'',
    [(''../struct_m_q_t_t_async___s_s_l_options.html#a0826fcae7c2816e04772c61542c6846b'', 1, ''MQTTAsync_SSLOptions'')]),
  (''do_5fopenssl_5finit_444'', ''do_openssl_init'',
    [(''../struct_m_q_t_t_async__init__options.html#a5929146596391e2838ef95feb89776da'', 1, ''MQTTAsync_init_options'')]),
  (''dup_445'', ''dup'',
    [(''../struct_m_q_t_t_async__message.html#adc4cf3f551bb367858644559d69cfdf5'', 1, ''MQTTAsync_message'')])]"

lemma async_variables_3_wf: "index_wf CHR ''d'' 440 async_variables_3"
  by (rule index_wf_check) (simp add: async_variables_3_def index_eval del: One_nat_def)

lemma async_variables_3_file: "index_file CHR ''d'' async_variables_3"
  by (rule index_fileI [OF _ async_variables_3_wf]) (simp add: async_variables_3_def)

definition async_variables_4 :: "search_entry list" where
  "async_variables_4 = [
  (''enabledciphersuites_446'', ''enabledCipherSuites'',
    [(''../struct_m_q_t_t_async___s_s_l_options.html#aa683926d52134077f27d6dc67bda13ab'', 1, ''MQTTAsync_SSLOptions'')]),
  (''enableservercertauth_447'', ''enableServerCertAuth'',
    [(''../struct_m_q_t_t_async___s_s_l_options.html#a75f6c13b7634e15f96dd9f17db6cf0be'', 1, ''MQTTAsync_SSLOptions'')])]"

lemma async_variables_4_wf: "index_wf CHR ''e'' 446 async_variables_4"
  by (rule index_wf_check) (simp add: async_variables_4_def index_eval del: One_nat_def)

lemma async_variables_4_file: "index_file CHR ''e'' async_variables_4"
  by (rule index_fileI [OF _ async_variables_4_wf]) (simp add: async_variables_4_def)

definition async_variables_5 :: "search_entry list" where
  "async_variables_5 = [
  (''httpheaders_448'', ''httpHeaders'',
    [(''../struct_m_q_t_t_async__connect_options.html#ac4098248961a1ee89f40353eeebab58b'', 1, ''MQTTAsync_connectOptions'')]),
  (''httpproxy_449'', ''httpProxy'',
    [(''../struct_m_q_t_t_async__connect_options.html#add124780ab2de397a96780576c2f112c'', 1, ''MQTTAsync_connectOptions'')]),
  (''httpsproxy_450'', ''httpsProxy'',
    [(''../struct_m_q_t_t_async__connect_options.html#a388b78d8a75658928238f700f207ad92'', 1, ''MQTTAsync_connectOptions'')])]"

lemma async_variables_5_wf: "index_wf CHR ''h'' 448 async_variables_5"
  by (rule index_wf_check) (simp add: async_variables_5_def index_eval del: One_nat_def)

lemma async_variables_5_file: "index_file CHR ''h'' async_variables_5"
  by (rule index_fileI [OF _ async_variables_5_wf]) (simp add: async_variables_5_def)

definition async_variables_6 :: "search_entry list" where
  "async_variables_6 = [
  (''identifier_451'', ''identifier'',
    [(''../struct_m_q_t_t_property.html#a2ff04e8cc70fbaa9bcb9a4fb3d510882'', 1, ''MQTTProperty'')]),
  (''integer2_452'', ''integer2'',
    [(''../struct_m_q_t_t_property.html#a0289ec2e0df8789139386b0ddf5c71c3'', 1, ''MQTTProperty'')]),
  (''integer4_453'', ''integer4'',
    [(''../struct_m_q_t_t_property.html#a813425ef31abb5ef0091e3043e8a366b'', 1, ''MQTTProperty'')])]"

lemma async_variables_6_wf: "index_wf CHR ''i'' 451 async_variables_6"
  by (rule index_wf_check) (simp add: async_variables_6_def index_eval del: One_nat_def)

lemma async_variables_6_file: "index_file CHR ''i'' async_variables_6"
  by (rule index_fileI [OF _ async_variables_6_wf]) (simp add: async_variables_6_def)

definition async_variables_7 :: "search_entry list" where
  "async_variables_7 = [
  (''keepaliveinterval_454'', ''keepAliveInterval'',
    [(''../struct_m_q_t_t_async__connect_options.html#ac8dd0930672a9c7d71fc645aa1f0521d'', 1, ''MQTTAsync_connectOptions'')]),
  (''keystore_455'', ''keyStore'',
    [(''../struct_m_q_t_t_async___s_s_l_options.html#a32b476382955289ce427112b59f21c3e'', 1, ''MQTTAsync_SSLOptions'')])]"

lemma async_variables_7_wf: "index_wf CHR ''k'' 454 async_variables_7"
  by (rule index_wf_check) (simp add: async_variables_7_def index_eval del: One_nat_def)

lemma async_variables_7_file: "index_file CHR ''k'' async_variables_7"
  by (rule index_fileI [OF _ async_variables_7_wf]) (simp add: async_variables_7_def)

definition async_variables_8 :: "search_entry list" where
  "async_variables_8 = [
  (''len_456'', ''len'',
    [(''../struct_m_q_t_t_async__connect_data.html#afed088663f8704004425cdae2120b9b3'', 1, ''MQTTAsync_connectData::len()''),
     (''../struct_m_q_t_t_async__will_options.html#afed088663f8704004425cdae2120b9b3'', 1, ''MQTTAsync_willOptions::len()''),
     (''../struct_m_q_t_t_async__connect_options.html#afed088663f8704004425cdae2120b9b3'', 1, ''MQTTAsync_connectOptions::len()''),
     (''../struct_m_q_t_t_len_string.html#afed088663f8704004425cdae2120b9b3'', 1, ''MQTTLenString::len()'')]),
  (''length_457'', ''length'',
    [(''../struct_m_q_t_t_properties.html#a9f59b34b1f25fe00023291b678246bcc'', 1, ''MQTTProperties'')])]"

lemma async_variables_8_wf: "index_wf CHR ''l'' 456 async_variables_8"
  by (rule index_wf_check) (simp add: async_variables_8_def index_eval del: One_nat_def)

lemma async_variables_8_file: "index_file CHR ''l'' async_variables_8"
  by (rule index_fileI [OF _ async_variables_8_wf]) (simp add: async_variables_8_def)

definition async_variables_9 :: "search_entry list" where
  "async_variables_9 = [
  (''max_5fcount_458'', ''max_count'',
    [(''../struct_m_q_t_t_properties.html#a8de324382d8fd2f5939bf3372e059383'', 1, ''MQTTProperties'')]),
  (''maxbufferedmessages_459'', ''maxBufferedMessages'',
    [(''../struct_m_q_t_t_async__create_options.html#a3b74acf6f315bb5fe36266bc9647ee97'', 1, ''MQTTAsync_createOptions'')]),
  (''maxinflight_460'', ''maxInflight'',
    [(''../struct_m_q_t_t_async__connect_options.html#a5c9d6c557453232a1b25cbbec5a31e8c'', 1, ''MQTTAsync_connectOptions'')]),
  (''maxretryinterval_461'', ''maxRetryInterval'',
    [(''../struct_m_q_t_t_async__connect_options.html#a035ba380dd97a284db04f4eaae5e113b'', 1, ''MQTTAsync_connectOptions'')]),
  (''message_462'', ''message'',
    [(''../struct_m_q_t_t_async__failure_data.html#a254bf0858da09c96a48daf64404eb4f8'', 1, ''MQTTAsync_failureData::message()''),
     (''../struct_m_q_t_t_async__failure_data5.html#a254bf0858da09c96a48daf64404eb4f8'', 1, ''MQTTAsync_failureData5::message()''),
     (''../struct_m_q_t_t_async__success_data.html#a6ed8403758cecd2f762af6ba5e0ae525'', 1, ''MQTTAsync_successData::message()''),
     (''../struct_m_q_t_t_async__success_data5.html#a6ed8403758cecd2f762af6ba5e0ae525'', 1, ''MQTTAsync_successData5::message()''),
     (''../struct_m_q_t_t_async__will_options.html#a254bf0858da09c96a48daf64404eb4f8'', 1, ''MQTTAsync_willOptions::message()'')]),
  (''minretryinterval_463'', ''minRetryInterval'',
    [(''../struct_m_q_t_t_async__connect_options.html#a166ac1b967f09326b0187f66be3e69af'', 1, ''MQTTAsync_connectOptions'')]),
  (''mqttversion_464'', ''MQTTVersion'',
    [(''../struct_m_q_t_t_async__success_data.html#a12d546fd0ccf4e1091b18e1b735c7240'', 1, ''MQTTAsync_successData::MQTTVersion()''),
     (''../struct_m_q_t_t_async__success_data5.html#a12d546fd0ccf4e1091b18e1b735c7240'', 1, ''MQTTAsync_successData5::MQTTVersion()''),
     (''../struct_m_q_t_t_async__create_options.html#a12d546fd0ccf4e1091b18e1b735c7240'', 1, ''MQTTAsync_createOptions::MQTTVersion()''),
     (''../struct_m_q_t_t_async__connect_options.html#a12d546fd0ccf4e1091b18e1b735c7240'', 1, ''MQTTAsync_connectOptions::MQTTVersion()'')]),
  (''msgid_465'', ''msgid'',
    [(''../struct_m_q_t_t_async__message.html#a6174c42da8c55c86e7255be2848dc4ac'', 1, ''MQTTAsync_message'')])]"

lemma async_variables_9_wf: "index_wf CHR ''m'' 458 async_variables_9"
  by (rule index_wf_check) (simp add: async_variables_9_def index_eval del: One_nat_def)

lemma async_variables_9_file: "index_file CHR ''m'' async_variables_9"
  by (rule index_fileI [OF _ async_variables_9_wf]) (simp add: async_variables_9_def)

definition async_variables_a :: "search_entry list" where
  "async_variables_a = [
  (''name_466'', ''name'',
    [(''../struct_m_q_t_t_async__name_value.html#a8f8f80d37794cde9472343e4487ba3eb'', 1, ''MQTTAsync_nameValue'')]),
  (''nolocal_467'', ''noLocal'',
    [(''../struct_m_q_t_t_subscribe__options.html#abbb6a188886c12f305cbe69358515d8b'', 1, ''MQTTSubscribe_options'')])]"

lemma async_variables_a_wf: "index_wf CHR ''n'' 466 async_variables_a"
  by (rule index_wf_check) (simp add: async_variables_a_def index_eval del: One_nat_def)

lemma async_variables_a_file: "index_file CHR ''n'' async_variables_a"
  by (rule index_fileI [OF _ async_variables_a_wf]) (simp add: async_variables_a_def)

definition async_variables_b :: "search_entry list" where
  "async_variables_b = [
  (''onfailure_468'', ''onFailure'',
    [(''../struct_m_q_t_t_async__response_options.html#a09ce26d7cff24e14a6844eaae7b15290'', 1, ''MQTTAsync_responseOptions::onFailure()''),
     (''../struct_m_q_t_t_async__connect_options.html#a09ce26d7cff24e14a6844eaae7b15290'', 1, ''MQTTAsync_connectOptions::onFailure()''),
     (''../struct_m_q_t_t_async__disconnect_options.html#a09ce26d7cff24e14a6844eaae7b15290'', 1, ''MQTTAsync_disconnectOptions::onFailure()'')]),
  (''onfailure5_469'', ''onFailure5'',
    [(''../struct_m_q_t_t_async__response_options.html#a4dad726f2b6f79ca5847689c5f2f2ec2'', 1, ''MQTTAsync_responseOptions::onFailure5()''),
     (''../struct_m_q_t_t_async__connect_options.html#a4dad726f2b6f79ca5847689c5f2f2ec2'', 1, ''MQTTAsync_connectOptions::onFailure5()''),
     (''../struct_m_q_t_t_async__disconnect_options.html#a4dad726f2b6f79ca5847689c5f2f2ec2'', 1, ''MQTTAsync_disconnectOptions::onFailure5()'')]),
  (''onsuccess_470'', ''onSuccess'',
    [(''../struct_m_q_t_t_async__response_options.html#ac13fb68f736854fcab131b34756bfceb'', 1, ''MQTTAsync_responseOptions::onSuccess()''),
     (''../struct_m_q_t_t_async__connect_options.html#ac13fb68f736854fcab131b34756bfceb'', 1, ''MQTTAsync_connectOptions::onSuccess()''),
     (''../struct_m_q_t_t_async__disconnect_options.html#ac13fb68f736854fcab131b34756bfceb'', 1, ''MQTTAsync_disconnectOptions::onSuccess()'')]),
  (''onsuccess5_471'', ''onSuccess5'',
    [(''../struct_m_q_t_t_async__response_options.html#a1c23c490f06428725345de68a4ff0a3e'', 1, ''MQTTAsync_responseOptions::onSuccess5()''),
     (''../struct_m_q_t_t_async__connect_options.html#a1c23c490f06428725345de68a4ff0a3e'', 1, ''MQTTAsync_connectOptions::onSuccess5()''),
     (''../struct_m_q_t_t_async__disconnect_options.html#a1c23c490f06428725345de68a4ff0a3e'', 1, ''MQTTAsync_disconnectOptions::onSuccess5()'')])]"

lemma async_variables_b_wf: "index_wf CHR ''o'' 468 async_variables_b"
  by (rule index_wf_check) (simp add: async_variables_b_def index_eval del: One_nat_def)

lemma async_variables_b_file: "index_file CHR ''o'' async_variables_b"
  by (rule index_fileI [OF _ async_variables_b_wf]) (simp add: async_variables_b_def)

definition async_variables_c :: "search_entry list" where
  "async_variables_c = [
  (''packet_5ftype_472'', ''packet_type'',
    [(''../struct_m_q_t_t_async__failure_data5.html#a38dfee9f038f473c95af46fcef5dd3e9'', 1, ''MQTTAsync_failureData5'')]),
  (''password_473'', ''password'',
    [(''../struct_m_q_t_t_async__connect_options.html#aa4a2ebcb494493f648ae1e6975672575'', 1, ''MQTTAsync_connectOptions'')]),
  (''payload_474'', ''payload'',
    [(''../struct_m_q_t_t_async__message.html#a9eff55064941fb604452abb0050ea99d'', 1, ''MQTTAsync_message::payload()''),
     (''../struct_m_q_t_t_async__will_options.html#a93e9de18277b05bc7a033bdee98c908a'', 1, ''MQTTAsync_willOptions::payload()'')]),
  (''payloadlen_475'', ''payloadlen'',
    [(''../struct_m_q_t_t_async__message.html#aa3cb44feb3ae6d11b3a4cad2d94cb33a'', 1, ''MQTTAsync_message'')]),
  (''pclear_476'', ''pclear'',
    [(''../struct_m_q_t_t_client__persistence.html#abc192dc88113c7d933b29d3561badbf5'', 1, ''MQTTClient_persistence'')]),
  (''pclose_477'', ''pclose'',
    [(''../struct_m_q_t_t_client__persistence.html#a7e50506912d2ec0e014cc25ec28fb402'', 1, ''MQTTClient_persistence'')]),
  (''pcontainskey_478'', ''pcontainskey'',
    [(''../struct_m_q_t_t_client__persistence.html#ac103711576267f791325f2b70b6dc49d'', 1, ''MQTTClient_persistence'')]),
  (''persistqos0_479'', ''persistQoS0'',
    [(''../struct_m_q_t_t_async__create_options.html#a0c3ea2641e188542c787e71e2c521a0b'', 1, ''MQTTAsync_createOptions'')]),
  (''pget_480'', ''pget'',
    [(''../struct_m_q_t_t_client__persistence.html#a49155000b82a28ac3b3cb878f3a092d4'', 1, ''MQTTClient_persistence'')]),
  (''pkeys_481'', ''pkeys'',
    [(''../struct_m_q_t_t_client__persistence.html#a407e86a809e4b0b098a8c158f53b9606'', 1, ''MQTTClient_persistence'')]),
  (''popen_482'', ''popen'',
    [(''../struct_m_q_t_t_client__persistence.html#a1bae211b32415e6b349d5ae71599f9f4'', 1, ''MQTTClient_persistence'')]),
  (''pput_483'', ''pput'',
    [(''../struct_m_q_t_t_client__persistence.html#a4114d9b9971cee18d7e4b9dd5736a608'', 1, ''MQTTClient_persistence'')]),
  (''premove_484'', ''premove'',
    [(''../struct_m_q_t_t_client__persistence.html#a53150e443ca721b8623689371c2fbdb9'', 1, ''MQTTClient_persistence'')]),
  (''privatekey_485'', ''privateKey'',
    [(''../struct_m_q_t_t_async___s_s_l_options.html#a7dd436cbb916fba200595c3519f09ec4'', 1, ''MQTTAsync_SSLOptions'')]),
  (''privatekeypassword_486'', ''privateKeyPassword'',
    [(''../struct_m_q_t_t_async___s_s_l_options.html#abb427571ba37b51f6985f1a6906ca031'', 1, ''MQTTAsync_SSLOptions'')]),
  (''properties_487'', ''properties'',
    [(''../struct_m_q_t_t_async__message.html#a1594008402f7307e4de8fa6131656dde'', 1, ''MQTTAsync_message::properties()''),
     (''../struct_m_q_t_t_async__failure_data5.html#a1594008402f7307e4de8fa6131656dde'', 1, ''MQTTAsync_failureData5::properties()''),
     (''../struct_m_q_t_t_async__success_data5.html#a1594008402f7307e4de8fa6131656dde'', 1, ''MQTTAsync_successData5::properties()''),
     (''../struct_m_q_t_t_async__response_options.html#a1594008402f7307e4de8fa6131656dde'', 1, ''MQTTAsync_responseOptions::properties()''),
     (''../struct_m_q_t_t_async__disconnect_options.html#a1594008402f7307e4de8fa6131656dde'', 1, ''MQTTAsync_disconnectOptions::properties()'')]),
  (''protos_488'', ''protos'',
    [(''../struct_m_q_t_t_async___s_s_l_options.html#a4f8661600fb8bacf031150f8dcd293a5'', 1, ''MQTTAsync_SSLOptions'')]),
  (''protos_5flen_489'', ''protos_len'',
    [(''../struct_m_q_t_t_async___s_s_l_options.html#a26f5d839c92f9772c2a5d05486277a42'', 1, ''MQTTAsync_SSLOptions'')]),
  (''pub_490'', ''pub'',
    [(''../struct_m_q_t_t_async__success_data.html#a7f044c3b839c17a8840cd6f00d7a0e90'', 1, ''MQTTAsync_successData::pub()''),
     (''../struct_m_q_t_t_async__success_data5.html#a5c41c63d6c37acbe3c493279c5d4c44a'', 1, ''MQTTAsync_successData5::pub()'')])]"

lemma async_variables_c_wf: "index_wf CHR ''p'' 472 async_variables_c"
  by (rule index_wf_check) (simp add: async_variables_c_def index_eval del: One_nat_def)

lemma async_variables_c_file: "index_file CHR ''p'' async_variables_c"
  by (rule index_fileI [OF _ async_variables_c_wf]) (simp add: async_variables_c_def)

definition async_variables_d :: "search_entry list" where
  "async_variables_d = [
  (''qos_491'', ''qos'',
    [(''../struct_m_q_t_t_async__message.html#a35738099155a0e4f54050da474bab2e7'', 1, ''MQTTAsync_message::qos()''),
     (''../struct_m_q_t_t_async__success_data.html#a35738099155a0e4f54050da474bab2e7'', 1, ''MQTTAsync_successData::qos()''),
     (''../struct_m_q_t_t_async__will_options.html#a35738099155a0e4f54050da474bab2e7'', 1, ''MQTTAsync_willOptions::qos()'')]),
  (''qoslist_492'', ''qosList'',
    [(''../struct_m_q_t_t_async__success_data.html#a82786d9ba5cae39873f378a48b36c23b'', 1, ''MQTTAsync_successData'')])]"

lemma async_variables_d_wf: "index_wf CHR ''q'' 491 async_variables_d"
  by (rule index_wf_check) (simp add: async_variables_d_def index_eval del: One_nat_def)

lemma async_variables_d_file: "index_file CHR ''q'' async_variables_d"
  by (rule index_fileI [OF _ async_variables_d_wf]) (simp add: async_variables_d_def)

definition async_variables_e :: "search_entry list" where
  "async_variables_e = [
  (''reasoncode_493'', ''reasonCode'',
    [(''../struct_m_q_t_t_async__failure_data5.html#a580d8a8ecb285f5a86c2a3865438f8ee'', 1, ''MQTTAsync_failureData5::reasonCode()''),
     (''../struct_m_q_t_t_async__success_data5.html#a580d8a8ecb285f5a86c2a3865438f8ee'', 1, ''MQTTAsync_successData5::reasonCode()''),
     (''../struct_m_q_t_t_async__disconnect_options.html#a580d8a8ecb285f5a86c2a3865438f8ee'', 1, ''MQTTAsync_disconnectOptions::reasonCode()'')]),
  (''reasoncodecount_494'', ''reasonCodeCount'',
    [(''../struct_m_q_t_t_async__success_data5.html#ac97316626bd4faa6b71277c221275f4b'', 1, ''MQTTAsync_successData5'')]),
  (''reasoncodes_495'', ''reasonCodes'',
    [(''../struct_m_q_t_t_async__success_data5.html#a2199c9d905dbfa279895cf8123c10f4f'', 1, ''MQTTAsync_successData5'')]),
  (''restoremessages_496'', ''restoreMessages'',
    [(''../struct_m_q_t_t_async__create_options.html#a231b8890c3bc2ea07f7c599896f30691'', 1, ''MQTTAsync_createOptions'')]),
  (''retainaspublished_497'', ''retainAsPublished'',
    [(''../struct_m_q_t_t_subscribe__options.html#a8ba074ad218224ee4a8ca802c5e36944'', 1, ''MQTTSubscribe_options'')]),
  (''retained_498'', ''retained'',
    [(''../struct_m_q_t_t_async__message.html#a6a4904c112507a43e7dc8495b62cc0fc'', 1, ''MQTTAsync_message::retained()''),
     (''../struct_m_q_t_t_async__will_options.html#a6a4904c112507a43e7dc8495b62cc0fc'', 1, ''MQTTAsync_willOptions::retained()'')]),
  (''retainhandling_499'', ''retainHandling'',
    [(''../struct_m_q_t_t_subscribe__options.html#a11f17b62e40ecdfe107101ae164367a3'', 1, ''MQTTSubscribe_options'')]),
  (''retryinterval_500'', ''retryInterval'',
    [(''../struct_m_q_t_t_async__connect_options.html#ac73f57846c42bcaa9a47e6721a957748'', 1, ''MQTTAsync_connectOptions'')])]"

lemma async_variables_e_wf: "index_wf CHR ''r'' 493 async_variables_e"
  by (rule index_wf_check) (simp add: async_variables_e_def index_eval del: One_nat_def)

lemma async_variables_e_file: "index_file CHR ''r'' async_variables_e"
  by (rule index_fileI [OF _ async_variables_e_wf]) (simp add: async_variables_e_def)

definition async_variables_f :: "search_entry list" where
  "async_variables_f = [
  (''sendwhiledisconnected_501'', ''sendWhileDisconnected'',
    [(''../struct_m_q_t_t_async__create_options.html#a078cd68d8f896ce7eac0cc83d4486a2c'', 1, ''MQTTAsync_createOptions'')]),
  (''serveruri_502'', ''serverURI'',
    [(''../struct_m_q_t_t_async__success_data.html#a95309fdf27015b12bc4adf56306e557b'', 1, ''MQTTAsync_successData::serverURI()''),
     (''../struct_m_q_t_t_async__success_data5.html#a95309fdf27015b12bc4adf56306e557b'', 1, ''MQTTAsync_successData5::serverURI()'')]),
  (''serveruricount_503'', ''serverURIcount'',
    [(''../struct_m_q_t_t_async__connect_options.html#aa82629005937abd92e97084a428cd61f'', 1, ''MQTTAsync_connectOptions'')]),
  (''serveruris_504'', ''serverURIs'',
    [(''../struct_m_q_t_t_async__connect_options.html#aba22d81c407fb2ba590dba476240d3e9'', 1, ''MQTTAsync_connectOptions'')]),
  (''sessionpresent_505'', ''sessionPresent'',
    [(''../struct_m_q_t_t_async__success_data.html#a44baf2cb9a0bbcec3ed2eace43f832d1'', 1, ''MQTTAsync_successData::sessionPresent()''),
     (''../struct_m_q_t_t_async__success_data5.html#a44baf2cb9a0bbcec3ed2eace43f832d1'', 1, ''MQTTAsync_successData5::sessionPresent()'')]),
  (''ssl_506'', ''ssl'',
    [(''../struct_m_q_t_t_async__connect_options.html#a86fd59846f3ba2082fd99906c6b496a6'', 1, ''MQTTAsync_connectOptions'')]),
  (''ssl_5ferror_5fcb_507'', ''ssl_error_cb'',
    [(''../struct_m_q_t_t_async___s_s_l_options.html#a21b6ca8a73ba197e65f6a93365d39c04'', 1, ''MQTTAsync_SSLOptions'')]),
  (''ssl_5ferror_5fcontext_508'', ''ssl_error_context'',
    [(''../struct_m_q_t_t_async___s_s_l_options.html#a189f11195f4d5a70024adffdb050885f'', 1, ''MQTTAsync_SSLOptions'')]),
  (''ssl_5fpsk_5fcb_509'', ''ssl_psk_cb'',
    [(''../struct_m_q_t_t_async___s_s_l_options.html#a94317cdaf352f9ae496976f8a30f8fee'', 1, ''MQTTAsync_SSLOptions'')]),
  (''ssl_5fpsk_5fcontext_510'', ''ssl_psk_context'',
    [(''../struct_m_q_t_t_async___s_s_l_options.html#ab7f597518dd5b9db5a515081f8e0bd1f'', 1, ''MQTTAsync_SSLOptions'')]),
  (''sslversion_511'', ''sslVersion'',
    [(''../struct_m_q_t_t_async___s_s_l_options.html#a3543ea1481b68d73cdde833280bb9c45'', 1, ''MQTTAsync_SSLOptions'')]),
  (''struct_5fid_512'', ''struct_id'',
    [(''../struct_m_q_t_t_subscribe__options.html#aa5326df180cb23c59afbcab711a06479'', 1, ''MQTTSubscribe_options::struct_id()''),
     (''../struct_m_q_t_t_async__disconnect_options.html#aa5326df180cb23c59afbcab711a06479'', 1, ''MQTTAsync_disconnectOptions::struct_id()''),
     (''../struct_m_q_t_t_async__connect_options.html#aa5326df180cb23c59afbcab711a06479'', 1, ''MQTTAsync_connectOptions::struct_id()''),
     (''../struct_m_q_t_t_async___s_s_l_options.html#aa5326df180cb23c59afbcab711a06479'', 1, ''MQTTAsync_SSLOptions::struct_id()''),
     (''../struct_m_q_t_t_async__will_options.html#aa5326df180cb23c59afbcab711a06479'', 1, ''MQTTAsync_willOptions::struct_id()''),
     (''../struct_m_q_t_t_async__create_options.html#aa5326df180cb23c59afbcab711a06479'', 1, ''MQTTAsync_createOptions::struct_id()''),
     (''../struct_m_q_t_t_async__success_data5.html#aa5326df180cb23c59afbcab711a06479'', 1, ''MQTTAsync_successData5::struct_id()''),
     (''../struct_m_q_t_t_async__failure_data5.html#aa5326df180cb23c59afbcab711a06479'', 1, ''MQTTAsync_failureData5::struct_id()''),
     (''../struct_m_q_t_t_async__connect_data.html#aa5326df180cb23c59afbcab711a06479'', 1, ''MQTTAsync_connectData::struct_id()''),
     (''../struct_m_q_t_t_async__message.html#aa5326df180cb23c59afbcab711a06479'', 1, ''MQTTAsync_message::struct_id()''),
     (''../struct_m_q_t_t_async__init__options.html#aa5326df180cb23c59afbcab711a06479'', 1, ''MQTTAsync_init_options::struct_id()''),
     (''../struct_m_q_t_t_async__response_options.html#aa5326df180cb23c59afbcab711a06479'', 1, ''MQTTAsync_responseOptions::struct_id()'')]),
  (''struct_5fversion_513'', ''struct_version'',
    [(''../struct_m_q_t_t_async__response_options.html#a0761a5e5be0383882e42924de8e51f82'', 1, ''MQTTAsync_responseOptions::struct_version()''),
     (''../struct_m_q_t_t_subscribe__options.html#a0761a5e5be0383882e42924de8e51f82'', 1, ''MQTTSubscribe_options::struct_version()''),
     (''../struct_m_q_t_t_async__disconnect_options.html#a0761a5e5be0383882e42924de8e51f82'', 1, ''MQTTAsync_disconnectOptions::struct_version()''),
     (''../struct_m_q_t_t_async__connect_options.html#a0761a5e5be0383882e42924de8e51f82'', 1, ''MQTTAsync_connectOptions::struct_version()''),
     (''../struct_m_q_t_t_async___s_s_l_options.html#a0761a5e5be0383882e42924de8e51f82'', 1, ''MQTTAsync_SSLOptions::struct_version()''),
     (''../struct_m_q_t_t_async__will_options.html#a0761a5e5be0383882e42924de8e51f82'', 1, ''MQTTAsync_willOptions::struct_version()''),
     (''../struct_m_q_t_t_async__create_options.html#a0761a5e5be0383882e42924de8e51f82'', 1, ''MQTTAsync_createOptions::struct_version()''),
     (''../struct_m_q_t_t_async__success_data5.html#a0761a5e5be0383882e42924de8e51f82'', 1, ''MQTTAsync_successData5::struct_version()''),
     (''../struct_m_q_t_t_async__failure_data5.html#a0761a5e5be0383882e42924de8e51f82'', 1, ''MQTTAsync_failureData5::struct_version()''),
     (''../struct_m_q_t_t_async__connect_data.html#a0761a5e5be0383882e42924de8e51f82'', 1, ''MQTTAsync_connectData::struct_version()''),
     (''../struct_m_q_t_t_async__message.html#a0761a5e5be0383882e42924de8e51f82'', 1, ''MQTTAsync_message::struct_version()''),
     (''../struct_m_q_t_t_async__init__options.html#a0761a5e5be0383882e42924de8e51f82'', 1, ''MQTTAsync_init_options::struct_version()'')]),
  (''sub_514'', ''sub'',
    [(''../struct_m_q_t_t_async__success_data5.html#a26c7d90bad0e00a056dff117b9111346'', 1, ''MQTTAsync_successData5'')]),
  (''subscribeoptions_515'', ''subscribeOptions'',
    [(''../struct_m_q_t_t_async__response_options.html#a16a3cd2a8c69669e9ed6e420ccd9c517'', 1, ''MQTTAsync_responseOptions'')]),
  (''subscribeoptionscount_516'', ''subscribeOptionsCount'',
    [(''../struct_m_q_t_t_async__response_options.html#a1a4b9bb2780472ec7bb65d0df1bf5d26'', 1, ''MQTTAsync_responseOptions'')]),
  (''subscribeoptionslist_517'', ''subscribeOptionsList'',
    [(''../struct_m_q_t_t_async__response_options.html#a98f71c5d03dc5ee86fd9dc0119ccb961'', 1, ''MQTTAsync_responseOptions'')])]"

lemma async_variables_f_wf: "index_wf CHR ''s'' 501 async_variables_f"
  by (rule index_wf_check) (simp add: async_variables_f_def index_eval del: One_nat_def)

lemma async_variables_f_file: "index_file CHR ''s'' async_variables_f"
  by (rule index_fileI [OF _ async_variables_f_wf]) (simp add: async_variables_f_def)

definition async_variables_10 :: "search_entry list" where
  "async_variables_10 = [
  (''timeout_518'', ''timeout'',
    [(''../struct_m_q_t_t_async__disconnect_options.html#a493b57f443cc38b3d3df9c1e584d9d82'', 1, ''MQTTAsync_disconnectOptions'')]),
  (''token_519'', ''token'',
    [(''../struct_m_q_t_t_async__failure_data.html#af8f771e67d284379111151b003c0d810'', 1, ''MQTTAsync_failureData::token()''),
     (''../struct_m_q_t_t_async__failure_data5.html#af8f771e67d284379111151b003c0d810'', 1, ''MQTTAsync_failureData5::token()''),
     (''../struct_m_q_t_t_async__success_data.html#af8f771e67d284379111151b003c0d810'', 1, ''MQTTAsync_successData::token()''),
     (''../struct_m_q_t_t_async__success_data5.html#af8f771e67d284379111151b003c0d810'', 1, ''MQTTAsync_successData5::token()''),
     (''../struct_m_q_t_t_async__response_options.html#af8f771e67d284379111151b003c0d810'', 1, ''MQTTAsync_responseOptions::token()'')]),
  (''topicname_520'', ''topicName'',
    [(''../struct_m_q_t_t_async__will_options.html#a0e20a7b350881d05108d6342884198a5'', 1, ''MQTTAsync_willOptions'')]),
  (''truststore_521'', ''trustStore'',
    [(''../struct_m_q_t_t_async___s_s_l_options.html#a032835d4c4a1c1e19b53c330a673a6e0'', 1, ''MQTTAsync_SSLOptions'')])]"

lemma async_variables_10_wf: "index_wf CHR ''t'' 518 async_variables_10"
  by (rule index_wf_check) (simp add: async_variables_10_def index_eval del: One_nat_def)

lemma async_variables_10_file: "index_file CHR ''t'' async_variables_10"
  by (rule index_fileI [OF _ async_variables_10_wf]) (simp add: async_variables_10_def)

definition async_variables_11 :: "search_entry list" where
  "async_variables_11 = [
  (''unsub_522'', ''unsub'',
    [(''../struct_m_q_t_t_async__success_data5.html#a46b20b320d6951e567ebf678ea4ac1a3'', 1, ''MQTTAsync_successData5'')]),
  (''username_523'', ''username'',
    [(''../struct_m_q_t_t_async__connect_data.html#aba2dfcdfda80edcb531a5a7115d3e043'', 1, ''MQTTAsync_connectData::username()''),
     (''../struct_m_q_t_t_async__connect_options.html#aba2dfcdfda80edcb531a5a7115d3e043'', 1, ''MQTTAsync_connectOptions::username()'')])]"

lemma async_variables_11_wf: "index_wf CHR ''u'' 522 async_variables_11"
  by (rule index_wf_check) (simp add: async_variables_11_def index_eval del: One_nat_def)

lemma async_variables_11_file: "index_file CHR ''u'' async_variables_11"
  by (rule index_fileI [OF _ async_variables_11_wf]) (simp add: async_variables_11_def)

definition async_variables_12 :: "search_entry list" where
  "async_variables_12 = [
  (''value_524'', ''value'',
    [(''../struct_m_q_t_t_async__name_value.html#a8556878012feffc9e0beb86cd78f424d'', 1, ''MQTTAsync_nameValue::value()''),
     (''../struct_m_q_t_t_property.html#a09e85ff5ad73824d6c2edc1ce4283a17'', 1, ''MQTTProperty::value()''),
     (''../struct_m_q_t_t_property.html#af2307539b97777bec0475619af5648f1'', 1, ''MQTTProperty::value()'')]),
  (''verify_525'', ''verify'',
    [(''../struct_m_q_t_t_async___s_s_l_options.html#a94900629685d5ed08f66fd2931f573ce'', 1, ''MQTTAsync_SSLOptions'')])]"

lemma async_variables_12_wf: "index_wf CHR ''v'' 524 async_variables_12"
  by (rule index_wf_check) (simp add: async_variables_12_def index_eval del: One_nat_def)

lemma async_variables_12_file: "index_file CHR ''v'' async_variables_12"
  by (rule index_fileI [OF _ async_variables_12_wf]) (simp add: async_variables_12_def)

definition async_variables_13 :: "search_entry list" where
  "async_variables_13 = [
  (''will_526'', ''will'',
    [(''../struct_m_q_t_t_async__connect_options.html#a7a9c5105542460d6fd9323facca66648'', 1, ''MQTTAsync_connectOptions'')]),
  (''willproperties_527'', ''willProperties'',
    [(''../struct_m_q_t_t_async__connect_options.html#ac31f13e964ffb7e3696caef47ecc0641'', 1, ''MQTTAsync_connectOptions'')])]"

lemma async_variables_13_wf: "index_wf CHR ''w'' 526 async_variables_13"
  by (rule index_wf_check) (simp add: async_variables_13_def index_eval del: One_nat_def)

lemma async_variables_13_file: "index_file CHR ''w'' async_variables_13"
  by (rule index_fileI [OF _ async_variables_13_wf]) (simp add: async_variables_13_def)

definition async_typedefs_0 :: "search_entry list" where
  "async_typedefs_0 = [
  (''mqttasync_528'', ''MQTTAsync'',
    [(''../_m_q_t_t_async_8h.html#a0db1d736cdc0c864fe41abb3afd605bd'', 1, ''MQTTAsync.h'')]),
  (''mqttasync_5fcalloptions_529'', ''MQTTAsync_callOptions'',
    [(''../_m_q_t_t_async_8h.html#ab6bfa6beae93c259220e1a131ba1cf9c'', 1, ''MQTTAsync.h'')]),
  (''mqttasync_5fconnected_530'', ''MQTTAsync_connected'',
    [(''../_m_q_t_t_async_8h.html#a34bb8d321e9d368780b5c832c058f223'', 1, ''MQTTAsync.h'')]),
  (''mqttasync_5fconnectionlost_531'', ''MQTTAsync_connectionLost'',
    [(''../_m_q_t_t_async_8h.html#a3900a98d7b1d58ad6e686bfce298bb6c'', 1, ''MQTTAsync.h'')]),
  (''mqttasync_5fdeliverycomplete_532'', ''MQTTAsync_deliveryComplete'',
    [(''../_m_q_t_t_async_8h.html#ab10296618e266b3c02fd117d6616b15d'', 1, ''MQTTAsync.h'')]),
  (''mqttasync_5fdisconnected_533'', ''MQTTAsync_disconnected'',
    [(''../_m_q_t_t_async_8h.html#a52a1d9ab6e5d5064a3de42d0eec88f57'', 1, ''MQTTAsync.h'')]),
  (''mqttasync_5fmessagearrived_534'', ''MQTTAsync_messageArrived'',
    [(''../_m_q_t_t_async_8h.html#a3918ead59b56816a8d7544def184e48e'', 1, ''MQTTAsync.h'')]),
  (''mqttasync_5fonfailure_535'', ''MQTTAsync_onFailure'',
    [(''../_m_q_t_t_async_8h.html#a6060c25c2641e878803aef76fefb31ee'', 1, ''MQTTAsync.h'')]),
  (''mqttasync_5fonfailure5_536'', ''MQTTAsync_onFailure5'',
    [(''../_m_q_t_t_async_8h.html#a8c5023e04d5c3e9805d5dae76df21f4c'', 1, ''MQTTAsync.h'')]),
  (''mqttasync_5fonsuccess_537'', ''MQTTAsync_onSuccess'',
    [(''../_m_q_t_t_async_8h.html#a7b0c18a0e29e2ce73f3ea109bc32617b'', 1, ''MQTTAsync.h'')]),
  (''mqttasync_5fonsuccess5_538'', ''MQTTAsync_onSuccess5'',
    [(''../_m_q_t_t_async_8h.html#a892cf122e6e8d8f6cd38c4c8efe8fb67'', 1, ''MQTTAsync.h'')]),
  (''mqttasync_5fresponseoptions_539'', ''MQTTAsync_responseOptions'',
    [(''../_m_q_t_t_async_8h.html#ae1568d96d6418004cc79466c06f3d791'', 1, ''MQTTAsync.h'')]),
  (''mqttasync_5ftoken_540'', ''MQTTAsync_token'',
    [(''../_m_q_t_t_async_8h.html#a7ca6d2a1813f2bbd0bc3af2771e46ba4'', 1, ''MQTTAsync.h'')]),
  (''mqttasync_5ftracecallback_541'', ''MQTTAsync_traceCallback'',
    [(''../_m_q_t_t_async_8h.html#a65aba1caeae9b5af5d5b6c5598a75b02'', 1, ''MQTTAsync.h'')]),
  (''mqttasync_5fupdateconnectoptions_542'', ''MQTTAsync_updateConnectOptions'',
    [(''../_m_q_t_t_async_8h.html#a5e44304a2c011a7d61b72c779ad83979'', 1, ''MQTTAsync.h'')]),
  (''mqttpersistence_5fafterread_543'', ''MQTTPersistence_afterRead'',
    [(''../_m_q_t_t_client_persistence_8h.html#af5a966a574c6ad7a35f1ebb7edd5c1c4'', 1, ''MQTTClientPersistence.h'')]),
  (''mqttpersistence_5fbeforewrite_544'', ''MQTTPersistence_beforeWrite'',
    [(''../_m_q_t_t_client_persistence_8h.html#ab865640a1cc53b68622004c5a2d29fae'', 1, ''MQTTClientPersistence.h'')]),
  (''mqttproperties_545'', ''MQTTProperties'',
    [(''../_m_q_t_t_properties_8h.html#a7758f1a5eceb6f46c8540630e39e2fb4'', 1, ''MQTTProperties.h'')]),
  (''mqttsubscribe_5foptions_546'', ''MQTTSubscribe_options'',
    [(''../_m_q_t_t_subscribe_opts_8h.html#aa68db3eaed272ae1aaea294401079d8a'', 1, ''MQTTSubscribeOpts.h'')])]"

lemma async_typedefs_0_wf: "index_wf CHR ''m'' 528 async_typedefs_0"
  by (rule index_wf_check) (simp add: async_typedefs_0_def index_eval del: One_nat_def)

lemma async_typedefs_0_file: "index_file CHR ''m'' async_typedefs_0"
  by (rule index_fileI [OF _ async_typedefs_0_wf]) (simp add: async_typedefs_0_def)

definition async_typedefs_1 :: "search_entry list" where
  "async_typedefs_1 = [
  (''persistence_5fclear_547'', ''Persistence_clear'',
    [(''../_m_q_t_t_client_persistence_8h.html#acee7097c1a0ab44b98c870f533687887'', 1, ''MQTTClientPersistence.h'')]),
  (''persistence_5fclose_548'', ''Persistence_close'',
    [(''../_m_q_t_t_client_persistence_8h.html#a3582de2c87e89f617e8e553b2a0e279a'', 1, ''MQTTClientPersistence.h'')]),
  (''persistence_5fcontainskey_549'', ''Persistence_containskey'',
    [(''../_m_q_t_t_client_persistence_8h.html#a753a0f9a9c51284d63a907af19c7bbba'', 1, ''MQTTClientPersistence.h'')]),
  (''persistence_5fget_550'', ''Persistence_get'',
    [(''../_m_q_t_t_client_persistence_8h.html#adc3aff3c570fa5509e9d6814a85ab867'', 1, ''MQTTClientPersistence.h'')]),
  (''persistence_5fkeys_551'', ''Persistence_keys'',
    [(''../_m_q_t_t_client_persistence_8h.html#a2601cc91eeabdbf9578f8dd45e4997a8'', 1, ''MQTTClientPersistence.h'')]),
  (''persistence_5fopen_552'', ''Persistence_open'',
    [(''../_m_q_t_t_client_persistence_8h.html#a4c7d332bb16907058ae3b375488b6008'', 1, ''MQTTClientPersistence.h'')]),
  (''persistence_5fput_553'', ''Persistence_put'',
    [(''../_m_q_t_t_client_persistence_8h.html#a44679cab77cfbd6e2a4639cdd27ac80c'', 1, ''MQTTClientPersistence.h'')]),
  (''persistence_5fremove_554'', ''Persistence_remove'',
    [(''../_m_q_t_t_client_persistence_8h.html#a73350bf7208658bf5434a59f7bdbae90'', 1, ''MQTTClientPersistence.h'')])]"

lemma async_typedefs_1_wf: "index_wf CHR ''p'' 547 async_typedefs_1"
  by (rule index_wf_check) (simp add: async_typedefs_1_def index_eval del: One_nat_def)

lemma async_typedefs_1_file: "index_file CHR ''p'' async_typedefs_1"
  by (rule index_fileI [OF _ async_typedefs_1_wf]) (simp add: async_typedefs_1_def)

definition async_enums_0 :: "search_entry list" where
  "async_enums_0 = [
  (''mqttasync_5ftrace_5flevels_555'', ''MQTTASYNC_TRACE_LEVELS'',
    [(''../_m_q_t_t_async_8h.html#a5de816f986b318947709a34e0787eda5'', 1, ''MQTTAsync.h'')]),
  (''mqttpropertycodes_556'', ''MQTTPropertyCodes'',
    [(''../_m_q_t_t_properties_8h.html#af623c1b670dfe3fda633c068e054d8b4'', 1, ''MQTTProperties.h'')]),
  (''mqttpropertytypes_557'', ''MQTTPropertyTypes'',
    [(''../_m_q_t_t_properties_8h.html#a942f52ef7c232829f6df5c86e07cc958'', 1, ''MQTTProperties.h'')]),
  (''mqttreasoncodes_558'', ''MQTTReasonCodes'',
    [(''../_m_q_t_t_reason_codes_8h.html#aba6db0fccfa3f8972ea48117b8b2a279'', 1, ''MQTTReasonCodes.h'')])]"

lemma async_enums_0_wf: "index_wf CHR ''m'' 555 async_enums_0"
  by (rule index_wf_check) (simp add: async_enums_0_def index_eval del: One_nat_def)

lemma async_enums_0_file: "index_file CHR ''m'' async_enums_0"
  by (rule index_fileI [OF _ async_enums_0_wf]) (simp add: async_enums_0_def)

definition async_enumvalues_0 :: "search_entry list" where
  "async_enumvalues_0 = [
  (''mqttasync_5ftrace_5ferror_559'', ''MQTTASYNC_TRACE_ERROR'',
    [(''../_m_q_t_t_async_8h.html#a5de816f986b318947709a34e0787eda5ac428f74ca453dacb7b8271ca741266e8'', 1, ''MQTTAsync.h'')]),
  (''mqttasync_5ftrace_5ffatal_560'', ''MQTTASYNC_TRACE_FATAL'',
    [(''../_m_q_t_t_async_8h.html#a5de816f986b318947709a34e0787eda5a0b91d2213ebb6655e41a7f6ce1a42295'', 1, ''MQTTAsync.h'')]),
  (''mqttasync_5ftrace_5fmaximum_561'', ''MQTTASYNC_TRACE_MAXIMUM'',
    [(''../_m_q_t_t_async_8h.html#a5de816f986b318947709a34e0787eda5af684f42971cced68693ce993703548c1'', 1, ''MQTTAsync.h'')]),
  (''mqttasync_5ftrace_5fmedium_562'', ''MQTTASYNC_TRACE_MEDIUM'',
    [(''../_m_q_t_t_async_8h.html#a5de816f986b318947709a34e0787eda5a133c380b84d75477ff31a2ad732133ce'', 1, ''MQTTAsync.h'')]),
  (''mqttasync_5ftrace_5fminimum_563'', ''MQTTASYNC_TRACE_MINIMUM'',
    [(''../_m_q_t_t_async_8h.html#a5de816f986b318947709a34e0787eda5a7a45c26816b1cac1fde02d79a9f4337b'', 1, ''MQTTAsync.h'')]),
  (''mqttasync_5ftrace_5fprotocol_564'', ''MQTTASYNC_TRACE_PROTOCOL'',
    [(''../_m_q_t_t_async_8h.html#a5de816f986b318947709a34e0787eda5a6a719b2b7fc4dfc41494370ff96fec3e'', 1, ''MQTTAsync.h'')]),
  (''mqttasync_5ftrace_5fsevere_565'', ''MQTTASYNC_TRACE_SEVERE'',
    [(''../_m_q_t_t_async_8h.html#a5de816f986b318947709a34e0787eda5a3084770185f384398cefe4aaba533d40'', 1, ''MQTTAsync.h'')]),
  (''mqttproperty_5fcode_5fassigned_5fclient_5fidentifer_566'', ''MQTTPROPERTY_CODE_ASSIGNED_CLIENT_IDENTIFER'',
    [(''../_m_q_t_t_properties_8h.html#af623c1b670dfe3fda633c068e054d8b4a768d84858fd18d5d5a7dee394929c672'', 1, ''MQTTProperties.h'')]),
  (''mqttproperty_5fcode_5fauthentication_5fdata_567'', ''MQTTPROPERTY_CODE_AUTHENTICATION_DATA'',
    [(''../_m_q_t_t_properties_8h.html#af623c1b670dfe3fda633c068e054d8b4abdf9feec165aceefbe7aa46764f6ab6e'', 1, ''MQTTProperties.h'')]),
  (''mqttproperty_5fcode_5fauthentication_5fmethod_568'', ''MQTTPROPERTY_CODE_AUTHENTICATION_METHOD'',
    [(''../_m_q_t_t_properties_8h.html#af623c1b670dfe3fda633c068e054d8b4a7c53f1e414b577d787b5d51af3204100'', 1, ''MQTTProperties.h'')]),
  (''mqttproperty_5fcode_5fcontent_5ftype_569'', ''MQTTPROPERTY_CODE_CONTENT_TYPE'',
    [(''../_m_q_t_t_properties_8h.html#af623c1b670dfe3fda633c068e054d8b4a4027d9e0fb53a62ae35963e700b56198'', 1, ''MQTTProperties.h'')]),
  (''mqttproperty_5fcode_5fcorrelation_5fdata_570'', ''MQTTPROPERTY_CODE_CORRELATION_DATA'',
    [(''../_m_q_t_t_properties_8h.html#af623c1b670dfe3fda633c068e054d8b4a887d3dd3f0ce31255324f5a1ba8b72c5'', 1, ''MQTTProperties.h'')]),
  (''mqttproperty_5fcode_5fmaximum_5fpacket_5fsize_571'', ''MQTTPROPERTY_CODE_MAXIMUM_PACKET_SIZE'',
    [(''../_m_q_t_t_properties_8h.html#af623c1b670dfe3fda633c068e054d8b4a6834ea9878f028d5fbdeccaaeae492e5'', 1, ''MQTTProperties.h'')]),
  (''mqttproperty_5fcode_5fmaximum_5fqos_572'', ''MQTTPROPERTY_CODE_MAXIMUM_QOS'',
    [(''../_m_q_t_t_properties_8h.html#af623c1b670dfe3fda633c068e054d8b4a506faeb89c407cf78853c777d750fa59'', 1, ''MQTTProperties.h'')]),
  (''mqttproperty_5fcode_5fmessage_5fexpiry_5finterval_573'', ''MQTTPROPERTY_CODE_MESSAGE_EXPIRY_INTERVAL'',
    [(''../_m_q_t_t_properties_8h.html#af623c1b670dfe3fda633c068e054d8b4a284c0e62d47ee8d358b16a8075632b4a'', 1, ''MQTTProperties.h'')]),
  (''mqttproperty_5fcode_5fpayload_5fformat_5findicator_574'', ''MQTTPROPERTY_CODE_PAYLOAD_FORMAT_INDICATOR'',
    [(''../_m_q_t_t_properties_8h.html#af623c1b670dfe3fda633c068e054d8b4ae5d077520427d03b44096f631411575d'', 1, ''MQTTProperties.h'')]),
  (''mqttproperty_5fcode_5freason_5fstring_575'', ''MQTTPROPERTY_CODE_REASON_STRING'',
    [(''../_m_q_t_t_properties_8h.html#af623c1b670dfe3fda633c068e054d8b4a3dce8f679474e901ce4aec076e9e59e1'', 1, ''MQTTProperties.h'')]),
  (''mqttproperty_5fcode_5freceive_5fmaximum_576'', ''MQTTPROPERTY_CODE_RECEIVE_MAXIMUM'',
    [(''../_m_q_t_t_properties_8h.html#af623c1b670dfe3fda633c068e054d8b4ab2688fe8d7d263c27c00d41776cb8f9f'', 1, ''MQTTProperties.h'')]),
  (''mqttproperty_5fcode_5frequest_5fproblem_5finformation_577'', ''MQTTPROPERTY_CODE_REQUEST_PROBLEM_INFORMATION'',
    [(''../_m_q_t_t_properties_8h.html#af623c1b670dfe3fda633c068e054d8b4a3954daf1d5772b5d56eefa1ab6a28aa1'', 1, ''MQTTProperties.h'')]),
  (''mqttproperty_5fcode_5frequest_5fresponse_5finformation_578'', ''MQTTPROPERTY_CODE_REQUEST_RESPONSE_INFORMATION'',
    [(''../_m_q_t_t_properties_8h.html#af623c1b670dfe3fda633c068e054d8b4a420b882a337dc1fd5f336ac6cd0529bf'', 1, ''MQTTProperties.h'')]),
  (''mqttproperty_5fcode_5fresponse_5finformation_579'', ''MQTTPROPERTY_CODE_RESPONSE_INFORMATION'',
    [(''../_m_q_t_t_properties_8h.html#af623c1b670dfe3fda633c068e054d8b4a2584b050f016af496c7f0b46692dbc00'', 1, ''MQTTProperties.h'')]),
  (''mqttproperty_5fcode_5fresponse_5ftopic_580'', ''MQTTPROPERTY_CODE_RESPONSE_TOPIC'',
    [(''../_m_q_t_t_properties_8h.html#af623c1b670dfe3fda633c068e054d8b4a7fa9996eef721d318504fbb0a8d4bac5'', 1, ''MQTTProperties.h'')]),
  (''mqttproperty_5fcode_5fretain_5favailable_581'', ''MQTTPROPERTY_CODE_RETAIN_AVAILABLE'',
    [(''../_m_q_t_t_properties_8h.html#af623c1b670dfe3fda633c068e054d8b4a448b3a40afaa5f7195701e7dc8bed30c'', 1, ''MQTTProperties.h'')]),
  (''mqttproperty_5fcode_5fserver_5fkeep_5falive_582'', ''MQTTPROPERTY_CODE_SERVER_KEEP_ALIVE'',
    [(''../_m_q_t_t_properties_8h.html#af623c1b670dfe3fda633c068e054d8b4ab106f320e7537b79644f25d3efcd68c7'', 1, ''MQTTProperties.h'')]),
  (''mqttproperty_5fcode_5fserver_5freference_583'', ''MQTTPROPERTY_CODE_SERVER_REFERENCE'',
    [(''../_m_q_t_t_properties_8h.html#af623c1b670dfe3fda633c068e054d8b4a0168e8a59f7994c02b7a7fd2fc3735c4'', 1, ''MQTTProperties.h'')]),
  (''mqttproperty_5fcode_5fsession_5fexpiry_5finterval_584'', ''MQTTPROPERTY_CODE_SESSION_EXPIRY_INTERVAL'',
    [(''../_m_q_t_t_properties_8h.html#af623c1b670dfe3fda633c068e054d8b4a22e4caa63f63ca3f9b1c1330711ee766'', 1, ''MQTTProperties.h'')]),
  (''mqttproperty_5fcode_5fshared_5fsubscription_5favailable_585'', ''MQTTPROPERTY_CODE_SHARED_SUBSCRIPTION_AVAILABLE'',
    [(''../_m_q_t_t_properties_8h.html#af623c1b670dfe3fda633c068e054d8b4ae04a7356f9e11654f15a3b21f2aae636'', 1, ''MQTTProperties.h'')]),
  (''mqttproperty_5fcode_5fsubscription_5fidentifier_586'', ''MQTTPROPERTY_CODE_SUBSCRIPTION_IDENTIFIER'',
    [(''../_m_q_t_t_properties_8h.html#af623c1b670dfe3fda633c068e054d8b4a70ead9c93f06396a4d9469b65bff0c96'', 1, ''MQTTProperties.h'')]),
  (''mqttproperty_5fcode_5fsubscription_5fidentifiers_5favailable_587'', ''MQTTPROPERTY_CODE_SUBSCRIPTION_IDENTIFIERS_AVAILABLE'',
    [(''../_m_q_t_t_properties_8h.html#af623c1b670dfe3fda633c068e054d8b4a8b366cfd8bd3f388bafb67f3ebf83505'', 1, ''MQTTProperties.h'')]),
  (''mqttproperty_5fcode_5ftopic_5falias_588'', ''MQTTPROPERTY_CODE_TOPIC_ALIAS'',
    [(''../_m_q_t_t_properties_8h.html#af623c1b670dfe3fda633c068e054d8b4ad4dfb37d341ea190afc144668e5e3bee'', 1, ''MQTTProperties.h'')]),
  (''mqttproperty_5fcode_5ftopic_5falias_5fmaximum_589'', ''MQTTPROPERTY_CODE_TOPIC_ALIAS_MAXIMUM'',
    [(''../_m_q_t_t_properties_8h.html#af623c1b670dfe3fda633c068e054d8b4a0a0b0b0715ecc9ccf471c75aa4c21c23'', 1, ''MQTTProperties.h'')]),
  (''mqttproperty_5fcode_5fuser_5fproperty_590'', ''MQTTPROPERTY_CODE_USER_PROPERTY'',
    [(''../_m_q_t_t_properties_8h.html#af623c1b670dfe3fda633c068e054d8b4a596ff540370235d3eca693ce30dd4af8'', 1, ''MQTTProperties.h'')]),
  (''mqttproperty_5fcode_5fwildcard_5fsubscription_5favailable_591'', ''MQTTPROPERTY_CODE_WILDCARD_SUBSCRIPTION_AVAILABLE'',
    [(''../_m_q_t_t_properties_8h.html#af623c1b670dfe3fda633c068e054d8b4ad05993f90baaee0ba7094ccef4d378b9'', 1, ''MQTTProperties.h'')]),
  (''mqttproperty_5fcode_5fwill_5fdelay_5finterval_592'', ''MQTTPROPERTY_CODE_WILL_DELAY_INTERVAL'',
    [(''../_m_q_t_t_properties_8h.html#af623c1b670dfe3fda633c068e054d8b4a53fd81bc554f152a2772d282be7ce5ef'', 1, ''MQTTProperties.h'')]),
  (''mqttproperty_5ftype_5fbinary_5fdata_593'', ''MQTTPROPERTY_TYPE_BINARY_DATA'',
    [(''../_m_q_t_t_properties_8h.html#a942f52ef7c232829f6df5c86e07cc958a6643aed682b9b07f98159856776fe7b4'', 1, ''MQTTProperties.h'')]),
  (''mqttproperty_5ftype_5fbyte_594'', ''MQTTPROPERTY_TYPE_BYTE'',
    [(''../_m_q_t_t_properties_8h.html#a942f52ef7c232829f6df5c86e07cc958ac36f96ce58c98a8ebbe0783df030726a'', 1, ''MQTTProperties.h'')]),
  (''mqttproperty_5ftype_5ffour_5fbyte_5finteger_595'', ''MQTTPROPERTY_TYPE_FOUR_BYTE_INTEGER'',
    [(''../_m_q_t_t_properties_8h.html#a942f52ef7c232829f6df5c86e07cc958aa49c558733bd735ae872fd87ad0d7e15'', 1, ''MQTTProperties.h'')]),
  (''mqttproperty_5ftype_5ftwo_5fbyte_5finteger_596'', ''MQTTPROPERTY_TYPE_TWO_BYTE_INTEGER'',
    [(''../_m_q_t_t_properties_8h.html#a942f52ef7c232829f6df5c86e07cc958ae301a9e68326cc2d8bfefeca401e78e6'', 1, ''MQTTProperties.h'')]),
  (''mqttproperty_5ftype_5futf_5f8_5fencoded_5fstring_597'', ''MQTTPROPERTY_TYPE_UTF_8_ENCODED_STRING'',
    [(''../_m_q_t_t_properties_8h.html#a942f52ef7c232829f6df5c86e07cc958ad45c866a5bef6c5048a7af21405734d1'', 1, ''MQTTProperties.h'')]),
  (''mqttproperty_5ftype_5futf_5f8_5fstring_5fpair_598'', ''MQTTPROPERTY_TYPE_UTF_8_STRING_PAIR'',
    [(''../_m_q_t_t_properties_8h.html#a942f52ef7c232829f6df5c86e07cc958a28ab5fe5b159f3b3a8884b0f61527214'', 1, ''MQTTProperties.h'')]),
  (''mqttproperty_5ftype_5fvariable_5fbyte_5finteger_599'', ''MQTTPROPERTY_TYPE_VARIABLE_BYTE_INTEGER'',
    [(''../_m_q_t_t_properties_8h.html#a942f52ef7c232829f6df5c86e07cc958a27bbcb5bc4f584f96612c0cec329c6a7'', 1, ''MQTTProperties.h'')]),
  (''mqttreasoncode_5fadministrative_5faction_600'', ''MQTTREASONCODE_ADMINISTRATIVE_ACTION'',
    [(''../_m_q_t_t_reason_codes_8h.html#aba6db0fccfa3f8972ea48117b8b2a279ae1e3b428072be26d2cbf6f88361f76cc'', 1, ''MQTTReasonCodes.h'')]),
  (''mqttreasoncode_5fbad_5fauthentication_5fmethod_601'', ''MQTTREASONCODE_BAD_AUTHENTICATION_METHOD'',
    [(''../_m_q_t_t_reason_codes_8h.html#aba6db0fccfa3f8972ea48117b8b2a279af62e569703d7a7f0acffaa59522b9dc3'', 1, ''MQTTReasonCodes.h'')]),
  (''mqttreasoncode_5fbad_5fuser_5fname_5for_5fpassword_602'', ''MQTTREASONCODE_BAD_USER_NAME_OR_PASSWORD'',
    [(''../_m_q_t_t_reason_codes_8h.html#aba6db0fccfa3f8972ea48117b8b2a279abfc617112d5856722108912c5c6633ff'', 1, ''MQTTReasonCodes.h'')]),
  (''mqttreasoncode_5fbanned_603'', ''MQTTREASONCODE_BANNED'',
    [(''../_m_q_t_t_reason_codes_8h.html#aba6db0fccfa3f8972ea48117b8b2a279ab4cf7578f0078293fa66a4cd5e5d4aa4'', 1, ''MQTTReasonCodes.h'')]),
  (''mqttreasoncode_5fclient_5fidentifier_5fnot_5fvalid_604'', ''MQTTREASONCODE_CLIENT_IDENTIFIER_NOT_VALID'',
    [(''../_m_q_t_t_reason_codes_8h.html#aba6db0fccfa3f8972ea48117b8b2a279ab58bb236e7dbd000a56c590c01bc73fd'', 1, ''MQTTReasonCodes.h'')]),
  (''mqttreasoncode_5fconnection_5frate_5fexceeded_605'', ''MQTTREASONCODE_CONNECTION_RATE_EXCEEDED'',
    [(''../_m_q_t_t_reason_codes_8h.html#aba6db0fccfa3f8972ea48117b8b2a279a879c56ed34fa2dd6492e7a34a9747bc1'', 1, ''MQTTReasonCodes.h'')]),
  (''mqttreasoncode_5fcontinue_5fauthentication_606'', ''MQTTREASONCODE_CONTINUE_AUTHENTICATION'',
    [(''../_m_q_t_t_reason_codes_8h.html#aba6db0fccfa3f8972ea48117b8b2a279a0c0726c0e87eaddd636708497c69d055'', 1, ''MQTTReasonCodes.h'')]),
  (''mqttreasoncode_5fdisconnect_5fwith_5fwill_5fmessage_607'', ''MQTTREASONCODE_DISCONNECT_WITH_WILL_MESSAGE'',
    [(''../_m_q_t_t_reason_codes_8h.html#aba6db0fccfa3f8972ea48117b8b2a279a55f533a6cc98417d08dac8cc69da0ed3'', 1, ''MQTTReasonCodes.h'')]),
  (''mqttreasoncode_5fgranted_5fqos_5f0_608'', ''MQTTREASONCODE_GRANTED_QOS_0'',
    [(''../_m_q_t_t_reason_codes_8h.html#aba6db0fccfa3f8972ea48117b8b2a279a3fd0d12c0e44b4df9f716aef89b61aff'', 1, ''MQTTReasonCodes.h'')]),
  (''mqttreasoncode_5fgranted_5fqos_5f1_609'', ''MQTTREASONCODE_GRANTED_QOS_1'',
    [(''../_m_q_t_t_reason_codes_8h.html#aba6db0fccfa3f8972ea48117b8b2a279a07578b30b2d72af2eeea6be268475876'', 1, ''MQTTReasonCodes.h'')]),
  (''mqttreasoncode_5fgranted_5fqos_5f2_610'', ''MQTTREASONCODE_GRANTED_QOS_2'',
    [(''../_m_q_t_t_reason_codes_8h.html#aba6db0fccfa3f8972ea48117b8b2a279a74ac34a39a849c9c369b18545a4b1f93'', 1, ''MQTTReasonCodes.h'')]),
  (''mqttreasoncode_5fimplementation_5fspecific_5ferror_611'', ''MQTTREASONCODE_IMPLEMENTATION_SPECIFIC_ERROR'',
    [(''../_m_q_t_t_reason_codes_8h.html#aba6db0fccfa3f8972ea48117b8b2a279a41629fa453cdf14ef6a5370a16d5a19c'', 1, ''MQTTReasonCodes.h'')]),
  (''mqttreasoncode_5fkeep_5falive_5ftimeout_612'', ''MQTTREASONCODE_KEEP_ALIVE_TIMEOUT'',
    [(''../_m_q_t_t_reason_codes_8h.html#aba6db0fccfa3f8972ea48117b8b2a279af21a6c320e34993d7aa169330ab23409'', 1, ''MQTTReasonCodes.h'')]),
  (''mqttreasoncode_5fmalformed_5fpacket_613'', ''MQTTREASONCODE_MALFORMED_PACKET'',
    [(''../_m_q_t_t_reason_codes_8h.html#aba6db0fccfa3f8972ea48117b8b2a279a2cbee3502c00d304bf1091195457fcf5'', 1, ''MQTTReasonCodes.h'')]),
  (''mqttreasoncode_5fmaximum_5fconnect_5ftime_614'', ''MQTTREASONCODE_MAXIMUM_CONNECT_TIME'',
    [(''../_m_q_t_t_reason_codes_8h.html#aba6db0fccfa3f8972ea48117b8b2a279a6f07c3b42690afc7b117321dc4e2657f'', 1, ''MQTTReasonCodes.h'')]),
  (''mqttreasoncode_5fmessage_5frate_5ftoo_5fhigh_615'', ''MQTTREASONCODE_MESSAGE_RATE_TOO_HIGH'',
    [(''../_m_q_t_t_reason_codes_8h.html#aba6db0fccfa3f8972ea48117b8b2a279af76d0e32fb44fa94e407b1af5dc7aa4e'', 1, ''MQTTReasonCodes.h'')]),
  (''mqttreasoncode_5fno_5fmatching_5fsubscribers_616'', ''MQTTREASONCODE_NO_MATCHING_SUBSCRIBERS'',
    [(''../_m_q_t_t_reason_codes_8h.html#aba6db0fccfa3f8972ea48117b8b2a279a1720d8b04af4c0d92e27b378d735e899'', 1, ''MQTTReasonCodes.h'')]),
  (''mqttreasoncode_5fno_5fsubscription_5ffound_617'', ''MQTTREASONCODE_NO_SUBSCRIPTION_FOUND'',
    [(''../_m_q_t_t_reason_codes_8h.html#aba6db0fccfa3f8972ea48117b8b2a279a55208c34a26f67e112d53c54be37acb9'', 1, ''MQTTReasonCodes.h'')]),
  (''mqttreasoncode_5fnormal_5fdisconnection_618'', ''MQTTREASONCODE_NORMAL_DISCONNECTION'',
    [(''../_m_q_t_t_reason_codes_8h.html#aba6db0fccfa3f8972ea48117b8b2a279a3590f41d984646bc58c82734c1516c92'', 1, ''MQTTReasonCodes.h'')]),
  (''mqttreasoncode_5fnot_5fauthorized_619'', ''MQTTREASONCODE_NOT_AUTHORIZED'',
    [(''../_m_q_t_t_reason_codes_8h.html#aba6db0fccfa3f8972ea48117b8b2a279a91a14fc763349cf4a7047d24f13d0803'', 1, ''MQTTReasonCodes.h'')]),
  (''mqttreasoncode_5fpacket_5fidentifier_5fin_5fuse_620'', ''MQTTREASONCODE_PACKET_IDENTIFIER_IN_USE'',
    [(''../_m_q_t_t_reason_codes_8h.html#aba6db0fccfa3f8972ea48117b8b2a279adaee01dbc97a0773b5032a29c797613a'', 1, ''MQTTReasonCodes.h'')]),
  (''mqttreasoncode_5fpacket_5fidentifier_5fnot_5ffound_621'', ''MQTTREASONCODE_PACKET_IDENTIFIER_NOT_FOUND'',
    [(''../_m_q_t_t_reason_codes_8h.html#aba6db0fccfa3f8972ea48117b8b2a279a4908a8293054f8ff8d6c47fe0cf31932'', 1, ''MQTTReasonCodes.h'')]),
  (''mqttreasoncode_5fpacket_5ftoo_5flarge_622'', ''MQTTREASONCODE_PACKET_TOO_LARGE'',
    [(''../_m_q_t_t_reason_codes_8h.html#aba6db0fccfa3f8972ea48117b8b2a279a11a587e15c468bf1c6ba9df7e8fd78aa'', 1, ''MQTTReasonCodes.h'')]),
  (''mqttreasoncode_5fpayload_5fformat_5finvalid_623'', ''MQTTREASONCODE_PAYLOAD_FORMAT_INVALID'',
    [(''../_m_q_t_t_reason_codes_8h.html#aba6db0fccfa3f8972ea48117b8b2a279a2d629400116e1723c5e2e597bbfe29ca'', 1, ''MQTTReasonCodes.h'')]),
  (''mqttreasoncode_5fprotocol_5ferror_624'', ''MQTTREASONCODE_PROTOCOL_ERROR'',
    [(''../_m_q_t_t_reason_codes_8h.html#aba6db0fccfa3f8972ea48117b8b2a279ae0dad403f352e31449764e2ac94c7756'', 1, ''MQTTReasonCodes.h'')]),
  (''mqttreasoncode_5fqos_5fnot_5fsupported_625'', ''MQTTREASONCODE_QOS_NOT_SUPPORTED'',
    [(''../_m_q_t_t_reason_codes_8h.html#aba6db0fccfa3f8972ea48117b8b2a279a83865a2440b512e5602152521e3810bb'', 1, ''MQTTReasonCodes.h'')]),
  (''mqttreasoncode_5fquota_5fexceeded_626'', ''MQTTREASONCODE_QUOTA_EXCEEDED'',
    [(''../_m_q_t_t_reason_codes_8h.html#aba6db0fccfa3f8972ea48117b8b2a279a954fcabf6e88925b2a57bcd84032d9f9'', 1, ''MQTTReasonCodes.h'')]),
  (''mqttreasoncode_5fre_5fauthenticate_627'', ''MQTTREASONCODE_RE_AUTHENTICATE'',
    [(''../_m_q_t_t_reason_codes_8h.html#aba6db0fccfa3f8972ea48117b8b2a279a6cc1b342856c1d96d54c368148b536f7'', 1, ''MQTTReasonCodes.h'')]),
  (''mqttreasoncode_5freceive_5fmaximum_5fexceeded_628'', ''MQTTREASONCODE_RECEIVE_MAXIMUM_EXCEEDED'',
    [(''../_m_q_t_t_reason_codes_8h.html#aba6db0fccfa3f8972ea48117b8b2a279a45afaacbefd2d816fddf9fe9804b61d1'', 1, ''MQTTReasonCodes.h'')]),
  (''mqttreasoncode_5fretain_5fnot_5fsupported_629'', ''MQTTREASONCODE_RETAIN_NOT_SUPPORTED'',
    [(''../_m_q_t_t_reason_codes_8h.html#aba6db0fccfa3f8972ea48117b8b2a279aa4378012148d98599398bc4a3480c38f'', 1, ''MQTTReasonCodes.h'')]),
  (''mqttreasoncode_5fserver_5fbusy_630'', ''MQTTREASONCODE_SERVER_BUSY'',
    [(''../_m_q_t_t_reason_codes_8h.html#aba6db0fccfa3f8972ea48117b8b2a279af507e75147b0b34f36955c9f62389a74'', 1, ''MQTTReasonCodes.h'')]),
  (''mqttreasoncode_5fserver_5fmoved_631'', ''MQTTREASONCODE_SERVER_MOVED'',
    [(''../_m_q_t_t_reason_codes_8h.html#aba6db0fccfa3f8972ea48117b8b2a279a783254c7acf8de52ee345bc176f9d6c0'', 1, ''MQTTReasonCodes.h'')]),
  (''mqttreasoncode_5fserver_5fshutting_5fdown_632'', ''MQTTREASONCODE_SERVER_SHUTTING_DOWN'',
    [(''../_m_q_t_t_reason_codes_8h.html#aba6db0fccfa3f8972ea48117b8b2a279a085e1572ffce61838807b7429b691113'', 1, ''MQTTReasonCodes.h'')]),
  (''mqttreasoncode_5fserver_5funavailable_633'', ''MQTTREASONCODE_SERVER_UNAVAILABLE'',
    [(''../_m_q_t_t_reason_codes_8h.html#aba6db0fccfa3f8972ea48117b8b2a279a0cfd4de78870b3fb0499b916d06d40bb'', 1, ''MQTTReasonCodes.h'')]),
  (''mqttreasoncode_5fsession_5ftaken_5fover_634'', ''MQTTREASONCODE_SESSION_TAKEN_OVER'',
    [(''../_m_q_t_t_reason_codes_8h.html#aba6db0fccfa3f8972ea48117b8b2a279ad15ffa6884f97976e237afafcbccea21'', 1, ''MQTTReasonCodes.h'')]),
  (''mqttreasoncode_5fshared_5fsubscriptions_5fnot_5fsupported_635'', ''MQTTREASONCODE_SHARED_SUBSCRIPTIONS_NOT_SUPPORTED'',
    [(''../_m_q_t_t_reason_codes_8h.html#aba6db0fccfa3f8972ea48117b8b2a279a1c694648e36a40162939a2785450b6bd'', 1, ''MQTTReasonCodes.h'')]),
  (''mqttreasoncode_5fsubscription_5fidentifiers_5fnot_5fsupported_636'', ''MQTTREASONCODE_SUBSCRIPTION_IDENTIFIERS_NOT_SUPPORTED'',
    [(''../_m_q_t_t_reason_codes_8h.html#aba6db0fccfa3f8972ea48117b8b2a279a7bcd0f9b21c398a217667aebb4107842'', 1, ''MQTTReasonCodes.h'')]),
  (''mqttreasoncode_5fsuccess_637'', ''MQTTREASONCODE_SUCCESS'',
    [(''../_m_q_t_t_reason_codes_8h.html#aba6db0fccfa3f8972ea48117b8b2a279a63b379af5fba8c0512b381a4dbe26969'', 1, ''MQTTReasonCodes.h'')]),
  (''mqttreasoncode_5ftopic_5falias_5finvalid_638'', ''MQTTREASONCODE_TOPIC_ALIAS_INVALID'',
    [(''../_m_q_t_t_reason_codes_8h.html#aba6db0fccfa3f8972ea48117b8b2a279a8e0fcdd051e154e319058600b58652ec'', 1, ''MQTTReasonCodes.h'')]),
  (''mqttreasoncode_5ftopic_5ffilter_5finvalid_639'', ''MQTTREASONCODE_TOPIC_FILTER_INVALID'',
    [(''../_m_q_t_t_reason_codes_8h.html#aba6db0fccfa3f8972ea48117b8b2a279a00319b171f469824dd6938cbd0212b5b'', 1, ''MQTTReasonCodes.h'')]),
  (''mqttreasoncode_5ftopic_5fname_5finvalid_640'', ''MQTTREASONCODE_TOPIC_NAME_INVALID'',
    [(''../_m_q_t_t_reason_codes_8h.html#aba6db0fccfa3f8972ea48117b8b2a279a6268968177868576f6b9239aa9afd8ac'', 1, ''MQTTReasonCodes.h'')]),
  (''mqttreasoncode_5funspecified_5ferror_641'', ''MQTTREASONCODE_UNSPECIFIED_ERROR'',
    [(''../_m_q_t_t_reason_codes_8h.html#aba6db0fccfa3f8972ea48117b8b2a279a1881ee597bfef9157f0034a1377328e3'', 1, ''MQTTReasonCodes.h'')]),
  (''mqttreasoncode_5funsupported_5fprotocol_5fversion_642'', ''MQTTREASONCODE_UNSUPPORTED_PROTOCOL_VERSION'',
    [(''../_m_q_t_t_reason_codes_8h.html#aba6db0fccfa3f8972ea48117b8b2a279a021ceca20e6d35279075a2b93ece973d'', 1, ''MQTTReasonCodes.h'')]),
  (''mqttreasoncode_5fuse_5fanother_5fserver_643'', ''MQTTREASONCODE_USE_ANOTHER_SERVER'',
    [(''../_m_q_t_t_reason_codes_8h.html#aba6db0fccfa3f8972ea48117b8b2a279aabaee4062c4e4941b9eed59f09e9440c'', 1, ''MQTTReasonCodes.h'')]),
  (''mqttreasoncode_5fwildcard_5fsubscriptions_5fnot_5fsupported_644'', ''MQTTREASONCODE_WILDCARD_SUBSCRIPTIONS_NOT_SUPPORTED'',
    [(''../_m_q_t_t_reason_codes_8h.html#aba6db0fccfa3f8972ea48117b8b2a279a81b5708f676f52594b680f085e444e1f'', 1, ''MQTTReasonCodes.h'')])]"

lemma async_enumvalues_0_wf: "index_wf CHR ''m'' 559 async_enumvalues_0"
  by (rule index_wf_check) (simp add: async_enumvalues_0_def index_eval del: One_nat_def)

lemma async_enumvalues_0_file: "index_file CHR ''m'' async_enumvalues_0"
  by (rule index_fileI [OF _ async_enumvalues_0_wf]) (simp add: async_enumvalues_0_def)

definition async_defines_0 :: "search_entry list" where
  "async_defines_0 = [
  (''mqtt_5fbad_5fsubscribe_645'', ''MQTT_BAD_SUBSCRIBE'',
    [(''../_m_q_t_t_async_8h.html#ade337b363b7f4bc7c1a7b2858e0380bd'', 1, ''MQTTAsync.h'')]),
  (''mqtt_5finvalid_5fproperty_5fid_646'', ''MQTT_INVALID_PROPERTY_ID'',
    [(''../_m_q_t_t_properties_8h.html#afc56d2e8937a0c8f180d68ad93945945'', 1, ''MQTTProperties.h'')]),
  (''mqtt_5fssl_5fversion_5fdefault_647'', ''MQTT_SSL_VERSION_DEFAULT'',
    [(''../_m_q_t_t_async_8h.html#a2549ea897af26c76198284731db9e721'', 1, ''MQTTAsync.h'')]),
  (''mqtt_5fssl_5fversion_5ftls_5f1_5f0_648'', ''MQTT_SSL_VERSION_TLS_1_0'',
    [(''../_m_q_t_t_async_8h.html#a7e5da3d6f0d2b53409bbfcf6e56f3d2d'', 1, ''MQTTAsync.h'')]),
  (''mqtt_5fssl_5fversion_5ftls_5f1_5f1_649'', ''MQTT_SSL_VERSION_TLS_1_1'',
    [(''../_m_q_t_t_async_8h.html#abdff87efa3f2ee473a1591e10638b537'', 1, ''MQTTAsync.h'')]),
  (''mqtt_5fssl_5fversion_5ftls_5f1_5f2_650'', ''MQTT_SSL_VERSION_TLS_1_2'',
    [(''../_m_q_t_t_async_8h.html#a3a94dbdeafbb73c73a068e7c2085fbab'', 1, ''MQTTAsync.h'')]),
  (''mqttasync_5f0_5flen_5fwill_5ftopic_651'', ''MQTTASYNC_0_LEN_WILL_TOPIC'',
    [(''../_m_q_t_t_async_8h.html#a47b3aed75983f48a503e1cad6c862004'', 1, ''MQTTAsync.h'')]),
  (''mqttasync_5fbad_5fmqtt_5foption_652'', ''MQTTASYNC_BAD_MQTT_OPTION'',
    [(''../_m_q_t_t_async_8h.html#af6f97562573876867ba77460a51ca1d1'', 1, ''MQTTAsync.h'')]),
  (''mqttasync_5fbad_5fprotocol_653'', ''MQTTASYNC_BAD_PROTOCOL'',
    [(''../_m_q_t_t_async_8h.html#a785250cd4a1938ffeeff67b3538abfba'', 1, ''MQTTAsync.h'')]),
  (''mqttasync_5fbad_5fqos_654'', ''MQTTASYNC_BAD_QOS'',
    [(''../_m_q_t_t_async_8h.html#a64d111778ce4e0d3a62808f6db11f224'', 1, ''MQTTAsync.h'')]),
  (''mqttasync_5fbad_5fstructure_655'', ''MQTTASYNC_BAD_STRUCTURE'',
    [(''../_m_q_t_t_async_8h.html#a241fc8db46dca132d591bc2be92247ba'', 1, ''MQTTAsync.h'')]),
  (''mqttasync_5fbad_5futf8_5fstring_656'', ''MQTTASYNC_BAD_UTF8_STRING'',
    [(''../_m_q_t_t_async_8h.html#a80cbe091930c11b67ca719b3e385aa26'', 1, ''MQTTAsync.h'')]),
  (''mqttasync_5fcalloptions_5finitializer_657'', ''MQTTAsync_callOptions_initializer'',
    [(''../_m_q_t_t_async_8h.html#a570185766fc8a9da410a6f84915b6df5'', 1, ''MQTTAsync.h'')]),
  (''mqttasync_5fcommand_5fignored_658'', ''MQTTASYNC_COMMAND_IGNORED'',
    [(''../_m_q_t_t_async_8h.html#a8278cf4b50dd818c31fa12e45f074b5c'', 1, ''MQTTAsync.h'')]),
  (''mqttasync_5fconnectdata_5finitializer_659'', ''MQTTAsync_connectData_initializer'',
    [(''../_m_q_t_t_async_8h.html#a2e415e68016ae56f6bbbbdc9840a9c6e'', 1, ''MQTTAsync.h'')]),
  (''mqttasync_5fconnectoptions_5finitializer_660'', ''MQTTAsync_connectOptions_initializer'',
    [(''../_m_q_t_t_async_8h.html#ae18b51f22784a43803eb809d6a0c2492'', 1, ''MQTTAsync.h'')]),
  (''mqttasync_5fconnectoptions_5finitializer5_661'', ''MQTTAsync_connectOptions_initializer5'',
    [(''../_m_q_t_t_async_8h.html#abd403ce21f7aa0348ae1d3eefd031a5d'', 1, ''MQTTAsync.h'')]),
  (''mqttasync_5fconnectoptions_5finitializer5_5fws_662'', ''MQTTAsync_connectOptions_initializer5_ws'',
    [(''../_m_q_t_t_async_8h.html#a513bfbec7b7d39c827240db75aa4044b'', 1, ''MQTTAsync.h'')]),
  (''mqttasync_5fconnectoptions_5finitializer_5fws_663'', ''MQTTAsync_connectOptions_initializer_ws'',
    [(''../_m_q_t_t_async_8h.html#a080951d916d7a58c4ceff8c6bacfe313'', 1, ''MQTTAsync.h'')]),
  (''mqttasync_5fcreateoptions_5finitializer_664'', ''MQTTAsync_createOptions_initializer'',
    [(''../_m_q_t_t_async_8h.html#a5fedeafef4753f09b1bcb92773564786'', 1, ''MQTTAsync.h'')]),
  (''mqttasync_5fcreateoptions_5finitializer5_665'', ''MQTTAsync_createOptions_initializer5'',
    [(''../_m_q_t_t_async_8h.html#a0008776a46e7268ccbef4774ce3d4579'', 1, ''MQTTAsync.h'')]),
  (''mqttasync_5fdisconnected_666'', ''MQTTASYNC_DISCONNECTED'',
    [(''../_m_q_t_t_async_8h.html#a66c0f30b329bc770145c2f04b3929df6'', 1, ''MQTTAsync.h'')]),
  (''mqttasync_5fdisconnectoptions_5finitializer_667'', ''MQTTAsync_disconnectOptions_initializer'',
    [(''../_m_q_t_t_async_8h.html#a2fd5d6df31928ae468f3f2e522b9c707'', 1, ''MQTTAsync.h'')]),
  (''mqttasync_5fdisconnectoptions_5finitializer5_668'', ''MQTTAsync_disconnectOptions_initializer5'',
    [(''../_m_q_t_t_async_8h.html#aaa278001953dc129003eff83c8e7b3db'', 1, ''MQTTAsync.h'')]),
  (''mqttasync_5ffailure_669'', ''MQTTASYNC_FAILURE'',
    [(''../_m_q_t_t_async_8h.html#a7c8230fef85fc04b8a1035501f3be406'', 1, ''MQTTAsync.h'')]),
  (''mqttasync_5ffailuredata5_5finitializer_670'', ''MQTTAsync_failureData5_initializer'',
    [(''../_m_q_t_t_async_8h.html#a53ce2002ae2c2579575bb41c48c51c29'', 1, ''MQTTAsync.h'')]),
  (''mqttasync_5finit_5foptions_5finitializer_671'', ''MQTTAsync_init_options_initializer'',
    [(''../_m_q_t_t_async_8h.html#a866e023f70141969d48597930c0ee313'', 1, ''MQTTAsync.h'')]),
  (''mqttasync_5fmax_5fbuffered_672'', ''MQTTASYNC_MAX_BUFFERED'',
    [(''../_m_q_t_t_async_8h.html#a2efee8e190e2c3690c680bde060f78ab'', 1, ''MQTTAsync.h'')]),
  (''mqttasync_5fmax_5fbuffered_5fmessages_673'', ''MQTTASYNC_MAX_BUFFERED_MESSAGES'',
    [(''../_m_q_t_t_async_8h.html#a4e338072cfd5291b579e4f0c99a6e773'', 1, ''MQTTAsync.h'')]),
  (''mqttasync_5fmax_5fmessages_5finflight_674'', ''MQTTASYNC_MAX_MESSAGES_INFLIGHT'',
    [(''../_m_q_t_t_async_8h.html#ad577286d43c72fbc49818aac42f4e24a'', 1, ''MQTTAsync.h'')]),
  (''mqttasync_5fmessage_5finitializer_675'', ''MQTTAsync_message_initializer'',
    [(''../_m_q_t_t_async_8h.html#a6a85061dadab532f28e96e5ab3c600e9'', 1, ''MQTTAsync.h'')]),
  (''mqttasync_5fno_5fmore_5fmsgids_676'', ''MQTTASYNC_NO_MORE_MSGIDS'',
    [(''../_m_q_t_t_async_8h.html#ab0f54d0bae2c74849022a8009e5d6ff7'', 1, ''MQTTAsync.h'')]),
  (''mqttasync_5fnull_5fparameter_677'', ''MQTTASYNC_NULL_PARAMETER'',
    [(''../_m_q_t_t_async_8h.html#ab88e1ebcee991099a72429e52a8253fd'', 1, ''MQTTAsync.h'')]),
  (''mqttasync_5foperation_5fincomplete_678'', ''MQTTASYNC_OPERATION_INCOMPLETE'',
    [(''../_m_q_t_t_async_8h.html#aee1b79d0632bec0fe49eb7ea1abd3b2e'', 1, ''MQTTAsync.h'')]),
  (''mqttasync_5fpersistence_5ferror_679'', ''MQTTASYNC_PERSISTENCE_ERROR'',
    [(''../_m_q_t_t_async_8h.html#a4edf1249c75abd4975fec8ddeae2cdc9'', 1, ''MQTTAsync.h'')]),
  (''mqttasync_5fresponseoptions_5finitializer_680'', ''MQTTAsync_responseOptions_initializer'',
    [(''../_m_q_t_t_async_8h.html#a3f8b408243b5c2369bc9758f2edf0878'', 1, ''MQTTAsync.h'')]),
  (''mqttasync_5fssl_5fnot_5fsupported_681'', ''MQTTASYNC_SSL_NOT_SUPPORTED'',
    [(''../_m_q_t_t_async_8h.html#a6992c00553db1608aef9e162c161d73c'', 1, ''MQTTAsync.h'')]),
  (''mqttasync_5fssloptions_5finitializer_682'', ''MQTTAsync_SSLOptions_initializer'',
    [(''../_m_q_t_t_async_8h.html#aac935e2e9d770a53ee8189f128530511'', 1, ''MQTTAsync.h'')]),
  (''mqttasync_5fsuccess_683'', ''MQTTASYNC_SUCCESS'',
    [(''../_m_q_t_t_async_8h.html#afe0cffcce8efe25186f79c51ac44e16f'', 1, ''MQTTAsync.h'')]),
  (''mqttasync_5fsuccessdata5_5finitializer_684'', ''MQTTAsync_successData5_initializer'',
    [(''../_m_q_t_t_async_8h.html#a6182ec90ec4a134465f627b324ac5a41'', 1, ''MQTTAsync.h'')]),
  (''mqttasync_5ftopicname_5ftruncated_685'', ''MQTTASYNC_TOPICNAME_TRUNCATED'',
    [(''../_m_q_t_t_async_8h.html#a77a7106d97ff60be3fe70f90b1867800'', 1, ''MQTTAsync.h'')]),
  (''mqttasync_5ftrue_686'', ''MQTTASYNC_TRUE'',
    [(''../_m_q_t_t_async_8h.html#a61e6ee632e63312d382e2fcbe427f01a'', 1, ''MQTTAsync.h'')]),
  (''mqttasync_5fwilloptions_5finitializer_687'', ''MQTTAsync_willOptions_initializer'',
    [(''../_m_q_t_t_async_8h.html#a6c45768e1b28844f2ac0f6ac68709730'', 1, ''MQTTAsync.h'')]),
  (''mqttasync_5fwrong_5fmqtt_5fversion_688'', ''MQTTASYNC_WRONG_MQTT_VERSION'',
    [(''../_m_q_t_t_async_8h.html#af5df806e9767e1e3182fe089a8ee551b'', 1, ''MQTTAsync.h'')]),
  (''mqttclient_5fpersistence_5fdefault_689'', ''MQTTCLIENT_PERSISTENCE_DEFAULT'',
    [(''../_m_q_t_t_client_persistence_8h.html#aaa948291718a9c06369b854b0f64bc32'', 1, ''MQTTClientPersistence.h'')]),
  (''mqttclient_5fpersistence_5ferror_690'', ''MQTTCLIENT_PERSISTENCE_ERROR'',
    [(''../_m_q_t_t_client_persistence_8h.html#ab716e21e53c84a5ad62aa962a2a8f7db'', 1, ''MQTTClientPersistence.h'')]),
  (''mqttclient_5fpersistence_5fnone_691'', ''MQTTCLIENT_PERSISTENCE_NONE'',
    [(''../_m_q_t_t_client_persistence_8h.html#ae01e089313a65ac4661ed216b6ac00fa'', 1, ''MQTTClientPersistence.h'')]),
  (''mqttclient_5fpersistence_5fuser_692'', ''MQTTCLIENT_PERSISTENCE_USER'',
    [(''../_m_q_t_t_client_persistence_8h.html#a5dc68b8616e4041e037bad94ce07681b'', 1, ''MQTTClientPersistence.h'')]),
  (''mqttproperties_5finitializer_693'', ''MQTTProperties_initializer'',
    [(''../_m_q_t_t_properties_8h.html#a5a80e158486a414ccdfcdd7f75f23988'', 1, ''MQTTProperties.h'')]),
  (''mqttsubscribe_5foptions_5finitializer_694'', ''MQTTSubscribe_options_initializer'',
    [(''../_m_q_t_t_subscribe_opts_8h.html#aec3b45fd0367106eea344396f87cfda7'', 1, ''MQTTSubscribeOpts.h'')]),
  (''mqttversion_5f3_5f1_695'', ''MQTTVERSION_3_1'',
    [(''../_m_q_t_t_async_8h.html#a4603b988e76872e1f23f135d225ce2fb'', 1, ''MQTTAsync.h'')]),
  (''mqttversion_5f3_5f1_5f1_696'', ''MQTTVERSION_3_1_1'',
    [(''../_m_q_t_t_async_8h.html#ac79cc6fdeaa9e3f4ee12c3418898b1ef'', 1, ''MQTTAsync.h'')]),
  (''mqttversion_5f5_697'', ''MQTTVERSION_5'',
    [(''../_m_q_t_t_async_8h.html#af8b176fa4d5b89789767ce972338e1e3'', 1, ''MQTTAsync.h'')]),
  (''mqttversion_5fdefault_698'', ''MQTTVERSION_DEFAULT'',
    [(''../_m_q_t_t_async_8h.html#a75b80b01f98d5a1ffa2a4d42995a8397'', 1, ''MQTTAsync.h'')])]"

lemma async_defines_0_wf: "index_wf CHR ''m'' 645 async_defines_0"
  by (rule index_wf_check) (simp add: async_defines_0_def index_eval del: One_nat_def)

lemma async_defines_0_file: "index_file CHR ''m'' async_defines_0"
  by (rule index_fileI [OF _ async_defines_0_wf]) (simp add: async_defines_0_def)

definition async_pages_0 :: "search_entry list" where
  "async_pages_0 = [
  (''asynchronous_20mqtt_20client_20library_20for_20c_20_28mqttasync_29_699'', ''Asynchronous MQTT client library for C (MQTTAsync)'',
    [(''../index.html'', 1, '''')]),
  (''automatic_20reconnect_700'', ''Automatic Reconnect'',
    [(''../auto_reconnect.html'', 1, '''')])]"

lemma async_pages_0_wf: "index_wf CHR ''a'' 699 async_pages_0"
  by (rule index_wf_check) (simp add: async_pages_0_def index_eval del: One_nat_def)

lemma async_pages_0_file: "index_file CHR ''a'' async_pages_0"
  by (rule index_fileI [OF _ async_pages_0_wf]) (simp add: async_pages_0_def)

definition async_pages_1 :: "search_entry list" where
  "async_pages_1 = [
  (''callbacks_701'', ''Callbacks'',
    [(''../callbacks.html'', 1, '''')])]"

lemma async_pages_1_wf: "index_wf CHR ''c'' 701 async_pages_1"
  by (rule index_wf_check) (simp add: async_pages_1_def index_eval del: One_nat_def)

lemma async_pages_1_file: "index_file CHR ''c'' async_pages_1"
  by (rule index_fileI [OF _ async_pages_1_wf]) (simp add: async_pages_1_def)

definition async_pages_2 :: "search_entry list" where
  "async_pages_2 = [
  (''publication_20example_702'', ''Publication example'',
    [(''../publish.html'', 1, '''')]),
  (''publish_20while_20disconnected_703'', ''Publish While Disconnected'',
    [(''../offline_publish.html'', 1, '''')])]"

lemma async_pages_2_wf: "index_wf CHR ''p'' 702 async_pages_2"
  by (rule index_wf_check) (simp add: async_pages_2_def index_eval del: One_nat_def)

lemma async_pages_2_file: "index_file CHR ''p'' async_pages_2"
  by (rule index_fileI [OF _ async_pages_2_wf]) (simp add: async_pages_2_def)

definition async_pages_3 :: "search_entry list" where
  "async_pages_3 = [
  (''quality_20of_20service_704'', ''Quality of service'',
    [(''../qos.html'', 1, '''')])]"

lemma async_pages_3_wf: "index_wf CHR ''q'' 704 async_pages_3"
  by (rule index_wf_check) (simp add: async_pages_3_def index_eval del: One_nat_def)

lemma async_pages_3_file: "index_file CHR ''q'' async_pages_3"
  by (rule index_fileI [OF _ async_pages_3_wf]) (simp add: async_pages_3_def)

definition async_pages_4 :: "search_entry list" where
  "async_pages_4 = [
  (''subscription_20example_705'', ''Subscription example'',
    [(''../subscribe.html'', 1, '''')]),
  (''subscription_20wildcards_706'', ''Subscription wildcards'',
    [(''../wildcard.html'', 1, '''')])]"

lemma async_pages_4_wf: "index_wf CHR ''s'' 705 async_pages_4"
  by (rule index_wf_check) (simp add: async_pages_4_def index_eval del: One_nat_def)

lemma async_pages_4_file: "index_file CHR ''s'' async_pages_4"
  by (rule index_fileI [OF _ async_pages_4_wf]) (simp add: async_pages_4_def)

definition async_pages_5 :: "search_entry list" where
  "async_pages_5 = [
  (''threading_707'', ''Threading'',
    [(''../async.html'', 1, '''')]),
  (''tracing_708'', ''Tracing'',
    [(''../tracing.html'', 1, '''')])]"

lemma async_pages_5_wf: "index_wf CHR ''t'' 707 async_pages_5"
  by (rule index_wf_check) (simp add: async_pages_5_def index_eval del: One_nat_def)

lemma async_pages_5_file: "index_file CHR ''t'' async_pages_5"
  by (rule index_fileI [OF _ async_pages_5_wf]) (simp add: async_pages_5_def)

end
