(* ===== verification/SearchIndexes.thy ===== *)
theory SearchIndexes
  imports SearchTables SearchMatch IndexAsyncAll IndexAsyncKinds
begin

text \<open>
  The index files of a reference taken together, and the contract between them and the tables the
  search panel reads: the file a panel asks for exists and lists exactly names with that first letter.
  The contract is a locale; the reference of the asynchronous client satisfies it.
\<close>

section \<open>The contract\<close>

text \<open>Name of the index file of section prefix \<open>nm\<close> for the \<open>i\<close>-th letter.\<close>

definition index_name :: "string \<Rightarrow> nat \<Rightarrow> string" where
  "index_name nm i = nm @ ''_'' @ to_hex i"

definition section_matches :: "search_tables \<Rightarrow> (string \<times> search_entry list) list \<Rightarrow> nat \<times> string \<Rightarrow> bool" where
  "section_matches tab files kcs =
     (case map_of (indexSectionNames tab) (fst kcs) of
        None \<Rightarrow> False
      | Some nm \<Rightarrow>
          distinct (snd kcs) \<and> CHR '' '' \<notin> set (snd kcs) \<and>
          list_all (\<lambda>(i, c). case map_of files (index_name nm i) of None \<Rightarrow> False | Some es \<Rightarrow> index_file c es)
            (enumerate 0 (snd kcs)))"

definition tables_match :: "search_tables \<Rightarrow> (string \<times> search_entry list) list \<Rightarrow> bool" where
  "tables_match tab files \<longleftrightarrow>
     list_all (section_matches tab files) (indexSectionsWithContent tab) \<and>
     list_all (\<lambda>f. CHR ''?'' \<notin> set f) (map fst files) \<and>
     length files = sum_list (map (length \<circ> snd) (indexSectionsWithContent tab))"

locale search_index =
  fixes tab :: search_tables and files :: "(string \<times> search_entry list) list"
  assumes match: "tables_match tab files"
begin

lemma section_name:
  assumes "map_of (indexSectionsWithContent tab) k = Some cs"
  obtains nm where "map_of (indexSectionNames tab) k = Some nm"
    "distinct cs" "CHR '' '' \<notin> set cs"
    "\<And>i. i < length cs \<Longrightarrow> \<exists>es. map_of files (index_name nm i) = Some es \<and> index_file (cs ! i) es"
proof -
  have m: "section_matches tab files (k, cs)"
    using match map_of_SomeD [OF assms] by (auto simp: tables_match_def list_all_iff)
  then obtain nm where nm: "map_of (indexSectionNames tab) k = Some nm" "distinct cs" "CHR '' '' \<notin> set cs"
    and all: "list_all (\<lambda>(i, c). case map_of files (index_name nm i) of None \<Rightarrow> False | Some es \<Rightarrow> index_file c es) (enumerate 0 cs)"
    by (auto simp: section_matches_def split: option.splits)
  have "\<exists>es. map_of files (index_name nm i) = Some es \<and> index_file (cs ! i) es" if "i < length cs" for i
  proof -
    have "(i, cs ! i) \<in> set (enumerate 0 cs)" using that by (auto simp: in_set_enumerate_eq)
    with all show ?thesis by (auto simp: list_all_iff split: option.splits)
  qed
  with nm that show thesis by blast
qed

lemma no_question: "map_of files f = Some es \<Longrightarrow> CHR ''?'' \<notin> set f"
  using match by (auto simp: tables_match_def list_all_iff dest!: map_of_SomeD)

end

text \<open>The file numbers the enumeration of the letters produces.\<close>

lemma to_hex_table:
  "to_hex (0) = ''0''"
  "to_hex (Suc 0) = ''1''"
  "to_hex (Suc (Suc 0)) = ''2''"
  "to_hex (Suc (Suc (Suc 0))) = ''3''"
  "to_hex (Suc (Suc (Suc (Suc 0)))) = ''4''"
  "to_hex (Suc (Suc (Suc (Suc (Suc 0))))) = ''5''"
  "to_hex (Suc (Suc (Suc (Suc (Suc (Suc 0)))))) = ''6''"
  "to_hex (Suc (Suc (Suc (Suc (Suc (Suc (Suc 0))))))) = ''7''"
  "to_hex (Suc (Suc (Suc (Suc (Suc (Suc (Suc (Suc 0)))))))) = ''8''"
  "to_hex (Suc (Suc (Suc (Suc (Suc (Suc (Suc (Suc (Suc 0))))))))) = ''9''"
  "to_hex (Suc (Suc (Suc (Suc (Suc (Suc (Suc (Suc (Suc (Suc 0)))))))))) = ''a''"
  "to_hex (Suc (Suc (Suc (Suc (Suc (Suc (Suc (Suc (Suc (Suc (Suc 0))))))))))) = ''b''"
  "to_hex (Suc (Suc (Suc (Suc (Suc (Suc (Suc (Suc (Suc (Suc (Suc (Suc 0)))))))))))) = ''c''"
  "to_hex (Suc (Suc (Suc (Suc (Suc (Suc (Suc (Suc (Suc (Suc (Suc (Suc (Suc 0))))))))))))) = ''d''"
  "to_hex (Suc (Suc (Suc (Suc (Suc (Suc (Suc (Suc (Suc (Suc (Suc (Suc (Suc (Suc 0)))))))))))))) = ''e''"
  "to_hex (Suc (Suc (Suc (Suc (Suc (Suc (Suc (Suc (Suc (Suc (Suc (Suc (Suc (Suc (Suc 0))))))))))))))) = ''f''"
  "to_hex (Suc (Suc (Suc (Suc (Suc (Suc (Suc (Suc (Suc (Suc (Suc (Suc (Suc (Suc (Suc (Suc 0)))))))))))))))) = ''10''"
  "to_hex (Suc (Suc (Suc (Suc (Suc (Suc (Suc (Suc (Suc (Suc (Suc (Suc (Suc (Suc (Suc (Suc (Suc 0))))))))))))))))) = ''11''"
  "to_hex (Suc (Suc (Suc (Suc (Suc (Suc (Suc (Suc (Suc (Suc (Suc (Suc (Suc (Suc (Suc (Suc (Suc (Suc 0)))))))))))))))))) = ''12''"
  "to_hex (Suc (Suc (Suc (Suc (Suc (Suc (Suc (Suc (Suc (Suc (Suc (Suc (Suc (Suc (Suc (Suc (Suc (Suc (Suc 0))))))))))))))))))) = ''13''"
  "to_hex (Suc (Suc (Suc (Suc (Suc (Suc (Suc (Suc (Suc (Suc (Suc (Suc (Suc (Suc (Suc (Suc (Suc (Suc (Suc (Suc 0)))))))))))))))))))) = ''14''"
  "to_hex (Suc (Suc (Suc (Suc (Suc (Suc (Suc (Suc (Suc (Suc (Suc (Suc (Suc (Suc (Suc (Suc (Suc (Suc (Suc (Suc (Suc 0))))))))))))))))))))) = ''15''"
  "to_hex (Suc (Suc (Suc (Suc (Suc (Suc (Suc (Suc (Suc (Suc (Suc (Suc (Suc (Suc (Suc (Suc (Suc (Suc (Suc (Suc (Suc (Suc 0)))))))))))))))))))))) = ''16''"
  by code_simp+

section \<open>The reference of the asynchronous client\<close>

definition async_files :: "(string \<times> search_entry list) list" where
  "async_files =
    [(''all_0'', async_all_0),
     (''all_1'', async_all_1),
     (''all_2'', async_all_2),
     (''all_3'', async_all_3),
     (''all_4'', async_all_4),
     (''all_5'', async_all_5),
     (''all_6'', async_all_6),
     (''all_7'', async_all_7),
     (''all_8'', async_all_8),
     (''all_9'', async_all_9),
     (''all_a'', async_all_a),
     (''all_b'', async_all_b),
     (''all_c'', async_all_c),
     (''all_d'', async_all_d),
     (''all_e'', async_all_e),
     (''all_f'', async_all_f),
     (''all_10'', async_all_10),
     (''all_11'', async_all_11),
     (''all_12'', async_all_12),
     (''all_13'', async_all_13),
     (''classes_0'', async_classes_0),
     (''files_0'', async_files_0),
     (''functions_0'', async_functions_0),
     (''variables_0'', async_variables_0),
     (''variables_1'', async_variables_1),
     (''variables_2'', async_variables_2),
     (''variables_3'', async_variables_3),
     (''variables_4'', async_variables_4),
     (''variables_5'', async_variables_5),
     (''variables_6'', async_variables_6),
     (''variables_7'', async_variables_7),
     (''variables_8'', async_variables_8),
     (''variables_9'', async_variables_9),
     (''variables_a'', async_variables_a),
     (''variables_b'', async_variables_b),
     (''variables_c'', async_variables_c),
     (''variables_d'', async_variables_d),
     (''variables_e'', async_variables_e),
     (''variables_f'', async_variables_f),
     (''variables_10'', async_variables_10),
     (''variables_11'', async_variables_11),
     (''variables_12'', async_variables_12),
     (''variables_13'', async_variables_13),
     (''typedefs_0'', async_typedefs_0),
     (''typedefs_1'', async_typedefs_1),
     (''enums_0'', async_enums_0),
     (''enumvalues_0'', async_enumvalues_0),
     (''defines_0'', async_defines_0),
     (''pages_0'', async_pages_0),
     (''pages_1'', async_pages_1),
     (''pages_2'', async_pages_2),
     (''pages_3'', async_pages_3),
     (''pages_4'', async_pages_4),
     (''pages_5'', async_pages_5)]"

lemmas async_file_facts =
  async_all_0_file
  async_all_1_file
  async_all_2_file
  async_all_3_file
  async_all_4_file
  async_all_5_file
  async_all_6_file
  async_all_7_file
  async_all_8_file
  async_all_9_file
  async_all_a_file
  async_all_b_file
  async_all_c_file
  async_all_d_file
  async_all_e_file
  async_all_f_file
  async_all_10_file
  async_all_11_file
  async_all_12_file
  async_all_13_file
  async_classes_0_file
  async_files_0_file
  async_functions_0_file
  async_variables_0_file
  async_variables_1_file
  async_variables_2_file
  async_variables_3_file
  async_variables_4_file
  async_variables_5_file
  async_variables_6_file
  async_variables_7_file
  async_variables_8_file
  async_variables_9_file
  async_variables_a_file
  async_variables_b_file
  async_variables_c_file
  async_variables_d_file
  async_variables_e_file
  async_variables_f_file
  async_variables_10_file
  async_variables_11_file
  async_variables_12_file
  async_variables_13_file
  async_typedefs_0_file
  async_typedefs_1_file
  async_enums_0_file
  async_enumvalues_0_file
  async_defines_0_file
  async_pages_0_file
  async_pages_1_file
  async_pages_2_file
  async_pages_3_file
  async_pages_4_file
  async_pages_5_file

lemma async_match: "tables_match async_tables async_files"
proof -
  have "list_all (section_matches async_tables async_files) async_contents"
    unfolding async_contents_def list.pred_inject
    by (intro conjI TrueI)
       (simp_all add: section_matches_def async_tables_def async_names_def async_files_def index_name_def
         to_hex_table async_file_facts)
  moreover have "length async_files = sum_list (map (length \<circ> snd) async_contents)"
    by (simp add: async_files_def async_contents_def)
  moreover have "list_all (\<lambda>f. CHR ''?'' \<notin> set f) (map fst async_files)"
    by (simp add: async_files_def)
  ultimately show ?thesis by (simp add: tables_match_def async_tables_def)
qed

interpretation async: search_index async_tables async_files
  by (unfold_locales) (rule async_match)

text \<open>
  The tables of the panel and the index files agree: for each section and each of its letters
  there is a file, its entries are well-formed, start with that letter and are numbered, no letter is
  listed twice, and there are no other files.
\<close>

theorem async_tables_match: "tables_match async_tables async_files"
  by (rule async_match)

end
