(* ===== verification/IndexClientKinds.thy ===== *)
theory IndexClientKinds
  imports SearchId
begin

text \<open>
  The index files of the reference of the synchronous client library by kind of name
  (\<^verbatim>\<open>docs/MQTTClient/html/search\<close>), each with the check that it is well-formed.
\<close>

definition client_classes_0 :: "search_entry list" where
  "client_classes_0 = [
  (''mqttclient_5fconnectoptions_306'', ''MQTTClient_connectOptions'',
    [(''../struct_m_q_t_t_client__connect_options.html'', 1, '''')]),
  (''mqttclient_5fcreateoptions_307'', ''MQTTClient_createOptions'',
    [(''../struct_m_q_t_t_client__create_options.html'', 1, '''')]),
  (''mqttclient_5finit_5foptions_308'', ''MQTTClient_init_options'',
    [(''../struct_m_q_t_t_client__init__options.html'', 1, '''')]),
  (''mqttclient_5fmessage_309'', ''MQTTClient_message'',
    [(''../struct_m_q_t_t_client__message.html'', 1, '''')]),
  (''mqttclient_5fnamevalue_310'', ''MQTTClient_nameValue'',
    [(''../struct_m_q_t_t_client__name_value.html'', 1, '''')]),
  (''mqttclient_5fpersistence_311'', ''MQTTClient_persistence'',
    [(''../struct_m_q_t_t_client__persistence.html'', 1, '''')]),
  (''mqttclient_5fssloptions_312'', ''MQTTClient_SSLOptions'',
    [(''../struct_m_q_t_t_client___s_s_l_options.html'', 1, '''')]),
  (''mqttclient_5fwilloptions_313'', ''MQTTClient_willOptions'',
    [(''../struct_m_q_t_t_client__will_options.html'', 1, '''')]),
  (''mqttlenstring_314'', ''MQTTLenString'',
    [(''../struct_m_q_t_t_len_string.html'', 1, '''')]),
  (''mqttproperties_315'', ''MQTTProperties'',
    [(''../struct_m_q_t_t_properties.html'', 1, '''')]),
  (''mqttproperty_316'', ''MQTTProperty'',
    [(''../struct_m_q_t_t_property.html'', 1, '''')]),
  (''mqttresponse_317'', ''MQTTResponse'',
    [(''../struct_m_q_t_t_response.html'', 1, '''')]),
  (''mqttsubscribe_5foptions_318'', ''MQTTSubscribe_options'',
    [(''../struct_m_q_t_t_subscribe__options.html'', 1, '''')])]"

lemma client_classes_0_wf: "index_wf CHR ''m'' 306 client_classes_0"
  by (rule index_wf_check) (simp add: client_classes_0_def index_eval del: One_nat_def)

lemma client_classes_0_file: "index_file CHR ''m'' client_classes_0"
  by (rule index_fileI [OF _ client_classes_0_wf]) (simp add: client_classes_0_def)

definition client_files_0 :: "search_entry list" where
  "client_files_0 = [
  (''mqttclient_2eh_319'', ''MQTTClient.h'',
    [(''../_m_q_t_t_client_8h.html'', 1, '''')]),
  (''mqttclientpersistence_2eh_320'', ''MQTTClientPersistence.h'',
    [(''../_m_q_t_t_client_persistence_8h.html'', 1, '''')]),
  (''mqttproperties_2eh_321'', ''MQTTProperties.h'',
    [(''../_m_q_t_t_properties_8h.html'', 1, '''')]),
  (''mqttreasoncodes_2eh_322'', ''MQTTReasonCodes.h'',
    [(''../_m_q_t_t_reason_codes_8h.html'', 1, '''')]),
  (''mqttsubscribeopts_2eh_323'', ''MQTTSubscribeOpts.h'',
    [(''../_m_q_t_t_subscribe_opts_8h.html'', 1, '''')])]"

lemma client_files_0_wf: "index_wf CHR ''m'' 319 client_files_0"
  by (rule index_wf_check) (simp add: client_files_0_def index_eval del: One_nat_def)

lemma client_files_0_file: "index_file CHR ''m'' client_files_0"
  by (rule index_fileI [OF _ client_files_0_wf]) (simp add: client_files_0_def)

definition client_functions_0 :: "search_entry list" where
  "client_functions_0 = [
  (''mqttclient_5fconnect_324'', ''MQTTClient_connect'',
    [(''../_m_q_t_t_client_8h.html#aaa8ae61cd65c9dc0846df10122d7bd4e'', 1, ''MQTTClient.h'')]),
  (''mqttclient_5fconnect5_325'', ''MQTTClient_connect5'',
    [(''../_m_q_t_t_client_8h.html#aa777f80cb3eec5610f976aff30b8c0d6'', 1, ''MQTTClient.h'')]),
  (''mqttclient_5fcreate_326'', ''MQTTClient_create'',
    [(''../_m_q_t_t_client_8h.html#a9a0518d9ca924d12c1329dbe3de5f2b6'', 1, ''MQTTClient.h'')]),
  (''mqttclient_5fcreatewithoptions_327'', ''MQTTClient_createWithOptions'',
    [(''../_m_q_t_t_client_8h.html#ade24f717a9b39d38b081e1d5e0db1661'', 1, ''MQTTClient.h'')]),
  (''mqttclient_5fdestroy_328'', ''MQTTClient_destroy'',
    [(''../_m_q_t_t_client_8h.html#ae700c3f5cfea3813264ce95e7c8cf498'', 1, ''MQTTClient.h'')]),
  (''mqttclient_5fdisconnect_329'', ''MQTTClient_disconnect'',
    [(''../_m_q_t_t_client_8h.html#a1e4d90c13a3c0705bc4a13bfe64e6525'', 1, ''MQTTClient.h'')]),
  (''mqttclient_5fdisconnect5_330'', ''MQTTClient_disconnect5'',
    [(''../_m_q_t_t_client_8h.html#a1762c469715b7f718c4e63a427e6c13c'', 1, ''MQTTClient.h'')]),
  (''mqttclient_5ffree_331'', ''MQTTClient_free'',
    [(''../_m_q_t_t_client_8h.html#a203b545c999beb6b825ec99b6aea79ab'', 1, ''MQTTClient.h'')]),
  (''mqttclient_5ffreemessage_332'', ''MQTTClient_freeMessage'',
    [(''../_m_q_t_t_client_8h.html#abd8abde4f39d3e689029de27f7a98a65'', 1, ''MQTTClient.h'')]),
  (''mqttclient_5fgetpendingdeliverytokens_333'', ''MQTTClient_getPendingDeliveryTokens'',
    [(''../_m_q_t_t_client_8h.html#a2a617c6b0492c04a4ddea592f5e53604'', 1, ''MQTTClient.h'')]),
  (''mqttclient_5fgetversioninfo_334'', ''MQTTClient_getVersionInfo'',
    [(''../_m_q_t_t_client_8h.html#abe842456c914ce9201d277a972cc085e'', 1, ''MQTTClient.h'')]),
  (''mqttclient_5fglobal_5finit_335'', ''MQTTClient_global_init'',
    [(''../_m_q_t_t_client_8h.html#a21804ede1a506d1d69a472bc30acc8ba'', 1, ''MQTTClient.h'')]),
  (''mqttclient_5fisconnected_336'', ''MQTTClient_isConnected'',
    [(''../_m_q_t_t_client_8h.html#a6e8231e8c47f6f67f7ebbb5dcb4c69c0'', 1, ''MQTTClient.h'')]),
  (''mqttclient_5fmalloc_337'', ''MQTTClient_malloc'',
    [(''../_m_q_t_t_client_8h.html#a9a6a07529e252574db1f95d40ccc0784'', 1, ''MQTTClient.h'')]),
  (''mqttclient_5fpublish_338'', ''MQTTClient_publish'',
    [(''../_m_q_t_t_client_8h.html#afe9c34013c3511b8ef6cd36bf703678d'', 1, ''MQTTClient.h'')]),
  (''mqttclient_5fpublish5_339'', ''MQTTClient_publish5'',
    [(''../_m_q_t_t_client_8h.html#a8148186cc7683a6bb57f621653df51df'', 1, ''MQTTClient.h'')]),
  (''mqttclient_5fpublishmessage_340'', ''MQTTClient_publishMessage'',
    [(''../_m_q_t_t_client_8h.html#ace320b8a92c7087d9dd5cf242d50389d'', 1, ''MQTTClient.h'')]),
  (''mqttclient_5fpublishmessage5_341'', ''MQTTClient_publishMessage5'',
    [(''../_m_q_t_t_client_8h.html#a362042ce973c012bad6a1aa3b5984f5d'', 1, ''MQTTClient.h'')]),
  (''mqttclient_5freceive_342'', ''MQTTClient_receive'',
    [(''../_m_q_t_t_client_8h.html#a4c2df88d00a3dadd510a8cb774739366'', 1, ''MQTTClient.h'')]),
  (''mqttclient_5fsetcallbacks_343'', ''MQTTClient_setCallbacks'',
    [(''../_m_q_t_t_client_8h.html#aad27d07782991a4937ebf2f39a021f83'', 1, ''MQTTClient.h'')]),
  (''mqttclient_5fsetcommandtimeout_344'', ''MQTTClient_setCommandTimeout'',
    [(''../_m_q_t_t_client_8h.html#a96067a2fb74d2a61c7e93015629548e0'', 1, ''MQTTClient.h'')]),
  (''mqttclient_5fsetdisconnected_345'', ''MQTTClient_setDisconnected'',
    [(''../_m_q_t_t_client_8h.html#a8adea083a162735d5c7592160088eea0'', 1, ''MQTTClient.h'')]),
  (''mqttclient_5fsetpublished_346'', ''MQTTClient_setPublished'',
    [(''../_m_q_t_t_client_8h.html#a9f13911351a3de6b1ebdabd4cb4116ba'', 1, ''MQTTClient.h'')]),
  (''mqttclient_5fsettracecallback_347'', ''MQTTClient_setTraceCallback'',
    [(''../_m_q_t_t_client_8h.html#a22870f94aa4cb1827626612f1ded7c69'', 1, ''MQTTClient.h'')]),
  (''mqttclient_5fsettracelevel_348'', ''MQTTClient_setTraceLevel'',
    [(''../_m_q_t_t_client_8h.html#a4dfa35d29db54b10b15b8ac2d9a778be'', 1, ''MQTTClient.h'')]),
  (''mqttclient_5fstrerror_349'', ''MQTTClient_strerror'',
    [(''../_m_q_t_t_client_8h.html#a9defda2979f6fedaae64fd85f5c2f617'', 1, ''MQTTClient.h'')]),
  (''mqttclient_5fsubscribe_350'', ''MQTTClient_subscribe'',
    [(''../_m_q_t_t_client_8h.html#a9c1c28258f0d5c6a44ff53a98618f5f3'', 1, ''MQTTClient.h'')]),
  (''mqttclient_5fsubscribe5_351'', ''MQTTClient_subscribe5'',
    [(''../_m_q_t_t_client_8h.html#af35ab7375435f7b6388c5ff4610dad3d'', 1, ''MQTTClient.h'')]),
  (''mqttclient_5fsubscribemany_352'', ''MQTTClient_subscribeMany'',
    [(''../_m_q_t_t_client_8h.html#a92fa1c13f3db8399e042fbdbdfb692b3'', 1, ''MQTTClient.h'')]),
  (''mqttclient_5fsubscribemany5_353'', ''MQTTClient_subscribeMany5'',
    [(''../_m_q_t_t_client_8h.html#a5390c2402f135c12826ffbf6fc261f7c'', 1, ''MQTTClient.h'')]),
  (''mqttclient_5funsubscribe_354'', ''MQTTClient_unsubscribe'',
    [(''../_m_q_t_t_client_8h.html#aa8731be3dbc6a25f41f037f8bbbb054b'', 1, ''MQTTClient.h'')]),
  (''mqttclient_5funsubscribe5_355'', ''MQTTClient_unsubscribe5'',
    [(''../_m_q_t_t_client_8h.html#a58356c13867f18df60fd4c7ec9457c48'', 1, ''MQTTClient.h'')]),
  (''mqttclient_5funsubscribemany_356'', ''MQTTClient_unsubscribeMany'',
    [(''../_m_q_t_t_client_8h.html#a50abbce720d50b9f84b97ff9fa1f546d'', 1, ''MQTTClient.h'')]),
  (''mqttclient_5funsubscribemany5_357'', ''MQTTClient_unsubscribeMany5'',
    [(''../_m_q_t_t_client_8h.html#a46bdb532d2153110ccffb2f0748d1ba5'', 1, ''MQTTClient.h'')]),
  (''mqttclient_5fwaitforcompletion_358'', ''MQTTClient_waitForCompletion'',
    [(''../_m_q_t_t_client_8h.html#a83807ec81fe8c3941e368ab329d43067'', 1, ''MQTTClient.h'')]),
  (''mqttclient_5fyield_359'', ''MQTTClient_yield'',
    [(''../_m_q_t_t_client_8h.html#a8ad3d29864a9ca08202b0832e0f6678e'', 1, ''MQTTClient.h'')]),
  (''mqttproperties_5fadd_360'', ''MQTTProperties_add'',
    [(''../_m_q_t_t_properties_8h.html#a88f1d21556c2d23330d71357cd226a15'', 1, ''MQTTProperties.h'')]),
  (''mqttproperties_5fcopy_361'', ''MQTTProperties_copy'',
    [(''../_m_q_t_t_properties_8h.html#a69b3e474ee2f828e5b827d615fe0fe72'', 1, ''MQTTProperties.h'')]),
  (''mqttproperties_5ffree_362'', ''MQTTProperties_free'',
    [(''../_m_q_t_t_properties_8h.html#ab68247ed365ee51170a9309c828b1823'', 1, ''MQTTProperties.h'')]),
  (''mqttproperties_5fgetnumericvalue_363'', ''MQTTProperties_getNumericValue'',
    [(''../_m_q_t_t_properties_8h.html#afa777eb796532a3c0c59ddc40aca3792'', 1, ''MQTTProperties.h'')]),
  (''mqttproperties_5fgetnumericvalueat_364'', ''MQTTProperties_getNumericValueAt'',
    [(''../_m_q_t_t_properties_8h.html#abc6bc80d9bb644c9b4a66b6808829a53'', 1, ''MQTTProperties.h'')]),
  (''mqttproperties_5fgetproperty_365'', ''MQTTProperties_getProperty'',
    [(''../_m_q_t_t_properties_8h.html#a788b033cbed8a7906799fccbb1463f20'', 1, ''MQTTProperties.h'')]),
  (''mqttproperties_5fgetpropertyat_366'', ''MQTTProperties_getPropertyAt'',
    [(''../_m_q_t_t_properties_8h.html#ac6942d8fafb5794591fc558b4bb06beb'', 1, ''MQTTProperties.h'')]),
  (''mqttproperties_5fhasproperty_367'', ''MQTTProperties_hasProperty'',
    [(''../_m_q_t_t_properties_8h.html#a4ccdf6a712c3d803a16a4d3f00f9be2f'', 1, ''MQTTProperties.h'')]),
  (''mqttproperties_5flen_368'', ''MQTTProperties_len'',
    [(''../_m_q_t_t_properties_8h.html#ab7ad6f14e2dc7576d35827a28b0dc81d'', 1, ''MQTTProperties.h'')]),
  (''mqttproperties_5fpropertycount_369'', ''MQTTProperties_propertyCount'',
    [(''../_m_q_t_t_properties_8h.html#a6f0d8b230c2e7008c7639cfce1c04429'', 1, ''MQTTProperties.h'')]),
  (''mqttproperties_5fread_370'', ''MQTTProperties_read'',
    [(''../_m_q_t_t_properties_8h.html#afcb874dfcc9f0eaa0b063e2fad740871'', 1, ''MQTTProperties.h'')]),
  (''mqttproperties_5fwrite_371'', ''MQTTProperties_write'',
    [(''../_m_q_t_t_properties_8h.html#ade0027a4e571bd288fe40271ff7aa497'', 1, ''MQTTProperties.h'')]),
  (''mqttproperty_5fgettype_372'', ''MQTTProperty_getType'',
    [(''../_m_q_t_t_properties_8h.html#a7d30ad0520bc9b9366e700d4b493b173'', 1, ''MQTTProperties.h'')]),
  (''mqttpropertyname_373'', ''MQTTPropertyName'',
    [(''../_m_q_t_t_properties_8h.html#afa0a7306d7b6174c5bc417ca49d99851'', 1, ''MQTTProperties.h'')]),
  (''mqttreasoncode_5ftostring_374'', ''MQTTReasonCode_toString'',
    [(''../_m_q_t_t_reason_codes_8h.html#a91922a5e3c1e5ec7670b6e296854f1b7'', 1, ''MQTTReasonCodes.h'')]),
  (''mqttresponse_5ffree_375'', ''MQTTResponse_free'',
    [(''../_m_q_t_t_client_8h.html#a01bd2c5f98ec5c0636a106db33f2b01b'', 1, ''MQTTClient.h'')])]"

lemma client_functions_0_wf: "index_wf CHR ''m'' 324 client_functions_0"
  by (rule index_wf_check) (simp add: client_functions_0_def index_eval del: One_nat_def)

lemma client_functions_0_file: "index_file CHR ''m'' client_functions_0"
  by (rule index_fileI [OF _ client_functions_0_wf]) (simp add: client_functions_0_def)

definition client_variables_0 :: "search_entry list" where
  "client_variables_0 = [
  (''array_376'', ''array'',
    [(''../struct_m_q_t_t_properties.html#a3ac4c38b423393c1553dcf8b71e7dd58'', 1, ''MQTTProperties'')])]"

lemma client_variables_0_wf: "index_wf CHR ''a'' 376 client_variables_0"
  by (rule index_wf_check) (simp add: client_variables_0_def index_eval del: One_nat_def)

lemma client_variables_0_file: "index_file CHR ''a'' client_variables_0"
  by (rule index_fileI [OF _ client_variables_0_wf]) (simp add: client_variables_0_def)

definition client_variables_1 :: "search_entry list" where
  "client_variables_1 = [
  (''binarypwd_377'', ''binarypwd'',
    [(''../struct_m_q_t_t_client__connect_options.html#ae7280d284792990b5d8f6f29d4e0b113'', 1, ''MQTTClient_connectOptions'')]),
  (''byte_378'', ''byte'',
    [(''../struct_m_q_t_t_property.html#a1581cde4f73c9a797ae1e7afcc1bb3de'', 1, ''MQTTProperty'')])]"

lemma client_variables_1_wf: "index_wf CHR ''b'' 377 client_variables_1"
  by (rule index_wf_check) (simp add: client_variables_1_def index_eval del: One_nat_def)

lemma client_variables_1_file: "index_file CHR ''b'' client_variables_1"
  by (rule index_fileI [OF _ client_variables_1_wf]) (simp add: client_variables_1_def)

definition client_variables_2 :: "search_entry list" where
  "client_variables_2 = [
  (''capath_379'', ''CApath'',
    [(''../struct_m_q_t_t_client___s_s_l_options.html#a3078b3c824cc9753a57898072445c34d'', 1, ''MQTTClient_SSLOptions'')]),
  (''cleansession_380'', ''cleansession'',
    [(''../struct_m_q_t_t_client__connect_options.html#a036c36a2a4d3a3ffae9ab4dd8b3e7f7b'', 1, ''MQTTClient_connectOptions'')]),
  (''cleanstart_381'', ''cleanstart'',
    [(''../struct_m_q_t_t_client__connect_options.html#acdcb75a5d5981da027bce83849140f7b'', 1, ''MQTTClient_connectOptions'')]),
  (''connecttimeout_382'', ''connectTimeout'',
    [(''../struct_m_q_t_t_client__connect_options.html#a38c6aa24b36d981c49405db425c24db0'', 1, ''MQTTClient_connectOptions'')]),
  (''context_383'', ''context'',
    [(''../struct_m_q_t_t_client__persistence.html#ae376f130b17d169ee51be68077a89ed0'', 1, ''MQTTClient_persistence'')]),
  (''count_384'', ''count'',
    [(''../struct_m_q_t_t_properties.html#ad43c3812e6d13e0518d9f8b8f463ffcf'', 1, ''MQTTProperties'')])]"

lemma client_variables_2_wf: "index_wf CHR ''c'' 379 client_variables_2"
  by (rule index_wf_check) (simp add: client_variables_2_def index_eval del: One_nat_def)

lemma client_variables_2_file: "index_file CHR ''c'' client_variables_2"
  by (rule index_fileI [OF _ client_variables_2_wf]) (simp add: client_variables_2_def)

definition client_variables_3 :: "search_entry list" where
  "client_variables_3 = [
  (''data_385'', ''data'',
    [(''../struct_m_q_t_t_client__will_options.html#a0d49d74db4c035719c3867723cf7e779'', 1, ''MQTTClient_willOptions::data()''),
     (''../struct_m_q_t_t_client__connect_options.html#a0d49d74db4c035719c3867723cf7e779'', 1, ''MQTTClient_connectOptions::data()''),
     (''../struct_m_q_t_t_len_string.html#a91a70b77df95bd8b0830b49a094c2acb'', 1, ''MQTTLenString::data()''),
     (''../struct_m_q_t_t_property.html#aa43ebcb9f97210421431a671384ef159'', 1, ''MQTTProperty::data()'')]),
  (''disabledefaulttruststore_386'', ''disableDefaultTrustStore'',
    [(''../struct_m_q_t_t_client___s_s_l_options.html#a0826fcae7c2816e04772c61542c6846b'', 1, ''MQTTClient_SSLOptions'')]),
  (''do_5fopenssl_5finit_387'', ''do_openssl_init'',
    [(''../struct_m_q_t_t_client__init__options.html#a5929146596391e2838ef95feb89776da'', 1, ''MQTTClient_init_options'')]),
  (''dup_388'', ''dup'',
    [(''../struct_m_q_t_t_client__message.html#adc4cf3f551bb367858644559d69cfdf5'', 1, ''MQTTClient_message'')])]"

lemma client_variables_3_wf: "index_wf CHR ''d'' 385 client_variables_3"
  by (rule index_wf_check) (simp add: client_variables_3_def index_eval del: One_nat_def)

lemma client_variables_3_file: "index_file CHR ''d'' client_variables_3"
  by (rule index_fileI [OF _ client_variables_3_wf]) (simp add: client_variables_3_def)

definition client_variables_4 :: "search_entry list" where
  "client_variables_4 = [
  (''enabledciphersuites_389'', ''enabledCipherSuites'',
    [(''../struct_m_q_t_t_client___s_s_l_options.html#aa683926d52134077f27d6dc67bda13ab'', 1, ''MQTTClient_SSLOptions'')]),
  (''enableservercertauth_390'', ''enableServerCertAuth'',
    [(''../struct_m_q_t_t_client___s_s_l_options.html#a75f6c13b7634e15f96dd9f17db6cf0be'', 1, ''MQTTClient_SSLOptions'')])]"

lemma client_variables_4_wf: "index_wf CHR ''e'' 389 client_variables_4"
  by (rule index_wf_check) (simp add: client_variables_4_def index_eval del: One_nat_def)

lemma client_variables_4_file: "index_file CHR ''e'' client_variables_4"
  by (rule index_fileI [OF _ client_variables_4_wf]) (simp add: client_variables_4_def)

definition client_variables_5 :: "search_entry list" where
  "client_variables_5 = [
  (''httpheaders_391'', ''httpHeaders'',
    [(''../struct_m_q_t_t_client__connect_options.html#a018eec60631f40c01e6dcb727bffd33f'', 1, ''MQTTClient_connectOptions'')]),
  (''httpproxy_392'', ''httpProxy'',
    [(''../struct_m_q_t_t_client__connect_options.html#add124780ab2de397a96780576c2f112c'', 1, ''MQTTClient_connectOptions'')]),
  (''httpsproxy_393'', ''httpsProxy'',
    [(''../struct_m_q_t_t_client__connect_options.html#a388b78d8a75658928238f700f207ad92'', 1, ''MQTTClient_connectOptions'')])]"

lemma client_variables_5_wf: "index_wf CHR ''h'' 391 client_variables_5"
  by (rule index_wf_check) (simp add: client_variables_5_def index_eval del: One_nat_def)

lemma client_variables_5_file: "index_file CHR ''h'' client_variables_5"
  by (rule index_fileI [OF _ client_variables_5_wf]) (simp add: client_variables_5_def)

definition client_variables_6 :: "search_entry list" where
  "client_variables_6 = [
  (''identifier_394'', ''identifier'',
    [(''../struct_m_q_t_t_property.html#a2ff04e8cc70fbaa9bcb9a4fb3d510882'', 1, ''MQTTProperty'')]),
  (''integer2_395'', ''integer2'',
    [(''../struct_m_q_t_t_property.html#a0289ec2e0df8789139386b0ddf5c71c3'', 1, ''MQTTProperty'')]),
  (''integer4_396'', ''integer4'',
    [(''../struct_m_q_t_t_property.html#a813425ef31abb5ef0091e3043e8a366b'', 1, ''MQTTProperty'')])]"

lemma client_variables_6_wf: "index_wf CHR ''i'' 394 client_variables_6"
  by (rule index_wf_check) (simp add: client_variables_6_def index_eval del: One_nat_def)

lemma client_variables_6_file: "index_file CHR ''i'' client_variables_6"
  by (rule index_fileI [OF _ client_variables_6_wf]) (simp add: client_variables_6_def)

definition client_variables_7 :: "search_entry list" where
  "client_variables_7 = [
  (''keepaliveinterval_397'', ''keepAliveInterval'',
    [(''../struct_m_q_t_t_client__connect_options.html#ac8dd0930672a9c7d71fc645aa1f0521d'', 1, ''MQTTClient_connectOptions'')]),
  (''keystore_398'', ''keyStore'',
    [(''../struct_m_q_t_t_client___s_s_l_options.html#a32b476382955289ce427112b59f21c3e'', 1, ''MQTTClient_SSLOptions'')])]"

lemma client_variables_7_wf: "index_wf CHR ''k'' 397 client_variables_7"
  by (rule index_wf_check) (simp add: client_variables_7_def index_eval del: One_nat_def)

lemma client_variables_7_file: "index_file CHR ''k'' client_variables_7"
  by (rule index_fileI [OF _ client_variables_7_wf]) (simp add: client_variables_7_def)

definition client_variables_8 :: "search_entry list" where
  "client_variables_8 = [
  (''len_399'', ''len'',
    [(''../struct_m_q_t_t_client__will_options.html#afed088663f8704004425cdae2120b9b3'', 1, ''MQTTClient_willOptions::len()''),
     (''../struct_m_q_t_t_client__connect_options.html#afed088663f8704004425cdae2120b9b3'', 1, ''MQTTClient_connectOptions::len()''),
     (''../struct_m_q_t_t_len_string.html#afed088663f8704004425cdae2120b9b3'', 1, ''MQTTLenString::len()'')]),
  (''length_400'', ''length'',
    [(''../struct_m_q_t_t_properties.html#a9f59b34b1f25fe00023291b678246bcc'', 1, ''MQTTProperties'')])]"

lemma client_variables_8_wf: "index_wf CHR ''l'' 399 client_variables_8"
  by (rule index_wf_check) (simp add: client_variables_8_def index_eval del: One_nat_def)

lemma client_variables_8_file: "index_file CHR ''l'' client_variables_8"
  by (rule index_fileI [OF _ client_variables_8_wf]) (simp add: client_variables_8_def)

definition client_variables_9 :: "search_entry list" where
  "client_variables_9 = [
  (''max_5fcount_401'', ''max_count'',
    [(''../struct_m_q_t_t_properties.html#a8de324382d8fd2f5939bf3372e059383'', 1, ''MQTTProperties'')]),
  (''maxinflightmessages_402'', ''maxInflightMessages'',
    [(''../struct_m_q_t_t_client__connect_options.html#ae3f99bf4663ab7b9e9259feeba41fab2'', 1, ''MQTTClient_connectOptions'')]),
  (''message_403'', ''message'',
    [(''../struct_m_q_t_t_client__will_options.html#a254bf0858da09c96a48daf64404eb4f8'', 1, ''MQTTClient_willOptions'')]),
  (''mqttversion_404'', ''MQTTVersion'',
    [(''../struct_m_q_t_t_client__create_options.html#a12d546fd0ccf4e1091b18e1b735c7240'', 1, ''MQTTClient_createOptions::MQTTVersion()''),
     (''../struct_m_q_t_t_client__connect_options.html#a12d546fd0ccf4e1091b18e1b735c7240'', 1, ''MQTTClient_connectOptions::MQTTVersion()'')]),
  (''msgid_405'', ''msgid'',
    [(''../struct_m_q_t_t_client__message.html#a6174c42da8c55c86e7255be2848dc4ac'', 1, ''MQTTClient_message'')])]"

lemma client_variables_9_wf: "index_wf CHR ''m'' 401 client_variables_9"
  by (rule index_wf_check) (simp add: client_variables_9_def index_eval del: One_nat_def)

lemma client_variables_9_file: "index_file CHR ''m'' client_variables_9"
  by (rule index_fileI [OF _ client_variables_9_wf]) (simp add: client_variables_9_def)

definition client_variables_a :: "search_entry list" where
  "client_variables_a = [
  (''name_406'', ''name'',
    [(''../struct_m_q_t_t_client__name_value.html#a8f8f80d37794cde9472343e4487ba3eb'', 1, ''MQTTClient_nameValue'')]),
  (''nolocal_407'', ''noLocal'',
    [(''../struct_m_q_t_t_subscribe__options.html#abbb6a188886c12f305cbe69358515d8b'', 1, ''MQTTSubscribe_options'')])]"

lemma client_variables_a_wf: "index_wf CHR ''n'' 406 client_variables_a"
  by (rule index_wf_check) (simp add: client_variables_a_def index_eval del: One_nat_def)

lemma client_variables_a_file: "index_file CHR ''n'' client_variables_a"
  by (rule index_fileI [OF _ client_variables_a_wf]) (simp add: client_variables_a_def)

definition client_variables_b :: "search_entry list" where
  "client_variables_b = [
  (''password_408'', ''password'',
    [(''../struct_m_q_t_t_client__connect_options.html#aa4a2ebcb494493f648ae1e6975672575'', 1, ''MQTTClient_connectOptions'')]),
  (''payload_409'', ''payload'',
    [(''../struct_m_q_t_t_client__message.html#a9eff55064941fb604452abb0050ea99d'', 1, ''MQTTClient_message::payload()''),
     (''../struct_m_q_t_t_client__will_options.html#a0e9356b973a918c25981982fe84e35d7'', 1, ''MQTTClient_willOptions::payload()'')]),
  (''payloadlen_410'', ''payloadlen'',
    [(''../struct_m_q_t_t_client__message.html#aa3cb44feb3ae6d11b3a4cad2d94cb33a'', 1, ''MQTTClient_message'')]),
  (''pclear_411'', ''pclear'',
    [(''../struct_m_q_t_t_client__persistence.html#abc192dc88113c7d933b29d3561badbf5'', 1, ''MQTTClient_persistence'')]),
  (''pclose_412'', ''pclose'',
    [(''../struct_m_q_t_t_client__persistence.html#a7e50506912d2ec0e014cc25ec28fb402'', 1, ''MQTTClient_persistence'')]),
  (''pcontainskey_413'', ''pcontainskey'',
    [(''../struct_m_q_t_t_client__persistence.html#ac103711576267f791325f2b70b6dc49d'', 1, ''MQTTClient_persistence'')]),
  (''pget_414'', ''pget'',
    [(''../struct_m_q_t_t_client__persistence.html#a49155000b82a28ac3b3cb878f3a092d4'', 1, ''MQTTClient_persistence'')]),
  (''pkeys_415'', ''pkeys'',
    [(''../struct_m_q_t_t_client__persistence.html#a407e86a809e4b0b098a8c158f53b9606'', 1, ''MQTTClient_persistence'')]),
  (''popen_416'', ''popen'',
    [(''../struct_m_q_t_t_client__persistence.html#a1bae211b32415e6b349d5ae71599f9f4'', 1, ''MQTTClient_persistence'')]),
  (''pput_417'', ''pput'',
    [(''../struct_m_q_t_t_client__persistence.html#a4114d9b9971cee18d7e4b9dd5736a608'', 1, ''MQTTClient_persistence'')]),
  (''premove_418'', ''premove'',
    [(''../struct_m_q_t_t_client__persistence.html#a53150e443ca721b8623689371c2fbdb9'', 1, ''MQTTClient_persistence'')]),
  (''privatekey_419'', ''privateKey'',
    [(''../struct_m_q_t_t_client___s_s_l_options.html#a7dd436cbb916fba200595c3519f09ec4'', 1, ''MQTTClient_SSLOptions'')]),
  (''privatekeypassword_420'', ''privateKeyPassword'',
    [(''../struct_m_q_t_t_client___s_s_l_options.html#abb427571ba37b51f6985f1a6906ca031'', 1, ''MQTTClient_SSLOptions'')]),
  (''properties_421'', ''properties'',
    [(''../struct_m_q_t_t_client__message.html#a1594008402f7307e4de8fa6131656dde'', 1, ''MQTTClient_message::properties()''),
     (''../struct_m_q_t_t_response.html#a72e9294467b8329a78bc840fe6c5b230'', 1, ''MQTTResponse::properties()'')]),
  (''protos_422'', ''protos'',
    [(''../struct_m_q_t_t_client___s_s_l_options.html#a4f8661600fb8bacf031150f8dcd293a5'', 1, ''MQTTClient_SSLOptions'')]),
  (''protos_5flen_423'', ''protos_len'',
    [(''../struct_m_q_t_t_client___s_s_l_options.html#a26f5d839c92f9772c2a5d05486277a42'', 1, ''MQTTClient_SSLOptions'')])]"

lemma client_variables_b_wf: "index_wf CHR ''p'' 408 client_variables_b"
  by (rule index_wf_check) (simp add: client_variables_b_def index_eval del: One_nat_def)

lemma client_variables_b_file: "index_file CHR ''p'' client_variables_b"
  by (rule index_fileI [OF _ client_variables_b_wf]) (simp add: client_variables_b_def)

definition client_variables_c :: "search_entry list" where
  "client_variables_c = [
  (''qos_424'', ''qos'',
    [(''../struct_m_q_t_t_client__message.html#a35738099155a0e4f54050da474bab2e7'', 1, ''MQTTClient_message::qos()''),
     (''../struct_m_q_t_t_client__will_options.html#a35738099155a0e4f54050da474bab2e7'', 1, ''MQTTClient_willOptions::qos()'')])]"

lemma client_variables_c_wf: "index_wf CHR ''q'' 424 client_variables_c"
  by (rule index_wf_check) (simp add: client_variables_c_def index_eval del: One_nat_def)

lemma client_variables_c_file: "index_file CHR ''q'' client_variables_c"
  by (rule index_fileI [OF _ client_variables_c_wf]) (simp add: client_variables_c_def)

definition client_variables_d :: "search_entry list" where
  "client_variables_d = [
  (''reasoncode_425'', ''reasonCode'',
    [(''../struct_m_q_t_t_response.html#a580d8a8ecb285f5a86c2a3865438f8ee'', 1, ''MQTTResponse'')]),
  (''reasoncodecount_426'', ''reasonCodeCount'',
    [(''../struct_m_q_t_t_response.html#ac97316626bd4faa6b71277c221275f4b'', 1, ''MQTTResponse'')]),
  (''reasoncodes_427'', ''reasonCodes'',
    [(''../struct_m_q_t_t_response.html#a2199c9d905dbfa279895cf8123c10f4f'', 1, ''MQTTResponse'')]),
  (''reliable_428'', ''reliable'',
    [(''../struct_m_q_t_t_client__connect_options.html#a9f1cdffc99659fd4e2d20e6de3c64df0'', 1, ''MQTTClient_connectOptions'')]),
  (''retainaspublished_429'', ''retainAsPublished'',
    [(''../struct_m_q_t_t_subscribe__options.html#a8ba074ad218224ee4a8ca802c5e36944'', 1, ''MQTTSubscribe_options'')]),
  (''retained_430'', ''retained'',
    [(''../struct_m_q_t_t_client__message.html#a6a4904c112507a43e7dc8495b62cc0fc'', 1, ''MQTTClient_message::retained()''),
     (''../struct_m_q_t_t_client__will_options.html#a6a4904c112507a43e7dc8495b62cc0fc'', 1, ''MQTTClient_willOptions::retained()'')]),
  (''retainhandling_431'', ''retainHandling'',
    [(''../struct_m_q_t_t_subscribe__options.html#a11f17b62e40ecdfe107101ae164367a3'', 1, ''MQTTSubscribe_options'')]),
  (''retryinterval_432'', ''retryInterval'',
    [(''../struct_m_q_t_t_client__connect_options.html#ac73f57846c42bcaa9a47e6721a957748'', 1, ''MQTTClient_connectOptions'')]),
  (''returned_433'', ''returned'',
    [(''../struct_m_q_t_t_client__connect_options.html#afbca347de18f7a8c57de1f16d3dadde6'', 1, ''MQTTClient_connectOptions'')])]"

lemma client_variables_d_wf: "index_wf CHR ''r'' 425 client_variables_d"
  by (rule index_wf_check) (simp add: client_variables_d_def index_eval del: One_nat_def)

lemma client_variables_d_file: "index_file CHR ''r'' client_variables_d"
  by (rule index_fileI [OF _ client_variables_d_wf]) (simp add: client_variables_d_def)

definition client_variables_e :: "search_entry list" where
  "client_variables_e = [
  (''serveruri_434'', ''serverURI'',
    [(''../struct_m_q_t_t_client__connect_options.html#a313446ca7679b36652722ffe53d05228'', 1, ''MQTTClient_connectOptions'')]),
  (''serveruricount_435'', ''serverURIcount'',
    [(''../struct_m_q_t_t_client__connect_options.html#aa82629005937abd92e97084a428cd61f'', 1, ''MQTTClient_connectOptions'')]),
  (''serveruris_436'', ''serverURIs'',
    [(''../struct_m_q_t_t_client__connect_options.html#aba22d81c407fb2ba590dba476240d3e9'', 1, ''MQTTClient_connectOptions'')]),
  (''sessionpresent_437'', ''sessionPresent'',
    [(''../struct_m_q_t_t_client__connect_options.html#a44baf2cb9a0bbcec3ed2eace43f832d1'', 1, ''MQTTClient_connectOptions'')]),
  (''ssl_438'', ''ssl'',
    [(''../struct_m_q_t_t_client__connect_options.html#a8a0b0f0fc7c675312dc232e2458078c7'', 1, ''MQTTClient_connectOptions'')]),
  (''ssl_5ferror_5fcb_439'', ''ssl_error_cb'',
    [(''../struct_m_q_t_t_client___s_s_l_options.html#a21b6ca8a73ba197e65f6a93365d39c04'', 1, ''MQTTClient_SSLOptions'')]),
  (''ssl_5ferror_5fcontext_440'', ''ssl_error_context'',
    [(''../struct_m_q_t_t_client___s_s_l_options.html#a189f11195f4d5a70024adffdb050885f'', 1, ''MQTTClient_SSLOptions'')]),
  (''ssl_5fpsk_5fcb_441'', ''ssl_psk_cb'',
    [(''../struct_m_q_t_t_client___s_s_l_options.html#a94317cdaf352f9ae496976f8a30f8fee'', 1, ''MQTTClient_SSLOptions'')]),
  (''ssl_5fpsk_5fcontext_442'', ''ssl_psk_context'',
    [(''../struct_m_q_t_t_client___s_s_l_options.html#ab7f597518dd5b9db5a515081f8e0bd1f'', 1, ''MQTTClient_SSLOptions'')]),
  (''sslversion_443'', ''sslVersion'',
    [(''../struct_m_q_t_t_client___s_s_l_options.html#a3543ea1481b68d73cdde833280bb9c45'', 1, ''MQTTClient_SSLOptions'')]),
  (''struct_5fid_444'', ''struct_id'',
    [(''../struct_m_q_t_t_client__create_options.html#aa5326df180cb23c59afbcab711a06479'', 1, ''MQTTClient_createOptions::struct_id()''),
     (''../struct_m_q_t_t_subscribe__options.html#aa5326df180cb23c59afbcab711a06479'', 1, ''MQTTSubscribe_options::struct_id()''),
     (''../struct_m_q_t_t_client__connect_options.html#aa5326df180cb23c59afbcab711a06479'', 1, ''MQTTClient_connectOptions::struct_id()''),
     (''../struct_m_q_t_t_client___s_s_l_options.html#aa5326df180cb23c59afbcab711a06479'', 1, ''MQTTClient_SSLOptions::struct_id()''),
     (''../struct_m_q_t_t_client__will_options.html#aa5326df180cb23c59afbcab711a06479'', 1, ''MQTTClient_willOptions::struct_id()''),
     (''../struct_m_q_t_t_client__message.html#aa5326df180cb23c59afbcab711a06479'', 1, ''MQTTClient_message::struct_id()''),
     (''../struct_m_q_t_t_client__init__options.html#aa5326df180cb23c59afbcab711a06479'', 1, ''MQTTClient_init_options::struct_id()'')]),
  (''struct_5fversion_445'', ''struct_version'',
    [(''../struct_m_q_t_t_client__init__options.html#a0761a5e5be0383882e42924de8e51f82'', 1, ''MQTTClient_init_options::struct_version()''),
     (''../struct_m_q_t_t_client__message.html#a0761a5e5be0383882e42924de8e51f82'', 1, ''MQTTClient_message::struct_version()''),
     (''../struct_m_q_t_t_client__create_options.html#a0761a5e5be0383882e42924de8e51f82'', 1, ''MQTTClient_createOptions::struct_version()''),
     (''../struct_m_q_t_t_client__will_options.html#a0761a5e5be0383882e42924de8e51f82'', 1, ''MQTTClient_willOptions::struct_version()''),
     (''../struct_m_q_t_t_client___s_s_l_options.html#a0761a5e5be0383882e42924de8e51f82'', 1, ''MQTTClient_SSLOptions::struct_version()''),
     (''../struct_m_q_t_t_client__connect_options.html#a0761a5e5be0383882e42924de8e51f82'', 1, ''MQTTClient_connectOptions::struct_version()''),
     (''../struct_m_q_t_t_subscribe__options.html#a0761a5e5be0383882e42924de8e51f82'', 1, ''MQTTSubscribe_options::struct_version()'')])]"

lemma client_variables_e_wf: "index_wf CHR ''s'' 434 client_variables_e"
  by (rule index_wf_check) (simp add: client_variables_e_def index_eval del: One_nat_def)

lemma client_variables_e_file: "index_file CHR ''s'' client_variables_e"
  by (rule index_fileI [OF _ client_variables_e_wf]) (simp add: client_variables_e_def)

definition client_variables_f :: "search_entry list" where
  "client_variables_f = [
  (''topicname_446'', ''topicName'',
    [(''../struct_m_q_t_t_client__will_options.html#a0e20a7b350881d05108d6342884198a5'', 1, ''MQTTClient_willOptions'')]),
  (''truststore_447'', ''trustStore'',
    [(''../struct_m_q_t_t_client___s_s_l_options.html#a032835d4c4a1c1e19b53c330a673a6e0'', 1, ''MQTTClient_SSLOptions'')])]"

lemma client_variables_f_wf: "index_wf CHR ''t'' 446 client_variables_f"
  by (rule index_wf_check) (simp add: client_variables_f_def index_eval del: One_nat_def)

lemma client_variables_f_file: "index_file CHR ''t'' client_variables_f"
  by (rule index_fileI [OF _ client_variables_f_wf]) (simp add: client_variables_f_def)

definition client_variables_10 :: "search_entry list" where
  "client_variables_10 = [
  (''username_448'', ''username'',
    [(''../struct_m_q_t_t_client__connect_options.html#aba2dfcdfda80edcb531a5a7115d3e043'', 1, ''MQTTClient_connectOptions'')])]"

lemma client_variables_10_wf: "index_wf CHR ''u'' 448 client_variables_10"
  by (rule index_wf_check) (simp add: client_variables_10_def index_eval del: One_nat_def)

lemma client_variables_10_file: "index_file CHR ''u'' client_variables_10"
  by (rule index_fileI [OF _ client_variables_10_wf]) (simp add: client_variables_10_def)

definition client_variables_11 :: "search_entry list" where
  "client_variables_11 = [
  (''value_449'', ''value'',
    [(''../struct_m_q_t_t_client__name_value.html#a8556878012feffc9e0beb86cd78f424d'', 1, ''MQTTClient_nameValue::value()''),
     (''../struct_m_q_t_t_property.html#a09e85ff5ad73824d6c2edc1ce4283a17'', 1, ''MQTTProperty::value()''),
     (''../struct_m_q_t_t_property.html#a51e698f2da26ad8f7c9e3d0b81e188ad'', 1, ''MQTTProperty::value()'')]),
  (''verify_450'', ''verify'',
    [(''../struct_m_q_t_t_client___s_s_l_options.html#a94900629685d5ed08f66fd2931f573ce'', 1, ''MQTTClient_SSLOptions'')]),
  (''version_451'', ''version'',
    [(''../struct_m_q_t_t_response.html#aad880fc4455c253781e8968f2239d56f'', 1, ''MQTTResponse'')])]"

lemma client_variables_11_wf: "index_wf CHR ''v'' 449 client_variables_11"
  by (rule index_wf_check) (simp add: client_variables_11_def index_eval del: One_nat_def)

lemma client_variables_11_file: "index_file CHR ''v'' client_variables_11"
  by (rule index_fileI [OF _ client_variables_11_wf]) (simp add: client_variables_11_def)

definition client_variables_12 :: "search_entry list" where
  "client_variables_12 = [
  (''will_452'', ''will'',
    [(''../struct_m_q_t_t_client__connect_options.html#a0a880e99d47eb2efe552abe5079bdc9d'', 1, ''MQTTClient_connectOptions'')])]"

lemma client_variables_12_wf: "index_wf CHR ''w'' 452 client_variables_12"
  by (rule index_wf_check) (simp add: client_variables_12_def index_eval del: One_nat_def)

lemma client_variables_12_file: "index_file CHR ''w'' client_variables_12"
  by (rule index_fileI [OF _ client_variables_12_wf]) (simp add: client_variables_12_def)

definition client_typedefs_0 :: "search_entry list" where
  "client_typedefs_0 = [
  (''mqttclient_453'', ''MQTTClient'',
    [(''../_m_q_t_t_client_8h.html#a7649e3913f9a216424d296f88a969c59'', 1, ''MQTTClient.h'')]),
  (''mqttclient_5fconnectionlost_454'', ''MQTTClient_connectionLost'',
    [(''../_m_q_t_t_client_8h.html#a6bb253f16754e7cc81798c9fda0e36cf'', 1, ''MQTTClient.h'')]),
  (''mqttclient_5fdeliverycomplete_455'', ''MQTTClient_deliveryComplete'',
    [(''../_m_q_t_t_client_8h.html#abef83794d8252551ed248cde6eb845a6'', 1, ''MQTTClient.h'')]),
  (''mqttclient_5fdeliverytoken_456'', ''MQTTClient_deliveryToken'',
    [(''../_m_q_t_t_client_8h.html#a73e49030fd8b7074aa1aa45669b7fe8d'', 1, ''MQTTClient.h'')]),
  (''mqttclient_5fdisconnected_457'', ''MQTTClient_disconnected'',
    [(''../_m_q_t_t_client_8h.html#a41108d4cccb67a9d6884ebae52211c46'', 1, ''MQTTClient.h'')]),
  (''mqttclient_5fmessagearrived_458'', ''MQTTClient_messageArrived'',
    [(''../_m_q_t_t_client_8h.html#aa42130dd069e7e949bcab37b6dce64a5'', 1, ''MQTTClient.h'')]),
  (''mqttclient_5fpublished_459'', ''MQTTClient_published'',
    [(''../_m_q_t_t_client_8h.html#a6c3f51e50e2c47328eee1b0c920ed103'', 1, ''MQTTClient.h'')]),
  (''mqttclient_5ftoken_460'', ''MQTTClient_token'',
    [(''../_m_q_t_t_client_8h.html#a8b2beb5227708f8127b666f5a7fc41b3'', 1, ''MQTTClient.h'')]),
  (''mqttclient_5ftracecallback_461'', ''MQTTClient_traceCallback'',
    [(''../_m_q_t_t_client_8h.html#afa5758290a1162e5135bca97bbfd5774'', 1, ''MQTTClient.h'')]),
  (''mqttpersistence_5fafterread_462'', ''MQTTPersistence_afterRead'',
    [(''../_m_q_t_t_client_persistence_8h.html#af5a966a574c6ad7a35f1ebb7edd5c1c4'', 1, ''MQTTClientPersistence.h'')]),
  (''mqttpersistence_5fbeforewrite_463'', ''MQTTPersistence_beforeWrite'',
    [(''../_m_q_t_t_client_persistence_8h.html#ab865640a1cc53b68622004c5a2d29fae'', 1, ''MQTTClientPersistence.h'')]),
  (''mqttproperties_464'', ''MQTTProperties'',
    [(''../_m_q_t_t_properties_8h.html#a7758f1a5eceb6f46c8540630e39e2fb4'', 1, ''MQTTProperties.h'')]),
  (''mqttresponse_465'', ''MQTTResponse'',
    [(''../_m_q_t_t_client_8h.html#a0d31d490adbe677902b99eca127bee56'', 1, ''MQTTClient.h'')]),
  (''mqttsubscribe_5foptions_466'', ''MQTTSubscribe_options'',
    [(''../_m_q_t_t_subscribe_opts_8h.html#aa68db3eaed272ae1aaea294401079d8a'', 1, ''MQTTSubscribeOpts.h'')])]"

lemma client_typedefs_0_wf: "index_wf CHR ''m'' 453 client_typedefs_0"
  by (rule index_wf_check) (simp add: client_typedefs_0_def index_eval del: One_nat_def)

lemma client_typedefs_0_file: "index_file CHR ''m'' client_typedefs_0"
  by (rule index_fileI [OF _ client_typedefs_0_wf]) (simp add: client_typedefs_0_def)

definition client_typedefs_1 :: "search_entry list" where
  "client_typedefs_1 = [
  (''persistence_5fclear_467'', ''Persistence_clear'',
    [(''../_m_q_t_t_client_persistence_8h.html#acee7097c1a0ab44b98c870f533687887'', 1, ''MQTTClientPersistence.h'')]),
  (''persistence_5fclose_468'', ''Persistence_close'',
    [(''../_m_q_t_t_client_persistence_8h.html#a3582de2c87e89f617e8e553b2a0e279a'', 1, ''MQTTClientPersistence.h'')]),
  (''persistence_5fcontainskey_469'', ''Persistence_containskey'',
    [(''../_m_q_t_t_client_persistence_8h.html#a753a0f9a9c51284d63a907af19c7bbba'', 1, ''MQTTClientPersistence.h'')]),
  (''persistence_5fget_470'', ''Persistence_get'',
    [(''../_m_q_t_t_client_persistence_8h.html#adc3aff3c570fa5509e9d6814a85ab867'', 1, ''MQTTClientPersistence.h'')]),
  (''persistence_5fkeys_471'', ''Persistence_keys'',
    [(''../_m_q_t_t_client_persistence_8h.html#a2601cc91eeabdbf9578f8dd45e4997a8'', 1, ''MQTTClientPersistence.h'')]),
  (''persistence_5fopen_472'', ''Persistence_open'',
    [(''../_m_q_t_t_client_persistence_8h.html#a4c7d332bb16907058ae3b375488b6008'', 1, ''MQTTClientPersistence.h'')]),
  (''persistence_5fput_473'', ''Persistence_put'',
    [(''../_m_q_t_t_client_persistence_8h.html#a44679cab77cfbd6e2a4639cdd27ac80c'', 1, ''MQTTClientPersistence.h'')]),
  (''persistence_5fremove_474'', ''Persistence_remove'',
    [(''../_m_q_t_t_client_persistence_8h.html#a73350bf7208658bf5434a59f7bdbae90'', 1, ''MQTTClientPersistence.h'')])]"

lemma client_typedefs_1_wf: "index_wf CHR ''p'' 467 client_typedefs_1"
  by (rule index_wf_check) (simp add: client_typedefs_1_def index_eval del: One_nat_def)

lemma client_typedefs_1_file: "index_file CHR ''p'' client_typedefs_1"
  by (rule index_fileI [OF _ client_typedefs_1_wf]) (simp add: client_typedefs_1_def)

definition client_enums_0 :: "search_entry list" where
  "client_enums_0 = [
  (''mqttclient_5ftrace_5flevels_475'', ''MQTTCLIENT_TRACE_LEVELS'',
    [(''../_m_q_t_t_client_8h.html#aa0ae95caa9c16d152b5036b1bac2e09b'', 1, ''MQTTClient.h'')]),
  (''mqttpropertycodes_476'', ''MQTTPropertyCodes'',
    [(''../_m_q_t_t_properties_8h.html#af623c1b670dfe3fda633c068e054d8b4'', 1, ''MQTTProperties.h'')]),
  (''mqttpropertytypes_477'', ''MQTTPropertyTypes'',
    [(''../_m_q_t_t_properties_8h.html#a942f52ef7c232829f6df5c86e07cc958'', 1, ''MQTTProperties.h'')]),
  (''mqttreasoncodes_478'', ''MQTTReasonCodes'',
    [(''../_m_q_t_t_reason_codes_8h.html#aba6db0fccfa3f8972ea48117b8b2a279'', 1, ''MQTTReasonCodes.h'')])]"

lemma client_enums_0_wf: "index_wf CHR ''m'' 475 client_enums_0"
  by (rule index_wf_check) (simp add: client_enums_0_def index_eval del: One_nat_def)

lemma client_enums_0_file: "index_file CHR ''m'' client_enums_0"
  by (rule index_fileI [OF _ client_enums_0_wf]) (simp add: client_enums_0_def)

definition client_enumvalues_0 :: "search_entry list" where
  "client_enumvalues_0 = [
  (''mqttclient_5ftrace_5ferror_479'', ''MQTTCLIENT_TRACE_ERROR'',
    [(''../_m_q_t_t_client_8h.html#aa0ae95caa9c16d152b5036b1bac2e09ba6eefffc98c1ba698224ba351f12e6a91'', 1, ''MQTTClient.h'')]),
  (''mqttclient_5ftrace_5ffatal_480'', ''MQTTCLIENT_TRACE_FATAL'',
    [(''../_m_q_t_t_client_8h.html#aa0ae95caa9c16d152b5036b1bac2e09ba35626cc4876d074c4c21f8c4f54fdf38'', 1, ''MQTTClient.h'')]),
  (''mqttclient_5ftrace_5fmaximum_481'', ''MQTTCLIENT_TRACE_MAXIMUM'',
    [(''../_m_q_t_t_client_8h.html#aa0ae95caa9c16d152b5036b1bac2e09ba38a4c3c4e2fc99711793ee2815aee40c'', 1, ''MQTTClient.h'')]),
  (''mqttclient_5ftrace_5fmedium_482'', ''MQTTCLIENT_TRACE_MEDIUM'',
    [(''../_m_q_t_t_client_8h.html#aa0ae95caa9c16d152b5036b1bac2e09ba4bb7e7221b59e9be4515f2182c03ea99'', 1, ''MQTTClient.h'')]),
  (''mqttclient_5ftrace_5fminimum_483'', ''MQTTCLIENT_TRACE_MINIMUM'',
    [(''../_m_q_t_t_client_8h.html#aa0ae95caa9c16d152b5036b1bac2e09bacf029d9a231bd07e5e1a6f3bd0b6004e'', 1, ''MQTTClient.h'')]),
  (''mqttclient_5ftrace_5fprotocol_484'', ''MQTTCLIENT_TRACE_PROTOCOL'',
    [(''../_m_q_t_t_client_8h.html#aa0ae95caa9c16d152b5036b1bac2e09ba29f21f77cf34ab2467520d7738fd8eb1'', 1, ''MQTTClient.h'')]),
  (''mqttclient_5ftrace_5fsevere_485'', ''MQTTCLIENT_TRACE_SEVERE'',
    [(''../_m_q_t_t_client_8h.html#aa0ae95caa9c16d152b5036b1bac2e09baf060569bdbb4015cfce028937b4cfa69'', 1, ''MQTTClient.h'')]),
  (''mqttproperty_5fcode_5fassigned_5fclient_5fidentifer_486'', ''MQTTPROPERTY_CODE_ASSIGNED_CLIENT_IDENTIFER'',
    [(''../_m_q_t_t_properties_8h.html#af623c1b670dfe3fda633c068e054d8b4a768d84858fd18d5d5a7dee394929c672'', 1, ''MQTTProperties.h'')]),
  (''mqttproperty_5fcode_5fauthentication_5fdata_487'', ''MQTTPROPERTY_CODE_AUTHENTICATION_DATA'',
    [(''../_m_q_t_t_properties_8h.html#af623c1b670dfe3fda633c068e054d8b4abdf9feec165aceefbe7aa46764f6ab6e'', 1, ''MQTTProperties.h'')]),
  (''mqttproperty_5fcode_5fauthentication_5fmethod_488'', ''MQTTPROPERTY_CODE_AUTHENTICATION_METHOD'',
    [(''../_m_q_t_t_properties_8h.html#af623c1b670dfe3fda633c068e054d8b4a7c53f1e414b577d787b5d51af3204100'', 1, ''MQTTProperties.h'')]),
  (''mqttproperty_5fcode_5fcontent_5ftype_489'', ''MQTTPROPERTY_CODE_CONTENT_TYPE'',
    [(''../_m_q_t_t_properties_8h.html#af623c1b670dfe3fda633c068e054d8b4a4027d9e0fb53a62ae35963e700b56198'', 1, ''MQTTProperties.h'')]),
  (''mqttproperty_5fcode_5fcorrelation_5fdata_490'', ''MQTTPROPERTY_CODE_CORRELATION_DATA'',
    [(''../_m_q_t_t_properties_8h.html#af623c1b670dfe3fda633c068e054d8b4a887d3dd3f0ce31255324f5a1ba8b72c5'', 1, ''MQTTProperties.h'')]),
  (''mqttproperty_5fcode_5fmaximum_5fpacket_5fsize_491'', ''MQTTPROPERTY_CODE_MAXIMUM_PACKET_SIZE'',
    [(''../_m_q_t_t_properties_8h.html#af623c1b670dfe3fda633c068e054d8b4a6834ea9878f028d5fbdeccaaeae492e5'', 1, ''MQTTProperties.h'')]),
  (''mqttproperty_5fcode_5fmaximum_5fqos_492'', ''MQTTPROPERTY_CODE_MAXIMUM_QOS'',
    [(''../_m_q_t_t_properties_8h.html#af623c1b670dfe3fda633c068e054d8b4a506faeb89c407cf78853c777d750fa59'', 1, ''MQTTProperties.h'')]),
  (''mqttproperty_5fcode_5fmessage_5fexpiry_5finterval_493'', ''MQTTPROPERTY_CODE_MESSAGE_EXPIRY_INTERVAL'',
    [(''../_m_q_t_t_properties_8h.html#af623c1b670dfe3fda633c068e054d8b4a284c0e62d47ee8d358b16a8075632b4a'', 1, ''MQTTProperties.h'')]),
  (''mqttproperty_5fcode_5fpayload_5fformat_5findicator_494'', ''MQTTPROPERTY_CODE_PAYLOAD_FORMAT_INDICATOR'',
    [(''../_m_q_t_t_properties_8h.html#af623c1b670dfe3fda633c068e054d8b4ae5d077520427d03b44096f631411575d'', 1, ''MQTTProperties.h'')]),
  (''mqttproperty_5fcode_5freason_5fstring_495'', ''MQTTPROPERTY_CODE_REASON_STRING'',
    [(''../_m_q_t_t_properties_8h.html#af623c1b670dfe3fda633c068e054d8b4a3dce8f679474e901ce4aec076e9e59e1'', 1, ''MQTTProperties.h'')]),
  (''mqttproperty_5fcode_5freceive_5fmaximum_496'', ''MQTTPROPERTY_CODE_RECEIVE_MAXIMUM'',
    [(''../_m_q_t_t_properties_8h.html#af623c1b670dfe3fda633c068e054d8b4ab2688fe8d7d263c27c00d41776cb8f9f'', 1, ''MQTTProperties.h'')]),
  (''mqttproperty_5fcode_5frequest_5fproblem_5finformation_497'', ''MQTTPROPERTY_CODE_REQUEST_PROBLEM_INFORMATION'',
    [(''../_m_q_t_t_properties_8h.html#af623c1b670dfe3fda633c068e054d8b4a3954daf1d5772b5d56eefa1ab6a28aa1'', 1, ''MQTTProperties.h'')]),
  (''mqttproperty_5fcode_5frequest_5fresponse_5finformation_498'', ''MQTTPROPERTY_CODE_REQUEST_RESPONSE_INFORMATION'',
    [(''../_m_q_t_t_properties_8h.html#af623c1b670dfe3fda633c068e054d8b4a420b882a337dc1fd5f336ac6cd0529bf'', 1, ''MQTTProperties.h'')]),
  (''mqttproperty_5fcode_5fresponse_5finformation_499'', ''MQTTPROPERTY_CODE_RESPONSE_INFORMATION'',
    [(''../_m_q_t_t_properties_8h.html#af623c1b670dfe3fda633c068e054d8b4a2584b050f016af496c7f0b46692dbc00'', 1, ''MQTTProperties.h'')]),
  (''mqttproperty_5fcode_5fresponse_5ftopic_500'', ''MQTTPROPERTY_CODE_RESPONSE_TOPIC'',
    [(''../_m_q_t_t_properties_8h.html#af623c1b670dfe3fda633c068e054d8b4a7fa9996eef721d318504fbb0a8d4bac5'', 1, ''MQTTProperties.h'')]),
  (''mqttproperty_5fcode_5fretain_5favailable_501'', ''MQTTPROPERTY_CODE_RETAIN_AVAILABLE'',
    [(''../_m_q_t_t_properties_8h.html#af623c1b670dfe3fda633c068e054d8b4a448b3a40afaa5f7195701e7dc8bed30c'', 1, ''MQTTProperties.h'')]),
  (''mqttproperty_5fcode_5fserver_5fkeep_5falive_502'', ''MQTTPROPERTY_CODE_SERVER_KEEP_ALIVE'',
    [(''../_m_q_t_t_properties_8h.html#af623c1b670dfe3fda633c068e054d8b4ab106f320e7537b79644f25d3efcd68c7'', 1, ''MQTTProperties.h'')]),
  (''mqttproperty_5fcode_5fserver_5freference_503'', ''MQTTPROPERTY_CODE_SERVER_REFERENCE'',
    [(''../_m_q_t_t_properties_8h.html#af623c1b670dfe3fda633c068e054d8b4a0168e8a59f7994c02b7a7fd2fc3735c4'', 1, ''MQTTProperties.h'')]),
  (''mqttproperty_5fcode_5fsession_5fexpiry_5finterval_504'', ''MQTTPROPERTY_CODE_SESSION_EXPIRY_INTERVAL'',
    [(''../_m_q_t_t_properties_8h.html#af623c1b670dfe3fda633c068e054d8b4a22e4caa63f63ca3f9b1c1330711ee766'', 1, ''MQTTProperties.h'')]),
  (''mqttproperty_5fcode_5fshared_5fsubscription_5favailable_505'', ''MQTTPROPERTY_CODE_SHARED_SUBSCRIPTION_AVAILABLE'',
    [(''../_m_q_t_t_properties_8h.html#af623c1b670dfe3fda633c068e054d8b4ae04a7356f9e11654f15a3b21f2aae636'', 1, ''MQTTProperties.h'')]),
  (''mqttproperty_5fcode_5fsubscription_5fidentifier_506'', ''MQTTPROPERTY_CODE_SUBSCRIPTION_IDENTIFIER'',
    [(''../_m_q_t_t_properties_8h.html#af623c1b670dfe3fda633c068e054d8b4a70ead9c93f06396a4d9469b65bff0c96'', 1, ''MQTTProperties.h'')]),
  (''mqttproperty_5fcode_5fsubscription_5fidentifiers_5favailable_507'', ''MQTTPROPERTY_CODE_SUBSCRIPTION_IDENTIFIERS_AVAILABLE'',
    [(''../_m_q_t_t_properties_8h.html#af623c1b670dfe3fda633c068e054d8b4a8b366cfd8bd3f388bafb67f3ebf83505'', 1, ''MQTTProperties.h'')]),
  (''mqttproperty_5fcode_5ftopic_5falias_508'', ''MQTTPROPERTY_CODE_TOPIC_ALIAS'',
    [(''../_m_q_t_t_properties_8h.html#af623c1b670dfe3fda633c068e054d8b4ad4dfb37d341ea190afc144668e5e3bee'', 1, ''MQTTProperties.h'')]),
  (''mqttproperty_5fcode_5ftopic_5falias_5fmaximum_509'', ''MQTTPROPERTY_CODE_TOPIC_ALIAS_MAXIMUM'',
    [(''../_m_q_t_t_properties_8h.html#af623c1b670dfe3fda633c068e054d8b4a0a0b0b0715ecc9ccf471c75aa4c21c23'', 1, ''MQTTProperties.h'')]),
  (''mqttproperty_5fcode_5fuser_5fproperty_510'', ''MQTTPROPERTY_CODE_USER_PROPERTY'',
    [(''../_m_q_t_t_properties_8h.html#af623c1b670dfe3fda633c068e054d8b4a596ff540370235d3eca693ce30dd4af8'', 1, ''MQTTProperties.h'')]),
  (''mqttproperty_5fcode_5fwildcard_5fsubscription_5favailable_511'', ''MQTTPROPERTY_CODE_WILDCARD_SUBSCRIPTION_AVAILABLE'',
    [(''../_m_q_t_t_properties_8h.html#af623c1b670dfe3fda633c068e054d8b4ad05993f90baaee0ba7094ccef4d378b9'', 1, ''MQTTProperties.h'')]),
  (''mqttproperty_5fcode_5fwill_5fdelay_5finterval_512'', ''MQTTPROPERTY_CODE_WILL_DELAY_INTERVAL'',
    [(''../_m_q_t_t_properties_8h.html#af623c1b670dfe3fda633c068e054d8b4a53fd81bc554f152a2772d282be7ce5ef'', 1, ''MQTTProperties.h'')]),
  (''mqttproperty_5ftype_5fbinary_5fdata_513'', ''MQTTPROPERTY_TYPE_BINARY_DATA'',
    [(''../_m_q_t_t_properties_8h.html#a942f52ef7c232829f6df5c86e07cc958a6643aed682b9b07f98159856776fe7b4'', 1, ''MQTTProperties.h'')]),
  (''mqttproperty_5ftype_5fbyte_514'', ''MQTTPROPERTY_TYPE_BYTE'',
    [(''../_m_q_t_t_properties_8h.html#a942f52ef7c232829f6df5c86e07cc958ac36f96ce58c98a8ebbe0783df030726a'', 1, ''MQTTProperties.h'')]),
  (''mqttproperty_5ftype_5ffour_5fbyte_5finteger_515'', ''MQTTPROPERTY_TYPE_FOUR_BYTE_INTEGER'',
    [(''../_m_q_t_t_properties_8h.html#a942f52ef7c232829f6df5c86e07cc958aa49c558733bd735ae872fd87ad0d7e15'', 1, ''MQTTProperties.h'')]),
  (''mqttproperty_5ftype_5ftwo_5fbyte_5finteger_516'', ''MQTTPROPERTY_TYPE_TWO_BYTE_INTEGER'',
    [(''../_m_q_t_t_properties_8h.html#a942f52ef7c232829f6df5c86e07cc958ae301a9e68326cc2d8bfefeca401e78e6'', 1, ''MQTTProperties.h'')]),
  (''mqttproperty_5ftype_5futf_5f8_5fencoded_5fstring_517'', ''MQTTPROPERTY_TYPE_UTF_8_ENCODED_STRING'',
    [(''../_m_q_t_t_properties_8h.html#a942f52ef7c232829f6df5c86e07cc958ad45c866a5bef6c5048a7af21405734d1'', 1, ''MQTTProperties.h'')]),
  (''mqttproperty_5ftype_5futf_5f8_5fstring_5fpair_518'', ''MQTTPROPERTY_TYPE_UTF_8_STRING_PAIR'',
    [(''../_m_q_t_t_properties_8h.html#a942f52ef7c232829f6df5c86e07cc958a28ab5fe5b159f3b3a8884b0f61527214'', 1, ''MQTTProperties.h'')]),
  (''mqttproperty_5ftype_5fvariable_5fbyte_5finteger_519'', ''MQTTPROPERTY_TYPE_VARIABLE_BYTE_INTEGER'',
    [(''../_m_q_t_t_properties_8h.html#a942f52ef7c232829f6df5c86e07cc958a27bbcb5bc4f584f96612c0cec329c6a7'', 1, ''MQTTProperties.h'')]),
  (''mqttreasoncode_5fadministrative_5faction_520'', ''MQTTREASONCODE_ADMINISTRATIVE_ACTION'',
    [(''../_m_q_t_t_reason_codes_8h.html#aba6db0fccfa3f8972ea48117b8b2a279ae1e3b428072be26d2cbf6f88361f76cc'', 1, ''MQTTReasonCodes.h'')]),
  (''mqttreasoncode_5fbad_5fauthentication_5fmethod_521'', ''MQTTREASONCODE_BAD_AUTHENTICATION_METHOD'',
    [(''../_m_q_t_t_reason_codes_8h.html#aba6db0fccfa3f8972ea48117b8b2a279af62e569703d7a7f0acffaa59522b9dc3'', 1, ''MQTTReasonCodes.h'')]),
  (''mqttreasoncode_5fbad_5fuser_5fname_5for_5fpassword_522'', ''MQTTREASONCODE_BAD_USER_NAME_OR_PASSWORD'',
    [(''../_m_q_t_t_reason_codes_8h.html#aba6db0fccfa3f8972ea48117b8b2a279abfc617112d5856722108912c5c6633ff'', 1, ''MQTTReasonCodes.h'')]),
  (''mqttreasoncode_5fbanned_523'', ''MQTTREASONCODE_BANNED'',
    [(''../_m_q_t_t_reason_codes_8h.html#aba6db0fccfa3f8972ea48117b8b2a279ab4cf7578f0078293fa66a4cd5e5d4aa4'', 1, ''MQTTReasonCodes.h'')]),
  (''mqttreasoncode_5fclient_5fidentifier_5fnot_5fvalid_524'', ''MQTTREASONCODE_CLIENT_IDENTIFIER_NOT_VALID'',
    [(''../_m_q_t_t_reason_codes_8h.html#aba6db0fccfa3f8972ea48117b8b2a279ab58bb236e7dbd000a56c590c01bc73fd'', 1, ''MQTTReasonCodes.h'')]),
  (''mqttreasoncode_5fconnection_5frate_5fexceeded_525'', ''MQTTREASONCODE_CONNECTION_RATE_EXCEEDED'',
    [(''../_m_q_t_t_reason_codes_8h.html#aba6db0fccfa3f8972ea48117b8b2a279a879c56ed34fa2dd6492e7a34a9747bc1'', 1, ''MQTTReasonCodes.h'')]),
  (''mqttreasoncode_5fcontinue_5fauthentication_526'', ''MQTTREASONCODE_CONTINUE_AUTHENTICATION'',
    [(''../_m_q_t_t_reason_codes_8h.html#aba6db0fccfa3f8972ea48117b8b2a279a0c0726c0e87eaddd636708497c69d055'', 1, ''MQTTReasonCodes.h'')]),
  (''mqttreasoncode_5fdisconnect_5fwith_5fwill_5fmessage_527'', ''MQTTREASONCODE_DISCONNECT_WITH_WILL_MESSAGE'',
    [(''../_m_q_t_t_reason_codes_8h.html#aba6db0fccfa3f8972ea48117b8b2a279a55f533a6cc98417d08dac8cc69da0ed3'', 1, ''MQTTReasonCodes.h'')]),
  (''mqttreasoncode_5fgranted_5fqos_5f0_528'', ''MQTTREASONCODE_GRANTED_QOS_0'',
    [(''../_m_q_t_t_reason_codes_8h.html#aba6db0fccfa3f8972ea48117b8b2a279a3fd0d12c0e44b4df9f716aef89b61aff'', 1, ''MQTTReasonCodes.h'')]),
  (''mqttreasoncode_5fgranted_5fqos_5f1_529'', ''MQTTREASONCODE_GRANTED_QOS_1'',
    [(''../_m_q_t_t_reason_codes_8h.html#aba6db0fccfa3f8972ea48117b8b2a279a07578b30b2d72af2eeea6be268475876'', 1, ''MQTTReasonCodes.h'')]),
  (''mqttreasoncode_5fgranted_5fqos_5f2_530'', ''MQTTREASONCODE_GRANTED_QOS_2'',
    [(''../_m_q_t_t_reason_codes_8h.html#aba6db0fccfa3f8972ea48117b8b2a279a74ac34a39a849c9c369b18545a4b1f93'', 1, ''MQTTReasonCodes.h'')]),
  (''mqttreasoncode_5fimplementation_5fspecific_5ferror_531'', ''MQTTREASONCODE_IMPLEMENTATION_SPECIFIC_ERROR'',
    [(''../_m_q_t_t_reason_codes_8h.html#aba6db0fccfa3f8972ea48117b8b2a279a41629fa453cdf14ef6a5370a16d5a19c'', 1, ''MQTTReasonCodes.h'')]),
  (''mqttreasoncode_5fkeep_5falive_5ftimeout_532'', ''MQTTREASONCODE_KEEP_ALIVE_TIMEOUT'',
    [(''../_m_q_t_t_reason_codes_8h.html#aba6db0fccfa3f8972ea48117b8b2a279af21a6c320e34993d7aa169330ab23409'', 1, ''MQTTReasonCodes.h'')]),
  (''mqttreasoncode_5fmalformed_5fpacket_533'', ''MQTTREASONCODE_MALFORMED_PACKET'',
    [(''../_m_q_t_t_reason_codes_8h.html#aba6db0fccfa3f8972ea48117b8b2a279a2cbee3502c00d304bf1091195457fcf5'', 1, ''MQTTReasonCodes.h'')]),
  (''mqttreasoncode_5fmaximum_5fconnect_5ftime_534'', ''MQTTREASONCODE_MAXIMUM_CONNECT_TIME'',
    [(''../_m_q_t_t_reason_codes_8h.html#aba6db0fccfa3f8972ea48117b8b2a279a6f07c3b42690afc7b117321dc4e2657f'', 1, ''MQTTReasonCodes.h'')]),
  (''mqttreasoncode_5fmessage_5frate_5ftoo_5fhigh_535'', ''MQTTREASONCODE_MESSAGE_RATE_TOO_HIGH'',
    [(''../_m_q_t_t_reason_codes_8h.html#aba6db0fccfa3f8972ea48117b8b2a279af76d0e32fb44fa94e407b1af5dc7aa4e'', 1, ''MQTTReasonCodes.h'')]),
  (''mqttreasoncode_5fno_5fmatching_5fsubscribers_536'', ''MQTTREASONCODE_NO_MATCHING_SUBSCRIBERS'',
    [(''../_m_q_t_t_reason_codes_8h.html#aba6db0fccfa3f8972ea48117b8b2a279a1720d8b04af4c0d92e27b378d735e899'', 1, ''MQTTReasonCodes.h'')]),
  (''mqttreasoncode_5fno_5fsubscription_5ffound_537'', ''MQTTREASONCODE_NO_SUBSCRIPTION_FOUND'',
    [(''../_m_q_t_t_reason_codes_8h.html#aba6db0fccfa3f8972ea48117b8b2a279a55208c34a26f67e112d53c54be37acb9'', 1, ''MQTTReasonCodes.h'')]),
  (''mqttreasoncode_5fnormal_5fdisconnection_538'', ''MQTTREASONCODE_NORMAL_DISCONNECTION'',
    [(''../_m_q_t_t_reason_codes_8h.html#aba6db0fccfa3f8972ea48117b8b2a279a3590f41d984646bc58c82734c1516c92'', 1, ''MQTTReasonCodes.h'')]),
  (''mqttreasoncode_5fnot_5fauthorized_539'', ''MQTTREASONCODE_NOT_AUTHORIZED'',
    [(''../_m_q_t_t_reason_codes_8h.html#aba6db0fccfa3f8972ea48117b8b2a279a91a14fc763349cf4a7047d24f13d0803'', 1, ''MQTTReasonCodes.h'')]),
  (''mqttreasoncode_5fpacket_5fidentifier_5fin_5fuse_540'', ''MQTTREASONCODE_PACKET_IDENTIFIER_IN_USE'',
    [(''../_m_q_t_t_reason_codes_8h.html#aba6db0fccfa3f8972ea48117b8b2a279adaee01dbc97a0773b5032a29c797613a'', 1, ''MQTTReasonCodes.h'')]),
  (''mqttreasoncode_5fpacket_5fidentifier_5fnot_5ffound_541'', ''MQTTREASONCODE_PACKET_IDENTIFIER_NOT_FOUND'',
    [(''../_m_q_t_t_reason_codes_8h.html#aba6db0fccfa3f8972ea48117b8b2a279a4908a8293054f8ff8d6c47fe0cf31932'', 1, ''MQTTReasonCodes.h'')]),
  (''mqttreasoncode_5fpacket_5ftoo_5flarge_542'', ''MQTTREASONCODE_PACKET_TOO_LARGE'',
    [(''../_m_q_t_t_reason_codes_8h.html#aba6db0fccfa3f8972ea48117b8b2a279a11a587e15c468bf1c6ba9df7e8fd78aa'', 1, ''MQTTReasonCodes.h'')]),
  (''mqttreasoncode_5fpayload_5fformat_5finvalid_543'', ''MQTTREASONCODE_PAYLOAD_FORMAT_INVALID'',
    [(''../_m_q_t_t_reason_codes_8h.html#aba6db0fccfa3f8972ea48117b8b2a279a2d629400116e1723c5e2e597bbfe29ca'', 1, ''MQTTReasonCodes.h'')]),
  (''mqttreasoncode_5fprotocol_5ferror_544'', ''MQTTREASONCODE_PROTOCOL_ERROR'',
    [(''../_m_q_t_t_reason_codes_8h.html#aba6db0fccfa3f8972ea48117b8b2a279ae0dad403f352e31449764e2ac94c7756'', 1, ''MQTTReasonCodes.h'')]),
  (''mqttreasoncode_5fqos_5fnot_5fsupported_545'', ''MQTTREASONCODE_QOS_NOT_SUPPORTED'',
    [(''../_m_q_t_t_reason_codes_8h.html#aba6db0fccfa3f8972ea48117b8b2a279a83865a2440b512e5602152521e3810bb'', 1, ''MQTTReasonCodes.h'')]),
  (''mqttreasoncode_5fquota_5fexceeded_546'', ''MQTTREASONCODE_QUOTA_EXCEEDED'',
    [(''../_m_q_t_t_reason_codes_8h.html#aba6db0fccfa3f8972ea48117b8b2a279a954fcabf6e88925b2a57bcd84032d9f9'', 1, ''MQTTReasonCodes.h'')]),
  (''mqttreasoncode_5fre_5fauthenticate_547'', ''MQTTREASONCODE_RE_AUTHENTICATE'',
    [(''../_m_q_t_t_reason_codes_8h.html#aba6db0fccfa3f8972ea48117b8b2a279a6cc1b342856c1d96d54c368148b536f7'', 1, ''MQTTReasonCodes.h'')]),
  (''mqttreasoncode_5freceive_5fmaximum_5fexceeded_548'', ''MQTTREASONCODE_RECEIVE_MAXIMUM_EXCEEDED'',
    [(''../_m_q_t_t_reason_codes_8h.html#aba6db0fccfa3f8972ea48117b8b2a279a45afaacbefd2d816fddf9fe9804b61d1'', 1, ''MQTTReasonCodes.h'')]),
  (''mqttreasoncode_5fretain_5fnot_5fsupported_549'', ''MQTTREASONCODE_RETAIN_NOT_SUPPORTED'',
    [(''../_m_q_t_t_reason_codes_8h.html#aba6db0fccfa3f8972ea48117b8b2a279aa4378012148d98599398bc4a3480c38f'', 1, ''MQTTReasonCodes.h'')]),
  (''mqttreasoncode_5fserver_5fbusy_550'', ''MQTTREASONCODE_SERVER_BUSY'',
    [(''../_m_q_t_t_reason_codes_8h.html#aba6db0fccfa3f8972ea48117b8b2a279af507e75147b0b34f36955c9f62389a74'', 1, ''MQTTReasonCodes.h'')]),
  (''mqttreasoncode_5fserver_5fmoved_551'', ''MQTTREASONCODE_SERVER_MOVED'',
    [(''../_m_q_t_t_reason_codes_8h.html#aba6db0fccfa3f8972ea48117b8b2a279a783254c7acf8de52ee345bc176f9d6c0'', 1, ''MQTTReasonCodes.h'')]),
  (''mqttreasoncode_5fserver_5fshutting_5fdown_552'', ''MQTTREASONCODE_SERVER_SHUTTING_DOWN'',
    [(''../_m_q_t_t_reason_codes_8h.html#aba6db0fccfa3f8972ea48117b8b2a279a085e1572ffce61838807b7429b691113'', 1, ''MQTTReasonCodes.h'')]),
  (''mqttreasoncode_5fserver_5funavailable_553'', ''MQTTREASONCODE_SERVER_UNAVAILABLE'',
    [(''../_m_q_t_t_reason_codes_8h.html#aba6db0fccfa3f8972ea48117b8b2a279a0cfd4de78870b3fb0499b916d06d40bb'', 1, ''MQTTReasonCodes.h'')]),
  (''mqttreasoncode_5fsession_5ftaken_5fover_554'', ''MQTTREASONCODE_SESSION_TAKEN_OVER'',
    [(''../_m_q_t_t_reason_codes_8h.html#aba6db0fccfa3f8972ea48117b8b2a279ad15ffa6884f97976e237afafcbccea21'', 1, ''MQTTReasonCodes.h'')]),
  (''mqttreasoncode_5fshared_5fsubscriptions_5fnot_5fsupported_555'', ''MQTTREASONCODE_SHARED_SUBSCRIPTIONS_NOT_SUPPORTED'',
    [(''../_m_q_t_t_reason_codes_8h.html#aba6db0fccfa3f8972ea48117b8b2a279a1c694648e36a40162939a2785450b6bd'', 1, ''MQTTReasonCodes.h'')]),
  (''mqttreasoncode_5fsubscription_5fidentifiers_5fnot_5fsupported_556'', ''MQTTREASONCODE_SUBSCRIPTION_IDENTIFIERS_NOT_SUPPORTED'',
    [(''../_m_q_t_t_reason_codes_8h.html#aba6db0fccfa3f8972ea48117b8b2a279a7bcd0f9b21c398a217667aebb4107842'', 1, ''MQTTReasonCodes.h'')]),
  (''mqttreasoncode_5fsuccess_557'', ''MQTTREASONCODE_SUCCESS'',
    [(''../_m_q_t_t_reason_codes_8h.html#aba6db0fccfa3f8972ea48117b8b2a279a63b379af5fba8c0512b381a4dbe26969'', 1, ''MQTTReasonCodes.h'')]),
  (''mqttreasoncode_5ftopic_5falias_5finvalid_558'', ''MQTTREASONCODE_TOPIC_ALIAS_INVALID'',
    [(''../_m_q_t_t_reason_codes_8h.html#aba6db0fccfa3f8972ea48117b8b2a279a8e0fcdd051e154e319058600b58652ec'', 1, ''MQTTReasonCodes.h'')]),
  (''mqttreasoncode_5ftopic_5ffilter_5finvalid_559'', ''MQTTREASONCODE_TOPIC_FILTER_INVALID'',
    [(''../_m_q_t_t_reason_codes_8h.html#aba6db0fccfa3f8972ea48117b8b2a279a00319b171f469824dd6938cbd0212b5b'', 1, ''MQTTReasonCodes.h'')]),
  (''mqttreasoncode_5ftopic_5fname_5finvalid_560'', ''MQTTREASONCODE_TOPIC_NAME_INVALID'',
    [(''../_m_q_t_t_reason_codes_8h.html#aba6db0fccfa3f8972ea48117b8b2a279a6268968177868576f6b9239aa9afd8ac'', 1, ''MQTTReasonCodes.h'')]),
  (''mqttreasoncode_5funspecified_5ferror_561'', ''MQTTREASONCODE_UNSPECIFIED_ERROR'',
    [(''../_m_q_t_t_reason_codes_8h.html#aba6db0fccfa3f8972ea48117b8b2a279a1881ee597bfef9157f0034a1377328e3'', 1, ''MQTTReasonCodes.h'')]),
  (''mqttreasoncode_5funsupported_5fprotocol_5fversion_562'', ''MQTTREASONCODE_UNSUPPORTED_PROTOCOL_VERSION'',
    [(''../_m_q_t_t_reason_codes_8h.html#aba6db0fccfa3f8972ea48117b8b2a279a021ceca20e6d35279075a2b93ece973d'', 1, ''MQTTReasonCodes.h'')]),
  (''mqttreasoncode_5fuse_5fanother_5fserver_563'', ''MQTTREASONCODE_USE_ANOTHER_SERVER'',
    [(''../_m_q_t_t_reason_codes_8h.html#aba6db0fccfa3f8972ea48117b8b2a279aabaee4062c4e4941b9eed59f09e9440c'', 1, ''MQTTReasonCodes.h'')]),
  (''mqttreasoncode_5fwildcard_5fsubscriptions_5fnot_5fsupported_564'', ''MQTTREASONCODE_WILDCARD_SUBSCRIPTIONS_NOT_SUPPORTED'',
    [(''../_m_q_t_t_reason_codes_8h.html#aba6db0fccfa3f8972ea48117b8b2a279a81b5708f676f52594b680f085e444e1f'', 1, ''MQTTReasonCodes.h'')])]"

lemma client_enumvalues_0_wf: "index_wf CHR ''m'' 479 client_enumvalues_0"
  by (rule index_wf_check) (simp add: client_enumvalues_0_def index_eval del: One_nat_def)

lemma client_enumvalues_0_file: "index_file CHR ''m'' client_enumvalues_0"
  by (rule index_fileI [OF _ client_enumvalues_0_wf]) (simp add: client_enumvalues_0_def)

definition client_defines_0 :: "search_entry list" where
  "client_defines_0 = [
  (''mqtt_5fbad_5fsubscribe_565'', ''MQTT_BAD_SUBSCRIBE'',
    [(''../_m_q_t_t_client_8h.html#ade337b363b7f4bc7c1a7b2858e0380bd'', 1, ''MQTTClient.h'')]),
  (''mqtt_5finvalid_5fproperty_5fid_566'', ''MQTT_INVALID_PROPERTY_ID'',
    [(''../_m_q_t_t_properties_8h.html#afc56d2e8937a0c8f180d68ad93945945'', 1, ''MQTTProperties.h'')]),
  (''mqtt_5fssl_5fversion_5fdefault_567'', ''MQTT_SSL_VERSION_DEFAULT'',
    [(''../_m_q_t_t_client_8h.html#a2549ea897af26c76198284731db9e721'', 1, ''MQTTClient.h'')]),
  (''mqtt_5fssl_5fversion_5ftls_5f1_5f0_568'', ''MQTT_SSL_VERSION_TLS_1_0'',
    [(''../_m_q_t_t_client_8h.html#a7e5da3d6f0d2b53409bbfcf6e56f3d2d'', 1, ''MQTTClient.h'')]),
  (''mqtt_5fssl_5fversion_5ftls_5f1_5f1_569'', ''MQTT_SSL_VERSION_TLS_1_1'',
    [(''../_m_q_t_t_client_8h.html#abdff87efa3f2ee473a1591e10638b537'', 1, ''MQTTClient.h'')]),
  (''mqtt_5fssl_5fversion_5ftls_5f1_5f2_570'', ''MQTT_SSL_VERSION_TLS_1_2'',
    [(''../_m_q_t_t_client_8h.html#a3a94dbdeafbb73c73a068e7c2085fbab'', 1, ''MQTTClient.h'')]),
  (''mqttclient_5f0_5flen_5fwill_5ftopic_571'', ''MQTTCLIENT_0_LEN_WILL_TOPIC'',
    [(''../_m_q_t_t_client_8h.html#aacf90ba5292e25122e6fd5ec2a38efe5'', 1, ''MQTTClient.h'')]),
  (''mqttclient_5fbad_5fmqtt_5foption_572'', ''MQTTCLIENT_BAD_MQTT_OPTION'',
    [(''../_m_q_t_t_client_8h.html#a1babaca56ffae802fa1e246a2649927e'', 1, ''MQTTClient.h'')]),
  (''mqttclient_5fbad_5fmqtt_5fversion_573'', ''MQTTCLIENT_BAD_MQTT_VERSION'',
    [(''../_m_q_t_t_client_8h.html#aab84cecd25638896eb45b8f5ffd82bf7'', 1, ''MQTTClient.h'')]),
  (''mqttclient_5fbad_5fprotocol_574'', ''MQTTCLIENT_BAD_PROTOCOL'',
    [(''../_m_q_t_t_client_8h.html#a1d0cb25b450136f036a238546487344a'', 1, ''MQTTClient.h'')]),
  (''mqttclient_5fbad_5fqos_575'', ''MQTTCLIENT_BAD_QOS'',
    [(''../_m_q_t_t_client_8h.html#a51cc8ca032acf4ae14f83996524b8cdc'', 1, ''MQTTClient.h'')]),
  (''mqttclient_5fbad_5fstructure_576'', ''MQTTCLIENT_BAD_STRUCTURE'',
    [(''../_m_q_t_t_client_8h.html#a747615d8064e3fe024ae5565ec63e1ce'', 1, ''MQTTClient.h'')]),
  (''mqttclient_5fbad_5futf8_5fstring_577'', ''MQTTCLIENT_BAD_UTF8_STRING'',
    [(''../_m_q_t_t_client_8h.html#a678a4744192de9c8dca220d9965809dd'', 1, ''MQTTClient.h'')]),
  (''mqttclient_5fconnectoptions_5finitializer_578'', ''MQTTClient_connectOptions_initializer'',
    [(''../_m_q_t_t_client_8h.html#aefd7c865f2641c8155b763fdf3061c25'', 1, ''MQTTClient.h'')]),
  (''mqttclient_5fconnectoptions_5finitializer5_579'', ''MQTTClient_connectOptions_initializer5'',
    [(''../_m_q_t_t_client_8h.html#a1f0c7608262ac9c00cb94e9c8f9fc984'', 1, ''MQTTClient.h'')]),
  (''mqttclient_5fconnectoptions_5finitializer5_5fws_580'', ''MQTTClient_connectOptions_initializer5_ws'',
    [(''../_m_q_t_t_client_8h.html#a8c37c9f77f0b67e2520c8f91acf1afea'', 1, ''MQTTClient.h'')]),
  (''mqttclient_5fconnectoptions_5finitializer_5fws_581'', ''MQTTClient_connectOptions_initializer_ws'',
    [(''../_m_q_t_t_client_8h.html#a0a98fda162a78ee8c8cbd7d9d39494f4'', 1, ''MQTTClient.h'')]),
  (''mqttclient_5fcreateoptions_5finitializer_582'', ''MQTTClient_createOptions_initializer'',
    [(''../_m_q_t_t_client_8h.html#a763e477a5aceb6aff279111c7693e691'', 1, ''MQTTClient.h'')]),
  (''mqttclient_5fdisconnected_583'', ''MQTTCLIENT_DISCONNECTED'',
    [(''../_m_q_t_t_client_8h.html#a561d053311cb492cf7226f419ee0d516'', 1, ''MQTTClient.h'')]),
  (''mqttclient_5ffailure_584'', ''MQTTCLIENT_FAILURE'',
    [(''../_m_q_t_t_client_8h.html#af33a6d6c0e8a6a747bf39638e0bba36b'', 1, ''MQTTClient.h'')]),
  (''mqttclient_5finit_5foptions_5finitializer_585'', ''MQTTClient_init_options_initializer'',
    [(''../_m_q_t_t_client_8h.html#ac17057c8c22c0717d3adf4e040440f73'', 1, ''MQTTClient.h'')]),
  (''mqttclient_5fmax_5fmessages_5finflight_586'', ''MQTTCLIENT_MAX_MESSAGES_INFLIGHT'',
    [(''../_m_q_t_t_client_8h.html#a8fc442fc2e9dfb422a163ab1fa02e0cb'', 1, ''MQTTClient.h'')]),
  (''mqttclient_5fmessage_5finitializer_587'', ''MQTTClient_message_initializer'',
    [(''../_m_q_t_t_client_8h.html#aa1fd995924d3df75959fcf57e87aefac'', 1, ''MQTTClient.h'')]),
  (''mqttclient_5fnull_5fparameter_588'', ''MQTTCLIENT_NULL_PARAMETER'',
    [(''../_m_q_t_t_client_8h.html#ac3232abd7f86bbba26faea0e2b132c3c'', 1, ''MQTTClient.h'')]),
  (''mqttclient_5fpersistence_5fdefault_589'', ''MQTTCLIENT_PERSISTENCE_DEFAULT'',
    [(''../_m_q_t_t_client_persistence_8h.html#aaa948291718a9c06369b854b0f64bc32'', 1, ''MQTTClientPersistence.h'')]),
  (''mqttclient_5fpersistence_5ferror_590'', ''MQTTCLIENT_PERSISTENCE_ERROR'',
    [(''../_m_q_t_t_client_persistence_8h.html#ab716e21e53c84a5ad62aa962a2a8f7db'', 1, ''MQTTClientPersistence.h'')]),
  (''mqttclient_5fpersistence_5fnone_591'', ''MQTTCLIENT_PERSISTENCE_NONE'',
    [(''../_m_q_t_t_client_persistence_8h.html#ae01e089313a65ac4661ed216b6ac00fa'', 1, ''MQTTClientPersistence.h'')]),
  (''mqttclient_5fpersistence_5fuser_592'', ''MQTTCLIENT_PERSISTENCE_USER'',
    [(''../_m_q_t_t_client_persistence_8h.html#a5dc68b8616e4041e037bad94ce07681b'', 1, ''MQTTClientPersistence.h'')]),
  (''mqttclient_5fssl_5fnot_5fsupported_593'', ''MQTTCLIENT_SSL_NOT_SUPPORTED'',
    [(''../_m_q_t_t_client_8h.html#a1c67fc83ba1a8f26236aa49b127bdb61'', 1, ''MQTTClient.h'')]),
  (''mqttclient_5fssloptions_5finitializer_594'', ''MQTTClient_SSLOptions_initializer'',
    [(''../_m_q_t_t_client_8h.html#ab9b2a2c6b52dbb2ac842ad99a9ce6d99'', 1, ''MQTTClient.h'')]),
  (''mqttclient_5fsuccess_595'', ''MQTTCLIENT_SUCCESS'',
    [(''../_m_q_t_t_client_8h.html#acba095704d79e5a1996389fa26203f73'', 1, ''MQTTClient.h'')]),
  (''mqttclient_5ftopicname_5ftruncated_596'', ''MQTTCLIENT_TOPICNAME_TRUNCATED'',
    [(''../_m_q_t_t_client_8h.html#a29afebfce0bdf6cda1e37abc0c4b6690'', 1, ''MQTTClient.h'')]),
  (''mqttclient_5fwilloptions_5finitializer_597'', ''MQTTClient_willOptions_initializer'',
    [(''../_m_q_t_t_client_8h.html#aae0811659c59f5dad0467544f91645eb'', 1, ''MQTTClient.h'')]),
  (''mqttclient_5fwrong_5fmqtt_5fversion_598'', ''MQTTCLIENT_WRONG_MQTT_VERSION'',
    [(''../_m_q_t_t_client_8h.html#ae9070d21de569f999a9575049cdd6da1'', 1, ''MQTTClient.h'')]),
  (''mqttproperties_5finitializer_599'', ''MQTTProperties_initializer'',
    [(''../_m_q_t_t_properties_8h.html#a5a80e158486a414ccdfcdd7f75f23988'', 1, ''MQTTProperties.h'')]),
  (''mqttresponse_5finitializer_600'', ''MQTTResponse_initializer'',
    [(''../_m_q_t_t_client_8h.html#a17f171200136bcfa933eb50ef21531a7'', 1, ''MQTTClient.h'')]),
  (''mqttsubscribe_5foptions_5finitializer_601'', ''MQTTSubscribe_options_initializer'',
    [(''../_m_q_t_t_subscribe_opts_8h.html#aec3b45fd0367106eea344396f87cfda7'', 1, ''MQTTSubscribeOpts.h'')]),
  (''mqttversion_5f3_5f1_602'', ''MQTTVERSION_3_1'',
    [(''../_m_q_t_t_client_8h.html#a4603b988e76872e1f23f135d225ce2fb'', 1, ''MQTTClient.h'')]),
  (''mqttversion_5f3_5f1_5f1_603'', ''MQTTVERSION_3_1_1'',
    [(''../_m_q_t_t_client_8h.html#ac79cc6fdeaa9e3f4ee12c3418898b1ef'', 1, ''MQTTClient.h'')]),
  (''mqttversion_5f5_604'', ''MQTTVERSION_5'',
    [(''../_m_q_t_t_client_8h.html#af8b176fa4d5b89789767ce972338e1e3'', 1, ''MQTTClient.h'')]),
  (''mqttversion_5fdefault_605'', ''MQTTVERSION_DEFAULT'',
    [(''../_m_q_t_t_client_8h.html#a75b80b01f98d5a1ffa2a4d42995a8397'', 1, ''MQTTClient.h'')])]"

lemma client_defines_0_wf: "index_wf CHR ''m'' 565 client_defines_0"
  by (rule index_wf_check) (simp add: client_defines_0_def index_eval del: One_nat_def)

lemma client_defines_0_file: "index_file CHR ''m'' client_defines_0"
  by (rule index_fileI [OF _ client_defines_0_wf]) (simp add: client_defines_0_def)

definition client_pages_0 :: "search_entry list" where
  "client_pages_0 = [
  (''asynchronous_20publication_20example_606'', ''Asynchronous publication example'',
    [(''../pubasync.html'', 1, '''')]),
  (''asynchronous_20subscription_20example_607'', ''Asynchronous subscription example'',
    [(''../subasync.html'', 1, '''')]),
  (''asynchronous_20vs_20synchronous_20client_20applications_608'', ''Asynchronous vs synchronous client applications'',
    [(''../async.html'', 1, '''')])]"

lemma client_pages_0_wf: "index_wf CHR ''a'' 606 client_pages_0"
  by (rule index_wf_check) (simp add: client_pages_0_def index_eval del: One_nat_def)

lemma client_pages_0_file: "index_file CHR ''a'' client_pages_0"
  by (rule index_fileI [OF _ client_pages_0_wf]) (simp add: client_pages_0_def)

definition client_pages_1 :: "search_entry list" where
  "client_pages_1 = [
  (''callbacks_609'', ''Callbacks'',
    [(''../callbacks.html'', 1, '''')])]"

lemma client_pages_1_wf: "index_wf CHR ''c'' 609 client_pages_1"
  by (rule index_wf_check) (simp add: client_pages_1_def index_eval del: One_nat_def)

lemma client_pages_1_file: "index_file CHR ''c'' client_pages_1"
  by (rule index_fileI [OF _ client_pages_1_wf]) (simp add: client_pages_1_def)

definition client_pages_2 :: "search_entry list" where
  "client_pages_2 = [
  (''mqtt_20client_20library_20for_20c_20_28mqttclient_29_610'', ''MQTT Client library for C (MQTTClient)'',
    [(''../index.html'', 1, '''')])]"

lemma client_pages_2_wf: "index_wf CHR ''m'' 610 client_pages_2"
  by (rule index_wf_check) (simp add: client_pages_2_def index_eval del: One_nat_def)

lemma client_pages_2_file: "index_file CHR ''m'' client_pages_2"
  by (rule index_fileI [OF _ client_pages_2_wf]) (simp add: client_pages_2_def)

definition client_pages_3 :: "search_entry list" where
  "client_pages_3 = [
  (''quality_20of_20service_611'', ''Quality of service'',
    [(''../qos.html'', 1, '''')])]"

lemma client_pages_3_wf: "index_wf CHR ''q'' 611 client_pages_3"
  by (rule index_wf_check) (simp add: client_pages_3_def index_eval del: One_nat_def)

lemma client_pages_3_file: "index_file CHR ''q'' client_pages_3"
  by (rule index_fileI [OF _ client_pages_3_wf]) (simp add: client_pages_3_def)

definition client_pages_4 :: "search_entry list" where
  "client_pages_4 = [
  (''subscription_20wildcards_612'', ''Subscription wildcards'',
    [(''../wildcard.html'', 1, '''')]),
  (''synchronous_20publication_20example_613'', ''Synchronous publication example'',
    [(''../pubsync.html'', 1, '''')])]"

lemma client_pages_4_wf: "index_wf CHR ''s'' 612 client_pages_4"
  by (rule index_wf_check) (simp add: client_pages_4_def index_eval del: One_nat_def)

lemma client_pages_4_file: "index_file CHR ''s'' client_pages_4"
  by (rule index_fileI [OF _ client_pages_4_wf]) (simp add: client_pages_4_def)

definition client_pages_5 :: "search_entry list" where
  "client_pages_5 = [
  (''tracing_614'', ''Tracing'',
    [(''../tracing.html'', 1, '''')])]"

lemma client_pages_5_wf: "index_wf CHR ''t'' 614 client_pages_5"
  by (rule index_wf_check) (simp add: client_pages_5_def index_eval del: One_nat_def)

lemma client_pages_5_file: "index_file CHR ''t'' client_pages_5"
  by (rule index_fileI [OF _ client_pages_5_wf]) (simp add: client_pages_5_def)

end
