(* ===== verification/IndexInternalAll.thy ===== *)
theory IndexInternalAll
  imports SearchId
begin

text \<open>
  The index of all names of the reference of the internals of the client library:
  \<^verbatim>\<open>docs/MQTTClient_internal/html/search/all_*.js\<close>, one definition per file
  (a long one in parts), each with the check that it is well-formed.
\<close>

definition internal_all_0 :: "search_entry list" where
  "internal_all_0 = [
  (''_5f_5fpad0_5f_5f_0'', ''__pad0__'',
    [(''../structConnect.html#a9a33c7cfd83c02e341a8326683fa84d8'', 1, ''Connect'')]),
  (''_5funlink_1'', ''_unlink'',
    [(''../Log_8c.html#a411530253569ea29a964f13204da8848'', 1, ''Log.c'')])]"

lemma internal_all_0_wf: "index_wf CHR ''_'' 0 internal_all_0"
  by (rule index_wf_check) (simp add: internal_all_0_def index_eval del: One_nat_def)

lemma internal_all_0_file: "index_file CHR ''_'' internal_all_0"
  by (rule index_fileI [OF _ internal_all_0_wf]) (simp add: internal_all_0_def)

definition internal_all_1 :: "search_entry list" where
  "internal_all_1 = [
  (''ack_2'', ''Ack'',
    [(''../structAck.html'', 1, '''')]),
  (''ackrequest_3'', ''AckRequest'',
    [(''../structAckRequest.html'', 1, '''')]),
  (''afterread_4'', ''afterRead'',
    [(''../structClients.html#a32899a8e944eef969c834833388fb91e'', 1, ''Clients'')]),
  (''afterread_5fcontext_5'', ''afterRead_context'',
    [(''../structClients.html#a429110f440ce0de51d60324fa8b8cc57'', 1, ''Clients'')]),
  (''all_6'', ''all'',
    [(''../structConnect.html#a7a4ee927261ade96ec6a800978f37970'', 1, ''Connect::all()''),
     (''../structConnack.html#aa2355d305cb311d356af339c44a852c7'', 1, ''Connack::all()'')]),
  (''allow_5fduplicates_7'', ''allow_duplicates'',
    [(''../structTree.html#a4098c257d75639b6775553b27e13bbfd'', 1, ''Tree'')]),
  (''allowdisconnectedsendatanytime_8'', ''allowDisconnectedSendAtAnyTime'',
    [(''../structMQTTAsync__createOptions.html#a8ab45ad21f70abfea24a248b7a83d9f7'', 1, ''MQTTAsync_createOptions'')]),
  (''alt_9'', ''alt'',
    [(''../structMQTTAsync__successData.html#af2b2a98191b00dbd7c592f2ef013ba87'', 1, ''MQTTAsync_successData::alt()''),
     (''../structMQTTAsync__successData5.html#ab8c810f026ac58874c1fd0b112bdda71'', 1, ''MQTTAsync_successData5::alt()'')]),
  (''array_10'', ''array'',
    [(''../structMQTTProperties.html#af2d57fd95f759ef758ff77b07e8683cd'', 1, ''MQTTProperties'')]),
  (''array_5fsize_11'', ''ARRAY_SIZE'',
    [(''../utf-8_8c.html#a25f003de16c08a4888b69f619d70f427'', 1, ''utf-8.c'')]),
  (''automaticreconnect_12'', ''automaticReconnect'',
    [(''../structMQTTAsync__connectOptions.html#acc2d253ca78b0c32813dbdc24b0c5f7a'', 1, ''MQTTAsync_connectOptions'')])]"

lemma internal_all_1_wf: "index_wf CHR ''a'' 2 internal_all_1"
  by (rule index_wf_check) (simp add: internal_all_1_def index_eval del: One_nat_def)

lemma internal_all_1_file: "index_file CHR ''a'' internal_all_1"
  by (rule index_fileI [OF _ internal_all_1_wf]) (simp add: internal_all_1_def)

definition internal_all_2 :: "search_entry list" where
  "internal_all_2 = [
  (''beforewrite_13'', ''beforeWrite'',
    [(''../structClients.html#acb5a2bdb04148e714a123b6a14b34cb9'', 1, ''Clients'')]),
  (''beforewrite_5fcontext_14'', ''beforeWrite_context'',
    [(''../structClients.html#a57ec2f443b8de574ede8a62a6a3212db'', 1, ''Clients'')]),
  (''binarypwd_15'', ''binarypwd'',
    [(''../structMQTTAsync__connectData.html#a8643b5dacde868343c91cf6ad68d56b8'', 1, ''MQTTAsync_connectData::binarypwd()''),
     (''../structMQTTAsync__connectOptions.html#a71b40f4b4aeb26270f4d5df001656d41'', 1, ''MQTTAsync_connectOptions::binarypwd()''),
     (''../structMQTTClient__connectOptions.html#acfff5a62e87b80f205a1f83fdde5653d'', 1, ''MQTTClient_connectOptions::binarypwd()'')]),
  (''buffers_16'', ''buffers'',
    [(''../structPacketBuffers.html#a286d27793c957cc729d40272b31a1b53'', 1, ''PacketBuffers'')]),
  (''buflen_17'', ''buflen'',
    [(''../structsocket__queue.html#ab38f6d48de7c8905c3124ee1de4eac71'', 1, ''socket_queue'')]),
  (''buflens_18'', ''buflens'',
    [(''../structPacketBuffers.html#a359895b0df7be5369344eb2e6122c067'', 1, ''PacketBuffers'')]),
  (''byte_19'', ''byte'',
    [(''../unionHeader.html#a75d550e644fb0f4ae2be1a33d0d89ec6'', 1, ''Header::byte()''),
     (''../structMQTTProperty.html#acf819eac134fafe7e284598b4e6897e3'', 1, ''MQTTProperty::byte()'')]),
  (''bytes_20'', ''bytes'',
    [(''../utf-8_8c.html#abf4b7aec66b165e9a0a8e3a4ad69f863'', 1, ''utf-8.c'')])]"

lemma internal_all_2_wf: "index_wf CHR ''b'' 13 internal_all_2"
  by (rule index_wf_check) (simp add: internal_all_2_def index_eval del: One_nat_def)

lemma internal_all_2_file: "index_file CHR ''b'' internal_all_2"
  by (rule index_fileI [OF _ internal_all_2_wf]) (simp add: internal_all_2_def)

definition internal_all_3 :: "search_entry list" where
  "internal_all_3 = [
  (''call_5fdisconnected_21'', ''call_disconnected'',
    [(''../MQTTClient_8c.html#adbcf69dbaf0a0dcbcc87d23f99e73fca'', 1, ''MQTTClient.c'')]),
  (''capath_22'', ''CApath'',
    [(''../structMQTTAsync__SSLOptions.html#a2c5cc887b0fd4a388b0bef9163d5b1ab'', 1, ''MQTTAsync_SSLOptions::CApath()''),
     (''../structMQTTClient__SSLOptions.html#a1901b5590afdc86db8e542c0d49f5106'', 1, ''MQTTClient_SSLOptions::CApath()'')]),
  (''child_23'', ''child'',
    [(''../structNodeStruct.html#a6f84842a1ac8bf4ea19a3bb6b4af9c4d'', 1, ''NodeStruct'')]),
  (''cleansession_24'', ''cleansession'',
    [(''../structMQTTClient__connectOptions.html#a03a2cfaf17483f1b0aab2a70f3ef30d9'', 1, ''MQTTClient_connectOptions::cleansession()''),
     (''../structMQTTAsync__connectOptions.html#ac4addd2c4614cfc12c9dd7e199a989ff'', 1, ''MQTTAsync_connectOptions::cleansession()''),
     (''../structClients.html#a9853b4a06c38478148ab09fe9ccff423'', 1, ''Clients::cleansession()'')]),
  (''cleanstart_25'', ''cleanstart'',
    [(''../structClients.html#a8e1ca3c305b51f86c29d246a60d0fec2'', 1, ''Clients::cleanstart()''),
     (''../structConnect.html#a1ecdff766bc9f572a2d1a3ae22bd0bca'', 1, ''Connect::cleanstart()'')]),
  (''clientid_26'', ''clientID'',
    [(''../structClients.html#aab6a37dbb279f1f1819bd89f75695e92'', 1, ''Clients::clientID()''),
     (''../structConnect.html#aa0063fa6349a7fb5be89cf1cbe4043b4'', 1, ''Connect::clientID()'')]),
  (''clientidcompare_27'', ''clientIDCompare'',
    [(''../Clients_8c.html#a961b1c46020c65b7ffd662500d1c849d'', 1, ''Clients.c'')]),
  (''clients_28'', ''Clients'',
    [(''../structClients.html'', 1, '''')]),
  (''clients_2ec_29'', ''Clients.c'',
    [(''../Clients_8c.html'', 1, '''')]),
  (''clientsockcompare_30'', ''clientSockCompare'',
    [(''../MQTTClient_8c.html#ac35494adea1f11d3480b50b8a7f0c17d'', 1, ''MQTTClient.c'')]),
  (''clientsocketcompare_31'', ''clientSocketCompare'',
    [(''../Clients_8c.html#a82dc4e265fecdaea2810ccdeab0abf52'', 1, ''Clients.c'')]),
  (''clientstates_32'', ''ClientStates'',
    [(''../structClientStates.html'', 1, '''')]),
  (''code_33'', ''code'',
    [(''../structMQTTAsync__failureData5.html#ac92de089ce2d9ae81b2c4b0dc1f97792'', 1, ''MQTTAsync_failureData5::code()''),
     (''../structMQTTAsync__failureData.html#acbdff200c2c6ac593c88cd0b677921e2'', 1, ''MQTTAsync_failureData::code()'')]),
  (''compare_34'', ''compare'',
    [(''../structTree.html#a9c7cc2fbf66ff51c0d90be03f3562c84'', 1, ''Tree'')]),
  (''cond_5ftype_5fstruct_35'', ''cond_type_struct'',
    [(''../structcond__type__struct.html'', 1, '''')]),
  (''conlost_5fsync_5fdata_36'', ''conlost_sync_data'',
    [(''../structconlost__sync__data.html'', 1, '''')]),
  (''connack_37'', ''Connack'',
    [(''../structConnack.html'', 1, '''')]),
  (''connect_38'', ''Connect'',
    [(''../structConnect.html'', 1, '''')]),
  (''connect_5fcount_39'', ''connect_count'',
    [(''../structClients.html#a46550d6ea8cf3480bb754afa56f516d5'', 1, ''Clients'')]),
  (''connect_5fpending_40'', ''connect_pending'',
    [(''../structSockets.html#ac1b74c5f7fd463159318d2ef3c8fcee6'', 1, ''Sockets'')]),
  (''connect_5fsent_41'', ''connect_sent'',
    [(''../structClients.html#a02e9acc54d3df8770178f16694c1f405'', 1, ''Clients'')]),
  (''connected_42'', ''connected'',
    [(''../structClients.html#adc2f2a83ccacde92ad6b4ee304fc3e6a'', 1, ''Clients'')]),
  (''connectionlost_5fcall_43'', ''connectionLost_call'',
    [(''../MQTTClient_8c.html#a0c0d8194bf8a449928881cf83276728e'', 1, ''MQTTClient.c'')]),
  (''connectproperties_44'', ''connectProperties'',
    [(''../structMQTTAsync__connectOptions.html#ad10d2f263a6802ec6a3a74e0cf9a7453'', 1, ''MQTTAsync_connectOptions'')]),
  (''connecttimeout_45'', ''connectTimeout'',
    [(''../structMQTTAsync__connectOptions.html#a0f2fb050e48f46332523fe1e48c04980'', 1, ''MQTTAsync_connectOptions::connectTimeout()''),
     (''../structMQTTClient__connectOptions.html#ab6713be91e99a94a7168bbcac02f6beb'', 1, ''MQTTClient_connectOptions::connectTimeout()'')]),
  (''content_46'', ''content'',
    [(''../structNodeStruct.html#aa605b943d1cb013da384c37f5a074285'', 1, ''NodeStruct::content()''),
     (''../structListElementStruct.html#a808c5a8a407bec041d0817705561ffd5'', 1, ''ListElementStruct::content()'')]),
  (''context_47'', ''context'',
    [(''../structMQTTClient__persistence.html#a2066e737e00f3fcb016152b4a9cedad6'', 1, ''MQTTClient_persistence::context()''),
     (''../structMQTTAsync__disconnectOptions.html#a6c8a7ef5c761e46d17750919eb4dadd3'', 1, ''MQTTAsync_disconnectOptions::context()''),
     (''../structMQTTAsync__connectOptions.html#ab1def8c5155a84603d6827664d59537c'', 1, ''MQTTAsync_connectOptions::context()''),
     (''../structMQTTAsync__responseOptions.html#a1d39a3f47712791b00ec7faab14c839a'', 1, ''MQTTAsync_responseOptions::context()''),
     (''../structClients.html#ae0c3a79f1943071fe9d336014cf5826a'', 1, ''Clients::context()'')]),
  (''count_48'', ''count'',
    [(''../structList.html#a7d50f0a95a04faab8c250bc6ea28a67d'', 1, ''List::count()''),
     (''../structMQTTProperties.html#a0eaa838640c90af2a963d7e0b23ff4e5'', 1, ''MQTTProperties::count()''),
     (''../structTree.html#ad13cc776048feb0a19c640c8f1d1ffd6'', 1, ''Tree::count()'')]),
  (''cur_5ffd_49'', ''cur_fd'',
    [(''../structSockets.html#a4ebc1178e3d1516f31b7dbc276cfde2b'', 1, ''Sockets'')]),
  (''current_50'', ''current'',
    [(''../structList.html#a76dacd2c880fb9a86ab7c0f3aa4ee624'', 1, ''List'')]),
  (''current_5fsize_51'', ''current_size'',
    [(''../structheap__info.html#a26c9bfacf416872c953138adc64e1a3d'', 1, ''heap_info'')])]"

lemma internal_all_3_wf: "index_wf CHR ''c'' 21 internal_all_3"
  by (rule index_wf_check) (simp add: internal_all_3_def index_eval del: One_nat_def)

lemma internal_all_3_file: "index_file CHR ''c'' internal_all_3"
  by (rule index_fileI [OF _ internal_all_3_wf]) (simp add: internal_all_3_def)

definition internal_all_4 :: "search_entry list" where
  "internal_all_4 = [
  (''data_52'', ''data'',
    [(''../structMQTTAsync__willOptions.html#a9e18ae16bb17c09708e7f767390a9638'', 1, ''MQTTAsync_willOptions::data()''),
     (''../structMQTTAsync__connectOptions.html#aad75b20bff67aa3462602fe41465931a'', 1, ''MQTTAsync_connectOptions::data()''),
     (''../structMQTTClient__willOptions.html#aceaee06cb85a7dd485e58f0cd26c289d'', 1, ''MQTTClient_willOptions::data()''),
     (''../structMQTTClient__connectOptions.html#aaa44742ad0345bf7f3aea7628dea6bca'', 1, ''MQTTClient_connectOptions::data()''),
     (''../structMQTTLenString.html#ac875ffa1e0af752d17a10be055c33377'', 1, ''MQTTLenString::data()''),
     (''../structMQTTProperty.html#af08778d86fb08643620cefabd205bc11'', 1, ''MQTTProperty::data()''),
     (''../structMQTTAsync__connectData.html#a3a5188d10f6aab79d85d0468a56e5033'', 1, ''MQTTAsync_connectData::data()'')]),
  (''datalen_53'', ''datalen'',
    [(''../structsocket__queue.html#a812ce9bb00766c3e91a593842414b693'', 1, ''socket_queue'')]),
  (''def_5fqueue_54'', ''def_queue'',
    [(''../SocketBuffer_8c.html#ace376d23d15b97a487298fa0c8a238ea'', 1, ''SocketBuffer.c'')]),
  (''destinationname_55'', ''destinationName'',
    [(''../structMQTTAsync__successData5.html#a3aa03bcf1e08deeaacb237d014181e80'', 1, ''MQTTAsync_successData5::destinationName()''),
     (''../structMQTTAsync__successData.html#af3eef8b306fc96c9a0e36f2d0fd1e322'', 1, ''MQTTAsync_successData::destinationName()'')]),
  (''disabledefaulttruststore_56'', ''disableDefaultTrustStore'',
    [(''../structMQTTAsync__SSLOptions.html#a349454d7fe6021b62004874d7efa6277'', 1, ''MQTTAsync_SSLOptions::disableDefaultTrustStore()''),
     (''../structMQTTClient__SSLOptions.html#a09caf7e179009d70fff6205e89fcc434'', 1, ''MQTTClient_SSLOptions::disableDefaultTrustStore()'')]),
  (''do_5fopenssl_5finit_57'', ''do_openssl_init'',
    [(''../structMQTTAsync__init__options.html#a97caac4b94254b6b9251c07e9532f18b'', 1, ''MQTTAsync_init_options::do_openssl_init()''),
     (''../structMQTTClient__init__options.html#acb4f69163cbb7cf8fcc44ca086354dbc'', 1, ''MQTTClient_init_options::do_openssl_init()'')]),
  (''dup_58'', ''dup'',
    [(''../structMQTTAsync__message.html#aa9da73253863089ee90033c7f0dd28bf'', 1, ''MQTTAsync_message::dup()''),
     (''../structMQTTClient__message.html#abbb5f23377bd9f39cc79756786fa45cc'', 1, ''MQTTClient_message::dup()''),
     (''../unionHeader.html#a35c1c5537424b9307f4ff0803f16a25f'', 1, ''Header::dup()'')])]"

lemma internal_all_4_wf: "index_wf CHR ''d'' 52 internal_all_4"
  by (rule index_wf_check) (simp add: internal_all_4_def index_eval del: One_nat_def)

lemma internal_all_4_file: "index_file CHR ''d'' internal_all_4"
  by (rule index_fileI [OF _ internal_all_4_wf]) (simp add: internal_all_4_def)

definition internal_all_5 :: "search_entry list" where
  "internal_all_5 = [
  (''enabledciphersuites_59'', ''enabledCipherSuites'',
    [(''../structMQTTAsync__SSLOptions.html#a45ea4eb5a79cb0b6150c86d15c3143c9'', 1, ''MQTTAsync_SSLOptions::enabledCipherSuites()''),
     (''../structMQTTClient__SSLOptions.html#a0e07f3de1807ab841646cbb8bfa94657'', 1, ''MQTTClient_SSLOptions::enabledCipherSuites()'')]),
  (''enableservercertauth_60'', ''enableServerCertAuth'',
    [(''../structMQTTAsync__SSLOptions.html#ab349eef3682c23527cf73bd9cea8782c'', 1, ''MQTTAsync_SSLOptions::enableServerCertAuth()''),
     (''../structMQTTClient__SSLOptions.html#ac21e3ad623dd35533e7101001299fb6f'', 1, ''MQTTClient_SSLOptions::enableServerCertAuth()'')])]"

lemma internal_all_5_wf: "index_wf CHR ''e'' 59 internal_all_5"
  by (rule index_wf_check) (simp add: internal_all_5_def index_eval del: One_nat_def)

lemma internal_all_5_file: "index_file CHR ''e'' internal_all_5"
  by (rule index_fileI [OF _ internal_all_5_wf]) (simp add: internal_all_5_def)

definition internal_all_6 :: "search_entry list" where
  "internal_all_6 = [
  (''fds_5fread_61'', ''fds_read'',
    [(''../structSockets.html#a9e91e6577708542a4aab9c43976f7923'', 1, ''Sockets'')]),
  (''file_62'', ''file'',
    [(''../structstorageElement.html#aa13f42ed8f43459d289dec1bc4e259dd'', 1, ''storageElement'')]),
  (''findstring_63'', ''FindString'',
    [(''../MQTTVersion_8c.html#a60231c316988ddb6d3ecf20a3195fe8d'', 1, ''MQTTVersion.c'')]),
  (''first_64'', ''first'',
    [(''../structList.html#ab6dd52dbb617d263723015ef055caffe'', 1, ''List'')]),
  (''fixed_5fheader_65'', ''fixed_header'',
    [(''../structsocket__queue.html#a8cc2b561b0b418fbbcc7ede680c71169'', 1, ''socket_queue'')]),
  (''flags_66'', ''flags'',
    [(''../structConnect.html#a0c84bf238adaf04ea32a2b759247d80a'', 1, ''Connect::flags()''),
     (''../structConnack.html#a296f82b2061fa92586c8c2212ffd6efd'', 1, ''Connack::flags()'')]),
  (''framedata_67'', ''frameData'',
    [(''../structframeData.html'', 1, '''')]),
  (''frees_68'', ''frees'',
    [(''../structPacketBuffers.html#a3cd5992bdafa89f7e7a7083b20ff9390'', 1, ''PacketBuffers'')])]"

lemma internal_all_6_wf: "index_wf CHR ''f'' 61 internal_all_6"
  by (rule index_wf_check) (simp add: internal_all_6_def index_eval del: One_nat_def)

lemma internal_all_6_file: "index_file CHR ''f'' internal_all_6"
  by (rule index_fileI [OF _ internal_all_6_wf]) (simp add: internal_all_6_def)

definition internal_all_7 :: "search_entry list" where
  "internal_all_7 = [
  (''good_69'', ''good'',
    [(''../structClients.html#a45dde398d2d928794de3886c74c435f6'', 1, ''Clients'')])]"

lemma internal_all_7_wf: "index_wf CHR ''g'' 69 internal_all_7"
  by (rule index_wf_check) (simp add: internal_all_7_def index_eval del: One_nat_def)

lemma internal_all_7_file: "index_file CHR ''g'' internal_all_7"
  by (rule index_fileI [OF _ internal_all_7_wf]) (simp add: internal_all_7_def)

definition internal_all_8 :: "search_entry list" where
  "internal_all_8 = [
  (''header_70'', ''header'',
    [(''../structConnect.html#a64c92596b5ce2c01452d53d91fdf41c4'', 1, ''Connect::header()''),
     (''../structConnack.html#af532b37a9b73aaf2254d9e5789814d71'', 1, ''Connack::header()''),
     (''../structMQTTPacket.html#a0f16e8684e0dd97e5b61785b18c48151'', 1, ''MQTTPacket::header()''),
     (''../structSuback.html#a18c1a08ef8f60791bd6495d4ecba0066'', 1, ''Suback::header()''),
     (''../structUnsuback.html#a7751d1086fd1c6d9ba948b10e816a0dc'', 1, ''Unsuback::header()''),
     (''../structPublish.html#a05131ded5e4a7768aee72f66df37f67d'', 1, ''Publish::header()''),
     (''../structAck.html#a8be1d032b4a67550dc6020d450ad65b6'', 1, ''Ack::header()'')]),
  (''header_71'', ''Header'',
    [(''../unionHeader.html'', 1, '''')]),
  (''heap_72'', ''heap'',
    [(''../Heap_8c.html#aa337931db6f2e3b78d5dce6a8d228257'', 1, ''Heap.c'')]),
  (''heap_2ec_73'', ''Heap.c'',
    [(''../Heap_8c.html'', 1, '''')]),
  (''heap_5ffinditem_74'', ''Heap_findItem'',
    [(''../Heap_8c.html#a0f10ff94faca02a6f81953c889802954'', 1, ''Heap.c'')]),
  (''heap_5fget_5finfo_75'', ''Heap_get_info'',
    [(''../Heap_8c.html#a20faecf28cdd9d2fbf7d975c5b0863ef'', 1, ''Heap.c'')]),
  (''heap_5finfo_76'', ''heap_info'',
    [(''../structheap__info.html'', 1, '''')]),
  (''heap_5finitialize_77'', ''Heap_initialize'',
    [(''../Heap_8c.html#a7fb8bd5f7469fc9c1e48c3a1f17de88a'', 1, ''Heap.c'')]),
  (''heap_5froundup_78'', ''Heap_roundup'',
    [(''../Heap_8c.html#ae75b06db0cdfce5c281f8672e8577854'', 1, ''Heap.c'')]),
  (''heap_5fterminate_79'', ''Heap_terminate'',
    [(''../Heap_8c.html#a669dfefa789daec52dd8ddc03ff1f9f9'', 1, ''Heap.c'')]),
  (''heap_5ftracking_80'', ''heap_tracking'',
    [(''../structTree.html#ad3f36479166a4a7d4124c6a79ee770f4'', 1, ''Tree'')]),
  (''heap_5funlink_81'', ''Heap_unlink'',
    [(''../Heap_8c.html#a5f453bffe39551109e282c904a6f2902'', 1, ''Heap.c'')]),
  (''heapdump_82'', ''HeapDump'',
    [(''../Heap_8c.html#aea7ea58998f69f14e16a3237c1d02d8a'', 1, ''Heap.c'')]),
  (''heapdumpstring_83'', ''HeapDumpString'',
    [(''../Heap_8c.html#a6cdadd76da21b7269cf5d9fc92dedb68'', 1, ''Heap.c'')]),
  (''heapscan_84'', ''HeapScan'',
    [(''../Heap_8c.html#aafff91620a02cc5f8160ee55dc1d7bf4'', 1, ''Heap.c'')]),
  (''httpheaders_85'', ''httpHeaders'',
    [(''../structMQTTClient__connectOptions.html#a843b077a0524dcc6a1ce6db12d2e7412'', 1, ''MQTTClient_connectOptions::httpHeaders()''),
     (''../structMQTTAsync__connectOptions.html#a804e7ee013338a83a6f573f6644829ca'', 1, ''MQTTAsync_connectOptions::httpHeaders()'')]),
  (''httpproxy_86'', ''httpProxy'',
    [(''../structMQTTClient__connectOptions.html#a4c801d96d7a0013928d6a475fd48fe3c'', 1, ''MQTTClient_connectOptions::httpProxy()''),
     (''../structMQTTAsync__connectOptions.html#a2290cec827700b22efca37ea4bce3abd'', 1, ''MQTTAsync_connectOptions::httpProxy()''),
     (''../structClients.html#a70540b5d48c05815309215b18de69f8a'', 1, ''Clients::httpProxy()'')]),
  (''httpsproxy_87'', ''httpsProxy'',
    [(''../structMQTTClient__connectOptions.html#aff577bef3a72e4aa9022fda4cffd4544'', 1, ''MQTTClient_connectOptions::httpsProxy()''),
     (''../structMQTTAsync__connectOptions.html#ad4937ddf0e089fb0e0e054ae3a3aea55'', 1, ''MQTTAsync_connectOptions::httpsProxy()''),
     (''../structClients.html#a3864bdb9426f9fc646eff80109a831b3'', 1, ''Clients::httpsProxy()'')])]"

lemma internal_all_8_wf: "index_wf CHR ''h'' 70 internal_all_8"
  by (rule index_wf_check) (simp add: internal_all_8_def index_eval del: One_nat_def)

lemma internal_all_8_file: "index_file CHR ''h'' internal_all_8"
  by (rule index_fileI [OF _ internal_all_8_wf]) (simp add: internal_all_8_def)

definition internal_all_9 :: "search_entry list" where
  "internal_all_9 = [
  (''identifier_88'', ''identifier'',
    [(''../structMQTTProperty.html#a5e407f4d2a2ba51cc784b7660fc06e6f'', 1, ''MQTTProperty'')]),
  (''inboundmsgs_89'', ''inboundMsgs'',
    [(''../structClients.html#a6e1576ebc386f04d2a70b943677b54d6'', 1, ''Clients'')]),
  (''indexes_90'', ''indexes'',
    [(''../structTree.html#a970b46e9c386139ad4fe213c043238e5'', 1, ''Tree'')]),
  (''intcompare_91'', ''intcompare'',
    [(''../LinkedList_8c.html#a1738915a6d6f10022e9ee1481c0ae452'', 1, ''LinkedList.c'')]),
  (''integer2_92'', ''integer2'',
    [(''../structMQTTProperty.html#a940cbb3bf8211c5f207e3e1b6495c573'', 1, ''MQTTProperty'')]),
  (''integer4_93'', ''integer4'',
    [(''../structMQTTProperty.html#a64f07dae61291856a24828ff9fd70dd2'', 1, ''MQTTProperty'')]),
  (''internal_5fheap_5funlink_94'', ''Internal_heap_unlink'',
    [(''../Heap_8c.html#ac23c370399a3c7b9aa9fa9d0672be122'', 1, ''Heap.c'')]),
  (''isready_95'', ''isReady'',
    [(''../Socket_8c.html#a42a217310f6f55473525764038ac367d'', 1, ''Socket.c'')])]"

lemma internal_all_9_wf: "index_wf CHR ''i'' 88 internal_all_9"
  by (rule index_wf_check) (simp add: internal_all_9_def index_eval del: One_nat_def)

lemma internal_all_9_file: "index_file CHR ''i'' internal_all_9"
  by (rule index_fileI [OF _ internal_all_9_wf]) (simp add: internal_all_9_def)

definition internal_all_a :: "search_entry list" where
  "internal_all_a = [
  (''keepaliveinterval_96'', ''keepAliveInterval'',
    [(''../structClients.html#a0c9720f6d2df33e40ca5a28ced0036bb'', 1, ''Clients::keepAliveInterval()''),
     (''../structMQTTAsync__connectOptions.html#ad6ed277d7db13a98ecef45ff3dd10044'', 1, ''MQTTAsync_connectOptions::keepAliveInterval()''),
     (''../structMQTTClient__connectOptions.html#a7de757dd172a63d699290d582aa0f798'', 1, ''MQTTClient_connectOptions::keepAliveInterval()'')]),
  (''keepalivetimer_97'', ''keepAliveTimer'',
    [(''../structConnect.html#a5274defe9badb8c5e46e7b674c548441'', 1, ''Connect'')]),
  (''keystore_98'', ''keyStore'',
    [(''../structMQTTAsync__SSLOptions.html#ac1b1a5ae74a807d672b5d44c7ecc4a9b'', 1, ''MQTTAsync_SSLOptions::keyStore()''),
     (''../structMQTTClient__SSLOptions.html#aab300df31cebc087303c4e5b8071e12c'', 1, ''MQTTClient_SSLOptions::keyStore()'')])]"

lemma internal_all_a_wf: "index_wf CHR ''k'' 96 internal_all_a"
  by (rule index_wf_check) (simp add: internal_all_a_def index_eval del: One_nat_def)

lemma internal_all_a_file: "index_file CHR ''k'' internal_all_a"
  by (rule index_fileI [OF _ internal_all_a_wf]) (simp add: internal_all_a_def)

definition internal_all_b :: "search_entry list" where
  "internal_all_b = [
  (''last_99'', ''last'',
    [(''../structList.html#a7be27419b0df1734d1028fa1729eb96c'', 1, ''List'')]),
  (''len_100'', ''len'',
    [(''../utf-8_8c.html#afed088663f8704004425cdae2120b9b3'', 1, ''len():&#160;utf-8.c''),
     (''../structMessages.html#a4751604bf85bccbff2273a069f976679'', 1, ''Messages::len()''),
     (''../structMQTTAsync__connectData.html#a34da6971227839d7ae96394a8bb2c31c'', 1, ''MQTTAsync_connectData::len()''),
     (''../structMQTTAsync__willOptions.html#af6f445357e4993806ceedbe7bafb2c20'', 1, ''MQTTAsync_willOptions::len()''),
     (''../structMQTTAsync__connectOptions.html#ac6d0d8d8e9c2f55f24b3219c18886be5'', 1, ''MQTTAsync_connectOptions::len()''),
     (''../structMQTTClient__willOptions.html#abfa72c814f19cbd87bf777da96ff2860'', 1, ''MQTTClient_willOptions::len()''),
     (''../structMQTTClient__connectOptions.html#a3e0d107b093f17c9623f4d1b76d18db6'', 1, ''MQTTClient_connectOptions::len()''),
     (''../structMQTTLenString.html#a7eb20db2b77f5e224e12d94c78573fa3'', 1, ''MQTTLenString::len()''),
     (''../structws__frame.html#a39b63d46db10302225327f57a20ce099'', 1, ''ws_frame::len()'')]),
  (''length_101'', ''length'',
    [(''../structMQTTProperties.html#a9538dfb5688661da09829a64f582c3c2'', 1, ''MQTTProperties'')]),
  (''line_102'', ''line'',
    [(''../structstorageElement.html#aa378660045dffaebb2804fd8ba6c5982'', 1, ''storageElement'')]),
  (''lines_5fwritten_103'', ''lines_written'',
    [(''../Log_8c.html#af6d2621ee2d6d01ab6b42b9afbc1c56e'', 1, ''Log.c'')]),
  (''linkedlist_2ec_104'', ''LinkedList.c'',
    [(''../LinkedList_8c.html'', 1, '''')]),
  (''list_105'', ''List'',
    [(''../structList.html'', 1, '''')]),
  (''listappend_106'', ''ListAppend'',
    [(''../LinkedList_8c.html#abc7a28449893dfa775c2f709349968b4'', 1, ''LinkedList.c'')]),
  (''listappendnomalloc_107'', ''ListAppendNoMalloc'',
    [(''../LinkedList_8c.html#a321a3598d6979c7af3f995b77ea2cec3'', 1, ''LinkedList.c'')]),
  (''listdetach_108'', ''ListDetach'',
    [(''../LinkedList_8c.html#ab2bcc1897abf1d98490ea81c474dba52'', 1, ''LinkedList.c'')]),
  (''listdetachhead_109'', ''ListDetachHead'',
    [(''../LinkedList_8c.html#ab0f3597d344e09ad6636c8bc72029337'', 1, ''LinkedList.c'')]),
  (''listdetachitem_110'', ''ListDetachItem'',
    [(''../LinkedList_8c.html#a9ed745f7ba486d16d009e86433fece7b'', 1, ''LinkedList.c'')]),
  (''listelementstruct_111'', ''ListElementStruct'',
    [(''../structListElementStruct.html'', 1, '''')]),
  (''listempty_112'', ''ListEmpty'',
    [(''../LinkedList_8c.html#a3cf8578dba23f97dd0411e85fe3b7ff2'', 1, ''LinkedList.c'')]),
  (''listfind_113'', ''ListFind'',
    [(''../LinkedList_8c.html#ad2879a10b723fb7c1f95c0ad0abdbc50'', 1, ''LinkedList.c'')]),
  (''listfinditem_114'', ''ListFindItem'',
    [(''../LinkedList_8c.html#acad319e9ce896ff1fff30ddbeb06d22d'', 1, ''LinkedList.c'')]),
  (''listfree_115'', ''ListFree'',
    [(''../LinkedList_8c.html#a276950531b3f54e0dda27d597572c192'', 1, ''LinkedList.c'')]),
  (''listfreenocontent_116'', ''ListFreeNoContent'',
    [(''../LinkedList_8c.html#a8b3e61bc873a90ad2ea43a15e6c001f4'', 1, ''LinkedList.c'')]),
  (''listinitialize_117'', ''ListInitialize'',
    [(''../LinkedList_8c.html#a27e2cccab9752618ead91eafbe2a9a46'', 1, ''LinkedList.c'')]),
  (''listinsert_118'', ''ListInsert'',
    [(''../LinkedList_8c.html#aabca387fa4b86475bc9e4da40c3977fc'', 1, ''LinkedList.c'')]),
  (''listnextelement_119'', ''ListNextElement'',
    [(''../LinkedList_8c.html#a7c6fba7f4b569c69829676bed2852ee9'', 1, ''LinkedList.c'')]),
  (''listpoptail_120'', ''ListPopTail'',
    [(''../LinkedList_8c.html#a84b0ad14e7cebcd7b9ebab89a8d48321'', 1, ''LinkedList.c'')]),
  (''listprevelement_121'', ''ListPrevElement'',
    [(''../LinkedList_8c.html#a371f4a5021e6aa639bab6ab1457fc1d2'', 1, ''LinkedList.c'')]),
  (''listremove_122'', ''ListRemove'',
    [(''../LinkedList_8c.html#a8430370b2b15c56ec95bb8e7e36753a5'', 1, ''LinkedList.c'')]),
  (''listremovehead_123'', ''ListRemoveHead'',
    [(''../LinkedList_8c.html#a5ee7cd1d29fd9299231d40c011174fcd'', 1, ''LinkedList.c'')]),
  (''listremoveitem_124'', ''ListRemoveItem'',
    [(''../LinkedList_8c.html#a4bb7c34fe9a5832d65f530091e0fad0d'', 1, ''LinkedList.c'')]),
  (''listunlink_125'', ''ListUnlink'',
    [(''../LinkedList_8c.html#ab82181e0c1d96954f82dee67cee41296'', 1, ''LinkedList.c'')]),
  (''listzero_126'', ''ListZero'',
    [(''../LinkedList_8c.html#aa254fb1eab8e30d0e03859b333dc22ed'', 1, ''LinkedList.c'')]),
  (''log_127'', ''Log'',
    [(''../Log_8c.html#a669722e3f57811871f97c12392aba85d'', 1, ''Log.c'')]),
  (''log_2ec_128'', ''Log.c'',
    [(''../Log_8c.html'', 1, '''')]),
  (''log_5fnamevalue_129'', ''Log_nameValue'',
    [(''../structLog__nameValue.html'', 1, '''')]),
  (''log_5fstacktrace_130'', ''Log_stackTrace'',
    [(''../Log_8c.html#aeb93e137086d574a96548cecca9e9217'', 1, ''Log.c'')]),
  (''lower_131'', ''lower'',
    [(''../utf-8_8c.html#a17ae1b83727db4230c8df98b4ee953fc'', 1, ''utf-8.c'')])]"

lemma internal_all_b_wf: "index_wf CHR ''l'' 99 internal_all_b"
  by (rule index_wf_check) (simp add: internal_all_b_def index_eval del: One_nat_def)

lemma internal_all_b_file: "index_file CHR ''l'' internal_all_b"
  by (rule index_fileI [OF _ internal_all_b_wf]) (simp add: internal_all_b_def)

definition internal_all_c_part1 :: "search_entry list" where
  "internal_all_c_part1 = [
  (''mask_132'', ''mask'',
    [(''../structPublish.html#a8a70d60f90d1418ebf501ad33eba2e11'', 1, ''Publish::mask()''),
     (''../structPacketBuffers.html#a9f29c58d295427b93e1e52fa7fd043ce'', 1, ''PacketBuffers::mask()'')]),
  (''max_5fcount_133'', ''max_count'',
    [(''../structMQTTProperties.html#ad3bd5700ed60fb16c072e8a65672a581'', 1, ''MQTTProperties'')]),
  (''max_5flines_5fper_5ffile_134'', ''max_lines_per_file'',
    [(''../Log_8c.html#ab0c0e8addd9dc5b2a54aafa15b606435'', 1, ''Log.c'')]),
  (''max_5fsize_135'', ''max_size'',
    [(''../structheap__info.html#acca9bc1ad656bc11b35406f8588d2c43'', 1, ''heap_info'')]),
  (''max_5ftrace_5fentries_136'', ''max_trace_entries'',
    [(''../structtrace__settings__type.html#acecf92991c3008b020b44f44f661f03f'', 1, ''trace_settings_type'')]),
  (''maxbufferedmessages_137'', ''maxBufferedMessages'',
    [(''../structMQTTAsync__createOptions.html#a39d76a63782adbd9526bad0b33603522'', 1, ''MQTTAsync_createOptions'')]),
  (''maxinflight_138'', ''maxInflight'',
    [(''../structMQTTAsync__connectOptions.html#afbcfee31a89fb634456290f22c4e32da'', 1, ''MQTTAsync_connectOptions'')]),
  (''maxinflightmessages_139'', ''maxInflightMessages'',
    [(''../structMQTTClient__connectOptions.html#a23eefc54da515a0c189ed6d5918470b0'', 1, ''MQTTClient_connectOptions::maxInflightMessages()''),
     (''../structClients.html#af0963eb25f36dfafdd29bfc3007181b7'', 1, ''Clients::maxInflightMessages()'')]),
  (''maxretryinterval_140'', ''maxRetryInterval'',
    [(''../structMQTTAsync__connectOptions.html#a7d1e6443a9050f3e54b02dfa6854feb4'', 1, ''MQTTAsync_connectOptions'')]),
  (''message_141'', ''message'',
    [(''../structMQTTClient__willOptions.html#af367d507f25f09942ff12376b50a5ffb'', 1, ''MQTTClient_willOptions::message()''),
     (''../structMQTTAsync__willOptions.html#a0a4c40ef8b1f73a67326cd9987fd1894'', 1, ''MQTTAsync_willOptions::message()''),
     (''../structMQTTAsync__successData5.html#a83d34de369f169d5c1ee099720b964cf'', 1, ''MQTTAsync_successData5::message()''),
     (''../structMQTTAsync__successData.html#a0b2e85af2333e5775907d3f2b53907d4'', 1, ''MQTTAsync_successData::message()''),
     (''../structMQTTAsync__failureData5.html#a2f82528951018af0eb73b313b94a470e'', 1, ''MQTTAsync_failureData5::message()''),
     (''../structMQTTAsync__failureData.html#a13f03bf80fd0024437af833d0964304d'', 1, ''MQTTAsync_failureData::message()'')]),
  (''messageidcompare_142'', ''messageIDCompare'',
    [(''../MQTTProtocolClient_8c.html#a286c2ef2904b5eb4a0ffa5b598961c67'', 1, ''MQTTProtocolClient.c'')]),
  (''messagequeue_143'', ''messageQueue'',
    [(''../structClients.html#a19263eecc43962ac977832e124b4529f'', 1, ''Clients'')]),
  (''messages_144'', ''Messages'',
    [(''../structMessages.html'', 1, '''')]),
  (''messages_2ec_145'', ''Messages.c'',
    [(''../Messages_8c.html'', 1, '''')]),
  (''messages_5fget_146'', ''Messages_get'',
    [(''../Messages_8c.html#ab0c342273f8f7d3c206314ae8215a14c'', 1, ''Messages.c'')]),
  (''minretryinterval_147'', ''minRetryInterval'',
    [(''../structMQTTAsync__connectOptions.html#a60bb7a0c6afaaff456f7fa4f18c84b66'', 1, ''MQTTAsync_connectOptions'')]),
  (''mod_5fs_148'', ''mod_s'',
    [(''../Socket_8c.html#a6caeed4a8d4f884c57a815034cee275e'', 1, ''Socket.c'')]),
  (''mqtt_20client_20library_20internals_149'', ''MQTT Client Library Internals'',
    [(''../index.html'', 1, '''')]),
  (''mqttasync_5fcommand_150'', ''MQTTAsync_command'',
    [(''../structMQTTAsync__command.html'', 1, '''')]),
  (''mqttasync_5fconnectdata_151'', ''MQTTAsync_connectData'',
    [(''../structMQTTAsync__connectData.html'', 1, '''')]),
  (''mqttasync_5fconnectoptions_152'', ''MQTTAsync_connectOptions'',
    [(''../structMQTTAsync__connectOptions.html'', 1, '''')]),
  (''mqttasync_5fcreateoptions_153'', ''MQTTAsync_createOptions'',
    [(''../structMQTTAsync__createOptions.html'', 1, '''')]),
  (''mqttasync_5fdisconnectoptions_154'', ''MQTTAsync_disconnectOptions'',
    [(''../structMQTTAsync__disconnectOptions.html'', 1, '''')]),
  (''mqttasync_5ffailuredata_155'', ''MQTTAsync_failureData'',
    [(''../structMQTTAsync__failureData.html'', 1, '''')]),
  (''mqttasync_5ffailuredata5_156'', ''MQTTAsync_failureData5'',
    [(''../structMQTTAsync__failureData5.html'', 1, '''')]),
  (''mqttasync_5finit_5foptions_157'', ''MQTTAsync_init_options'',
    [(''../structMQTTAsync__init__options.html'', 1, '''')]),
  (''mqttasync_5fmessage_158'', ''MQTTAsync_message'',
    [(''../structMQTTAsync__message.html'', 1, '''')]),
  (''mqttasync_5fnamevalue_159'', ''MQTTAsync_nameValue'',
    [(''../structMQTTAsync__nameValue.html'', 1, '''')]),
  (''mqttasync_5fqueuedcommand_160'', ''MQTTAsync_queuedCommand'',
    [(''../structMQTTAsync__queuedCommand.html'', 1, '''')]),
  (''mqttasync_5fresponseoptions_161'', ''MQTTAsync_responseOptions'',
    [(''../structMQTTAsync__responseOptions.html'', 1, '''')]),
  (''mqttasync_5fssloptions_162'', ''MQTTAsync_SSLOptions'',
    [(''../structMQTTAsync__SSLOptions.html'', 1, '''')]),
  (''mqttasync_5fstruct_163'', ''MQTTAsync_struct'',
    [(''../structMQTTAsync__struct.html'', 1, '''')]),
  (''mqttasync_5fsuccessdata_164'', ''MQTTAsync_successData'',
    [(''../structMQTTAsync__successData.html'', 1, '''')]),
  (''mqttasync_5fsuccessdata5_165'', ''MQTTAsync_successData5'',
    [(''../structMQTTAsync__successData5.html'', 1, '''')]),
  (''mqttasync_5fwilloptions_166'', ''MQTTAsync_willOptions'',
    [(''../structMQTTAsync__willOptions.html'', 1, '''')]),
  (''mqttclient_2ec_167'', ''MQTTClient.c'',
    [(''../MQTTClient_8c.html'', 1, '''')]),
  (''mqttclient_5fconnect_168'', ''MQTTClient_connect'',
    [(''../MQTTClient_8c.html#aaa8ae61cd65c9dc0846df10122d7bd4e'', 1, ''MQTTClient.c'')]),
  (''mqttclient_5fconnect5_169'', ''MQTTClient_connect5'',
    [(''../MQTTClient_8c.html#aa777f80cb3eec5610f976aff30b8c0d6'', 1, ''MQTTClient.c'')]),
  (''mqttclient_5fconnectoptions_170'', ''MQTTClient_connectOptions'',
    [(''../structMQTTClient__connectOptions.html'', 1, '''')]),
  (''mqttclient_5fcreate_171'', ''MQTTClient_create'',
    [(''../MQTTClient_8c.html#a9a0518d9ca924d12c1329dbe3de5f2b6'', 1, ''MQTTClient.c'')]),
  (''mqttclient_5fcreateoptions_172'', ''MQTTClient_createOptions'',
    [(''../structMQTTClient__createOptions.html'', 1, '''')]),
  (''mqttclient_5fcreatewithoptions_173'', ''MQTTClient_createWithOptions'',
    [(''../MQTTClient_8c.html#ade24f717a9b39d38b081e1d5e0db1661'', 1, ''MQTTClient.c'')]),
  (''mqttclient_5fdestroy_174'', ''MQTTClient_destroy'',
    [(''../MQTTClient_8c.html#ae700c3f5cfea3813264ce95e7c8cf498'', 1, ''MQTTClient.c'')]),
  (''mqttclient_5fdisconnect_175'', ''MQTTClient_disconnect'',
    [(''../MQTTClient_8c.html#a1e4d90c13a3c0705bc4a13bfe64e6525'', 1, ''MQTTClient.c'')]),
  (''mqttclient_5fdisconnect1_176'', ''MQTTClient_disconnect1'',
    [(''../MQTTClient_8c.html#a2eeb63b405d9aed880a79b38addf6df7'', 1, ''MQTTClient.c'')]),
  (''mqttclient_5fdisconnect_5finternal_177'', ''MQTTClient_disconnect_internal'',
    [(''../MQTTClient_8c.html#a6a08562ce9b763bf79c71029b94cd9f5'', 1, ''MQTTClient.c'')]),
  (''mqttclient_5ffree_178'', ''MQTTClient_free'',
    [(''../MQTTClient_8c.html#ab217acbfaf47603355ca430983f93095'', 1, ''MQTTClient.c'')]),
  (''mqttclient_5ffreemessage_179'', ''MQTTClient_freeMessage'',
    [(''../MQTTClient_8c.html#a2bc00ce11e0cac5dbc0938c512b4ab31'', 1, ''MQTTClient.c'')]),
  (''mqttclient_5fgetpendingdeliverytokens_180'', ''MQTTClient_getPendingDeliveryTokens'',
    [(''../MQTTClient_8c.html#a2a617c6b0492c04a4ddea592f5e53604'', 1, ''MQTTClient.c'')]),
  (''mqttclient_5fgetversioninfo_181'', ''MQTTClient_getVersionInfo'',
    [(''../MQTTClient_8c.html#abe842456c914ce9201d277a972cc085e'', 1, ''MQTTClient.c'')]),
  (''mqttclient_5fglobal_5finit_182'', ''MQTTClient_global_init'',
    [(''../MQTTClient_8c.html#a21804ede1a506d1d69a472bc30acc8ba'', 1, ''MQTTClient.c'')]),
  (''mqttclient_5finit_5foptions_183'', ''MQTTClient_init_options'',
    [(''../structMQTTClient__init__options.html'', 1, '''')]),
  (''mqttclient_5fisconnected_184'', ''MQTTClient_isConnected'',
    [(''../MQTTClient_8c.html#a6e8231e8c47f6f67f7ebbb5dcb4c69c0'', 1, ''MQTTClient.c'')]),
  (''mqttclient_5fmalloc_185'', ''MQTTClient_malloc'',
    [(''../MQTTClient_8c.html#a9a6a07529e252574db1f95d40ccc0784'', 1, ''MQTTClient.c'')]),
  (''mqttclient_5fmessage_186'', ''MQTTClient_message'',
    [(''../structMQTTClient__message.html'', 1, '''')]),
  (''mqttclient_5fnamevalue_187'', ''MQTTClient_nameValue'',
    [(''../structMQTTClient__nameValue.html'', 1, '''')]),
  (''mqttclient_5fpersistence_188'', ''MQTTClient_persistence'',
    [(''../structMQTTClient__persistence.html'', 1, '''')]),
  (''mqttclient_5fpersistence_5fdefault_189'', ''MQTTCLIENT_PERSISTENCE_DEFAULT'',
    [(''../MQTTClientPersistence_8h.html#aaa948291718a9c06369b854b0f64bc32'', 1, ''MQTTClientPersistence.h'')]),
  (''mqttclient_5fpersistence_5ferror_190'', ''MQTTCLIENT_PERSISTENCE_ERROR'',
    [(''../MQTTClientPersistence_8h.html#ab716e21e53c84a5ad62aa962a2a8f7db'', 1, ''MQTTClientPersistence.h'')]),
  (''mqttclient_5fpersistence_5fnone_191'', ''MQTTCLIENT_PERSISTENCE_NONE'',
    [(''../MQTTClientPersistence_8h.html#ae01e089313a65ac4661ed216b6ac00fa'', 1, ''MQTTClientPersistence.h'')]),
  (''mqttclient_5fpersistence_5fuser_192'', ''MQTTCLIENT_PERSISTENCE_USER'',
    [(''../MQTTClientPersistence_8h.html#a5dc68b8616e4041e037bad94ce07681b'', 1, ''MQTTClientPersistence.h'')]),
  (''mqttclient_5fpublish_193'', ''MQTTClient_publish'',
    [(''../MQTTClient_8c.html#a3cd7a94b48d1d9c6b8af4b9203d69d37'', 1, ''MQTTClient.c'')]),
  (''mqttclient_5fpublish5_194'', ''MQTTClient_publish5'',
    [(''../MQTTClient_8c.html#a3c0ca97b393eee10d4f441ba68830e83'', 1, ''MQTTClient.c'')]),
  (''mqttclient_5fpublishmessage_195'', ''MQTTClient_publishMessage'',
    [(''../MQTTClient_8c.html#a5e0cfa14237d7557bee2a59747ecadd3'', 1, ''MQTTClient.c'')]),
  (''mqttclient_5fpublishmessage5_196'', ''MQTTClient_publishMessage5'',
    [(''../MQTTClient_8c.html#ae54936bf7680dcde353e6fc785a44461'', 1, ''MQTTClient.c'')]),
  (''mqttclient_5freceive_197'', ''MQTTClient_receive'',
    [(''../MQTTClient_8c.html#a4c2df88d00a3dadd510a8cb774739366'', 1, ''MQTTClient.c'')]),
  (''mqttclient_5fsetcallbacks_198'', ''MQTTClient_setCallbacks'',
    [(''../MQTTClient_8c.html#aad27d07782991a4937ebf2f39a021f83'', 1, ''MQTTClient.c'')]),
  (''mqttclient_5fsetcommandtimeout_199'', ''MQTTClient_setCommandTimeout'',
    [(''../MQTTClient_8c.html#a96067a2fb74d2a61c7e93015629548e0'', 1, ''MQTTClient.c'')]),
  (''mqttclient_5fsetdisconnected_200'', ''MQTTClient_setDisconnected'',
    [(''../MQTTClient_8c.html#adc7d708419664670063a0e7fd9c27bca'', 1, ''MQTTClient.c'')]),
  (''mqttclient_5fsettracecallback_201'', ''MQTTClient_setTraceCallback'',
    [(''../MQTTClient_8c.html#a22870f94aa4cb1827626612f1ded7c69'', 1, ''MQTTClient.c'')]),
  (''mqttclient_5fsettracelevel_202'', ''MQTTClient_setTraceLevel'',
    [(''../MQTTClient_8c.html#a4dfa35d29db54b10b15b8ac2d9a778be'', 1, ''MQTTClient.c'')]),
  (''mqttclient_5fssloptions_203'', ''MQTTClient_SSLOptions'',
    [(''../structMQTTClient__SSLOptions.html'', 1, '''')]),
  (''mqttclient_5fstrerror_204'', ''MQTTClient_strerror'',
    [(''../MQTTClient_8c.html#a9defda2979f6fedaae64fd85f5c2f617'', 1, ''MQTTClient.c'')]),
  (''mqttclient_5fsubscribe_205'', ''MQTTClient_subscribe'',
    [(''../MQTTClient_8c.html#a9c1c28258f0d5c6a44ff53a98618f5f3'', 1, ''MQTTClient.c'')]),
  (''mqttclient_5fsubscribe5_206'', ''MQTTClient_subscribe5'',
    [(''../MQTTClient_8c.html#af35ab7375435f7b6388c5ff4610dad3d'', 1, ''MQTTClient.c'')]),
  (''mqttclient_5fsubscribemany_207'', ''MQTTClient_subscribeMany'',
    [(''../MQTTClient_8c.html#a92fa1c13f3db8399e042fbdbdfb692b3'', 1, ''MQTTClient.c'')]),
  (''mqttclient_5fsubscribemany5_208'', ''MQTTClient_subscribeMany5'',
    [(''../MQTTClient_8c.html#a5390c2402f135c12826ffbf6fc261f7c'', 1, ''MQTTClient.c'')]),
  (''mqttclient_5funsubscribe_209'', ''MQTTClient_unsubscribe'',
    [(''../MQTTClient_8c.html#aa8731be3dbc6a25f41f037f8bbbb054b'', 1, ''MQTTClient.c'')]),
  (''mqttclient_5funsubscribe5_210'', ''MQTTClient_unsubscribe5'',
    [(''../MQTTClient_8c.html#a58356c13867f18df60fd4c7ec9457c48'', 1, ''MQTTClient.c'')]),
  (''mqttclient_5funsubscribemany_211'', ''MQTTClient_unsubscribeMany'',
    [(''../MQTTClient_8c.html#a50abbce720d50b9f84b97ff9fa1f546d'', 1, ''MQTTClient.c'')]),
  (''mqttclient_5funsubscribemany5_212'', ''MQTTClient_unsubscribeMany5'',
    [(''../MQTTClient_8c.html#a46bdb532d2153110ccffb2f0748d1ba5'', 1, ''MQTTClient.c'')]),
  (''mqttclient_5fwaitforcompletion_213'', ''MQTTClient_waitForCompletion'',
    [(''../MQTTClient_8c.html#ab8786efdd6c3a50c6ca33cfb5d8fc283'', 1, ''MQTTClient.c'')]),
  (''mqttclient_5fwilloptions_214'', ''MQTTClient_willOptions'',
    [(''../structMQTTClient__willOptions.html'', 1, '''')]),
  (''mqttclient_5fyield_215'', ''MQTTClient_yield'',
    [(''../MQTTClient_8c.html#a8ad3d29864a9ca08202b0832e0f6678e'', 1, ''MQTTClient.c'')]),
  (''mqttclientpersistence_2eh_216'', ''MQTTClientPersistence.h'',
    [(''../MQTTClientPersistence_8h.html'', 1, '''')]),
  (''mqttclients_217'', ''MQTTClients'',
    [(''../structMQTTClients.html'', 1, '''')]),
  (''mqttlenstring_218'', ''MQTTLenString'',
    [(''../structMQTTLenString.html'', 1, '''')]),
  (''mqttpacket_219'', ''MQTTPacket'',
    [(''../structMQTTPacket.html'', 1, '''')]),
  (''mqttpacket_2ec_220'', ''MQTTPacket.c'',
    [(''../MQTTPacket_8c.html'', 1, '''')]),
  (''mqttpacket_5fack_221'', ''MQTTPacket_ack'',
    [(''../MQTTPacket_8c.html#a93c155059c80bd01b4a1561d9bec1d13'', 1, ''MQTTPacket.c'')]),
  (''mqttpacket_5fconnack_222'', ''MQTTPacket_connack'',
    [(''../MQTTPacketOut_8c.html#ad05dd32a547e82e0741d9d8279568a65'', 1, ''MQTTPacketOut.c'')]),
  (''mqttpacket_5fdecode_223'', ''MQTTPacket_decode'',
    [(''../MQTTPacket_8c.html#ac1f61e571640513a9785b3164141dfbc'', 1, ''MQTTPacket.c'')]),
  (''mqttpacket_5fencode_224'', ''MQTTPacket_encode'',
    [(''../MQTTPacket_8c.html#aadd77a4fa1b2d5c7791e3542c56af856'', 1, ''MQTTPacket.c'')]),
  (''mqttpacket_5ffactory_225'', ''MQTTPacket_Factory'',
    [(''../MQTTPacket_8c.html#af922033c495b05fe4242afc54211f20d'', 1, ''MQTTPacket.c'')]),
  (''mqttpacket_5ffree_5fpacket_226'', ''MQTTPacket_free_packet'',
    [(''../MQTTPacket_8c.html#a28f1754fe1f090d54bc3b5687fb2dd8c'', 1, ''MQTTPacket.c'')]),
  (''mqttpacket_5ffreeack_227'', ''MQTTPacket_freeAck'',
    [(''../MQTTPacket_8c.html#a0ef92fb0207ed6272de9ebc749745d0c'', 1, ''MQTTPacket.c'')]),
  (''mqttpacket_5ffreeconnack_228'', ''MQTTPacket_freeConnack'',
    [(''../MQTTPacketOut_8c.html#a49e8e6789e17a29f5a448b8fab0a4137'', 1, ''MQTTPacketOut.c'')]),
  (''mqttpacket_5ffreepublish_229'', ''MQTTPacket_freePublish'',
    [(''../MQTTPacket_8c.html#a642e5f62d21f14e81f8fc70b491d89c8'', 1, ''MQTTPacket.c'')]),
  (''mqttpacket_5ffreesuback_230'', ''MQTTPacket_freeSuback'',
    [(''../MQTTPacket_8c.html#a4262b8f35885dc123f59268fb74cec3d'', 1, ''MQTTPacket.c'')]),
  (''mqttpacket_5ffreeunsuback_231'', ''MQTTPacket_freeUnsuback'',
    [(''../MQTTPacket_8c.html#a9dd0446112e7bc982f8e3bb8bbb6b409'', 1, ''MQTTPacket.c'')]),
  (''mqttpacket_5fheader_5fonly_232'', ''MQTTPacket_header_only'',
    [(''../MQTTPacket_8c.html#af3ddd9c1a35d51bf70f44a1aa6fa0bba'', 1, ''MQTTPacket.c'')]),
  (''mqttpacket_5fname_233'', ''MQTTPacket_name'',
    [(''../MQTTPacket_8c.html#a9f9e58aba3ed5d513862d76bc5e29743'', 1, ''MQTTPacket.c'')]),
  (''mqttpacket_5fpublish_234'', ''MQTTPacket_publish'',
    [(''../MQTTPacket_8c.html#a58feb89ee5616f2ea6d222bbbef927bb'', 1, ''MQTTPacket.c'')]),
  (''mqttpacket_5fsend_235'', ''MQTTPacket_send'',
    [(''../MQTTPacket_8c.html#a51f58f1c7864f9fe87b55cc6ccb10129'', 1, ''MQTTPacket.c'')]),
  (''mqttpacket_5fsend_5fack_236'', ''MQTTPacket_send_ack'',
    [(''../MQTTPacket_8c.html#ad89e627a37f7f7eb4355b076cd46e0b0'', 1, ''MQTTPacket.c'')]),
  (''mqttpacket_5fsend_5fconnect_237'', ''MQTTPacket_send_connect'',
    [(''../MQTTPacketOut_8c.html#ad3c3f0919760286998e9b9eafaa47a36'', 1, ''MQTTPacketOut.c'')]),
  (''mqttpacket_5fsend_5fdisconnect_238'', ''MQTTPacket_send_disconnect'',
    [(''../MQTTPacket_8c.html#aa9e17261b4d09d802dba6a65bcdc44fa'', 1, ''MQTTPacket.c'')]),
  (''mqttpacket_5fsend_5fpingreq_239'', ''MQTTPacket_send_pingreq'',
    [(''../MQTTPacketOut_8c.html#acf4b3402e224ac22ffbe74731f374fe0'', 1, ''MQTTPacketOut.c'')]),
  (''mqttpacket_5fsend_5fpuback_240'', ''MQTTPacket_send_puback'',
    [(''../MQTTPacket_8c.html#a8b93325a6a336406497b20b489d6c46a'', 1, ''MQTTPacket.c'')]),
  (''mqttpacket_5fsend_5fpubcomp_241'', ''MQTTPacket_send_pubcomp'',
    [(''../MQTTPacket_8c.html#a908f81381b1720e4a53d15c1c4690f5c'', 1, ''MQTTPacket.c'')]),
  (''mqttpacket_5fsend_5fpublish_242'', ''MQTTPacket_send_publish'',
    [(''../MQTTPacket_8c.html#a9ebcf93ff2ba3bd103f016c975e9c9c4'', 1, ''MQTTPacket.c'')]),
  (''mqttpacket_5fsend_5fpubrec_243'', ''MQTTPacket_send_pubrec'',
    [(''../MQTTPacket_8c.html#a8167e3188a4bdcfb30c10e0d76c82afe'', 1, ''MQTTPacket.c'')]),
  (''mqttpacket_5fsend_5fpubrel_244'', ''MQTTPacket_send_pubrel'',
    [(''../MQTTPacket_8c.html#adec2c812b12255dab78f75163a4f1960'', 1, ''MQTTPacket.c'')]),
  (''mqttpacket_5fsend_5fsubscribe_245'', ''MQTTPacket_send_subscribe'',
    [(''../MQTTPacketOut_8c.html#a90212ed29c311f52a1dce0617133b1a7'', 1, ''MQTTPacketOut.c'')]),
  (''mqttpacket_5fsend_5funsubscribe_246'', ''MQTTPacket_send_unsubscribe'',
    [(''../MQTTPacketOut_8c.html#a1ad4c9b76c6ab88c394ee925eb4dcd44'', 1, ''MQTTPacketOut.c'')]),
  (''mqttpacket_5fsends_247'', ''MQTTPacket_sends'',
    [(''../MQTTPacket_8c.html#a3635fd8035177b20c478daea6bad9328'', 1, ''MQTTPacket.c'')]),
  (''mqttpacket_5fsuback_248'', ''MQTTPacket_suback'',
    [(''../MQTTPacketOut_8c.html#aee4b3e106128629671828ae7bfa70850'', 1, ''MQTTPacketOut.c'')]),
  (''mqttpacket_5funsuback_249'', ''MQTTPacket_unsuback'',
    [(''../MQTTPacketOut_8c.html#a93f6aa4b23d30f6c8c5be87b0b58e37c'', 1, ''MQTTPacketOut.c'')]),
  (''mqttpacket_5fvbidecode_250'', ''MQTTPacket_VBIdecode'',
    [(''../MQTTPacket_8c.html#a4fc1ee4d2cf8fd9bd59d89aadab222df'', 1, ''MQTTPacket.c'')]),
  (''mqttpacketout_2ec_251'', ''MQTTPacketOut.c'',
    [(''../MQTTPacketOut_8c.html'', 1, '''')]),
  (''mqttpersistence_2ec_252'', ''MQTTPersistence.c'',
    [(''../MQTTPersistence_8c.html'', 1, '''')]),
  (''mqttpersistence_5fafterread_253'', ''MQTTPersistence_afterRead'',
    [(''../MQTTClientPersistence_8h.html#af5a966a574c6ad7a35f1ebb7edd5c1c4'', 1, ''MQTTClientPersistence.h'')]),
  (''mqttpersistence_5fbeforewrite_254'', ''MQTTPersistence_beforeWrite'',
    [(''../MQTTClientPersistence_8h.html#ab865640a1cc53b68622004c5a2d29fae'', 1, ''MQTTClientPersistence.h'')]),
  (''mqttpersistence_5fclear_255'', ''MQTTPersistence_clear'',
    [(''../MQTTPersistence_8c.html#a6f6056b7418b66a3786a5028b2357a86'', 1, ''MQTTPersistence.c'')]),
  (''mqttpersistence_5fclose_256'', ''MQTTPersistence_close'',
    [(''../MQTTPersistence_8c.html#a385b6c191dbf51652d3e3a81813848f1'', 1, ''MQTTPersistence.c'')]),
  (''mqttpersistence_5fcreate_257'', ''MQTTPersistence_create'',
    [(''../MQTTPersistence_8c.html#a75e756280e499db530896c5b74b8d3b5'', 1, ''MQTTPersistence.c'')]),
  (''mqttpersistence_5finitialize_258'', ''MQTTPersistence_initialize'',
    [(''../MQTTPersistence_8c.html#a65b64467da967b6930966b98f249406e'', 1, ''MQTTPersistence.c'')])]"

lemma internal_all_c_part1_length: "length internal_all_c_part1 = 127"
  by (simp add: internal_all_c_part1_def)

lemma internal_all_c_part1_wf: "index_wf CHR ''m'' 132 internal_all_c_part1"
  by (rule index_wf_check) (simp add: internal_all_c_part1_def index_eval del: One_nat_def)

definition internal_all_c_part2 :: "search_entry list" where
  "internal_all_c_part2 = [
  (''mqttpersistence_5finsertinorder_259'', ''MQTTPersistence_insertInOrder'',
    [(''../MQTTPersistence_8c.html#a568adcd6ad3542d6f631a7f7a2e682e5'', 1, ''MQTTPersistence.c'')]),
  (''mqttpersistence_5fmessage_260'', ''MQTTPersistence_message'',
    [(''../structMQTTPersistence__message.html'', 1, '''')]),
  (''mqttpersistence_5fputpacket_261'', ''MQTTPersistence_putPacket'',
    [(''../MQTTPersistence_8c.html#a18eab666c3e6aecd92a6c8f10df808e3'', 1, ''MQTTPersistence.c'')]),
  (''mqttpersistence_5fqentry_262'', ''MQTTPersistence_qEntry'',
    [(''../structMQTTPersistence__qEntry.html'', 1, '''')]),
  (''mqttpersistence_5fremove_263'', ''MQTTPersistence_remove'',
    [(''../MQTTPersistence_8c.html#aba48f1a44c540fa37bca207cae3cbbd3'', 1, ''MQTTPersistence.c'')]),
  (''mqttpersistence_5frestoremessagequeue_264'', ''MQTTPersistence_restoreMessageQueue'',
    [(''../MQTTPersistence_8c.html#ab4f6437946ac80d5f9e882e92e59cc5c'', 1, ''MQTTPersistence.c'')]),
  (''mqttpersistence_5frestorepacket_265'', ''MQTTPersistence_restorePacket'',
    [(''../MQTTPersistence_8c.html#a6bc55eebf10d7a7f7e2849b3e33716d1'', 1, ''MQTTPersistence.c'')]),
  (''mqttpersistence_5frestorepackets_266'', ''MQTTPersistence_restorePackets'',
    [(''../MQTTPersistence_8c.html#a3e607d17e088a493097af07e9c7b0006'', 1, ''MQTTPersistence.c'')]),
  (''mqttpersistence_5fwrapmsgid_267'', ''MQTTPersistence_wrapMsgID'',
    [(''../MQTTPersistence_8c.html#adbf5881a3c6ce9bd7062182dfffe27fa'', 1, ''MQTTPersistence.c'')]),
  (''mqttpersistencedefault_2ec_268'', ''MQTTPersistenceDefault.c'',
    [(''../MQTTPersistenceDefault_8c.html'', 1, '''')]),
  (''mqttproperties_269'', ''MQTTProperties'',
    [(''../structMQTTProperties.html'', 1, '''')]),
  (''mqttproperty_270'', ''MQTTProperty'',
    [(''../structMQTTProperty.html'', 1, '''')]),
  (''mqttprotocol_271'', ''MQTTProtocol'',
    [(''../structMQTTProtocol.html'', 1, '''')]),
  (''mqttprotocol_5faddressport_272'', ''MQTTProtocol_addressPort'',
    [(''../MQTTProtocolOut_8c.html#ae9a2970a33893540e42ff5a8d95411dc'', 1, ''MQTTProtocolOut.c'')]),
  (''mqttprotocol_5fassignmsgid_273'', ''MQTTProtocol_assignMsgId'',
    [(''../MQTTProtocolClient_8c.html#a0fa824f9702cb6b0d7c800fd65198fce'', 1, ''MQTTProtocolClient.c'')]),
  (''mqttprotocol_5fcheckpendingwrites_274'', ''MQTTProtocol_checkPendingWrites'',
    [(''../MQTTClient_8c.html#acdcf1aefca1dbb3d1b3d36c9bbaf3760'', 1, ''MQTTClient.c'')]),
  (''mqttprotocol_5fclosesession_275'', ''MQTTProtocol_closeSession'',
    [(''../MQTTClient_8c.html#a9f7b0789ff9ca9ded72dbad2e747b333'', 1, ''MQTTClient.c'')]),
  (''mqttprotocol_5fconnect_276'', ''MQTTProtocol_connect'',
    [(''../MQTTProtocolOut_8c.html#ad9baf307647cbe6516eadbbe975cda8c'', 1, ''MQTTProtocolOut.c'')]),
  (''mqttprotocol_5fcreatemessage_277'', ''MQTTProtocol_createMessage'',
    [(''../MQTTProtocolClient_8c.html#afbf121be11a48fcda3e0d639bc47472b'', 1, ''MQTTProtocolClient.c'')]),
  (''mqttprotocol_5femptymessagelist_278'', ''MQTTProtocol_emptyMessageList'',
    [(''../MQTTProtocolClient_8c.html#ab9c5a22f0cbd4fa648663de7ae7118ab'', 1, ''MQTTProtocolClient.c'')]),
  (''mqttprotocol_5ffreeclient_279'', ''MQTTProtocol_freeClient'',
    [(''../MQTTProtocolClient_8c.html#a52e062f52e5a42275471eeb23040fc0e'', 1, ''MQTTProtocolClient.c'')]),
  (''mqttprotocol_5ffreemessagelist_280'', ''MQTTProtocol_freeMessageList'',
    [(''../MQTTProtocolClient_8c.html#a8514ddc8d0f346c0da19ab4d59b4062f'', 1, ''MQTTProtocolClient.c'')]),
  (''mqttprotocol_5fhandledisconnects_281'', ''MQTTProtocol_handleDisconnects'',
    [(''../MQTTProtocolOut_8c.html#a4f914518a8e2d68cc9d9fbb2c22cdf6f'', 1, ''MQTTProtocolOut.c'')]),
  (''mqttprotocol_5fhandlepingresps_282'', ''MQTTProtocol_handlePingresps'',
    [(''../MQTTProtocolOut_8c.html#ad298c92c74b5f1acda774fc95e3d61c3'', 1, ''MQTTProtocolOut.c'')]),
  (''mqttprotocol_5fhandlepubacks_283'', ''MQTTProtocol_handlePubacks'',
    [(''../MQTTProtocolClient_8c.html#aa9f454819a84c7a43009253fabcea3f3'', 1, ''MQTTProtocolClient.c'')]),
  (''mqttprotocol_5fhandlepubcomps_284'', ''MQTTProtocol_handlePubcomps'',
    [(''../MQTTProtocolClient_8c.html#a9aa163c85710d4936ae368b8b9412440'', 1, ''MQTTProtocolClient.c'')]),
  (''mqttprotocol_5fhandlepublishes_285'', ''MQTTProtocol_handlePublishes'',
    [(''../MQTTProtocolClient_8c.html#a2d7897d575be486bf1ed0459d7b2b8e7'', 1, ''MQTTProtocolClient.c'')]),
  (''mqttprotocol_5fhandlepubrecs_286'', ''MQTTProtocol_handlePubrecs'',
    [(''../MQTTProtocolClient_8c.html#ac09429577a185297d8797d791b7116a2'', 1, ''MQTTProtocolClient.c'')]),
  (''mqttprotocol_5fhandlepubrels_287'', ''MQTTProtocol_handlePubrels'',
    [(''../MQTTProtocolClient_8c.html#a362e0560d6f4f0e50237664a1a8e89a7'', 1, ''MQTTProtocolClient.c'')]),
  (''mqttprotocol_5fhandlesubacks_288'', ''MQTTProtocol_handleSubacks'',
    [(''../MQTTProtocolOut_8c.html#a5424115bf427436c2d40058f15261ed0'', 1, ''MQTTProtocolOut.c'')]),
  (''mqttprotocol_5fhandleunsubacks_289'', ''MQTTProtocol_handleUnsubacks'',
    [(''../MQTTProtocolOut_8c.html#a0b9648549a1a132eecadb74df2e84f57'', 1, ''MQTTProtocolOut.c'')]),
  (''mqttprotocol_5fkeepalive_290'', ''MQTTProtocol_keepalive'',
    [(''../MQTTProtocolClient_8c.html#a218a69c333badc4a61b321bc830ac1e0'', 1, ''MQTTProtocolClient.c'')]),
  (''mqttprotocol_5fqueueack_291'', ''MQTTProtocol_queueAck'',
    [(''../MQTTProtocolClient_8c.html#a68e5f17517e75326c0869a22c7995358'', 1, ''MQTTProtocolClient.c'')]),
  (''mqttprotocol_5fremovepublication_292'', ''MQTTProtocol_removePublication'',
    [(''../MQTTProtocolClient_8c.html#a900fa28a8774ad6f5535104bb62e7abf'', 1, ''MQTTProtocolClient.c'')]),
  (''mqttprotocol_5fretries_293'', ''MQTTProtocol_retries'',
    [(''../MQTTProtocolClient_8c.html#ad2f52c0fff61c891b174d69b95bcd173'', 1, ''MQTTProtocolClient.c'')]),
  (''mqttprotocol_5fretry_294'', ''MQTTProtocol_retry'',
    [(''../MQTTProtocolClient_8c.html#a3a1acc3bd7b09ab9d52e15e4a97c4cb2'', 1, ''MQTTProtocolClient.c'')]),
  (''mqttprotocol_5fspecialchars_295'', ''MQTTProtocol_specialChars'',
    [(''../MQTTProtocolOut_8c.html#a6b8949d7db9299fa5fd940e8e58f31b6'', 1, ''MQTTProtocolOut.c'')]),
  (''mqttprotocol_5fstartpublish_296'', ''MQTTProtocol_startPublish'',
    [(''../MQTTProtocolClient_8c.html#a0f86c2cc2debfa39e275d3c76d5d0073'', 1, ''MQTTProtocolClient.c'')]),
  (''mqttprotocol_5fstartpublishcommon_297'', ''MQTTProtocol_startPublishCommon'',
    [(''../MQTTProtocolClient_8c.html#a4502a4b9257b32508fac87e42fb1d85a'', 1, ''MQTTProtocolClient.c'')]),
  (''mqttprotocol_5fstorepublication_298'', ''MQTTProtocol_storePublication'',
    [(''../MQTTProtocolClient_8c.html#ac753a3ad12292a0a9c2f4343bd33817e'', 1, ''MQTTProtocolClient.c'')]),
  (''mqttprotocol_5fsubscribe_299'', ''MQTTProtocol_subscribe'',
    [(''../MQTTProtocolOut_8c.html#a460d021d06dd24cf975dfe20e17ab1ba'', 1, ''MQTTProtocolOut.c'')]),
  (''mqttprotocol_5funsubscribe_300'', ''MQTTProtocol_unsubscribe'',
    [(''../MQTTProtocolOut_8c.html#a69083f5a059d129d1030140ec1cd3d58'', 1, ''MQTTProtocolOut.c'')]),
  (''mqttprotocol_5fwriteavailable_301'', ''MQTTProtocol_writeAvailable'',
    [(''../MQTTProtocolClient_8c.html#a5906689ff10dc091d1a2b317295d39b0'', 1, ''MQTTProtocolClient.c'')]),
  (''mqttprotocolclient_2ec_302'', ''MQTTProtocolClient.c'',
    [(''../MQTTProtocolClient_8c.html'', 1, '''')]),
  (''mqttprotocolout_2ec_303'', ''MQTTProtocolOut.c'',
    [(''../MQTTProtocolOut_8c.html'', 1, '''')]),
  (''mqttresponse_304'', ''MQTTResponse'',
    [(''../structMQTTResponse.html'', 1, '''')]),
  (''mqttresponse_5ffree_305'', ''MQTTResponse_free'',
    [(''../MQTTClient_8c.html#a01bd2c5f98ec5c0636a106db33f2b01b'', 1, ''MQTTClient.c'')]),
  (''mqttstrdup_306'', ''MQTTStrdup'',
    [(''../MQTTProtocolClient_8c.html#a89588f085edc5cee4eb650e8ad114df4'', 1, ''MQTTProtocolClient.c'')]),
  (''mqttstrncpy_307'', ''MQTTStrncpy'',
    [(''../MQTTProtocolClient_8c.html#a447b65c664ebedef8fecb70e29dc1767'', 1, ''MQTTProtocolClient.c'')]),
  (''mqttsubscribe_5foptions_308'', ''MQTTSubscribe_options'',
    [(''../structMQTTSubscribe__options.html'', 1, '''')]),
  (''mqttversion_309'', ''MQTTVersion'',
    [(''../structMQTTClient__connectOptions.html#ac5990907e10165a71e6b3c163f2f1eef'', 1, ''MQTTClient_connectOptions::MQTTVersion()''),
     (''../structAck.html#a542acd6ed107a1dfffd225b668c0d961'', 1, ''Ack::MQTTVersion()''),
     (''../structPublish.html#a5e5bc5c8445b9f8bdbc02315f91921a0'', 1, ''Publish::MQTTVersion()''),
     (''../structUnsuback.html#a25413381d1f688248d64a82e67746108'', 1, ''Unsuback::MQTTVersion()''),
     (''../structSuback.html#aec7bfa50ec92509a7d7f9466173a064e'', 1, ''Suback::MQTTVersion()''),
     (''../structConnack.html#af1a10784220b77ccfbf549b2443f2332'', 1, ''Connack::MQTTVersion()''),
     (''../structMQTTClient__createOptions.html#ae15c5b3e67be5967deb87d2830805565'', 1, ''MQTTClient_createOptions::MQTTVersion()''),
     (''../structMQTTAsync__command.html#aab15c3354653ca0d03644bcaa98f77fb'', 1, ''MQTTAsync_command::MQTTVersion()''),
     (''../structMQTTAsync__connectOptions.html#a03bb9a21cbbd0f9a2258204c1890ca40'', 1, ''MQTTAsync_connectOptions::MQTTVersion()''),
     (''../structMQTTAsync__createOptions.html#a538f8ca0715d75b79be91e8050a44402'', 1, ''MQTTAsync_createOptions::MQTTVersion()''),
     (''../structMQTTAsync__successData5.html#a2a1956f782970dfdc24bb521bd90452b'', 1, ''MQTTAsync_successData5::MQTTVersion()''),
     (''../structMQTTAsync__successData.html#a2803f7c3e77845d14d7d54004b6c16f9'', 1, ''MQTTAsync_successData::MQTTVersion()''),
     (''../structClients.html#a9cb1ad103af7c3aaf00e79037e6befba'', 1, ''Clients::MQTTVersion()'')]),
  (''mqttversion_2ec_310'', ''MQTTVersion.c'',
    [(''../MQTTVersion_8c.html'', 1, '''')]),
  (''msgid_311'', ''msgid'',
    [(''../structMQTTAsync__message.html#a2c8572ec595842768848982321835bfe'', 1, ''MQTTAsync_message'')]),
  (''msgid_312'', ''msgId'',
    [(''../structAck.html#aacfdbab79ac27e1a5ff80bccac4427a9'', 1, ''Ack'')]),
  (''msgid_313'', ''msgid'',
    [(''../structMQTTClient__message.html#a3be81df63644606036c0a139564a1d92'', 1, ''MQTTClient_message'')]),
  (''msgid_314'', ''msgID'',
    [(''../structClients.html#ad0aaa6d9fce1f8196ff859df00716055'', 1, ''Clients'')]),
  (''msgid_315'', ''msgId'',
    [(''../structPublish.html#ac1076c8b1dc5793c498f098f0a0d78cd'', 1, ''Publish::msgId()''),
     (''../structUnsuback.html#a804d221a84b2306cb6040f405315abc3'', 1, ''Unsuback::msgId()''),
     (''../structSuback.html#acb5971c2ca02372e41da6f1ccf202dba'', 1, ''Suback::msgId()'')]),
  (''myfree_316'', ''myfree'',
    [(''../Heap_8c.html#a25214c297c998eba3cfc8282b1162c69'', 1, ''Heap.c'')]),
  (''mymalloc_317'', ''mymalloc'',
    [(''../Heap_8c.html#a59e53a989d69c3da767487596d9bfa1f'', 1, ''Heap.c'')]),
  (''myrealloc_318'', ''myrealloc'',
    [(''../Heap_8c.html#a699e6722cc8f195f853f09ac274413a3'', 1, ''Heap.c'')])]"

lemma internal_all_c_part2_length: "length internal_all_c_part2 = 60"
  by (simp add: internal_all_c_part2_def)

lemma internal_all_c_part2_wf: "index_wf CHR ''m'' 259 internal_all_c_part2"
  by (rule index_wf_check) (simp add: internal_all_c_part2_def index_eval del: One_nat_def)

definition internal_all_c :: "search_entry list" where
  "internal_all_c = internal_all_c_part1 @ internal_all_c_part2"

lemma internal_all_c_wf: "index_wf CHR ''m'' 132 internal_all_c"
  using internal_all_c_part1_wf internal_all_c_part2_wf
  by (simp add: internal_all_c_def index_wf_append internal_all_c_part1_length internal_all_c_part2_length)

lemma internal_all_c_file: "index_file CHR ''m'' internal_all_c"
  by (rule index_fileI [OF _ internal_all_c_wf]) (simp add: internal_all_c_def internal_all_c_part1_def)

definition internal_all_d :: "search_entry list" where
  "internal_all_d = [
  (''name_319'', ''name'',
    [(''../structMQTTAsync__nameValue.html#ad14f405ef73f1f2aa632bb22e6b26f51'', 1, ''MQTTAsync_nameValue'')]),
  (''nametotype_320'', ''nameToType'',
    [(''../structnameToType.html'', 1, '''')]),
  (''net_321'', ''net'',
    [(''../structClients.html#a8521f3c0d7728e0bac41c1601ca8bbb9'', 1, ''Clients'')]),
  (''networkhandles_322'', ''networkHandles'',
    [(''../structnetworkHandles.html'', 1, '''')]),
  (''new_5fpackets_323'', ''new_packets'',
    [(''../MQTTPacket_8c.html#a210a7b616c27aa7247824022285da784'', 1, ''MQTTPacket.c'')]),
  (''next_324'', ''next'',
    [(''../structListElementStruct.html#ae087afc0ce4e6e17592420764902f301'', 1, ''ListElementStruct'')]),
  (''nextmessagetype_325'', ''nextMessageType'',
    [(''../structMessages.html#aa31b6d8af2e0230eccdcc6ee7f2cefb1'', 1, ''Messages'')]),
  (''nfds_326'', ''nfds'',
    [(''../structSockets.html#a9bee5974437201a4b7728955de2ebd50'', 1, ''Sockets'')]),
  (''nodestruct_327'', ''NodeStruct'',
    [(''../structNodeStruct.html'', 1, '''')]),
  (''nolocal_328'', ''noLocal'',
    [(''../structMQTTSubscribe__options.html#a52989a1198bc251aad22638e85f2b7b4'', 1, ''MQTTSubscribe_options'')])]"

lemma internal_all_d_wf: "index_wf CHR ''n'' 319 internal_all_d"
  by (rule index_wf_check) (simp add: internal_all_d_def index_eval del: One_nat_def)

lemma internal_all_d_file: "index_file CHR ''n'' internal_all_d"
  by (rule index_fileI [OF _ internal_all_d_wf]) (simp add: internal_all_d_def)

definition internal_all_e :: "search_entry list" where
  "internal_all_e = [
  (''onfailure_329'', ''onFailure'',
    [(''../structMQTTAsync__responseOptions.html#a180b2c728942d606a3fc4a4a79bb81f4'', 1, ''MQTTAsync_responseOptions::onFailure()''),
     (''../structMQTTAsync__connectOptions.html#a703d2a77602f3737eccf5123e16bb428'', 1, ''MQTTAsync_connectOptions::onFailure()''),
     (''../structMQTTAsync__disconnectOptions.html#a7719db20d0649fd1bd0edc239c289cdb'', 1, ''MQTTAsync_disconnectOptions::onFailure()'')]),
  (''onfailure5_330'', ''onFailure5'',
    [(''../structMQTTAsync__responseOptions.html#a134555eea729d1eeeb9427057834fa38'', 1, ''MQTTAsync_responseOptions::onFailure5()''),
     (''../structMQTTAsync__connectOptions.html#a48bd502d8028bb13afbce0793ebe3c76'', 1, ''MQTTAsync_connectOptions::onFailure5()''),
     (''../structMQTTAsync__disconnectOptions.html#a8d78996c4b349f10196450fe9900b943'', 1, ''MQTTAsync_disconnectOptions::onFailure5()'')]),
  (''onsuccess_331'', ''onSuccess'',
    [(''../structMQTTAsync__responseOptions.html#a4a6dffebf9a6f4ffb9fe2a5d949d8090'', 1, ''MQTTAsync_responseOptions::onSuccess()''),
     (''../structMQTTAsync__connectOptions.html#a99c3f6fd2c5238112a6ae90ce1013f10'', 1, ''MQTTAsync_connectOptions::onSuccess()''),
     (''../structMQTTAsync__disconnectOptions.html#afe4eec80b7037a59e459fb8643bed3e3'', 1, ''MQTTAsync_disconnectOptions::onSuccess()'')]),
  (''onsuccess5_332'', ''onSuccess5'',
    [(''../structMQTTAsync__responseOptions.html#a1294e96bc2d81fca8808fdca3bf4dd2e'', 1, ''MQTTAsync_responseOptions::onSuccess5()''),
     (''../structMQTTAsync__connectOptions.html#af108a647db655523e892938d3a67d6b4'', 1, ''MQTTAsync_connectOptions::onSuccess5()''),
     (''../structMQTTAsync__disconnectOptions.html#ad8a30361f986c6f32ee33e59591d736b'', 1, ''MQTTAsync_disconnectOptions::onSuccess5()'')]),
  (''outboundmsgs_333'', ''outboundMsgs'',
    [(''../structClients.html#a1d9f8325aa92c6f65a285e823091bbe1'', 1, ''Clients'')]),
  (''outboundqueue_334'', ''outboundQueue'',
    [(''../structClients.html#a9495d5b5b191a897c05ea8d298e6d6b5'', 1, ''Clients'')])]"

lemma internal_all_e_wf: "index_wf CHR ''o'' 329 internal_all_e"
  by (rule index_wf_check) (simp add: internal_all_e_def index_eval del: One_nat_def)

lemma internal_all_e_file: "index_file CHR ''o'' internal_all_e"
  by (rule index_fileI [OF _ internal_all_e_wf]) (simp add: internal_all_e_def)

definition internal_all_f :: "search_entry list" where
  "internal_all_f = [
  (''packet_5fnames_335'', ''packet_names'',
    [(''../MQTTPacket_8c.html#a4536b1c36ed06171f20baeb69c01aa02'', 1, ''MQTTPacket.c'')]),
  (''packet_5ftype_336'', ''packet_type'',
    [(''../structMQTTAsync__failureData5.html#a20603650f6fd4e429fc4c246d5005843'', 1, ''MQTTAsync_failureData5'')]),
  (''packetbuffers_337'', ''PacketBuffers'',
    [(''../structPacketBuffers.html'', 1, '''')]),
  (''paho_5fthread_5fcreate_5fmutex_338'', ''Paho_thread_create_mutex'',
    [(''../Thread_8c.html#a4dc03e919803e0af06fabbd4f394a51c'', 1, ''Thread.c'')]),
  (''paho_5fthread_5fdestroy_5fmutex_339'', ''Paho_thread_destroy_mutex'',
    [(''../Thread_8c.html#ad2c1a28aa3f8ae9cdd6677fd5477b8e4'', 1, ''Thread.c'')]),
  (''paho_5fthread_5fgetid_340'', ''Paho_thread_getid'',
    [(''../Thread_8c.html#aa3e166167a73a02b488d49e724d161c4'', 1, ''Thread.c'')]),
  (''paho_5fthread_5flock_5fmutex_341'', ''Paho_thread_lock_mutex'',
    [(''../Thread_8c.html#a1c9cd0a1556e72719a5ed3f9cdf6686f'', 1, ''Thread.c'')]),
  (''paho_5fthread_5fstart_342'', ''Paho_thread_start'',
    [(''../Thread_8c.html#a342744cc2c60c981c4558475a759ca6c'', 1, ''Thread.c'')]),
  (''paho_5fthread_5funlock_5fmutex_343'', ''Paho_thread_unlock_mutex'',
    [(''../Thread_8c.html#a1c21203efa0c10544d24585870fe4757'', 1, ''Thread.c'')]),
  (''parent_344'', ''parent'',
    [(''../structNodeStruct.html#a1a00514fc5241f8b1391fa0eb433a128'', 1, ''NodeStruct'')]),
  (''password_345'', ''password'',
    [(''../structClients.html#a9f88bf65b015c91ec6ae7bc827513d66'', 1, ''Clients::password()''),
     (''../structMQTTAsync__connectOptions.html#a52a773222e567d8480c85b6a27bf36f2'', 1, ''MQTTAsync_connectOptions::password()''),
     (''../structMQTTClient__connectOptions.html#a8f0e7e9e217a913fa8e200e2d5e45f6e'', 1, ''MQTTClient_connectOptions::password()''),
     (''../structConnect.html#a5ad7b3bbaab88cc22692b849f31b2756'', 1, ''Connect::password()'')]),
  (''passwordlen_346'', ''passwordlen'',
    [(''../structClients.html#a9fc28cb6abab3247752403043c346aa1'', 1, ''Clients'')]),
  (''payload_347'', ''payload'',
    [(''../structMQTTClient__message.html#a90437a223f235ad4412d0c7c69f08125'', 1, ''MQTTClient_message::payload()''),
     (''../structPublish.html#abe2b6e569277a3c7fda52449e1ea31b6'', 1, ''Publish::payload()''),
     (''../structMQTTClient__willOptions.html#a7553866f76f2f01ee59bc2114da9a169'', 1, ''MQTTClient_willOptions::payload()''),
     (''../structMQTTAsync__willOptions.html#a359707f9e88d705bce91d482d9816e33'', 1, ''MQTTAsync_willOptions::payload()''),
     (''../structMQTTAsync__message.html#a13d88e9c871b5b39b73370a0784331af'', 1, ''MQTTAsync_message::payload()'')]),
  (''payloadlen_348'', ''payloadlen'',
    [(''../structMQTTAsync__message.html#a9271900e2789ff81e382a47842aaee8f'', 1, ''MQTTAsync_message::payloadlen()''),
     (''../structMQTTClient__message.html#a85b39bde61ef9f5ed853ad6489145a94'', 1, ''MQTTClient_message::payloadlen()''),
     (''../structPublish.html#ac250077e84d98fc44f95530793bae79b'', 1, ''Publish::payloadlen()'')]),
  (''pclear_349'', ''pclear'',
    [(''../structMQTTClient__persistence.html#a4eb919940dcc01a005abcdeb08a7eb10'', 1, ''MQTTClient_persistence'')]),
  (''pclose_350'', ''pclose'',
    [(''../structMQTTClient__persistence.html#a1bcc2ebaee1ab155b906493b14088a33'', 1, ''MQTTClient_persistence'')]),
  (''pcontainskey_351'', ''pcontainskey'',
    [(''../structMQTTClient__persistence.html#a049d548dc2bbe906309a9f869a60653c'', 1, ''MQTTClient_persistence'')]),
  (''pending_5fsocketcompare_352'', ''pending_socketcompare'',
    [(''../SocketBuffer_8c.html#a39f1ee9c98bc12a7be4d7a40b03550d5'', 1, ''SocketBuffer.c'')]),
  (''pending_5fwrite_353'', ''pending_write'',
    [(''../structpending__write.html'', 1, '''')]),
  (''pending_5fwrites_354'', ''pending_writes'',
    [(''../structpending__writes.html'', 1, '''')]),
  (''persistence_355'', ''persistence'',
    [(''../structClients.html#a8745ab9f05600fd3f97bf695e99a7f17'', 1, ''Clients'')]),
  (''persistence_5fclear_356'', ''Persistence_clear'',
    [(''../MQTTClientPersistence_8h.html#acee7097c1a0ab44b98c870f533687887'', 1, ''MQTTClientPersistence.h'')]),
  (''persistence_5fclose_357'', ''Persistence_close'',
    [(''../MQTTClientPersistence_8h.html#a3582de2c87e89f617e8e553b2a0e279a'', 1, ''MQTTClientPersistence.h'')]),
  (''persistence_5fcontainskey_358'', ''Persistence_containskey'',
    [(''../MQTTClientPersistence_8h.html#a753a0f9a9c51284d63a907af19c7bbba'', 1, ''MQTTClientPersistence.h'')]),
  (''persistence_5fget_359'', ''Persistence_get'',
    [(''../MQTTClientPersistence_8h.html#adc3aff3c570fa5509e9d6814a85ab867'', 1, ''MQTTClientPersistence.h'')]),
  (''persistence_5fkeys_360'', ''Persistence_keys'',
    [(''../MQTTClientPersistence_8h.html#a2601cc91eeabdbf9578f8dd45e4997a8'', 1, ''MQTTClientPersistence.h'')]),
  (''persistence_5fopen_361'', ''Persistence_open'',
    [(''../MQTTClientPersistence_8h.html#a4c7d332bb16907058ae3b375488b6008'', 1, ''MQTTClientPersistence.h'')]),
  (''persistence_5fput_362'', ''Persistence_put'',
    [(''../MQTTClientPersistence_8h.html#a44679cab77cfbd6e2a4639cdd27ac80c'', 1, ''MQTTClientPersistence.h'')]),
  (''persistence_5fremove_363'', ''Persistence_remove'',
    [(''../MQTTClientPersistence_8h.html#a73350bf7208658bf5434a59f7bdbae90'', 1, ''MQTTClientPersistence.h'')]),
  (''pget_364'', ''pget'',
    [(''../structMQTTClient__persistence.html#a0f9fe9edd3946f0647862de7904e4098'', 1, ''MQTTClient_persistence'')]),
  (''phandle_365'', ''phandle'',
    [(''../structClients.html#a1a0ca8e87f5d963ea3ab5c2e7748aaa5'', 1, ''Clients'')]),
  (''ping_5fdue_366'', ''ping_due'',
    [(''../structClients.html#a121c64145977cb25dfd05a3297a4d6f1'', 1, ''Clients'')]),
  (''ping_5fdue_5ftime_367'', ''ping_due_time'',
    [(''../structClients.html#a4e6f0b2b23c1a2b86899c9ca7b06b29b'', 1, ''Clients'')]),
  (''pkeys_368'', ''pkeys'',
    [(''../structMQTTClient__persistence.html#a36a69926a618f7e0f5098db61ece101b'', 1, ''MQTTClient_persistence'')]),
  (''popen_369'', ''popen'',
    [(''../structMQTTClient__persistence.html#ae58084438624ad267f7c050debd1b2ff'', 1, ''MQTTClient_persistence'')]),
  (''pos_370'', ''pos'',
    [(''../structws__frame.html#a03099256dd943b73f0558039b6ff4c6b'', 1, ''ws_frame'')]),
  (''pput_371'', ''pput'',
    [(''../structMQTTClient__persistence.html#a0f7846e9b4118a7a63702c504f4c8e9d'', 1, ''MQTTClient_persistence'')]),
  (''premove_372'', ''premove'',
    [(''../structMQTTClient__persistence.html#a815d4110bfd7f2678a60f9264b13e075'', 1, ''MQTTClient_persistence'')]),
  (''prev_373'', ''prev'',
    [(''../structListElementStruct.html#a988db5828265edf844721e841e71fffe'', 1, ''ListElementStruct'')]),
  (''prieyecatcher_374'', ''PRIeyecatcher'',
    [(''../Heap_8c.html#a8ee400b3ef078dd6b8075360a3b656a8'', 1, ''Heap.c'')]),
  (''privatekey_375'', ''privateKey'',
    [(''../structMQTTClient__SSLOptions.html#a5f3cc2c0f36991db85aae88ccd4985f9'', 1, ''MQTTClient_SSLOptions::privateKey()''),
     (''../structMQTTAsync__SSLOptions.html#a8b56d6075568072840f02abc8c642f6a'', 1, ''MQTTAsync_SSLOptions::privateKey()'')]),
  (''privatekeypassword_376'', ''privateKeyPassword'',
    [(''../structMQTTClient__SSLOptions.html#a183af235478d93a6b14c204e9e291bab'', 1, ''MQTTClient_SSLOptions::privateKeyPassword()''),
     (''../structMQTTAsync__SSLOptions.html#a498e4dfcb65894bfc04290ace6b9a4cd'', 1, ''MQTTAsync_SSLOptions::privateKeyPassword()'')]),
  (''properties_377'', ''properties'',
    [(''../structMQTTAsync__responseOptions.html#abc19c474b6908b2bcbd42f8410d46336'', 1, ''MQTTAsync_responseOptions::properties()''),
     (''../structMQTTAsync__message.html#a48ff43122b16a12b6b8a9890ebfb6410'', 1, ''MQTTAsync_message::properties()''),
     (''../structMQTTAsync__failureData5.html#a9c1807e86e398de6f4846d90b4a5eda6'', 1, ''MQTTAsync_failureData5::properties()''),
     (''../structMQTTAsync__successData5.html#ac425dfec67b3245e95a3e415d93ba5bf'', 1, ''MQTTAsync_successData5::properties()''),
     (''../structAck.html#a7eff67c84b323fc798eb3282b2981069'', 1, ''Ack::properties()''),
     (''../structPublish.html#a99fce902e497cd379686c6d447a17be3'', 1, ''Publish::properties()''),
     (''../structUnsuback.html#adc48396a054907a9806fef1dd46d1055'', 1, ''Unsuback::properties()''),
     (''../structSuback.html#a57c418a7021b10c92aec4c4d010b7f67'', 1, ''Suback::properties()''),
     (''../structConnack.html#ab5d35213eadd6bbecd56627b9680ac0c'', 1, ''Connack::properties()''),
     (''../structMQTTClient__message.html#aa24d24d388481c0616a704cabb041f95'', 1, ''MQTTClient_message::properties()''),
     (''../structMQTTAsync__disconnectOptions.html#a2df711f7d216b57a584195691ac5630f'', 1, ''MQTTAsync_disconnectOptions::properties()'')]),
  (''props_5frc_5fparms_378'', ''props_rc_parms'',
    [(''../structprops__rc__parms.html'', 1, '''')]),
  (''protocol_379'', ''Protocol'',
    [(''../structConnect.html#ab87417598de200c235ce28e8947f8804'', 1, ''Connect'')]),
  (''protos_380'', ''protos'',
    [(''../structMQTTClient__SSLOptions.html#ad3db47e7874990570d03758a3fa28dad'', 1, ''MQTTClient_SSLOptions::protos()''),
     (''../structMQTTAsync__SSLOptions.html#a9947024802d3fb16fc050f4741a46e04'', 1, ''MQTTAsync_SSLOptions::protos()'')]),
  (''protos_5flen_381'', ''protos_len'',
    [(''../structMQTTClient__SSLOptions.html#ac2df368c72cfaa432f90e3b657bd0883'', 1, ''MQTTClient_SSLOptions::protos_len()''),
     (''../structMQTTAsync__SSLOptions.html#ad9e390b02afbf856c5a9267d30f09208'', 1, ''MQTTAsync_SSLOptions::protos_len()'')]),
  (''pstclear_382'', ''pstclear'',
    [(''../MQTTPersistenceDefault_8c.html#a15b1457f7fd20dde1fd51ed434321e1a'', 1, ''MQTTPersistenceDefault.c'')]),
  (''pstclose_383'', ''pstclose'',
    [(''../MQTTPersistenceDefault_8c.html#a24f38d19ff3db61292d7b463e59174ef'', 1, ''MQTTPersistenceDefault.c'')]),
  (''pstcontainskey_384'', ''pstcontainskey'',
    [(''../MQTTPersistenceDefault_8c.html#a2a55461def3359a2b0aff6b3bb0644ad'', 1, ''MQTTPersistenceDefault.c'')]),
  (''pstget_385'', ''pstget'',
    [(''../MQTTPersistenceDefault_8c.html#a3aef9f9af29882fac9e76984e4c2954c'', 1, ''MQTTPersistenceDefault.c'')]),
  (''pstkeys_386'', ''pstkeys'',
    [(''../MQTTPersistenceDefault_8c.html#a9f358375b8e254983d00f8b057e97dd6'', 1, ''MQTTPersistenceDefault.c'')]),
  (''pstmkdir_387'', ''pstmkdir'',
    [(''../MQTTPersistenceDefault_8c.html#aecfbfa761dfca1b551d9ade325f480b1'', 1, ''MQTTPersistenceDefault.c'')]),
  (''pstopen_388'', ''pstopen'',
    [(''../MQTTPersistenceDefault_8c.html#a919cf4710a1f7d7ce0878599e9aa4700'', 1, ''MQTTPersistenceDefault.c'')]),
  (''pstput_389'', ''pstput'',
    [(''../MQTTPersistenceDefault_8c.html#a64e0c1a2fd06375b975d6643175572d8'', 1, ''MQTTPersistenceDefault.c'')]),
  (''pstremove_390'', ''pstremove'',
    [(''../MQTTPersistenceDefault_8c.html#a64b106b9a2778f97d271af7c9a7940f2'', 1, ''MQTTPersistenceDefault.c'')]),
  (''ptr_391'', ''ptr'',
    [(''../structstorageElement.html#a0d617635e796eaa92ace8cb5cd6d0925'', 1, ''storageElement'')]),
  (''ptrcompare_392'', ''ptrCompare'',
    [(''../Heap_8c.html#a45db32d4f454f94d7f4574deced5ee33'', 1, ''Heap.c'')]),
  (''pub_393'', ''pub'',
    [(''../structMQTTAsync__successData5.html#a7e75879a42ba01477a3c921487e3c564'', 1, ''MQTTAsync_successData5::pub()''),
     (''../structMQTTAsync__successData.html#a61d994959ff1350ab2a0986d33ecd204'', 1, ''MQTTAsync_successData::pub()'')]),
  (''publications_394'', ''Publications'',
    [(''../structPublications.html'', 1, '''')]),
  (''publish_395'', ''Publish'',
    [(''../structPublish.html'', 1, '''')])]"

lemma internal_all_f_wf: "index_wf CHR ''p'' 335 internal_all_f"
  by (rule index_wf_check) (simp add: internal_all_f_def index_eval del: One_nat_def)

lemma internal_all_f_file: "index_file CHR ''p'' internal_all_f"
  by (rule index_fileI [OF _ internal_all_f_wf]) (simp add: internal_all_f_def)

definition internal_all_10 :: "search_entry list" where
  "internal_all_10 = [
  (''qentry_396'', ''qEntry'',
    [(''../structqEntry.html'', 1, '''')]),
  (''qos_397'', ''qos'',
    [(''../structMQTTAsync__message.html#a6e0971dbde0f04b6dd3bfab97ad5cdb7'', 1, ''MQTTAsync_message::qos()''),
     (''../structMQTTAsync__successData.html#af12fc9f6b7a42449f8299e5a8e4f0e7e'', 1, ''MQTTAsync_successData::qos()''),
     (''../structMQTTAsync__willOptions.html#add4a18313308fec634c69842f6ab9809'', 1, ''MQTTAsync_willOptions::qos()''),
     (''../structMQTTClient__message.html#ab981c28422ec70dbf8127a4f7164d964'', 1, ''MQTTClient_message::qos()''),
     (''../structMQTTClient__willOptions.html#a10a24c6ed7a204e6eb21d48ad8fb13cb'', 1, ''MQTTClient_willOptions::qos()''),
     (''../unionHeader.html#ae74f40c0e3656880e35ee93e79331f84'', 1, ''Header::qos()'')]),
  (''qoslist_398'', ''qosList'',
    [(''../structMQTTAsync__successData.html#aa4ad4a4023c5b9796e44b9dfd0df53e7'', 1, ''MQTTAsync_successData'')]),
  (''qoss_399'', ''qoss'',
    [(''../structSuback.html#a7769bd0751e462641636354d36505c28'', 1, ''Suback'')]),
  (''queues_400'', ''queues'',
    [(''../SocketBuffer_8c.html#aa8b85db4dca13d13c2b7fc704420323a'', 1, ''SocketBuffer.c'')])]"

lemma internal_all_10_wf: "index_wf CHR ''q'' 396 internal_all_10"
  by (rule index_wf_check) (simp add: internal_all_10_def index_eval del: One_nat_def)

lemma internal_all_10_file: "index_file CHR ''q'' internal_all_10"
  by (rule index_fileI [OF _ internal_all_10_wf]) (simp add: internal_all_10_def)

definition internal_all_11 :: "search_entry list" where
  "internal_all_11 = [
  (''rc_401'', ''rc'',
    [(''../structAck.html#a54d6ed9d045c38877e27bdf5802e3efe'', 1, ''Ack::rc()''),
     (''../structConnack.html#a5a963839f48e7f1319af687621f6e3ec'', 1, ''Connack::rc()'')]),
  (''readchar_402'', ''readChar'',
    [(''../MQTTPacket_8c.html#aff1d10b221f5b4ce421b4c2588cbe511'', 1, ''MQTTPacket.c'')]),
  (''readint_403'', ''readInt'',
    [(''../MQTTPacket_8c.html#a132d2d5b304d37cd2348a973f7b315de'', 1, ''MQTTPacket.c'')]),
  (''readint4_404'', ''readInt4'',
    [(''../MQTTPacket_8c.html#a84586f1ffeb9d37e7aeb695ec5bebe1d'', 1, ''MQTTPacket.c'')]),
  (''readutf_405'', ''readUTF'',
    [(''../MQTTPacket_8c.html#adca3afbe588ae7e6f342c5a697e4ee45'', 1, ''MQTTPacket.c'')]),
  (''readutflen_406'', ''readUTFlen'',
    [(''../MQTTPacket_8c.html#ae1ec2d8714335c6ec88c93e957b644d2'', 1, ''MQTTPacket.c'')]),
  (''reasoncode_407'', ''reasonCode'',
    [(''../structMQTTAsync__failureData5.html#a42afb6bf2c55f9830dc1d0984b251019'', 1, ''MQTTAsync_failureData5::reasonCode()''),
     (''../structMQTTAsync__successData5.html#a966b7fc75d0b1fbbc9791aa3eeef06a5'', 1, ''MQTTAsync_successData5::reasonCode()''),
     (''../structMQTTAsync__disconnectOptions.html#af99498836b80011b4e38a9aa18772921'', 1, ''MQTTAsync_disconnectOptions::reasonCode()'')]),
  (''reasoncodecount_408'', ''reasonCodeCount'',
    [(''../structMQTTAsync__successData5.html#a0bfa041c9ce783614786235c650a80aa'', 1, ''MQTTAsync_successData5'')]),
  (''reasoncodes_409'', ''reasonCodes'',
    [(''../structUnsuback.html#ac5fabab5aa00869b6ef4901cb4849122'', 1, ''Unsuback::reasonCodes()''),
     (''../structMQTTAsync__successData5.html#abe4fb1e0907a7a1e77fdb6851879b605'', 1, ''MQTTAsync_successData5::reasonCodes()'')]),
  (''reliable_410'', ''reliable'',
    [(''../structMQTTClient__connectOptions.html#acd6367d7a402e7b668f8ec9760cd42c8'', 1, ''MQTTClient_connectOptions'')]),
  (''reserved_411'', ''reserved'',
    [(''../structConnack.html#a455bf40d0da52ccfd9b546e7fa23b1d0'', 1, ''Connack'')]),
  (''retain_412'', ''retain'',
    [(''../unionHeader.html#afa52b52e4b84075cf31612a6ac3a0299'', 1, ''Header'')]),
  (''retainaspublished_413'', ''retainAsPublished'',
    [(''../structMQTTSubscribe__options.html#a9c66f0773c0484dde0e582b4c47d9bf7'', 1, ''MQTTSubscribe_options'')]),
  (''retained_414'', ''retained'',
    [(''../structMQTTClient__message.html#aad83220f265db124174ad79f528bb367'', 1, ''MQTTClient_message::retained()''),
     (''../structMQTTClient__willOptions.html#a09d69c3e208f40ab963dbd0ac2edcd5b'', 1, ''MQTTClient_willOptions::retained()''),
     (''../structMQTTAsync__willOptions.html#ab61a8f7cd82a4cbd919625031b1b51d6'', 1, ''MQTTAsync_willOptions::retained()''),
     (''../structMQTTAsync__message.html#a680f5368d5a13ff605466ab6a3d881bd'', 1, ''MQTTAsync_message::retained()'')]),
  (''retainhandling_415'', ''retainHandling'',
    [(''../structMQTTSubscribe__options.html#a8375543f39c16e32698226db118076e6'', 1, ''MQTTSubscribe_options'')]),
  (''retryinterval_416'', ''retryInterval'',
    [(''../structClients.html#a6b2188e352433ff089b1b7d08976a63b'', 1, ''Clients::retryInterval()''),
     (''../structMQTTAsync__connectOptions.html#a7f4026dad0479c6658aac68d719950a1'', 1, ''MQTTAsync_connectOptions::retryInterval()''),
     (''../structMQTTClient__connectOptions.html#aabeb07cc7a2aa18fc1fb365503185c62'', 1, ''MQTTClient_connectOptions::retryInterval()'')]),
  (''returned_417'', ''returned'',
    [(''../structMQTTClient__connectOptions.html#a198e91c4adb81b5851cbd5c2eb14424e'', 1, ''MQTTClient_connectOptions'')]),
  (''root_418'', ''root'',
    [(''../structTree.html#ad8e46ce0aead5778cbdd784d1e370d5f'', 1, ''Tree'')])]"

lemma internal_all_11_wf: "index_wf CHR ''r'' 401 internal_all_11"
  by (rule index_wf_check) (simp add: internal_all_11_def index_eval del: One_nat_def)

lemma internal_all_11_file: "index_file CHR ''r'' internal_all_11"
  by (rule index_fileI [OF _ internal_all_11_wf]) (simp add: internal_all_11_def)

definition internal_all_12 :: "search_entry list" where
  "internal_all_12 = [
  (''sendwhiledisconnected_419'', ''sendWhileDisconnected'',
    [(''../structMQTTAsync__createOptions.html#a7142a01ee58f39a950f8627c4bb05318'', 1, ''MQTTAsync_createOptions'')]),
  (''serveruri_420'', ''serverURI'',
    [(''../structMQTTClient__connectOptions.html#a31f882b2966272a53b2bee33cb1aea8c'', 1, ''MQTTClient_connectOptions::serverURI()''),
     (''../structMQTTAsync__successData5.html#ad5af721250d01a2d0a4d1cd7932b81eb'', 1, ''MQTTAsync_successData5::serverURI()''),
     (''../structMQTTAsync__successData.html#a622eceefeaf9679af35841b1e7564f48'', 1, ''MQTTAsync_successData::serverURI()'')]),
  (''serveruricount_421'', ''serverURIcount'',
    [(''../structMQTTClient__connectOptions.html#a71667cbc2aa857db5b831a1e6a4a1ec9'', 1, ''MQTTClient_connectOptions::serverURIcount()''),
     (''../structMQTTAsync__connectOptions.html#ae772aa4b3707c5c11d6be39f51ec4551'', 1, ''MQTTAsync_connectOptions::serverURIcount()'')]),
  (''serveruris_422'', ''serverURIs'',
    [(''../structMQTTClient__connectOptions.html#aec63485af96db24d26868d3a19a83504'', 1, ''MQTTClient_connectOptions::serverURIs()''),
     (''../structMQTTAsync__connectOptions.html#a50f0a294c8f7311ccd7f7803b432bb69'', 1, ''MQTTAsync_connectOptions::serverURIs()'')]),
  (''sessionexpiry_423'', ''sessionExpiry'',
    [(''../structClients.html#a54641954e17c0aef4e742c0a1e3e8391'', 1, ''Clients'')]),
  (''sessionpresent_424'', ''sessionPresent'',
    [(''../structMQTTAsync__successData5.html#ab8a0f5e336f3abe06921a22a5a134ab2'', 1, ''MQTTAsync_successData5::sessionPresent()''),
     (''../structMQTTAsync__successData.html#a71879fec2eb0c6b891a48ed813b2a9da'', 1, ''MQTTAsync_successData::sessionPresent()''),
     (''../structMQTTClient__connectOptions.html#a2ed78107fecaa4639a170f63ca42d507'', 1, ''MQTTClient_connectOptions::sessionPresent()''),
     (''../structConnack.html#a57f2834e64d4e3ff4f73012491f73f48'', 1, ''Connack::sessionPresent()'')]),
  (''sha_5fctx_5fs_425'', ''SHA_CTX_S'',
    [(''../structSHA__CTX__S.html'', 1, '''')]),
  (''size_426'', ''size'',
    [(''../structstorageElement.html#ac19ad736a483a3d3b3a5d6d6cd3ecfcf'', 1, ''storageElement::size()''),
     (''../structList.html#a166530a166abd81afec0e6b0283f7e80'', 1, ''List::size()''),
     (''../structNodeStruct.html#a4ac882ab7e5ab868d9449aec51a25adb'', 1, ''NodeStruct::size()''),
     (''../structTree.html#a784563aee04c7123724fceb5d56a0e6a'', 1, ''Tree::size()'')]),
  (''socket_2ec_427'', ''Socket.c'',
    [(''../Socket_8c.html'', 1, '''')]),
  (''socket_5fabortwrite_428'', ''Socket_abortWrite'',
    [(''../Socket_8c.html#aa24d7c85b03f09f16c78de0c1a9b3580'', 1, ''Socket.c'')]),
  (''socket_5faddpendingwrite_429'', ''Socket_addPendingWrite'',
    [(''../Socket_8c.html#a65be62649c8529bcafa111e37ffcb5d2'', 1, ''Socket.c'')]),
  (''socket_5faddsocket_430'', ''Socket_addSocket'',
    [(''../Socket_8c.html#a4c933d467e9ab2848b9590fe45f21f2f'', 1, ''Socket.c'')]),
  (''socket_5fclearpendingwrite_431'', ''Socket_clearPendingWrite'',
    [(''../Socket_8c.html#a3274d9743dd4d1c6e9392b74164d6379'', 1, ''Socket.c'')]),
  (''socket_5fclose_432'', ''Socket_close'',
    [(''../Socket_8c.html#a9da80ce7e69ae76dee95c94a2349c462'', 1, ''Socket.c'')]),
  (''socket_5fclose_5fonly_433'', ''Socket_close_only'',
    [(''../Socket_8c.html#a0e0f2981efa6caf604e8f0fc1072af90'', 1, ''Socket.c'')]),
  (''socket_5fcontinuewrite_434'', ''Socket_continueWrite'',
    [(''../Socket_8c.html#aa77cff9e8173f9b8d35d062558d0cb57'', 1, ''Socket.c'')]),
  (''socket_5fcontinuewrites_435'', ''Socket_continueWrites'',
    [(''../Socket_8c.html#ac176152ef036b6cfd7330a9481a7b2ed'', 1, ''Socket.c'')]),
  (''socket_5ferror_436'', ''Socket_error'',
    [(''../Socket_8c.html#a39a32a0495e5cba033f3c7fee72ae797'', 1, ''Socket.c'')]),
  (''socket_5fgetaddrname_437'', ''Socket_getaddrname'',
    [(''../Socket_8c.html#a212e51c4ce12e19be59c4d0f93cfb5d9'', 1, ''Socket.c'')]),
  (''socket_5fgetch_438'', ''Socket_getch'',
    [(''../Socket_8c.html#a01e567eb0c5db3193aaa02f117fd1137'', 1, ''Socket.c'')]),
  (''socket_5fgetdata_439'', ''Socket_getdata'',
    [(''../Socket_8c.html#a12c397b0fb6187db7a66a44041055a13'', 1, ''Socket.c'')]),
  (''socket_5fgetpeer_440'', ''Socket_getpeer'',
    [(''../Socket_8c.html#af10088907080a5c517ee23ac022f6538'', 1, ''Socket.c'')]),
  (''socket_5fgetreadysocket_441'', ''Socket_getReadySocket'',
    [(''../Socket_8c.html#ab33a53c9fce80d5dfeb26426b157034a'', 1, ''Socket.c'')]),
  (''socket_5fnew_442'', ''Socket_new'',
    [(''../Socket_8c.html#accf7d8d1529e31b2ad8286627cb662c0'', 1, ''Socket.c'')]),
  (''socket_5fnopendingwrites_443'', ''Socket_noPendingWrites'',
    [(''../Socket_8c.html#a457d9a6a9d8e886c46fcd0c096f45614'', 1, ''Socket.c'')]),
  (''socket_5foutinitialize_444'', ''Socket_outInitialize'',
    [(''../Socket_8c.html#a573a6eea727016f3e8770f60e5eed958'', 1, ''Socket.c'')]),
  (''socket_5foutterminate_445'', ''Socket_outTerminate'',
    [(''../Socket_8c.html#af365aa1d5a29ffcb83bb15edaf3401e6'', 1, ''Socket.c'')]),
  (''socket_5fputdatas_446'', ''Socket_putdatas'',
    [(''../Socket_8c.html#a8fac284bb799c180ef68bb5c7b4b1df4'', 1, ''Socket.c'')]),
  (''socket_5fqueue_447'', ''socket_queue'',
    [(''../structsocket__queue.html'', 1, '''')]),
  (''socket_5fsetnonblocking_448'', ''Socket_setnonblocking'',
    [(''../Socket_8c.html#ab8ff50df7c89391178aa754083d2f828'', 1, ''Socket.c'')]),
  (''socket_5fwritev_449'', ''Socket_writev'',
    [(''../Socket_8c.html#a550291985042dc080825ab27b16894fb'', 1, ''Socket.c'')]),
  (''socketbuffer_2ec_450'', ''SocketBuffer.c'',
    [(''../SocketBuffer_8c.html'', 1, '''')]),
  (''socketbuffer_5fcleanup_451'', ''SocketBuffer_cleanup'',
    [(''../SocketBuffer_8c.html#abb5eae96f4c62d1e6fefed8d078ecba8'', 1, ''SocketBuffer.c'')]),
  (''socketbuffer_5fcomplete_452'', ''SocketBuffer_complete'',
    [(''../SocketBuffer_8c.html#a8b7b6acbf2ec65796c32da7fd55c3ee8'', 1, ''SocketBuffer.c'')]),
  (''socketbuffer_5ffreedefq_453'', ''SocketBuffer_freeDefQ'',
    [(''../SocketBuffer_8c.html#acb4511a3a4767187a2607027aff718b8'', 1, ''SocketBuffer.c'')]),
  (''socketbuffer_5fgetqueuedchar_454'', ''SocketBuffer_getQueuedChar'',
    [(''../SocketBuffer_8c.html#a999ec229faa4b2e2c0f7db87693bc1f8'', 1, ''SocketBuffer.c'')]),
  (''socketbuffer_5fgetqueueddata_455'', ''SocketBuffer_getQueuedData'',
    [(''../SocketBuffer_8c.html#afcc9b9b6bd255b0a6e4c7e4f5a36bb37'', 1, ''SocketBuffer.c'')]),
  (''socketbuffer_5fgetwrite_456'', ''SocketBuffer_getWrite'',
    [(''../SocketBuffer_8c.html#a524311e577a7225a09fb944904c17886'', 1, ''SocketBuffer.c'')]),
  (''socketbuffer_5finitialize_457'', ''SocketBuffer_initialize'',
    [(''../SocketBuffer_8c.html#abc8599ffc6f7ad91a7748e5d78bbd926'', 1, ''SocketBuffer.c'')]),
  (''socketbuffer_5finterrupted_458'', ''SocketBuffer_interrupted'',
    [(''../SocketBuffer_8c.html#a412a40b44b12901e63e662ac0e5be0af'', 1, ''SocketBuffer.c'')]),
  (''socketbuffer_5fnewdefq_459'', ''SocketBuffer_newDefQ'',
    [(''../SocketBuffer_8c.html#a9293d4ef45aa2a51baab9be4eb73091b'', 1, ''SocketBuffer.c'')]),
  (''socketbuffer_5fpendingwrite_460'', ''SocketBuffer_pendingWrite'',
    [(''../SocketBuffer_8c.html#aa61a564b814b06d9cfd3fe9ce7ab1cf7'', 1, ''SocketBuffer.c'')]),
  (''socketbuffer_5fqueuechar_461'', ''SocketBuffer_queueChar'',
    [(''../SocketBuffer_8c.html#a2f6bac9a46fd116e58071ff49152d716'', 1, ''SocketBuffer.c'')]),
  (''socketbuffer_5fterminate_462'', ''SocketBuffer_terminate'',
    [(''../SocketBuffer_8c.html#a4a8d6188b4775789810a44396d05cf19'', 1, ''SocketBuffer.c'')]),
  (''socketbuffer_5fupdatewrite_463'', ''SocketBuffer_updateWrite'',
    [(''../SocketBuffer_8c.html#a7ba9075e011f49302304ce7b2d8e5b59'', 1, ''SocketBuffer.c'')]),
  (''socketbuffer_5fwritecomplete_464'', ''SocketBuffer_writeComplete'',
    [(''../SocketBuffer_8c.html#ae8667990c5933c3af9b90a163bba34dc'', 1, ''SocketBuffer.c'')]),
  (''socketcompare_465'', ''socketcompare'',
    [(''../SocketBuffer_8c.html#acebc1cbb93be4588f33b04ed404f6dbf'', 1, ''SocketBuffer.c'')]),
  (''sockets_466'', ''Sockets'',
    [(''../structSockets.html'', 1, '''')]),
  (''ssl_467'', ''ssl'',
    [(''../structMQTTClient__connectOptions.html#a4e6be3b2292800db30c65dd66af85976'', 1, ''MQTTClient_connectOptions::ssl()''),
     (''../structMQTTAsync__connectOptions.html#a04c88f4a4aba7ca2cfbd9ee5455f0850'', 1, ''MQTTAsync_connectOptions::ssl()'')]),
  (''ssl_5ferror_5fcb_468'', ''ssl_error_cb'',
    [(''../structMQTTClient__SSLOptions.html#a997877b8c152310bc342202807ea1165'', 1, ''MQTTClient_SSLOptions::ssl_error_cb()''),
     (''../structMQTTAsync__SSLOptions.html#a5214f2bfb8c6571c231792bb9560b00b'', 1, ''MQTTAsync_SSLOptions::ssl_error_cb()'')]),
  (''ssl_5ferror_5fcontext_469'', ''ssl_error_context'',
    [(''../structMQTTClient__SSLOptions.html#aeb2a43fde9dfc5627fda508a373bccfc'', 1, ''MQTTClient_SSLOptions::ssl_error_context()''),
     (''../structMQTTAsync__SSLOptions.html#aa3af8ec1e7dd0f3921cb5eaddffe955d'', 1, ''MQTTAsync_SSLOptions::ssl_error_context()'')]),
  (''ssl_5fpsk_5fcb_470'', ''ssl_psk_cb'',
    [(''../structMQTTClient__SSLOptions.html#a38ecc397cbe9e2042b77c7a52c9ccc35'', 1, ''MQTTClient_SSLOptions::ssl_psk_cb()''),
     (''../structMQTTAsync__SSLOptions.html#a6ccefb9910bc96b326298c0db67ce185'', 1, ''MQTTAsync_SSLOptions::ssl_psk_cb()'')]),
  (''ssl_5fpsk_5fcontext_471'', ''ssl_psk_context'',
    [(''../structMQTTClient__SSLOptions.html#ad459c7e3ab9f4558e9f239bf9b15f131'', 1, ''MQTTClient_SSLOptions::ssl_psk_context()''),
     (''../structMQTTAsync__SSLOptions.html#a9cf93d98a2382b374b1e9bbf9a910d5e'', 1, ''MQTTAsync_SSLOptions::ssl_psk_context()'')]),
  (''sslsocket_2ec_472'', ''SSLSocket.c'',
    [(''../SSLSocket_8c.html'', 1, '''')]),
  (''sslversion_473'', ''sslVersion'',
    [(''../structMQTTClient__SSLOptions.html#ace536bef1f2e763f28e761c0e3e3bdbe'', 1, ''MQTTClient_SSLOptions::sslVersion()''),
     (''../structMQTTAsync__SSLOptions.html#ad14df49c90828d0d0efd93e707c3a4a6'', 1, ''MQTTAsync_SSLOptions::sslVersion()'')]),
  (''stackentry_474'', ''stackEntry'',
    [(''../structstackEntry.html'', 1, '''')]),
  (''state_475'', ''state'',
    [(''../Heap_8c.html#a20b83c8e52be131ca41d22b8bf2c3b38'', 1, ''Heap.c'')]),
  (''storageelement_476'', ''storageElement'',
    [(''../structstorageElement.html'', 1, '''')]),
  (''stringcompare_477'', ''stringcompare'',
    [(''../LinkedList_8c.html#a936806c4b6f6c10d91cc128b63ab110c'', 1, ''LinkedList.c'')]),
  (''struct_5fid_478'', ''struct_id'',
    [(''../structMQTTAsync__SSLOptions.html#a43ec1e81ca408162f4b8496ba7f6da75'', 1, ''MQTTAsync_SSLOptions::struct_id()''),
     (''../structMQTTSubscribe__options.html#a2fe9d45e9ee31af976a232584d5a2409'', 1, ''MQTTSubscribe_options::struct_id()''),
     (''../structMQTTClient__connectOptions.html#ab2e2302e3cc1105d6c93ae1e8205d60c'', 1, ''MQTTClient_connectOptions::struct_id()''),
     (''../structMQTTClient__SSLOptions.html#a931062a739a44b9879bb181514070d75'', 1, ''MQTTClient_SSLOptions::struct_id()''),
     (''../structMQTTClient__willOptions.html#a6b64d983ab8586bc87c9c22b352a9717'', 1, ''MQTTClient_willOptions::struct_id()''),
     (''../structMQTTClient__createOptions.html#ada7ad105de2fd2307a48a75fa598854f'', 1, ''MQTTClient_createOptions::struct_id()''),
     (''../structMQTTClient__message.html#a7f5160eeef15b17f7c8ac493015f558d'', 1, ''MQTTClient_message::struct_id()''),
     (''../structMQTTClient__init__options.html#a1f162f079abc3f79c054715c0e5f71ad'', 1, ''MQTTClient_init_options::struct_id()''),
     (''../structMQTTAsync__disconnectOptions.html#a4a436daa9d391038e6e5748c31efb257'', 1, ''MQTTAsync_disconnectOptions::struct_id()''),
     (''../structMQTTAsync__connectOptions.html#ae6831f945c1353cd1fce5d94a5d0f54d'', 1, ''MQTTAsync_connectOptions::struct_id()''),
     (''../structMQTTAsync__willOptions.html#acc521d748a6a9806d8c839075e178a90'', 1, ''MQTTAsync_willOptions::struct_id()''),
     (''../structMQTTAsync__createOptions.html#afff54eb461a8ec8544a36f09d33f07c2'', 1, ''MQTTAsync_createOptions::struct_id()''),
     (''../structMQTTAsync__responseOptions.html#a4b82d5aca6f990de991c87c34f8a7d02'', 1, ''MQTTAsync_responseOptions::struct_id()''),
     (''../structMQTTAsync__successData5.html#a25e5058a92e35c2cb7c86a5de45cba9d'', 1, ''MQTTAsync_successData5::struct_id()''),
     (''../structMQTTAsync__failureData5.html#ab1408c66810d6761ec8b77190581f3bb'', 1, ''MQTTAsync_failureData5::struct_id()''),
     (''../structMQTTAsync__connectData.html#a0a5e8e4e111450187e0760dc04a6f26e'', 1, ''MQTTAsync_connectData::struct_id()''),
     (''../structMQTTAsync__message.html#a4621b522c9923c68003d30e9dba9aa4e'', 1, ''MQTTAsync_message::struct_id()''),
     (''../structMQTTAsync__init__options.html#a1f3cf365b97f7b7a362c4a6ca8eb5a42'', 1, ''MQTTAsync_init_options::struct_id()'')]),
  (''struct_5fversion_479'', ''struct_version'',
    [(''../structMQTTSubscribe__options.html#aed5f22c185be62363ac36df1d3778c6d'', 1, ''MQTTSubscribe_options::struct_version()''),
     (''../structMQTTAsync__message.html#af79efdfc9a4e082cbbafaed8fd333ce1'', 1, ''MQTTAsync_message::struct_version()''),
     (''../structMQTTClient__connectOptions.html#a0b07612dc569b59f7f937ff0c518a1bb'', 1, ''MQTTClient_connectOptions::struct_version()''),
     (''../structMQTTClient__SSLOptions.html#a770248be4bf5020b0f57f770afdaca7d'', 1, ''MQTTClient_SSLOptions::struct_version()''),
     (''../structMQTTClient__willOptions.html#af05e1e3e865af050c5fefac5e597cc7a'', 1, ''MQTTClient_willOptions::struct_version()''),
     (''../structMQTTClient__createOptions.html#ae94f345f0f147ed31b8fbd0cb6ebc784'', 1, ''MQTTClient_createOptions::struct_version()''),
     (''../structMQTTClient__message.html#a27b983a1ac95eb5c335d40840129c0c8'', 1, ''MQTTClient_message::struct_version()''),
     (''../structMQTTClient__init__options.html#abf7d43d1e40265cf8ff1ca4266fff0e6'', 1, ''MQTTClient_init_options::struct_version()''),
     (''../structMQTTAsync__disconnectOptions.html#aef6853e3c56c83ca3b49250578417848'', 1, ''MQTTAsync_disconnectOptions::struct_version()''),
     (''../structMQTTAsync__connectOptions.html#a013018a3b17149d482051a1be78ac984'', 1, ''MQTTAsync_connectOptions::struct_version()''),
     (''../structMQTTAsync__SSLOptions.html#a6240108041774c99720c17afa45d4814'', 1, ''MQTTAsync_SSLOptions::struct_version()''),
     (''../structMQTTAsync__willOptions.html#a1b53c99ddd236e4b796bb90e035ed30b'', 1, ''MQTTAsync_willOptions::struct_version()''),
     (''../structMQTTAsync__createOptions.html#a884363e807ef160450e64f7eb6ef0044'', 1, ''MQTTAsync_createOptions::struct_version()''),
     (''../structMQTTAsync__responseOptions.html#aabf57368b8266f17e7951579897f7f66'', 1, ''MQTTAsync_responseOptions::struct_version()''),
     (''../structMQTTAsync__successData5.html#a52c4260e2005d2067f3cccc70d7b4758'', 1, ''MQTTAsync_successData5::struct_version()''),
     (''../structMQTTAsync__failureData5.html#afc4100c8f3126342b75e60dcd720836f'', 1, ''MQTTAsync_failureData5::struct_version()''),
     (''../structMQTTAsync__connectData.html#afb621feeaf54da918d9c5cfd084a1656'', 1, ''MQTTAsync_connectData::struct_version()''),
     (''../structMQTTAsync__init__options.html#ad2a3507b60ec188dff83962192153991'', 1, ''MQTTAsync_init_options::struct_version()'')]),
  (''sub_480'', ''sub'',
    [(''../structMQTTAsync__successData5.html#ab3131c77b8bf772ea06ee580816ebc32'', 1, ''MQTTAsync_successData5'')]),
  (''suback_481'', ''Suback'',
    [(''../structSuback.html'', 1, '''')])]"

lemma internal_all_12_wf: "index_wf CHR ''s'' 419 internal_all_12"
  by (rule index_wf_check) (simp add: internal_all_12_def index_eval del: One_nat_def)

lemma internal_all_12_file: "index_file CHR ''s'' internal_all_12"
  by (rule index_fileI [OF _ internal_all_12_wf]) (simp add: internal_all_12_def)

definition internal_all_13 :: "search_entry list" where
  "internal_all_13 = [
  (''thread_2ec_482'', ''Thread.c'',
    [(''../Thread_8c.html'', 1, '''')]),
  (''thread_5fcheck_5fsem_483'', ''Thread_check_sem'',
    [(''../Thread_8c.html#ad327c467c568b27be4c3676fc698e129'', 1, ''Thread.c'')]),
  (''thread_5fcreate_5fcond_484'', ''Thread_create_cond'',
    [(''../Thread_8c.html#afdd152c518f968c777012d7dfb20ef96'', 1, ''Thread.c'')]),
  (''thread_5fcreate_5fsem_485'', ''Thread_create_sem'',
    [(''../Thread_8c.html#a3b9b6cb543ee55442d2037a971f651db'', 1, ''Thread.c'')]),
  (''thread_5fdestroy_5fcond_486'', ''Thread_destroy_cond'',
    [(''../Thread_8c.html#a95309628f2c15de1f3ea8047b086a707'', 1, ''Thread.c'')]),
  (''thread_5fdestroy_5fsem_487'', ''Thread_destroy_sem'',
    [(''../Thread_8c.html#ad075ec07f801ac1a2a7dee7097048182'', 1, ''Thread.c'')]),
  (''thread_5fpost_5fsem_488'', ''Thread_post_sem'',
    [(''../Thread_8c.html#ac023f527bed9c6c3a20244fa7efe272c'', 1, ''Thread.c'')]),
  (''thread_5fsignal_5fcond_489'', ''Thread_signal_cond'',
    [(''../Thread_8c.html#a7b0d40dc1603a6e93db0ee970bb6750f'', 1, ''Thread.c'')]),
  (''thread_5fwait_5fcond_490'', ''Thread_wait_cond'',
    [(''../Thread_8c.html#acd23266878de6faaee0a972ef74c4db6'', 1, ''Thread.c'')]),
  (''thread_5fwait_5fsem_491'', ''Thread_wait_sem'',
    [(''../Thread_8c.html#a4d0bbfc059da3cd10626244d3468d319'', 1, ''Thread.c'')]),
  (''threadentry_492'', ''threadEntry'',
    [(''../structthreadEntry.html'', 1, '''')]),
  (''timeout_493'', ''timeout'',
    [(''../structMQTTAsync__disconnectOptions.html#a71f6175d58e01af30b064c19967d42ca'', 1, ''MQTTAsync_disconnectOptions'')]),
  (''token_494'', ''token'',
    [(''../structMQTTAsync__successData.html#afd00f6f09b4cd92b5815202fc339be68'', 1, ''MQTTAsync_successData::token()''),
     (''../structMQTTAsync__successData5.html#ab31fe8cffc2ff14c1ebaee1a12feb787'', 1, ''MQTTAsync_successData5::token()''),
     (''../structMQTTAsync__responseOptions.html#aaf6926989620579f2590cdaf1ff16bfe'', 1, ''MQTTAsync_responseOptions::token()''),
     (''../structMQTTAsync__failureData5.html#af3be141ec32e131429a1ea9df6386eb5'', 1, ''MQTTAsync_failureData5::token()''),
     (''../structMQTTAsync__failureData.html#a9f3af8dc8c24876c319bc466188440d7'', 1, ''MQTTAsync_failureData::token()'')]),
  (''topic_495'', ''topic'',
    [(''../structPublish.html#af25a32a9a9bccf70af72fa5a19fa7864'', 1, ''Publish'')]),
  (''topicname_496'', ''topicName'',
    [(''../structMQTTAsync__willOptions.html#a19983de96d2ae2df35c588e36200374e'', 1, ''MQTTAsync_willOptions::topicName()''),
     (''../structMQTTClient__willOptions.html#a9273da2e77ed9b60b018b43c8d868d47'', 1, ''MQTTClient_willOptions::topicName()'')]),
  (''trace_5fdestination_497'', ''trace_destination'',
    [(''../Log_8c.html#a29606f1185cb957cd23842125d7d8ecd'', 1, ''Log.c'')]),
  (''trace_5fdestination_5fbackup_5fname_498'', ''trace_destination_backup_name'',
    [(''../Log_8c.html#a6e2c5a6602ec82079f7b7c3c1a622f8a'', 1, ''Log.c'')]),
  (''trace_5fdestination_5fname_499'', ''trace_destination_name'',
    [(''../Log_8c.html#aa46cc371a2f34c92be9e5df8ac162566'', 1, ''Log.c'')]),
  (''trace_5flevel_500'', ''trace_level'',
    [(''../structtrace__settings__type.html#a169138f5e03c0408ca30820418dcf186'', 1, ''trace_settings_type'')]),
  (''trace_5foutput_5flevel_501'', ''trace_output_level'',
    [(''../structtrace__settings__type.html#af861eec94e990b63af949f50d630ee0d'', 1, ''trace_settings_type'')]),
  (''trace_5fsettings_5ftype_502'', ''trace_settings_type'',
    [(''../structtrace__settings__type.html'', 1, '''')]),
  (''traceentry_503'', ''traceEntry'',
    [(''../structtraceEntry.html'', 1, '''')]),
  (''tree_504'', ''Tree'',
    [(''../structTree.html'', 1, '''')]),
  (''tree_2ec_505'', ''Tree.c'',
    [(''../Tree_8c.html'', 1, '''')]),
  (''treeaddbyindex_506'', ''TreeAddByIndex'',
    [(''../Tree_8c.html#afa8473167abb71831644bf8a322bc3b6'', 1, ''Tree.c'')]),
  (''treeinitialize_507'', ''TreeInitialize'',
    [(''../Tree_8c.html#aa5ee1e466d266b289dc45cbd97116b83'', 1, ''Tree.c'')]),
  (''treeremoveindex_508'', ''TreeRemoveIndex'',
    [(''../Tree_8c.html#a1263bdfc6a906db3023ca1a6ad5302a4'', 1, ''Tree.c'')]),
  (''treeremovenodeindex_509'', ''TreeRemoveNodeIndex'',
    [(''../Tree_8c.html#a9c3b81e7e63498e3a8f7bd28c4caec10'', 1, ''Tree.c'')]),
  (''truststore_510'', ''trustStore'',
    [(''../structMQTTClient__SSLOptions.html#a4583779998f6b3b51c7c1d3226701a4c'', 1, ''MQTTClient_SSLOptions::trustStore()''),
     (''../structMQTTAsync__SSLOptions.html#a90760033b5ae9962126770c3527603fd'', 1, ''MQTTAsync_SSLOptions::trustStore()'')]),
  (''type_511'', ''type'',
    [(''../unionHeader.html#a05b7c9c6b02e41c54899caee9fdd50d6'', 1, ''Header'')])]"

lemma internal_all_13_wf: "index_wf CHR ''t'' 482 internal_all_13"
  by (rule index_wf_check) (simp add: internal_all_13_def index_eval del: One_nat_def)

lemma internal_all_13_file: "index_file CHR ''t'' internal_all_13"
  by (rule index_fileI [OF _ internal_all_13_wf]) (simp add: internal_all_13_def)

definition internal_all_14 :: "search_entry list" where
  "internal_all_14 = [
  (''unsub_512'', ''unsub'',
    [(''../structMQTTAsync__successData5.html#a8f6209416359018b215c22008f08bc9c'', 1, ''MQTTAsync_successData5'')]),
  (''unsuback_513'', ''Unsuback'',
    [(''../structUnsuback.html'', 1, '''')]),
  (''upper_514'', ''upper'',
    [(''../utf-8_8c.html#a716463de5d02ad40678f2376abcdd90a'', 1, ''utf-8.c'')]),
  (''username_515'', ''username'',
    [(''../structClients.html#af8cc24a8d289b4950b7c929b03cba031'', 1, ''Clients::username()''),
     (''../structMQTTAsync__connectData.html#ac239ae2f64049458d1b7ae6110c86657'', 1, ''MQTTAsync_connectData::username()''),
     (''../structMQTTAsync__connectOptions.html#ae03dec50fd54f49582e50883072ea81e'', 1, ''MQTTAsync_connectOptions::username()''),
     (''../structMQTTClient__connectOptions.html#a82e337534835601827defa911325299a'', 1, ''MQTTClient_connectOptions::username()''),
     (''../structConnect.html#a68d27f5f6b5fad14969d69340acfc5e9'', 1, ''Connect::username()'')]),
  (''utf_2d8_2ec_516'', ''utf-8.c'',
    [(''../utf-8_8c.html'', 1, '''')]),
  (''utf8_5fchar_5fvalidate_517'', ''UTF8_char_validate'',
    [(''../utf-8_8c.html#a9727caa7417e6bed8cfad4121a22628d'', 1, ''utf-8.c'')]),
  (''utf8_5fvalidate_518'', ''UTF8_validate'',
    [(''../utf-8_8c.html#ad2012627fca4b4bdd9f67bde49b0d1cb'', 1, ''utf-8.c'')]),
  (''utf8_5fvalidatestring_519'', ''UTF8_validateString'',
    [(''../utf-8_8c.html#a4f3cf77538d867bb5b421bcb687dccdf'', 1, ''utf-8.c'')])]"

lemma internal_all_14_wf: "index_wf CHR ''u'' 512 internal_all_14"
  by (rule index_wf_check) (simp add: internal_all_14_def index_eval del: One_nat_def)

lemma internal_all_14_file: "index_file CHR ''u'' internal_all_14"
  by (rule index_fileI [OF _ internal_all_14_wf]) (simp add: internal_all_14_def)

definition internal_all_15 :: "search_entry list" where
  "internal_all_15 = [
  (''valid_5franges_520'', ''valid_ranges'',
    [(''../utf-8_8c.html#a03bdcd5f0e47e86161d8f8a6e6d2ed1d'', 1, ''utf-8.c'')]),
  (''value_521'', ''value'',
    [(''../structMQTTAsync__nameValue.html#abbedbc0cab6677016451fe6c62553f35'', 1, ''MQTTAsync_nameValue::value()''),
     (''../structMQTTProperty.html#a43389d2bd2814580edc9ea59933cbe25'', 1, ''MQTTProperty::value()''),
     (''../structMQTTProperty.html#a1d54fb750a1783debd04c57ecb907332'', 1, ''MQTTProperty::value()'')]),
  (''verify_522'', ''verify'',
    [(''../structMQTTAsync__SSLOptions.html#af3a54c718001dc76eb77d2f35fc31301'', 1, ''MQTTAsync_SSLOptions::verify()''),
     (''../structMQTTClient__SSLOptions.html#a61dd2a56858da45451f45640b056189d'', 1, ''MQTTClient_SSLOptions::verify()'')]),
  (''version_523'', ''version'',
    [(''../structConnect.html#a35cba4252092877e572c5c74b41be6e2'', 1, ''Connect'')])]"

lemma internal_all_15_wf: "index_wf CHR ''v'' 520 internal_all_15"
  by (rule index_wf_check) (simp add: internal_all_15_def index_eval del: One_nat_def)

lemma internal_all_15_file: "index_file CHR ''v'' internal_all_15"
  by (rule index_fileI [OF _ internal_all_15_wf]) (simp add: internal_all_15_def)

definition internal_all_16 :: "search_entry list" where
  "internal_all_16 = [
  (''websocket_524'', ''websocket'',
    [(''../structnetworkHandles.html#a01839c3f477c9f737c13f7e2c994e5cc'', 1, ''networkHandles'')]),
  (''will_525'', ''will'',
    [(''../structClients.html#ad593ed8add1448fe1f1e01b4d60f28a7'', 1, ''Clients::will()''),
     (''../structMQTTAsync__connectOptions.html#a2190db10b854d016a291ccb378c3eda2'', 1, ''MQTTAsync_connectOptions::will()''),
     (''../structMQTTClient__connectOptions.html#a8d51a29a49d2a964d5079c9bae3fcffd'', 1, ''MQTTClient_connectOptions::will()''),
     (''../structConnect.html#a9dc30d7b95feb8e55e98514cad4066bd'', 1, ''Connect::will()'')]),
  (''willmessages_526'', ''willMessages'',
    [(''../structwillMessages.html'', 1, '''')]),
  (''willmsg_527'', ''willMsg'',
    [(''../structConnect.html#a525eb0974d4e5b3158808e0bb23f03e6'', 1, ''Connect'')]),
  (''willproperties_528'', ''willProperties'',
    [(''../structMQTTAsync__connectOptions.html#ab72dbcdcff60e5dd79ac8fcea0e31478'', 1, ''MQTTAsync_connectOptions'')]),
  (''willqos_529'', ''willQoS'',
    [(''../structConnect.html#a91e5dd7084da0e9a40397c5532de5ef9'', 1, ''Connect'')]),
  (''willretain_530'', ''willRetain'',
    [(''../structConnect.html#a0810709a016db0b8be49fc6f859bab39'', 1, ''Connect'')]),
  (''willtopic_531'', ''willTopic'',
    [(''../structConnect.html#a8e0ff745f3800cf1a56a0cd467b5138e'', 1, ''Connect'')]),
  (''write_5fpending_532'', ''write_pending'',
    [(''../structSockets.html#a852db7c3edf654d8ee451be18b3f5743'', 1, ''Sockets'')]),
  (''writechar_533'', ''writeChar'',
    [(''../MQTTPacket_8c.html#ad29ec8b2fbf0ec0195621b44f8945923'', 1, ''MQTTPacket.c'')]),
  (''writedata_534'', ''writeData'',
    [(''../MQTTPacket_8c.html#a8886398fbf89872f8e593444d351a5aa'', 1, ''MQTTPacket.c'')]),
  (''writeint_535'', ''writeInt'',
    [(''../MQTTPacket_8c.html#a07aa0146eda3d32979142e7df8ad5fc3'', 1, ''MQTTPacket.c'')]),
  (''writeint4_536'', ''writeInt4'',
    [(''../MQTTPacket_8c.html#aa9130985a524757f3f0d4e00d21cd680'', 1, ''MQTTPacket.c'')]),
  (''writes_537'', ''writes'',
    [(''../SocketBuffer_8c.html#a913f78789f0cbfb26a5dcf6618d51d87'', 1, ''SocketBuffer.c'')]),
  (''writeutf_538'', ''writeUTF'',
    [(''../MQTTPacket_8c.html#af0fcaa11ac05ce448a433a53f9cae420'', 1, ''MQTTPacket.c'')]),
  (''ws_5fframe_539'', ''ws_frame'',
    [(''../structws__frame.html'', 1, '''')])]"

lemma internal_all_16_wf: "index_wf CHR ''w'' 524 internal_all_16"
  by (rule index_wf_check) (simp add: internal_all_16_def index_eval del: One_nat_def)

lemma internal_all_16_file: "index_file CHR ''w'' internal_all_16"
  by (rule index_fileI [OF _ internal_all_16_wf]) (simp add: internal_all_16_def)

end
