(* ===== verification/SearchIndexesSync.thy ===== *)
theory SearchIndexesSync
  imports SearchIndexes IndexClientAll IndexClientKinds IndexInternalAll IndexInternalKinds
begin

text \<open>
  The index files of the two other references, each set taken together and matched with its tables.
  The contract is the locale of \<^verbatim>\<open>SearchIndexes\<close>.
\<close>

section \<open>The reference of the synchronous client library\<close>

definition client_files :: "(string \<times> search_entry list) list" where
  "client_files =
    [(''all_0'', client_all_0),
     (''all_1'', client_all_1),
     (''all_2'', client_all_2),
     (''all_3'', client_all_3),
     (''all_4'', client_all_4),
     (''all_5'', client_all_5),
     (''all_6'', client_all_6),
     (''all_7'', client_all_7),
     (''all_8'', client_all_8),
     (''all_9'', client_all_9),
     (''all_a'', client_all_a),
     (''all_b'', client_all_b),
     (''all_c'', client_all_c),
     (''all_d'', client_all_d),
     (''all_e'', client_all_e),
     (''all_f'', client_all_f),
     (''all_10'', client_all_10),
     (''all_11'', client_all_11),
     (''all_12'', client_all_12),
     (''classes_0'', client_classes_0),
     (''files_0'', client_files_0),
     (''functions_0'', client_functions_0),
     (''variables_0'', client_variables_0),
     (''variables_1'', client_variables_1),
     (''variables_2'', client_variables_2),
     (''variables_3'', client_variables_3),
     (''variables_4'', client_variables_4),
     (''variables_5'', client_variables_5),
     (''variables_6'', client_variables_6),
     (''variables_7'', client_variables_7),
     (''variables_8'', client_variables_8),
     (''variables_9'', client_variables_9),
     (''variables_a'', client_variables_a),
     (''variables_b'', client_variables_b),
     (''variables_c'', client_variables_c),
     (''variables_d'', client_variables_d),
     (''variables_e'', client_variables_e),
     (''variables_f'', client_variables_f),
     (''variables_10'', client_variables_10),
     (''variables_11'', client_variables_11),
     (''variables_12'', client_variables_12),
     (''typedefs_0'', client_typedefs_0),
     (''typedefs_1'', client_typedefs_1),
     (''enums_0'', client_enums_0),
     (''enumvalues_0'', client_enumvalues_0),
     (''defines_0'', client_defines_0),
     (''pages_0'', client_pages_0),
     (''pages_1'', client_pages_1),
     (''pages_2'', client_pages_2),
     (''pages_3'', client_pages_3),
     (''pages_4'', client_pages_4),
     (''pages_5'', client_pages_5)]"

lemmas client_file_facts =
  client_all_0_file
  client_all_1_file
  client_all_2_file
  client_all_3_file
  client_all_4_file
  client_all_5_file
  client_all_6_file
  client_all_7_file
  client_all_8_file
  client_all_9_file
  client_all_a_file
  client_all_b_file
  client_all_c_file
  client_all_d_file
  client_all_e_file
  client_all_f_file
  client_all_10_file
  client_all_11_file
  client_all_12_file
  client_classes_0_file
  client_files_0_file
  client_functions_0_file
  client_variables_0_file
  client_variables_1_file
  client_variables_2_file
  client_variables_3_file
  client_variables_4_file
  client_variables_5_file
  client_variables_6_file
  client_variables_7_file
  client_variables_8_file
  client_variables_9_file
  client_variables_a_file
  client_variables_b_file
  client_variables_c_file
  client_variables_d_file
  client_variables_e_file
  client_variables_f_file
  client_variables_10_file
  client_variables_11_file
  client_variables_12_file
  client_typedefs_0_file
  client_typedefs_1_file
  client_enums_0_file
  client_enumvalues_0_file
  client_defines_0_file
  client_pages_0_file
  client_pages_1_file
  client_pages_2_file
  client_pages_3_file
  client_pages_4_file
  client_pages_5_file

lemma client_match: "tables_match client_tables client_files"
proof -
  have "list_all (section_matches client_tables client_files) client_contents"
    unfolding client_contents_def list.pred_inject
    by (intro conjI TrueI)
       (simp_all add: section_matches_def client_tables_def client_names_def client_files_def index_name_def
         to_hex_table client_file_facts)
  moreover have "length client_files = sum_list (map (length \<circ> snd) client_contents)"
    by (simp add: client_files_def client_contents_def)
  moreover have "list_all (\<lambda>f. CHR ''?'' \<notin> set f) (map fst client_files)"
    by (simp add: client_files_def)
  ultimately show ?thesis by (simp add: tables_match_def client_tables_def)
qed

interpretation client: search_index client_tables client_files
  by (unfold_locales) (rule client_match)


section \<open>The reference of the internals of the client library\<close>

definition internal_files :: "(string \<times> search_entry list) list" where
  "internal_files =
    [(''all_0'', internal_all_0),
     (''all_1'', internal_all_1),
     (''all_2'', internal_all_2),
     (''all_3'', internal_all_3),
     (''all_4'', internal_all_4),
     (''all_5'', internal_all_5),
     (''all_6'', internal_all_6),
     (''all_7'', internal_all_7),
     (''all_8'', internal_all_8),
     (''all_9'', internal_all_9),
     (''all_a'', internal_all_a),
     (''all_b'', internal_all_b),
     (''all_c'', internal_all_c),
     (''all_d'', internal_all_d),
     (''all_e'', internal_all_e),
     (''all_f'', internal_all_f),
     (''all_10'', internal_all_10),
     (''all_11'', internal_all_11),
     (''all_12'', internal_all_12),
     (''all_13'', internal_all_13),
     (''all_14'', internal_all_14),
     (''all_15'', internal_all_15),
     (''all_16'', internal_all_16),
     (''classes_0'', internal_classes_0),
     (''classes_1'', internal_classes_1),
     (''classes_2'', internal_classes_2),
     (''classes_3'', internal_classes_3),
     (''classes_4'', internal_classes_4),
     (''classes_5'', internal_classes_5),
     (''classes_6'', internal_classes_6),
     (''classes_7'', internal_classes_7),
     (''classes_8'', internal_classes_8),
     (''classes_9'', internal_classes_9),
     (''classes_a'', internal_classes_a),
     (''classes_b'', internal_classes_b),
     (''classes_c'', internal_classes_c),
     (''files_0'', internal_files_0),
     (''files_1'', internal_files_1),
     (''files_2'', internal_files_2),
     (''files_3'', internal_files_3),
     (''files_4'', internal_files_4),
     (''files_5'', internal_files_5),
     (''files_6'', internal_files_6),
     (''functions_0'', internal_functions_0),
     (''functions_1'', internal_functions_1),
     (''functions_2'', internal_functions_2),
     (''functions_3'', internal_functions_3),
     (''functions_4'', internal_functions_4),
     (''functions_5'', internal_functions_5),
     (''functions_6'', internal_functions_6),
     (''functions_7'', internal_functions_7),
     (''functions_8'', internal_functions_8),
     (''functions_9'', internal_functions_9),
     (''functions_a'', internal_functions_a),
     (''functions_b'', internal_functions_b),
     (''variables_0'', internal_variables_0),
     (''variables_1'', internal_variables_1),
     (''variables_2'', internal_variables_2),
     (''variables_3'', internal_variables_3),
     (''variables_4'', internal_variables_4),
     (''variables_5'', internal_variables_5),
     (''variables_6'', internal_variables_6),
     (''variables_7'', internal_variables_7),
     (''variables_8'', internal_variables_8),
     (''variables_9'', internal_variables_9),
     (''variables_a'', internal_variables_a),
     (''variables_b'', internal_variables_b),
     (''variables_c'', internal_variables_c),
     (''variables_d'', internal_variables_d),
     (''variables_e'', internal_variables_e),
     (''variables_f'', internal_variables_f),
     (''variables_10'', internal_variables_10),
     (''variables_11'', internal_variables_11),
     (''variables_12'', internal_variables_12),
     (''variables_13'', internal_variables_13),
     (''variables_14'', internal_variables_14),
     (''variables_15'', internal_variables_15),
     (''variables_16'', internal_variables_16),
     (''typedefs_0'', internal_typedefs_0),
     (''typedefs_1'', internal_typedefs_1),
     (''defines_0'', internal_defines_0),
     (''defines_1'', internal_defines_1),
     (''defines_2'', internal_defines_2),
     (''defines_3'', internal_defines_3),
     (''pages_0'', internal_pages_0)]"

lemmas internal_file_facts =
  internal_all_0_file
  internal_all_1_file
  internal_all_2_file
  internal_all_3_file
  internal_all_4_file
  internal_all_5_file
  internal_all_6_file
  internal_all_7_file
  internal_all_8_file
  internal_all_9_file
  internal_all_a_file
  internal_all_b_file
  internal_all_c_file
  internal_all_d_file
  internal_all_e_file
  internal_all_f_file
  internal_all_10_file
  internal_all_11_file
  internal_all_12_file
  internal_all_13_file
  internal_all_14_file
  internal_all_15_file
  internal_all_16_file
  internal_classes_0_file
  internal_classes_1_file
  internal_classes_2_file
  internal_classes_3_file
  internal_classes_4_file
  internal_classes_5_file
  internal_classes_6_file
  internal_classes_7_file
  internal_classes_8_file
  internal_classes_9_file
  internal_classes_a_file
  internal_classes_b_file
  internal_classes_c_file
  internal_files_0_file
  internal_files_1_file
  internal_files_2_file
  internal_files_3_file
  internal_files_4_file
  internal_files_5_file
  internal_files_6_file
  internal_functions_0_file
  internal_functions_1_file
  internal_functions_2_file
  internal_functions_3_file
  internal_functions_4_file
  internal_functions_5_file
  internal_functions_6_file
  internal_functions_7_file
  internal_functions_8_file
  internal_functions_9_file
  internal_functions_a_file
  internal_functions_b_file
  internal_variables_0_file
  internal_variables_1_file
  internal_variables_2_file
  internal_variables_3_file
  internal_variables_4_file
  internal_variables_5_file
  internal_variables_6_file
  internal_variables_7_file
  internal_variables_8_file
  internal_variables_9_file
  internal_variables_a_file
  internal_variables_b_file
  internal_variables_c_file
  internal_variables_d_file
  internal_variables_e_file
  internal_variables_f_file
  internal_variables_10_file
  internal_variables_11_file
  internal_variables_12_file
  internal_variables_13_file
  internal_variables_14_file
  internal_variables_15_file
  internal_variables_16_file
  internal_typedefs_0_file
  internal_typedefs_1_file
  internal_defines_0_file
  internal_defines_1_file
  internal_defines_2_file
  internal_defines_3_file
  internal_pages_0_file

lemma internal_match: "tables_match internal_tables internal_files"
proof -
  have "list_all (section_matches internal_tables internal_files) internal_contents"
    unfolding internal_contents_def list.pred_inject
    by (intro conjI TrueI)
       (simp_all add: section_matches_def internal_tables_def internal_names_def internal_files_def index_name_def
         to_hex_table internal_file_facts)
  moreover have "length internal_files = sum_list (map (length \<circ> snd) internal_contents)"
    by (simp add: internal_files_def internal_contents_def)
  moreover have "list_all (\<lambda>f. CHR ''?'' \<notin> set f) (map fst internal_files)"
    by (simp add: internal_files_def)
  ultimately show ?thesis by (simp add: tables_match_def internal_tables_def)
qed

interpretation internal: search_index internal_tables internal_files
  by (unfold_locales) (rule internal_match)

section \<open>All references\<close>

definition doc_references :: "(search_tables \<times> (string \<times> search_entry list) list) list" where
  "doc_references =
     [(async_tables, async_files), (client_tables, client_files), (internal_tables, internal_files)]"

text \<open>
  In each of the three references the tables of the panel and the index files agree: for each
  section and each of its letters there is a file, its entries are well-formed, start with that letter
  and are numbered, no letter is listed twice, and there are no other files.
\<close>

theorem references_match: "list_all (\<lambda>(tab, files). tables_match tab files) doc_references"
  by (simp add: doc_references_def async_match client_match internal_match)

lemma reference_index: "(tab, files) \<in> set doc_references \<Longrightarrow> search_index tab files"
  using async.search_index_axioms client.search_index_axioms internal.search_index_axioms
  by (auto simp: doc_references_def)

end
