(* ===== verification/SearchPanel.thy ===== *)
theory SearchPanel
  imports SearchBox
begin

text \<open>
  The search panel in a page: the events the browser delivers to the object of
  \<open>SearchBox\<close> (the wiring is in \<^verbatim>\<open>menu.js\<close> and in the pages), the timers running out,
  the panels a page can reach, and what holds of all of them.
\<close>

declare map_of_eq_Some_iff [simp del]

section \<open>Events\<close>

datatype panel_event =
    Focus panel_focus
  | Type_text ustring
  | Field_key key
  | Menu_show
  | Menu_hide
  | Pick nat
  | Menu_key key
  | Close_results
  | Wait nat
  | Fire nat

text \<open>Running the code of a timer; it is taken from the list first.\<close>

definition run_code :: "layout \<Rightarrow> search_tables \<Rightarrow> string \<Rightarrow> panel \<Rightarrow> outcome" where
  "run_code lay tab code p =
     (if code = box_name p @ ''.Search()'' then box_Search lay tab p
      else if code = box_name p @ ''.CloseSelectionWindow()'' then (None, CloseSelectionWindow p)
      else (Some TypeError, p))"

definition fire_timer :: "layout \<Rightarrow> search_tables \<Rightarrow> nat \<Rightarrow> panel \<Rightarrow> outcome" where
  "fire_timer lay tab k p =
     (case map_of (timers p) k of
        Some (code, due) \<Rightarrow> if due \<le> clock p then run_code lay tab code (clearTimeout k p) else (None, p)
      | None \<Rightarrow> (None, p))"

text \<open>The entry of the menu that is picked is a link of \<open>init_search\<close>, \<open>OnSelectItem(k)\<close>.\<close>

fun panel_do :: "layout \<Rightarrow> search_tables \<Rightarrow> panel_event \<Rightarrow> panel \<Rightarrow> outcome" where
  "panel_do lay tab (Focus target) p = (None, set_focus target p)"
| "panel_do lay tab (Type_text v) p =
     (None, if focused p = Search_field then p\<lparr>fieldValue := v\<rparr> else p)"
| "panel_do lay tab (Field_key e) p =
     (None, if focused p = Search_field then OnSearchFieldChange lay e p else p)"
| "panel_do lay tab Menu_show p = (None, OnSearchSelectShow lay p)"
| "panel_do lay tab Menu_hide p = (None, OnSearchSelectHide p)"
| "panel_do lay tab (Pick k) p = (if k < length (menuItems p) then OnSelectItem lay tab k p else (None, p))"
| "panel_do lay tab (Menu_key e) p = OnSearchSelectKey lay tab e p"
| "panel_do lay tab Close_results p = (None, CloseResultsWindow p)"
| "panel_do lay tab (Wait ms) p = (None, p\<lparr>clock := clock p + ms\<rparr>)"
| "panel_do lay tab (Fire k) p = fire_timer lay tab k p"

definition panel_run :: "layout \<Rightarrow> search_tables \<Rightarrow> panel_event list \<Rightarrow> panel \<Rightarrow> panel" where
  "panel_run lay tab es p = foldl (\<lambda>p e. snd (panel_do lay tab e p)) p es"

inductive panel_reachable :: "layout \<Rightarrow> search_tables \<Rightarrow> panel \<Rightarrow> panel \<Rightarrow> bool" for lay tab start where
  panel_start: "panel_reachable lay tab start start"
| panel_step: "panel_reachable lay tab start p \<Longrightarrow> panel_reachable lay tab start (snd (panel_do lay tab e p))"

section \<open>What holds of every panel\<close>

text \<open>
  The close button is shown with the popup; the mark is at the active filter, which is at most one
  past the last entry; timers are numbered, and the one the panel would cancel is a pending search.
\<close>

definition menu_ok :: "nat \<Rightarrow> panel \<Rightarrow> bool" where
  "menu_ok n p \<longleftrightarrow>
     length (menuItems p) = n \<and> searchIndex p \<le> n \<and>
     (\<forall>j<n. item_class (menuItems p ! j) = ''SelectItem'' \<and>
             item_mark (menuItems p ! j) = (if j = searchIndex p then ''&#8226;'' else ''&#160;''))"

definition popup_ok :: "panel \<Rightarrow> bool" where
  "popup_ok p \<longleftrightarrow> (popupDisplay p = ''block'') = (closeDisplay p = ''inline-block'')"

definition timer_list_ok :: "string \<Rightarrow> timer list \<Rightarrow> nat \<Rightarrow> nat \<Rightarrow> nat \<Rightarrow> bool" where
  "timer_list_ok name ts next kt ht \<longleftrightarrow>
     distinct (map fst ts) \<and> 0 < next \<and> ht < next \<and>
     (\<forall>t \<in> set ts. 0 < fst t \<and> fst t < next \<and>
        fst (snd t) \<in> {name @ ''.Search()'', name @ ''.CloseSelectionWindow()''} \<and>
        (fst t = ht \<longrightarrow> fst (snd t) = name @ ''.CloseSelectionWindow()'')) \<and>
     (kt \<noteq> 0 \<longrightarrow> (\<exists>due. (kt, name @ ''.Search()'', due) \<in> set ts))"

definition timers_ok :: "panel \<Rightarrow> bool" where
  "timers_ok p \<longleftrightarrow> timer_list_ok (box_name p) (timers p) (nextTimer p) (keyTimeout p) (hideTimeout p)"

definition panel_ok :: "nat \<Rightarrow> panel \<Rightarrow> bool" where
  "panel_ok n p \<longleftrightarrow> menu_ok n p \<and> popup_ok p \<and> timers_ok p"

subsection \<open>The menu\<close>

lemma select_marks_nth:
  "(\<forall>c \<in> set cs. item_class c = ''SelectItem'') \<Longrightarrow>
     length (select_marks i j cs) = length cs \<and>
     (\<forall>k < length cs. select_marks i j cs ! k = (cs ! k)\<lparr>item_mark := (if j + k = i then ''&#8226;'' else ''&#160;'')\<rparr>)"
proof (induction cs arbitrary: j)
  case (Cons c cs)
  from Cons.prems Cons.IH [of "j + 1"] show ?case by (simp add: All_less_Suc2)
qed simp

lemma menu_ok_classes: "menu_ok n p \<Longrightarrow> \<forall>c \<in> set (menuItems p). item_class c = ''SelectItem''"
  by (auto simp: menu_ok_def in_set_conv_nth)

lemma SelectItemCount_ok:
  assumes "menu_ok n p" shows "SelectItemCount p = n"
proof -
  have "foldl (\<lambda>count child. if item_class child = ''SelectItem'' then count + 1 else count) a cs = a + length cs"
    if "\<forall>c \<in> set cs. item_class c = ''SelectItem''" for a :: nat and cs :: "menu_item list"
    using that by (induction cs arbitrary: a) auto
  from this [OF menu_ok_classes [OF assms]] show ?thesis using assms by (simp add: SelectItemCount_def menu_ok_def)
qed

lemma menu_ok_select:
  assumes "menu_ok n p" "i \<le> n" shows "menu_ok n (SelectItemSet i (p\<lparr>searchIndex := i\<rparr>))"
  using assms select_marks_nth [OF menu_ok_classes [OF assms(1)], of i 0]
  by (auto simp: menu_ok_def SelectItemSet_def)

text \<open>The operations that leave the menu and the timers alone.\<close>

lemma Activate_frame [simp]:
  "menuItems (Activate b p) = menuItems p" "searchIndex (Activate b p) = searchIndex p"
  "timers (Activate b p) = timers p" "keyTimeout (Activate b p) = keyTimeout p"
  "nextTimer (Activate b p) = nextTimer p" "box_name (Activate b p) = box_name p"
  "popupDisplay (Activate b p) = popupDisplay p" "closeDisplay (Activate b p) = closeDisplay p"
  "focused (Activate b p) = focused p" "hideTimeout (Activate b p) = hideTimeout p"
  by (simp_all add: Activate_def Let_def)

lemma set_focus_frame [simp]:
  "menuItems (set_focus t p) = menuItems p" "searchIndex (set_focus t p) = searchIndex p"
  "timers (set_focus t p) = timers p" "keyTimeout (set_focus t p) = keyTimeout p"
  "nextTimer (set_focus t p) = nextTimer p" "box_name (set_focus t p) = box_name p"
  "popupDisplay (set_focus t p) = popupDisplay p" "closeDisplay (set_focus t p) = closeDisplay p" "hideTimeout (set_focus t p) = hideTimeout p"
  by (simp_all add: set_focus_def OnSearchFieldFocus_def Let_def)

lemma show_popup_frame [simp]:
  "menuItems (show_popup lay p) = menuItems p" "searchIndex (show_popup lay p) = searchIndex p"
  "timers (show_popup lay p) = timers p" "keyTimeout (show_popup lay p) = keyTimeout p"
  "nextTimer (show_popup lay p) = nextTimer p" "box_name (show_popup lay p) = box_name p"
  "frameLocation (show_popup lay p) = frameLocation p" "hideTimeout (show_popup lay p) = hideTimeout p"
  "popupDisplay (show_popup lay p) = ''block''"
  by (simp_all add: show_popup_def Let_def)

lemma popup_ok_show: "popup_ok p \<Longrightarrow> popup_ok (show_popup lay p)"
  by (simp add: popup_ok_def show_popup_def Let_def)

lemma panel_ok_cong:
  assumes "panel_ok n p" "menuItems q = menuItems p" "searchIndex q = searchIndex p"
    "timers q = timers p" "keyTimeout q = keyTimeout p" "nextTimer q = nextTimer p" "box_name q = box_name p"
    "hideTimeout q = hideTimeout p" "popup_ok q"
  shows "panel_ok n q"
  using assms by (simp add: panel_ok_def menu_ok_def timers_ok_def)

lemma panel_ok_set_focus: "panel_ok n p \<Longrightarrow> panel_ok n (set_focus t p)"
  by (rule panel_ok_cong) (simp_all add: panel_ok_def popup_ok_def)

lemma panel_ok_Activate: "panel_ok n p \<Longrightarrow> panel_ok n (Activate b p)"
  by (rule panel_ok_cong) (simp_all add: panel_ok_def popup_ok_def)

subsection \<open>Timers\<close>

lemma distinct_filter_fst: "distinct (map fst ts) \<Longrightarrow> distinct (map fst (filter P ts))"
  by (induction ts) (auto simp: image_iff)

lemma timer_list_ok_hide: "timer_list_ok name ts next kt ht \<Longrightarrow> kt \<noteq> 0 \<Longrightarrow> kt \<noteq> ht"
  by (fastforce simp: timer_list_ok_def)

text \<open>Cancelling a timer, and forgetting the pending search when it is the one.\<close>

lemma timer_list_ok_clear:
  assumes "timer_list_ok name ts next kt ht" "kt' = kt \<and> kt \<noteq> k \<or> kt' = 0" "ht' = ht \<or> ht' = 0"
  shows "timer_list_ok name (filter (\<lambda>(i, _). i \<noteq> k) ts) next kt' ht'"
  unfolding timer_list_ok_def
proof (intro conjI ballI impI)
  show "distinct (map fst (filter (\<lambda>(i, _). i \<noteq> k) ts))"
    using assms(1) by (simp add: timer_list_ok_def distinct_filter_fst)
  show "0 < next" "ht' < next" using assms(1,3) by (auto simp: timer_list_ok_def)
  fix t assume "t \<in> set (filter (\<lambda>(i, _). i \<noteq> k) ts)"
  then have t: "t \<in> set ts" by simp
  with assms(1) show "0 < fst t" "fst t < next"
    "fst (snd t) \<in> {name @ ''.Search()'', name @ ''.CloseSelectionWindow()''}"
    by (auto simp: timer_list_ok_def)
  show "fst (snd t) = name @ ''.CloseSelectionWindow()''" if "fst t = ht'"
    using t that assms(1,3) by (auto simp: timer_list_ok_def)
next
  assume "kt' \<noteq> 0"
  with assms(1,2) show "\<exists>due. (kt', name @ ''.Search()'', due) \<in> set (filter (\<lambda>(i, _). i \<noteq> k) ts)"
    by (auto simp: timer_list_ok_def)
qed

lemma timer_list_ok_set:
  assumes "timer_list_ok name ts next kt ht"
    and "code = name @ ''.Search()'' \<and> kt' = next \<and> ht' = ht \<or>
         code = name @ ''.CloseSelectionWindow()'' \<and> kt' = kt \<and> ht' = next"
  shows "timer_list_ok name (ts @ [(next, code, due)]) (next + 1) kt' ht'"
proof -
  have fresh: "next \<notin> fst ` set ts" "ht < next" "kt \<noteq> next"
    using assms(1) by (fastforce simp: timer_list_ok_def)+
  from assms(2) show ?thesis
  proof
    assume "code = name @ ''.Search()'' \<and> kt' = next \<and> ht' = ht"
    with fresh assms(1) show ?thesis by (auto simp: timer_list_ok_def less_Suc_eq)
  next
    assume "code = name @ ''.CloseSelectionWindow()'' \<and> kt' = kt \<and> ht' = next"
    with fresh assms(1) show ?thesis by (auto simp: timer_list_ok_def less_Suc_eq)
  qed
qed

lemma panel_ok_Search:
  assumes "panel_ok n p" shows "panel_ok n (snd (box_Search lay tab p))"
proof -
  have "timers_ok (p\<lparr>keyTimeout := 0\<rparr>)"
    using assms by (simp add: panel_ok_def timers_ok_def timer_list_ok_def)
  then have ok: "panel_ok n (p\<lparr>keyTimeout := 0\<rparr>)"
    using assms by (simp add: panel_ok_def menu_ok_def popup_ok_def)
  show ?thesis
  proof (cases "results_page_of tab (searchIndex p) (resultsPath p) (extension p) (strip_leading (fieldValue p))")
    case (Inl e)
    with ok show ?thesis by (simp add: box_Search_def)
  next
    case (Inr r)
    define q where "q = p\<lparr>keyTimeout := 0, frameLocation := snd r\<rparr>"
    have "panel_ok n q" by (rule panel_ok_cong [OF ok]) (use ok in \<open>simp_all add: q_def panel_ok_def popup_ok_def\<close>)
    then have "panel_ok n (show_popup lay q)"
      by (rule panel_ok_cong) (use \<open>panel_ok n q\<close> in \<open>simp_all add: popup_ok_show panel_ok_def\<close>)
    then have "panel_ok n ((show_popup lay q)\<lparr>lastSearchValue := v, lastResultsPage := pg\<rparr>)" for v pg
      by (simp add: panel_ok_def menu_ok_def popup_ok_def timers_ok_def)
    with Inr show ?thesis by (cases r) (simp add: box_Search_def q_def)
  qed
qed

lemma panel_ok_OnSelectItem:
  assumes "panel_ok n p" "i \<le> n" shows "panel_ok n (snd (OnSelectItem lay tab i p))"
proof -
  have "panel_ok n (SelectItemSet i (p\<lparr>searchIndex := i\<rparr>))"
    using assms menu_ok_select [OF _ assms(2), of p]
    by (simp add: panel_ok_def popup_ok_def timers_ok_def SelectItemSet_def)
  then show ?thesis by (simp add: OnSelectItem_def Let_def panel_ok_Search)
qed

lemma OnSelectItem_index: "OnSelectItem lay tab i (p\<lparr>searchIndex := j\<rparr>) = OnSelectItem lay tab i p"
  by (simp add: OnSelectItem_def)

lemma panel_ok_show: 
  assumes "panel_ok n p" shows "panel_ok n (OnSearchSelectShow lay p)"
proof -
  define q where "q = p\<lparr>menuDisplay := ''block'',
      menuLeft := px (if insideFrame p then getXPos (select_icon lay) +
        ((case select_icon lay of Body \<Rightarrow> 0 | Box _ _ w _ _ \<Rightarrow> w) + 6) - select_width lay else getXPos (select_icon lay)),
      menuTop := px (getYPos (select_icon lay) + (case select_icon lay of Body \<Rightarrow> 0 | Box _ _ _ h _ \<Rightarrow> h))\<rparr>"
  have q: "panel_ok n q"
    by (rule panel_ok_cong [OF assms]) (use assms in \<open>simp_all add: q_def panel_ok_def popup_ok_def\<close>)
  have show_q: "OnSearchSelectShow lay p = (if hideTimeout p \<noteq> 0 then (clearTimeout (hideTimeout p) q)\<lparr>hideTimeout := 0\<rparr> else q)"
    by (simp add: OnSearchSelectShow_def Let_def q_def)
  have "timer_list_ok (box_name p) (filter (\<lambda>(i, _). i \<noteq> hideTimeout p) (timers p)) (nextTimer p) (keyTimeout p) 0"
    if "hideTimeout p \<noteq> 0"
    using assms that timer_list_ok_hide [of "box_name p" "timers p" "nextTimer p" "keyTimeout p" "hideTimeout p"]
    by (intro timer_list_ok_clear) (auto simp: panel_ok_def timers_ok_def)
  with q have "hideTimeout p \<noteq> 0 \<Longrightarrow> panel_ok n ((clearTimeout (hideTimeout p) q)\<lparr>hideTimeout := 0\<rparr>)"
    by (simp add: panel_ok_def menu_ok_def popup_ok_def timers_ok_def clearTimeout_def q_def)
  with q show ?thesis by (simp add: show_q)
qed

lemma panel_ok_forget:
  assumes "panel_ok n p"
  shows "panel_ok n (if keyTimeout p \<noteq> 0 then (clearTimeout (keyTimeout p) p)\<lparr>keyTimeout := 0\<rparr> else p)"
proof -
  have "timer_list_ok (box_name p) (filter (\<lambda>(i, _). i \<noteq> keyTimeout p) (timers p)) (nextTimer p) 0 (hideTimeout p)"
    using assms by (intro timer_list_ok_clear) (auto simp: panel_ok_def timers_ok_def)
  with assms show ?thesis
    by (cases "keyTimeout p = 0") (simp_all add: panel_ok_def menu_ok_def popup_ok_def timers_ok_def clearTimeout_def)
qed

lemma panel_ok_hide: "panel_ok n p \<Longrightarrow> panel_ok n (OnSearchSelectHide p)"
  using timer_list_ok_set [of "box_name p" "timers p" "nextTimer p" "keyTimeout p" "hideTimeout p"
      "box_name p @ ''.CloseSelectionWindow()''" "keyTimeout p" "nextTimer p" "clock p + closeSelectionTimeout p"]
  by (simp add: panel_ok_def menu_ok_def popup_ok_def timers_ok_def OnSearchSelectHide_def setTimeout_def)

lemma panel_ok_changed: "panel_ok n p \<Longrightarrow> panel_ok n (field_changed p)"
  using timer_list_ok_set [of "box_name p" "timers p" "nextTimer p" "keyTimeout p" "hideTimeout p"
      "box_name p @ ''.Search()''" "nextTimer p" "hideTimeout p" "clock p + keyTimeoutLength p"]
  by (simp add: panel_ok_def menu_ok_def popup_ok_def timers_ok_def field_changed_def setTimeout_def Let_def)

lemma panel_ok_close:
  "panel_ok n p \<Longrightarrow> panel_ok n (p\<lparr>popupDisplay := ''none'', closeDisplay := ''none''\<rparr>)"
  "panel_ok n p \<Longrightarrow> panel_ok n (p\<lparr>popupDisplay := ''none'', closeDisplay := ''none'', lastSearchValue := []\<rparr>)"
  by (simp_all add: panel_ok_def menu_ok_def popup_ok_def timers_ok_def)

lemma panel_ok_field_key:
  assumes "panel_ok n p" shows "panel_ok n (OnSearchFieldChange lay e p)"
proof -
  define q where "q = (if keyTimeout p \<noteq> 0 then (clearTimeout (keyTimeout p) p)\<lparr>keyTimeout := 0\<rparr> else p)"
  have q: "panel_ok n q" unfolding q_def by (rule panel_ok_forget [OF assms])
  have "panel_ok n (q\<lparr>frameMessages := m\<rparr>)" for m
    by (rule panel_ok_cong [OF q]) (use q in \<open>simp_all add: panel_ok_def popup_ok_def\<close>)
  with q show ?thesis
    unfolding OnSearchFieldChange_def q_def [symmetric] Let_def
    by (auto intro!: panel_ok_Activate panel_ok_changed panel_ok_close panel_ok_set_focus panel_ok_show
        split: option.splits)
qed

lemma panel_ok_menu_key:
  assumes "panel_ok n p" shows "panel_ok n (snd (OnSearchSelectKey lay tab e p))"
proof -
  have n: "SelectItemCount p = n" "searchIndex p \<le> n"
    using assms SelectItemCount_ok by (auto simp: panel_ok_def menu_ok_def)
  have close: "panel_ok n (CloseSelectionWindow q)" if "panel_ok n q" for q
    using that by (simp add: CloseSelectionWindow_def panel_ok_def menu_ok_def popup_ok_def timers_ok_def)
  obtain err r where r: "OnSelectItem lay tab (searchIndex p) p = (err, r)" by fastforce
  then have "panel_ok n r" using panel_ok_OnSelectItem [OF assms n(2), of lay tab] by simp
  then have "panel_ok n (snd (case OnSelectItem lay tab (searchIndex p) p of
      (Some err, p) \<Rightarrow> (Some err, p)
    | (None, p) \<Rightarrow> (None, set_focus Search_field (CloseSelectionWindow p))))"
    by (cases err) (simp_all add: r panel_ok_set_focus close)
  with n panel_ok_OnSelectItem [OF assms] assms show ?thesis
    unfolding OnSearchSelectKey_def OnSelectItem_index by auto
qed

lemma panel_ok_fire:
  assumes "panel_ok n p" shows "panel_ok n (snd (fire_timer lay tab k p))"
proof (cases "map_of (timers p) k")
  case None
  with assms show ?thesis by (simp add: fire_timer_def)
next
  case (Some cd)
  obtain code due where cd: "cd = (code, due)" by (cases cd)
  with Some have mem: "(k, code, due) \<in> set (timers p)" by (simp add: map_of_SomeD)
  note ok = assms [unfolded panel_ok_def timers_ok_def]
  then consider "code = box_name p @ ''.Search()''" | "code = box_name p @ ''.CloseSelectionWindow()''"
    using mem by (fastforce simp: timer_list_ok_def)
  then have "panel_ok n (snd (run_code lay tab code (clearTimeout k p)))"
  proof cases
    case 1
    have "timer_list_ok (box_name p) (filter (\<lambda>(i, _). i \<noteq> k) (timers p)) (nextTimer p) 0 (hideTimeout p)"
      using ok by (intro timer_list_ok_clear) auto
    with ok have "panel_ok n ((clearTimeout k p)\<lparr>keyTimeout := 0\<rparr>)"
      by (simp add: panel_ok_def menu_ok_def popup_ok_def timers_ok_def clearTimeout_def)
    from panel_ok_Search [OF this] show ?thesis
      by (simp add: run_code_def 1 clearTimeout_def box_Search_def)
  next
    case 2
    have "keyTimeout p \<noteq> k \<or> keyTimeout p = 0"
    proof (rule ccontr)
      assume "\<not> (keyTimeout p \<noteq> k \<or> keyTimeout p = 0)"
      with ok obtain d where "(k, box_name p @ ''.Search()'', d) \<in> set (timers p)"
        by (auto simp: timer_list_ok_def)
      with mem ok 2 show False
        by (auto simp: timer_list_ok_def dest: eq_key_imp_eq_value)
    qed
    with ok have "timer_list_ok (box_name p) (filter (\<lambda>(i, _). i \<noteq> k) (timers p)) (nextTimer p) (keyTimeout p) (hideTimeout p)"
      by (intro timer_list_ok_clear) auto
    with ok 2 show ?thesis
      by (simp add: run_code_def CloseSelectionWindow_def clearTimeout_def panel_ok_def menu_ok_def popup_ok_def timers_ok_def)
  qed
  with assms Some cd show ?thesis by (simp add: fire_timer_def)
qed

lemma panel_ok_do: "panel_ok n p \<Longrightarrow> panel_ok n (snd (panel_do lay tab e p))"
proof (cases e)
  case (Type_text v)
  assume "panel_ok n p"
  with Type_text show ?thesis by (simp add: panel_ok_def menu_ok_def popup_ok_def timers_ok_def)
next
  case (Wait ms)
  assume "panel_ok n p"
  with Wait show ?thesis by (simp add: panel_ok_def menu_ok_def popup_ok_def timers_ok_def)
next
  case (Pick k)
  assume "panel_ok n p"
  moreover then have "length (menuItems p) = n" by (simp add: panel_ok_def menu_ok_def)
  ultimately show ?thesis using Pick by (simp add: panel_ok_OnSelectItem)
qed (simp_all add: panel_ok_set_focus panel_ok_field_key panel_ok_show panel_ok_hide panel_ok_menu_key
    panel_ok_fire CloseResultsWindow_def panel_ok_Activate panel_ok_close)

section \<open>The panel of a page\<close>

text \<open>\<open>new SearchBox("searchBox", "search", false, 'Search', '.html')\<close>, then \<open>init_search()\<close>.\<close>

definition start_panel :: "layout \<Rightarrow> search_tables \<Rightarrow> panel" where
  "start_panel lay tab = snd (init_search lay tab (new_SearchBox ''searchBox'' ''search'' False (ustr ''Search'') ''.html''))"

lemma menu_fold:
  "foldl (\<lambda>p kl. p\<lparr>menuItems := menuItems p @ [menu_link kl]\<rparr>) p ls = p\<lparr>menuItems := menuItems p @ map menu_link ls\<rparr>"
  by (induction ls arbitrary: p) simp_all

lemma panel_ok_start: "panel_ok (length (indexSectionLabels tab)) (start_panel lay tab)"
proof -
  let ?n = "length (indexSectionLabels tab)"
  define q where "q = (new_SearchBox ''searchBox'' ''search'' False (ustr ''Search'') ''.html'')
    \<lparr>menuItems := map menu_link (indexSectionLabels tab)\<rparr>"
  have q: "menuItems q = map menu_link (indexSectionLabels tab)" "searchActive q = False" "timers q = []"
    "keyTimeout q = 0" "hideTimeout q = 0" "nextTimer q = 1" "popupDisplay q = ''''" "closeDisplay q = ''''"
    by (simp_all add: q_def new_SearchBox_def)
  have "\<forall>c \<in> set (map menu_link (indexSectionLabels tab)). item_class c = ''SelectItem''"
    by (simp add: menu_link_def)
  from select_marks_nth [OF this, of 0 0] have "menu_ok ?n (SelectItemSet 0 (q\<lparr>searchIndex := 0\<rparr>))"
    by (simp add: menu_ok_def SelectItemSet_def q menu_link_def)
  moreover have "start_panel lay tab = SelectItemSet 0 (q\<lparr>searchIndex := 0\<rparr>)"
    unfolding start_panel_def init_search_def menu_fold
    by (simp add: OnSelectItem_def SelectItemSet_def q_def new_SearchBox_def)
  ultimately show ?thesis
    by (simp add: panel_ok_def popup_ok_def timers_ok_def timer_list_ok_def SelectItemSet_def q)
qed

lemma panel_ok_reachable:
  "panel_reachable lay tab start p \<Longrightarrow> panel_ok n start \<Longrightarrow> panel_ok n p"
  by (induction rule: panel_reachable.induct) (auto intro: panel_ok_do)

lemma panel_run_reachable:
  "panel_reachable lay tab s p \<Longrightarrow> panel_reachable lay tab s (panel_run lay tab es p)"
  by (induction es arbitrary: p) (auto simp: panel_run_def intro: panel_step)

text \<open>A small page, on which the theorems below are tried out.\<close>

definition sample_layout :: layout where
  "sample_layout = \<lparr>select_icon = Box 9 8 20 19 (Some Body), box_place = Box 100 30 150 20 (Some Body),
    select_width = 120, results_width = 60, body_width = 900\<rparr>"

definition sample_tables :: search_tables where
  "sample_tables = \<lparr>indexSectionsWithContent = [(0, ''as''), (1, ''a'')], indexSectionNames = [(0, ''all''), (1, ''files'')],
    indexSectionLabels = [(0, ''All''), (1, ''Files'')]\<rparr>"

definition sample_panel :: "panel_event list \<Rightarrow> panel" where
  "sample_panel es = panel_run sample_layout sample_tables es (start_panel sample_layout sample_tables)"

lemma sample_pages:
  "results_page_of sample_tables 0 ''search'' ''.html'' (strip_leading (ustr ''Search'')) =
     Inr (''search/all_1.html'', ''search/all_1.html?Search'')"
  "results_page_of sample_tables 1 ''search'' ''.html'' (strip_leading (ustr ''a'')) =
     Inr (''search/files_0.html'', ''search/files_0.html?a'')"
proof -
  have strip: "strip_leading (ustr ''Search'') = ustr ''Search''" "strip_leading (ustr ''a'') = ustr ''a''"
    by (simp_all add: strip_leading_def unit_of_def blank_def)
  have esc: "escape (ustr ''Search'') = ''Search''" "escape (ustr ''a'') = ''a''"
    by (rule escape_plain, simp add: escape_keeps_def)+
  have chr: "index_char (ustr ''Search'') = ustr ''s''" "index_char (ustr ''a'') = ustr ''a''"
    by (simp_all add: index_char_def lower_case_def lower_unit_def unit_of_def)
  have idx: "indexOf (ustr ''as'') (ustr ''s'') = Some 1" "indexOf (ustr ''a'') (ustr ''a'') = Some 0"
    by (simp_all add: indexOf_def)
  have hex: "to_hex 1 = ''1''" "to_hex 0 = ''0''" by code_simp+
  show "results_page_of sample_tables 0 ''search'' ''.html'' (strip_leading (ustr ''Search'')) =
      Inr (''search/all_1.html'', ''search/all_1.html?Search'')"
    "results_page_of sample_tables 1 ''search'' ''.html'' (strip_leading (ustr ''a'')) =
      Inr (''search/files_0.html'', ''search/files_0.html?a'')"
    unfolding strip results_page_of_def esc chr
    by (simp_all add: sample_tables_def idx hex [simplified] del: ustr_simps)
qed

lemma sample_labels: "length (indexSectionLabels sample_tables) = 2"
  by (simp add: sample_tables_def)

lemmas sample_eval = sample_panel_def panel_run_def start_panel_def init_search_def sample_tables_def new_SearchBox_def
  menu_link_def OnSelectItem_def SelectItemSet_def set_focus_def OnSearchFieldFocus_def Activate_def
  OnSearchFieldChange_def field_changed_def setTimeout_def clearTimeout_def Let_def

text \<open>
  C26. Every panel a page can reach, by any events in any order, is consistent: the close button is
  shown exactly with the popup, one filter entry at most carries the mark and it is the active one,
  timers have distinct numbers, and the timer the panel would cancel is a pending search.
\<close>

theorem panel_invariant:
  assumes "panel_reachable lay tab (start_panel lay tab) p"
  shows "panel_ok (length (indexSectionLabels tab)) p"
  by (rule panel_ok_reachable [OF assms panel_ok_start])

theorem panel_invariant_witness:
  "panel_ok 2 (sample_panel [Focus Search_field, Menu_key \<lparr>keyCode = 40, shiftKey = False\<rparr>, Menu_hide, Wait 300, Fire 1])"
proof -
  show ?thesis
    unfolding sample_panel_def sample_labels [symmetric] by (rule panel_invariant [OF panel_run_reachable [OF panel_start]])
qed

lemma sample_ok: "panel_ok 2 (sample_panel es)"
  unfolding sample_panel_def sample_labels [symmetric]
  by (rule panel_ok_reachable [OF panel_run_reachable [OF panel_start] panel_ok_start])

section \<open>Searches that are no longer wanted\<close>

text \<open>What a pending search does when its time comes, and what it cannot know about.\<close>

lemma fire_search:
  assumes "timers_ok p" "keyTimeout p = k" "k \<noteq> 0" and "\<And>d. (k, box_name p @ ''.Search()'', d) \<in> set (timers p) \<Longrightarrow> d \<le> clock p"
  shows "fire_timer lay tab k p = box_Search lay tab (clearTimeout k p)"
proof -
  obtain d where "(k, box_name p @ ''.Search()'', d) \<in> set (timers p)"
    using assms(1-3) by (auto simp: timers_ok_def timer_list_ok_def)
  moreover have "distinct (map fst (timers p))" using assms(1) by (simp add: timers_ok_def timer_list_ok_def)
  ultimately have "map_of (timers p) k = Some (box_name p @ ''.Search()'', d)" by simp
  with assms(4) [OF \<open>(k, _, d) \<in> _\<close>] show ?thesis
    by (simp add: fire_timer_def run_code_def clearTimeout_def)
qed

text \<open>
  Leaving the search field while a search is pending and no results are shown puts the label
  back into the field but leaves the timer running: when it fires, the panel searches for its own
  label, opens the popup with that result, and the search box stays marked inactive.
\<close>

theorem search_fires_after_blur:
  assumes "panel_ok n p" "focused p = Search_field" "keyTimeout p \<noteq> 0" "popupDisplay p \<noteq> ''block''"
    and "\<And>k c d. (k, c, d) \<in> set (timers p) \<Longrightarrow> d \<le> clock p + ms"
    and "results_page_of tab (searchIndex p) (resultsPath p) (extension p) (strip_leading (searchLabel p)) = Inr (pg, loc)"
    and "q = panel_run lay tab [Focus Elsewhere, Wait ms, Fire (keyTimeout p)] p"
  shows "fieldValue q = searchLabel p \<and> frameLocation q = loc \<and> popupDisplay q = ''block'' \<and>
         boxClass q = ''MSearchBoxInactive'' \<and> focused q = Elsewhere"
proof -
  define r where "r = (set_focus Elsewhere p)\<lparr>clock := clock p + ms\<rparr>"
  have clock: "clock (set_focus Elsewhere p) = clock p"
    by (simp add: set_focus_def OnSearchFieldFocus_def Activate_def Let_def)
  have r: "fieldValue r = searchLabel p" "boxClass r = ''MSearchBoxInactive''" "focused r = Elsewhere"
    "searchIndex r = searchIndex p" "resultsPath r = resultsPath p" "extension r = extension p"
    "clock r = clock p + ms" "popupDisplay r \<noteq> ''block''" "timers r = timers p" "keyTimeout r = keyTimeout p"
    using assms(2,4) by (simp_all add: r_def set_focus_def OnSearchFieldFocus_def Activate_def Let_def)
  have "panel_ok n r" using panel_ok_set_focus [OF assms(1), of Elsewhere]
    by (simp add: r_def panel_ok_def menu_ok_def popup_ok_def timers_ok_def)
  then have "fire_timer lay tab (keyTimeout p) r = box_Search lay tab (clearTimeout (keyTimeout p) r)"
    using assms(3,5) r by (intro fire_search) (auto simp: panel_ok_def)
  then have "q = snd (box_Search lay tab (clearTimeout (keyTimeout p) r))"
    by (simp add: assms(7) panel_run_def r_def clock)
  with r assms(6) show ?thesis
    by (simp add: box_Search_def clearTimeout_def show_popup_def Let_def)
qed

theorem search_fires_after_blur_witness:
  "let p = sample_panel [Focus Search_field, Type_text (ustr ''a''), Field_key \<lparr>keyCode = 65, shiftKey = False\<rparr>];
       q = panel_run sample_layout sample_tables [Focus Elsewhere, Wait 500, Fire (keyTimeout p)] p
   in fieldValue q = ustr ''Search'' \<and> frameLocation q = ''search/all_1.html?Search'' \<and> popupDisplay q = ''block''"
proof -
  define p where "p = sample_panel [Focus Search_field, Type_text (ustr ''a''), Field_key \<lparr>keyCode = 65, shiftKey = False\<rparr>]"
  have a: "strip_blanks (ustr ''a'') = ustr ''a''" by (simp add: strip_blanks_def unit_of_def blank_def)
  have p: "focused p = Search_field" "keyTimeout p = 1" "popupDisplay p = ''''" "clock p = 0"
    "timers p = [(1, ''searchBox.Search()'', 500)]" "searchIndex p = 0" "resultsPath p = ''search''" "extension p = ''.html''"
    "searchLabel p = ustr ''Search''"
    using a by (simp_all add: p_def sample_eval)
  have page: "results_page_of sample_tables (searchIndex p) (resultsPath p) (extension p) (strip_leading (searchLabel p)) =
      Inr (''search/all_1.html'', ''search/all_1.html?Search'')"
    by (simp only: p sample_pages)
  show ?thesis
    using search_fires_after_blur [OF _ p(1) _ _ _ page refl, of 2 500 sample_layout] sample_ok p
    by (simp add: Let_def flip: p_def) (simp add: p_def sample_ok)
qed

text \<open>
  The filter menu lets Down go one entry too far. On the last of \<open>n\<close> entries it selects entry
  \<open>n\<close>: no entry is marked, and when a search is active the handler throws before it changes the
  results, which keep showing the previous filter.
\<close>

theorem filter_key_overrun:
  assumes "panel_ok n p" "0 < n" "searchIndex p = n - 1" "keyCode e = 40"
    and "map_of (indexSectionsWithContent tab) n = None"
    and "strip_blanks (fieldValue p) \<noteq> []" "searchActive p"
  shows "\<exists>q :: panel. panel_do lay tab (Menu_key e) p = (Some TypeError, q) \<and> searchIndex q = n \<and>
           frameLocation q = frameLocation p \<and> (\<forall>j<n. item_mark (menuItems q ! j) = ''&#160;'')"
proof -
  have "SelectItemCount p = n" using assms(1) by (simp add: SelectItemCount_ok panel_ok_def)
  then have down: "panel_do lay tab (Menu_key e) p = OnSelectItem lay tab n p"
    using assms(2-4) by (simp add: OnSearchSelectKey_def OnSelectItem_index)
  define r where "r = SelectItemSet n (p\<lparr>searchIndex := n\<rparr>)"
  have "menu_ok n r" unfolding r_def using assms(1) by (intro menu_ok_select) (simp_all add: panel_ok_def)
  moreover have "OnSelectItem lay tab n p = (Some TypeError, r\<lparr>keyTimeout := 0\<rparr>)"
    using assms(5-7) by (simp add: OnSelectItem_def box_Search_def results_page_of_def r_def SelectItemSet_def)
  ultimately show ?thesis using down
    by (intro exI [of _ "r\<lparr>keyTimeout := 0\<rparr>"]) (auto simp: menu_ok_def r_def SelectItemSet_def)
qed

theorem filter_key_overrun_witness:
  "let p = sample_panel [Focus Search_field, Type_text (ustr ''a''), Pick 1]
   in \<exists>q :: panel. panel_do sample_layout sample_tables (Menu_key \<lparr>keyCode = 40, shiftKey = False\<rparr>) p = (Some TypeError, q) \<and>
        searchIndex q = 2 \<and> frameLocation q = frameLocation p"
proof -
  define p where "p = sample_panel [Focus Search_field, Type_text (ustr ''a''), Pick 1]"
  have a: "strip_blanks (ustr ''a'') \<noteq> []" by (simp add: strip_blanks_def unit_of_def blank_def)
  have "searchIndex p = 2 - 1" "fieldValue p = ustr ''a''" "searchActive p"
    using a sample_pages(2) by (simp_all add: p_def sample_eval box_Search_def show_popup_def sample_layout_def)
  moreover have "map_of (indexSectionsWithContent sample_tables) 2 = None" by (simp add: sample_tables_def)
  ultimately show ?thesis
    using filter_key_overrun [of 2 p "\<lparr>keyCode = 40, shiftKey = False\<rparr>" sample_tables sample_layout] sample_ok a
    by (auto simp: Let_def p_def)
qed

end
