(* ===== verification/DocSearch.thy ===== *)
theory DocSearch
  imports SearchIndexesSync SearchPanel
begin

text \<open>
  The search as a whole: what is typed into the panel of a page, the results page the panel loads into
  its frame, and the rows that page shows.
\<close>

section \<open>Loading a results page\<close>

text \<open>The browser splits the address at the first question mark; the query keeps it.\<close>

definition url_path :: "string \<Rightarrow> string" where
  "url_path loc = takeWhile (\<lambda>c. c \<noteq> CHR ''?'') loc"

definition url_search :: "string \<Rightarrow> string" where
  "url_search loc = dropWhile (\<lambda>c. c \<noteq> CHR ''?'') loc"

text \<open>The page of each index file, \<^verbatim>\<open>search/all_0.html\<close> for \<^verbatim>\<open>all_0.js\<close>.\<close>

definition page_name :: "string \<Rightarrow> string" where
  "page_name f = ''search/'' @ f @ ''.html''"

text \<open>
  The scripts of a results page: \<open>createResults()\<close>, hiding the lines "Loading" and "No Matches", then
  \<open>searchResults.Search()\<close> with the query of the address.
\<close>

definition load_results :: "search_entry list \<Rightarrow> string \<Rightarrow> bool nav_outcome" where
  "load_results searchData location_search =
     (case createResults searchData results_body of
        Inl e \<Rightarrow> Some (Inl e, new_SearchResults results_body)
      | Inr doc \<Rightarrow>
          results_Search [] location_search
            (set_display [0, 4] ''none'' (set_display [0, 0] ''none'' (new_SearchResults doc))))"

definition open_frame :: "(string \<times> search_entry list) list \<Rightarrow> string \<Rightarrow> bool nav_outcome option" where
  "open_frame files loc =
     (case map_of (map (\<lambda>(f, es). (page_name f, es)) files) (url_path loc) of
        None \<Rightarrow> None
      | Some es \<Rightarrow> Some (load_results es (url_search loc)))"

lemma page_name_inject [simp]: "page_name f = page_name g \<longleftrightarrow> f = g"
  by (simp add: page_name_def)

lemma map_of_page_name:
  "map_of (map (\<lambda>(f, es). (page_name f, es)) files) (page_name f) = map_of files f"
  by (induction files) auto

lemma url_parts:
  assumes "CHR ''?'' \<notin> set u"
  shows "url_path (u @ CHR ''?'' # v) = u" "url_search (u @ CHR ''?'' # v) = CHR ''?'' # v"
  using assms by (auto simp: url_path_def url_search_def takeWhile_append dropWhile_append)

lemma open_frame_page:
  assumes "map_of files f = Some es" "CHR ''?'' \<notin> set f"
  shows "open_frame files (page_name f @ ''?'' @ v) = Some (load_results es (''?'' @ v))"
proof -
  have "CHR ''?'' \<notin> set (page_name f)" using assms(2) by (simp add: page_name_def)
  from url_parts [OF this, of v] show ?thesis by (simp add: open_frame_def map_of_page_name assms(1))
qed

section \<open>The letter that chooses the page\<close>

lemma lower_surrogate: "0xD800 \<le> unat (lower_unit c) \<Longrightarrow> lower_unit c = c"
proof (rule ccontr)
  assume "0xD800 \<le> unat (lower_unit c)" "lower_unit c \<noteq> c"
  then have small: "unat c \<le> 222" and l: "lower_unit c = c + 32" by (auto simp: lower_unit_def Let_def split: if_splits)
  then have "unat (c + 32) = unat c + 32" by (simp add: unat_word_ariths)
  with small l \<open>0xD800 \<le> unat (lower_unit c)\<close> show False by simp
qed

text \<open>The branch for surrogate pairs is never taken: \<open>searchValue > 1\<close> compares a text that is not a number.\<close>

lemma index_char_single: "index_char s = lower_case (take 1 s)"
proof (cases s)
  case (Cons c cs)
  have "\<not> text_greater_one s" if "0xD800 \<le> unat (lower_unit c)"
    using that lower_surrogate [OF that] Cons by (simp add: text_greater_one_def)
  with Cons show ?thesis by (auto simp: index_char_def)
qed (simp add: index_char_def)

lemma indexOf_single:
  "i < length cs \<Longrightarrow> distinct cs \<Longrightarrow> indexOf_aux k (ustr cs) [unit_of (cs ! i)] = Some (k + i)"
proof (induction cs arbitrary: i k)
  case (Cons x cs)
  then show ?case by (cases i) (auto simp: nth_Cons')
qed simp

lemma indexOf_letter: "i < length cs \<Longrightarrow> distinct cs \<Longrightarrow> indexOf (ustr cs) [unit_of (cs ! i)] = Some i"
  using indexOf_single [of i cs 0] by (simp add: indexOf_def)

lemma prefix_strip_trailing: "prefix (strip_trailing s) s"
  using suffix_dropWhile [of "\<lambda>c. c = blank" "rev s", unfolded suffix_to_prefix] by (simp add: strip_trailing_def)

lemma prefix_lower: "prefix s t \<Longrightarrow> prefix (lower_case s) (lower_case t)"
  by (auto simp: prefix_def lower_case_def)

lemma lower_blank: "lower_unit blank = blank"
  by (simp add: lower_unit_def blank_def)

lemma unit_of_blank: "unit_of CHR '' '' = blank"
  by (simp add: unit_of_def blank_def)

context search_index
begin

lemma page_of_letter:
  assumes "map_of (indexSectionsWithContent tab) k = Some cs" "map_of (indexSectionNames tab) k = Some nm"
    and "i < length cs" "take 1 (lower_case q) = [unit_of (cs ! i)]"
  shows "results_page_of tab k ''search'' ''.html'' q =
    Inr (page_name (index_name nm i), page_name (index_name nm i) @ ''?'' @ escape q)"
proof -
  obtain nm' where "distinct cs" by (rule section_name [OF assms(1)])
  moreover have "index_char q = [unit_of (cs ! i)]"
    using assms(4) by (simp add: index_char_single lower_case_def take_map)
  ultimately show ?thesis
    using assms by (simp add: results_page_of_def indexOf_letter Let_def page_name_def index_name_def)
qed

text \<open>A query that a name begins with, up to case, loads the page of the name's letter, which shows its row.\<close>

lemma name_found:
  assumes "map_of (indexSectionsWithContent tab) k = Some cs" "map_of (indexSectionNames tab) k = Some nm"
    and "i < length cs" "map_of files (index_name nm i) = Some es" "e < length es"
    and "q \<noteq> []" "prefix (lower_case q) (lower_case (ustr (entry_name (es ! e))))"
  shows "\<exists>t :: results. results_page_of tab k ''search'' ''.html'' (strip_leading q) =
       Inr (page_name (index_name nm i), page_name (index_name nm i) @ ''?'' @ escape q) \<and>
     open_frame files (page_name (index_name nm i) @ ''?'' @ escape q) = Some (Some (Inr True, t)) \<and>
     display t (row_path e) = ''block''"
proof -
  obtain n where wf: "index_wf (cs ! i) n es" and cs: "distinct cs" "CHR '' '' \<notin> set cs"
    using section_name [OF assms(1)] assms(2-4) unfolding index_file_def by (metis option.inject)
  from index_wf_nth [OF wf assms(5)] have first: "take 1 (lower_case (ustr (entry_name (es ! e)))) = [unit_of (cs ! i)]"
    by simp
  from assms(6) obtain a q' where q: "q = a # q'" by (cases q) auto
  with assms(7) first have a: "lower_unit a = unit_of (cs ! i)"
    by (auto simp: prefix_def)
  have "unit_of (cs ! i) \<noteq> blank"
  proof
    assume "unit_of (cs ! i) = blank"
    then have "cs ! i = CHR '' ''" by (simp flip: unit_of_blank)
    with nth_mem [OF assms(3)] cs(2) show False by simp
  qed
  with a have "a \<noteq> blank" using lower_blank by auto
  with q have strip: "strip_leading q = q" by (simp add: strip_leading_def)
  have page: "results_page_of tab k ''search'' ''.html'' q =
      Inr (page_name (index_name nm i), page_name (index_name nm i) @ ''?'' @ escape q)"
    by (rule page_of_letter [OF assms(1-3)]) (simp add: q a)
  have word: "search_word [] (''?'' @ escape q) = convertToId (lower_case (strip_trailing q))"
    by (simp add: search_word_def unescape_escape strip)
  have "prefix (lower_case (strip_trailing q)) (lower_case (ustr (entry_name (es ! e))))"
    using prefix_lower [OF prefix_strip_trailing] assms(7) by (rule prefix_order.trans)
  from entry_found [OF wf assms(5) this]
  have "entry_matches (search_word [] (''?'' @ escape q)) (es ! e)" by (simp only: word)
  moreover have "open_frame files (page_name (index_name nm i) @ ''?'' @ escape q) =
      Some (load_results es (''?'' @ escape q))"
    by (rule open_frame_page [OF assms(4) no_question [OF assms(4)]])
  ultimately show ?thesis
    using page strip search_shows [OF ids_distinct_wf [OF wf], of "set_display [0, 4] ''none'' (set_display [0, 0] ''none'' (new_SearchResults (results_doc es)))" "[]" "''?'' @ escape q"] assms(5)
    by (auto simp: load_results_def createResults_eq new_SearchResults_def)
qed

end

section \<open>From the keyboard to the row\<close>

text \<open>A value typed into the field starts a timer that, left alone, loads the page of the value.\<close>

lemma typed_search:
  assumes "panel_ok n p" "focused p = Search_field" "keyCode e \<notin> {13, 27, 40}"
    and "strip_blanks q \<noteq> []" "strip_blanks q \<noteq> lastSearchValue p" "keyTimeoutLength p \<le> ms"
    and "results_page_of tab (searchIndex p) (resultsPath p) (extension p) (strip_leading q) = Inr (pg, loc)"
    and "p' = panel_run lay tab [Type_text q, Field_key e, Wait ms, Fire (nextTimer p)] p"
  shows "frameLocation p' = loc \<and> popupDisplay p' = ''block'' \<and> lastResultsPage p' = pg \<and> keyTimeout p' = 0"
proof -
  define r where "r = snd (panel_do lay tab (Wait ms) (snd (panel_do lay tab (Field_key e) (snd (panel_do lay tab (Type_text q) p)))))"
  have ok: "panel_ok n r" unfolding r_def by (intro panel_ok_do assms(1))
  define p1 where "p1 = (if keyTimeout p \<noteq> 0
      then (clearTimeout (keyTimeout p) (p\<lparr>fieldValue := q\<rparr>))\<lparr>keyTimeout := 0\<rparr> else p\<lparr>fieldValue := q\<rparr>)"
  have p1: "OnSearchFieldChange lay e (p\<lparr>fieldValue := q\<rparr>) = field_changed p1"
    using assms(3) by (simp add: OnSearchFieldChange_def p1_def clearTimeout_def)
  have f: "focused p1 = Search_field" "fieldValue p1 = q" "lastSearchValue p1 = lastSearchValue p" "nextTimer p1 = nextTimer p"
    "clock p1 = clock p" "box_name p1 = box_name p" "keyTimeoutLength p1 = keyTimeoutLength p" "searchIndex p1 = searchIndex p"
    "resultsPath p1 = resultsPath p" "extension p1 = extension p"
    using assms(2) by (simp_all add: p1_def clearTimeout_def)
  have r: "r = (setTimeout (box_name p1 @ ''.Search()'') (keyTimeoutLength p1) p1)
      \<lparr>keyTimeout := nextTimer p1, clock := clock p1 + ms\<rparr>"
    using assms(2,4,5) f by (simp add: r_def p1 field_changed_def setTimeout_def)
  have nz: "nextTimer p \<noteq> 0" using assms(1) by (auto simp: panel_ok_def timers_ok_def timer_list_ok_def)
  have due: "d \<le> clock r" if "(nextTimer p, c, d) \<in> set (timers r)" for c d
  proof -
    have "distinct (map fst (timers r))" using ok by (simp add: panel_ok_def timers_ok_def timer_list_ok_def)
    moreover have "(nextTimer p, box_name p @ ''.Search()'', clock p + keyTimeoutLength p) \<in> set (timers r)"
      by (simp add: r setTimeout_def f)
    ultimately have "d = clock p + keyTimeoutLength p" using that by (metis eq_key_imp_eq_value prod.inject)
    then show ?thesis using assms(6) by (simp add: r setTimeout_def f)
  qed
  have "fire_timer lay tab (nextTimer p) r = box_Search lay tab (clearTimeout (nextTimer p) r)"
    using ok nz due by (intro fire_search) (auto simp: panel_ok_def r f setTimeout_def)
  then have "p' = snd (box_Search lay tab (clearTimeout (nextTimer p) r))"
    by (simp add: assms(8) panel_run_def r_def)
  moreover have "searchIndex r = searchIndex p" "resultsPath r = resultsPath p" "extension r = extension p" "fieldValue r = q"
    by (simp_all add: r setTimeout_def f)
  ultimately show ?thesis
    using assms(7) by (simp add: box_Search_def clearTimeout_def show_popup_def Let_def)
qed



end
