(* ===== verification/ResultsNav.thy ===== *)
theory ResultsNav
  imports ResultsPage
begin

text \<open>
  Keyboard navigation on a results page. The reference is the list of stops: the link of every
  visible row in order, each followed by its child links when they are unfolded. The arrow keys are
  compared with the successor and the predecessor in that list.
\<close>

section \<open>Stops\<close>

datatype stop = Item nat | Child nat nat

fun stop_path :: "stop \<Rightarrow> path" where
  "stop_path (Item e) = link_path e"
| "stop_path (Child e c) = child_path e c"

definition row_visible :: "results \<Rightarrow> nat \<Rightarrow> bool" where
  "row_visible s e \<longleftrightarrow> display s (row_path e) = ''block''"

definition unfolded :: "results \<Rightarrow> nat \<Rightarrow> bool" where
  "unfolded s e \<longleftrightarrow> display s (extra_path e) = ''block''"

definition row_stops :: "results \<Rightarrow> search_entry list \<Rightarrow> nat \<Rightarrow> stop list" where
  "row_stops s es e = Item e # (if unfolded s e then map (Child e) [0..<child_count (es ! e)] else [])"

definition stops :: "results \<Rightarrow> search_entry list \<Rightarrow> stop list" where
  "stops s es = concat (map (row_stops s es) (filter (row_visible s) [0..<length es]))"

text \<open>Pressing a key while a link has the focus runs the handler that \<open>createResults\<close> gave it.\<close>

fun press :: "nat \<Rightarrow> stop \<Rightarrow> results \<Rightarrow> bool nav_outcome" where
  "press k (Item e) s = Nav \<lparr>ev_type = ''keydown'', ev_keyCode = k\<rparr> (int e) s"
| "press k (Child e c) s = NavChild \<lparr>ev_type = ''keydown'', ev_keyCode = k\<rparr> (int e) c s"

definition keyed :: "nat \<Rightarrow> results \<Rightarrow> results" where
  "keyed k s = s\<lparr>repeatOn := False, lastKey := k\<rparr>"

lemma keyed_simps [simp]:
  "page (keyed k s) = page s" "display (keyed k s) = display s" "lastKey (keyed k s) = k"
  "parent_calls (keyed k s) = parent_calls s" "active (keyed k s) = active s"
  "row_visible (keyed k s) = row_visible s" "unfolded (keyed k s) = unfolded s"
  by (auto simp: keyed_def row_visible_def unfolded_def)

lemma process_keydown:
  "k \<noteq> 0 \<Longrightarrow> ProcessKeys \<lparr>ev_type = ''keydown'', ev_keyCode = k\<rparr> s = (True, keyed k s)"
  by (simp add: ProcessKeys_def keyed_def)

lemma press_arrows:
  "press 40 (Item e) s = nav_down (int e) (keyed 40 s)"
  "press 38 (Item e) s = nav_up (int e) (keyed 38 s)"
  "press 40 (Child e c) s = NavChild \<lparr>ev_type = ''keydown'', ev_keyCode = 40\<rparr> (int e) c s"
  "press 38 (Child e c) s =
     (if 0 < c then focus_id (child_id (int e) (c - 1)) (keyed 38 s) else focus_id (item_id (int e)) (keyed 38 s))"
  by (simp_all add: Nav_def NavChild_def process_keydown)

declare press.simps [simp del]

section \<open>The next and the previous visible row\<close>

lemma NavNext_page:
  assumes "ids_distinct es" "page s = results_doc es"
  shows "NavNext s (int i) = Inr (map_option link_path (find (row_visible s) [i..<length es]))"
proof (induction "length es - i" arbitrary: i)
  case 0
  then show ?case
    by (subst NavNext.simps) (simp add: assms getElementById_item)
next
  case (Suc k)
  then have i: "i < length es" by simp
  have IH: "NavNext s (int (Suc i)) = Inr (map_option link_path (find (row_visible s) [Suc i..<length es]))"
    by (rule Suc(1)) (use Suc(2) in simp)
  show ?case
    using i IH
    by (subst NavNext.simps) (simp add: assms getElementById_item upt_conv_Cons add.commute flip: row_visible_def)
qed

lemma NavPrev_page:
  assumes "ids_distinct es" "page s = results_doc es" "i \<le> length es"
  shows "NavPrev s (int i - 1) = Inr (map_option link_path (find (row_visible s) (rev [0..<i])))"
  using assms(3)
proof (induction i)
  case 0
  then show ?case by (subst NavPrev.simps) (simp add: assms getElementById_item)
next
  case (Suc i)
  then show ?case by (subst NavPrev.simps) (simp add: assms getElementById_item flip: row_visible_def)
qed

lemma last_child_page:
  assumes "ids_distinct es" "e < length es"
  shows "last_child (results_doc es) (int e) c p =
         (if c < child_count (es ! e) then child_path e (child_count (es ! e) - 1) else p)"
proof (induction "child_count (es ! e) - c" arbitrary: c p)
  case 0
  then show ?case by (subst last_child.simps) (simp add: assms getElementById_child)
next
  case (Suc k)
  then have "last_child (results_doc es) (int e) (Suc c) (child_path e c) =
      (if Suc c < child_count (es ! e) then child_path e (child_count (es ! e) - 1) else child_path e c)"
    by (intro Suc(1)) simp
  moreover have "c < child_count (es ! e)" using Suc(2) by simp
  ultimately show ?case
    by (subst last_child.simps) (auto simp: assms getElementById_child not_less less_Suc_eq_le dest: le_antisym intro: arg_cong)
qed

text \<open>What the arrow keys do, written over the rows.\<close>

definition next_row :: "results \<Rightarrow> search_entry list \<Rightarrow> nat \<Rightarrow> stop option" where
  "next_row s es e = map_option Item (find (row_visible s) [Suc e..<length es])"

definition focus_stop :: "stop option \<Rightarrow> results \<Rightarrow> results" where
  "focus_stop st s = (case st of None \<Rightarrow> s | Some a \<Rightarrow> focus_element (stop_path a) s)"

lemma down_item:
  assumes "ids_distinct es" "page s = results_doc es" "e < length es"
  shows "press 40 (Item e) s =
    Some (Inr False, focus_stop (if unfolded s e \<and> 0 < child_count (es ! e) then Some (Child e 0) else next_row s es e) (keyed 40 s))"
proof -
  have nx: "NavNext (keyed 40 s) (int e + 1) = Inr (map_option link_path (find (row_visible s) [Suc e..<length es]))"
    using NavNext_page [OF assms(1), of "keyed 40 s" "Suc e"] assms(2) by (simp add: add.commute)
  have single: "\<exists>r. entry_results (es ! e) = [r] \<Longrightarrow> child_count (es ! e) = 0"
    by (auto simp: child_count_def)
  show ?thesis
    using assms single
    by (cases "find (row_visible s) [Suc e..<length es]")
       (auto simp: press_arrows nav_down_def getElementById_item children_of_link nx getElementById_child
          unfolded_def focus_stop_def next_row_def)
qed

lemma down_child:
  assumes "ids_distinct es" "page s = results_doc es" "e < length es"
  shows "press 40 (Child e c) s =
    Some (Inr False, focus_stop (if Suc c < child_count (es ! e) then Some (Child e (Suc c)) else next_row s es e) (keyed 40 s))"
proof -
  have nx: "NavNext (keyed 40 s) (int e + 1) = Inr (map_option link_path (find (row_visible s) [Suc e..<length es]))"
    using NavNext_page [OF assms(1), of "keyed 40 s" "Suc e"] assms(2) by (simp add: add.commute)
  show ?thesis
    using assms
    by (cases "find (row_visible s) [Suc e..<length es]")
       (auto simp: press_arrows NavChild_def process_keydown getElementById_child nx focus_stop_def next_row_def)
qed

lemma find_SomeD: "find P xs = Some x \<Longrightarrow> x \<in> set xs \<and> P x"
  by (induction xs) (auto split: if_splits)

lemma up_item:
  assumes "ids_distinct es" "page s = results_doc es" "e < length es"
  shows "press 38 (Item e) s =
    (case find (row_visible s) (rev [0..<e]) of
       None \<Rightarrow> Some (Inr False, (keyed 38 s)\<lparr>parent_calls := parent_calls s @ [Parent_focus_field]\<rparr>)
     | Some e' \<Rightarrow>
         Some (Inr False, focus_element
           (if unfolded s e' \<and> (\<nexists>r. entry_results (es ! e') = [r]) \<and> 0 < child_count (es ! (e - 1))
            then child_path (e - 1) (child_count (es ! (e - 1)) - 1) else link_path e') (keyed 38 s)))"
proof -
  have pv: "NavPrev (keyed 38 s) (int e - 1) = Inr (map_option link_path (find (row_visible s) (rev [0..<e])))"
    using NavPrev_page [OF assms(1), of "keyed 38 s" e] assms(2,3) by simp
  show ?thesis
  proof (cases "find (row_visible s) (rev [0..<e])")
    case None
    then show ?thesis by (simp add: press_arrows nav_up_def pv)
  next
    case (Some e')
    then have e': "e' < e" by (auto dest: find_SomeD)
    then have "int e - 1 = int (e - 1)" "e - 1 < length es" using assms(3) by simp_all
    then have lc: "last_child (results_doc es) (int e - 1) 0 p =
        (if 0 < child_count (es ! (e - 1)) then child_path (e - 1) (child_count (es ! (e - 1)) - 1) else p)" for p
      by (simp only: last_child_page [OF assms(1)])
    show ?thesis
      using assms e' Some
      by (simp add: press_arrows nav_up_def pv Let_def children_of_link unfolded_def lc)
  qed
qed

lemma up_child:
  assumes "ids_distinct es" "page s = results_doc es" "e < length es" "c < child_count (es ! e)"
  shows "press 38 (Child e c) s =
    Some (Inr False, focus_element (stop_path (if 0 < c then Child e (c - 1) else Item e)) (keyed 38 s))"
  using assms getElementById_item [OF assms(1), of "int e"]
  by (cases c) (simp_all add: press_arrows focus_id_def getElementById_child)

section \<open>The arrow keys follow the stops\<close>

lemma distinct_stops: "distinct (stops s es)"
proof -
  have "distinct (concat (map (row_stops s es) es'))" if "distinct es'" for es'
    using that
    by (induction es') (auto simp: row_stops_def distinct_map inj_on_def)
  then show ?thesis by (simp add: stops_def)
qed

lemma distinct_after: "distinct (us @ a # ws) \<Longrightarrow> us @ a # ws = us' @ a # ws' \<Longrightarrow> us = us' \<and> ws = ws'"
  by (subst (asm) append_Cons_eq_iff) auto

text \<open>The stops around a visible row.\<close>

lemma upt_split: "e < n \<Longrightarrow> [0..<n] = [0..<e] @ e # [Suc e..<n]"
  using upt_add_eq_append [of 0 e "n - e"] by (simp add: upt_conv_Cons)

lemma filter_upt_split:
  assumes "e < n" "P e"
  shows "filter P [0..<n] = filter P [0..<e] @ e # filter P [Suc e..<n]"
  using assms by (simp add: upt_split)

lemma find_filter: "find P xs = (case filter P xs of [] \<Rightarrow> None | x # _ \<Rightarrow> Some x)"
  by (induction xs) auto

lemma stops_split:
  assumes "e < length es" "row_visible s e"
  shows "stops s es = concat (map (row_stops s es) (filter (row_visible s) [0..<e])) @ row_stops s es e @
      concat (map (row_stops s es) (filter (row_visible s) [Suc e..<length es]))"
  using filter_upt_split [of e "length es" "row_visible s"] assms by (simp add: stops_def)

lemma next_row_stop:
  "next_row s es e =
     (case concat (map (row_stops s es) (filter (row_visible s) [Suc e..<length es])) of
        [] \<Rightarrow> None | b # _ \<Rightarrow> Some b)"
  by (cases "filter (row_visible s) [Suc e..<length es]")
     (simp_all add: next_row_def find_filter row_stops_def)

lemma stop_row:
  assumes "a \<in> set (stops s es)"
  obtains e where "e < length es" "row_visible s e" "a = Item e"
  | e c where "e < length es" "row_visible s e" "unfolded s e" "c < child_count (es ! e)" "a = Child e c"
  using assms by (auto simp: stops_def row_stops_def split: if_splits)

lemma row_stops_around:
  "row_stops s es e = [] @ Item e # (if unfolded s e then map (Child e) [0..<child_count (es ! e)] else [])"
  "unfolded s e \<Longrightarrow> c < child_count (es ! e) \<Longrightarrow>
     row_stops s es e = (Item e # map (Child e) [0..<c]) @ Child e c # map (Child e) [Suc c..<child_count (es ! e)]"
proof -
  assume u: "unfolded s e" "c < child_count (es ! e)"
  then have "[0..<child_count (es ! e)] = [0..<c] @ c # [Suc c..<child_count (es ! e)]"
    by (intro upt_split)
  with u show "row_stops s es e = (Item e # map (Child e) [0..<c]) @ Child e c # map (Child e) [Suc c..<child_count (es ! e)]"
    by (simp add: row_stops_def)
qed (simp add: row_stops_def)

lemma press_down_next:
  assumes "ids_distinct es" "page s = results_doc es" "stops s es = us @ a # vs"
  shows "press 40 a s = Some (Inr False, focus_stop (case vs of [] \<Rightarrow> None | b # _ \<Rightarrow> Some b) (keyed 40 s))"
proof -
  have "a \<in> set (stops s es)" using assms(3) by simp
  then show ?thesis
  proof (cases rule: stop_row)
    case (1 e)
    define R where "R = concat (map (row_stops s es) (filter (row_visible s) [Suc e..<length es]))"
    define C where "C = (if unfolded s e then map (Child e) [0..<child_count (es ! e)] else [])"
    have "stops s es = (concat (map (row_stops s es) (filter (row_visible s) [0..<e]))) @ Item e # C @ R"
      using stops_split [OF 1(1,2), of] by (simp add: row_stops_def R_def C_def)
    with assms(3) distinct_stops [of s es] 1(3) have "vs = C @ R"
      by (metis distinct_after)
    then have "(case vs of [] \<Rightarrow> None | b # _ \<Rightarrow> Some b) =
        (if unfolded s e \<and> 0 < child_count (es ! e) then Some (Child e 0) else next_row s es e)"
      by (auto simp: C_def next_row_stop R_def upt_conv_Cons)
    with down_item [OF assms(1,2) 1(1)] 1(3) show ?thesis by simp
  next
    case (2 e c)
    define R where "R = concat (map (row_stops s es) (filter (row_visible s) [Suc e..<length es]))"
    have "stops s es = (concat (map (row_stops s es) (filter (row_visible s) [0..<e])) @ Item e # map (Child e) [0..<c])
        @ Child e c # (map (Child e) [Suc c..<child_count (es ! e)] @ R)"
      using stops_split [OF 2(1,2)] row_stops_around(2) [OF 2(3,4)] by (simp add: R_def)
    with assms(3) distinct_stops [of s es] 2(5) have "vs = map (Child e) [Suc c..<child_count (es ! e)] @ R"
      by (metis distinct_after)
    then have "(case vs of [] \<Rightarrow> None | b # _ \<Rightarrow> Some b) =
        (if Suc c < child_count (es ! e) then Some (Child e (Suc c)) else next_row s es e)"
      by (auto simp: next_row_stop R_def upt_conv_Cons)
    with down_child [OF assms(1,2) 2(1)] 2(5) show ?thesis by simp
  qed
qed

lemma find_rev_last: "find P (rev xs) = (if filter P xs = [] then None else Some (last (filter P xs)))"
  by (induction xs rule: rev_induct) auto

definition contiguous :: "results \<Rightarrow> nat \<Rightarrow> bool" where
  "contiguous s n \<longleftrightarrow> (\<forall>i j k. i < j \<and> j < k \<and> k < n \<and> row_visible s i \<and> row_visible s k \<longrightarrow> row_visible s j)"

lemma last_row_stops:
  "last (row_stops s es e) = (if unfolded s e \<and> 0 < child_count (es ! e) then Child e (child_count (es ! e) - 1) else Item e)"
  by (auto simp: row_stops_def last_map)

lemma last_concat_rows:
  "xs \<noteq> [] \<Longrightarrow> last (concat (map (row_stops s es) xs)) = last (row_stops s es (last xs))"
  by (induction xs rule: rev_induct) (auto simp: row_stops_def)

lemma concat_rows_Nil: "concat (map (row_stops s es) xs) = [] \<longleftrightarrow> xs = []"
  by (cases xs) (auto simp: row_stops_def)

lemma press_up_item:
  assumes "ids_distinct es" "page s = results_doc es" "contiguous s (length es)" "e < length es" "row_visible s e"
    and "us = concat (map (row_stops s es) (filter (row_visible s) [0..<e]))"
  shows "press 38 (Item e) s =
    (if us = [] then Some (Inr False, (keyed 38 s)\<lparr>parent_calls := parent_calls s @ [Parent_focus_field]\<rparr>)
     else Some (Inr False, focus_element (stop_path (last us)) (keyed 38 s)))"
proof (cases "filter (row_visible s) [0..<e] = []")
  case True
  then show ?thesis using up_item [OF assms(1,2,4)] assms(6) by (simp add: find_rev_last)
next
  case False
  define e' where "e' = last (filter (row_visible s) [0..<e])"
  then have "e' \<in> set (filter (row_visible s) [0..<e])" using False last_in_set by blast
  then have e': "row_visible s e'" "e' < e" by auto
  have "e - 1 = e'"
  proof (rule ccontr)
    assume "e - 1 \<noteq> e'"
    with e' have "e' < e - 1" "e - 1 < e" by simp_all
    with e'(1) assms(3-5) have vis: "row_visible s (e - 1)" unfolding contiguous_def by blast
    from e' have "[0..<e] = [0..<e - 1] @ [e - 1]" by (cases e) auto
    with vis have "last (filter (row_visible s) [0..<e]) = e - 1" by simp
    with \<open>e - 1 \<noteq> e'\<close> show False by (simp add: e'_def)
  qed
  moreover have "last us = last (row_stops s es e')"
    using last_concat_rows [OF False] assms(6) by (simp add: e'_def)
  moreover have "us \<noteq> []" using False unfolding assms(6) concat_rows_Nil .
  moreover have "\<exists>r. entry_results (es ! e') = [r] \<Longrightarrow> child_count (es ! e') = 0" by (auto simp: child_count_def)
  ultimately show ?thesis
    using up_item [OF assms(1,2,4)] False
    by (auto simp: find_rev_last last_row_stops e'_def [symmetric])
qed

lemma press_up_previous:
  assumes "ids_distinct es" "page s = results_doc es" "contiguous s (length es)" "stops s es = us @ b # vs"
  shows "press 38 b s =
    (if us = [] then Some (Inr False, (keyed 38 s)\<lparr>parent_calls := parent_calls s @ [Parent_focus_field]\<rparr>)
     else Some (Inr False, focus_element (stop_path (last us)) (keyed 38 s)))"
proof -
  have "b \<in> set (stops s es)" using assms(4) by simp
  then show ?thesis
  proof (cases rule: stop_row)
    case (1 e)
    have "stops s es = concat (map (row_stops s es) (filter (row_visible s) [0..<e])) @ Item e #
        ((if unfolded s e then map (Child e) [0..<child_count (es ! e)] else []) @
         concat (map (row_stops s es) (filter (row_visible s) [Suc e..<length es])))"
      using stops_split [OF 1(1,2)] by (simp add: row_stops_def)
    with assms(4) distinct_stops [of s es] 1(3)
    have "us = concat (map (row_stops s es) (filter (row_visible s) [0..<e]))" by (metis distinct_after)
    from press_up_item [OF assms(1-3) 1(1,2) this] 1(3) show ?thesis by simp
  next
    case (2 e c)
    have "stops s es = (concat (map (row_stops s es) (filter (row_visible s) [0..<e])) @ Item e # map (Child e) [0..<c])
        @ Child e c # (map (Child e) [Suc c..<child_count (es ! e)] @
           concat (map (row_stops s es) (filter (row_visible s) [Suc e..<length es])))"
      using stops_split [OF 2(1,2)] row_stops_around(2) [OF 2(3,4)] by simp
    with assms(4) distinct_stops [of s es] 2(5)
    have "us = concat (map (row_stops s es) (filter (row_visible s) [0..<e])) @ Item e # map (Child e) [0..<c]"
      by (metis distinct_after)
    then have "us \<noteq> []" "last us = (if 0 < c then Child e (c - 1) else Item e)"
      by (simp_all add: last_map)
    with up_child [OF assms(1,2) 2(1,4)] 2(5) show ?thesis by simp
  qed
qed

text \<open>
  C25. On a results page, Down moves the focus from one stop to the next: from a link to the first
  unfolded child, from child to child, and on to the next visible row, however many hidden rows lie
  between. Up leads back, provided the visible rows are contiguous.
\<close>

theorem arrow_keys_follow_stops:
  assumes "ids_distinct es" "page s = results_doc es" "stops s es = us @ a # b # vs"
  shows "press 40 a s = Some (Inr False, focus_element (stop_path b) (keyed 40 s)) \<and>
         (contiguous s (length es) \<longrightarrow> press 38 b s = Some (Inr False, focus_element (stop_path a) (keyed 38 s)))"
  using press_down_next [OF assms] press_up_previous [OF assms(1,2), of "us @ [a]" b vs] assms(3)
  by (simp add: focus_stop_def)

theorem arrow_keys_follow_stops_witness:
  "let es = [(''ab_0'', ''ab'', [(''u'', 1, ''x''), (''v'', 1, ''y'')]), (''ac_1'', ''ac'', [(''w'', 1, ''z'')])];
       s = (new_SearchResults (results_doc es))\<lparr>display := (\<lambda>_. ''block'')\<rparr>
   in press 40 (Child 0 1) s = Some (Inr False, focus_element (link_path 1) (keyed 40 s)) \<and>
      press 38 (Item 1) s = Some (Inr False, focus_element (child_path 0 1) (keyed 38 s))"
proof -
  define es :: "search_entry list" where
    "es = [(''ab_0'', ''ab'', [(''u'', 1, ''x''), (''v'', 1, ''y'')]), (''ac_1'', ''ac'', [(''w'', 1, ''z'')])]"
  define s where "s = (new_SearchResults (results_doc es))\<lparr>display := (\<lambda>_. ''block'')\<rparr>"
  have ids: "ids_distinct es" by (simp add: ids_distinct_def es_def entry_id_def)
  have pg: "page s = results_doc es" by (simp add: s_def new_SearchResults_def)
  have vis: "row_visible s e" "unfolded s e" for e by (simp_all add: s_def row_visible_def unfolded_def)
  have st: "stops s es = [Item 0, Child 0 0] @ Child 0 1 # Item 1 # []"
    by (simp add: stops_def row_stops_def vis es_def child_count_def entry_results_def upt_rec)
  have "contiguous s (length es)" by (simp add: contiguous_def vis)
  with arrow_keys_follow_stops [OF ids pg st] show ?thesis by (simp add: Let_def s_def es_def)
qed

text \<open>
  When hidden rows lie between, Up goes wrong: above the row \<open>e\<close> it finds the visible row
  \<open>e'\<close>, sees that its children are unfolded, and then looks for the last child of the row
  \<open>e - 1\<close>, so that the focus lands inside a row that is not visible.
\<close>

theorem up_enters_hidden_row:
  assumes "ids_distinct es" "page s = results_doc es" "e < length es" "e' < e - 1"
    and "row_visible s e'" "\<And>j. e' < j \<Longrightarrow> j < e \<Longrightarrow> \<not> row_visible s j"
    and "unfolded s e'" "1 < length (entry_results (es ! e'))" "1 < length (entry_results (es ! (e - 1)))"
  shows "press 38 (Item e) s =
           Some (Inr False, focus_element (child_path (e - 1) (child_count (es ! (e - 1)) - 1)) (keyed 38 s)) \<and>
         \<not> row_visible s (e - 1)"
proof -
  have split: "[0..<e] = [0..<e'] @ e' # [Suc e'..<e]" using assms(4) by (intro upt_split) simp
  have "filter (row_visible s) [Suc e'..<e] = []" using assms(6) by (auto simp: filter_empty_conv)
  then have "find (row_visible s) (rev [0..<e]) = Some e'"
    using assms(5) by (simp only: find_rev_last split filter_append filter.simps if_True) simp
  moreover have "\<nexists>r. entry_results (es ! e') = [r]" using assms(8) by auto
  moreover have "0 < child_count (es ! (e - 1))" using assms(9) by (auto simp: child_count_def)
  ultimately show ?thesis using up_item [OF assms(1-3)] assms(4,6,7) by simp
qed

theorem up_enters_hidden_row_witness:
  "let multi = (\<lambda>i n. (i, n, [(''u'', 1, ''x''), (''v'', 1, ''y'')]));
       es = [multi ''ab_0'' ''ab'', multi ''ac_1'' ''ac'', multi ''ad_2'' ''ad''];
       s = (new_SearchResults (results_doc es))
             \<lparr>display := (\<lambda>p. if p = row_path 1 then ''none'' else ''block'')\<rparr>
   in press 38 (Item 2) s = Some (Inr False, focus_element (child_path 1 1) (keyed 38 s)) \<and> \<not> row_visible s 1"
proof -
  define multi :: "string \<Rightarrow> string \<Rightarrow> search_entry" where "multi i n = (i, n, [(''u'', 1, ''x''), (''v'', 1, ''y'')])" for i n
  define es where "es = [multi ''ab_0'' ''ab'', multi ''ac_1'' ''ac'', multi ''ad_2'' ''ad'']"
  define s where "s = (new_SearchResults (results_doc es))\<lparr>display := (\<lambda>p. if p = row_path 1 then ''none'' else ''block'')\<rparr>"
  have ids: "ids_distinct es" by (simp add: ids_distinct_def es_def entry_id_def multi_def)
  have pg: "page s = results_doc es" by (simp add: s_def new_SearchResults_def)
  have vis: "row_visible s 0" "\<not> row_visible s j" if "0 < j" "j < 2" for j
    using that by (auto simp: s_def row_visible_def row_path_def)
  have un: "unfolded s 0" by (simp add: s_def unfolded_def extra_path_def row_path_def)
  have cnt: "1 < length (entry_results (es ! 0))" "1 < length (entry_results (es ! (2 - 1)))" "2 < length es"
    "child_count (es ! (2 - 1)) = 2"
    by (simp_all add: es_def multi_def entry_results_def child_count_def)
  have r0: "row_visible s 0" by (simp add: s_def row_visible_def row_path_def)
  from up_enters_hidden_row [OF ids pg cnt(3) _ r0 vis(2) un cnt(1,2)]
  have "press 38 (Item 2) s = Some (Inr False, focus_element (child_path 1 1) (keyed 38 s)) \<and> \<not> row_visible s 1"
    by (simp add: es_def multi_def entry_results_def child_count_def)
  then show ?thesis by (simp add: Let_def s_def es_def multi_def)
qed

end
