(* ===== verification/DocMenu.thy ===== *)
theory DocMenu
  imports Prelude
begin

text \<open>
  The menu bar of the reference pages: \<^verbatim>\<open>initMenu\<close> of \<^verbatim>\<open>menu.js\<close>, the menu trees of
  \<^verbatim>\<open>menudata.js\<close> of the three references, and a reader that recovers from the produced text the
  outline of the tree, which shows that the text is nested as the tree is and links where it says.
\<close>

section \<open>The tree and its text\<close>

text \<open>An entry with \<open>text\<close>, \<open>url\<close> and, if it has one, the list \<open>children\<close>; the root has empty texts.\<close>

datatype menu = Menu (menu_text: string) (menu_url: string) (menu_children: "menu list option")

fun makeTree :: "string \<Rightarrow> menu \<Rightarrow> string" and make_items :: "string \<Rightarrow> menu list \<Rightarrow> string" where
  "makeTree relPath (Menu t u None) = ''''"
| "makeTree relPath (Menu t u (Some cs)) = ''<ul>'' @ make_items relPath cs @ ''</ul>''"
| "make_items relPath [] = ''''"
| "make_items relPath (c # cs) =
     ''<li><a href=\"'' @ relPath @ menu_url c @ ''\">'' @ menu_text c @ ''</a>'' @ makeTree relPath c @ ''</li>'' @
     make_items relPath cs"

text \<open>
  The bar after \<open>initMenu\<close>: the content of the list that is the first child of \<open>#main-nav\<close>, its
  classes and id, the search item appended to it and whether the menu plugin was started.
\<close>

record nav_bar =
  nav_items :: string
  nav_classes :: string
  nav_id :: string
  nav_search :: string
  nav_plugin :: bool

definition server_search :: "string \<Rightarrow> string \<Rightarrow> string \<Rightarrow> string" where
  "server_search relPath searchPage search =
     ''<li style=\"float:right\"><div id=\"MSearchBox\" class=\"MSearchBoxInactive\"><div class=\"left\"><form id=\"FSearchBox\" action=\"'' @
     relPath @
     searchPage @
     ''\" method=\"get\"><img id=\"MSearchSelect\" src=\"'' @
     relPath @
     ''search/mag.svg\" alt=\"\"/><input type=\"text\" id=\"MSearchField\" name=\"query\" value=\"'' @
     search @
     ''\" size=\"20\" accesskey=\"S\" onfocus=\"searchBox.OnSearchFieldFocus(true)\" onblur=\"searchBox.OnSearchFieldFocus(false)\"></form></div><div class=\"right\"></div></div></li>''"

definition client_search :: "string \<Rightarrow> string \<Rightarrow> string" where
  "client_search relPath search =
     ''<li style=\"float:right\"><div id=\"MSearchBox\" class=\"MSearchBoxInactive\"><span class=\"left\"><img id=\"MSearchSelect\" src=\"'' @
     relPath @
     ''search/mag_sel.svg\" onmouseover=\"return searchBox.OnSearchSelectShow()\" onmouseout=\"return searchBox.OnSearchSelectHide()\" alt=\"\"/><input type=\"text\" id=\"MSearchField\" value=\"'' @
     search @
     ''\" accesskey=\"S\" onfocus=\"searchBox.OnSearchFieldFocus(true)\" onblur=\"searchBox.OnSearchFieldFocus(false)\" onkeyup=\"searchBox.OnSearchFieldChange(event)\"/></span><span class=\"right\"><a id=\"MSearchClose\" href=\"javascript:searchBox.CloseResultsWindow()\"><img id=\"MSearchCloseImg\" border=\"0\" src=\"'' @
     relPath @
     ''search/close.svg\" alt=\"\"/></a></span></div></li>''"

text \<open>A root without \<open>children\<close> gives no list; then there is nothing to decorate.\<close>

definition initMenu :: "menu \<Rightarrow> string \<Rightarrow> bool \<Rightarrow> bool \<Rightarrow> string \<Rightarrow> string \<Rightarrow> nav_bar option" where
  "initMenu menudata relPath searchEnabled serverSide searchPage search =
     (case menu_children menudata of
        None \<Rightarrow> None
      | Some cs \<Rightarrow>
          Some \<lparr>nav_items = make_items relPath cs, nav_classes = ''sm sm-dox'', nav_id = ''main-menu'',
                nav_search = (if searchEnabled then
                    (if serverSide then server_search relPath searchPage search else client_search relPath search)
                  else ''''),
                nav_plugin = True\<rparr>)"

section \<open>The menus\<close>

definition async_menu :: menu where
  "async_menu =
  Menu '''' '''' (Some [
    Menu ''Main Page'' ''index.html'' None,
    Menu ''Related Pages'' ''pages.html'' None,
    Menu ''Data Structures'' ''annotated.html'' (Some [
      Menu ''Data Structures'' ''annotated.html'' None,
      Menu ''Data Fields'' ''functions.html'' (Some [
        Menu ''All'' ''functions.html'' (Some [
          Menu ''a'' ''functions.html#index_a'' None,
          Menu ''b'' ''functions.html#index_b'' None,
          Menu ''c'' ''functions.html#index_c'' None,
          Menu ''d'' ''functions.html#index_d'' None,
          Menu ''e'' ''functions.html#index_e'' None,
          Menu ''h'' ''functions.html#index_h'' None,
          Menu ''i'' ''functions.html#index_i'' None,
          Menu ''k'' ''functions.html#index_k'' None,
          Menu ''l'' ''functions.html#index_l'' None,
          Menu ''m'' ''functions.html#index_m'' None,
          Menu ''n'' ''functions.html#index_n'' None,
          Menu ''o'' ''functions.html#index_o'' None,
          Menu ''p'' ''functions.html#index_p'' None,
          Menu ''q'' ''functions.html#index_q'' None,
          Menu ''r'' ''functions.html#index_r'' None,
          Menu ''s'' ''functions.html#index_s'' None,
          Menu ''t'' ''functions.html#index_t'' None,
          Menu ''u'' ''functions.html#index_u'' None,
          Menu ''v'' ''functions.html#index_v'' None,
          Menu ''w'' ''functions.html#index_w'' None]),
        Menu ''Variables'' ''functions_vars.html'' (Some [
          Menu ''a'' ''functions_vars.html#index_a'' None,
          Menu ''b'' ''functions_vars.html#index_b'' None,
          Menu ''c'' ''functions_vars.html#index_c'' None,
          Menu ''d'' ''functions_vars.html#index_d'' None,
          Menu ''e'' ''functions_vars.html#index_e'' None,
          Menu ''h'' ''functions_vars.html#index_h'' None,
          Menu ''i'' ''functions_vars.html#index_i'' None,
          Menu ''k'' ''functions_vars.html#index_k'' None,
          Menu ''l'' ''functions_vars.html#index_l'' None,
          Menu ''m'' ''functions_vars.html#index_m'' None,
          Menu ''n'' ''functions_vars.html#index_n'' None,
          Menu ''o'' ''functions_vars.html#index_o'' None,
          Menu ''p'' ''functions_vars.html#index_p'' None,
          Menu ''q'' ''functions_vars.html#index_q'' None,
          Menu ''r'' ''functions_vars.html#index_r'' None,
          Menu ''s'' ''functions_vars.html#index_s'' None,
          Menu ''t'' ''functions_vars.html#index_t'' None,
          Menu ''u'' ''functions_vars.html#index_u'' None,
          Menu ''v'' ''functions_vars.html#index_v'' None,
          Menu ''w'' ''functions_vars.html#index_w'' None])])]),
    Menu ''Files'' ''files.html'' (Some [
      Menu ''File List'' ''files.html'' None,
      Menu ''Globals'' ''globals.html'' (Some [
        Menu ''All'' ''globals.html'' (Some [
          Menu ''m'' ''globals.html#index_m'' None,
          Menu ''p'' ''globals_p.html#index_p'' None]),
        Menu ''Functions'' ''globals_func.html'' (Some [
          Menu ''m'' ''globals_func.html#index_m'' None]),
        Menu ''Typedefs'' ''globals_type.html'' None,
        Menu ''Enumerations'' ''globals_enum.html'' None,
        Menu ''Enumerator'' ''globals_eval.html'' (Some [
          Menu ''m'' ''globals_eval.html#index_m'' None]),
        Menu ''Macros'' ''globals_defs.html'' (Some [
          Menu ''m'' ''globals_defs.html#index_m'' None])])])])"

definition client_menu :: menu where
  "client_menu =
  Menu '''' '''' (Some [
    Menu ''Main Page'' ''index.html'' None,
    Menu ''Related Pages'' ''pages.html'' None,
    Menu ''Data Structures'' ''annotated.html'' (Some [
      Menu ''Data Structures'' ''annotated.html'' None,
      Menu ''Data Fields'' ''functions.html'' (Some [
        Menu ''All'' ''functions.html'' (Some [
          Menu ''a'' ''functions.html#index_a'' None,
          Menu ''b'' ''functions.html#index_b'' None,
          Menu ''c'' ''functions.html#index_c'' None,
          Menu ''d'' ''functions.html#index_d'' None,
          Menu ''e'' ''functions.html#index_e'' None,
          Menu ''h'' ''functions.html#index_h'' None,
          Menu ''i'' ''functions.html#index_i'' None,
          Menu ''k'' ''functions.html#index_k'' None,
          Menu ''l'' ''functions.html#index_l'' None,
          Menu ''m'' ''functions.html#index_m'' None,
          Menu ''n'' ''functions.html#index_n'' None,
          Menu ''p'' ''functions.html#index_p'' None,
          Menu ''q'' ''functions.html#index_q'' None,
          Menu ''r'' ''functions.html#index_r'' None,
          Menu ''s'' ''functions.html#index_s'' None,
          Menu ''t'' ''functions.html#index_t'' None,
          Menu ''u'' ''functions.html#index_u'' None,
          Menu ''v'' ''functions.html#index_v'' None,
          Menu ''w'' ''functions.html#index_w'' None]),
        Menu ''Variables'' ''functions_vars.html'' (Some [
          Menu ''a'' ''functions_vars.html#index_a'' None,
          Menu ''b'' ''functions_vars.html#index_b'' None,
          Menu ''c'' ''functions_vars.html#index_c'' None,
          Menu ''d'' ''functions_vars.html#index_d'' None,
          Menu ''e'' ''functions_vars.html#index_e'' None,
          Menu ''h'' ''functions_vars.html#index_h'' None,
          Menu ''i'' ''functions_vars.html#index_i'' None,
          Menu ''k'' ''functions_vars.html#index_k'' None,
          Menu ''l'' ''functions_vars.html#index_l'' None,
          Menu ''m'' ''functions_vars.html#index_m'' None,
          Menu ''n'' ''functions_vars.html#index_n'' None,
          Menu ''p'' ''functions_vars.html#index_p'' None,
          Menu ''q'' ''functions_vars.html#index_q'' None,
          Menu ''r'' ''functions_vars.html#index_r'' None,
          Menu ''s'' ''functions_vars.html#index_s'' None,
          Menu ''t'' ''functions_vars.html#index_t'' None,
          Menu ''u'' ''functions_vars.html#index_u'' None,
          Menu ''v'' ''functions_vars.html#index_v'' None,
          Menu ''w'' ''functions_vars.html#index_w'' None])])]),
    Menu ''Files'' ''files.html'' (Some [
      Menu ''File List'' ''files.html'' None,
      Menu ''Globals'' ''globals.html'' (Some [
        Menu ''All'' ''globals.html'' (Some [
          Menu ''m'' ''globals.html#index_m'' None,
          Menu ''p'' ''globals_p.html#index_p'' None]),
        Menu ''Functions'' ''globals_func.html'' (Some [
          Menu ''m'' ''globals_func.html#index_m'' None]),
        Menu ''Typedefs'' ''globals_type.html'' None,
        Menu ''Enumerations'' ''globals_enum.html'' None,
        Menu ''Enumerator'' ''globals_eval.html'' (Some [
          Menu ''m'' ''globals_eval.html#index_m'' None]),
        Menu ''Macros'' ''globals_defs.html'' (Some [
          Menu ''m'' ''globals_defs.html#index_m'' None])])])])"

definition internal_menu :: menu where
  "internal_menu =
  Menu '''' '''' (Some [
    Menu ''Main Page'' ''index.html'' None,
    Menu ''Data Structures'' ''annotated.html'' (Some [
      Menu ''Data Structures'' ''annotated.html'' None,
      Menu ''Data Fields'' ''functions.html'' (Some [
        Menu ''All'' ''functions.html'' (Some [
          Menu ''_'' ''functions.html#index__5F'' None,
          Menu ''a'' ''functions_a.html#index_a'' None,
          Menu ''b'' ''functions_b.html#index_b'' None,
          Menu ''c'' ''functions_c.html#index_c'' None,
          Menu ''d'' ''functions_d.html#index_d'' None,
          Menu ''e'' ''functions_e.html#index_e'' None,
          Menu ''f'' ''functions_f.html#index_f'' None,
          Menu ''g'' ''functions_g.html#index_g'' None,
          Menu ''h'' ''functions_h.html#index_h'' None,
          Menu ''i'' ''functions_i.html#index_i'' None,
          Menu ''k'' ''functions_k.html#index_k'' None,
          Menu ''l'' ''functions_l.html#index_l'' None,
          Menu ''m'' ''functions_m.html#index_m'' None,
          Menu ''n'' ''functions_n.html#index_n'' None,
          Menu ''o'' ''functions_o.html#index_o'' None,
          Menu ''p'' ''functions_p.html#index_p'' None,
          Menu ''q'' ''functions_q.html#index_q'' None,
          Menu ''r'' ''functions_r.html#index_r'' None,
          Menu ''s'' ''functions_s.html#index_s'' None,
          Menu ''t'' ''functions_t.html#index_t'' None,
          Menu ''u'' ''functions_u.html#index_u'' None,
          Menu ''v'' ''functions_v.html#index_v'' None,
          Menu ''w'' ''functions_w.html#index_w'' None]),
        Menu ''Variables'' ''functions_vars.html'' (Some [
          Menu ''_'' ''functions_vars.html#index__5F'' None,
          Menu ''a'' ''functions_vars_a.html#index_a'' None,
          Menu ''b'' ''functions_vars_b.html#index_b'' None,
          Menu ''c'' ''functions_vars_c.html#index_c'' None,
          Menu ''d'' ''functions_vars_d.html#index_d'' None,
          Menu ''e'' ''functions_vars_e.html#index_e'' None,
          Menu ''f'' ''functions_vars_f.html#index_f'' None,
          Menu ''g'' ''functions_vars_g.html#index_g'' None,
          Menu ''h'' ''functions_vars_h.html#index_h'' None,
          Menu ''i'' ''functions_vars_i.html#index_i'' None,
          Menu ''k'' ''functions_vars_k.html#index_k'' None,
          Menu ''l'' ''functions_vars_l.html#index_l'' None,
          Menu ''m'' ''functions_vars_m.html#index_m'' None,
          Menu ''n'' ''functions_vars_n.html#index_n'' None,
          Menu ''o'' ''functions_vars_o.html#index_o'' None,
          Menu ''p'' ''functions_vars_p.html#index_p'' None,
          Menu ''q'' ''functions_vars_q.html#index_q'' None,
          Menu ''r'' ''functions_vars_r.html#index_r'' None,
          Menu ''s'' ''functions_vars_s.html#index_s'' None,
          Menu ''t'' ''functions_vars_t.html#index_t'' None,
          Menu ''u'' ''functions_vars_u.html#index_u'' None,
          Menu ''v'' ''functions_vars_v.html#index_v'' None,
          Menu ''w'' ''functions_vars_w.html#index_w'' None])])]),
    Menu ''Files'' ''files.html'' (Some [
      Menu ''File List'' ''files.html'' None,
      Menu ''Globals'' ''globals.html'' (Some [
        Menu ''All'' ''globals.html'' (Some [
          Menu ''_'' ''globals.html#index__5F'' None,
          Menu ''a'' ''globals_a.html#index_a'' None,
          Menu ''b'' ''globals_b.html#index_b'' None,
          Menu ''c'' ''globals_c.html#index_c'' None,
          Menu ''d'' ''globals_d.html#index_d'' None,
          Menu ''f'' ''globals_f.html#index_f'' None,
          Menu ''h'' ''globals_h.html#index_h'' None,
          Menu ''i'' ''globals_i.html#index_i'' None,
          Menu ''l'' ''globals_l.html#index_l'' None,
          Menu ''m'' ''globals_m.html#index_m'' None,
          Menu ''n'' ''globals_n.html#index_n'' None,
          Menu ''p'' ''globals_p.html#index_p'' None,
          Menu ''q'' ''globals_q.html#index_q'' None,
          Menu ''r'' ''globals_r.html#index_r'' None,
          Menu ''s'' ''globals_s.html#index_s'' None,
          Menu ''t'' ''globals_t.html#index_t'' None,
          Menu ''u'' ''globals_u.html#index_u'' None,
          Menu ''v'' ''globals_v.html#index_v'' None,
          Menu ''w'' ''globals_w.html#index_w'' None]),
        Menu ''Functions'' ''globals_func.html'' (Some [
          Menu ''c'' ''globals_func.html#index_c'' None,
          Menu ''f'' ''globals_func_f.html#index_f'' None,
          Menu ''h'' ''globals_func_h.html#index_h'' None,
          Menu ''i'' ''globals_func_i.html#index_i'' None,
          Menu ''l'' ''globals_func_l.html#index_l'' None,
          Menu ''m'' ''globals_func_m.html#index_m'' None,
          Menu ''p'' ''globals_func_p.html#index_p'' None,
          Menu ''r'' ''globals_func_r.html#index_r'' None,
          Menu ''s'' ''globals_func_s.html#index_s'' None,
          Menu ''t'' ''globals_func_t.html#index_t'' None,
          Menu ''u'' ''globals_func_u.html#index_u'' None,
          Menu ''w'' ''globals_func_w.html#index_w'' None]),
        Menu ''Variables'' ''globals_vars.html'' None,
        Menu ''Typedefs'' ''globals_type.html'' None,
        Menu ''Macros'' ''globals_defs.html'' None])])])"

section \<open>Reading a menu text\<close>

text \<open>Every link of the text with its depth, address and label.\<close>

function read_menu :: "nat \<Rightarrow> string \<Rightarrow> (nat \<times> string \<times> string) list" where
  "read_menu d s =
     (if s = [] then []
      else if starts_with s ''<ul>'' then read_menu (d + 1) (drop 4 s)
      else if starts_with s ''</ul>'' then read_menu (d - 1) (drop 5 s)
      else if starts_with s ''<a href=\"'' then
        (let r = drop 9 s; u = takeWhile (\<lambda>c. c \<noteq> CHR ''\"'') r;
             r = drop (length u + 2) r; t = takeWhile (\<lambda>c. c \<noteq> CHR ''<'') r
         in (d, u, t) # read_menu d (drop (length t) r))
      else read_menu d (tl s))"
  by pat_completeness auto
termination
  by (relation "measure (\<lambda>(_, s). length s)") (auto simp: length_greater_0_conv [symmetric] simp del: length_greater_0_conv)

declare read_menu.simps [simp del]

text \<open>The outline of a tree: its entries in order with their depth.\<close>

fun outline :: "string \<Rightarrow> nat \<Rightarrow> menu \<Rightarrow> (nat \<times> string \<times> string) list"
  and outlines :: "string \<Rightarrow> nat \<Rightarrow> menu list \<Rightarrow> (nat \<times> string \<times> string) list" where
  "outline rel d (Menu t u None) = []"
| "outline rel d (Menu t u (Some cs)) = outlines rel (d + 1) cs"
| "outlines rel d [] = []"
| "outlines rel d (c # cs) = (d, rel @ menu_url c, menu_text c) # outline rel d c @ outlines rel d cs"

text \<open>Texts that need no escaping: no quotation mark in an address, no \<open><\<close> in a label.\<close>

fun plain_menu :: "menu \<Rightarrow> bool" and plain_menus :: "menu list \<Rightarrow> bool" where
  "plain_menu (Menu t u None) = (CHR ''\"'' \<notin> set u \<and> CHR ''<'' \<notin> set t)"
| "plain_menu (Menu t u (Some cs)) = (CHR ''\"'' \<notin> set u \<and> CHR ''<'' \<notin> set t \<and> plain_menus cs)"
| "plain_menus [] = True"
| "plain_menus (c # cs) = (plain_menu c \<and> plain_menus cs)"

lemma read_tags:
  "read_menu d [] = []"
  "read_menu d (''<ul>'' @ s) = read_menu (d + 1) s"
  "read_menu d (''</ul>'' @ s) = read_menu (d - 1) s"
  "read_menu d (''<li>'' @ s) = read_menu d s"
  "read_menu d (''</li>'' @ s) = read_menu d s"
  "read_menu d (''</a>'' @ s) = read_menu d s"
proof -
  have skip: "read_menu d (c # r) = read_menu d r" if "\<not> starts_with (c # r) ''<ul>''" "\<not> starts_with (c # r) ''</ul>''"
    "\<not> starts_with (c # r) ''<a href=\"''" for d c r
    using that by (subst read_menu.simps) (simp only: list.sel list.distinct if_False)
  show "read_menu d [] = []" "read_menu d (''<ul>'' @ s) = read_menu (d + 1) s"
    "read_menu d (''</ul>'' @ s) = read_menu (d - 1) s"
    by (subst read_menu.simps; simp)+
  show "read_menu d (''<li>'' @ s) = read_menu d s" "read_menu d (''</li>'' @ s) = read_menu d s"
    "read_menu d (''</a>'' @ s) = read_menu d s"
    by (simp_all add: skip)
qed

lemma read_link:
  assumes "CHR ''\"'' \<notin> set u" "CHR ''<'' \<notin> set t"
  shows "read_menu d (''<a href=\"'' @ u @ ''\">'' @ t @ ''</a>'' @ s) = (d, u, t) # read_menu d s"
proof -
  have "takeWhile (\<lambda>c. c \<noteq> CHR ''\"'') (u @ CHR ''\"'' # r) = u" for r using assms(1) by (subst takeWhile_append2) auto
  moreover have "takeWhile (\<lambda>c. c \<noteq> CHR ''<'') (t @ CHR ''<'' # r) = t" for r using assms(2) by (subst takeWhile_append2) auto
  ultimately have "read_menu d (''<a href=\"'' @ u @ ''\">'' @ t @ ''</a>'' @ s) = (d, u, t) # read_menu d (''</a>'' @ s)"
    by (subst read_menu.simps) simp
  then show ?thesis by (simp only: read_tags)
qed

lemma plain_menu_text: "plain_menu c \<Longrightarrow> CHR ''\"'' \<notin> set (menu_url c) \<and> CHR ''<'' \<notin> set (menu_text c)"
  by (cases c rule: plain_menu.cases) auto

lemma read_makeTree:
  "CHR ''\"'' \<notin> set rel \<Longrightarrow> plain_menu m \<Longrightarrow>
     read_menu d (makeTree rel m @ s) = outline rel d m @ read_menu d s"
  "CHR ''\"'' \<notin> set rel \<Longrightarrow> plain_menus ms \<Longrightarrow>
     read_menu d (make_items rel ms @ s) = outlines rel d ms @ read_menu d s"
proof (induction rel m and rel ms arbitrary: d s and d s rule: makeTree_make_items.induct)
  case (2 rel t u cs)
  then have "read_menu d (makeTree rel (Menu t u (Some cs)) @ s) = read_menu (d + 1) (make_items rel cs @ ''</ul>'' @ s)"
    by (simp only: makeTree.simps append_assoc read_tags)
  also have "\<dots> = outlines rel (d + 1) cs @ read_menu (d + 1) (''</ul>'' @ s)"
    using 2 by (intro 2(1)) simp_all
  finally show ?case by (simp only: outline.simps read_tags add_diff_cancel_right')
next
  case (4 rel c cs)
  have plain: "CHR ''\"'' \<notin> set (rel @ menu_url c)" "CHR ''<'' \<notin> set (menu_text c)"
    using 4(3,4) plain_menu_text [of c] by auto
  have "read_menu d (make_items rel (c # cs) @ s) =
      read_menu d (''<a href=\"'' @ (rel @ menu_url c) @ ''\">'' @ menu_text c @ ''</a>'' @
        makeTree rel c @ ''</li>'' @ make_items rel cs @ s)"
    by (simp only: make_items.simps append_assoc) (simp only: read_tags(4) [of d "''<a href=\"'' @ _", simplified] append_assoc append.simps)
  also have "\<dots> = (d, rel @ menu_url c, menu_text c) # read_menu d (makeTree rel c @ ''</li>'' @ make_items rel cs @ s)"
    by (rule read_link [OF plain])
  also have "\<dots> = (d, rel @ menu_url c, menu_text c) # outline rel d c @ outlines rel d cs @ read_menu d s"
    using 4 by (simp add: read_tags(5) [simplified])
  finally show ?case by simp
qed simp_all

text \<open>The three menus are plain.\<close>


lemma menus_plain: "plain_menu async_menu" "plain_menu client_menu" "plain_menu internal_menu"
  by (simp_all add: async_menu_def client_menu_def internal_menu_def)

text \<open>
  C37. The text \<open>initMenu\<close> puts into the menu bar reads back as the menu tree: the same entries in
  the same order at the same depth, each linking to its address behind the relative path, for every
  menu whose addresses contain no quotation mark and whose labels contain no tag.
\<close>

theorem menu_reads_back:
  assumes "CHR ''\"'' \<notin> set relPath" "plain_menu menudata" "initMenu menudata relPath en sv pg lb = Some bar"
  shows "read_menu 1 (nav_items bar) = outline relPath 0 menudata"
proof -
  obtain t u cs where m: "menudata = Menu t u (Some cs)"
    using assms(3) by (cases menudata rule: plain_menu.cases) (auto simp: initMenu_def)
  have "read_menu 1 (make_items relPath cs @ []) = outlines relPath 1 cs @ read_menu 1 []"
    using assms(1,2) m by (intro read_makeTree(2)) simp_all
  then show ?thesis using assms(3) m by (auto simp: initMenu_def read_tags)
qed

theorem menu_reads_back_witness:
  "\<exists>bar :: nav_bar. initMenu async_menu '''' True False ''search.php'' ''Search'' = Some bar \<and>
     read_menu 1 (nav_items bar) = outline '''' 0 async_menu \<and> length (outline '''' 0 async_menu) = 61"
proof -
  obtain bar where bar: "initMenu async_menu '''' True False ''search.php'' ''Search'' = Some bar"
    by (simp add: initMenu_def async_menu_def)
  have "length (outline '''' 0 async_menu) = 61" by (simp add: async_menu_def)
  with bar menu_reads_back [OF _ menus_plain(1) bar] show ?thesis by auto
qed

end
