(* ===== verification/DynSections.thy ===== *)
theory DynSections
  imports Prelude
begin

text \<open>
  The collapsible parts of the reference pages, \<^verbatim>\<open>dynsections.js\<close>: a section with its
  trigger image, the rows of the directory table with their folder icons, and inherited members. What
  jQuery does with the selected elements is written out: \<open>addClass\<close>, \<open>removeClass\<close>,
  \<open>html\<close>, \<open>show\<close>, \<open>hide\<close>, \<open>attr\<close>; an element is \<open>:visible\<close> when it is not hidden itself,
  since the table around it always shows.
\<close>

section \<open>Sections\<close>

text \<open>The link, its \<open>-summary\<close> and \<open>-content\<close> elements and the \<open>-trigger\<close> image (\<open>None\<close>: no image).\<close>

record dyn_section =
  link_classes :: "string list"
  summary_shown :: bool
  content_shown :: bool
  trigger_src :: "string option"

definition addClass :: "string \<Rightarrow> string list \<Rightarrow> string list" where
  "addClass c cs = (if c \<in> set cs then cs else cs @ [c])"

definition removeClass :: "string \<Rightarrow> string list \<Rightarrow> string list" where
  "removeClass c cs = filter (\<lambda>x. x \<noteq> c) cs"

text \<open>\<open>src.substring(0, src.length - k) + t\<close>; \<open>src\<close> is undefined without an image.\<close>

definition swap_end :: "nat \<Rightarrow> string \<Rightarrow> string \<Rightarrow> string" where
  "swap_end k t src = take (length src - k) src @ t"

definition toggleVisibility :: "dyn_section \<Rightarrow> js_error option \<times> dyn_section" where
  "toggleVisibility s =
     (if content_shown s then
        (let s = s\<lparr>content_shown := False, summary_shown := True,
                   link_classes := removeClass ''opened'' (addClass ''closed'' (link_classes s))\<rparr>
         in case trigger_src s of
              None \<Rightarrow> (Some TypeError, s)
            | Some src \<Rightarrow> (None, s\<lparr>trigger_src := Some (swap_end 8 ''closed.png'' src)\<rparr>))
      else
        (let s = s\<lparr>content_shown := True, summary_shown := False,
                   link_classes := addClass ''opened'' (removeClass ''closed'' (link_classes s))\<rparr>
         in case trigger_src s of
              None \<Rightarrow> (Some TypeError, s)
            | Some src \<Rightarrow> (None, s\<lparr>trigger_src := Some (swap_end 10 ''open.png'' src)\<rparr>)))"

section \<open>The directory table\<close>

record icon =
  icon_id :: string
  icon_classes :: "string list"
  icon_html :: string

record dir_row =
  row_id :: string
  row_classes :: "string list"
  row_shown :: bool
  row_spans :: "icon list"

fun stripe_rows :: "bool \<Rightarrow> dir_row list \<Rightarrow> dir_row list" where
  "stripe_rows stripe [] = []"
| "stripe_rows stripe (r # rs) =
     (let r = r\<lparr>row_classes := removeClass ''even'' (row_classes r)\<rparr> in
      if row_shown r
      then (if stripe then r\<lparr>row_classes := addClass ''even'' (row_classes r)\<rparr> else r) # stripe_rows (\<not> stripe) rs
      else r # stripe_rows stripe rs)"

text \<open>\<open>removeClass('even').filter(':visible:even').addClass('even')\<close>, counting the visible rows from 0.\<close>

definition updateStripes :: "dir_row list \<Rightarrow> dir_row list" where
  "updateStripes rows = stripe_rows True rows"

text \<open>\<open>$('#' + i)\<close> among the spans of the table: the first one with that id.\<close>

fun on_span :: "string \<Rightarrow> (icon \<Rightarrow> icon) \<Rightarrow> icon list \<Rightarrow> icon list option" where
  "on_span i f [] = None"
| "on_span i f (s # ss) = (if icon_id s = i then Some (f s # ss) else map_option ((#) s) (on_span i f ss))"

fun on_icon :: "string \<Rightarrow> (icon \<Rightarrow> icon) \<Rightarrow> dir_row list \<Rightarrow> dir_row list" where
  "on_icon i f [] = []"
| "on_icon i f (r # rs) =
     (case on_span i f (row_spans r) of
        Some ss \<Rightarrow> r\<lparr>row_spans := ss\<rparr> # rs
      | None \<Rightarrow> r # on_icon i f rs)"

definition set_icon :: "string \<Rightarrow> icon \<Rightarrow> icon" where
  "set_icon c s = s\<lparr>icon_classes := addClass c (removeClass ''iconfopen'' (removeClass ''iconfclosed'' (icon_classes s)))\<rparr>"

definition set_arrow :: "string \<Rightarrow> icon \<Rightarrow> icon" where
  "set_arrow h s = s\<lparr>icon_html := h\<rparr>"

text \<open>\<open>this.id.split('_').length - 1\<close>.\<close>

definition row_level :: "dir_row \<Rightarrow> nat" where
  "row_level r = length (filter (\<lambda>c. c = CHR ''_'') (row_id r))"

text \<open>One round of the loop of \<open>toggleLevel\<close>, for the row number \<open>k\<close>.\<close>

definition level_row :: "nat \<Rightarrow> dir_row list \<Rightarrow> nat \<Rightarrow> dir_row list" where
  "level_row level rows k =
     (let r = rows ! k; l = row_level r; sfx = drop 3 (row_id r) in
      if l < level + 1 then
        (let rows = on_icon (''img'' @ sfx) (set_icon ''iconfopen'') rows;
             rows = on_icon (''arr'' @ sfx) (set_arrow ''&#9660;'') rows
         in rows[k := (rows ! k)\<lparr>row_shown := True\<rparr>])
      else if l = level + 1 then
        (let rows = on_icon (''img'' @ sfx) (set_icon ''iconfclosed'') rows;
             rows = on_icon (''arr'' @ sfx) (set_arrow ''&#9658;'') rows
         in rows[k := (rows ! k)\<lparr>row_shown := True\<rparr>])
      else rows[k := r\<lparr>row_shown := False\<rparr>])"

definition toggleLevel :: "nat \<Rightarrow> dir_row list \<Rightarrow> dir_row list" where
  "toggleLevel level rows = updateStripes (foldl (level_row level) rows [0..<length rows])"

text \<open>The regular expression \<open>^row_<id>\d+_$\<close> with flag \<open>i\<close>, for an id of digits and underscores.\<close>

definition child_row :: "string \<Rightarrow> dir_row \<Rightarrow> bool" where
  "child_row i r \<longleftrightarrow>
     (let p = ''row_'' @ i; s = row_id r; rest = drop (length p) s in
      toLowerCase (take (length p) s) = toLowerCase p \<and>
      takeWhile is_digit rest \<noteq> [] \<and> dropWhile is_digit rest = ''_'')"

definition swap_class :: "string \<Rightarrow> string \<Rightarrow> icon \<Rightarrow> icon" where
  "swap_class c d s =
     (if c \<in> set (icon_classes s) then s\<lparr>icon_classes := addClass d (removeClass c (icon_classes s))\<rparr> else s)"

definition arrow_html :: "string \<Rightarrow> icon \<Rightarrow> icon" where
  "arrow_html h s = (if ''arrow'' \<in> set (icon_classes s) then s\<lparr>icon_html := h\<rparr> else s)"

definition fold_icons :: "dir_row \<Rightarrow> dir_row" where
  "fold_icons r = r\<lparr>row_spans := map (arrow_html ''&#9658;'') (map (swap_class ''iconfopen'' ''iconfclosed'') (row_spans r))\<rparr>"

definition unfold_icons :: "dir_row \<Rightarrow> dir_row" where
  "unfold_icons r = r\<lparr>row_spans := map (arrow_html ''&#9660;'') (map (swap_class ''iconfclosed'' ''iconfopen'') (row_spans r))\<rparr>"

text \<open>
  \<open>toggleFolder(id)\<close>: the first row with the id, and the rows after it. Without such a row nothing is
  selected and only the stripes are renewed.
\<close>

definition toggle_rows :: "string \<Rightarrow> dir_row \<Rightarrow> dir_row list \<Rightarrow> dir_row list" where
  "toggle_rows i currentRow rows =
     (case filter (child_row i) rows of
        c # _ \<Rightarrow>
          (if row_shown c then
             fold_icons currentRow # map (\<lambda>r. if starts_with (row_id r) (''row_'' @ i) then r\<lparr>row_shown := False\<rparr> else r) rows
           else
             unfold_icons currentRow # map (\<lambda>r. if child_row i r then (fold_icons r)\<lparr>row_shown := True\<rparr> else r) rows)
      | [] \<Rightarrow> unfold_icons currentRow # rows)"

definition toggleFolder :: "string \<Rightarrow> dir_row list \<Rightarrow> dir_row list" where
  "toggleFolder i rows =
     (let before = takeWhile (\<lambda>r. row_id r \<noteq> ''row_'' @ i) rows;
          rest = dropWhile (\<lambda>r. row_id r \<noteq> ''row_'' @ i) rows
      in updateStripes (case rest of [] \<Rightarrow> rows | r # rs \<Rightarrow> before @ toggle_rows i r rs))"

section \<open>Inherited members\<close>

text \<open>The rows of class \<open>inherit\<close> with the id as class, and the image of their header.\<close>

record inherit_block =
  inherit_shown :: "bool list"
  inherit_src :: "string option"

definition toggleInherit :: "inherit_block \<Rightarrow> js_error option \<times> inherit_block" where
  "toggleInherit b =
     (let open = (case inherit_shown b of [] \<Rightarrow> False | v # _ \<Rightarrow> v);
          b = b\<lparr>inherit_shown := map (\<lambda>_. \<not> open) (inherit_shown b)\<rparr>
      in case inherit_src b of
           None \<Rightarrow> (Some TypeError, b)
         | Some src \<Rightarrow>
             (None, b\<lparr>inherit_src := Some (if open then swap_end 8 ''closed.png'' src else swap_end 10 ''open.png'' src)\<rparr>))"

section \<open>Sections fold and unfold\<close>

lemma set_removeClass [simp]: "set (removeClass c cs) = set cs - {c}"
  by (auto simp: removeClass_def)

lemma set_addClass [simp]: "set (addClass c cs) = insert c (set cs)"
  by (auto simp: addClass_def)

text \<open>A consistent section: one of summary and content shows, and link and image say which.\<close>

definition section_ok :: "string \<Rightarrow> dyn_section \<Rightarrow> bool" where
  "section_ok base s \<longleftrightarrow>
     summary_shown s = (\<not> content_shown s) \<and>
     (''opened'' \<in> set (link_classes s)) = content_shown s \<and> (''closed'' \<in> set (link_classes s)) = (\<not> content_shown s) \<and>
     trigger_src s = Some (base @ (if content_shown s then ''open.png'' else ''closed.png''))"

lemma toggleVisibility_ok:
  assumes "section_ok base s"
  shows "\<exists>t. toggleVisibility s = (None, t) \<and> section_ok base t \<and> content_shown t = (\<not> content_shown s)"
  using assms by (auto simp: toggleVisibility_def section_ok_def swap_end_def addClass_def removeClass_def Let_def)

section \<open>Folders fold and unfold\<close>

text \<open>The row of a direct child: the id of the folder, a number and an underscore.\<close>

definition child_of :: "string \<Rightarrow> string \<Rightarrow> bool" where
  "child_of p c \<longleftrightarrow> (\<exists>ds. ds \<noteq> [] \<and> list_all is_digit ds \<and> c = p @ ds @ ''_'')"

definition has_icon :: "string \<Rightarrow> dir_row \<Rightarrow> bool" where
  "has_icon c r \<longleftrightarrow> (\<exists>s \<in> set (row_spans r). c \<in> set (icon_classes s))"

text \<open>
  A table as the pages have it: ids are different, in lower case and end in an underscore, and what
  lies in a folder comes after the folder.
\<close>

definition dir_wf :: "dir_row list \<Rightarrow> bool" where
  "dir_wf rows \<longleftrightarrow>
     distinct (map row_id rows) \<and>
     (\<forall>r \<in> set rows. toLowerCase (row_id r) = row_id r \<and> (\<exists>i. row_id r = ''row_'' @ i @ ''_'')) \<and>
     (\<forall>j < length rows. \<forall>k < length rows. starts_with (row_id (rows ! j)) (row_id (rows ! k)) \<longrightarrow> k \<le> j)"

text \<open>
  A consistent table: what is inside a hidden folder is hidden, and the children of a visible folder
  are visible exactly when its icon is the open one. Folders have an icon.
\<close>

definition dir_ok :: "dir_row list \<Rightarrow> bool" where
  "dir_ok rows \<longleftrightarrow>
     (\<forall>p \<in> set rows. \<forall>c \<in> set rows. child_of (row_id p) (row_id c) \<longrightarrow>
        (row_shown c \<longrightarrow> row_shown p) \<and> (row_shown p \<longrightarrow> row_shown c = has_icon ''iconfopen'' p) \<and>
        (has_icon ''iconfopen'' p \<or> has_icon ''iconfclosed'' p))"

lemma starts_with_append [simp]: "starts_with (p @ s) p"
  by (simp add: starts_with_iff)

lemma child_of_unique:
  assumes "child_of (p @ ''_'') c" "child_of (q @ ''_'') c" shows "p = q"
proof -
  from assms obtain ds es where "list_all is_digit ds" "list_all is_digit es" "(p @ ''_'') @ ds = (q @ ''_'') @ es"
    by (auto simp: child_of_def)
  moreover from this(3) have "rev ds @ CHR ''_'' # rev p = rev es @ CHR ''_'' # rev q"
    by (metis append.assoc append_Cons append_Nil rev.simps(2) rev_append rev_rev_ident)
  moreover have "takeWhile is_digit (rev ds @ CHR ''_'' # r) = rev ds" if "list_all is_digit ds" for ds r
    using that not_digit_underscore by (subst takeWhile_append2) (auto simp: list_all_iff)
  ultimately have "rev ds = rev es" by metis
  with \<open>(p @ ''_'') @ ds = (q @ ''_'') @ es\<close> show ?thesis by simp
qed

text \<open>A text ending in an underscore between a folder's id and a child's is one of the two.\<close>

lemma child_of_between:
  assumes "child_of p c" "starts_with c (x @ ''_'')" "\<not> starts_with p (x @ ''_'')"
  shows "c = x @ ''_''"
proof -
  obtain ds where ds: "list_all is_digit ds" "c = p @ ds @ ''_''" using assms(1) by (auto simp: child_of_def)
  obtain r where r: "p @ ds @ ''_'' = x @ ''_'' @ r" using assms(2) ds(2) by (auto simp: starts_with_iff)
  consider us where "p = x @ ''_'' @ us" | us where "us \<noteq> []" "x @ ''_'' = p @ us" "ds @ ''_'' = us @ r"
  proof -
    have "p @ (ds @ ''_'') = (x @ ''_'') @ r" using r by simp
    then obtain us where "p = (x @ ''_'') @ us \<or> p @ us = x @ ''_'' \<and> ds @ ''_'' = us @ r"
      by (auto simp only: append_eq_append_conv2)
    with that show thesis by (cases "us = []") fastforce+
  qed
  then show ?thesis
  proof cases
    case 1
    then show ?thesis using assms(3) by (auto simp: starts_with_iff)
  next
    case 2
    then have "last us = CHR ''_''" by (metis last_appendR last_snoc append_Cons append_Nil)
    show ?thesis
    proof (cases r rule: rev_cases)
      case Nil
      then show ?thesis using ds(2) r by simp
    next
      case (snoc r' z)
      then have "ds = us @ r'" using 2(3) by (metis append_assoc butlast_snoc)
      then have "CHR ''_'' \<in> set ds" using 2(1) \<open>last us = CHR ''_''\<close> last_in_set [of us] by auto
      then show ?thesis using ds(1) not_digit_underscore by (auto simp: list_all_iff)
    qed
  qed
qed

text \<open>What \<open>toggleFolder\<close> does to one row, below the folder \<open>x\<close>.\<close>

definition hide_effect :: "string \<Rightarrow> dir_row \<Rightarrow> dir_row" where
  "hide_effect x r =
     (if row_id r = x then fold_icons r
      else if starts_with (row_id r) x then r\<lparr>row_shown := False\<rparr> else r)"

definition show_effect :: "string \<Rightarrow> dir_row \<Rightarrow> dir_row" where
  "show_effect x r =
     (if row_id r = x then unfold_icons r
      else if child_of x (row_id r) then (fold_icons r)\<lparr>row_shown := True\<rparr> else r)"

lemma icons_frame [simp]:
  "row_id (fold_icons r) = row_id r" "row_shown (fold_icons r) = row_shown r"
  "row_id (unfold_icons r) = row_id r" "row_shown (unfold_icons r) = row_shown r"
  by (simp_all add: fold_icons_def unfold_icons_def)

lemma has_icon_shown [simp]: "has_icon c (r\<lparr>row_shown := b\<rparr>) = has_icon c r"
  by (simp add: has_icon_def)

lemma icon_classes_arrow [simp]: "icon_classes (arrow_html h s) = icon_classes s"
  by (simp add: arrow_html_def)

lemma icon_classes_swap [simp]:
  "e \<in> set (icon_classes (swap_class c d s)) \<longleftrightarrow>
     (if c \<in> set (icon_classes s) then e = d \<or> (e \<in> set (icon_classes s) \<and> e \<noteq> c) else e \<in> set (icon_classes s))"
  by (auto simp: swap_class_def)

lemma has_icon_fold [simp]:
  "has_icon ''iconfopen'' (fold_icons r) = False"
  "has_icon ''iconfclosed'' (fold_icons r) = (has_icon ''iconfopen'' r \<or> has_icon ''iconfclosed'' r)"
  "has_icon ''iconfopen'' (unfold_icons r) = (has_icon ''iconfopen'' r \<or> has_icon ''iconfclosed'' r)"
  by (auto simp: has_icon_def fold_icons_def unfold_icons_def)

lemma effect_id [simp]: "row_id (hide_effect x r) = row_id r" "row_id (show_effect x r) = row_id r"
  by (simp_all add: hide_effect_def show_effect_def)

lemma child_of_longer: "child_of p c \<Longrightarrow> starts_with c p \<and> c \<noteq> p"
  by (auto simp: child_of_def)

lemma child_of_trans_starts: "child_of p c \<Longrightarrow> starts_with p x \<Longrightarrow> starts_with c x"
  by (auto simp: child_of_def starts_with_iff)

lemma dir_ok_hide:
  assumes "dir_ok rows" "x = y @ ''_''"
  shows "dir_ok (map (hide_effect x) rows)"
  unfolding dir_ok_def
proof (intro ballI impI)
  fix p' c' assume "p' \<in> set (map (hide_effect x) rows)" "c' \<in> set (map (hide_effect x) rows)"
    and "child_of (row_id p') (row_id c')"
  then obtain p c where p: "p \<in> set rows" "p' = hide_effect x p" and c: "c \<in> set rows" "c' = hide_effect x c"
    and pc: "child_of (row_id p) (row_id c)" by auto
  note old = assms(1) [unfolded dir_ok_def, rule_format, OF p(1) c(1) pc]
  consider "starts_with (row_id p) x" | "\<not> starts_with (row_id p) x" "row_id c = x"
    | "\<not> starts_with (row_id p) x" "\<not> starts_with (row_id c) x"
    using child_of_between [OF pc, of y] assms(2) by auto
  then show "(row_shown c' \<longrightarrow> row_shown p') \<and> (row_shown p' \<longrightarrow> row_shown c' = has_icon ''iconfopen'' p') \<and>
      (has_icon ''iconfopen'' p' \<or> has_icon ''iconfclosed'' p')"
  proof cases
    case 1
    have "row_id c \<noteq> x" using 1 child_of_longer [OF pc] by (auto simp: starts_with_iff child_of_def)
    moreover have "starts_with (row_id c) x" using child_of_trans_starts [OF pc 1] .
    ultimately show ?thesis using old 1 p c by (auto simp: hide_effect_def)
  next
    case 2
    then have "row_id p \<noteq> x" using child_of_longer [OF pc] by auto
    then show ?thesis using old 2 p c by (auto simp: hide_effect_def)
  next
    case 3
    then have "row_id p \<noteq> x" "row_id c \<noteq> x" by (auto simp: starts_with_iff)
    then show ?thesis using old 3 p c by (auto simp: hide_effect_def)
  qed
qed

lemma dir_ok_show:
  assumes "dir_ok rows" "\<forall>r \<in> set rows. \<exists>i. row_id r = i @ ''_''" "x = y @ ''_''"
    and "\<And>r. r \<in> set rows \<Longrightarrow> row_id r = x \<Longrightarrow> row_shown r"
    and "\<And>r. r \<in> set rows \<Longrightarrow> child_of x (row_id r) \<Longrightarrow> \<not> row_shown r"
  shows "dir_ok (map (show_effect x) rows)"
  unfolding dir_ok_def
proof (intro ballI impI)
  fix p' c' assume "p' \<in> set (map (show_effect x) rows)" "c' \<in> set (map (show_effect x) rows)"
    and "child_of (row_id p') (row_id c')"
  then obtain p c where p: "p \<in> set rows" "p' = show_effect x p" and c: "c \<in> set rows" "c' = show_effect x c"
    and pc: "child_of (row_id p) (row_id c)" by auto
  note old = assms(1) [unfolded dir_ok_def, rule_format, OF p(1) c(1) pc]
  obtain i where i: "row_id p = i @ ''_''" using assms(2) p(1) by auto
  have cx: "child_of x (row_id c) \<longleftrightarrow> row_id p = x"
    using child_of_unique [of y "row_id c" i] pc i assms(3) by auto
  consider "row_id p = x" | "row_id p \<noteq> x" "child_of x (row_id p)" | "row_id p \<noteq> x" "\<not> child_of x (row_id p)" by blast
  then show "(row_shown c' \<longrightarrow> row_shown p') \<and> (row_shown p' \<longrightarrow> row_shown c' = has_icon ''iconfopen'' p') \<and>
      (has_icon ''iconfopen'' p' \<or> has_icon ''iconfclosed'' p')"
  proof cases
    case 1
    then have "row_id c \<noteq> x" using child_of_longer [OF pc] by auto
    then show ?thesis using 1 old p c cx assms(4) [OF p(1)] by (auto simp: show_effect_def)
  next
    case 2
    then have "row_id c \<noteq> x" using child_of_longer [OF pc] child_of_longer [of x "row_id p"]
      by (metis starts_with_iff append_assoc append_self_conv append_is_Nil_conv)
    then show ?thesis using 2 old p c cx assms(5) [OF p(1)] by (auto simp: show_effect_def)
  next
    case 3
    then show ?thesis using old p c cx by (auto simp: show_effect_def)
  qed
qed

subsection \<open>The rows selected\<close>

lemma lower_map: "toLowerCase s = map lower_char s"
  by (simp add: toLowerCase_def)

lemma child_row_iff:
  assumes "toLowerCase (row_id r) = row_id r" "toLowerCase (''row_'' @ i) = ''row_'' @ i"
  shows "child_row i r \<longleftrightarrow> child_of (''row_'' @ i) (row_id r)"
proof -
  define p s where "p = ''row_'' @ i" and "s = row_id r"
  have low: "toLowerCase (take n s) = take n s" for n
    using assms(1) by (simp add: lower_map s_def flip: take_map)
  have "child_row i r \<longleftrightarrow> take (length p) s = p \<and> takeWhile is_digit (drop (length p) s) \<noteq> [] \<and>
      dropWhile is_digit (drop (length p) s) = ''_''"
    using assms(2) low by (simp add: child_row_def Let_def p_def s_def)
  also have "\<dots> \<longleftrightarrow> child_of p s"
  proof
    assume h: "take (length p) s = p \<and> takeWhile is_digit (drop (length p) s) \<noteq> [] \<and> dropWhile is_digit (drop (length p) s) = ''_''"
    then have "s = p @ takeWhile is_digit (drop (length p) s) @ ''_''"
      by (metis append_take_drop_id takeWhile_dropWhile_id)
    moreover have "list_all is_digit (takeWhile is_digit (drop (length p) s))"
      by (auto simp: list_all_iff dest: set_takeWhileD)
    ultimately show "child_of p s" using h unfolding child_of_def by blast
  next
    assume "child_of p s"
    then obtain ds where "ds \<noteq> []" "list_all is_digit ds" "s = p @ ds @ ''_''" by (auto simp: child_of_def)
    then show "take (length p) s = p \<and> takeWhile is_digit (drop (length p) s) \<noteq> [] \<and> dropWhile is_digit (drop (length p) s) = ''_''"
      using not_digit_underscore by (simp add: list_all_iff takeWhile_append dropWhile_append)
  qed
  finally show ?thesis by (simp add: p_def s_def)
qed

definition row_state :: "dir_row \<Rightarrow> string \<times> bool \<times> icon list" where
  "row_state r = (row_id r, row_shown r, row_spans r)"

lemma stripe_keys: "map row_state (stripe_rows b rows) = map row_state rows"
  by (induction b rows rule: stripe_rows.induct) (auto simp: Let_def row_state_def)

lemma dir_ok_keys:
  assumes "map row_state rows = map row_state rows'" "dir_ok rows'" shows "dir_ok rows"
proof -
  have ex: "\<exists>q \<in> set rows'. row_state q = row_state r" if "r \<in> set rows" for r
    using that arg_cong [where f = set, OF assms(1)] by (metis (no_types, lifting) image_iff list.set_map)
  have icon: "row_state q = row_state r \<Longrightarrow> has_icon c q = has_icon c r" for c q r
    by (simp add: row_state_def has_icon_def)
  show ?thesis unfolding dir_ok_def
  proof (intro ballI impI)
    fix p c assume "p \<in> set rows" "c \<in> set rows" "child_of (row_id p) (row_id c)"
    then obtain p' c' where pc: "p' \<in> set rows'" "row_state p' = row_state p" "c' \<in> set rows'" "row_state c' = row_state c"
      using ex by blast
    then have k: "row_id p' = row_id p" "row_shown p' = row_shown p" "row_id c' = row_id c" "row_shown c' = row_shown c"
      by (simp_all add: row_state_def)
    with \<open>child_of (row_id p) (row_id c)\<close> have "child_of (row_id p') (row_id c')" by simp
    from assms(2) [unfolded dir_ok_def, rule_format, OF pc(1,3) this, unfolded k icon [OF pc(2)]]
    show "(row_shown c \<longrightarrow> row_shown p) \<and> (row_shown p \<longrightarrow> row_shown c = has_icon ''iconfopen'' p) \<and>
        (has_icon ''iconfopen'' p \<or> has_icon ''iconfclosed'' p)"
      .
  qed
qed

lemma dir_wf_keys: "map row_id rows = map row_id rows' \<Longrightarrow> dir_wf rows' \<Longrightarrow> dir_wf rows"
proof -
  assume eq: "map row_id rows = map row_id rows'" and wf: "dir_wf rows'"
  have "length rows = length rows'" using arg_cong [where f = length, OF eq] by simp
  moreover have "row_id (rows ! k) = row_id (rows' ! k)" if "k < length rows" for k
    using that eq calculation by (metis nth_map)
  moreover have "(\<forall>r \<in> set rows. P (row_id r)) = (\<forall>r \<in> set rows'. P (row_id r))" for P
    using arg_cong [where f = set, OF eq] by (metis (no_types, lifting) image_iff list.set_map)
  note this [of "\<lambda>x. toLowerCase x = x \<and> (\<exists>i. x = ''row_'' @ i @ ''_'')"]
  ultimately show ?thesis using wf eq by (simp add: dir_wf_def)
qed

text \<open>The folder's row, what is before it and what is after it.\<close>

lemma folder_split:
  assumes "dir_wf rows" "r \<in> set rows" "row_id r = x"
  obtains before rs where "rows = before @ r # rs" "\<forall>q \<in> set before. row_id q \<noteq> x \<and> \<not> starts_with (row_id q) x"
    "\<forall>q \<in> set rs. row_id q \<noteq> x" "takeWhile (\<lambda>q. row_id q \<noteq> x) rows = before" "dropWhile (\<lambda>q. row_id q \<noteq> x) rows = r # rs"
proof -
  from assms(2) obtain before rs where rows: "rows = before @ r # rs" by (auto simp: in_set_conv_decomp)
  have "distinct (map row_id before @ x # map row_id rs)"
    using assms(3) conjunct1 [OF assms(1) [unfolded dir_wf_def]] by (simp add: rows)
  then have ids: "\<forall>q \<in> set before. row_id q \<noteq> x" "\<forall>q \<in> set rs. row_id q \<noteq> x"
    by (auto simp: image_iff)
  moreover have "\<not> starts_with (row_id q) x" if q: "q \<in> set before" for q
  proof
    assume sw: "starts_with (row_id q) x"
    from q obtain j where j: "j < length before" "before ! j = q" by (auto simp: in_set_conv_nth)
    then have "length before \<le> j"
      using conjunct2 [OF conjunct2 [OF assms(1) [unfolded dir_wf_def]], rule_format, of j "length before"] sw assms(3)
      by (simp add: rows nth_append)
    with j show False by simp
  qed
  moreover have "takeWhile (\<lambda>q. row_id q \<noteq> x) rows = before" "dropWhile (\<lambda>q. row_id q \<noteq> x) rows = r # rs"
    using ids(1) assms(3) by (auto simp: rows takeWhile_append dropWhile_append)
  ultimately show thesis using rows that by blast
qed

lemma stripes_alternate:
  "(\<forall>k < length (filter row_shown (stripe_rows b rows)).
      (''even'' \<in> set (row_classes (filter row_shown (stripe_rows b rows) ! k))) = (even k = b)) \<and>
   (\<forall>r \<in> set (stripe_rows b rows). \<not> row_shown r \<longrightarrow> ''even'' \<notin> set (row_classes r))"
proof (induction b rows rule: stripe_rows.induct)
  case (2 b r rs)
  then show ?case
    by (cases "row_shown r"; cases b) (auto simp: Let_def nth_Cons' All_less_Suc2)
qed simp

lemma toggleFolder_eq:
  assumes "dir_wf rows" "dir_ok rows" "r \<in> set rows" "row_id r = ''row_'' @ i" "row_shown r"
  obtains e where "e = hide_effect (''row_'' @ i) \<or> e = show_effect (''row_'' @ i)"
    "toggleFolder i rows = updateStripes (map e rows)" "dir_ok (map e rows)"
proof -
  define x where "x = ''row_'' @ i"
  have "toLowerCase (row_id r) = row_id r \<and> (\<exists>k. row_id r = ''row_'' @ k @ ''_'')"
    using assms(1,3) unfolding dir_wf_def by blast
  then obtain k where "x = (''row_'' @ k) @ ''_''" and low: "toLowerCase x = x"
    unfolding assms(4) x_def [symmetric] by auto
  then obtain y where y: "x = y @ ''_''" by blast
  obtain before rs where rows: "rows = before @ r # rs"
    and before: "\<forall>q \<in> set before. row_id q \<noteq> x \<and> \<not> starts_with (row_id q) x" and rs: "\<forall>q \<in> set rs. row_id q \<noteq> x"
    and parts: "takeWhile (\<lambda>q. row_id q \<noteq> x) rows = before" "dropWhile (\<lambda>q. row_id q \<noteq> x) rows = r # rs"
    using folder_split [OF assms(1,3), of x] assms(4) unfolding x_def by blast
  have child: "child_row i q \<longleftrightarrow> child_of x (row_id q)" if "q \<in> set rows" for q
    using assms(1) low that unfolding x_def by (intro child_row_iff) (auto simp: dir_wf_def)
  have nochild: "\<not> child_of x (row_id q)" if "q \<in> set before" for q
    using before that child_of_longer [of x "row_id q"] by auto
  have id: "row_id r = x" using assms(4) by (simp add: x_def)
  have before_same: "map (hide_effect x) before = before" "map (show_effect x) before = before"
    using before nochild by (auto simp: hide_effect_def show_effect_def intro!: map_idI)
  have rs_show: "map (show_effect x) rs = map (\<lambda>q. if child_row i q then (fold_icons q)\<lparr>row_shown := True\<rparr> else q) rs"
    using rs child by (auto simp: show_effect_def rows)
  have rs_hide: "map (hide_effect x) rs = map (\<lambda>q. if starts_with (row_id q) x then q\<lparr>row_shown := False\<rparr> else q) rs"
    using rs by (auto simp: hide_effect_def)
  have ends: "\<forall>q \<in> set rows. \<exists>k. row_id q = k @ ''_''"
    using assms(1) by (fastforce simp: dir_wf_def)
  have unfold: "toggleFolder i rows = updateStripes (before @ toggle_rows i r rs)"
    unfolding toggleFolder_def Let_def x_def [symmetric] parts by simp
  have kids: "row_shown q = has_icon ''iconfopen'' r" if "q \<in> set rows" "child_of x (row_id q)" for q
    using assms(2,3,5) that id unfolding dir_ok_def by blast
  have shown: "row_shown q" if "q \<in> set rows" "row_id q = x" for q
    using that assms(5) before rs by (auto simp: rows)
  show thesis
  proof (cases "filter (child_row i) rs")
    case Nil
    then have none: "\<not> child_of x (row_id q)" if "q \<in> set rows" for q
      using that nochild child id child_of_longer [of x x] by (auto simp: rows filter_empty_conv)
    then have "map (show_effect x) rs = rs" using rs by (auto simp: show_effect_def rows intro!: map_idI)
    then have "toggleFolder i rows = updateStripes (map (show_effect x) rows)"
      using Nil before_same id unfold by (simp add: toggle_rows_def rows show_effect_def)
    moreover have "dir_ok (map (show_effect x) rows)"
      using none shown by (intro dir_ok_show [OF assms(2) ends y]) auto
    ultimately show thesis using that [of "show_effect x"] by (simp add: x_def)
  next
    case (Cons c cs)
    then have "c \<in> set (filter (child_row i) rs)" by simp
    then have c: "c \<in> set rows" "child_of x (row_id c)" using child by (auto simp: rows)
    show thesis
    proof (cases "row_shown c")
      case True
      then have "toggle_rows i r rs = fold_icons r # map (hide_effect x) rs"
        unfolding rs_hide toggle_rows_def x_def [symmetric] using Cons by simp
      then have "toggleFolder i rows = updateStripes (map (hide_effect x) rows)"
        using before_same id unfold by (simp add: rows) (simp add: hide_effect_def)
      with dir_ok_hide [OF assms(2) y] that [of "hide_effect x"] show thesis by (simp add: x_def)
    next
      case False
      then have "toggle_rows i r rs = unfold_icons r # map (show_effect x) rs"
        unfolding rs_show toggle_rows_def x_def [symmetric] using Cons by simp
      then have "toggleFolder i rows = updateStripes (map (show_effect x) rows)"
        using before_same id unfold by (simp add: rows) (simp add: show_effect_def)
      moreover have "dir_ok (map (show_effect x) rows)"
        using kids c False shown by (intro dir_ok_show [OF assms(2) ends y]) auto
      ultimately show thesis using that [of "show_effect x"] by (simp add: x_def)
    qed
  qed
qed

text \<open>
  C35. Clicking a visible folder keeps the directory table consistent: whatever lies inside a hidden
  folder is hidden, the children of a visible folder show exactly when its icon is the open one, and
  the visible rows are striped alternately, starting with an even one.
\<close>

theorem folder_table_consistent:
  assumes "dir_wf rows" "dir_ok rows" "r \<in> set rows" "row_id r = ''row_'' @ i" "row_shown r"
  shows "dir_wf (toggleFolder i rows) \<and> dir_ok (toggleFolder i rows) \<and>
    (\<forall>k < length (filter row_shown (toggleFolder i rows)).
       (''even'' \<in> set (row_classes (filter row_shown (toggleFolder i rows) ! k))) = even k)"
proof -
  obtain e where e: "e = hide_effect (''row_'' @ i) \<or> e = show_effect (''row_'' @ i)"
    and t: "toggleFolder i rows = updateStripes (map e rows)" and ok: "dir_ok (map e rows)"
    by (rule toggleFolder_eq [OF assms])
  have keys: "map row_state (toggleFolder i rows) = map row_state (map e rows)"
    by (simp add: t updateStripes_def stripe_keys)
  then have "map row_id (toggleFolder i rows) = map row_id (map e rows)"
    by (metis (no_types, lifting) list.map_comp comp_def fst_conv map_eq_conv row_state_def)
  also have "map row_id (map e rows) = map row_id rows" using e by auto
  finally have "dir_wf (toggleFolder i rows)" by (rule dir_wf_keys [OF _ assms(1)])
  moreover have "dir_ok (toggleFolder i rows)" by (rule dir_ok_keys [OF keys ok])
  ultimately show ?thesis using stripes_alternate [of True "map e rows"] by (auto simp: t updateStripes_def)
qed

theorem folder_table_consistent_witness:
  "let icon = (\<lambda>c. \<lparr>icon_id = ''img'', icon_classes = [c], icon_html = ''''\<rparr>);
       rows = [\<lparr>row_id = ''row_0_'', row_classes = [''even''], row_shown = True, row_spans = [icon ''iconfopen'']\<rparr>,
               \<lparr>row_id = ''row_0_0_'', row_classes = [], row_shown = True, row_spans = []\<rparr>,
               \<lparr>row_id = ''row_1_'', row_classes = [''even''], row_shown = True, row_spans = []\<rparr>]
   in dir_ok (toggleFolder ''0_'' rows) \<and> map row_shown (toggleFolder ''0_'' rows) = [True, False, True]"
proof -
  define icon where "icon c = \<lparr>icon_id = ''img'', icon_classes = [c], icon_html = ''''\<rparr>" for c
  define rows where "rows = [\<lparr>row_id = ''row_0_'', row_classes = [''even''], row_shown = True, row_spans = [icon ''iconfopen'']\<rparr>,
    \<lparr>row_id = ''row_0_0_'', row_classes = [], row_shown = True, row_spans = []\<rparr>,
    \<lparr>row_id = ''row_1_'', row_classes = [''even''], row_shown = True, row_spans = []\<rparr>]"
  have low: "toLowerCase ''row_0_'' = ''row_0_''" "toLowerCase ''row_0_0_'' = ''row_0_0_''" "toLowerCase ''row_1_'' = ''row_1_''"
    by code_simp+
  have wf: "dir_wf rows"
    by (auto simp: dir_wf_def rows_def low All_less_Suc less_Suc_eq numeral_3_eq_3 starts_with.simps)
  have len: "child_of p c \<Longrightarrow> length p + 2 \<le> length c" for p c by (auto simp: child_of_def Suc_le_eq)
  have ok: "dir_ok rows"
    by (auto simp: dir_ok_def rows_def has_icon_def icon_def dest: len) (auto simp: child_of_def)
  have "dir_ok (toggleFolder ''0_'' rows)"
    using folder_table_consistent [OF wf ok, of "rows ! 0" "''0_''"] by (simp add: rows_def)
  moreover have "map row_shown (toggleFolder ''0_'' rows) = [True, False, True]"
    unfolding rows_def icon_def by code_simp
  ultimately show ?thesis by (simp add: Let_def rows_def icon_def)
qed

end
