(* ===== verification/Spec2Isabelle.thy ===== *)
theory Spec2Isabelle
  imports ServerClient TornReads Undisturbed HttpDaemon PageMarkup Cors ServerLife DocSearch ResultsNav DocMenu DynSections
begin

text \<open>
  Verification of the pump control system: a C server (\<^verbatim>\<open>src/src\<close>) between MQTT, SQLite and HTTP, and the
  dashboard in the browser (\<^verbatim>\<open>src/web/script.js\<close>). The gateway and the pumps report on MQTT, the server
  keeps the state, records every change and serves it, and the dashboard shows it, filters the history
  and sends commands, which go over MQTT back to the server and on to the hardware.

  \<^bold>\<open>Browser.\<close> \<^verbatim>\<open>Prelude\<close> has the JavaScript values used (a number or \<^verbatim>\<open>undefined\<close> as an optional integer, \<^verbatim>\<open>||\<close>,
  array reads, \<^verbatim>\<open>slice\<close>, \<^verbatim>\<open>filter\<close> with a throwing callback, \<^verbatim>\<open>parseInt\<close>, decimal texts); \<^verbatim>\<open>JsDate\<close> and \<^verbatim>\<open>LocalTime\<close>
  the calendar of ECMA-262, local time over a zone parameter, the ranges of \<^verbatim>\<open>applyQuickFilter\<close>,
  \<^verbatim>\<open>toISOLocal\<close> and the values a \<^verbatim>\<open>datetime-local\<close> input accepts; \<^verbatim>\<open>JsSort\<close> the array sort, with what holds for
  every engine in a locale. \<^verbatim>\<open>HistoryData\<close> is the pure core of \<^verbatim>\<open>applyLocalFilters\<close>, \<^verbatim>\<open>HistoryView\<close> the module
  variables with the table, pager and statistics written from them, \<^verbatim>\<open>HistoryOps\<close> the functions that
  change the variables (\<^verbatim>\<open>loadHistory\<close> in its two halves, before and after \<^verbatim>\<open>await\<close>), \<^verbatim>\<open>Debounce\<close> the search
  delay, and \<^verbatim>\<open>HistoryPage\<close> the page as a machine: an event is a handler, time passing, or the reply to
  any open request. \<^verbatim>\<open>HistoryExport\<close> is the CSV export, \<^verbatim>\<open>Navigation\<close> the sidebar and pages,
  \<^verbatim>\<open>PageMarkup\<close> the elements and controls of \<^verbatim>\<open>index.html\<close> with the class lists the functions change, \<^verbatim>\<open>Json\<close> and
  \<^verbatim>\<open>ClientJson\<close> the reading of response bodies, \<^verbatim>\<open>Dashboard\<close> the status cards, the gateway box and the
  request of \<^verbatim>\<open>control\<close>. \<^verbatim>\<open>DashboardPage\<close> is the dashboard over time: polling, buttons, and answers of a
  running server in any order; \<^verbatim>\<open>Cors\<close> puts the browser's cross-origin checks between page and server.

  \<^bold>\<open>Server.\<close> \<^verbatim>\<open>CTypes\<close> has the C integers (32 and 64 bit words, read with \<^verbatim>\<open>sint\<close>), character arrays with their
  NUL, \<^verbatim>\<open>strncpy\<close>, \<^verbatim>\<open>snprintf\<close>, \<^verbatim>\<open>atoi\<close>. \<^verbatim>\<open>PumpDb\<close> is \<^verbatim>\<open>db.c\<close>, \<^verbatim>\<open>SharedState\<close> \<^verbatim>\<open>shared.c\<close>, \<^verbatim>\<open>MqttHandler\<close> the callback and the
  payload of \<^verbatim>\<open>mqtt.c\<close>, \<^verbatim>\<open>HttpApi\<close> \<^verbatim>\<open>http_api.c\<close> with a request
  as one event, \<^verbatim>\<open>HttpDaemon\<close> the same call by call, with the buffers of interleaved uploads. \<^verbatim>\<open>Server\<close> runs whole handlers one after the other, with the
  messages the server publishes to itself in a queue; \<^verbatim>\<open>Threads\<close> cuts the handlers into steps (taking and giving
  up the mutex, the critical sections, database calls, unlocked reads of single fields) and interleaves the subscriber
  thread, the HTTP thread and the publisher thread with the mutex and its holder, \<^verbatim>\<open>TornReads\<close> says what the stored rows then
  mean, \<^verbatim>\<open>Undisturbed\<close> what a report or command records when no other thread runs in between; \<^verbatim>\<open>ServerLife\<close> is
  \<^verbatim>\<open>main.c\<close> with the thread bodies. \<^verbatim>\<open>ServerClient\<close> joins the halves: the query the page sends, the rows it
  decodes, the pages whose replies come from a running server.

  \<^bold>\<open>Reference pages.\<close> The repository carries the reference of the MQTT client with the scripts that make
  it searchable (\<^verbatim>\<open>lib/paho.mqtt.c-1.3.13/docs/*/html\<close>; the three references have the same scripts and
  their own data). \<^verbatim>\<open>Dom\<close> has elements as trees addressed by paths, \<^verbatim>\<open>SearchId\<close> texts as 16-bit code units,
  \<^verbatim>\<open>convertToId\<close>, \<^verbatim>\<open>escape\<close> and \<^verbatim>\<open>unescape\<close>, and the shape of an index file. \<^verbatim>\<open>SearchBox\<close> is the class of that
  name in \<^verbatim>\<open>search.js\<close>, \<^verbatim>\<open>SearchPanel\<close> the panel as a machine of events and timers; \<^verbatim>\<open>SearchResults\<close> the class
  of the results page and \<^verbatim>\<open>createResults\<close>, \<^verbatim>\<open>FindChild\<close> the tree search, \<^verbatim>\<open>ResultsPage\<close> the page it works on,
  \<^verbatim>\<open>ResultsNav\<close> the arrow keys, \<^verbatim>\<open>SearchMatch\<close> what a query matches. \<^verbatim>\<open>SearchTables\<close> and the theories named
  \<^verbatim>\<open>Index...All\<close> and \<^verbatim>\<open>Index...Kinds\<close> are the data of the three references (\<^verbatim>\<open>searchdata.js\<close>, \<^verbatim>\<open>all_0.js\<close> and so
  on), \<^verbatim>\<open>SearchIndexes\<close> and \<^verbatim>\<open>SearchIndexesSync\<close> their agreement, \<^verbatim>\<open>DocSearch\<close> the way from a typed name to the
  listed row. \<^verbatim>\<open>DocMenu\<close> is \<^verbatim>\<open>menu.js\<close> with \<^verbatim>\<open>menudata.js\<close>, \<^verbatim>\<open>DynSections\<close> \<^verbatim>\<open>dynsections.js\<close>.

  \<^bold>\<open>What is shown.\<close> Across the halves: a button reaches the pump's command and the next status shows it;
  an answer holds the stored snapshots in the picked range; the history page never leaves an exception
  uncaught while a running server answers; the dashboard shows the server's state; no request of the
  page is stopped by the cross-origin checks. Server: the snapshot table follows the state when
  handlers do not overlap, value ranges hold under every interleaving, every stored value was
  current at some moment, an undisturbed report or command is recorded exactly, the threads do not
  deadlock and every handler ends, a feedback message changes exactly what it should, the calls of the HTTP
  library add up to whole requests, the buffers of the history, status and publish texts suffice, requests
  change only what they should, a signal ends the process, and a lost broker connection is final.
  Browser: the dashboard is never staler than the poll interval and twice the answer time; filters
  select what they say, sorting, pages and pager agree, the page shown exists, replies in order leave
  the page current, debouncing and CSV; the document shows
  what the records say. Several properties state where the program goes
  wrong: the feedback race, rows that no state had, leaked upload buffers, a stale reply, the poisoned cache, unescaped texts, the
  overflowing POST buffer, repeated rows for unknown pumps and long firmware texts, the row bound of
  the history buffer, a search that survives the refresh button. Reference pages: a name typed into the search field ends in a shown row for it,
  the rows shown are those whose identifier starts with the query, the tree search returns the first
  children block in document order, the arrow keys step through the visible links, the panel's state
  stays consistent under every event, folding keeps the directory table consistent, and the menu
  markup reads back as the menu data.

  \<^bold>\<open>Interfaces.\<close> The locales are \<^verbatim>\<open>array_sorting\<close> (the engine's sort), \<^verbatim>\<open>bounded_log\<close> (the ring of recent
  states), \<^verbatim>\<open>json_codec\<close> (a writer and its reader), \<^verbatim>\<open>json_c\<close> (the documented laws of json-c) and
  \<^verbatim>\<open>search_index\<close> (tables that agree with index files), each interpreted on the definitions here.

  \<^bold>\<open>Parameters.\<close> \<^verbatim>\<open>loc\<close> is the host's \<^verbatim>\<open>toLocaleString\<close>, \<^verbatim>\<open>tza\<close> the zone offset in milliseconds (a few properties
  take a zone without clock changes and a clock between 1970 and 2100), \<^verbatim>\<open>sq\<close> SQLite (which statements
  succeed, where a \<^verbatim>\<open>SELECT\<close> stops, the order of equal timestamps; \<^verbatim>\<open>orders_desc\<close> is what \<^verbatim>\<open>ORDER BY\<close> documents), \<^verbatim>\<open>jc\<close> json-c, and the
  surroundings of a request: allocation, the broker, and what other threads do while
  \<^verbatim>\<open>handle_pump_control\<close> sleeps.

  \<^bold>\<open>Fuel.\<close> The JSON parser gets the length of its text plus one, and every nested value costs a
  character; the CSV reader gets the length of the file, and every line costs one. The round-trip
  theorems show that this is enough. The loop of \<^verbatim>\<open>FindChildElement\<close> gets the number of elements of the
  document, and visits each at most once; running out is the value \<^verbatim>\<open>None\<close>, excluded by the theorem.

  \<^bold>\<open>Not modelled.\<close> The fixed markup of the template literals, the texts of \<^verbatim>\<open>index.html\<close> and the style sheet; console output; what
  the vendored MQTT client does to connect and subscribe (its outcomes are events); the
  word-level memory model of the C compiler: a field is read and written in one piece. Signed overflow in \<^verbatim>\<open>days * 86400\<close>
  is undefined in C; the model wraps. \<^verbatim>\<open>JSON.parse\<close> is modelled without fractions, exponents and \<^verbatim>\<open>\u\<close>
  escapes, which the server never writes. Of the reference pages: \<^verbatim>\<open>jquery.js\<close> and the smartmenus plug-in
  (third-party), text nodes between elements, and \<^verbatim>\<open>toLowerCase\<close> beyond ASCII and Latin-1. Texts of the dashboard and
  history page (dates, search terms) are lists of 8-bit characters, so their \<^verbatim>\<open>toLowerCase\<close> is that of Latin-1 too. The
  fields passed to a database call are read from left to right; C leaves the order open. The branch for
  surrogate pairs in \<^verbatim>\<open>SearchBox.Search\<close> compares a text with a number; the model follows it and
  \<^verbatim>\<open>DocSearch\<close> shows that it is never taken. The C library itself is vendored.
\<close>

section \<open>From a button to the pump\<close>

lemma int_dec_bit: "int_dec 0 = ''0''" "int_dec 1 = ''1''" "int_dec 2 = ''2''"
  by code_simp+

lemma control_body_short:
  assumes "i \<in> {1, 2}" "st \<in> {0, 1}"
  shows "length (control_body i st) \<le> 30 \<and> nul \<notin> set (control_body i st)"
proof -
  have "i = 1 \<or> i = 2" "st = 0 \<or> st = 1" using assms by auto
  then show ?thesis by (elim disjE) (simp_all add: control_body_def quoted_def int_dec_bit nul_def)
qed

lemma concat_no_nul: "nul \<notin> set (concat ds) \<Longrightarrow> concat (map c_string ds) = concat ds"
  by (induction ds) (simp_all add: c_string_id)

lemma control_request:
  assumes "i \<in> {1, 2}" "st \<in> {0, 1}" "malloc_ok env" "publish_ok env (control_message (control_body i st))"
    and "rq_method rq = ''POST''" "API @ rq_url rq = control_url" "concat (rq_chunks rq) = control_body i st"
  shows "fst (snd (handle_request sq jc env now rq sv)) = [control_message (control_body i st)]"
proof -
  have "collect_body [] (rq_chunks rq) = Some (control_body i st)"
    using control_body_short [OF assms(1,2)] assms(7) concat_no_nul [of "rq_chunks rq"]
    by (simp add: collect_body_eq)
  with assms show ?thesis
    by (simp add: handle_request_def handle_post_def control_url_def Let_def)
qed

lemma control_delivered:
  assumes "json_c jc" "i \<in> {1, 2}" "st \<in> {0, 1}"
  shows "deliver sq jc t t2 (control_message (control_body i st)) sv =
    update_pump_status sq t (word_of_int i) (word_of_int st) sv"
proof -
  let ?kvs = "[(''pump_id'', JNum i), (''state'', JNum st)]"
  have "flat_members ?kvs" using assms(2,3) by (auto simp: control_body_flat)
  then have parse: "jc_parse jc (control_body i st) = Some (JObj ?kvs)"
    using json_c.parse_flat [OF assms(1)] by (simp add: control_body_def del: json_text.simps)
  have "payload_text (control_body i st) = control_body i st"
    using control_body_short [OF assms(2,3)] by (intro payload_text_short) auto
  moreover have "jc_int jc (JNum i) = word_of_int i" "jc_int jc (JNum st) = word_of_int st"
    using assms(2,3) by (auto intro: json_c.int_num [OF assms(1)])
  ultimately show ?thesis
    using parse json_c.get_member [OF assms(1)]
    by (simp add: deliver_def control_message_def subscribed_topics_def mqtt_message_arrived_def
        on_control_def Let_def)
qed

lemma shown_command:
  assumes "i \<in> {1, 2}" "st \<in> {0, 1}"
  shows "map pc_cmd_text (pumpGrid (loadStatus time_text (read_body item_of_json
      (handle_pump_status (update_pump_status sq t (word_of_int i) (word_of_int st) sv))) dash)) ! nat (i - 1) =
    (if st = 1 then ''ON'' else ''OFF'')"
  using assms
  by (auto simp: read_status loadStatus_def createPumpCard_def item_of_snapshot_def snapshot_of_def update_current
      set_pump_def truthy_def)

text \<open>
  C1. A dashboard button reaches the pump: the request \<open>control(i, s)\<close> sends makes the server publish
  its body once on \<open>pump/control\<close>; delivered to the server's own subscriber, that message is exactly
  the update of pump i's command to s, and the next \<open>loadStatus\<close> shows ON or OFF accordingly.
\<close>

theorem control_button_reaches_pump:
  assumes "json_c jc" "i \<in> {1, 2}" "st \<in> {0, 1}"
    and "malloc_ok env" "publish_ok env (control_message (control_body i st))"
    and "rq_method rq = ''POST''" "API @ rq_url rq = control_url" "concat (rq_chunks rq) = control_body i st"
  shows "fst (snd (handle_request sq jc env now rq sv)) = [control_message (control_body i st)] \<and>
    deliver sq jc t t2 (control_message (control_body i st)) sv2 =
      update_pump_status sq t (word_of_int i) (word_of_int st) sv2 \<and>
    map pc_cmd_text (pumpGrid (loadStatus time_text (read_body item_of_json (handle_pump_status
      (deliver sq jc t t2 (control_message (control_body i st)) sv2))) dash)) ! nat (i - 1) =
      (if st = 1 then ''ON'' else ''OFF'')"
  using control_request [OF assms(2-8)] control_delivered [OF assms(1-3)] shown_command [OF assms(2,3)]
  by simp

definition button_request :: request where
  "button_request = \<lparr>rq_method = ''POST'', rq_url = ''/api/pump/control'', rq_args = [],
     rq_chunks = [control_body 2 1]\<rparr>"

definition calm_surroundings :: surroundings where
  "calm_surroundings = \<lparr>malloc_ok = True, publish_ok = (\<lambda>_. True), meanwhile = (\<lambda>sv. sv)\<rparr>"

theorem control_button_reaches_pump_witness:
  "fst (snd (handle_request sqlite_model jsonc_model calm_surroundings 0 button_request
     (initial_server fresh_database))) = [control_message (control_body 2 1)]"
  by (rule conjunct1 [OF control_button_reaches_pump [OF jsonc_model.json_c_axioms]])
    (simp_all add: button_request_def calm_surroundings_def control_url_def API_def)

section \<open>The history page and the server behind it\<close>

lemma client_select:
  assumes "orders_desc sq"
  defines "sel \<equiv> \<lambda>fs sv. filter (where_time (date_bound (dateFrom fs)) (date_bound (dateTo fs))) (pump_snapshots (database sv))"
  shows "length (history_selection sq (client_args fs) sv) = min 5000 (length (sel fs sv))"
    and "sorted_wrt (\<lambda>a b. sint (sn_time b) \<le> sint (sn_time a)) (history_selection sq (client_args fs) sv)"
    and "set (history_selection sq (client_args fs) sv) \<subseteq> set (sel fs sv)"
    and "length (sel fs sv) \<le> 5000 \<Longrightarrow> mset (history_selection sq (client_args fs) sv) = mset (sel fs sv)"
proof -
  have lim: "sint (5000 :: c_int) = 5000" by simp
  note spec = select_history_spec [OF assms(1), of 5000 "date_bound (dateFrom fs)" "date_bound (dateTo fs)" "database sv"]
  show "length (history_selection sq (client_args fs) sv) = min 5000 (length (sel fs sv))"
    "sorted_wrt (\<lambda>a b. sint (sn_time b) \<le> sint (sn_time a)) (history_selection sq (client_args fs) sv)"
    "set (history_selection sq (client_args fs) sv) \<subseteq> set (sel fs sv)"
    using spec by (auto simp: client_selection sel_def)
  assume short: "length (sel fs sv) \<le> 5000"
  have m: "mset (sq_desc sq (sel fs sv)) = mset (sel fs sv)" using assms(1) by (simp add: orders_desc_def)
  then have "length (sq_desc sq (sel fs sv)) \<le> 5000" using short by (metis size_mset)
  with m show "mset (history_selection sq (client_args fs) sv) = mset (sel fs sv)"
    by (simp add: client_selection select_history_def sql_limit_def sel_def)
qed

text \<open>
  What the dates picked say of a row, its time and the bounds in seconds since 1970: a lower bound holds for the rows
  from it on, an upper bound for those up to it. A bound that is not set, not a date (\<open>NaN\<close>) or before 1970-01-01
  00:00:01 says nothing.
\<close>

definition between_dates :: "date_value option \<Rightarrow> date_value option \<Rightarrow> snapshot \<Rightarrow> bool" where
  "between_dates a b r \<longleftrightarrow>
     (case a of Some (Some t) \<Rightarrow> t < 1000 \<or> t div 1000 \<le> sint (sn_time r) | _ \<Rightarrow> True) \<and>
     (case b of Some (Some t) \<Rightarrow> t < 1000 \<or> sint (sn_time r) \<le> t div 1000 | _ \<Rightarrow> True)"

text \<open>A date of JavaScript: at most 8.64e15 milliseconds from 1970.\<close>

definition js_date :: "date_value option \<Rightarrow> bool" where
  "js_date d \<longleftrightarrow> (case d of Some (Some t) \<Rightarrow> \<bar>t\<bar> \<le> 8640000000000000 | _ \<Rightarrow> True)"

lemma where_between:
  assumes "js_date a" "js_date b"
  shows "where_time (date_bound a) (date_bound b) = between_dates a b"
proof -
  have bound: "sint (date_bound d) = (case d of Some (Some t) \<Rightarrow> t div 1000 | _ \<Rightarrow> 0)" if "js_date d" for d
  proof (cases "\<exists>t. d = Some (Some t)")
    case True
    then obtain t where t: "d = Some (Some t)" by blast
    with that have "- 8640000000000 \<le> t div 1000" "t div 1000 \<le> 8640000000000" by (simp_all add: js_date_def)
    then show ?thesis by (simp add: t date_bound_def clamp64_def)
  next
    case False
    then show ?thesis by (auto simp: date_bound_def split: option.split)
  qed
  have pos: "0 < t div 1000 \<longleftrightarrow> \<not> t < 1000" for t :: int by linarith
  show ?thesis
    by (rule ext) (auto simp: where_time_def bound [OF assms(1)] bound [OF assms(2)] between_dates_def pos
        split: option.split)
qed

lemma answered_prefix:
  assumes "orders_desc sq"
  defines "sel \<equiv> \<lambda>fs sv. filter (where_time (date_bound (dateFrom fs)) (date_bound (dateTo fs))) (pump_snapshots (database sv))"
  shows "\<exists>n. answered_rows sq (client_args fs) sv = take n (sq_desc sq (sel fs sv))"
  by (simp add: answered_rows_def client_selection select_history_def sql_limit_def sel_def) blast

lemma prefix_newest:
  assumes "mset all = mset rows" "sorted_wrt (\<lambda>a b. sint (sn_time b) \<le> sint (sn_time a)) all"
  shows "mset (take n all) \<subseteq># mset rows"
    and "old \<in># mset rows - mset (take n all) \<Longrightarrow> r \<in> set (take n all) \<Longrightarrow> sint (sn_time old) \<le> sint (sn_time r)"
proof -
  have split: "mset rows = mset (take n all) + mset (drop n all)"
    using assms(1) by (metis append_take_drop_id mset_append)
  then show "mset (take n all) \<subseteq># mset rows" by simp
  have "sorted_wrt (\<lambda>a b. sint (sn_time b) \<le> sint (sn_time a)) (take n all @ drop n all)" using assms(2) by simp
  then have "\<forall>r \<in> set (take n all). \<forall>old \<in> set (drop n all). sint (sn_time old) \<le> sint (sn_time r)"
    by (simp add: sorted_wrt_append del: append_take_drop_id)
  with split show "old \<in># mset rows - mset (take n all) \<Longrightarrow> r \<in> set (take n all) \<Longrightarrow> sint (sn_time old) \<le> sint (sn_time r)"
    by simp
qed

text \<open>
  C2. What the history page asks for is what it gets, from a running server whose SQL statements all succeed and whose
  rows of earlier runs are in range (C33 says what happens when a statement fails), with SQLite ordering rows as
  documented: the URL the page builds carries the arguments the
  server reads, and the answer decodes to a good response. Its rows are stored
  snapshots whose time in seconds is not before the picked start and not after the picked end, where a date that is
  not set, not a date or before 1970-01-01 00:00:01 is no bound; they come newest first, at most 5000, and no stored row within
  the dates that is missing is newer than one that is there; none is missing when there are at most
  2437, which always fit the buffer.
\<close>

theorem server_answers_filters:
  assumes "sys_reachable sq jc d s" "orders_desc sq" "db_ready sq d" "list_all snapshot_in_range (pump_snapshots d)"
    and "js_date (dateFrom fs)" "js_date (dateTo fs)"
  shows "let rows = answered_rows sq (client_args fs) (sys_server s);
      stored = filter (\<lambda>r.
          (case dateFrom fs of Some (Some t) \<Rightarrow> t < 1000 \<or> t div 1000 \<le> sint (sn_time r) | _ \<Rightarrow> True) \<and>
          (case dateTo fs of Some (Some t) \<Rightarrow> t < 1000 \<or> sint (sn_time r) \<le> t div 1000 | _ \<Rightarrow> True))
        (pump_snapshots (database (sys_server s)))
    in history_url fs = API @ ''/api/pump/history?'' @ query_text (client_args fs) \<and>
      read_body response_of_json (handle_pump_history sq (client_args fs) (sys_server s)) = Inr (response_of_rows rows) \<and>
      good_response (response_of_rows rows) \<and> mset rows \<subseteq># mset stored \<and>
      sorted_wrt (\<lambda>a b. sint (sn_time b) \<le> sint (sn_time a)) rows \<and> length rows \<le> 5000 \<and>
      (\<forall>old \<in># mset stored - mset rows. \<forall>r \<in> set rows. sint (sn_time old) \<le> sint (sn_time r)) \<and>
      (length stored \<le> 2437 \<longrightarrow> mset rows = mset stored)"
proof -
  let ?sv = "sys_server s" and ?sel = "history_selection sq (client_args fs) (sys_server s)"
  let ?stored = "filter (between_dates (dateFrom fs) (dateTo fs)) (pump_snapshots (database ?sv))"
  let ?rows = "answered_rows sq (client_args fs) ?sv"
  note whr = where_between [OF assms(5,6)]
  note sel = client_select [OF assms(2), of fs ?sv, unfolded whr]
  have fits: "?rows = ?sel" if "length ?sel \<le> 2437"
    using rows_fit_all [of ?sel 409600 0] that by (simp add: answered_rows_def)
  then have all: "length ?stored \<le> 2437 \<Longrightarrow> mset ?rows = mset ?stored" using sel(1,4) by simp
  obtain n where n: "?rows = take n (sq_desc sq ?stored)"
    using answered_prefix [OF assms(2), of fs ?sv, unfolded whr] by blast
  have desc: "mset (sq_desc sq ?stored) = mset ?stored" "sorted_wrt (\<lambda>a b. sint (sn_time b) \<le> sint (sn_time a)) (sq_desc sq ?stored)"
    using assms(2) by (simp_all add: orders_desc_def)
  note newest = prefix_newest [OF desc, where n = n, folded n]
  have "length ?rows \<le> length ?sel" by (simp add: answered_rows_def)
  then have "length ?rows \<le> 5000" using sel(1) by simp
  moreover have "sorted_wrt (\<lambda>a b. sint (sn_time b) \<le> sint (sn_time a)) ?rows"
    using sel(2) by (simp add: answered_rows_def sorted_wrt_take)
  ultimately show ?thesis
    unfolding Let_def between_dates_def [symmetric]
    using history_url_args read_history [OF assms(2) sys_ready [OF assms(1,3)]] newest all
      answered_good [OF assms(2) sys_log_in_range [OF assms(1,4)]]
    by (intro conjI) (simp_all only:, blast+)
qed

theorem server_answers_filters_witness:
  "good_response (response_of_rows (answered_rows sqlite_model
     (client_args (no_filters\<lparr>dateFrom := Some (Some 1700000000000)\<rparr>)) (initial_server fresh_database)))"
proof -
  have "js_date (dateFrom (no_filters\<lparr>dateFrom := Some (Some 1700000000000)\<rparr>))"
    "js_date (dateTo (no_filters\<lparr>dateFrom := Some (Some 1700000000000)\<rparr>))"
    by (simp_all add: js_date_def no_filters_def)
  from server_answers_filters [OF sys_reachable.boot sqlite_model_orders fresh_ready(1) _ this] show ?thesis
    by (simp add: fresh_ready Let_def)
qed

text \<open>
  C4. Whatever the user does and in whatever order the answers arrive, a history page whose replies
  fail or come from a running server whose SQL statements all succeed and whose rows of earlier runs are in range
  never leaves an exception uncaught, and what it shows is the
  current page of the rows of its cache that match the filters, in the chosen order; the zone is one without clock changes,
  and quick filters are pressed in the years 1970 to 2100. With a failing statement it can: C33.
\<close>

theorem history_page_with_server:
  assumes "orders_desc sq" "db_ready sq d" "list_all snapshot_in_range (pump_snapshots d)"
    and "fixed_offset tza off" "reachable loc tza (from_server sq jc d) p"
  shows "thrown p = [] \<and> synced loc (hist p)"
  using reachable_calm [OF assms(4) reachable_mono [OF assms(5) from_server_good [OF assms(1-3)]]]
  by (simp add: calm_def)

theorem history_page_with_server_witness:
  "thrown (do_event (\<lambda>_. ''now'') (\<lambda>_ _. 25200000) Refresh initial_page) = []"
proof -
  have "reachable (\<lambda>_. ''now'') (\<lambda>_ _. 25200000) (from_server sqlite_model jsonc_model fresh_database)
      (do_event (\<lambda>_. ''now'') (\<lambda>_ _. 25200000) Refresh initial_page)"
    by (intro reachable.event reachable.start) (simp_all add: from_server_def)
  moreover have "fixed_offset (\<lambda>_ _. 25200000) 25200000" by (simp add: fixed_offset_def ms_per_day_def)
  ultimately show ?thesis
    using history_page_with_server [OF sqlite_model_orders fresh_ready(1)] by (simp add: fresh_ready)
qed

section \<open>The dashboard and the server behind it\<close>

text \<open>
  C20. The dashboard shows the state of a running server: the names of its busy value and of both
  hardware states, the alarm, and ON or OFF for both commands; no value falls outside the tables.
\<close>

theorem dashboard_shows_server_state:
  assumes "sys_reachable sq jc d s"
  shows "let p = current_pump_status (sys_server s);
      dash' = loadStatus time_text (read_body item_of_json (handle_pump_status (sys_server s))) dash
    in busyText dash' = BUSY_TEXT ! nat (sint (ps_busy p)) \<and>
      alarmText dash' = (if ps_alarm p = 0 then ''OK'' else ''ACTIVE'') \<and>
      map pc_status (pumpGrid dash') =
        [STATUS_TEXT ! nat (sint (ps_status1 p)), STATUS_TEXT ! nat (sint (ps_status2 p))] \<and>
      map pc_cmd_text (pumpGrid dash') =
        [if ps_pump1 p = 0 then ''OFF'' else ''ON'', if ps_pump2 p = 0 then ''OFF'' else ''ON'']"
proof -
  let ?p = "current_pump_status (sys_server s)"
  have range: "values_in_range ?p"
    using sys_invariant [OF assms closed_range] by (simp add: initial_facts)
  then have busy: "or_text (js_lookup BUSY_TEXT (Some (sint (ps_busy ?p)))) ''--'' = BUSY_TEXT ! nat (sint (ps_busy ?p))"
    by (auto simp: js_lookup_range values_in_range_def or_text_def BUSY_TEXT_def nth_Cons' split: if_splits)
  have status: "interpolate (js_lookup STATUS_TEXT (Some (sint v))) = STATUS_TEXT ! nat (sint v)" if "status_range v" for v
    using that by (simp add: js_lookup_range status_range_def interpolate_def)
  show ?thesis
    using range busy status
    by (simp add: read_status loadStatus_def createPumpCard_def item_of_snapshot_def snapshot_of_def
        values_in_range_def truthy_def signed_eq_0_iff Let_def)
qed

theorem dashboard_shows_server_state_witness:
  "\<forall>dash. alarmText (loadStatus ''noon'' (read_body item_of_json (handle_pump_status (initial_server fresh_database))) dash) = ''OK''"
  using dashboard_shows_server_state [OF sys_reachable.boot]
  by (auto simp: Let_def initial_server_def zero_status_def)

section \<open>The gateway box\<close>

lemma read_gateway:
  assumes "gateway_ok (gateway_hw_status sv)" "plain (c_string (gw_device (gateway_hw_status sv)))"
    "plain (c_string (gw_firmware (gateway_hw_status sv)))"
  shows "read_body gateway_of_json (handle_gateway_status now sv) =
    Inr (gateway_of_json (gateway_json now (gateway_hw_status sv)))"
  unfolding handle_gateway_status_json [OF assms(1)]
  by (rule read_body_text) (use assms in \<open>simp_all add: gateway_json_def, simp add: plain_def\<close>)

text \<open>
  The gateway box does not notice a silent gateway: thirty seconds after the last heartbeat the
  server answers \<open>is_online\<close> 0, but the page reads the last reported \<open>status\<close> and keeps the dot online.
\<close>

theorem gateway_dot_ignores_silence:
  assumes "gateway_ok (gateway_hw_status sv)" "plain (c_string (gw_device (gateway_hw_status sv)))"
    "plain (c_string (gw_firmware (gateway_hw_status sv)))"
    and "gw_reported (gateway_hw_status sv) \<noteq> 0" "30 \<le> sint (now - gw_seen (gateway_hw_status sv))"
  shows "map_sum id g_is_online (read_body gateway_of_json (handle_gateway_status now sv)) = Inr (Some 0) \<and>
    gatewayDot (loadGateway loc (read_body gateway_of_json (handle_gateway_status now sv)) dash) = ''status-dot online''"
  using assms(4,5)
  by (simp add: read_gateway [OF assms(1-3)] gateway_of_json_def gateway_json_def gateway_is_online_def
      loadGateway_def int_field_def json_field_def truthy_def signed_eq_0_iff)

definition after_heartbeat :: "string \<Rightarrow> server" where
  "after_heartbeat fw =
     update_gateway_heartbeat sqlite_model 1000 (Some ''gw'') (Some fw) 1 (initial_server fresh_database)"

lemma after_heartbeat_gateway:
  "gateway_hw_status (after_heartbeat fw) =
     \<lparr>gw_online = 1, gw_reported = 1, gw_seen = 1000, gw_device = strncpy (replicate 64 nul) ''gw'' 63,
      gw_firmware = strncpy (replicate 32 nul) fw 31\<rparr>"
  by (simp add: after_heartbeat_def shared_defs initial_server_def empty_gateway_def copy_device_def copy_firmware_def)

lemma after_heartbeat_ok: "gateway_ok (gateway_hw_status (after_heartbeat fw))"
  unfolding after_heartbeat_def by (rule gateway_ok_update) (simp add: initial_facts)

lemma after_heartbeat_text:
  "c_string (gw_device (gateway_hw_status (after_heartbeat fw))) = ''gw''"
  "nul \<notin> set fw \<Longrightarrow> c_string (gw_firmware (gateway_hw_status (after_heartbeat fw))) = take 31 fw"
  using strncpy_c_string [of "replicate 64 nul" 63 "''gw''"] strncpy_c_string [of "replicate 32 nul" 31 fw]
  by (simp_all add: after_heartbeat_gateway) (simp add: nul_def)

theorem gateway_dot_ignores_silence_witness:
  "\<forall>loc dash. gatewayDot (loadGateway loc (read_body gateway_of_json (handle_gateway_status 2000 (after_heartbeat ''1.0''))) dash) =
     ''status-dot online''"
proof -
  have "plain ''gw''" "plain ''1.0''" "nul \<notin> set ''1.0''" by code_simp+
  then show ?thesis
    using gateway_dot_ignores_silence [OF after_heartbeat_ok, of "''1.0''" 2000]
    by (simp add: after_heartbeat_text) (simp add: after_heartbeat_gateway)
qed

text \<open>
  The texts a gateway reports are not escaped: when the firmware text ends in a double quote, the
  gateway answer is no JSON, and the page keeps its old gateway box.
\<close>

theorem gateway_answer_unescaped:
  assumes "gateway_ok (gateway_hw_status sv)" "plain (c_string (gw_device (gateway_hw_status sv)))"
    "plain a" "c_string (gw_firmware (gateway_hw_status sv)) = a @ [CHR 0x22]"
  shows "read_body gateway_of_json (handle_gateway_status now sv) = Inl SyntaxError \<and>
    loadGateway loc (read_body gateway_of_json (handle_gateway_status now sv)) dash = dash"
proof -
  let ?g = "gateway_hw_status sv"
  let ?kvs = "[(''status'', JNum (sint (gw_reported ?g))), (''is_online'', JNum (if gateway_is_online now ?g then 1 else 0)),
       (''device_id'', JStr (c_string (gw_device ?g)))]"
  let ?rest = "CHR 0x22 # '',\"last_seen\":'' @ int_dec (sint (gw_seen ?g)) @ ''}''"
  have "json_parse (CHR ''{'' # json_members (?kvs @ [(''firmware'', JStr a)]) @ ?rest) = None"
    by (rule json_parse_stray) (use assms(2,3) in \<open>simp_all add: value_end_def is_digit_def, simp_all add: plain_def\<close>)
  moreover have "handle_gateway_status now sv = CHR ''{'' # json_members (?kvs @ [(''firmware'', JStr a)]) @ ?rest"
    by (simp add: handle_gateway_status_json [OF assms(1)] gateway_json_def assms(4) quoted_def)
  ultimately show ?thesis by (simp add: read_body_def loadGateway_def)
qed

theorem gateway_answer_unescaped_witness:
  "read_body gateway_of_json (handle_gateway_status 2000 (after_heartbeat [CHR ''1'', CHR 0x22])) = Inl SyntaxError"
proof -
  have "plain ''gw''" "plain ''1''" "nul \<notin> set [CHR ''1'', CHR 0x22]" by code_simp+
  then show ?thesis
    using gateway_answer_unescaped [OF after_heartbeat_ok, of "[CHR ''1'', CHR 0x22]" "''1''"]
    by (simp add: after_heartbeat_text)
qed

section \<open>Date filters and failures across the two halves\<close>

lemma date_bound_small:
  assumes "\<bar>t\<bar> \<le> 1000000000000000" shows "sint (date_bound (Some (Some t))) = t div 1000"
proof -
  have "- 1000000000000 \<le> t div 1000" "t div 1000 \<le> 1000000000000" using assms by linarith+
  then show ?thesis by (simp add: date_bound_def clamp64_def)
qed

text \<open>
  C17. A quick filter selects whole local days, in a zone without clock changes whose offset is a whole number of seconds
  and with the clock between February 1970 and the end of the year 2099: the seconds the page computes and sends select, in
  the server's query, exactly the snapshots of the days meant. Today and yesterday are those days; the week filter spans
  eight calendar days and the month filter thirty-one, today included, although \<^verbatim>\<open>index.html\<close> labels the two
  buttons Last 7 Days and Last 30 Days.
\<close>

theorem quick_filter_selects_days:
  assumes "fixed_offset tza off" "off mod 1000 = 0" "current_era now" "31 * ms_per_day \<le> now"
    and "(rng, k, j) \<in> {(''today'', 0, 0), (''yesterday'', 1, 1), (''week'', 7, 0), (''month'', 30, 0)}"
  shows "let (a, b) = quick_range tza now rng; t = sint (sn_time r) * 1000 in
    where_time (date_bound a) (date_bound b) r \<longleftrightarrow>
      day_start off now - k * ms_per_day \<le> t \<and> t < day_start off now - j * ms_per_day + ms_per_day"
proof -
  define m where "m = day_start off now"
  have "m mod 1000 = 0"
    using assms(2) by (simp add: m_def day_start_def ms_per_day_def mod_diff_left_eq [symmetric] flip: dvd_eq_mod_eq_0)
  then obtain M where M: "m = 1000 * M" by (metis mod_0_imp_dvd dvd_def)
  have m: "m \<le> now" "now < m + ms_per_day" using day_start_bounds by (simp_all add: m_def)
  have era: "now < 4102444800000" using assms(3) by (simp add: current_era_def)
  have M30: "2592000 < M" "M < 4102444801" using m assms(4) era M by (simp_all add: ms_per_day_def)
  have range: "quick_range tza now rng =
      (Some (Some (m - k * ms_per_day)), Some (Some (m - j * ms_per_day + 86399000)))"
    and kj: "k \<in> {0, 1, 7, 30}" "j \<in> {0, 1}"
    using assms(5) quick_range_closed [OF assms(1,3)] by (auto simp: m_def)
  have bounds: "0 \<le> k" "k \<le> 30" "0 \<le> j" "j \<le> 1" using kj by auto
  have "sint (date_bound (Some (Some (m - k * ms_per_day)))) = (m - k * ms_per_day) div 1000"
    by (rule date_bound_small) (use bounds M30 in \<open>simp add: M ms_per_day_def abs_le_iff\<close>)
  moreover have "m - k * ms_per_day = (M - k * 86400) * 1000" by (simp add: M ms_per_day_def)
  ultimately have lo: "sint (date_bound (Some (Some (m - k * ms_per_day)))) = M - k * 86400" by simp
  have "sint (date_bound (Some (Some (m - j * ms_per_day + 86399000)))) = (m - j * ms_per_day + 86399000) div 1000"
    by (rule date_bound_small) (use bounds M30 in \<open>simp add: M ms_per_day_def abs_le_iff\<close>)
  moreover have "m - j * ms_per_day + 86399000 = (M - j * 86400 + 86399) * 1000" by (simp add: M ms_per_day_def)
  ultimately have hi: "sint (date_bound (Some (Some (m - j * ms_per_day + 86399000)))) = M - j * 86400 + 86399" by simp
  have pos: "0 < M - k * 86400" "0 < M - j * 86400 + 86399" using bounds M30 by linarith+
  have "where_time (date_bound (Some (Some (m - k * ms_per_day)))) (date_bound (Some (Some (m - j * ms_per_day + 86399000)))) r \<longleftrightarrow>
      M - k * 86400 \<le> sint (sn_time r) \<and> sint (sn_time r) \<le> M - j * 86400 + 86399"
    unfolding where_time_def lo hi using pos by simp
  moreover have "M - k * 86400 \<le> sint (sn_time r) \<longleftrightarrow> m - k * ms_per_day \<le> sint (sn_time r) * 1000"
    unfolding M ms_per_day_def by linarith
  moreover have "sint (sn_time r) \<le> M - j * 86400 + 86399 \<longleftrightarrow> sint (sn_time r) * 1000 < m - j * ms_per_day + ms_per_day"
    unfolding M ms_per_day_def by linarith
  ultimately show ?thesis by (simp add: range Let_def flip: m_def)
qed

theorem quick_filter_selects_days_witness:
  "where_time (date_bound (fst (quick_range (\<lambda>_ _. 25200000) 1700000000000 ''week'')))
     (date_bound (snd (quick_range (\<lambda>_ _. 25200000) 1700000000000 ''week'')))
     \<lparr>sn_p1_cmd = 0, sn_p1_st = 0, sn_p2_cmd = 0, sn_p2_st = 0, sn_busy = 0, sn_alarm = 0, sn_time = 1699400000\<rparr>"
proof -
  let ?r = "\<lparr>sn_p1_cmd = 0, sn_p1_st = 0, sn_p2_cmd = 0, sn_p2_st = 0, sn_busy = 0, sn_alarm = 0, sn_time = 1699400000\<rparr>"
  have "fixed_offset (\<lambda>_ _. 25200000) 25200000" "current_era 1700000000000" "31 * ms_per_day \<le> 1700000000000"
    by (simp_all add: fixed_offset_def ms_per_day_def current_era_def)
  from quick_filter_selects_days [OF this(1) _ this(2,3), of "''week''" 7 0 ?r] show ?thesis
    by (simp add: day_start_def ms_per_day_def Let_def split: prod.splits)
qed

text \<open>
  C33. A failed query reaches the page as a success: the server answers status 200 with an error
  object, which the page takes for a response without rows; it shows the load error, but keeps the
  object as its cache, so that the next click on a header ends in an uncaught TypeError.
\<close>

theorem failed_query_breaks_page:
  assumes "\<not> db_open (database sv) \<or> \<not> sq_ok sq (db_stmts (database sv))"
    and "rq_method rq = ''GET''" "API @ rq_url rq = takeWhile (\<lambda>c. c \<noteq> CHR ''?'') (history_url fs)"
  shows "\<exists>body reply. handle_request sq jc env now rq sv = (sv, [], Respond 200 body) \<and>
    read_body response_of_json body = Inr reply \<and>
    historyBody (historyReply loc tza (Inr reply) st) = LoadError TypeError \<and>
    snd (sortTable loc tza c (historyReply loc tza (Inr reply) st)) = Throws TypeError"
proof -
  let ?body = "''{\"error\":\"Database failed\"}''"
  have url: "takeWhile (\<lambda>c. c \<noteq> CHR ''?'') (history_url fs) = API @ ''/api/pump/history''"
    by (simp add: history_url_def API_def)
  with assms(3) have "rq_url rq = ''/api/pump/history''" by simp
  moreover have "starts_with ''/api/pump/history'' ''/api/pump/history''" by code_simp
  moreover have "handle_pump_history sq (rq_args rq) sv = ?body"
    using assms(1) by (auto simp: handle_pump_history_def db_get_history_filtered_def Let_def)
  ultimately have "handle_request sq jc env now rq sv = (sv, [], Respond 200 ?body)"
    using assms(2) by (simp add: handle_request_def handle_get_def)
  moreover have "read_body response_of_json ?body = Inr \<lparr>r_count = None, r_data = None\<rparr>"
  proof -
    have "json_parse ?body = Some (JObj [(''error'', JStr ''Database failed'')])" by code_simp
    then show ?thesis
      by (simp add: read_body_def response_of_json_def int_field_def json_field_def)
  qed
  moreover have "historyBody (historyReply loc tza (Inr \<lparr>r_count = None, r_data = None\<rparr>) st) = LoadError TypeError \<and>
      snd (sortTable loc tza c (historyReply loc tza (Inr \<lparr>r_count = None, r_data = None\<rparr>) st)) = Throws TypeError"
    by (simp add: historyReply_def log_range_ok_def showHistoryError_def sortTable_def applyLocalFilters_def)
  ultimately show ?thesis by blast
qed

theorem failed_query_breaks_page_witness:
  "\<exists>body. snd (snd (handle_request sqlite_model jsonc_model calm_surroundings 0
     \<lparr>rq_method = ''GET'', rq_url = ''/api/pump/history'', rq_args = [], rq_chunks = []\<rparr>
     (initial_server (fresh_database\<lparr>db_open := False\<rparr>)))) = Respond 200 body"
proof -
  have "\<not> db_open (database (initial_server (fresh_database\<lparr>db_open := False\<rparr>)))" by (simp add: initial_server_def)
  from failed_query_breaks_page [OF disjI1 [OF this], of
      "\<lparr>rq_method = ''GET'', rq_url = ''/api/pump/history'', rq_args = [], rq_chunks = []\<rparr>" no_filters
      sqlite_model jsonc_model calm_surroundings 0 "\<lambda>_. []" "\<lambda>_ _. 0" initial_history "''alarm''"]
  show ?thesis by (auto simp: history_url_def API_def no_filters_def)
qed

end
